(* ===== verification/Prelude.thy ===== *)
theory Prelude
  imports Main "HOL-Library.Word" "HOL-Library.AList" "HOL-Library.Monad_Syntax"
    "HOL-Library.List_Lexorder" "HOL-Library.Char_ord"
begin

section \<open>Shared vocabulary of the sysmaster model\<close>

text \<open>
  The types and combinators every component uses.

  \<^item> Rust's fixed-width integers are words of the same width.
  \<^item> A call that may panic (\<open>assert!\<close>, \<open>unwrap\<close>, \<open>expect\<close>, \<open>unreachable!\<close>, \<open>todo!\<close>)
    returns an \<open>option\<close>, and \<open>None\<close> is the panic. A \<open>Result\<close> of the source is a sum
    type inside it, \<open>Inl\<close> the error.
  \<^item> A \<open>for\<close> loop over a collection is \<open>for_each\<close>, which threads the state and stops at
    the first panic.
  \<^item> A \<open>HashMap\<close> whose iteration the code relies on is an association list with distinct
    keys; the list order stands for the (unspecified) iteration order.
\<close>

type_synonym u8 = "8 word"
type_synonym u16 = "16 word"
type_synonym u32 = "32 word"
type_synonym u64 = "64 word"
type_synonym usize = "64 word"

text \<open>A unit is named by its id, e.g. \<open>''sshd.service''\<close>; \<open>Unit\<close> compares and hashes by id.\<close>

type_synonym uid = string

named_theorems map_laws \<open>lookup laws of the maps and stores of the model\<close>
named_theorems frame_laws \<open>components of a state that an operation leaves alone\<close>
named_theorems rust_defs \<open>unfolding rules for small helper operations\<close>

subsection \<open>Panics\<close>

definition rust_assert :: "bool \<Rightarrow> unit option" where
  "rust_assert b = (if b then Some () else None)"

lemma rust_assert_eq_Some [simp]: "rust_assert b = Some u \<longleftrightarrow> b"
  by (simp add: rust_assert_def)

lemma rust_assert_True [simp]: "rust_assert True = Some ()"
  by (simp add: rust_assert_def)

lemma rust_assert_False [simp]: "rust_assert False = None"
  by (simp add: rust_assert_def)

lemma bind_SomeE:
  assumes "Option.bind m f = Some y"
  obtains x where "m = Some x" and "f x = Some y"
  using assms by (cases m) auto

subsection \<open>Loops over collections\<close>

fun for_each :: "('a \<Rightarrow> 's \<Rightarrow> 's option) \<Rightarrow> 'a list \<Rightarrow> 's \<Rightarrow> 's option" where
  "for_each f [] s = Some s"
| "for_each f (x # xs) s = Option.bind (f x s) (for_each f xs)"

lemma for_each_append:
  "for_each f (xs @ ys) s = Option.bind (for_each f xs s) (for_each f ys)"
  by (induction xs arbitrary: s) (auto split: Option.bind_splits)

text \<open>Total correctness of a loop: every body step returns and keeps the invariant.\<close>

lemma for_each_total:
  assumes "I s"
    and "\<And>x s. x \<in> set xs \<Longrightarrow> I s \<Longrightarrow> \<exists>s'. f x s = Some s' \<and> I s'"
  shows "\<exists>s'. for_each f xs s = Some s' \<and> I s'"
  using assms
proof (induction xs arbitrary: s)
  case Nil
  then show ?case by simp
next
  case (Cons x xs)
  from Cons.prems obtain s1 where s1: "f x s = Some s1" "I s1"
    by (meson list.set_intros(1))
  have "\<exists>s'. for_each f xs s1 = Some s' \<and> I s'"
    using Cons.prems by (intro Cons.IH[OF s1(2)]) auto
  with s1 show ?case by simp
qed

text \<open>Partial correctness: where the loop returns, the invariant still holds.\<close>

lemma for_each_inv:
  assumes "for_each f xs s = Some s'" and "I s"
    and "\<And>x s s'. x \<in> set xs \<Longrightarrow> I s \<Longrightarrow> f x s = Some s' \<Longrightarrow> I s'"
  shows "I s'"
  using assms
proof (induction xs arbitrary: s)
  case Nil
  then show ?case by simp
next
  case (Cons x xs)
  from Cons.prems(1) obtain s1 where s1: "f x s = Some s1" "for_each f xs s1 = Some s'"
    by (auto elim: bind_SomeE)
  from Cons.prems(2,3) s1(1) have "I s1" by (meson list.set_intros(1))
  with s1(2) Cons.prems(3) show ?case by (intro Cons.IH[of s1]) auto
qed

text \<open>A loop whose body depends on the position already processed.\<close>

lemma for_each_total_prefix:
  assumes "I [] s"
    and "\<And>ys x zs s. xs = ys @ x # zs \<Longrightarrow> I ys s \<Longrightarrow> \<exists>s'. f x s = Some s' \<and> I (ys @ [x]) s'"
  shows "\<exists>s'. for_each f xs s = Some s' \<and> I xs s'"
  using assms
proof (induction xs rule: rev_induct)
  case Nil
  then show ?case by simp
next
  case (snoc x xs)
  have "\<exists>s'. for_each f xs s = Some s' \<and> I xs s'"
  proof (rule snoc.IH)
    show "I [] s" by (rule snoc.prems(1))
    fix ys y zs t
    assume "xs = ys @ y # zs" and "I ys t"
    then show "\<exists>s'. f y t = Some s' \<and> I (ys @ [y]) s'"
      using snoc.prems(2)[of ys y "zs @ [x]" t] by simp
  qed
  then obtain s1 where s1: "for_each f xs s = Some s1" "I xs s1" by blast
  from snoc.prems(2)[of xs x "[]" s1] s1(2) obtain s2 where "f x s1 = Some s2" "I (xs @ [x]) s2"
    by auto
  with s1 show ?case by (auto simp: for_each_append)
qed

subsection \<open>Association lists\<close>

lemma map_of_AList_update [simp, map_laws]:
  "map_of (AList.update k v al) k' = (if k' = k then Some v else map_of al k')"
  by (simp add: update_conv')

lemma map_of_AList_delete [simp, map_laws]:
  "map_of (AList.delete k al) k' = (if k' = k then None else map_of al k')"
  by (simp add: delete_conv')

lemma distinct_fst_update [simp]:
  "distinct (map fst al) \<Longrightarrow> distinct (map fst (AList.update k v al))"
  by (rule distinct_update)

lemma distinct_fst_delete [simp]:
  "distinct (map fst al) \<Longrightarrow> distinct (map fst (AList.delete k al))"
  by (rule distinct_delete)

lemma map_of_fst_iff: "k \<in> set (map fst al) \<longleftrightarrow> (\<exists>v. map_of al k = Some v)"
  by (metis domI map_of_eq_None_iff not_None_eq image_set)

lemma fst_AList_update_set [simp]: "fst ` set (AList.update k v al) = insert k (fst ` set al)"
  by (induction al) auto

lemma fst_AList_delete_set [simp]: "fst ` set (AList.delete k al) = fst ` set al - {k}"
  by (metis delete_keys set_map set_removeAll)

subsection \<open>Ordered key lists (the keys of a \<open>BTreeMap\<close>)\<close>

fun bt_insert :: "'a::linorder \<Rightarrow> 'a list \<Rightarrow> 'a list" where
  "bt_insert x [] = [x]"
| "bt_insert x (y # ys) = (if x < y then x # y # ys else if x = y then y # ys else y # bt_insert x ys)"

lemma set_bt_insert [simp]: "set (bt_insert x xs) = insert x (set xs)"
  by (induction xs) auto

lemma bt_insert_strict_sorted:
  "sorted_wrt (<) xs \<Longrightarrow> sorted_wrt (<) (bt_insert x xs)"
  by (induction xs) auto

lemma removeAll_strict_sorted: "sorted_wrt (<) xs \<Longrightarrow> sorted_wrt (<) (removeAll x xs)"
  by (simp add: removeAll_filter_not_eq sorted_wrt_filter)

lemma fold_bt_insert_set [simp]: "set (fold bt_insert xs ys) = set xs \<union> set ys"
  by (induction xs arbitrary: ys) auto

lemma fold_bt_insert_sorted: "sorted_wrt (<) ys \<Longrightarrow> sorted_wrt (<) (fold bt_insert xs ys)"
  by (induction xs arbitrary: ys) (auto intro: bt_insert_strict_sorted)

end
