(* ===== verification/Store_Spec.thy ===== *)
theory Store_Spec
  imports Prelude
begin

section \<open>The keyed-store contract\<close>

text \<open>
  Several components keep a table from keys to values behind \<open>get\<close>, \<open>insert\<close> and
  \<open>remove\<close>: the reliability databases (\<open>ReDb\<close>) and the observable tables (\<open>Table\<close>).
  The locale states what their clients rely on; the theories of the providers
  interpret it on their own operations.
\<close>

locale kv_store =
  fixes lookup :: "'s \<Rightarrow> 'k \<Rightarrow> 'v option"
    and insert :: "'k \<Rightarrow> 'v \<Rightarrow> 's \<Rightarrow> 's"
    and remove :: "'k \<Rightarrow> 's \<Rightarrow> 's"
    and live :: "'s \<Rightarrow> bool"
  assumes lookup_insert:
      "live s \<Longrightarrow> lookup (insert k v s) k' = (if k' = k then Some v else lookup s k')"
    and lookup_remove:
      "live s \<Longrightarrow> lookup (remove k s) k' = (if k' = k then None else lookup s k')"
    and live_insert: "live s \<Longrightarrow> live (insert k v s)"
    and live_remove: "live s \<Longrightarrow> live (remove k s)"
begin

lemma live_fold_insert: "live s \<Longrightarrow> live (fold (\<lambda>(k, v). insert k v) kvs s)"
  by (induction kvs arbitrary: s) (auto simp: live_insert)

lemma live_fold_remove: "live s \<Longrightarrow> live (fold remove ks s)"
  by (induction ks arbitrary: s) (auto simp: live_remove)

lemma lookup_fold_insert:
  "live s \<Longrightarrow> lookup (fold (\<lambda>(k, v). insert k v) kvs s) k' =
     (case map_of (rev kvs) k' of Some v \<Rightarrow> Some v | None \<Rightarrow> lookup s k')"
proof (induction kvs arbitrary: s)
  case Nil
  then show ?case by simp
next
  case (Cons kv kvs)
  obtain k v where kv: "kv = (k, v)" by (cases kv)
  from Cons show ?case
    by (auto simp: kv live_insert lookup_insert map_add_def split: option.splits)
qed

lemma lookup_fold_remove:
  "live s \<Longrightarrow> lookup (fold remove ks s) k' = (if k' \<in> set ks then None else lookup s k')"
  by (induction ks arbitrary: s) (auto simp: live_remove lookup_remove)

text \<open>Removing what was just inserted restores every other key.\<close>

lemma remove_insert:
  "live s \<Longrightarrow> lookup s k = None \<Longrightarrow> lookup (remove k (insert k v s)) = lookup s"
  by (rule ext) (simp add: lookup_remove lookup_insert live_insert)

lemma insert_insert:
  "live s \<Longrightarrow> lookup (insert k v (insert k w s)) = lookup (insert k v s)"
  by (rule ext) (simp add: lookup_insert live_insert)

lemma insert_swap:
  "live s \<Longrightarrow> k \<noteq> k' \<Longrightarrow>
   lookup (insert k v (insert k' v' s)) = lookup (insert k' v' (insert k v s))"
  by (rule ext) (simp add: lookup_insert live_insert)

end

end
