(* ===== verification/Rel_Db.thy ===== *)
theory Rel_Db
  imports Store_Spec
begin

section \<open>The reliability database \<open>ReDb\<close> (core/lib/rel/base.rs)\<close>

text \<open>
  \<open>ReDb\<close> keeps a table in memory (\<open>cache\<close>) and the changes that the on-disk database
  has not seen yet (\<open>add\<close> and \<open>del\<close>). \<open>export\<close> replays the changes on disk, \<open>import\<close>
  throws the memory side away and reads the disk back after a crash.

  The disk is the third-party package \<open>heed\<close>: a parameter of the model, the record
  \<open>heed\<close> of the calls \<open>ReDb\<close> makes, with \<open>heed_laws\<close> what its documentation promises.
\<close>

subsection \<open>The third-party database\<close>

record ('d, 'k, 'v) heed =
  heed_put :: "'k \<Rightarrow> 'v \<Rightarrow> 'd \<Rightarrow> 'd"
  heed_delete :: "'k \<Rightarrow> 'd \<Rightarrow> 'd"
  heed_clear :: "'d \<Rightarrow> 'd"
  heed_iter :: "'d \<Rightarrow> ('k \<times> 'v) list"

definition heed_get :: "('d, 'k, 'v) heed \<Rightarrow> 'd \<Rightarrow> 'k \<Rightarrow> 'v option" where
  "heed_get H d = map_of (heed_iter H d)"

definition heed_laws :: "('d, 'k, 'v) heed \<Rightarrow> bool" where
  "heed_laws H \<longleftrightarrow>
     (\<forall>d k v k'. heed_get H (heed_put H k v d) k' = (if k' = k then Some v else heed_get H d k')) \<and>
     (\<forall>d k k'. heed_get H (heed_delete H k d) k' = (if k' = k then None else heed_get H d k')) \<and>
     (\<forall>d. heed_iter H (heed_clear H d) = []) \<and>
     (\<forall>d. distinct (map fst (heed_iter H d)))"

subsection \<open>State and operations\<close>

record ('d, 'k, 'v) redb =
  ignore :: bool
  db :: 'd
  cache :: "('k \<times> 'v) list"
  add :: "('k \<times> 'v) list"
  del :: "'k list"

definition redb_new :: "'d \<Rightarrow> ('d, 'k, 'v) redb" where
  "redb_new d = \<lparr>ignore = False, db = d, cache = [], add = [], del = []\<rparr>"

definition redb_do_clear :: "('d, 'k, 'v) heed \<Rightarrow> ('d, 'k, 'v) redb \<Rightarrow> ('d, 'k, 'v) redb" where
  "redb_do_clear H r = r\<lparr>db := heed_clear H (db r), cache := [], add := [], del := []\<rparr>"

definition redb_set_ignore :: "bool \<Rightarrow> ('d, 'k, 'v) redb \<Rightarrow> ('d, 'k, 'v) redb" where
  "redb_set_ignore b r = r\<lparr>ignore := b\<rparr>"

definition redb_insert :: "'k \<Rightarrow> 'v \<Rightarrow> ('d, 'k, 'v) redb \<Rightarrow> ('d, 'k, 'v) redb" where
  "redb_insert k v r =
     (if ignore r then r
      else r\<lparr>del := removeAll k (del r), add := AList.update k v (add r),
             cache := AList.update k v (cache r)\<rparr>)"

definition redb_remove :: "'k \<Rightarrow> ('d, 'k, 'v) redb \<Rightarrow> ('d, 'k, 'v) redb" where
  "redb_remove k r =
     (if ignore r then r
      else r\<lparr>add := AList.delete k (add r), del := List.insert k (del r),
             cache := AList.delete k (cache r)\<rparr>)"

definition redb_get :: "('d, 'k, 'v) redb \<Rightarrow> 'k \<Rightarrow> 'v option" where
  "redb_get r = map_of (cache r)"

definition redb_contains_key :: "('d, 'k, 'v) redb \<Rightarrow> 'k \<Rightarrow> bool" where
  "redb_contains_key r k \<longleftrightarrow> map_of (cache r) k \<noteq> None"

definition redb_keys :: "('d, 'k, 'v) redb \<Rightarrow> 'k list" where
  "redb_keys r = map fst (cache r)"

definition redb_entries :: "('d, 'k, 'v) redb \<Rightarrow> ('k \<times> 'v) list" where
  "redb_entries r = cache r"

definition redb_cache_2_db :: "('d, 'k, 'v) heed \<Rightarrow> ('d, 'k, 'v) redb \<Rightarrow> ('d, 'k, 'v) redb" where
  "redb_cache_2_db H r =
     (let d1 = fold (\<lambda>(k, v). heed_put H k v) (add r) (db r);
          d2 = fold (heed_delete H) (del r) d1
      in r\<lparr>db := d2, add := [], del := []\<rparr>)"

definition redb_db_2_cache :: "('d, 'k, 'v) heed \<Rightarrow> ('d, 'k, 'v) redb \<Rightarrow> ('d, 'k, 'v) redb" where
  "redb_db_2_cache H r =
     r\<lparr>add := [], del := [],
        cache := fold (\<lambda>(k, v). AList.update k v) (heed_iter H (db r)) []\<rparr>"

lemmas redb_defs =
  redb_new_def redb_do_clear_def redb_set_ignore_def redb_insert_def redb_remove_def
  redb_get_def redb_contains_key_def redb_keys_def redb_entries_def redb_cache_2_db_def
  redb_db_2_cache_def

subsection \<open>ReDb as a keyed store\<close>

abbreviation redb_live :: "('d, 'k, 'v) redb \<Rightarrow> bool" where
  "redb_live r \<equiv> \<not> ignore r"

interpretation redb: kv_store redb_get redb_insert redb_remove redb_live
  by unfold_locales (auto simp: redb_defs)

lemma redb_get_new [simp]: "redb_get (redb_new d) k = None"
  by (simp add: redb_defs)

lemma ignore_redb_new [simp]: "\<not> ignore (redb_new d)"
  by (simp add: redb_defs)

lemma redb_ignored:
  "ignore r \<Longrightarrow> redb_insert k v r = r" "ignore r \<Longrightarrow> redb_remove k r = r"
  by (simp_all add: redb_defs)

lemma redb_ignore_frame [simp, frame_laws]:
  "ignore (redb_insert k v r) = ignore r" "ignore (redb_remove k r) = ignore r"
  by (simp_all add: redb_defs)

text \<open>Looking up after a change, as one rewrite rule for the clients.\<close>

lemma redb_get_insert [simp, map_laws]:
  "redb_get (redb_insert k v r) k' =
     (if k' = k \<and> redb_live r then Some v else redb_get r k')"
  by (cases "ignore r") (auto simp: redb.lookup_insert redb_ignored)

lemma redb_get_remove [simp, map_laws]:
  "redb_get (redb_remove k r) k' =
     (if k' = k \<and> redb_live r then None else redb_get r k')"
  by (cases "ignore r") (auto simp: redb.lookup_remove redb_ignored)

subsection \<open>The write-behind invariant\<close>

text \<open>
  \<open>redb_wf\<close>: the memory side is the disk with the pending changes applied, and no key is
  pending both as an addition and as a deletion.
\<close>

definition redb_wf :: "('d, 'k, 'v) heed \<Rightarrow> ('d, 'k, 'v) redb \<Rightarrow> bool" where
  "redb_wf H r \<longleftrightarrow>
     distinct (map fst (cache r)) \<and> distinct (map fst (add r)) \<and>
     fst ` set (add r) \<inter> set (del r) = {} \<and>
     (\<forall>k. map_of (cache r) k =
        (if k \<in> set (del r) then None
         else case map_of (add r) k of Some v \<Rightarrow> Some v | None \<Rightarrow> heed_get H (db r) k))"

lemma redb_wf_insert: "redb_wf H r \<Longrightarrow> redb_wf H (redb_insert k v r)"
  unfolding redb_wf_def redb_insert_def by (auto cong: option.case_cong)

lemma redb_wf_remove: "redb_wf H r \<Longrightarrow> redb_wf H (redb_remove k r)"
  unfolding redb_wf_def redb_remove_def by (auto cong: option.case_cong)

lemma heed_get_fold_put:
  assumes "heed_laws H" and "distinct (map fst kvs)"
  shows "heed_get H (fold (\<lambda>(k, v). heed_put H k v) kvs d) k =
           (case map_of kvs k of Some v \<Rightarrow> Some v | None \<Rightarrow> heed_get H d k)"
  using assms(2)
proof (induction kvs arbitrary: d)
  case Nil
  then show ?case by simp
next
  case (Cons kv kvs)
  obtain a b where kv: "kv = (a, b)" by (cases kv)
  from Cons.prems have "map_of kvs a = None" by (simp add: kv map_of_eq_None_iff)
  with Cons assms(1) show ?case
    by (auto simp: kv heed_laws_def split: option.splits)
qed

lemma heed_get_fold_delete:
  assumes "heed_laws H"
  shows "heed_get H (fold (heed_delete H) ks d) k = (if k \<in> set ks then None else heed_get H d k)"
  using assms by (induction ks arbitrary: d) (auto simp: heed_laws_def)

lemma redb_export_db:
  assumes "heed_laws H" and "redb_wf H r"
  shows "heed_get H (db (redb_cache_2_db H r)) = redb_get r"
  using assms
  by (auto simp: redb_wf_def redb_defs Let_def heed_get_fold_delete heed_get_fold_put fun_eq_iff)

lemma redb_export_cache [simp]: "redb_get (redb_cache_2_db H r) = redb_get r"
  by (simp add: redb_defs Let_def)

lemma map_of_fold_update:
  "map_of (fold (\<lambda>(k, v). AList.update k v) kvs al) k =
     (case map_of (rev kvs) k of Some v \<Rightarrow> Some v | None \<Rightarrow> map_of al k)"
  by (induction kvs arbitrary: al) (auto simp: map_add_def split: option.splits)

lemma distinct_fold_update:
  "distinct (map fst al) \<Longrightarrow> distinct (map fst (fold (\<lambda>(k, v). AList.update k v) kvs al))"
  by (induction kvs arbitrary: al) auto

lemma redb_import_get:
  assumes "heed_laws H"
  shows "redb_get (redb_db_2_cache H r) = heed_get H (db r)"
proof
  fix k
  have "map_of (rev (heed_iter H (db r))) = map_of (heed_iter H (db r))"
    using assms by (intro map_of_inject_set[THEN iffD2]) (auto simp: heed_laws_def rev_map[symmetric])
  then show "redb_get (redb_db_2_cache H r) k = heed_get H (db r) k"
    by (simp add: redb_defs map_of_fold_update heed_get_def split: option.splits)
qed

lemma redb_wf_import:
  assumes "heed_laws H"
  shows "redb_wf H (redb_db_2_cache H r)"
proof -
  have "map_of (cache (redb_db_2_cache H r)) = heed_get H (db r)"
    using redb_import_get[OF assms, of r] by (simp add: redb_get_def)
  then show ?thesis
    by (simp add: redb_wf_def) (simp add: redb_defs distinct_fold_update)
qed

lemma redb_wf_export:
  assumes "heed_laws H" and "redb_wf H r"
  shows "redb_wf H (redb_cache_2_db H r)"
proof -
  have "heed_get H (db (redb_cache_2_db H r)) = map_of (cache r)"
    using redb_export_db[OF assms] by (simp add: redb_get_def)
  moreover have "cache (redb_cache_2_db H r) = cache r" "add (redb_cache_2_db H r) = []"
    "del (redb_cache_2_db H r) = []"
    by (simp_all add: redb_cache_2_db_def Let_def)
  ultimately show ?thesis using assms(2) by (simp add: redb_wf_def)
qed

subsection \<open>Histories of a database\<close>

text \<open>The calls a client can make, as values, and a history of them.\<close>

datatype ('k, 'v) redb_call = CallInsert 'k 'v | CallRemove 'k | CallExport | CallIgnore bool

fun redb_call_run :: "('d, 'k, 'v) heed \<Rightarrow> ('k, 'v) redb_call \<Rightarrow> ('d, 'k, 'v) redb \<Rightarrow> ('d, 'k, 'v) redb" where
  "redb_call_run H (CallInsert k v) r = redb_insert k v r"
| "redb_call_run H (CallRemove k) r = redb_remove k r"
| "redb_call_run H CallExport r = redb_cache_2_db H r"
| "redb_call_run H (CallIgnore b) r = redb_set_ignore b r"

lemma redb_wf_call: "heed_laws H \<Longrightarrow> redb_wf H r \<Longrightarrow> redb_wf H (redb_call_run H c r)"
  by (cases c) (simp_all add: redb_wf_insert redb_wf_remove redb_wf_export,
      simp add: redb_wf_def redb_set_ignore_def cong: option.case_cong)

lemma redb_wf_history: "heed_laws H \<Longrightarrow> redb_wf H r \<Longrightarrow> redb_wf H (fold (redb_call_run H) cs r)"
  by (induction cs arbitrary: r) (simp_all add: redb_wf_call)

text \<open>An association list with the four calls satisfies the laws of the database package.\<close>

definition alist_heed :: "(('k \<times> 'v) list, 'k, 'v) heed" where
  "alist_heed = \<lparr>heed_put = AList.update, heed_delete = AList.delete, heed_clear = (\<lambda>_. []),
     heed_iter = AList.clearjunk\<rparr>"

lemma alist_heed_laws: "heed_laws alist_heed"
  by (simp add: heed_laws_def heed_get_def alist_heed_def map_of_clearjunk distinct_clearjunk)

lemma alist_heed_wf: "redb_wf alist_heed (redb_new [])"
  by (simp add: redb_wf_def redb_new_def heed_get_def alist_heed_def)

text \<open>
  C10: whatever a client inserted into and removed from a reliability database, writing it
  out and reading it back after a crash restores every entry it could look up before.
\<close>

theorem redb_crash_recovery:
  assumes "heed_laws H" and "redb_wf H r0" and "r = fold (redb_call_run H) cs r0"
  shows "redb_get (redb_db_2_cache H (redb_cache_2_db H r)) = redb_get r \<and>
         redb_wf H (redb_db_2_cache H (redb_cache_2_db H r))"
proof -
  have wf: "redb_wf H r" unfolding assms(3) by (rule redb_wf_history[OF assms(1,2)])
  then show ?thesis
    by (simp add: redb_import_get[OF assms(1)] redb_export_db[OF assms(1) wf] redb_wf_import[OF assms(1)])
qed

theorem redb_crash_recovery_witness:
  "redb_get (redb_db_2_cache alist_heed (redb_cache_2_db alist_heed
     (fold (redb_call_run alist_heed) [CallInsert ''a'' (1::nat), CallExport, CallInsert ''b'' 2, CallRemove ''a'']
        (redb_new [])))) ''b'' = Some 2"
  by (subst redb_crash_recovery[OF alist_heed_laws alist_heed_wf refl, THEN conjunct1]) (simp add: redb_defs)

end
