(* ===== verification/Unit_Base.thy ===== *)
theory Unit_Base
  imports Prelude
begin

section \<open>Units: states, relations, atoms and errors\<close>

text \<open>
  The vocabulary units and jobs share: the active state of a unit and the notify flags
  (core/lib/unit/state.rs), the relations between units and the atoms they stand for
  (core/lib/unit/deps.rs, core/bin/unit/base/relation.rs and relation_atom.rs), and the
  crate's error type (core/lib/error.rs).
\<close>

unbundle bit_operations_syntax

subsection \<open>Errors\<close>

text \<open>
  The variants of \<open>sysmaster::error::Error\<close>. A variant that wraps an error of another
  crate carries nothing here, because no modelled code looks inside it.
\<close>

datatype error =
    EOF | Parse | PluginLoad string | Confique | Cgroup | Var | Util | Io | Nix | Heed
  | InvalidData | NotFound string | OtherError string | Shared | ConvertToSysmaster
  | Input | Conflict | NotExisted | Internal | NotSupported | BadRequest
  | Timeout | NoCmdFound | SpawnError | ConfigureError string
  | UnitActionEAgain | UnitActionEAlready | UnitActionEComm | UnitActionEBadR
  | UnitActionENoExec | UnitActionEProto | UnitActionEOpNotSupp | UnitActionENolink
  | UnitActionEStale | UnitActionEFailed | UnitActionEInval | UnitActionEBusy
  | UnitActionENoent | UnitActionECanceled | UnitActionERefuseManualStart
  | UnitActionERefuseManualStop

subsection \<open>Active states\<close>

datatype unit_active_state =
    UnitActive | UnitReloading | UnitInActive | UnitFailed
  | UnitActivating | UnitDeActivating | UnitMaintenance

fun is_active_or_reloading :: "unit_active_state \<Rightarrow> bool" where
  "is_active_or_reloading UnitActive = True"
| "is_active_or_reloading UnitReloading = True"
| "is_active_or_reloading _ = False"

fun is_inactive_or_failed :: "unit_active_state \<Rightarrow> bool" where
  "is_inactive_or_failed UnitInActive = True"
| "is_inactive_or_failed UnitFailed = True"
| "is_inactive_or_failed _ = False"

fun is_active_or_activating :: "unit_active_state \<Rightarrow> bool" where
  "is_active_or_activating UnitActive = True"
| "is_active_or_activating UnitActivating = True"
| "is_active_or_activating UnitReloading = True"
| "is_active_or_activating _ = False"

fun is_inactive_or_deactivating :: "unit_active_state \<Rightarrow> bool" where
  "is_inactive_or_deactivating UnitInActive = True"
| "is_inactive_or_deactivating UnitFailed = True"
| "is_inactive_or_deactivating UnitDeActivating = True"
| "is_inactive_or_deactivating _ = False"

text \<open>The \<open>Display\<close> names of the states.\<close>

fun active_state_name :: "unit_active_state \<Rightarrow> string" where
  "active_state_name UnitActive = ''active''"
| "active_state_name UnitReloading = ''reloading''"
| "active_state_name UnitInActive = ''inactive''"
| "active_state_name UnitFailed = ''failed''"
| "active_state_name UnitActivating = ''activating''"
| "active_state_name UnitDeActivating = ''deactivating''"
| "active_state_name UnitMaintenance = ''maintenance''"

lemma active_or_deactivating_partition:
  "s \<noteq> UnitMaintenance \<Longrightarrow> is_active_or_activating s \<longleftrightarrow> \<not> is_inactive_or_deactivating s"
  by (cases s) auto

lemma active_state_name_inj: "active_state_name a = active_state_name b \<Longrightarrow> a = b"
  by (cases a; cases b) auto

subsection \<open>Notify flags\<close>

type_synonym unit_notify_flags = u8

definition UNIT_NOTIFY_SUCCESS :: unit_notify_flags where
  "UNIT_NOTIFY_SUCCESS = 0"

definition UNIT_NOTIFY_RELOAD_FAILURE :: unit_notify_flags where
  "UNIT_NOTIFY_RELOAD_FAILURE = push_bit 0 1"

definition UNIT_NOTIFY_WILL_AUTO_RESTART :: unit_notify_flags where
  "UNIT_NOTIFY_WILL_AUTO_RESTART = push_bit 1 1"

definition flags_intersects :: "unit_notify_flags \<Rightarrow> unit_notify_flags \<Rightarrow> bool" where
  "flags_intersects f g \<longleftrightarrow> f AND g \<noteq> 0"

lemmas flag_defs [rust_defs] =
  UNIT_NOTIFY_SUCCESS_def UNIT_NOTIFY_RELOAD_FAILURE_def UNIT_NOTIFY_WILL_AUTO_RESTART_def
  flags_intersects_def

subsection \<open>Relations and atoms\<close>

datatype unit_relations =
    UnitRequires | UnitRequisite | UnitWants | UnitBindsTo
  | UnitPartOf | UnitUpHolds | UnitRequiresBy | UnitRequisiteOf
  | UnitWantsBy | UnitBoundBy | UnitConsistsOf | UnitUpHeldBy
  | UnitConflicts | UnitConflictedBy | UnitBefore | UnitAfter
  | UnitOnSuccess | UnitOnSuccessOf | UnitOnFailure | UnitonFailureOf
  | UnitTriggers | UnitTriggeredBy | UnitPropagatesReloadTo | UnitReloadPropagatedFrom
  | UnitPropagatesStopTo | UnitStopPropagatedFrom | UnitJoinsNameSpaceOf | UnitReferences
  | UnitReferencedBy | UnitInSlice | UnitSliceOf

datatype unit_relation_atom =
    UnitAtomPullInStart | UnitAtomPullInStartIgnored
  | UnitAtomPullInVerify | UnitAtomPullInStop
  | UnitAtomPullInStopIgnored | UnitAtomAddStopWhenUnneededQueue
  | UnitAtomPinsStopWhenUnneeded | UnitAtomCannotBeActiveWithout
  | UnitAtomAddCannotBeActiveWithoutQueue | UnitAtomStartSteadily
  | UnitAtomAddStartWhenUpheldQueue | UnitAtomRetroActiveStartReplace
  | UnitAtomRetroActiveStartFail | UnitAtomRetroActiveStopOnStart
  | UnitAtomRetroActiveStopOnStop | UnitAtomPropagateStartFailure
  | UnitAtomPropagateStopFailure | UnitAtomPropagateInactiveStartAsFailure
  | UnitAtomPropagateStop | UnitAtomPropagateRestart
  | UnitAtomAddDefaultTargetDependencyQueue | UnitAtomDefaultTargetDependencies
  | UnitAtomBefore | UnitAtomAfter
  | UnitAtomOnSuccess | UnitAtomOnFailure
  | UnitAtomTriggers | UnitAtomTriggeredBy
  | UnitAtomPropagatesReloadTo | UnitAtomJoinsNameSpaceOf
  | UnitAtomReferences | UnitAtomReferencedBy
  | UnitAtomInSlice | UnitAtomSliceOf

fun unit_relation_to_inverse :: "unit_relations \<Rightarrow> unit_relations" where
  "unit_relation_to_inverse UnitRequires = UnitRequiresBy"
| "unit_relation_to_inverse UnitRequisite = UnitRequisiteOf"
| "unit_relation_to_inverse UnitWants = UnitWantsBy"
| "unit_relation_to_inverse UnitBindsTo = UnitBoundBy"
| "unit_relation_to_inverse UnitPartOf = UnitConsistsOf"
| "unit_relation_to_inverse UnitUpHolds = UnitUpHeldBy"
| "unit_relation_to_inverse UnitRequiresBy = UnitRequires"
| "unit_relation_to_inverse UnitRequisiteOf = UnitRequisite"
| "unit_relation_to_inverse UnitWantsBy = UnitWants"
| "unit_relation_to_inverse UnitBoundBy = UnitBindsTo"
| "unit_relation_to_inverse UnitConsistsOf = UnitPartOf"
| "unit_relation_to_inverse UnitUpHeldBy = UnitUpHolds"
| "unit_relation_to_inverse UnitConflicts = UnitConflictedBy"
| "unit_relation_to_inverse UnitConflictedBy = UnitConflicts"
| "unit_relation_to_inverse UnitBefore = UnitAfter"
| "unit_relation_to_inverse UnitAfter = UnitBefore"
| "unit_relation_to_inverse UnitOnSuccess = UnitOnSuccessOf"
| "unit_relation_to_inverse UnitOnSuccessOf = UnitOnSuccess"
| "unit_relation_to_inverse UnitOnFailure = UnitonFailureOf"
| "unit_relation_to_inverse UnitonFailureOf = UnitOnFailure"
| "unit_relation_to_inverse UnitTriggers = UnitTriggeredBy"
| "unit_relation_to_inverse UnitTriggeredBy = UnitTriggers"
| "unit_relation_to_inverse UnitPropagatesReloadTo = UnitReloadPropagatedFrom"
| "unit_relation_to_inverse UnitReloadPropagatedFrom = UnitPropagatesReloadTo"
| "unit_relation_to_inverse UnitPropagatesStopTo = UnitStopPropagatedFrom"
| "unit_relation_to_inverse UnitStopPropagatedFrom = UnitPropagatesStopTo"
| "unit_relation_to_inverse UnitJoinsNameSpaceOf = UnitJoinsNameSpaceOf"
| "unit_relation_to_inverse UnitReferences = UnitReferencedBy"
| "unit_relation_to_inverse UnitReferencedBy = UnitReferences"
| "unit_relation_to_inverse UnitInSlice = UnitSliceOf"
| "unit_relation_to_inverse UnitSliceOf = UnitInSlice"

fun unit_relation_to_atom :: "unit_relations \<Rightarrow> unit_relation_atom list" where
  "unit_relation_to_atom UnitRequires = [
     UnitAtomPullInStart, UnitAtomRetroActiveStartReplace,
     UnitAtomAddStopWhenUnneededQueue, UnitAtomAddDefaultTargetDependencyQueue]"
| "unit_relation_to_atom UnitRequisite = [
     UnitAtomPullInVerify, UnitAtomAddStopWhenUnneededQueue,
     UnitAtomAddDefaultTargetDependencyQueue]"
| "unit_relation_to_atom UnitWants = [
     UnitAtomPullInStartIgnored, UnitAtomRetroActiveStartFail,
     UnitAtomAddStopWhenUnneededQueue, UnitAtomDefaultTargetDependencies]"
| "unit_relation_to_atom UnitBindsTo = [
     UnitAtomPullInStart, UnitAtomRetroActiveStartReplace,
     UnitAtomCannotBeActiveWithout, UnitAtomAddStopWhenUnneededQueue,
     UnitAtomAddDefaultTargetDependencyQueue]"
| "unit_relation_to_atom UnitPartOf = [UnitAtomAddDefaultTargetDependencyQueue]"
| "unit_relation_to_atom UnitUpHolds = [
     UnitAtomPullInStartIgnored, UnitAtomRetroActiveStartReplace,
     UnitAtomAddStartWhenUpheldQueue, UnitAtomAddStopWhenUnneededQueue,
     UnitAtomAddDefaultTargetDependencyQueue]"
| "unit_relation_to_atom UnitRequiresBy = [
     UnitAtomPropagateStop, UnitAtomPropagateRestart,
     UnitAtomPropagateStartFailure, UnitAtomPinsStopWhenUnneeded,
     UnitAtomDefaultTargetDependencies]"
| "unit_relation_to_atom UnitRequisiteOf = [
     UnitAtomPropagateStop, UnitAtomPropagateRestart,
     UnitAtomPropagateStartFailure, UnitAtomPropagateInactiveStartAsFailure,
     UnitAtomPinsStopWhenUnneeded, UnitAtomDefaultTargetDependencies]"
| "unit_relation_to_atom UnitWantsBy = [UnitAtomDefaultTargetDependencies, UnitAtomPinsStopWhenUnneeded]"
| "unit_relation_to_atom UnitBoundBy = [
     UnitAtomRetroActiveStopOnStop, UnitAtomPropagateStop,
     UnitAtomPropagateRestart, UnitAtomPropagateStartFailure,
     UnitAtomPinsStopWhenUnneeded, UnitAtomAddCannotBeActiveWithoutQueue,
     UnitAtomDefaultTargetDependencies]"
| "unit_relation_to_atom UnitConsistsOf = [UnitAtomPropagateStop, UnitAtomPropagateRestart]"
| "unit_relation_to_atom UnitUpHeldBy = [
     UnitAtomStartSteadily, UnitAtomDefaultTargetDependencies,
     UnitAtomPinsStopWhenUnneeded]"
| "unit_relation_to_atom UnitConflicts = [UnitAtomPullInStop, UnitAtomRetroActiveStopOnStart]"
| "unit_relation_to_atom UnitConflictedBy = [
     UnitAtomPullInStopIgnored, UnitAtomRetroActiveStopOnStart,
     UnitAtomPropagateStopFailure]"
| "unit_relation_to_atom UnitBefore = [UnitAtomBefore]"
| "unit_relation_to_atom UnitAfter = [UnitAtomAfter]"
| "unit_relation_to_atom UnitOnSuccess = [UnitAtomOnSuccess]"
| "unit_relation_to_atom UnitOnSuccessOf = []"
| "unit_relation_to_atom UnitOnFailure = [UnitAtomOnFailure]"
| "unit_relation_to_atom UnitonFailureOf = []"
| "unit_relation_to_atom UnitTriggers = [UnitAtomTriggers]"
| "unit_relation_to_atom UnitTriggeredBy = [UnitAtomTriggeredBy]"
| "unit_relation_to_atom UnitPropagatesReloadTo = [UnitAtomPropagatesReloadTo]"
| "unit_relation_to_atom UnitReloadPropagatedFrom = []"
| "unit_relation_to_atom UnitPropagatesStopTo = [UnitAtomRetroActiveStopOnStop, UnitAtomPropagateStop]"
| "unit_relation_to_atom UnitStopPropagatedFrom = []"
| "unit_relation_to_atom UnitJoinsNameSpaceOf = [UnitAtomJoinsNameSpaceOf]"
| "unit_relation_to_atom UnitReferences = [UnitAtomReferences]"
| "unit_relation_to_atom UnitReferencedBy = [UnitAtomReferences]"
| "unit_relation_to_atom UnitInSlice = [UnitAtomInSlice]"
| "unit_relation_to_atom UnitSliceOf = [UnitAtomSliceOf]"

fun unit_relation_from_unique_atom :: "unit_relation_atom \<Rightarrow> unit_relations list" where
  "unit_relation_from_unique_atom UnitAtomPullInStart = [UnitRequires, UnitBindsTo]"
| "unit_relation_from_unique_atom UnitAtomPullInStartIgnored = [UnitWants, UnitUpHolds]"
| "unit_relation_from_unique_atom UnitAtomPullInVerify = [UnitRequisite]"
| "unit_relation_from_unique_atom UnitAtomPullInStop = [UnitConflicts]"
| "unit_relation_from_unique_atom UnitAtomPullInStopIgnored = [UnitConflictedBy]"
| "unit_relation_from_unique_atom UnitAtomAddStopWhenUnneededQueue = [
     UnitRequires, UnitRequisite,
     UnitWants, UnitBindsTo,
     UnitUpHolds]"
| "unit_relation_from_unique_atom UnitAtomPinsStopWhenUnneeded = [
     UnitRequiresBy, UnitRequisiteOf,
     UnitWantsBy, UnitBoundBy,
     UnitUpHeldBy]"
| "unit_relation_from_unique_atom UnitAtomCannotBeActiveWithout = [UnitBindsTo]"
| "unit_relation_from_unique_atom UnitAtomAddCannotBeActiveWithoutQueue = [UnitBoundBy]"
| "unit_relation_from_unique_atom UnitAtomStartSteadily = [UnitUpHeldBy]"
| "unit_relation_from_unique_atom UnitAtomAddStartWhenUpheldQueue = [UnitUpHolds]"
| "unit_relation_from_unique_atom UnitAtomRetroActiveStartReplace = [
     UnitRequires, UnitBindsTo,
     UnitUpHolds]"
| "unit_relation_from_unique_atom UnitAtomRetroActiveStartFail = [UnitWants]"
| "unit_relation_from_unique_atom UnitAtomRetroActiveStopOnStart = [UnitConflicts, UnitConflictedBy]"
| "unit_relation_from_unique_atom UnitAtomRetroActiveStopOnStop = [UnitBoundBy, UnitPropagatesStopTo]"
| "unit_relation_from_unique_atom UnitAtomPropagateStartFailure = [
     UnitRequiresBy, UnitRequisiteOf,
     UnitBoundBy]"
| "unit_relation_from_unique_atom UnitAtomPropagateStopFailure = [UnitConflictedBy]"
| "unit_relation_from_unique_atom UnitAtomPropagateInactiveStartAsFailure = [UnitRequisiteOf]"
| "unit_relation_from_unique_atom UnitAtomPropagateStop = [
     UnitRequiresBy, UnitRequisiteOf,
     UnitBoundBy, UnitConsistsOf,
     UnitPropagatesStopTo]"
| "unit_relation_from_unique_atom UnitAtomPropagateRestart = [
     UnitRequiresBy, UnitRequisiteOf,
     UnitBoundBy, UnitConsistsOf]"
| "unit_relation_from_unique_atom UnitAtomAddDefaultTargetDependencyQueue = [
     UnitRequires, UnitRequisite,
     UnitWants, UnitBindsTo,
     UnitPartOf, UnitUpHolds]"
| "unit_relation_from_unique_atom UnitAtomDefaultTargetDependencies = [
     UnitRequiresBy, UnitRequisiteOf,
     UnitWantsBy, UnitBoundBy,
     UnitUpHeldBy]"
| "unit_relation_from_unique_atom UnitAtomBefore = [UnitBefore]"
| "unit_relation_from_unique_atom UnitAtomAfter = [UnitAfter]"
| "unit_relation_from_unique_atom UnitAtomOnSuccess = [UnitOnSuccess]"
| "unit_relation_from_unique_atom UnitAtomOnFailure = [UnitOnFailure]"
| "unit_relation_from_unique_atom UnitAtomTriggers = [UnitTriggers]"
| "unit_relation_from_unique_atom UnitAtomTriggeredBy = [UnitTriggeredBy]"
| "unit_relation_from_unique_atom UnitAtomPropagatesReloadTo = [UnitPropagatesReloadTo]"
| "unit_relation_from_unique_atom UnitAtomJoinsNameSpaceOf = [UnitJoinsNameSpaceOf]"
| "unit_relation_from_unique_atom UnitAtomReferences = [UnitReferences]"
| "unit_relation_from_unique_atom UnitAtomReferencedBy = [UnitReferencedBy]"
| "unit_relation_from_unique_atom UnitAtomInSlice = [UnitInSlice]"
| "unit_relation_from_unique_atom UnitAtomSliceOf = [UnitSliceOf]"

lemma unit_relation_to_inverse_involutive [simp]:
  "unit_relation_to_inverse (unit_relation_to_inverse r) = r"
  by (cases r) simp_all

lemma unit_relation_to_inverse_inj: "inj unit_relation_to_inverse"
  by (rule inj_on_inverseI[where g = unit_relation_to_inverse]) simp

lemma unit_relation_from_unique_atom_distinct:
  "distinct (unit_relation_from_unique_atom a)"
  by (cases a) simp_all

text \<open>
  The two tables are maintained by hand. \<open>atom_mismatch\<close> lists the pairs on which they
  disagree.
\<close>

definition atom_mismatch :: "(unit_relations \<times> unit_relation_atom) set" where
  "atom_mismatch =
     {(UnitWants, UnitAtomAddDefaultTargetDependencyQueue),
      (UnitWants, UnitAtomDefaultTargetDependencies),
      (UnitReferencedBy, UnitAtomReferences),
      (UnitReferencedBy, UnitAtomReferencedBy)}"

lemma atom_tables_agree:
  "(r \<in> set (unit_relation_from_unique_atom a) \<longleftrightarrow> a \<in> set (unit_relation_to_atom r)) \<longleftrightarrow>
   (r, a) \<notin> atom_mismatch"
  unfolding atom_mismatch_def by (cases a; cases r; simp)

subsection \<open>Unit types\<close>

datatype unit_type =
    UnitService | UnitTarget | UnitSocket | UnitMount
  | UnitTypeMax | UnitTypeInvalid | UnitTypeErrnoMax

text \<open>\<open>str::to_lowercase\<close>, on the ASCII characters a unit type is written in.\<close>

definition char_lower :: "char \<Rightarrow> char" where
  "char_lower c = (if of_char c \<ge> (65::nat) \<and> of_char c \<le> (90::nat) then char_of (of_char c + 32 :: nat) else c)"

definition unit_type_from_str :: "string \<Rightarrow> unit_type" where
  "unit_type_from_str str =
     (let s = map char_lower str in
      if s = ''service'' then UnitService
      else if s = ''target'' then UnitTarget
      else if s = ''socket'' then UnitSocket
      else if s = ''mount'' then UnitMount
      else UnitTypeInvalid)"

fun unit_type_to_string :: "unit_type \<Rightarrow> string" where
  "unit_type_to_string UnitService = ''service''"
| "unit_type_to_string UnitTarget = ''target''"
| "unit_type_to_string UnitSocket = ''socket''"
| "unit_type_to_string UnitMount = ''mount''"
| "unit_type_to_string _ = ''''"

definition unit_type_try_from :: "u32 \<Rightarrow> u32 + unit_type" where
  "unit_type_try_from v =
     (if v = 0 then Inr UnitService
      else if v = 1 then Inr UnitTarget
      else if v = 2 then Inr UnitSocket
      else if v = 3 then Inr UnitMount
      else Inl v)"

definition unit_type_iterator :: "unit_type list" where
  "unit_type_iterator = [UnitService, UnitTarget, UnitSocket, UnitMount]"

lemma unit_type_string_roundtrip:
  "t \<in> set unit_type_iterator \<Longrightarrow> unit_type_from_str (unit_type_to_string t) = t"
  by (auto simp: unit_type_iterator_def unit_type_from_str_def char_lower_def)

end
