(* ===== verification/Unit_Rentry.thy ===== *)
theory Unit_Rentry
  imports Rel_Db Unit_Base
begin

section \<open>The unit manager's reliability data (core/bin/unit/rentry.rs)\<close>

text \<open>
  \<open>UnitRe\<close> is the part of a unit that survives a crash: eight \<open>ReDb\<close> databases keyed by
  the unit id. The base database says which units exist; the accessors of the others
  assert that the unit is in it, so writing data of an unknown unit panics (\<open>None\<close>).
  The type variable \<open>'d\<close> is the type of the disk databases.
\<close>

unbundle bit_operations_syntax

subsection \<open>The type of a unit is the suffix of its name\<close>

text \<open>\<open>str::split\<close> on one character: never empty, the pieces between the separators.\<close>

fun split_char :: "char \<Rightarrow> string \<Rightarrow> string list" where
  "split_char c [] = [[]]"
| "split_char c (x # xs) =
     (if x = c then [] # split_char c xs
      else (case split_char c xs of [] \<Rightarrow> [[x]] | w # ws \<Rightarrow> (x # w) # ws))"

definition unit_name_to_type :: "string \<Rightarrow> unit_type" where
  "unit_name_to_type unit_name = (let words = split_char CHR ''.'' unit_name in
     unit_type_from_str (words ! (length words - 1)))"

lemma split_char_not_Nil [simp]: "split_char c xs \<noteq> []"
  by (cases xs) (auto split: list.splits)

lemma split_char_free: "c \<notin> set xs \<Longrightarrow> split_char c xs = [xs]"
  by (induction xs) auto

lemma split_char_Cons:
  "\<exists>w v vs. split_char c (prefix @ c # suffix) = w # v # vs"
  by (induction prefix) (auto simp: neq_Nil_conv intro: split_char_not_Nil[unfolded neq_Nil_conv])

lemma split_char_last:
  "c \<notin> set suffix \<Longrightarrow> last (split_char c (prefix @ c # suffix)) = suffix"
  using split_char_Cons[of c]
  by (induction prefix) (auto simp: split_char_free split: list.splits, metis list.distinct(1) list.inject)

lemma unit_name_to_type_suffix:
  "CHR ''.'' \<notin> set sfx \<Longrightarrow> unit_name_to_type (name @ CHR ''.'' # sfx) = unit_type_from_str sfx"
  using split_char_last[of "CHR ''.''" sfx name]
  by (simp add: unit_name_to_type_def Let_def last_conv_nth)

subsection \<open>Configuration data\<close>

datatype unit_load_state =
  UnitStub | UnitLoaded | UnitNotFound | UnitError | UnitMerged | UnitMasked

datatype job_mode =
    Fail | Replace | ReplaceIrreversible | Isolate | Flush
  | IgnoreDependencies | IgnoreRequirements | Trigger

definition job_mode_deserialize :: "string \<Rightarrow> job_mode" where
  "job_mode_deserialize s =
     (if s = ''fail'' then Fail
      else if s = ''replace'' then Replace
      else if s = ''replace_irreversible'' then ReplaceIrreversible
      else if s = ''isolate'' then Isolate
      else if s = ''flush'' then Flush
      else if s = ''ignore_dependencies'' then IgnoreDependencies
      else if s = ''ignore_requirements'' then IgnoreRequirements
      else if s = ''trigger'' then Trigger
      else Replace)"

datatype unit_emergency_action =
    EmNone | EmReboot | EmRebootForce | EmRebootImmediate | EmPoweroff
  | EmPoweroffForce | EmPoweroffImmediate | EmExit | EmExitForce

definition emergency_action_deserialize :: "string \<Rightarrow> unit_emergency_action" where
  "emergency_action_deserialize s =
     (if s = ''none'' then EmNone
      else if s = ''reboot'' then EmReboot
      else if s = ''reboot-force'' then EmRebootForce
      else if s = ''reboot-immediate'' then EmRebootImmediate
      else if s = ''poweroff'' then EmPoweroff
      else if s = ''poweroff-force'' then EmPoweroffForce
      else if s = ''poweroff-immediate'' then EmPoweroffImmediate
      else if s = ''exit'' then EmExit
      else if s = ''exit-force'' then EmExitForce
      else EmNone)"

record ue_config_unit =
  Description :: string
  Documentation :: string
  IgnoreOnIsolate :: bool
  DefaultDependencies :: bool
  RefuseManualStart :: bool
  RefuseManualStop :: bool
  OnFailureJobMode :: job_mode
  OnSuccessJobMode :: job_mode
  Wants :: "string list"
  Requires :: "string list"
  BindsTo :: "string list"
  Requisite :: "string list"
  PartOf :: "string list"
  OnFailure :: "string list"
  OnSuccess :: "string list"
  Before :: "string list"
  After :: "string list"
  Conflicts :: "string list"
  ConditionFileNotEmpty :: string
  ConditionNeedsUpdate :: string
  ConditionPathExists :: string
  ConditionUser :: string
  ConditionFirstBoot :: string
  AssertPathExists :: string
  StartLimitInterval :: u64
  StartLimitBurst :: u32
  SuccessAction :: unit_emergency_action
  FailureAction :: unit_emergency_action
  StartLimitAction :: unit_emergency_action
  JobTimeoutSec :: u64
  JobTimeoutAction :: unit_emergency_action

text \<open>The values of the \<open>#[config(default = ...)]\<close> attributes.\<close>

definition ue_config_unit_default :: ue_config_unit where
  "ue_config_unit_default =
     \<lparr>Description = [], Documentation = [], IgnoreOnIsolate = False, DefaultDependencies = True,
      RefuseManualStart = False, RefuseManualStop = False,
      OnFailureJobMode = job_mode_deserialize ''replace'',
      OnSuccessJobMode = job_mode_deserialize ''replace'',
      Wants = [], Requires = [], BindsTo = [], Requisite = [], PartOf = [], OnFailure = [],
      OnSuccess = [], Before = [], After = [], Conflicts = [],
      ConditionFileNotEmpty = [], ConditionNeedsUpdate = [], ConditionPathExists = [],
      ConditionUser = [], ConditionFirstBoot = [], AssertPathExists = [],
      StartLimitInterval = 10, StartLimitBurst = 5,
      SuccessAction = emergency_action_deserialize ''none'',
      FailureAction = emergency_action_deserialize ''none'',
      StartLimitAction = emergency_action_deserialize ''none'',
      JobTimeoutSec = 0, JobTimeoutAction = emergency_action_deserialize ''none''\<rparr>"

record ue_config_install =
  Alias :: "string list"
  WantedBy :: "string list"
  RequiredBy :: "string list"
  Also :: "string list"

subsection \<open>Pipeline flags\<close>

type_synonym unit_re_pps = u32

definition QUEUE_CG_EMPTY :: unit_re_pps where "QUEUE_CG_EMPTY = 0x00000001"
definition QUEUE_CG_OOM :: unit_re_pps where "QUEUE_CG_OOM = 0x00000002"
definition QUEUE_CG_REALIZE :: unit_re_pps where "QUEUE_CG_REALIZE = 0x00000004"
definition QUEUE_LOAD :: unit_re_pps where "QUEUE_LOAD = 0x00000008"
definition QUEUE_TARGET_DEPS :: unit_re_pps where "QUEUE_TARGET_DEPS = 0x00000010"
definition QUEUE_GC :: unit_re_pps where "QUEUE_GC = 0x00000020"
definition QUEUE_CLEAN :: unit_re_pps where "QUEUE_CLEAN = 0x00000040"
definition QUEUE_DBUS :: unit_re_pps where "QUEUE_DBUS = 0x00000080"
definition QUEUE_STOP_UNNEEDED :: unit_re_pps where "QUEUE_STOP_UNNEEDED = 0x00000100"
definition QUEUE_START_UPHELD :: unit_re_pps where "QUEUE_START_UPHELD = 0x00000200"
definition QUEUE_STOP_BOUND :: unit_re_pps where "QUEUE_STOP_BOUND = 0x00000400"
definition EVENT_REWATCH_PIDS :: unit_re_pps where "EVENT_REWATCH_PIDS = 0x00010000"

subsection \<open>State\<close>

text \<open>The wrapper structs \<open>UnitReBase\<close>, \<open>UnitReLoad\<close>, ... of one field are their field.\<close>

record 'd unit_re =
  re_base :: "('d, uid, unit_type) redb"
  re_load :: "('d, uid, unit_load_state) redb"
  re_conf :: "('d, uid, ue_config_unit \<times> ue_config_install) redb"
  re_cgroup :: "('d, uid, string) redb"
  re_child :: "('d, uid, int list) redb"
  re_pps :: "('d, uid, unit_re_pps) redb"
  re_dep :: "('d, uid, (unit_relations \<times> uid) list) redb"
  re_notify :: "('d, u32, int) redb"

definition RELI_LAST_KEY :: u32 where "RELI_LAST_KEY = 0"

text \<open>The disk databases are opened by name, one per table.\<close>

definition unit_re_new :: "(string \<Rightarrow> 'd) \<Rightarrow> 'd unit_re" where
  "unit_re_new open_db =
     \<lparr>re_base = redb_new (open_db ''ubase''), re_load = redb_new (open_db ''uload''),
      re_conf = redb_new (open_db ''uconfig''), re_cgroup = redb_new (open_db ''ucgroup''),
      re_child = redb_new (open_db ''uchild''), re_pps = redb_new (open_db ''upps''),
      re_dep = redb_new (open_db ''udep''), re_notify = redb_new (open_db ''um-notify'')\<rparr>"

subsection \<open>Accessors\<close>

definition base_insert :: "uid \<Rightarrow> unit_type \<Rightarrow> 'd unit_re \<Rightarrow> 'd unit_re" where
  "base_insert u ty r = r\<lparr>re_base := redb_insert u ty (re_base r)\<rparr>"

definition base_remove :: "uid \<Rightarrow> 'd unit_re \<Rightarrow> 'd unit_re" where
  "base_remove u r = r\<lparr>re_base := redb_remove u (re_base r)\<rparr>"

definition base_get :: "'d unit_re \<Rightarrow> uid \<Rightarrow> unit_type option" where
  "base_get r u = redb_get (re_base r) u"

definition base_keys :: "'d unit_re \<Rightarrow> uid list" where
  "base_keys r = redb_keys (re_base r)"

definition base_contains :: "'d unit_re \<Rightarrow> uid \<Rightarrow> bool" where
  "base_contains r u = redb_contains_key (re_base r) u"

definition load_insert :: "uid \<Rightarrow> unit_load_state \<Rightarrow> 'd unit_re \<Rightarrow> 'd unit_re option" where
  "load_insert u st r = do {
     rust_assert (base_contains r u);
     Some (r\<lparr>re_load := redb_insert u st (re_load r)\<rparr>)
   }"

definition load_remove :: "uid \<Rightarrow> 'd unit_re \<Rightarrow> 'd unit_re" where
  "load_remove u r = r\<lparr>re_load := redb_remove u (re_load r)\<rparr>"

definition load_get :: "'d unit_re \<Rightarrow> uid \<Rightarrow> unit_load_state option" where
  "load_get r u = redb_get (re_load r) u"

definition conf_insert ::
  "uid \<Rightarrow> ue_config_unit \<Rightarrow> ue_config_install \<Rightarrow> 'd unit_re \<Rightarrow> 'd unit_re option" where
  "conf_insert u unit install r = do {
     rust_assert (base_contains r u);
     Some (r\<lparr>re_conf := redb_insert u (unit, install) (re_conf r)\<rparr>)
   }"

definition conf_remove :: "uid \<Rightarrow> 'd unit_re \<Rightarrow> 'd unit_re" where
  "conf_remove u r = r\<lparr>re_conf := redb_remove u (re_conf r)\<rparr>"

definition conf_get :: "'d unit_re \<Rightarrow> uid \<Rightarrow> (ue_config_unit \<times> ue_config_install) option" where
  "conf_get r u = redb_get (re_conf r) u"

definition cgroup_insert :: "uid \<Rightarrow> string \<Rightarrow> 'd unit_re \<Rightarrow> 'd unit_re option" where
  "cgroup_insert u path r = do {
     rust_assert (base_contains r u);
     Some (r\<lparr>re_cgroup := redb_insert u path (re_cgroup r)\<rparr>)
   }"

definition cgroup_remove :: "uid \<Rightarrow> 'd unit_re \<Rightarrow> 'd unit_re" where
  "cgroup_remove u r = r\<lparr>re_cgroup := redb_remove u (re_cgroup r)\<rparr>"

definition cgroup_get :: "'d unit_re \<Rightarrow> uid \<Rightarrow> string option" where
  "cgroup_get r u = redb_get (re_cgroup r) u"

definition child_insert :: "uid \<Rightarrow> int list \<Rightarrow> 'd unit_re \<Rightarrow> 'd unit_re option" where
  "child_insert u pids r = do {
     rust_assert (base_contains r u);
     Some (r\<lparr>re_child := redb_insert u pids (re_child r)\<rparr>)
   }"

definition child_remove :: "uid \<Rightarrow> 'd unit_re \<Rightarrow> 'd unit_re" where
  "child_remove u r = r\<lparr>re_child := redb_remove u (re_child r)\<rparr>"

definition child_get :: "'d unit_re \<Rightarrow> uid \<Rightarrow> int list" where
  "child_get r u = (case redb_get (re_child r) u of Some pids \<Rightarrow> pids | None \<Rightarrow> [])"

definition child_keys :: "'d unit_re \<Rightarrow> uid list" where
  "child_keys r = redb_keys (re_child r)"

definition pps_get :: "'d unit_re \<Rightarrow> uid \<Rightarrow> unit_re_pps" where
  "pps_get r u = (case redb_get (re_pps r) u of Some p \<Rightarrow> p | None \<Rightarrow> 0)"

definition pps_insert :: "uid \<Rightarrow> 'd unit_re \<Rightarrow> 'd unit_re option" where
  "pps_insert u r = do {
     rust_assert (base_contains r u);
     Some (r\<lparr>re_pps := redb_insert u 0 (re_pps r)\<rparr>)
   }"

definition pps_set :: "uid \<Rightarrow> unit_re_pps \<Rightarrow> 'd unit_re \<Rightarrow> 'd unit_re option" where
  "pps_set u m r = do {
     rust_assert (base_contains r u);
     Some (r\<lparr>re_pps := redb_insert u (pps_get r u OR m) (re_pps r)\<rparr>)
   }"

definition pps_clear :: "uid \<Rightarrow> unit_re_pps \<Rightarrow> 'd unit_re \<Rightarrow> 'd unit_re option" where
  "pps_clear u m r = do {
     rust_assert (base_contains r u);
     Some (r\<lparr>re_pps := redb_insert u (pps_get r u AND NOT m) (re_pps r)\<rparr>)
   }"

definition pps_remove :: "uid \<Rightarrow> 'd unit_re \<Rightarrow> 'd unit_re" where
  "pps_remove u r = r\<lparr>re_pps := redb_remove u (re_pps r)\<rparr>"

definition pps_contains :: "'d unit_re \<Rightarrow> uid \<Rightarrow> unit_re_pps \<Rightarrow> bool" where
  "pps_contains r u m \<longleftrightarrow> pps_get r u AND m = m"

definition pps_keys :: "'d unit_re \<Rightarrow> uid list" where
  "pps_keys r = redb_keys (re_pps r)"

definition dep_insert :: "uid \<Rightarrow> (unit_relations \<times> uid) list \<Rightarrow> 'd unit_re \<Rightarrow> 'd unit_re option" where
  "dep_insert u deps r = do {
     rust_assert (base_contains r u);
     Some (r\<lparr>re_dep := redb_insert u deps (re_dep r)\<rparr>)
   }"

definition dep_remove :: "uid \<Rightarrow> 'd unit_re \<Rightarrow> 'd unit_re" where
  "dep_remove u r = r\<lparr>re_dep := redb_remove u (re_dep r)\<rparr>"

definition dep_get :: "'d unit_re \<Rightarrow> uid \<Rightarrow> (unit_relations \<times> uid) list" where
  "dep_get r u = (case redb_get (re_dep r) u of Some deps \<Rightarrow> deps | None \<Rightarrow> [])"

definition dep_keys :: "'d unit_re \<Rightarrow> uid list" where
  "dep_keys r = redb_keys (re_dep r)"

definition notify_insert :: "int \<Rightarrow> 'd unit_re \<Rightarrow> 'd unit_re" where
  "notify_insert fd r = r\<lparr>re_notify := redb_insert RELI_LAST_KEY fd (re_notify r)\<rparr>"

definition notify_remove :: "'d unit_re \<Rightarrow> 'd unit_re" where
  "notify_remove r = r\<lparr>re_notify := redb_remove RELI_LAST_KEY (re_notify r)\<rparr>"

definition notify_get :: "'d unit_re \<Rightarrow> int option" where
  "notify_get r = redb_get (re_notify r) RELI_LAST_KEY"

lemmas unit_re_insert_defs =
  base_insert_def load_insert_def conf_insert_def cgroup_insert_def child_insert_def
  pps_insert_def pps_set_def pps_clear_def dep_insert_def notify_insert_def

lemmas unit_re_get_defs =
  base_get_def load_get_def conf_get_def cgroup_get_def child_get_def pps_get_def
  pps_contains_def dep_get_def notify_get_def base_contains_def

subsection \<open>Facts\<close>

lemma base_contains_iff: "base_contains r u \<longleftrightarrow> base_get r u \<noteq> None"
  by (simp add: base_contains_def base_get_def redb_defs)

lemma base_contains_insert [simp]:
  "\<not> ignore (re_base r) \<Longrightarrow> base_contains (base_insert u ty r) v \<longleftrightarrow> v = u \<or> base_contains r v"
  by (simp add: base_contains_iff base_get_def base_insert_def)

text \<open>The accessors succeed exactly on registered units.\<close>

lemma dep_insert_eq:
  "dep_insert u deps r =
     (if base_contains r u then Some (r\<lparr>re_dep := redb_insert u deps (re_dep r)\<rparr>) else None)"
  by (simp add: dep_insert_def rust_assert_def)

lemma pps_set_eq:
  "pps_set u m r =
     (if base_contains r u then Some (r\<lparr>re_pps := redb_insert u (pps_get r u OR m) (re_pps r)\<rparr>)
      else None)"
  by (simp add: pps_set_def rust_assert_def)

lemma pps_clear_eq:
  "pps_clear u m r =
     (if base_contains r u
      then Some (r\<lparr>re_pps := redb_insert u (pps_get r u AND NOT m) (re_pps r)\<rparr>) else None)"
  by (simp add: pps_clear_def rust_assert_def)

lemma mask_absorb: "(p OR m) AND m = (m :: 'a::len word)"
  by (simp add: word_ao_absorbs)

lemma mask_cleared: "(p AND NOT m) AND m = (0 :: 'a::len word)"
  by (rule bit_eqI) (auto simp: bit_simps)

lemma mask_clear_disjoint:
  "m AND m' = 0 \<Longrightarrow> (p AND NOT m) AND m' = (p AND m' :: 'a::len word)"
  by (rule bit_eqI) (auto simp: bit_simps dest!: bit_eq_iff[THEN iffD1, rule_format])

lemma mask_set_disjoint:
  "m AND m' = 0 \<Longrightarrow> (p OR m) AND m' = (p AND m' :: 'a::len word)"
  by (simp add: bit.conj_disj_distrib2)

text \<open>
  Setting a flag makes it visible, clearing it hides it, and flags of another mask and the
  flags of other units keep their value.
\<close>

lemma pps_set_spec:
  assumes "\<not> ignore (re_pps r)" and "pps_set u m r = Some r'"
  shows "pps_contains r' u m"
    and "m AND m' = 0 \<Longrightarrow> pps_contains r' u m' = pps_contains r u m'"
    and "v \<noteq> u \<Longrightarrow> pps_contains r' v m' = pps_contains r v m'"
  using assms
  by (auto simp: pps_set_eq pps_contains_def pps_get_def mask_absorb mask_set_disjoint
      split: if_splits)

lemma pps_clear_spec:
  assumes "\<not> ignore (re_pps r)" and "pps_clear u m r = Some r'"
  shows "m \<noteq> 0 \<Longrightarrow> \<not> pps_contains r' u m"
    and "m AND m' = 0 \<Longrightarrow> pps_contains r' u m' = pps_contains r u m'"
    and "v \<noteq> u \<Longrightarrow> pps_contains r' v m' = pps_contains r v m'"
  using assms
  by (auto simp: pps_clear_eq pps_contains_def pps_get_def mask_cleared mask_clear_disjoint
      split: if_splits)

end
