(* ===== verification/Unit_Table.thy ===== *)
theory Unit_Table
  imports Store_Spec Unit_Base
begin

section \<open>Observable tables (core/bin/utils/table.rs) and the unit set\<close>

text \<open>
  \<open>Table\<close> is a hash map whose insertions and removals are announced to its
  subscribers. A subscriber is a filter and a callback; the callback changes the
  surrounding world \<open>'w\<close> and may panic. \<open>UnitSets\<close> (core/bin/unit/datastore/sets.rs) is
  the table of all units; \<open>UnitDep\<close>, \<open>UnitChild\<close>, \<open>UnitRT\<close> and the job manager
  subscribe to it.
\<close>

datatype ('k, 'v) table_op = TableInsert 'k 'v | TableRemove 'k 'v

record ('k, 'v, 'w) table_subscribe =
  sub_filter :: "('k, 'v) table_op \<Rightarrow> bool"
  sub_notify :: "('k, 'v) table_op \<Rightarrow> 'w \<Rightarrow> 'w option"

record ('k, 'v, 'w) table =
  data :: "('k \<times> 'v) list"
  subscribers :: "(string \<times> ('k, 'v, 'w) table_subscribe) list"

definition table_new :: "('k, 'v, 'w) table" where
  "table_new = \<lparr>data = [], subscribers = []\<rparr>"

definition table_data_clear :: "('k, 'v, 'w) table \<Rightarrow> ('k, 'v, 'w) table" where
  "table_data_clear t = t\<lparr>data := []\<rparr>"

definition table_clear :: "('k, 'v, 'w) table \<Rightarrow> ('k, 'v, 'w) table" where
  "table_clear t = t\<lparr>subscribers := [], data := []\<rparr>"

definition table_notify :: "('k, 'v) table_op \<Rightarrow> ('k, 'v, 'w) table \<Rightarrow> 'w \<Rightarrow> 'w option" where
  "table_notify op t =
     for_each (\<lambda>(_, sub) w. if sub_filter sub op then sub_notify sub op w else Some w) (subscribers t)"

definition table_insert ::
  "'k \<Rightarrow> 'v \<Rightarrow> ('k, 'v, 'w) table \<Rightarrow> 'w \<Rightarrow> ('v option \<times> ('k, 'v, 'w) table \<times> 'w) option" where
  "table_insert k v t w = do {
     let ret = map_of (data t) k;
     let t' = t\<lparr>data := AList.update k v (data t)\<rparr>;
     w' \<leftarrow> table_notify (TableInsert k v) t' w;
     Some (ret, t', w')
   }"

definition table_remove ::
  "'k \<Rightarrow> ('k, 'v, 'w) table \<Rightarrow> 'w \<Rightarrow> ('v option \<times> ('k, 'v, 'w) table \<times> 'w) option" where
  "table_remove k t w = do {
     let ret = map_of (data t) k;
     let t' = t\<lparr>data := AList.delete k (data t)\<rparr>;
     w' \<leftarrow> (case ret of Some v \<Rightarrow> table_notify (TableRemove k v) t' w | None \<Rightarrow> Some w);
     Some (ret, t', w')
   }"

definition table_get :: "('k, 'v, 'w) table \<Rightarrow> 'k \<Rightarrow> 'v option" where
  "table_get t = map_of (data t)"

definition table_get_all :: "('k, 'v, 'w) table \<Rightarrow> 'v list" where
  "table_get_all t = map snd (data t)"

definition table_subscribe ::
  "string \<Rightarrow> ('k, 'v, 'w) table_subscribe \<Rightarrow> ('k, 'v, 'w) table \<Rightarrow>
   ('k, 'v, 'w) table_subscribe option \<times> ('k, 'v, 'w) table" where
  "table_subscribe name sub t =
     (map_of (subscribers t) name, t\<lparr>subscribers := AList.update name sub (subscribers t)\<rparr>)"

definition table_unsubscribe ::
  "string \<Rightarrow> ('k, 'v, 'w) table \<Rightarrow> ('k, 'v, 'w) table_subscribe option \<times> ('k, 'v, 'w) table" where
  "table_unsubscribe name t =
     (map_of (subscribers t) name, t\<lparr>subscribers := AList.delete name (subscribers t)\<rparr>)"

lemmas table_defs =
  table_new_def table_data_clear_def table_clear_def table_insert_def table_remove_def
  table_get_def table_get_all_def table_subscribe_def table_unsubscribe_def

subsection \<open>The data side of a table is a keyed store\<close>

definition table_put :: "'k \<Rightarrow> 'v \<Rightarrow> ('k, 'v, 'w) table \<Rightarrow> ('k, 'v, 'w) table" where
  "table_put k v t = t\<lparr>data := AList.update k v (data t)\<rparr>"

definition table_del :: "'k \<Rightarrow> ('k, 'v, 'w) table \<Rightarrow> ('k, 'v, 'w) table" where
  "table_del k t = t\<lparr>data := AList.delete k (data t)\<rparr>"

abbreviation table_wf :: "('k, 'v, 'w) table \<Rightarrow> bool" where
  "table_wf t \<equiv> distinct (map fst (data t))"

interpretation table: kv_store table_get table_put table_del table_wf
  by unfold_locales (auto simp: table_get_def table_put_def table_del_def)

lemma table_insert_eq:
  "table_insert k v t w =
     map_option (\<lambda>w'. (table_get t k, table_put k v t, w'))
       (table_notify (TableInsert k v) (table_put k v t) w)"
  by (cases "table_notify (TableInsert k v) (table_put k v t) w")
     (simp_all add: table_insert_def table_put_def table_get_def Let_def)

lemma table_remove_eq:
  "table_remove k t w =
     (case table_get t k of
        None \<Rightarrow> Some (None, table_del k t, w)
      | Some v \<Rightarrow> map_option (\<lambda>w'. (Some v, table_del k t, w'))
                    (table_notify (TableRemove k v) (table_del k t) w))"
  by (auto simp: table_remove_def table_del_def table_get_def Let_def map_conv_bind_option
      split: option.splits Option.bind_splits)

text \<open>What a lookup returns after the real (announcing) operations.\<close>

lemma table_get_after_insert:
  assumes "table_insert k v t w = Some (old, t', w')"
  shows "table_get t' k' = (if k' = k then Some v else table_get t k')" and "old = table_get t k"
  using assms by (auto simp: table_insert_eq table_get_def table_put_def)

lemma table_get_after_remove:
  assumes "table_remove k t w = Some (old, t', w')"
  shows "table_get t' k' = (if k' = k then None else table_get t k')" and "old = table_get t k"
  using assms
  by (auto simp: table_remove_eq table_get_def table_del_def split: option.splits)

text \<open>
  Every subscriber whose filter accepts the operation is called once, in order, and no
  other: with callbacks that only log their name, the log is the list of accepting names.
\<close>

definition logging_sub :: "string \<Rightarrow> (('k, 'v) table_op \<Rightarrow> bool) \<Rightarrow>
    ('k, 'v, (string \<times> ('k, 'v) table_op) list) table_subscribe" where
  "logging_sub name flt = \<lparr>sub_filter = flt, sub_notify = (\<lambda>op w. Some (w @ [(name, op)]))\<rparr>"

lemma table_notify_logging:
  assumes "subscribers t = map (\<lambda>(n, f). (n, logging_sub n f)) nfs"
  shows "table_notify op t w = Some (w @ map (\<lambda>(n, f). (n, op)) (filter (\<lambda>(n, f). f op) nfs))"
proof -
  have "for_each (\<lambda>(_, sub) w. if sub_filter sub op then sub_notify sub op w else Some w)
          (map (\<lambda>(n, f). (n, logging_sub n f)) nfs) w =
        Some (w @ map (\<lambda>(n, f). (n, op)) (filter (\<lambda>(n, f). f op) nfs))" for w
    by (induction nfs arbitrary: w) (auto simp: logging_sub_def)
  then show ?thesis by (simp add: table_notify_def assms)
qed

subsection \<open>The unit set and its subscribers\<close>

text \<open>
  \<open>UnitChildData\<close> and \<open>UnitRTData\<close> answer an insertion with nothing and a removal with
  \<open>remove_unit\<close>, whose body is \<open>todo!()\<close>.
\<close>

definition unit_child_remove_unit :: "'v \<Rightarrow> 'w \<Rightarrow> 'w option" where
  "unit_child_remove_unit unit w = None"

definition unit_child_notify :: "(uid, 'v) table_op \<Rightarrow> 'w \<Rightarrow> 'w option" where
  "unit_child_notify op w =
     (case op of TableInsert _ _ \<Rightarrow> Some w | TableRemove _ u \<Rightarrow> unit_child_remove_unit u w)"

definition unit_rt_remove_unit :: "'v \<Rightarrow> 'w \<Rightarrow> 'w option" where
  "unit_rt_remove_unit unit w = None"

definition unit_rt_notify :: "(uid, 'v) table_op \<Rightarrow> 'w \<Rightarrow> 'w option" where
  "unit_rt_notify op w =
     (case op of TableInsert _ _ \<Rightarrow> Some w | TableRemove _ u \<Rightarrow> unit_rt_remove_unit u w)"

definition unit_child_sub :: "(uid, 'v, 'w) table_subscribe" where
  "unit_child_sub = \<lparr>sub_filter = (\<lambda>_. True), sub_notify = unit_child_notify\<rparr>"

definition unit_rt_sub :: "(uid, 'v, 'w) table_subscribe" where
  "unit_rt_sub = \<lparr>sub_filter = (\<lambda>_. True), sub_notify = unit_rt_notify\<rparr>"

lemma for_each_panics:
  "x \<in> set xs \<Longrightarrow> (\<And>s. f x s = None) \<Longrightarrow> for_each f xs s = None"
  by (induction xs arbitrary: s) (auto split: Option.bind_splits)

lemma table_remove_child_panics:
  assumes "map_of (subscribers t) ''UnitChild'' = Some unit_child_sub"
    and "table_get t name = Some u"
  shows "table_remove name t w = None"
proof -
  from assms(1) have "(''UnitChild'', unit_child_sub) \<in> set (subscribers t)"
    by (rule map_of_SomeD)
  then have "table_notify (TableRemove name u) (table_del name t) w = None"
    unfolding table_notify_def
    by (intro for_each_panics[where x = "(''UnitChild'', unit_child_sub)"])
       (auto simp: table_del_def unit_child_sub_def unit_child_notify_def unit_child_remove_unit_def)
  with assms(2) show ?thesis by (simp add: table_remove_eq)
qed

end
