(* ===== verification/Unit_Deps.thy ===== *)
theory Unit_Deps
  imports Unit_Rentry Unit_Table
begin

section \<open>Dependencies between units (core/bin/unit/datastore/deps.rs)\<close>

text \<open>
  \<open>UnitDepData\<close> keeps, for every source unit and relation, the destinations with a mask.
  Every insertion is made in both directions (the destination gets the inverse relation)
  and copied into the reliability database, from which \<open>db_map\<close> rebuilds the table.

  The abstract view of the table is the ternary relation \<open>dep_rel\<close>; the lemmas say what
  each operation does to it.
\<close>

subsection \<open>State\<close>

record unit_dep_mask =
  mask_source :: u16
  mask_dest :: u16

definition unit_dep_mask_new :: "u16 \<Rightarrow> u16 \<Rightarrow> unit_dep_mask" where
  "unit_dep_mask_new s d = \<lparr>mask_source = s, mask_dest = d\<rparr>"

type_synonym dep_dv = "(uid \<times> unit_dep_mask) list"
type_synonym dep_sv = "(unit_relations \<times> dep_dv) list"
type_synonym dep_table = "(uid \<times> dep_sv) list"

text \<open>\<open>dd_units\<close> are the ids that \<open>UnitSets::get\<close> finds.\<close>

record 'd unit_dep_data =
  dd_units :: "uid list"
  dd_rentry :: "'d unit_re"
  dd_t :: dep_table

definition dep_data_new :: "'d unit_re \<Rightarrow> uid list \<Rightarrow> 'd unit_dep_data" where
  "dep_data_new re us = \<lparr>dd_units = us, dd_rentry = re, dd_t = []\<rparr>"

definition dep_data_clear :: "'d unit_dep_data \<Rightarrow> 'd unit_dep_data" where
  "dep_data_clear dd = dd\<lparr>dd_t := []\<rparr>"

subsection \<open>One direction\<close>

definition get_mut_sv_pad :: "uid \<Rightarrow> dep_table \<Rightarrow> (dep_sv \<times> dep_table) option" where
  "get_mut_sv_pad source t = (
     let t' = (if map_of t source = None then AList.update source [] t else t)
     in map_option (\<lambda>sv. (sv, t')) (map_of t' source))"

definition get_mut_dv_pad ::
  "uid \<Rightarrow> unit_relations \<Rightarrow> dep_table \<Rightarrow> (dep_dv \<times> dep_sv \<times> dep_table) option" where
  "get_mut_dv_pad source relation t = do {
     (sv, t') \<leftarrow> get_mut_sv_pad source t;
     let sv' = (if map_of sv relation = None then AList.update relation [] sv else sv);
     dv \<leftarrow> map_of sv' relation;
     Some (dv, sv', t')
   }"

definition insert_one_way ::
  "uid \<Rightarrow> unit_relations \<Rightarrow> uid \<Rightarrow> unit_dep_mask \<Rightarrow> dep_table \<Rightarrow> dep_table option" where
  "insert_one_way source relation dest m t = do {
     (dv, sv, t') \<leftarrow> get_mut_dv_pad source relation t;
     let dv' = AList.update dest m dv;
     Some (AList.update source (AList.update relation dv' sv) t')
   }"

definition remove_one_way :: "uid \<Rightarrow> unit_relations \<Rightarrow> uid \<Rightarrow> dep_table \<Rightarrow> dep_table" where
  "remove_one_way source relation dest t =
     (case map_of t source of
        None \<Rightarrow> t
      | Some sv \<Rightarrow>
          let sv' = (case map_of sv relation of
                       Some dv \<Rightarrow> AList.update relation (AList.delete dest dv) sv
                     | None \<Rightarrow> sv)
          in if sv' \<noteq> [] then AList.delete source t else AList.update source sv' t)"

subsection \<open>The operations of UnitDepData\<close>

definition dep_db_update :: "uid \<Rightarrow> 'd unit_dep_data \<Rightarrow> 'd unit_dep_data option" where
  "dep_db_update u dd = (
     let sv = (case map_of (dd_t dd) u of Some sv \<Rightarrow> sv | None \<Rightarrow> []);
         deps = concat (map (\<lambda>(relation, dv). map (\<lambda>(dest, _). (relation, dest)) dv) sv)
     in map_option (\<lambda>re. dd\<lparr>dd_rentry := re\<rparr>) (dep_insert u deps (dd_rentry dd)))"

definition dep_data_insert ::
  "uid \<Rightarrow> unit_relations \<Rightarrow> uid \<Rightarrow> bool \<Rightarrow> u16 \<Rightarrow> 'd unit_dep_data \<Rightarrow> 'd unit_dep_data option" where
  "dep_data_insert source relation dest reference source_mask dd = (
     if source = dest then Some dd
     else do {
       let m = unit_dep_mask_new source_mask 0;
       let m_inverse = unit_dep_mask_new 0 source_mask;
       t1 \<leftarrow> insert_one_way source relation dest m (dd_t dd);
       t2 \<leftarrow> insert_one_way dest (unit_relation_to_inverse relation) source m_inverse t1;
       t4 \<leftarrow> (if reference then do {
                 t3 \<leftarrow> insert_one_way source UnitReferences dest m t2;
                 insert_one_way dest (unit_relation_to_inverse UnitReferences) source m_inverse t3
               } else Some t2);
       dd1 \<leftarrow> dep_db_update source (dd\<lparr>dd_t := t4\<rparr>);
       dep_db_update dest dd1
     })"

definition dep_data_remove ::
  "uid \<Rightarrow> unit_relations \<Rightarrow> uid \<Rightarrow> 'd unit_dep_data \<Rightarrow> 'd unit_dep_data option" where
  "dep_data_remove source relation dest dd = do {
     let t1 = remove_one_way source relation dest (dd_t dd);
     let t2 = remove_one_way dest (unit_relation_to_inverse relation) source t1;
     dd1 \<leftarrow> dep_db_update source (dd\<lparr>dd_t := t2\<rparr>);
     dep_db_update dest dd1
   }"

definition dep_data_remove_unit :: "uid \<Rightarrow> 'd unit_dep_data \<Rightarrow> 'd unit_dep_data option" where
  "dep_data_remove_unit source dd =
     (case map_of (dd_t dd) source of
        None \<Rightarrow> Some dd
      | Some sv \<Rightarrow>
          for_each (\<lambda>(relation, dest). dep_data_remove source relation dest)
            (concat (map (\<lambda>(relation, dv). map (\<lambda>(dest, _). (relation, dest)) dv) sv)) dd)"

definition dep_data_gets :: "'d unit_dep_data \<Rightarrow> uid \<Rightarrow> unit_relations \<Rightarrow> uid list" where
  "dep_data_gets dd source relation =
     (case map_of (dd_t dd) source of
        None \<Rightarrow> []
      | Some sv \<Rightarrow> (case map_of sv relation of None \<Rightarrow> [] | Some dv \<Rightarrow> map fst dv))"

definition dep_data_is_dep_with :: "'d unit_dep_data \<Rightarrow> uid \<Rightarrow> unit_relations \<Rightarrow> uid \<Rightarrow> bool" where
  "dep_data_is_dep_with dd source relation dest \<longleftrightarrow>
     (case map_of (dd_t dd) source of
        None \<Rightarrow> False
      | Some sv \<Rightarrow>
          (case map_of sv relation of None \<Rightarrow> False | Some dv \<Rightarrow> map_of dv dest \<noteq> None))"

text \<open>The body of the inner loop of \<open>db_map\<close>, for one recorded dependency of \<open>source\<close>.\<close>

definition dep_db_map_one ::
  "uid \<Rightarrow> unit_relations \<times> uid \<Rightarrow> 'd unit_dep_data \<Rightarrow> 'd unit_dep_data option" where
  "dep_db_map_one source rd dd = do {
     let (relation, dest) = rd;
     let m = unit_dep_mask_new 0 0;
     rust_assert (dest \<in> set (dd_units dd));
     t1 \<leftarrow> insert_one_way source relation dest m (dd_t dd);
     t2 \<leftarrow> insert_one_way dest (unit_relation_to_inverse relation) source m t1;
     Some (dd\<lparr>dd_t := t2\<rparr>)
   }"

definition dep_db_map :: "'d unit_dep_data \<Rightarrow> 'd unit_dep_data option" where
  "dep_db_map dd =
     for_each (\<lambda>source dd. do {
         rust_assert (source \<in> set (dd_units dd));
         for_each (dep_db_map_one source) (dep_get (dd_rentry dd) source) dd
       }) (dep_keys (dd_rentry dd)) dd"

subsection \<open>The public face UnitDep\<close>

text \<open>\<open>UnitX::dep_check\<close> accepts every dependency.\<close>

definition dep_check :: "uid \<Rightarrow> unit_relations \<Rightarrow> uid \<Rightarrow> error + unit" where
  "dep_check source relation dest = Inr ()"

definition unit_dep_insert ::
  "uid \<Rightarrow> unit_relations \<Rightarrow> uid \<Rightarrow> bool \<Rightarrow> u16 \<Rightarrow> 'd unit_dep_data \<Rightarrow>
   ((error + unit) \<times> 'd unit_dep_data) option" where
  "unit_dep_insert source relation dest reference source_mask dd =
     (case dep_check source relation dest of
        Inl e \<Rightarrow> Some (Inl e, dd)
      | Inr _ \<Rightarrow> map_option (\<lambda>dd'. (Inr (), dd'))
                   (dep_data_insert source relation dest reference source_mask dd))"

definition gets_atom :: "'d unit_dep_data \<Rightarrow> uid \<Rightarrow> unit_relation_atom \<Rightarrow> uid list" where
  "gets_atom dd source atom =
     concat (map (dep_data_gets dd source) (unit_relation_from_unique_atom atom))"

definition is_dep_atom_with :: "'d unit_dep_data \<Rightarrow> uid \<Rightarrow> unit_relation_atom \<Rightarrow> uid \<Rightarrow> bool" where
  "is_dep_atom_with dd source atom dest \<longleftrightarrow>
     list_ex (\<lambda>relation. dep_data_is_dep_with dd source relation dest)
       (unit_relation_from_unique_atom atom)"

text \<open>\<open>UnitDepSub\<close>, the subscription to the unit set.\<close>

definition unit_dep_notify :: "(uid, 'v) table_op \<Rightarrow> 'd unit_dep_data \<Rightarrow> 'd unit_dep_data option" where
  "unit_dep_notify op dd =
     (case op of TableInsert _ _ \<Rightarrow> Some dd | TableRemove name _ \<Rightarrow> dep_data_remove_unit name dd)"

subsection \<open>The abstract relation\<close>

definition dep_lookup :: "dep_table \<Rightarrow> uid \<Rightarrow> unit_relations \<Rightarrow> uid \<Rightarrow> unit_dep_mask option" where
  "dep_lookup t s r d =
     (case map_of t s of None \<Rightarrow> None
      | Some sv \<Rightarrow> (case map_of sv r of None \<Rightarrow> None | Some dv \<Rightarrow> map_of dv d))"

definition dep_rel :: "dep_table \<Rightarrow> (uid \<times> unit_relations \<times> uid) set" where
  "dep_rel t = {(s, r, d). dep_lookup t s r d \<noteq> None}"

text \<open>The shape of the table: an entry names some relation, and each relation once.\<close>

definition dep_wf :: "dep_table \<Rightarrow> bool" where
  "dep_wf t \<longleftrightarrow>
     (\<forall>s. case map_of t s of None \<Rightarrow> True | Some sv \<Rightarrow> sv \<noteq> [] \<and> distinct (map fst sv))"

lemma dep_data_is_dep_with_iff:
  "dep_data_is_dep_with dd s r d \<longleftrightarrow> (s, r, d) \<in> dep_rel (dd_t dd)"
  by (simp add: dep_data_is_dep_with_def dep_rel_def dep_lookup_def split: option.splits)

lemma dep_data_gets_iff:
  "d \<in> set (dep_data_gets dd s r) \<longleftrightarrow> (s, r, d) \<in> dep_rel (dd_t dd)"
proof (cases "map_of (dd_t dd) s")
  case None
  then show ?thesis by (simp add: dep_data_gets_def dep_rel_def dep_lookup_def)
next
  case (Some sv)
  have "d \<in> fst ` set dv \<longleftrightarrow> map_of dv d \<noteq> None" for dv :: dep_dv
    by (simp add: map_of_eq_None_iff)
  with Some show ?thesis
    by (cases "map_of sv r")
       (simp_all add: dep_data_gets_def dep_rel_def dep_lookup_def)
qed

lemma gets_atom_iff:
  "d \<in> set (gets_atom dd s a) \<longleftrightarrow>
     (\<exists>r\<in>set (unit_relation_from_unique_atom a). (s, r, d) \<in> dep_rel (dd_t dd))"
  by (auto simp: gets_atom_def dep_data_gets_iff)

lemma is_dep_atom_with_iff: "is_dep_atom_with dd s a d \<longleftrightarrow> d \<in> set (gets_atom dd s a)"
  by (auto simp: is_dep_atom_with_def list_ex_iff dep_data_is_dep_with_iff gets_atom_iff)

text \<open>The \<open>expect\<close>s behind the padded lookups never fail.\<close>

lemma insert_one_way_eq:
  "insert_one_way s r d m t =
     (let sv = (case map_of t s of Some sv \<Rightarrow> sv | None \<Rightarrow> []);
          dv = (case map_of sv r of Some dv \<Rightarrow> dv | None \<Rightarrow> []);
          t' = (if map_of t s = None then AList.update s [] t else t);
          sv' = (if map_of sv r = None then AList.update r [] sv else sv)
      in Some (AList.update s (AList.update r (AList.update d m dv) sv') t'))"
  by (cases "map_of t s")
     (auto simp: insert_one_way_def get_mut_dv_pad_def get_mut_sv_pad_def Let_def
       split: option.splits)

lemma insert_one_way_total: "\<exists>t'. insert_one_way s r d m t = Some t'"
  by (simp add: insert_one_way_eq Let_def)

lemma dep_wf_D: "dep_wf t \<Longrightarrow> map_of t s = Some sv \<Longrightarrow> sv \<noteq> [] \<and> distinct (map fst sv)"
  unfolding dep_wf_def by (drule spec[of _ s]) simp

lemma dep_lookup_update [simp]:
  "dep_lookup (AList.update s sv t) s' r d =
     (if s' = s then case map_of sv r of None \<Rightarrow> None | Some dv \<Rightarrow> map_of dv d
      else dep_lookup t s' r d)"
  by (simp add: dep_lookup_def)

lemma dep_lookup_insert_one_way:
  assumes "insert_one_way s r d m t = Some t'"
  shows "dep_lookup t' s' r' d' =
           (if s' = s \<and> r' = r \<and> d' = d then Some m else dep_lookup t s' r' d')"
proof (cases "map_of t s")
  case None
  then have "dep_lookup t s = (\<lambda>r d. None)" by (simp add: dep_lookup_def fun_eq_iff)
  with assms None show ?thesis by (auto simp: insert_one_way_eq Let_def)
next
  case (Some sv)
  then have "dep_lookup t s = (\<lambda>r d. case map_of sv r of None \<Rightarrow> None | Some dv \<Rightarrow> map_of dv d)"
    by (simp add: dep_lookup_def fun_eq_iff)
  with assms Some show ?thesis
    by (cases "map_of sv r") (auto simp: insert_one_way_eq Let_def)
qed

lemma dep_rel_insert_one_way:
  assumes "insert_one_way s r d m t = Some t'"
  shows "dep_rel t' = insert (s, r, d) (dep_rel t)"
  by (auto simp: dep_rel_def dep_lookup_insert_one_way[OF assms] split: if_splits)

lemma dep_wf_update:
  "dep_wf t \<Longrightarrow> sv \<noteq> [] \<Longrightarrow> distinct (map fst sv) \<Longrightarrow> dep_wf (AList.update s sv t)"
  by (simp add: dep_wf_def)

lemma dep_wf_insert_one_way:
  assumes "insert_one_way s r d m t = Some t'" and "dep_wf t"
  shows "dep_wf t'"
proof -
  have "AList.update s sv (AList.update s [] t) = AList.update s sv t" for sv :: dep_sv
    by (induction t) auto
  with assms show ?thesis
    by (auto simp: insert_one_way_eq Let_def split: option.splits if_splits
        intro!: dep_wf_update dest: dep_wf_D)
qed

lemma remove_one_way_drop:
  assumes "dep_wf t"
  shows "remove_one_way s r d t = (if map_of t s = None then t else AList.delete s t)"
  using dep_wf_D[OF assms, of s]
  by (auto simp: remove_one_way_def Let_def split: option.splits)

lemma dep_rel_remove_one_way:
  assumes "dep_wf t"
  shows "dep_rel (remove_one_way s r d t) = {(s', r', d') \<in> dep_rel t. s' \<noteq> s}"
  by (auto simp: remove_one_way_drop[OF assms] dep_rel_def dep_lookup_def split: if_splits)

lemma dep_wf_remove_one_way:
  assumes "dep_wf t"
  shows "dep_wf (remove_one_way s r d t)"
  using assms by (auto simp: remove_one_way_drop[OF assms]) (auto simp: dep_wf_def)

subsection \<open>The invariant\<close>

text \<open>
  \<open>dep_inv\<close>: a dependency and its inverse are recorded together, no unit depends on
  itself, every unit with an entry is registered in the base database and in the unit
  set, and the reliability database holds exactly the table.
\<close>

definition dep_live :: "'d unit_dep_data \<Rightarrow> bool" where
  "dep_live dd \<longleftrightarrow> \<not> ignore (re_dep (dd_rentry dd)) \<and> dep_wf (dd_t dd)"

definition dep_sym :: "'d unit_dep_data \<Rightarrow> bool" where
  "dep_sym dd \<longleftrightarrow>
     (\<forall>s r d. (s, r, d) \<in> dep_rel (dd_t dd) \<longrightarrow>
        (d, unit_relation_to_inverse r, s) \<in> dep_rel (dd_t dd) \<and> s \<noteq> d)"

definition dep_persisted :: "'d unit_dep_data \<Rightarrow> bool" where
  "dep_persisted dd \<longleftrightarrow>
     (\<forall>s. set (dep_get (dd_rentry dd) s) = {(r, d). (s, r, d) \<in> dep_rel (dd_t dd)})"

definition dep_inv :: "'d unit_dep_data \<Rightarrow> bool" where
  "dep_inv dd \<longleftrightarrow> dep_live dd \<and> dep_sym dd \<and> dep_persisted dd"

subsection \<open>Writing a unit's dependencies to the database\<close>

lemma dep_db_update_total:
  "dep_db_update u dd \<noteq> None \<longleftrightarrow> base_contains (dd_rentry dd) u"
  by (simp add: dep_db_update_def Let_def dep_insert_eq)

lemma concat_sv_iff:
  assumes "distinct (map fst sv)"
  shows "(r, d) \<in> set (concat (map (\<lambda>(relation, dv). map (\<lambda>(dest, _). (relation, dest)) dv) sv)) \<longleftrightarrow>
           (case map_of sv r of None \<Rightarrow> False | Some dv \<Rightarrow> map_of dv d \<noteq> None)"
proof -
  have "(r, d) \<in> set (concat (map (\<lambda>(relation, dv). map (\<lambda>(dest, _). (relation, dest)) dv) sv)) \<longleftrightarrow>
        (\<exists>dv. (r, dv) \<in> set sv \<and> d \<in> fst ` set dv)"
    by (force simp: image_iff)
  also have "\<dots> \<longleftrightarrow> (\<exists>dv. map_of sv r = Some dv \<and> d \<in> fst ` set dv)"
    using assms by simp
  also have "\<dots> \<longleftrightarrow> (\<exists>dv. map_of sv r = Some dv \<and> map_of dv d \<noteq> None)"
    by (simp only: map_of_eq_None_iff simp_thms)
  finally show ?thesis by (cases "map_of sv r") simp_all
qed

lemma dep_db_update_Some:
  assumes "dep_db_update u dd = Some dd'" and "dep_live dd"
  shows "dd_t dd' = dd_t dd" and "dd_units dd' = dd_units dd" and "dep_live dd'"
    and "re_base (dd_rentry dd') = re_base (dd_rentry dd)"
    and "set (dep_get (dd_rentry dd') v) =
           (if v = u then {(r, d). (u, r, d) \<in> dep_rel (dd_t dd)} else set (dep_get (dd_rentry dd) v))"
proof -
  let ?sv = "case map_of (dd_t dd) u of Some sv \<Rightarrow> sv | None \<Rightarrow> []"
  let ?deps = "concat (map (\<lambda>(relation, dv). map (\<lambda>(dest, _). (relation, dest)) dv) ?sv)"
  have dd': "dd' = dd\<lparr>dd_rentry := (dd_rentry dd)\<lparr>re_dep := redb_insert u ?deps (re_dep (dd_rentry dd))\<rparr>\<rparr>"
    using assms(1) by (auto simp: dep_db_update_def Let_def dep_insert_eq split: if_splits)
  then show "dd_t dd' = dd_t dd" "dd_units dd' = dd_units dd" "dep_live dd'"
    "re_base (dd_rentry dd') = re_base (dd_rentry dd)"
    using assms(2) by (simp_all add: dep_live_def)
  have "distinct (map fst ?sv)"
    using assms(2) dep_wf_D[of "dd_t dd" u] by (auto simp: dep_live_def split: option.splits)
  then have "set ?deps = {(r, d). (u, r, d) \<in> dep_rel (dd_t dd)}"
    by (auto simp del: set_concat simp add: concat_sv_iff dep_rel_def dep_lookup_def split: option.splits if_splits)
  moreover have "dep_get (dd_rentry dd') v = (if v = u then ?deps else dep_get (dd_rentry dd) v)"
    using assms(2) unfolding dd' dep_live_def by (simp add: dep_get_def)
  ultimately show "set (dep_get (dd_rentry dd') v) =
      (if v = u then {(r, d). (u, r, d) \<in> dep_rel (dd_t dd)} else set (dep_get (dd_rentry dd) v))"
    by simp
qed

text \<open>The two updates that end every operation, when both units are registered.\<close>

lemma dep_db_update_both:
  assumes "dep_live dd" and "base_contains (dd_rentry dd) s" and "base_contains (dd_rentry dd) d"
  obtains dd' where "Option.bind (dep_db_update s dd) (dep_db_update d) = Some dd'"
    and "dd_t dd' = dd_t dd" and "dd_units dd' = dd_units dd" and "dep_live dd'"
    and "re_base (dd_rentry dd') = re_base (dd_rentry dd)"
    and "\<And>v. set (dep_get (dd_rentry dd') v) =
           (if v = s \<or> v = d then {(r, x). (v, r, x) \<in> dep_rel (dd_t dd)}
            else set (dep_get (dd_rentry dd) v))"
proof -
  from assms(2) obtain d1 where d1: "dep_db_update s dd = Some d1"
    using dep_db_update_total[of s dd] by auto
  note u1 = dep_db_update_Some[OF d1 assms(1)]
  have "base_contains (dd_rentry d1) d" using assms(3) u1(4) by (simp add: base_contains_def)
  then obtain d2 where d2: "dep_db_update d d1 = Some d2"
    using dep_db_update_total[of d d1] by auto
  note u2 = dep_db_update_Some[OF d2 u1(3)]
  from u1 u2 d1 d2 show thesis by (intro that[of d2]) auto
qed

subsection \<open>What the operations do\<close>

lemma dep_data_insert_spec:
  assumes inv: "dep_inv dd"
    and reg: "base_contains (dd_rentry dd) s" "base_contains (dd_rentry dd) d"
  shows "\<exists>dd'. dep_data_insert s r d reference mk dd = Some dd' \<and> dep_inv dd' \<and>
           dd_units dd' = dd_units dd \<and> re_base (dd_rentry dd') = re_base (dd_rentry dd) \<and>
           dep_rel (dd_t dd') = dep_rel (dd_t dd) \<union>
             (if s = d then {}
              else {(s, r, d), (d, unit_relation_to_inverse r, s)} \<union>
                   (if reference then {(s, UnitReferences, d), (d, UnitReferencedBy, s)} else {}))"
proof (cases "s = d")
  case True
  with inv show ?thesis by (simp add: dep_data_insert_def)
next
  case False
  let ?m = "unit_dep_mask_new mk 0" and ?mi = "unit_dep_mask_new 0 mk"
  obtain t1 where t1: "insert_one_way s r d ?m (dd_t dd) = Some t1"
    using insert_one_way_total by blast
  obtain t2 where t2: "insert_one_way d (unit_relation_to_inverse r) s ?mi t1 = Some t2"
    using insert_one_way_total by blast
  obtain t3 where t3: "insert_one_way s UnitReferences d ?m t2 = Some t3"
    using insert_one_way_total by blast
  obtain t4 where t4: "insert_one_way d UnitReferencedBy s ?mi t3 = Some t4"
    using insert_one_way_total by blast
  let ?t = "if reference then t4 else t2" and ?dd = "dd\<lparr>dd_t := if reference then t4 else t2\<rparr>"
  note rels = dep_rel_insert_one_way[OF t1] dep_rel_insert_one_way[OF t2]
    dep_rel_insert_one_way[OF t3] dep_rel_insert_one_way[OF t4]
  have wf: "dep_wf ?t"
    using inv dep_wf_insert_one_way[OF t1] dep_wf_insert_one_way[OF t2]
      dep_wf_insert_one_way[OF t3] dep_wf_insert_one_way[OF t4]
    by (simp add: dep_inv_def dep_live_def)
  have rel: "dep_rel ?t = dep_rel (dd_t dd) \<union> ({(s, r, d), (d, unit_relation_to_inverse r, s)} \<union>
      (if reference then {(s, UnitReferences, d), (d, UnitReferencedBy, s)} else {}))"
    by (auto simp: rels)
  have live: "dep_live ?dd" using wf inv by (simp add: dep_inv_def dep_live_def)
  have reg': "base_contains (dd_rentry ?dd) s" "base_contains (dd_rentry ?dd) d"
    using reg by simp_all
  obtain dd' where *: "Option.bind (dep_db_update s ?dd) (dep_db_update d) = Some dd'"
      "dd_t dd' = dd_t ?dd" "dd_units dd' = dd_units ?dd" "dep_live dd'"
      "re_base (dd_rentry dd') = re_base (dd_rentry ?dd)"
      "\<And>v. set (dep_get (dd_rentry dd') v) = (if v = s \<or> v = d
         then {(r, x). (v, r, x) \<in> dep_rel (dd_t ?dd)} else set (dep_get (dd_rentry ?dd) v))"
    by (rule dep_db_update_both[OF live reg'], rule that)
  note dd' = *(1-5)[simplified]
  have "dep_data_insert s r d reference mk dd = Some dd'"
    using False t1 t2 t3 t4 dd'(1) by (cases reference) (simp_all add: dep_data_insert_def Let_def)
  moreover have "dep_sym dd'"
    using inv False unfolding dep_inv_def dep_sym_def dd'(2) rel by (auto split: if_splits)
  moreover have "dep_persisted dd'"
    unfolding dep_persisted_def
  proof
    fix v
    have "set (dep_get (dd_rentry dd) v) = {(r, d). (v, r, d) \<in> dep_rel (dd_t dd)}"
      using inv by (simp add: dep_inv_def dep_persisted_def)
    with *(6)[of v] show "set (dep_get (dd_rentry dd') v) = {(r, d). (v, r, d) \<in> dep_rel (dd_t dd')}"
      using dd'(2) rel by (cases "v = s \<or> v = d") simp_all
  qed
  ultimately show ?thesis using dd' False by (intro exI[of _ dd']) (simp add: dep_inv_def rel)
qed

text \<open>
  Removing one dependency drops every dependency whose source is one of the two units:
  the guard \<open>!sv.is_empty()\<close> of \<open>remove_one_way\<close> deletes the entry while it still has
  relations.
\<close>

lemma dep_data_remove_spec:
  assumes "dep_live dd" and "base_contains (dd_rentry dd) s" and "base_contains (dd_rentry dd) d"
  shows "\<exists>dd'. dep_data_remove s r d dd = Some dd' \<and> dep_live dd' \<and>
           dd_units dd' = dd_units dd \<and> re_base (dd_rentry dd') = re_base (dd_rentry dd) \<and>
           dep_rel (dd_t dd') = {(x, q, y) \<in> dep_rel (dd_t dd). x \<noteq> s \<and> x \<noteq> d}"
proof -
  let ?t1 = "remove_one_way s r d (dd_t dd)"
  let ?t2 = "remove_one_way d (unit_relation_to_inverse r) s ?t1"
  have wf: "dep_wf (dd_t dd)" using assms(1) by (simp add: dep_live_def)
  note wf1 = dep_wf_remove_one_way[OF wf, of s r d]
  have rel: "dep_rel ?t2 = {(x, q, y) \<in> dep_rel (dd_t dd). x \<noteq> s \<and> x \<noteq> d}"
    by (auto simp: dep_rel_remove_one_way[OF wf1] dep_rel_remove_one_way[OF wf])
  have live: "dep_live (dd\<lparr>dd_t := ?t2\<rparr>)"
    using assms(1) dep_wf_remove_one_way[OF wf1] by (simp add: dep_live_def)
  have reg: "base_contains (dd_rentry (dd\<lparr>dd_t := ?t2\<rparr>)) s"
      "base_contains (dd_rentry (dd\<lparr>dd_t := ?t2\<rparr>)) d"
    using assms(2,3) by simp_all
  show ?thesis
  proof (rule dep_db_update_both[OF live reg])
    fix dd'
    assume "Option.bind (dep_db_update s (dd\<lparr>dd_t := ?t2\<rparr>)) (dep_db_update d) = Some dd'"
      "dd_t dd' = dd_t (dd\<lparr>dd_t := ?t2\<rparr>)" "dd_units dd' = dd_units (dd\<lparr>dd_t := ?t2\<rparr>)" "dep_live dd'"
      "re_base (dd_rentry dd') = re_base (dd_rentry (dd\<lparr>dd_t := ?t2\<rparr>))"
    then show ?thesis by (intro exI[of _ dd']) (simp add: dep_data_remove_def Let_def rel)
  qed
qed

lemma dep_remove_loop:
  assumes "dep_live dd" and "base_contains (dd_rentry dd) s"
    and "\<And>r d. (r, d) \<in> set rds \<Longrightarrow> base_contains (dd_rentry dd) d"
  shows "\<exists>dd'. for_each (\<lambda>(relation, dest). dep_data_remove s relation dest) rds dd = Some dd' \<and>
           dep_live dd' \<and>
           dep_rel (dd_t dd') = {(x, q, y) \<in> dep_rel (dd_t dd). rds = [] \<or> x \<noteq> s \<and> x \<notin> snd ` set rds}"
  using assms
proof (induction rds arbitrary: dd)
  case Nil
  then show ?case by simp
next
  case (Cons rd rds)
  obtain r d where rd: "rd = (r, d)" by (cases rd)
  from Cons.prems obtain d1 where d1: "dep_data_remove s r d dd = Some d1" "dep_live d1"
      "re_base (dd_rentry d1) = re_base (dd_rentry dd)"
      "dep_rel (dd_t d1) = {(x, q, y) \<in> dep_rel (dd_t dd). x \<noteq> s \<and> x \<noteq> d}"
    using dep_data_remove_spec[of dd s d r] by (auto simp: rd)
  have "base_contains (dd_rentry d1) = base_contains (dd_rentry dd)"
    using d1(3) by (simp add: base_contains_def fun_eq_iff)
  then have reg: "base_contains (dd_rentry d1) s"
    and regs: "\<And>r d. (r, d) \<in> set rds \<Longrightarrow> base_contains (dd_rentry d1) d"
    using Cons.prems(2,3) by (auto intro: Cons.prems(3))
  have "\<exists>dd'. for_each (\<lambda>(relation, dest). dep_data_remove s relation dest) rds d1 = Some dd' \<and>
      dep_live dd' \<and>
      dep_rel (dd_t dd') = {(x, q, y) \<in> dep_rel (dd_t d1). rds = [] \<or> x \<noteq> s \<and> x \<notin> snd ` set rds}"
    by (rule Cons.IH[OF d1(2) reg]) (erule regs)
  then obtain d2
    where "for_each (\<lambda>(relation, dest). dep_data_remove s relation dest) rds d1 = Some d2" "dep_live d2"
      "dep_rel (dd_t d2) = {(x, q, y) \<in> dep_rel (dd_t d1). rds = [] \<or> x \<noteq> s \<and> x \<notin> snd ` set rds}"
    by (elim exE conjE)
  with d1 show ?case by (auto simp: rd)
qed

lemma dep_data_remove_unit_spec:
  assumes inv: "dep_inv dd" and reg: "base_contains (dd_rentry dd) s"
    and nbs: "\<forall>r d. (s, r, d) \<in> dep_rel (dd_t dd) \<longrightarrow> base_contains (dd_rentry dd) d"
  shows "\<exists>dd'. dep_data_remove_unit s dd = Some dd' \<and>
           dep_rel (dd_t dd') =
             {(x, q, y) \<in> dep_rel (dd_t dd). x \<noteq> s \<and> (\<forall>r. (s, r, x) \<notin> dep_rel (dd_t dd))}"
proof (cases "map_of (dd_t dd) s")
  case None
  then have "(s, r, d) \<notin> dep_rel (dd_t dd)" for r d by (simp add: dep_rel_def dep_lookup_def)
  with None show ?thesis by (auto simp: dep_data_remove_unit_def)
next
  case (Some sv)
  let ?rds = "concat (map (\<lambda>(relation, dv). map (\<lambda>(dest, _). (relation, dest)) dv) sv)"
  have live: "dep_live dd" using inv by (simp add: dep_inv_def)
  then have "distinct (map fst sv)" using Some by (auto simp: dep_live_def dest: dep_wf_D)
  then have rds: "(r, d) \<in> set ?rds \<longleftrightarrow> (s, r, d) \<in> dep_rel (dd_t dd)" for r d
    using Some concat_sv_iff[of sv r d] by (cases "map_of sv r") (simp_all add: dep_rel_def dep_lookup_def)
  then have nb: "x \<in> snd ` set ?rds \<longleftrightarrow> (\<exists>r. (s, r, x) \<in> dep_rel (dd_t dd))" for x
    by (force simp del: set_concat simp add: image_iff)
  obtain dd' where
    run: "for_each (\<lambda>(relation, dest). dep_data_remove s relation dest) ?rds dd = Some dd'" and
    rel: "dep_rel (dd_t dd') = {(x, q, y) \<in> dep_rel (dd_t dd). ?rds = [] \<or> x \<noteq> s \<and> x \<notin> snd ` set ?rds}"
    using dep_remove_loop[OF live reg, of ?rds] nbs rds by blast
  have "x \<noteq> s \<and> (\<forall>r. (s, r, x) \<notin> dep_rel (dd_t dd)) \<longleftrightarrow> ?rds = [] \<or> x \<noteq> s \<and> x \<notin> snd ` set ?rds"
    if "(x, q, y) \<in> dep_rel (dd_t dd)" for x q y
    using that rds nb by (metis empty_iff empty_set)
  then have "dep_rel (dd_t dd') =
      {(x, q, y) \<in> dep_rel (dd_t dd). x \<noteq> s \<and> (\<forall>r. (s, r, x) \<notin> dep_rel (dd_t dd))}"
    unfolding rel by blast
  with run Some show ?thesis by (intro exI[of _ dd']) (simp add: dep_data_remove_unit_def)
qed

subsection \<open>Rebuilding the table from the database\<close>

text \<open>The triples one unit's recorded dependencies stand for, in both directions.\<close>

definition dep_edges :: "uid \<Rightarrow> (unit_relations \<times> uid) list \<Rightarrow> (uid \<times> unit_relations \<times> uid) set" where
  "dep_edges s rds =
     (\<lambda>(r, d). (s, r, d)) ` set rds \<union> (\<lambda>(r, d). (d, unit_relation_to_inverse r, s)) ` set rds"

lemma dep_edges_simps [simp]:
  "dep_edges s [] = {}"
  "dep_edges s ((r, d) # rds) = {(s, r, d), (d, unit_relation_to_inverse r, s)} \<union> dep_edges s rds"
  by (auto simp: dep_edges_def)

lemma dep_db_map_one_spec:
  assumes "d \<in> set (dd_units dd)"
  shows "\<exists>dd'. dep_db_map_one s (r, d) dd = Some dd' \<and> dd_units dd' = dd_units dd \<and>
           dd_rentry dd' = dd_rentry dd \<and> (dep_wf (dd_t dd) \<longrightarrow> dep_wf (dd_t dd')) \<and>
           dep_rel (dd_t dd') = dep_rel (dd_t dd) \<union> {(s, r, d), (d, unit_relation_to_inverse r, s)}"
proof -
  let ?m = "unit_dep_mask_new 0 0"
  obtain t1 where t1: "insert_one_way s r d ?m (dd_t dd) = Some t1"
    using insert_one_way_total by blast
  obtain t2 where t2: "insert_one_way d (unit_relation_to_inverse r) s ?m t1 = Some t2"
    using insert_one_way_total by blast
  have "dep_rel t2 = dep_rel (dd_t dd) \<union> {(s, r, d), (d, unit_relation_to_inverse r, s)}"
    using dep_rel_insert_one_way[OF t1] dep_rel_insert_one_way[OF t2] by auto
  then show ?thesis
    using t1 t2 assms dep_wf_insert_one_way[OF t1] dep_wf_insert_one_way[OF t2]
    by (simp add: dep_db_map_one_def Let_def)
qed

lemma dep_db_map_inner:
  assumes "snd ` set rds \<subseteq> set (dd_units dd)"
  shows "\<exists>dd'. for_each (dep_db_map_one s) rds dd = Some dd' \<and> dd_units dd' = dd_units dd \<and>
           dd_rentry dd' = dd_rentry dd \<and> (dep_wf (dd_t dd) \<longrightarrow> dep_wf (dd_t dd')) \<and>
           dep_rel (dd_t dd') = dep_rel (dd_t dd) \<union> dep_edges s rds"
  using assms
proof (induction rds arbitrary: dd)
  case Nil
  then show ?case by simp
next
  case (Cons rd rds)
  obtain r d where rd: "rd = (r, d)" by (cases rd)
  obtain d1 where d1: "dep_db_map_one s (r, d) dd = Some d1" "dd_units d1 = dd_units dd"
      "dd_rentry d1 = dd_rentry dd" "dep_wf (dd_t dd) \<longrightarrow> dep_wf (dd_t d1)"
      "dep_rel (dd_t d1) = dep_rel (dd_t dd) \<union> {(s, r, d), (d, unit_relation_to_inverse r, s)}"
    using dep_db_map_one_spec[of d dd s r] Cons.prems by (auto simp: rd)
  have "snd ` set rds \<subseteq> set (dd_units d1)" using Cons.prems d1(2) by simp
  from Cons.IH[OF this] obtain d2 where "for_each (dep_db_map_one s) rds d1 = Some d2"
      "dd_units d2 = dd_units d1" "dd_rentry d2 = dd_rentry d1"
      "dep_wf (dd_t d1) \<longrightarrow> dep_wf (dd_t d2)"
      "dep_rel (dd_t d2) = dep_rel (dd_t d1) \<union> dep_edges s rds"
    by (elim exE conjE)
  with d1 show ?case by (intro exI[of _ d2]) (simp add: rd Un_assoc)
qed

lemma dep_db_map_outer:
  assumes "set ks \<subseteq> set (dd_units dd)"
    and "\<And>s. s \<in> set ks \<Longrightarrow> snd ` set (dep_get (dd_rentry dd) s) \<subseteq> set (dd_units dd)"
  shows "\<exists>dd'. for_each (\<lambda>source dd. do {
             rust_assert (source \<in> set (dd_units dd));
             for_each (dep_db_map_one source) (dep_get (dd_rentry dd) source) dd
           }) ks dd = Some dd' \<and> dd_units dd' = dd_units dd \<and>
           dd_rentry dd' = dd_rentry dd \<and> (dep_wf (dd_t dd) \<longrightarrow> dep_wf (dd_t dd')) \<and>
           dep_rel (dd_t dd') = dep_rel (dd_t dd) \<union> (\<Union>s\<in>set ks. dep_edges s (dep_get (dd_rentry dd) s))"
  using assms
proof (induction ks arbitrary: dd)
  case Nil
  then show ?case by simp
next
  case (Cons k ks)
  have k: "snd ` set (dep_get (dd_rentry dd) k) \<subseteq> set (dd_units dd)" using Cons.prems(2) by simp
  from dep_db_map_inner[OF k, of k] obtain d1
    where d1: "for_each (dep_db_map_one k) (dep_get (dd_rentry dd) k) dd = Some d1"
      "dd_units d1 = dd_units dd" "dd_rentry d1 = dd_rentry dd"
      "dep_wf (dd_t dd) \<longrightarrow> dep_wf (dd_t d1)"
      "dep_rel (dd_t d1) = dep_rel (dd_t dd) \<union> dep_edges k (dep_get (dd_rentry dd) k)"
    by (elim exE conjE)
  have "set ks \<subseteq> set (dd_units d1)"
    and "\<And>s. s \<in> set ks \<Longrightarrow> snd ` set (dep_get (dd_rentry d1) s) \<subseteq> set (dd_units d1)"
    using Cons.prems d1(2,3) by simp_all
  from Cons.IH[OF this] Cons.prems(1) show ?case using d1 by (simp add: rust_assert_def Un_assoc) blast
qed

lemma dep_get_in_keys: "dep_get r s \<noteq> [] \<Longrightarrow> s \<in> set (dep_keys r)"
  by (auto simp: dep_get_def dep_keys_def redb_defs intro: rev_image_eqI dest: map_of_SomeD
      split: option.splits)

text \<open>
  Crash recovery: clearing the table and rebuilding it from the database gives the same
  relation back, and the result satisfies the invariant again.
\<close>

lemma dep_db_map_restores:
  assumes inv: "dep_inv dd" and keys: "set (dep_keys (dd_rentry dd)) \<subseteq> set (dd_units dd)"
  shows "\<exists>dd'. dep_db_map (dep_data_clear dd) = Some dd' \<and> dep_inv dd' \<and>
           dep_rel (dd_t dd') = dep_rel (dd_t dd)"
proof -
  let ?dd = "dep_data_clear dd"
  have p: "(r, d) \<in> set (dep_get (dd_rentry dd) s) \<longleftrightarrow> (s, r, d) \<in> dep_rel (dd_t dd)" for s r d
    using inv by (simp add: dep_inv_def dep_persisted_def)
  have sym: "(d, unit_relation_to_inverse r, s) \<in> dep_rel (dd_t dd)"
    if "(s, r, d) \<in> dep_rel (dd_t dd)" for s r d
    using inv that by (simp add: dep_inv_def dep_sym_def)
  have key: "s \<in> set (dep_keys (dd_rentry dd))" if "(s, r, d) \<in> dep_rel (dd_t dd)" for s r d
    using p[of r d s] that by (intro dep_get_in_keys) auto
  have k1: "set (dep_keys (dd_rentry dd)) \<subseteq> set (dd_units ?dd)"
    using keys by (simp add: dep_data_clear_def)
  have k2: "snd ` set (dep_get (dd_rentry ?dd) s) \<subseteq> set (dd_units ?dd)" for s
    using keys key sym p by (fastforce simp: dep_data_clear_def)
  have frame: "dd_rentry ?dd = dd_rentry dd" "dep_rel (dd_t ?dd) = {}" "dep_wf (dd_t ?dd)"
    by (simp_all add: dep_data_clear_def dep_rel_def dep_lookup_def dep_wf_def)
  from dep_db_map_outer[OF k1 k2] obtain dd' where
    run: "dep_db_map ?dd = Some dd'" and re: "dd_rentry dd' = dd_rentry dd"
    and wf: "dep_wf (dd_t ?dd) \<longrightarrow> dep_wf (dd_t dd')"
    and rel: "dep_rel (dd_t dd') =
      (\<Union>s\<in>set (dep_keys (dd_rentry dd)). dep_edges s (dep_get (dd_rentry dd) s))"
    unfolding dep_db_map_def frame(1,2) Un_empty_left by (elim exE conjE)
  have same: "dep_rel (dd_t dd') = dep_rel (dd_t dd)"
  proof (intro equalityI subsetI)
    fix x
    assume "x \<in> dep_rel (dd_t dd')"
    then show "x \<in> dep_rel (dd_t dd)" unfolding rel dep_edges_def using p sym by auto
  next
    fix x
    assume "x \<in> dep_rel (dd_t dd)"
    moreover obtain s r d where "x = (s, r, d)" by (cases x)
    ultimately show "x \<in> dep_rel (dd_t dd')"
      unfolding rel dep_edges_def using p[of r d s] key[of s r d] by force
  qed
  have "dep_inv dd'"
    using inv re wf frame(3) by (simp add: dep_inv_def dep_live_def dep_sym_def dep_persisted_def same)
  with run same show ?thesis by blast
qed

subsection \<open>Properties\<close>

text \<open>A data set with three registered units, for the witnesses.\<close>

definition ex_deps :: "nat unit_dep_data" where
  "ex_deps = dep_data_new (base_insert ''a.service'' UnitService
      (base_insert ''b.service'' UnitService (base_insert ''c.service'' UnitService (unit_re_new (\<lambda>_. 0)))))
      [''a.service'', ''b.service'', ''c.service'']"

lemma ex_deps_inv: "dep_inv ex_deps"
  by (simp add: ex_deps_def dep_data_new_def dep_inv_def dep_live_def dep_sym_def dep_persisted_def dep_wf_def
      dep_rel_def dep_lookup_def dep_get_def base_insert_def unit_re_new_def redb_new_def redb_get_def)

lemma ex_deps_base:
  "base_contains (dd_rentry ex_deps) ''a.service''" "base_contains (dd_rentry ex_deps) ''b.service''"
  "base_contains (dd_rentry ex_deps) ''c.service''"
  by (simp_all add: ex_deps_def dep_data_new_def base_insert_def unit_re_new_def redb_defs base_contains_def)

lemma ex_deps_keys: "set (dep_keys (dd_rentry ex_deps)) \<subseteq> set (dd_units ex_deps)"
  by (simp add: ex_deps_def dep_data_new_def base_insert_def unit_re_new_def redb_defs dep_keys_def)

text \<open>
  C13: inserting a dependency between two registered units never panics, adds exactly the
  dependency and its inverse (and the pair of reference relations when asked for), and
  keeps the table symmetric, irreflexive and equal to its copy in the database. A
  dependency of a unit on itself changes nothing.
\<close>

theorem unit_dep_insert_correct:
  assumes "dep_inv dd" and "base_contains (dd_rentry dd) s" and "base_contains (dd_rentry dd) d"
  shows "\<exists>dd'. unit_dep_insert s r d reference mk dd = Some (Inr (), dd') \<and> dep_inv dd' \<and>
           dep_rel (dd_t dd') = dep_rel (dd_t dd) \<union>
             (if s = d then {}
              else {(s, r, d), (d, unit_relation_to_inverse r, s)} \<union>
                   (if reference then {(s, UnitReferences, d), (d, UnitReferencedBy, s)} else {}))"
  using dep_data_insert_spec[OF assms, of r reference mk]
  by (auto simp: unit_dep_insert_def dep_check_def)

theorem unit_dep_insert_correct_witness:
  "\<exists>dd'. unit_dep_insert ''a.service'' UnitRequires ''b.service'' True 0 ex_deps = Some (Inr (), dd') \<and>
     (''b.service'', UnitRequiresBy, ''a.service'') \<in> dep_rel (dd_t dd')"
  using unit_dep_insert_correct[OF ex_deps_inv ex_deps_base(1,2), of UnitRequires True 0] by force

text \<open>
  after a restart the dependency table is rebuilt from the database: clearing it and
  replaying the recorded dependencies restores the same relation and the invariant.
\<close>

theorem unit_dep_recovery:
  assumes "dep_inv dd" and "set (dep_keys (dd_rentry dd)) \<subseteq> set (dd_units dd)"
  shows "\<exists>dd'. dep_db_map (dep_data_clear dd) = Some dd' \<and> dep_inv dd' \<and>
           dep_rel (dd_t dd') = dep_rel (dd_t dd)"
  by (rule dep_db_map_restores[OF assms])

theorem unit_dep_recovery_witness:
  "\<exists>dd'. dep_db_map (dep_data_clear ex_deps) = Some dd' \<and> dep_rel (dd_t dd') = dep_rel (dd_t ex_deps)"
  using unit_dep_recovery[OF ex_deps_inv ex_deps_keys] by blast

text \<open>
  C23: removing one dependency drops every dependency of both units. The entry of a unit is
  deleted as soon as it still has relations, the opposite of what its comment asks for.
\<close>

theorem unit_dep_remove_drops_all:
  assumes "dep_live dd" and "base_contains (dd_rentry dd) s" and "base_contains (dd_rentry dd) d"
  shows "\<exists>dd'. dep_data_remove s r d dd = Some dd' \<and>
           dep_rel (dd_t dd') = {(x, q, y) \<in> dep_rel (dd_t dd). x \<noteq> s \<and> x \<noteq> d}"
  using dep_data_remove_spec[OF assms, of r] by blast

theorem unit_dep_remove_drops_all_witness:
  "\<exists>dd1 dd2 dd3. dep_data_insert ''a.service'' UnitRequires ''b.service'' False 0 ex_deps = Some dd1 \<and>
     dep_data_insert ''a.service'' UnitWants ''c.service'' False 0 dd1 = Some dd2 \<and>
     dep_data_remove ''a.service'' UnitRequires ''b.service'' dd2 = Some dd3 \<and>
     (''a.service'', UnitWants, ''c.service'') \<in> dep_rel (dd_t dd2) \<and>
     (''a.service'', UnitWants, ''c.service'') \<notin> dep_rel (dd_t dd3) \<and>
     (''c.service'', UnitWantsBy, ''a.service'') \<in> dep_rel (dd_t dd3)"
proof -
  from dep_data_insert_spec[OF ex_deps_inv ex_deps_base(1,2), of UnitRequires False 0] obtain dd1 where d1:
    "dep_data_insert ''a.service'' UnitRequires ''b.service'' False 0 ex_deps = Some dd1" "dep_inv dd1"
    "re_base (dd_rentry dd1) = re_base (dd_rentry ex_deps)" by blast
  then have b1: "base_contains (dd_rentry dd1) = base_contains (dd_rentry ex_deps)"
    by (simp add: base_contains_def fun_eq_iff)
  from dep_data_insert_spec[OF d1(2), of "''a.service''" "''c.service''" UnitWants False 0] ex_deps_base
  obtain dd2 where d2: "dep_data_insert ''a.service'' UnitWants ''c.service'' False 0 dd1 = Some dd2" "dep_inv dd2"
    "re_base (dd_rentry dd2) = re_base (dd_rentry dd1)"
    "dep_rel (dd_t dd2) = dep_rel (dd_t dd1) \<union>
       {(''a.service'', UnitWants, ''c.service''), (''c.service'', UnitWantsBy, ''a.service'')}"
    by (auto simp: b1)
  then have b2: "base_contains (dd_rentry dd2) = base_contains (dd_rentry ex_deps)"
    using b1 by (simp add: base_contains_def fun_eq_iff)
  from unit_dep_remove_drops_all[of dd2 "''a.service''" "''b.service''" UnitRequires] d2(2) ex_deps_base
  obtain dd3 where "dep_data_remove ''a.service'' UnitRequires ''b.service'' dd2 = Some dd3"
    "dep_rel (dd_t dd3) = {(x, q, y) \<in> dep_rel (dd_t dd2). x \<noteq> ''a.service'' \<and> x \<noteq> ''b.service''}"
    by (auto simp: b2 dep_inv_def)
  with d1(1) d2(1,4) show ?thesis by (intro exI[of _ dd1] exI[of _ dd2] exI[of _ dd3]) simp
qed

text \<open>
  when a unit leaves the unit set, no dependency from it or to it remains.
\<close>

theorem unit_dep_remove_unit_complete:
  assumes "dep_inv dd" and "base_contains (dd_rentry dd) s"
    and "\<forall>r d. (s, r, d) \<in> dep_rel (dd_t dd) \<longrightarrow> base_contains (dd_rentry dd) d"
  shows "\<exists>dd'. unit_dep_notify (TableRemove s u) dd = Some dd' \<and>
           (\<forall>r d. (s, r, d) \<notin> dep_rel (dd_t dd') \<and> (d, r, s) \<notin> dep_rel (dd_t dd'))"
proof -
  from dep_data_remove_unit_spec[OF assms] obtain dd' where dd': "dep_data_remove_unit s dd = Some dd'"
    "dep_rel (dd_t dd') = {(x, q, y) \<in> dep_rel (dd_t dd). x \<noteq> s \<and> (\<forall>r. (s, r, x) \<notin> dep_rel (dd_t dd))}"
    by blast
  have "(d, r, s) \<notin> dep_rel (dd_t dd')" for r d
    using assms(1) unfolding dd'(2) dep_inv_def dep_sym_def by blast
  with dd' show ?thesis by (simp add: unit_dep_notify_def)
qed

theorem unit_dep_remove_unit_complete_witness:
  "\<exists>dd'. unit_dep_notify (TableRemove ''a.service'' ()) ex_deps = Some dd' \<and>
     (\<forall>r d. (d, r, ''a.service'') \<notin> dep_rel (dd_t dd'))"
proof -
  have "(s, r, d) \<notin> dep_rel (dd_t ex_deps)" for s r d
    by (simp add: ex_deps_def dep_data_new_def dep_rel_def dep_lookup_def)
  with unit_dep_remove_unit_complete[OF ex_deps_inv ex_deps_base(1), of "()"] show ?thesis by blast
qed

end
