(* ===== verification/Job_Entry.thy ===== *)
theory Job_Entry
  imports Unit_Rentry
begin

section \<open>Jobs (core/bin/job/rentry.rs and core/bin/job/entry.rs)\<close>

text \<open>
  A job asks for one operation on one unit. It goes through the stages \<open>Init\<close>, \<open>Wait\<close>
  (queued, recorded in the \<open>suspends\<close> database), \<open>Running\<close> (triggered, recorded in the
  \<open>trigger\<close> database) and \<open>End\<close>. Jobs are shared by reference (\<open>Rc<Job>\<close>) between the
  tables, so they live in a heap addressed by their id, which \<open>JobAlloc\<close> makes unique.

  The unit a job acts on is behind \<open>dyn SubUnit\<close>: what \<open>start\<close>, \<open>stop\<close> and \<open>reload\<close> do
  is the parameter \<open>act\<close> of the definitions, which returns the result of the call, the
  state notifications the call makes and the new state of the units.
\<close>

subsection \<open>Kinds\<close>

datatype job_kind =
    Start | Stop | Reload | Restart | Verify | Nop
  | TryReload | TryRestart | ReloadOrStart

fun job_is_basic_op :: "job_kind \<Rightarrow> bool" where
  "job_is_basic_op TryReload = False"
| "job_is_basic_op TryRestart = False"
| "job_is_basic_op ReloadOrStart = False"
| "job_is_basic_op _ = True"

definition job_kinds :: "job_kind list" where
  "job_kinds = [Start, Stop, Reload, Restart, Verify, Nop, TryReload, TryRestart, ReloadOrStart]"

lemma set_job_kinds [simp]: "set job_kinds = UNIV"
  by (auto simp: job_kinds_def intro: job_kind.exhaust)

lemma distinct_job_kinds [simp]: "distinct job_kinds"
  by (simp add: job_kinds_def)

subsection \<open>Attributes\<close>

record job_attr =
  ignore_order :: bool
  irreversible :: bool
  force :: bool
  no_relevancy :: bool

definition job_attr_new :: "bool \<Rightarrow> bool \<Rightarrow> bool \<Rightarrow> bool \<Rightarrow> job_attr" where
  "job_attr_new io ir fo nr = \<lparr>ignore_order = io, irreversible = ir, force = fo, no_relevancy = nr\<rparr>"

definition job_attr_or :: "job_attr \<Rightarrow> job_attr \<Rightarrow> job_attr" where
  "job_attr_or a b =
     \<lparr>ignore_order = ignore_order a \<or> ignore_order b, irreversible = irreversible a \<or> irreversible b,
      force = force a \<or> force b, no_relevancy = no_relevancy a \<or> no_relevancy b\<rparr>"

text \<open>Merging attributes is a semilattice: order and repetition of merges do not matter.\<close>

interpretation job_attr_or: semilattice job_attr_or
  by unfold_locales (auto simp: job_attr_or_def)

lemma job_attr_or_sel [simp]:
  "ignore_order (job_attr_or a b) \<longleftrightarrow> ignore_order a \<or> ignore_order b"
  "irreversible (job_attr_or a b) \<longleftrightarrow> irreversible a \<or> irreversible b"
  "force (job_attr_or a b) \<longleftrightarrow> force a \<or> force b"
  "no_relevancy (job_attr_or a b) \<longleftrightarrow> no_relevancy a \<or> no_relevancy b"
  by (simp_all add: job_attr_or_def)

subsection \<open>The job databases\<close>

record 'd job_re =
  jre_trigger :: "('d, uid, job_kind \<times> job_attr) redb"
  jre_suspends :: "('d, uid \<times> job_kind, job_attr) redb"

definition job_re_new :: "(string \<Rightarrow> 'd) \<Rightarrow> 'd job_re" where
  "job_re_new open_db =
     \<lparr>jre_trigger = redb_new (open_db ''jtrigger''), jre_suspends = redb_new (open_db ''jsuspends'')\<rparr>"

definition trigger_insert :: "uid \<Rightarrow> job_kind \<Rightarrow> job_attr \<Rightarrow> 'd job_re \<Rightarrow> 'd job_re option" where
  "trigger_insert u kind attr r = do {
     rust_assert (job_is_basic_op kind);
     Some (r\<lparr>jre_trigger := redb_insert u (kind, attr) (jre_trigger r)\<rparr>)
   }"

definition trigger_remove :: "uid \<Rightarrow> 'd job_re \<Rightarrow> 'd job_re" where
  "trigger_remove u r = r\<lparr>jre_trigger := redb_remove u (jre_trigger r)\<rparr>"

definition trigger_get :: "'d job_re \<Rightarrow> uid \<Rightarrow> (job_kind \<times> job_attr) option" where
  "trigger_get r u = redb_get (jre_trigger r) u"

definition trigger_keys :: "'d job_re \<Rightarrow> uid list" where
  "trigger_keys r = redb_keys (jre_trigger r)"

definition trigger_entries :: "'d job_re \<Rightarrow> (uid \<times> job_kind \<times> job_attr) list" where
  "trigger_entries r = redb_entries (jre_trigger r)"

definition suspends_insert :: "uid \<Rightarrow> job_kind \<Rightarrow> job_attr \<Rightarrow> 'd job_re \<Rightarrow> 'd job_re option" where
  "suspends_insert u kind attr r = do {
     rust_assert (job_is_basic_op kind);
     Some (r\<lparr>jre_suspends := redb_insert (u, kind) attr (jre_suspends r)\<rparr>)
   }"

definition suspends_remove :: "uid \<Rightarrow> job_kind \<Rightarrow> 'd job_re \<Rightarrow> 'd job_re" where
  "suspends_remove u kind r = r\<lparr>jre_suspends := redb_remove (u, kind) (jre_suspends r)\<rparr>"

definition suspends_get :: "'d job_re \<Rightarrow> uid \<Rightarrow> job_kind \<Rightarrow> job_attr option" where
  "suspends_get r u kind = redb_get (jre_suspends r) (u, kind)"

definition suspends_entries :: "'d job_re \<Rightarrow> (uid \<times> job_kind \<times> job_attr) list" where
  "suspends_entries r = map (\<lambda>((u, kind), attr). (u, kind, attr)) (redb_entries (jre_suspends r))"

lemmas job_re_defs =
  trigger_insert_def trigger_remove_def trigger_get_def trigger_keys_def trigger_entries_def
  suspends_insert_def suspends_remove_def suspends_get_def suspends_entries_def

subsection \<open>Results and stages\<close>

datatype job_result =
    Done | Cancelled | TimeOut | Failed | Dependency | Skipped | Invalid | Assert
  | UnSupported | Collected | Once | Merged

datatype job_stage = Init | Wait | Running | End job_result

subsection \<open>The units as the jobs see them\<close>

record unit_env =
  u_active_state :: "uid \<Rightarrow> unit_active_state"
  u_config :: "uid \<Rightarrow> ue_config_unit"
  u_perpetual :: "uid \<Rightarrow> bool"
  u_can_start :: "uid \<Rightarrow> bool"
  u_can_stop :: "uid \<Rightarrow> bool"
  u_can_reload :: "uid \<Rightarrow> bool"

datatype unit_action = ActStart | ActStop bool | ActReload

record unit_state_note =
  note_unit :: uid
  note_os :: unit_active_state
  note_ns :: unit_active_state
  note_flags :: unit_notify_flags

type_synonym unit_act =
  "uid \<Rightarrow> unit_action \<Rightarrow> unit_env \<Rightarrow> (error + unit) \<times> unit_state_note list \<times> unit_env"

subsection \<open>Job configuration\<close>

record job_conf =
  jc_unit :: uid
  jc_kind :: job_kind

definition job_conf_new :: "uid \<Rightarrow> job_kind \<Rightarrow> job_conf" where
  "job_conf_new u kind = \<lparr>jc_unit = u, jc_kind = kind\<rparr>"

definition job_merge_unit :: "job_kind \<Rightarrow> unit_active_state \<Rightarrow> job_kind" where
  "job_merge_unit kind st =
     (case (kind, is_active_or_reloading st) of
        (TryReload, False) \<Rightarrow> Nop
      | (TryReload, True) \<Rightarrow> Reload
      | (TryRestart, False) \<Rightarrow> Nop
      | (TryRestart, True) \<Rightarrow> Restart
      | (ReloadOrStart, False) \<Rightarrow> Start
      | (ReloadOrStart, True) \<Rightarrow> Reload
      | (k, _) \<Rightarrow> k)"

definition job_conf_map :: "unit_env \<Rightarrow> job_conf \<Rightarrow> job_conf" where
  "job_conf_map ue input =
     job_conf_new (jc_unit input) (job_merge_unit (jc_kind input) (u_active_state ue (jc_unit input)))"

lemma job_merge_unit_basic [simp]: "job_is_basic_op (job_merge_unit kind st)"
  by (cases kind; cases "is_active_or_reloading st") (simp_all add: job_merge_unit_def)

lemma job_merge_unit_id [simp]: "job_is_basic_op kind \<Longrightarrow> job_merge_unit kind st = kind"
  by (cases kind) (simp_all add: job_merge_unit_def)

subsection \<open>Run kinds\<close>

definition job_rkind_new :: "job_kind \<Rightarrow> job_kind" where
  "job_rkind_new kind = (case kind of Restart \<Rightarrow> Stop | _ \<Rightarrow> kind)"

definition job_rkind_map :: "job_kind \<Rightarrow> job_kind \<Rightarrow> job_kind" where
  "job_rkind_map kind last_rkind =
     (case (kind, last_rkind) of
        (Restart, Stop) \<Rightarrow> Start
      | (Restart, Start) \<Rightarrow> Start
      | _ \<Rightarrow> kind)"

text \<open>
  The run kinds a job of some kind goes through: a restart first stops and then starts,
  every other kind runs as itself.
\<close>

definition rkind_ok :: "job_kind \<Rightarrow> job_kind \<Rightarrow> bool" where
  "rkind_ok kind rk \<longleftrightarrow> (if kind = Restart then rk = Stop \<or> rk = Start else rk = kind)"

lemma rkind_ok_new [simp]: "rkind_ok kind (job_rkind_new kind)"
  by (cases kind) (simp_all add: rkind_ok_def job_rkind_new_def)

lemma rkind_ok_map [simp]: "rkind_ok kind rk \<Longrightarrow> rkind_ok kind (job_rkind_map kind rk)"
  by (auto simp: rkind_ok_def job_rkind_map_def split: if_splits job_kind.splits)

lemma rkind_map_changes:
  "rkind_ok kind rk \<Longrightarrow> job_rkind_map kind rk \<noteq> rk \<longleftrightarrow> kind = Restart \<and> rk = Stop"
  by (cases kind; cases rk) (simp_all add: rkind_ok_def job_rkind_map_def)

lemma rkind_ok_runnable:
  "job_is_basic_op kind \<Longrightarrow> rkind_ok kind rk \<Longrightarrow> rk \<in> {Start, Stop, Reload, Verify, Nop}"
  by (cases kind) (auto simp: rkind_ok_def)

subsection \<open>What a unit state change means for the triggered job\<close>

fun job_process_unit_start :: "unit_active_state \<Rightarrow> job_result option \<times> bool" where
  "job_process_unit_start UnitActive = (Some Done, True)"
| "job_process_unit_start UnitActivating = (None, True)"
| "job_process_unit_start UnitInActive = (Some Done, False)"
| "job_process_unit_start UnitFailed = (Some Failed, False)"
| "job_process_unit_start UnitReloading = (None, False)"
| "job_process_unit_start UnitDeActivating = (None, False)"
| "job_process_unit_start UnitMaintenance = (None, False)"

fun job_process_unit_stop :: "unit_active_state \<Rightarrow> job_result option \<times> bool" where
  "job_process_unit_stop UnitInActive = (Some Done, True)"
| "job_process_unit_stop UnitFailed = (Some Done, True)"
| "job_process_unit_stop UnitDeActivating = (None, True)"
| "job_process_unit_stop UnitActive = (Some Failed, False)"
| "job_process_unit_stop UnitReloading = (Some Failed, False)"
| "job_process_unit_stop UnitActivating = (Some Failed, False)"
| "job_process_unit_stop UnitMaintenance = (Some Failed, False)"

definition job_process_unit_reload ::
  "unit_active_state \<Rightarrow> unit_notify_flags \<Rightarrow> job_result option \<times> bool" where
  "job_process_unit_reload ns flags =
     (let result = (if flags_intersects flags UNIT_NOTIFY_RELOAD_FAILURE then Failed else Done)
      in case ns of
           UnitActive \<Rightarrow> (Some result, True)
         | UnitReloading \<Rightarrow> (None, True)
         | UnitInActive \<Rightarrow> (Some Done, False)
         | UnitFailed \<Rightarrow> (Some Failed, False)
         | UnitActivating \<Rightarrow> (None, False)
         | UnitDeActivating \<Rightarrow> (None, False)
         | UnitMaintenance \<Rightarrow> (None, False))"

definition job_process_unit ::
  "job_kind \<Rightarrow> unit_active_state \<Rightarrow> unit_notify_flags \<Rightarrow> (job_result option \<times> bool) option" where
  "job_process_unit run_kind ns flags =
     (case run_kind of
        Start \<Rightarrow> Some (job_process_unit_start ns)
      | Stop \<Rightarrow> Some (job_process_unit_stop ns)
      | Reload \<Rightarrow> Some (job_process_unit_reload ns flags)
      | _ \<Rightarrow> None)"

definition job_is_unit_applicable :: "job_kind \<Rightarrow> uid \<Rightarrow> unit_env \<Rightarrow> bool" where
  "job_is_unit_applicable kind u ue =
     (case kind of
        Start \<Rightarrow> True
      | Verify \<Rightarrow> True
      | Nop \<Rightarrow> True
      | Stop \<Rightarrow> \<not> u_perpetual ue u
      | Restart \<Rightarrow> u_can_start ue u \<and> u_can_stop ue u
      | TryRestart \<Rightarrow> u_can_start ue u \<and> u_can_stop ue u
      | Reload \<Rightarrow> u_can_reload ue u
      | TryReload \<Rightarrow> u_can_reload ue u
      | ReloadOrStart \<Rightarrow> u_can_start ue u \<and> u_can_reload ue u)"

fun job_trigger_err_to_result :: "error \<Rightarrow> job_result option" where
  "job_trigger_err_to_result UnitActionEAgain = None"
| "job_trigger_err_to_result UnitActionEAlready = Some Done"
| "job_trigger_err_to_result UnitActionEComm = Some Done"
| "job_trigger_err_to_result UnitActionEBadR = Some Skipped"
| "job_trigger_err_to_result UnitActionENoExec = Some Invalid"
| "job_trigger_err_to_result UnitActionEProto = Some Assert"
| "job_trigger_err_to_result UnitActionEOpNotSupp = Some UnSupported"
| "job_trigger_err_to_result UnitActionENolink = Some Dependency"
| "job_trigger_err_to_result UnitActionEStale = Some Once"
| "job_trigger_err_to_result UnitActionEFailed = Some Failed"
| "job_trigger_err_to_result UnitActionEInval = Some Failed"
| "job_trigger_err_to_result UnitActionEBusy = Some Failed"
| "job_trigger_err_to_result UnitActionENoent = Some Failed"
| "job_trigger_err_to_result UnitActionECanceled = Some Failed"
| "job_trigger_err_to_result _ = Some Skipped"

subsection \<open>Ordering of two jobs\<close>

text \<open>The result is an \<open>i8\<close> that is always -1, 0 or 1.\<close>

function job_order_compare :: "job_kind \<Rightarrow> job_kind \<Rightarrow> unit_relation_atom \<Rightarrow> int" where
  "job_order_compare rk_a rk_b atom =
     (if rk_a = Nop \<or> rk_b = Nop then 0
      else if atom = UnitAtomAfter then - job_order_compare rk_b rk_a UnitAtomBefore
      else (case rk_b of Stop \<Rightarrow> 1 | _ \<Rightarrow> -1))"
  by pat_completeness auto
termination
  by (relation "measure (\<lambda>(a, b, atom). if atom = UnitAtomAfter then 1 else 0)") auto

declare job_order_compare.simps [simp del]

lemma job_order_compare_cases:
  "job_order_compare a b UnitAtomBefore =
     (if a = Nop \<or> b = Nop then 0 else if b = Stop then 1 else -1)"
  "job_order_compare a b UnitAtomAfter =
     (if a = Nop \<or> b = Nop then 0 else if a = Stop then -1 else 1)"
  by (simp_all add: job_order_compare.simps[of a b] job_order_compare.simps[of b a UnitAtomBefore]
      split: job_kind.split)

lemma job_order_compare_bounds: "job_order_compare a b atom \<in> {-1, 0, 1}"
proof (cases "atom = UnitAtomAfter")
  case True
  then show ?thesis by (simp add: job_order_compare_cases)
next
  case False
  then show ?thesis by (simp add: job_order_compare.simps[of a b atom] split: job_kind.split)
qed

text \<open>Looking at the pair from the other side with the opposite relation flips the sign.\<close>

lemma job_order_compare_antisym:
  "job_order_compare a b UnitAtomAfter = - job_order_compare b a UnitAtomBefore"
  by (simp add: job_order_compare_cases)

end
