(* ===== verification/Job_State.thy ===== *)
theory Job_State
  imports Job_Entry
begin

section \<open>The life of a job (core/bin/job/entry.rs) and its allocation (core/bin/job/alloc.rs)\<close>

text \<open>
  \<open>job_env\<close> is the state that the methods of \<open>Job\<close> change: the heap of jobs, the job
  databases, the units, the last unit recorded for recovery, the timers armed so far and
  the unit notifications that a triggered action made and the job manager has not yet seen.
\<close>

subsection \<open>State\<close>

record job =
  jb_id :: u32
  jb_time_usec :: u64
  jb_unit :: uid
  jb_kind :: job_kind
  jb_attr :: job_attr
  jb_run_kind :: job_kind
  jb_stage :: job_stage

record job_alloc_data =
  ja_ids :: "u32 set"
  ja_last_id :: u32

record 'd job_env =
  je_jobs :: "u32 \<rightharpoonup> job"
  je_alloc :: job_alloc_data
  je_re :: "'d job_re"
  je_units :: unit_env
  je_last_unit :: "uid option"
  je_timers :: "(u32 \<times> u64) list"
  je_notes :: "unit_state_note list"

record job_info =
  ji_id :: u32
  ji_unit :: uid
  ji_kind :: job_kind
  ji_attr :: job_attr
  ji_run_kind :: job_kind
  ji_stage :: job_stage

definition job_info_map :: "job \<Rightarrow> job_info" where
  "job_info_map jb =
     \<lparr>ji_id = jb_id jb, ji_unit = jb_unit jb, ji_kind = jb_kind jb, ji_attr = jb_attr jb,
      ji_run_kind = jb_run_kind jb, ji_stage = jb_stage jb\<rparr>"

definition job_new :: "u32 \<Rightarrow> uid \<Rightarrow> job_kind \<Rightarrow> job" where
  "job_new jid u kind =
     \<lparr>jb_id = jid, jb_time_usec = 0, jb_unit = u, jb_kind = kind,
      jb_attr = job_attr_new False False False False, jb_run_kind = job_rkind_new kind, jb_stage = Init\<rparr>"

definition put_job :: "u32 \<Rightarrow> job \<Rightarrow> 'd job_env \<Rightarrow> 'd job_env" where
  "put_job j jb e = e\<lparr>je_jobs := (je_jobs e)(j \<mapsto> jb)\<rparr>"

lemma put_job_sel [simp]:
  "je_jobs (put_job j jb e) = (je_jobs e)(j \<mapsto> jb)"
  "je_alloc (put_job j jb e) = je_alloc e" "je_re (put_job j jb e) = je_re e"
  "je_units (put_job j jb e) = je_units e" "je_last_unit (put_job j jb e) = je_last_unit e"
  "je_timers (put_job j jb e) = je_timers e" "je_notes (put_job j jb e) = je_notes e"
  by (simp_all add: put_job_def)

subsection \<open>Allocation\<close>

definition job_alloc_new :: job_alloc_data where
  "job_alloc_new = \<lparr>ja_ids = {}, ja_last_id = 0\<rparr>"

definition job_alloc_clear :: "job_alloc_data \<Rightarrow> job_alloc_data" where
  "job_alloc_clear a = a\<lparr>ja_ids := {}, ja_last_id := 0\<rparr>"

text \<open>The loop of \<open>alloc_id\<close>; it does not return when every id is taken.\<close>

partial_function (option) alloc_id :: "job_alloc_data \<Rightarrow> (u32 \<times> job_alloc_data) option" where
  "alloc_id a = (
     let jid = ja_last_id a + 1;
         a' = a\<lparr>ja_last_id := jid\<rparr>
     in if jid \<in> ja_ids a then alloc_id a' else Some (jid, a'\<lparr>ja_ids := insert jid (ja_ids a)\<rparr>))"

definition job_set_timer :: "unit_env \<Rightarrow> job \<Rightarrow> job" where
  "job_set_timer ue jb =
     (let sec = JobTimeoutSec (u_config ue (jb_unit jb))
      in if sec = 0 then jb else jb\<lparr>jb_time_usec := sec * 1000000\<rparr>)"

definition job_alloc :: "job_conf \<Rightarrow> 'd job_env \<Rightarrow> (u32 \<times> 'd job_env) option" where
  "job_alloc conf e = do {
     (jid, a') \<leftarrow> alloc_id (je_alloc e);
     let jb = job_set_timer (je_units e) (job_new jid (jc_unit conf) (jc_kind conf));
     Some (jid, put_job jid jb (e\<lparr>je_alloc := a'\<rparr>))
   }"

subsection \<open>Methods of Job\<close>

definition rentry_trigger_insert :: "job \<Rightarrow> 'd job_env \<Rightarrow> 'd job_env option" where
  "rentry_trigger_insert jb e =
     map_option (\<lambda>re. e\<lparr>je_re := re\<rparr>) (trigger_insert (jb_unit jb) (jb_kind jb) (jb_attr jb) (je_re e))"

definition rentry_trigger_remove :: "job \<Rightarrow> 'd job_env \<Rightarrow> 'd job_env" where
  "rentry_trigger_remove jb e = e\<lparr>je_re := trigger_remove (jb_unit jb) (je_re e)\<rparr>"

definition rentry_suspends_insert :: "job \<Rightarrow> 'd job_env \<Rightarrow> 'd job_env option" where
  "rentry_suspends_insert jb e =
     map_option (\<lambda>re. e\<lparr>je_re := re\<rparr>) (suspends_insert (jb_unit jb) (jb_kind jb) (jb_attr jb) (je_re e))"

definition rentry_suspends_remove :: "job \<Rightarrow> 'd job_env \<Rightarrow> 'd job_env" where
  "rentry_suspends_remove jb e = e\<lparr>je_re := suspends_remove (jb_unit jb) (jb_kind jb) (je_re e)\<rparr>"

definition rentry_map_trigger :: "u32 \<Rightarrow> 'd job_env \<Rightarrow> 'd job_env option" where
  "rentry_map_trigger j e = do {
     jb \<leftarrow> je_jobs e j;
     (kind, attr) \<leftarrow> trigger_get (je_re e) (jb_unit jb);
     rust_assert (kind = jb_kind jb);
     Some (put_job j (jb\<lparr>jb_stage := Running, jb_attr := attr\<rparr>) e)
   }"

definition rentry_map_suspend :: "u32 \<Rightarrow> 'd job_env \<Rightarrow> 'd job_env option" where
  "rentry_map_suspend j e = do {
     jb \<leftarrow> je_jobs e j;
     attr \<leftarrow> suspends_get (je_re e) (jb_unit jb) (jb_kind jb);
     Some (put_job j (jb\<lparr>jb_stage := Wait, jb_attr := attr\<rparr>) e)
   }"

definition job_init_attr :: "job_mode \<Rightarrow> u32 \<Rightarrow> 'd job_env \<Rightarrow> 'd job_env option" where
  "job_init_attr mode j e = do {
     jb \<leftarrow> je_jobs e j;
     rust_assert (jb_stage jb = Init);
     let at1 = (if mode = IgnoreDependencies \<or> jb_kind jb = Nop then (jb_attr jb)\<lparr>ignore_order := True\<rparr>
               else jb_attr jb);
     let at2 = (if mode = ReplaceIrreversible then at1\<lparr>irreversible := True\<rparr> else at1);
     Some (put_job j (jb\<lparr>jb_attr := at2\<rparr>) e)
   }"

text \<open>
  \<open>merge_attr\<close> borrows its own attributes mutably and those of \<open>other\<close> at the same time,
  which panics when they are the same job.
\<close>

definition job_merge_attr :: "u32 \<Rightarrow> u32 \<Rightarrow> 'd job_env \<Rightarrow> 'd job_env option" where
  "job_merge_attr j other e = do {
     jb \<leftarrow> je_jobs e j;
     ob \<leftarrow> je_jobs e other;
     rust_assert (jb_stage jb = Wait);
     rust_assert (jb_kind jb = jb_kind ob);
     rust_assert (j \<noteq> other);
     let jb' = jb\<lparr>jb_attr := job_attr_or (jb_attr jb) (jb_attr ob)\<rparr>;
     rentry_suspends_insert jb' (put_job j jb' e)
   }"

definition job_wait :: "u32 \<Rightarrow> 'd job_env \<Rightarrow> 'd job_env option" where
  "job_wait j e = do {
     jb \<leftarrow> je_jobs e j;
     rust_assert (jb_stage jb = Init);
     let jb' = jb\<lparr>jb_stage := Wait\<rparr>;
     rentry_suspends_insert jb' (put_job j jb' e)
   }"

definition job_trigger_unit ::
  "unit_act \<Rightarrow> uid \<Rightarrow> job_kind \<Rightarrow> bool \<Rightarrow> 'd job_env \<Rightarrow> ((job_result option + unit) \<times> 'd job_env) option" where
  "job_trigger_unit act u run_kind fc e = (
     let finish = (\<lambda>ret. case ret of Inr _ \<Rightarrow> Inr () | Inl err \<Rightarrow> Inl (job_trigger_err_to_result err));
         perform = (\<lambda>a. let (ret, notes, us) = act u a (je_units e)
                    in Some (finish ret, e\<lparr>je_units := us, je_notes := je_notes e @ notes\<rparr>))
     in case run_kind of
          Start \<Rightarrow> perform ActStart
        | Stop \<Rightarrow> perform (ActStop fc)
        | Reload \<Rightarrow> perform ActReload
        | Verify \<Rightarrow>
            Some (finish (case u_active_state (je_units e) u of
                            UnitActive \<Rightarrow> Inl UnitActionEAlready
                          | UnitReloading \<Rightarrow> Inl UnitActionEAlready
                          | UnitActivating \<Rightarrow> Inl UnitActionEAgain
                          | _ \<Rightarrow> Inl UnitActionEBadR), e)
        | Nop \<Rightarrow> Some (finish (Inl UnitActionEAlready), e)
        | _ \<Rightarrow> None)"

definition job_run ::
  "unit_act \<Rightarrow> u32 \<Rightarrow> 'd job_env \<Rightarrow> ((job_result option + unit) \<times> 'd job_env) option" where
  "job_run act j e = do {
     jb \<leftarrow> je_jobs e j;
     let stage = jb_stage jb;
     rust_assert (stage = Wait \<or> stage = Running);
     let jb' = jb\<lparr>jb_stage := Running\<rparr>;
     let e1 = put_job j jb' e;
     let e2 = (if jb_time_usec jb \<noteq> 0 then e1\<lparr>je_timers := je_timers e1 @ [(j, jb_time_usec jb)]\<rparr> else e1);
     let e3 = e2\<lparr>je_last_unit := Some (jb_unit jb)\<rparr>;
     e4 \<leftarrow> (if stage = Wait then rentry_trigger_insert jb' (rentry_suspends_remove jb' e3) else Some e3);
     job_trigger_unit act (jb_unit jb) (jb_run_kind jb) (force (jb_attr jb)) e4
   }"

definition job_update_runkind :: "job \<Rightarrow> bool \<times> job" where
  "job_update_runkind jb =
     (let rkind = job_rkind_map (jb_kind jb) (jb_run_kind jb)
      in (jb_run_kind jb \<noteq> rkind, jb\<lparr>jb_run_kind := rkind\<rparr>))"

definition job_finish :: "job_result \<Rightarrow> u32 \<Rightarrow> 'd job_env \<Rightarrow> (bool \<times> 'd job_env) option" where
  "job_finish result j e = do {
     jb \<leftarrow> je_jobs e j;
     let stage = jb_stage jb;
     rust_assert (stage = Wait \<or> stage = Running);
     let (retry, jb1) = (if result = Done then job_update_runkind jb else (False, jb));
     let jb2 = (if retry then jb1\<lparr>jb_stage := Running\<rparr> else jb1\<lparr>jb_stage := End result\<rparr>);
     let e1 = put_job j jb2 e;
     let e2 = (if retry then e1
               else if stage = Wait then rentry_suspends_remove jb2 e1
               else rentry_trigger_remove jb2 e1);
     Some (retry, e2)
   }"

definition job_is_order_with :: "'d job_env \<Rightarrow> u32 \<Rightarrow> u32 \<Rightarrow> unit_relation_atom \<Rightarrow> int option" where
  "job_is_order_with e j other atom = do {
     jb \<leftarrow> je_jobs e j;
     ob \<leftarrow> je_jobs e other;
     rust_assert (atom = UnitAtomAfter \<or> atom = UnitAtomBefore);
     if ignore_order (jb_attr jb) \<or> ignore_order (jb_attr ob) then Some 0
     else Some (job_order_compare (jb_run_kind jb) (jb_run_kind ob) atom)
   }"

lemmas job_method_defs =
  rentry_trigger_insert_def rentry_trigger_remove_def rentry_suspends_insert_def
  rentry_suspends_remove_def job_re_defs

subsection \<open>Allocation: ids are fresh, and the loop ends exactly while an id is free\<close>

subsection \<open>Allocation: ids are fresh, and the loop ends exactly while an id is free\<close>

lemma alloc_id_first_free:
  assumes "ja_last_id a + 1 + of_nat n \<notin> ja_ids a"
    and "\<And>m. m < n \<Longrightarrow> ja_last_id a + 1 + of_nat m \<in> ja_ids a"
  shows "alloc_id a = Some (ja_last_id a + 1 + of_nat n,
           a\<lparr>ja_last_id := ja_last_id a + 1 + of_nat n,
             ja_ids := insert (ja_last_id a + 1 + of_nat n) (ja_ids a)\<rparr>)"
  using assms
proof (induction n arbitrary: a)
  case 0
  then show ?case by (subst alloc_id.simps) (simp add: Let_def)
next
  case (Suc n)
  let ?a = "a\<lparr>ja_last_id := ja_last_id a + 1\<rparr>"
  have "alloc_id ?a = Some (ja_last_id ?a + 1 + of_nat n,
      ?a\<lparr>ja_last_id := ja_last_id ?a + 1 + of_nat n,
         ja_ids := insert (ja_last_id ?a + 1 + of_nat n) (ja_ids ?a)\<rparr>)"
  proof (rule Suc.IH)
    show "ja_last_id ?a + 1 + of_nat n \<notin> ja_ids ?a"
      using Suc.prems(1) by (simp add: algebra_simps)
    fix m assume "m < n"
    then show "ja_last_id ?a + 1 + of_nat m \<in> ja_ids ?a"
      using Suc.prems(2)[of "Suc m"] by (simp add: algebra_simps)
  qed
  moreover have "ja_last_id a + 1 \<in> ja_ids a" using Suc.prems(2)[of 0] by simp
  ultimately show ?case
    by (subst alloc_id.simps) (simp add: Let_def algebra_simps)
qed

lemma alloc_id_Some:
  assumes "alloc_id a = Some (jid, a')"
  shows "jid \<notin> ja_ids a \<and> ja_ids a' = insert jid (ja_ids a) \<and> ja_last_id a' = jid"
proof -
  have "fst y \<notin> ja_ids a \<and> ja_ids (snd y) = insert (fst y) (ja_ids a) \<and> ja_last_id (snd y) = fst y"
    if "alloc_id a = Some y" for y
    using that by (rule alloc_id.raw_induct[rotated]) (fastforce simp: Let_def split: if_splits)
  from this[OF assms] show ?thesis by simp
qed

lemma alloc_id_returns_iff: "(\<exists>r. alloc_id a = Some r) \<longleftrightarrow> ja_ids a \<noteq> UNIV"
proof
  assume "\<exists>r. alloc_id a = Some r"
  then show "ja_ids a \<noteq> UNIV" using alloc_id_Some by fastforce
next
  assume "ja_ids a \<noteq> UNIV"
  then obtain w where w: "w \<notin> ja_ids a" by auto
  define P where "P n \<longleftrightarrow> ja_last_id a + 1 + of_nat n \<notin> ja_ids a" for n
  have "P (unat (w - (ja_last_id a + 1)))" using w by (simp add: P_def)
  then have "P (LEAST n. P n)" by (rule LeastI)
  moreover have "\<not> P m" if "m < (LEAST n. P n)" for m using that by (rule not_less_Least)
  ultimately show "\<exists>r. alloc_id a = Some r"
    unfolding P_def using alloc_id_first_free by blast
qed

lemma job_alloc_Some:
  assumes "job_alloc conf e = Some (j, e')"
  shows "j \<notin> ja_ids (je_alloc e)"
    and "ja_ids (je_alloc e') = insert j (ja_ids (je_alloc e))"
    and "je_jobs e' = (je_jobs e)(j \<mapsto> job_set_timer (je_units e) (job_new j (jc_unit conf) (jc_kind conf)))"
    and "je_re e' = je_re e" and "je_units e' = je_units e" and "je_notes e' = je_notes e"
    and "je_last_unit e' = je_last_unit e" and "je_timers e' = je_timers e"
  using assms alloc_id_Some[of "je_alloc e"]
  by (auto simp: job_alloc_def Let_def elim!: bind_SomeE)

text \<open>
  The timeout in microseconds is exact up to 18446744073709 seconds; beyond it the
  multiplication wraps around.
\<close>

lemma job_set_timer_exact:
  assumes "unat (JobTimeoutSec (u_config ue (jb_unit jb))) * 1000000 < 2 ^ 64"
    and "jb_time_usec jb = 0"
  shows "unat (jb_time_usec (job_set_timer ue jb)) =
           unat (JobTimeoutSec (u_config ue (jb_unit jb))) * 1000000"
proof -
  let ?sec = "JobTimeoutSec (u_config ue (jb_unit jb))"
  have "unat (?sec * 1000000) = unat ?sec * unat (1000000 :: u64)"
    using assms(1) by (subst unat_mult_lem[symmetric]) simp
  with assms(2) show ?thesis by (simp add: job_set_timer_def Let_def)
qed

lemma job_set_timer_frame [simp]:
  "jb_id (job_set_timer ue jb) = jb_id jb" "jb_unit (job_set_timer ue jb) = jb_unit jb"
  "jb_kind (job_set_timer ue jb) = jb_kind jb" "jb_attr (job_set_timer ue jb) = jb_attr jb"
  "jb_run_kind (job_set_timer ue jb) = jb_run_kind jb" "jb_stage (job_set_timer ue jb) = jb_stage jb"
  by (simp_all add: job_set_timer_def Let_def)

subsection \<open>Well-formed jobs, and when the methods panic\<close>

definition job_wf :: "job \<Rightarrow> bool" where
  "job_wf jb \<longleftrightarrow> job_is_basic_op (jb_kind jb) \<and> rkind_ok (jb_kind jb) (jb_run_kind jb)"

lemma job_wf_new [simp]: "job_is_basic_op kind \<Longrightarrow> job_wf (job_set_timer ue (job_new jid u kind))"
  by (simp add: job_wf_def job_new_def)

lemma job_wf_updates [simp]:
  "job_wf (jb\<lparr>jb_stage := st\<rparr>) = job_wf jb" "job_wf (jb\<lparr>jb_attr := at\<rparr>) = job_wf jb"
  by (simp_all add: job_wf_def)

lemma job_trigger_unit_frame:
  assumes "job_trigger_unit act u rk fc e = Some (r, e')"
  shows "je_jobs e' = je_jobs e" and "je_re e' = je_re e" and "je_alloc e' = je_alloc e"
    and "je_timers e' = je_timers e" and "je_last_unit e' = je_last_unit e"
  using assms
  by (auto simp: job_trigger_unit_def Let_def split: job_kind.splits prod.splits)

lemma job_trigger_unit_total:
  "job_trigger_unit act u rk fc e \<noteq> None \<longleftrightarrow> rk \<in> {Start, Stop, Reload, Verify, Nop}"
  by (cases rk) (simp_all add: job_trigger_unit_def Let_def split: prod.splits)

lemma job_wait_eq:
  assumes "je_jobs e j = Some jb"
  shows "job_wait j e =
     (if jb_stage jb = Init \<and> job_is_basic_op (jb_kind jb)
      then Some ((put_job j (jb\<lparr>jb_stage := Wait\<rparr>) e)
             \<lparr>je_re := (je_re e)\<lparr>jre_suspends :=
                redb_insert (jb_unit jb, jb_kind jb) (jb_attr jb) (jre_suspends (je_re e))\<rparr>\<rparr>)
      else None)"
  using assms by (simp add: job_wait_def job_method_defs Let_def rust_assert_def)

lemma job_finish_eq:
  assumes "je_jobs e j = Some jb" and "job_wf jb"
  shows "job_finish r j e =
     (if jb_stage jb = Wait \<or> jb_stage jb = Running
      then (if r = Done \<and> jb_kind jb = Restart \<and> jb_run_kind jb = Stop
            then Some (True, put_job j (jb\<lparr>jb_run_kind := Start, jb_stage := Running\<rparr>) e)
            else (let e1 = put_job j (jb\<lparr>jb_stage := End r\<rparr>) e
                  in Some (False, if jb_stage jb = Wait then rentry_suspends_remove jb e1
                                  else rentry_trigger_remove jb e1)))
      else None)"
proof -
  have "job_rkind_map (jb_kind jb) (jb_run_kind jb) =
      (if jb_kind jb = Restart \<and> jb_run_kind jb = Stop then Start else jb_run_kind jb)"
    using assms(2) rkind_map_changes[of "jb_kind jb" "jb_run_kind jb"]
    by (auto simp: job_wf_def job_rkind_map_def)
  then have "job_update_runkind jb =
      (jb_kind jb = Restart \<and> jb_run_kind jb = Stop,
       if jb_kind jb = Restart \<and> jb_run_kind jb = Stop then jb\<lparr>jb_run_kind := Start\<rparr> else jb)"
    by (auto simp: job_update_runkind_def Let_def)
  with assms(1) show ?thesis
    by (auto simp: job_finish_def Let_def rust_assert_def rentry_suspends_remove_def
        rentry_trigger_remove_def)
qed

text \<open>The three ways a well-formed job can finish.\<close>

lemma job_finishE:
  assumes "job_finish r j e = Some (retry, e')" and "je_jobs e j = Some jb" and "job_wf jb"
  obtains (again) "retry" "r = Done" "jb_kind jb = Restart" "jb_run_kind jb = Stop"
      "jb_stage jb = Wait \<or> jb_stage jb = Running"
      "e' = put_job j (jb\<lparr>jb_run_kind := Start, jb_stage := Running\<rparr>) e"
  | (end_wait) "\<not> retry" "jb_stage jb = Wait"
      "e' = rentry_suspends_remove jb (put_job j (jb\<lparr>jb_stage := End r\<rparr>) e)"
  | (end_running) "\<not> retry" "jb_stage jb = Running"
      "e' = rentry_trigger_remove jb (put_job j (jb\<lparr>jb_stage := End r\<rparr>) e)"
proof -
  have st: "jb_stage jb = Wait \<or> jb_stage jb = Running"
    using assms(1) job_finish_eq[OF assms(2,3), of r] by (simp split: if_splits)
  show thesis
  proof (cases "r = Done \<and> jb_kind jb = Restart \<and> jb_run_kind jb = Stop")
    case True
    with assms(1) st show thesis by (intro again) (simp_all add: job_finish_eq[OF assms(2,3)])
  next
    case False
    have "Some (retry, e') = (let e1 = put_job j (jb\<lparr>jb_stage := End r\<rparr>) e
        in Some (False, if jb_stage jb = Wait then rentry_suspends_remove jb e1
                        else rentry_trigger_remove jb e1))"
      using assms(1) unfolding job_finish_eq[OF assms(2,3)] if_P[OF st] if_not_P[OF False] by simp
    with st show thesis
      by (cases "jb_stage jb = Wait") (simp_all add: Let_def end_wait end_running)
  qed
qed

lemma job_run_stage:
  assumes "job_run act j e = Some x" and "je_jobs e j = Some jb"
  shows "jb_stage jb = Wait \<or> jb_stage jb = Running"
  using assms by (cases "jb_stage jb") (simp_all add: job_run_def Let_def rust_assert_def)

lemma job_run_total:
  assumes "je_jobs e j = Some jb" and "job_wf jb" and "jb_stage jb = Wait \<or> jb_stage jb = Running"
  shows "\<exists>r e'. job_run act j e = Some (r, e') \<and> je_jobs e' = (je_jobs e)(j \<mapsto> jb\<lparr>jb_stage := Running\<rparr>) \<and>
    je_alloc e' = je_alloc e \<and> je_last_unit e' = Some (jb_unit jb) \<and>
    je_re e' = (if jb_stage jb = Wait
      then (je_re e)\<lparr>jre_suspends := redb_remove (jb_unit jb, jb_kind jb) (jre_suspends (je_re e)),
                     jre_trigger := redb_insert (jb_unit jb) (jb_kind jb, jb_attr jb) (jre_trigger (je_re e))\<rparr>
      else je_re e)"
proof -
  have basic: "job_is_basic_op (jb_kind jb)" using assms(2) by (simp add: job_wf_def)
  let ?e1 = "put_job j (jb\<lparr>jb_stage := Running\<rparr>) e"
  let ?e3 = "(if jb_time_usec jb \<noteq> 0 then ?e1\<lparr>je_timers := je_timers ?e1 @ [(j, jb_time_usec jb)]\<rparr> else ?e1)
     \<lparr>je_last_unit := Some (jb_unit jb)\<rparr>"
  let ?re = "if jb_stage jb = Wait
      then (je_re e)\<lparr>jre_suspends := redb_remove (jb_unit jb, jb_kind jb) (jre_suspends (je_re e)),
                     jre_trigger := redb_insert (jb_unit jb) (jb_kind jb, jb_attr jb) (jre_trigger (je_re e))\<rparr>
      else je_re e"
  have run: "job_run act j e =
      job_trigger_unit act (jb_unit jb) (jb_run_kind jb) (force (jb_attr jb)) (?e3\<lparr>je_re := ?re\<rparr>)"
    using assms(1,3) basic
    by (cases e) (auto simp: job_run_def Let_def job_method_defs rust_assert_def put_job_def)
  have "job_trigger_unit act (jb_unit jb) (jb_run_kind jb) (force (jb_attr jb)) (?e3\<lparr>je_re := ?re\<rparr>) \<noteq> None"
    unfolding job_trigger_unit_total
    using assms(2) rkind_ok_runnable[of "jb_kind jb" "jb_run_kind jb"] by (simp add: job_wf_def)
  then obtain r e' where r: "job_trigger_unit act (jb_unit jb) (jb_run_kind jb) (force (jb_attr jb))
      (?e3\<lparr>je_re := ?re\<rparr>) = Some (r, e')"
    by auto
  note fr = job_trigger_unit_frame[OF r]
  show ?thesis
    by (intro exI[of _ r] exI[of _ e']) (simp add: run r fr)
qed

subsection \<open>The life cycle\<close>

text \<open>Both job databases accept changes (they are not frozen by a recovery in progress).\<close>

definition job_re_live :: "'d job_re \<Rightarrow> bool" where
  "job_re_live r \<longleftrightarrow> \<not> ignore (jre_trigger r) \<and> \<not> ignore (jre_suspends r)"

text \<open>
  One job's moves, with the action of its unit as a parameter. The callers finish a job
  that still waits with \<open>Cancelled\<close>, \<open>Merged\<close> or the result of a failed or removed job,
  never with \<open>Done\<close>.
\<close>

inductive job_step :: "unit_act \<Rightarrow> u32 \<Rightarrow> 'd job_env \<Rightarrow> 'd job_env \<Rightarrow> bool" for act j where
  step_wait: "job_wait j e = Some e' \<Longrightarrow> job_step act j e e'"
| step_run: "job_run act j e = Some (r, e') \<Longrightarrow> job_step act j e e'"
| step_finish: "job_finish res j e = Some (retry, e') \<Longrightarrow> je_jobs e j = Some jb \<Longrightarrow>
    jb_stage jb = Running \<or> res \<noteq> Done \<Longrightarrow> job_step act j e e'"

inductive_cases job_stepE: "job_step act j e e'"

definition stage_rank :: "job_stage \<Rightarrow> job_kind \<Rightarrow> job_kind \<Rightarrow> nat" where
  "stage_rank st kind rk =
     (case st of Init \<Rightarrow> 0 | Wait \<Rightarrow> 1
      | Running \<Rightarrow> (if kind = Restart \<and> rk = Start then 3 else 2) | End _ \<Rightarrow> 4)"

text \<open>A job is recorded in the database that belongs to its stage.\<close>

definition job_recorded :: "u32 \<Rightarrow> 'd job_env \<Rightarrow> bool" where
  "job_recorded j e \<longleftrightarrow> (case je_jobs e j of None \<Rightarrow> False | Some jb \<Rightarrow>
     job_wf jb \<and> job_re_live (je_re e) \<and>
     suspends_get (je_re e) (jb_unit jb) (jb_kind jb) =
       (if jb_stage jb = Wait then Some (jb_attr jb) else None) \<and>
     trigger_get (je_re e) (jb_unit jb) =
       (if jb_stage jb = Running then Some (jb_kind jb, jb_attr jb) else None))"

lemma job_step_recorded:
  assumes "job_step act j e e'" and "job_recorded j e"
  shows "job_recorded j e'"
proof -
  from assms(2) obtain jb where jb: "je_jobs e j = Some jb" and wf: "job_wf jb"
    by (auto simp: job_recorded_def split: option.splits)
  note rec = assms(2)[unfolded job_recorded_def jb, simplified]
  from assms(1) show ?thesis
  proof (cases rule: job_step.cases)
    case step_wait
    then show ?thesis using rec wf
      by (auto simp: job_wait_eq[OF jb] job_recorded_def job_re_live_def job_re_defs split: if_splits)
  next
    case (step_run r)
    note st = job_run_stage[OF step_run jb]
    from job_run_total[OF jb wf st, of act] step_run rec wf st show ?thesis
      by (auto simp: job_recorded_def job_re_live_def job_re_defs)
  next
    case (step_finish res retry jb')
    from step_finish(1) jb wf show ?thesis
    proof (cases rule: job_finishE)
      case again
      with step_finish(2,3) jb have "jb_stage jb = Running" by simp
      with again rec wf show ?thesis
        by (simp add: job_recorded_def job_wf_def rkind_ok_def)
    next
      case end_wait
      with rec wf show ?thesis
        by (simp add: job_recorded_def job_re_live_def job_method_defs)
    next
      case end_running
      with rec wf show ?thesis
        by (simp add: job_recorded_def job_re_live_def job_method_defs)
    qed
  qed
qed

text \<open>No move takes a job back: the rank of its stage never falls, and \<open>End\<close> is final.\<close>

lemma job_step_rank:
  assumes "job_step act j e e'" and "je_jobs e j = Some jb" and "job_wf jb"
  shows "\<exists>jb'. je_jobs e' j = Some jb' \<and> job_wf jb' \<and> jb_kind jb' = jb_kind jb \<and> jb_unit jb' = jb_unit jb \<and>
           stage_rank (jb_stage jb) (jb_kind jb) (jb_run_kind jb)
             \<le> stage_rank (jb_stage jb') (jb_kind jb') (jb_run_kind jb') \<and>
           stage_rank (jb_stage jb) (jb_kind jb) (jb_run_kind jb) < 4"
  using assms(1)
proof (cases rule: job_step.cases)
  case step_wait
  then have "jb_stage jb = Init" "je_jobs e' j = Some (jb\<lparr>jb_stage := Wait\<rparr>)"
    unfolding job_wait_eq[OF assms(2)] by (auto split: if_splits)
  then show ?thesis using assms(3) by (simp add: stage_rank_def)
next
  case (step_run r)
  note st = job_run_stage[OF step_run assms(2)]
  from job_run_total[OF assms(2,3) st, of act] step_run assms(3) st show ?thesis
    by (auto simp: stage_rank_def)
next
  case (step_finish res retry jb')
  from step_finish(1) assms(2,3) show ?thesis
  proof (cases rule: job_finishE)
    case again
    from again(3-4) assms(3) have "job_wf (jb\<lparr>jb_run_kind := Start, jb_stage := Running\<rparr>)"
      by (simp add: job_wf_def rkind_ok_def)
    moreover from again(3-5) have "stage_rank (jb_stage jb) (jb_kind jb) (jb_run_kind jb) \<le> 2"
      by (auto simp: stage_rank_def)
    ultimately show ?thesis using again(3,6) by (simp add: stage_rank_def)
  next
    case end_wait
    with assms(3) show ?thesis by (simp add: stage_rank_def rentry_suspends_remove_def)
  next
    case end_running
    with assms(3) show ?thesis by (simp add: stage_rank_def rentry_trigger_remove_def)
  qed
qed

subsection \<open>Properties\<close>

text \<open>
  C24: the allocator's loop returns exactly while some 32-bit id has not been handed out,
  and then the id is new. Ids are never given back, so after \<open>2^32\<close> jobs the loop runs forever.
\<close>

theorem job_alloc_fresh_id:
  "(ja_ids (je_alloc e) \<noteq> UNIV \<longleftrightarrow> (\<exists>r. job_alloc conf e = Some r)) \<and>
   (\<forall>j e'. job_alloc conf e = Some (j, e') \<longrightarrow> j \<notin> ja_ids (je_alloc e) \<and>
      ja_ids (je_alloc e') = insert j (ja_ids (je_alloc e)) \<and>
      (\<exists>jb. je_jobs e' j = Some jb \<and> jb_id jb = j \<and> jb_stage jb = Init))"
proof (intro conjI allI impI)
  show "ja_ids (je_alloc e) \<noteq> UNIV \<longleftrightarrow> (\<exists>r. job_alloc conf e = Some r)"
    using alloc_id_returns_iff[of "je_alloc e"]
    by (cases "alloc_id (je_alloc e)") (auto simp: job_alloc_def Let_def)
next
  fix j e'
  assume "job_alloc conf e = Some (j, e')"
  note facts = job_alloc_Some[OF this]
  show "j \<notin> ja_ids (je_alloc e)" "ja_ids (je_alloc e') = insert j (ja_ids (je_alloc e))"
    using facts by simp_all
  show "\<exists>jb. je_jobs e' j = Some jb \<and> jb_id jb = j \<and> jb_stage jb = Init"
    using facts(3) by (simp add: job_new_def)
qed

text \<open>An environment with one fresh restart job, for the witnesses.\<close>

definition ex_units :: unit_env where
  "ex_units = \<lparr>u_active_state = (\<lambda>_. UnitActive), u_config = (\<lambda>_. ue_config_unit_default),
     u_perpetual = (\<lambda>_. False), u_can_start = (\<lambda>_. True), u_can_stop = (\<lambda>_. True), u_can_reload = (\<lambda>_. True)\<rparr>"

definition ex_env :: "nat job_env" where
  "ex_env = \<lparr>je_jobs = Map.empty, je_alloc = job_alloc_new, je_re = job_re_new (\<lambda>_. 0), je_units = ex_units,
     je_last_unit = None, je_timers = [], je_notes = []\<rparr>"

definition ex_act :: unit_act where
  "ex_act u a ue = (Inr (), [], ue)"

definition ex_restart :: "nat job_env" where
  "ex_restart = put_job 1 (job_new 1 ''a.service'' Restart) ex_env"

theorem job_alloc_fresh_id_witness:
  "\<exists>j e'. job_alloc (job_conf_new ''a.service'' Start) ex_env = Some (j, e') \<and> ja_ids (je_alloc e') = {j}"
proof -
  have ids: "ja_ids (je_alloc ex_env) = {}" by (simp add: ex_env_def job_alloc_new_def)
  note fresh = job_alloc_fresh_id[of ex_env "job_conf_new ''a.service'' Start"]
  with ids obtain j e' where "job_alloc (job_conf_new ''a.service'' Start) ex_env = Some (j, e')" by auto
  with fresh ids show ?thesis by simp
qed


lemma ex_restart_recorded: "job_recorded 1 ex_restart"
  by (simp add: job_recorded_def ex_restart_def ex_env_def job_new_def job_wf_def rkind_ok_def job_rkind_new_def
      job_re_live_def job_re_new_def redb_defs job_re_defs)


text \<open>
  A job only moves forward: \<open>Init\<close>, \<open>Wait\<close>, \<open>Running\<close> (for a restart first as a stop,
  then as a start), \<open>End\<close>; it never changes unit or kind, and an ended job makes no move.
\<close>

theorem job_stage_monotone:
  assumes "(job_step act j)\<^sup>*\<^sup>* e e'" and "je_jobs e j = Some jb" and "job_wf jb"
  shows "\<exists>jb'. je_jobs e' j = Some jb' \<and> jb_kind jb' = jb_kind jb \<and> jb_unit jb' = jb_unit jb \<and>
           stage_rank (jb_stage jb) (jb_kind jb) (jb_run_kind jb)
             \<le> stage_rank (jb_stage jb') (jb_kind jb') (jb_run_kind jb') \<and>
           (\<forall>r. jb_stage jb = End r \<longrightarrow> e' = e)"
proof -
  have "\<exists>jb'. je_jobs e' j = Some jb' \<and> job_wf jb' \<and> jb_kind jb' = jb_kind jb \<and> jb_unit jb' = jb_unit jb \<and>
      stage_rank (jb_stage jb) (jb_kind jb) (jb_run_kind jb)
        \<le> stage_rank (jb_stage jb') (jb_kind jb') (jb_run_kind jb') \<and> (\<forall>r. jb_stage jb = End r \<longrightarrow> e' = e)"
    using assms
  proof (induction rule: rtranclp_induct)
    case base
    then show ?case by simp
  next
    case (step y z)
    then obtain jy where jy: "je_jobs y j = Some jy" "job_wf jy" "jb_kind jy = jb_kind jb" "jb_unit jy = jb_unit jb"
      "stage_rank (jb_stage jb) (jb_kind jb) (jb_run_kind jb) \<le> stage_rank (jb_stage jy) (jb_kind jy) (jb_run_kind jy)"
      "\<forall>r. jb_stage jb = End r \<longrightarrow> y = e"
      by blast
    from job_step_rank[OF step.hyps(2) jy(1,2)] obtain jz where jz: "je_jobs z j = Some jz" "job_wf jz"
      "jb_kind jz = jb_kind jy" "jb_unit jz = jb_unit jy"
      "stage_rank (jb_stage jy) (jb_kind jy) (jb_run_kind jy) \<le> stage_rank (jb_stage jz) (jb_kind jz) (jb_run_kind jz)"
      "stage_rank (jb_stage jy) (jb_kind jy) (jb_run_kind jy) < 4"
      by blast
    have "\<not> (\<exists>r. jb_stage jb = End r)" using jy(5) jz(6) by (auto simp: stage_rank_def)
    then show ?case using jy jz le_trans by auto
  qed
  then show ?thesis by blast
qed

theorem job_stage_monotone_witness:
  "\<exists>e' jb'. job_wait 1 ex_restart = Some e' \<and> je_jobs e' 1 = Some jb' \<and> jb_kind jb' = Restart"
proof -
  have jb: "je_jobs ex_restart 1 = Some (job_new 1 ''a.service'' Restart)" by (simp add: ex_restart_def)
  have wf: "job_wf (job_new 1 ''a.service'' Restart)"
    by (simp add: job_wf_def job_new_def rkind_ok_def job_rkind_new_def)
  obtain e' where e': "job_wait 1 ex_restart = Some e'"
    using job_wait_eq[OF jb] by (simp add: job_new_def)
  then have "(job_step ex_act 1)\<^sup>*\<^sup>* ex_restart e'" by (blast intro: job_step.step_wait)
  from job_stage_monotone[OF this jb wf] e' show ?thesis by (auto simp: job_new_def)
qed

end
