(* ===== verification/Job_Unit.thy ===== *)
theory Job_Unit
  imports Job_State
begin

section \<open>The jobs of one unit (core/bin/job/junit.rs)\<close>

text \<open>
  \<open>JobUnit\<close> holds the jobs of one unit: the suspended ones, at most one per kind, and the
  triggered one. \<open>reshuffle\<close> merges the suspended jobs and orders them in \<open>sq\<close>;
  \<open>do_trigger\<close> takes the next one, possibly interrupting the triggered job.

  The jobs are ids into the heap of \<open>job_env\<close>. The hash map \<open>suspends\<close> is a map from
  kinds; where the code iterates over it, the model goes through the kinds in the order of
  their declaration (\<open>HashMap\<close> promises no order).
\<close>

definition JOBUNIT_SQ_MUTOP_MAX_NUM :: nat where "JOBUNIT_SQ_MUTOP_MAX_NUM = 1"
definition JOBUNIT_SQ_MAX_NUM :: nat where "JOBUNIT_SQ_MAX_NUM = 3"

subsection \<open>State\<close>

record job_unit =
  ju_unit :: uid
  ju_suspends :: "job_kind \<rightharpoonup> u32"
  ju_trigger :: "u32 option"
  ju_order :: bool
  ju_sq :: "u32 list"
  ju_interrupt :: bool
  ju_retrigger :: bool
  ju_dirty :: bool
  ju_pause :: bool
  ju_ready :: bool
  ju_up_ready :: bool

definition job_unit_new :: "uid \<Rightarrow> job_unit" where
  "job_unit_new u =
     \<lparr>ju_unit = u, ju_suspends = Map.empty, ju_trigger = None, ju_order = True, ju_sq = [],
      ju_interrupt = False, ju_retrigger = False, ju_dirty = False, ju_pause = False,
      ju_ready = False, ju_up_ready = False\<rparr>"

definition suspends_values :: "(job_kind \<rightharpoonup> u32) \<Rightarrow> u32 list" where
  "suspends_values m = List.map_filter m job_kinds"

subsection \<open>Readiness\<close>

text \<open>\<open>Some (Some True)\<close>: the first suspended job is next; \<open>Some (Some False)\<close>: the
  triggered job is to be triggered again; \<open>Some None\<close>: nothing to do; \<open>None\<close>: panic.\<close>

definition calc_natural_ready_ts :: "job_unit \<Rightarrow> bool option" where
  "calc_natural_ready_ts ju =
     (if ju_interrupt ju then Some True else if ju_retrigger ju then Some False else None)"

definition calc_natural_ready_t :: "job_unit \<Rightarrow> bool option option" where
  "calc_natural_ready_t ju = do {
     rust_assert (\<not> ju_interrupt ju);
     Some (if ju_retrigger ju then Some False else None)
   }"

definition calc_natural_ready_s :: "job_unit \<Rightarrow> bool option option" where
  "calc_natural_ready_s ju = do {
     rust_assert (\<not> ju_interrupt ju);
     Some (Some True)
   }"

definition calc_natural_ready :: "job_unit \<Rightarrow> bool option option" where
  "calc_natural_ready ju =
     (if ju_order ju
      then (case (ju_trigger ju \<noteq> None, ju_sq ju \<noteq> []) of
              (True, True) \<Rightarrow> Some (calc_natural_ready_ts ju)
            | (True, False) \<Rightarrow> calc_natural_ready_t ju
            | (False, True) \<Rightarrow> calc_natural_ready_s ju
            | (False, False) \<Rightarrow> Some None)
      else Some None)"

definition ju_calc_ready :: "job_unit \<Rightarrow> bool option option" where
  "ju_calc_ready ju = (if \<not> ju_pause ju then calc_natural_ready ju else Some None)"

definition ju_update_ready :: "job_unit \<Rightarrow> job_unit option" where
  "ju_update_ready ju = do {
     r \<leftarrow> ju_calc_ready ju;
     Some (ju\<lparr>ju_ready := r \<noteq> None\<rparr>)
   }"

subsection \<open>Conflicts between suspended jobs\<close>

definition suspends_kind_len :: "job_unit \<Rightarrow> job_kind \<Rightarrow> nat" where
  "suspends_kind_len ju kind = (if ju_suspends ju kind = None then 0 else 1)"

definition suspends_len :: "job_unit \<Rightarrow> nat" where
  "suspends_len ju = length (suspends_values (ju_suspends ju))"

definition ju_num_others :: "job_unit \<Rightarrow> nat" where
  "ju_num_others ju = suspends_len ju - suspends_kind_len ju Stop - suspends_kind_len ju Nop"

definition ju_is_suspends_conflict :: "job_unit \<Rightarrow> bool" where
  "ju_is_suspends_conflict ju \<longleftrightarrow> suspends_kind_len ju Stop > 0 \<and> ju_num_others ju > 0"

definition ju_is_suspends_conflict_with :: "job_unit \<Rightarrow> job_unit \<Rightarrow> bool" where
  "ju_is_suspends_conflict_with ju other \<longleftrightarrow>
     suspends_kind_len ju Stop + suspends_kind_len other Stop > 0 \<and>
     ju_num_others ju + ju_num_others other > 0"

definition ju_is_suspends_irreversible :: "'d job_env \<Rightarrow> job_unit \<Rightarrow> bool" where
  "ju_is_suspends_irreversible e ju \<longleftrightarrow>
     list_ex (\<lambda>j. case je_jobs e j of Some jb \<Rightarrow> irreversible (jb_attr jb) | None \<Rightarrow> False)
       (suspends_values (ju_suspends ju))"

definition ju_is_suspends_replace_with :: "'d job_env \<Rightarrow> job_unit \<Rightarrow> job_unit \<Rightarrow> bool option" where
  "ju_is_suspends_replace_with e ju other = do {
     rust_assert (\<not> ju_is_suspends_conflict ju \<and> \<not> ju_is_suspends_conflict other);
     let stop_s = suspends_kind_len ju Stop;
     let others_s = ju_num_others ju;
     let stop_o = suspends_kind_len other Stop;
     let others_o = ju_num_others other;
     Some (if others_s > 0 \<and> stop_o > 0 then \<not> ju_is_suspends_irreversible e ju
           else if stop_s > 0 \<and> others_o > 0 then \<not> ju_is_suspends_irreversible e ju
           else True)
   }"

subsection \<open>Changing the suspended jobs\<close>

definition ju_is_trigger :: "job_unit \<Rightarrow> u32 \<Rightarrow> bool" where
  "ju_is_trigger ju j \<longleftrightarrow> (case ju_trigger ju of Some t \<Rightarrow> t = j | None \<Rightarrow> False)"

definition ju_insert_suspend ::
  "u32 \<Rightarrow> bool \<Rightarrow> job_unit \<Rightarrow> 'd job_env \<Rightarrow> (u32 option \<times> job_unit \<times> 'd job_env) option" where
  "ju_insert_suspend j operate ju e = do {
     jb \<leftarrow> je_jobs e j;
     rust_assert (job_is_basic_op (jb_kind jb));
     rust_assert (\<not> ju_is_trigger ju j);
     let old = ju_suspends ju (jb_kind jb);
     rust_assert (old = None);
     ju' \<leftarrow> ju_update_ready
       (ju\<lparr>ju_suspends := (ju_suspends ju)(jb_kind jb \<mapsto> j), ju_order := False, ju_dirty := True\<rparr>);
     e' \<leftarrow> (if operate then job_wait j e else Some e);
     Some (old, ju', e')
   }"

definition ju_remove_suspend ::
  "job_kind \<Rightarrow> job_result \<Rightarrow> job_unit \<Rightarrow> 'd job_env \<Rightarrow> (u32 option \<times> job_unit \<times> 'd job_env) option" where
  "ju_remove_suspend kind result ju e = do {
     let del_job = ju_suspends ju kind;
     ju' \<leftarrow> ju_update_ready
       (ju\<lparr>ju_suspends := (ju_suspends ju)(kind := None), ju_order := False, ju_dirty := True\<rparr>);
     e' \<leftarrow> (case del_job of Some j \<Rightarrow> map_option snd (job_finish result j e) | None \<Rightarrow> Some e);
     Some (del_job, ju', e')
   }"

text \<open>Finishing a list of jobs with one result, in order.\<close>

definition finish_all :: "job_result \<Rightarrow> u32 list \<Rightarrow> 'd job_env \<Rightarrow> 'd job_env option" where
  "finish_all result = for_each (\<lambda>j e. map_option snd (job_finish result j e))"

definition ju_flush_suspends ::
  "job_unit \<Rightarrow> 'd job_env \<Rightarrow> (u32 list \<times> job_unit \<times> 'd job_env) option" where
  "ju_flush_suspends ju e = do {
     let del_jobs = suspends_values (ju_suspends ju);
     ju' \<leftarrow> ju_update_ready
       (ju\<lparr>ju_suspends := Map.empty, ju_order := False, ju_dirty := True\<rparr>);
     e' \<leftarrow> finish_all Cancelled del_jobs e;
     Some (del_jobs, ju', e')
   }"

text \<open>One turn of the union loop of \<open>merge_suspends\<close>; the state is the unit, the
  environment, the added and the updated jobs.\<close>

definition ju_merge_one ::
  "u32 \<Rightarrow> job_unit \<times> 'd job_env \<times> u32 list \<times> u32 list \<Rightarrow>
   (job_unit \<times> 'd job_env \<times> u32 list \<times> u32 list) option" where
  "ju_merge_one o_job s = (case s of (ju, e, add_jobs, update_jobs) \<Rightarrow> do {
     ob \<leftarrow> je_jobs e o_job;
     (case ju_suspends ju (jb_kind ob) of
        Some j \<Rightarrow> do {
          e' \<leftarrow> job_merge_attr j o_job e;
          Some (ju, e', add_jobs, update_jobs @ [j])
        }
      | None \<Rightarrow> do {
          (_, ju', e') \<leftarrow> ju_insert_suspend o_job True ju e;
          Some (ju', e', add_jobs @ [o_job], update_jobs)
        })
   })"

definition ju_merge_suspends ::
  "job_unit \<Rightarrow> job_unit \<Rightarrow> 'd job_env \<Rightarrow>
   ((u32 list \<times> u32 list \<times> u32 list) \<times> job_unit \<times> 'd job_env) option" where
  "ju_merge_suspends other ju e = do {
     (del_jobs, ju1, e1) \<leftarrow>
       (if ju_is_suspends_conflict_with ju other then ju_flush_suspends ju e else Some ([], ju, e));
     (ju2, e2, add_jobs, update_jobs) \<leftarrow>
       for_each ju_merge_one (suspends_values (ju_suspends other)) (ju1, e1, [], []);
     Some ((add_jobs, del_jobs, update_jobs), ju2, e2)
   }"

subsection \<open>Merging and ordering\<close>

definition jobs_suspends_remove :: "job_kind \<Rightarrow> job_unit \<times> u32 list \<Rightarrow> job_unit \<times> u32 list" where
  "jobs_suspends_remove kind s = (case s of (ju, del_jobs) \<Rightarrow>
     (case ju_suspends ju kind of
        Some j \<Rightarrow> (ju\<lparr>ju_suspends := (ju_suspends ju)(kind := None)\<rparr>, del_jobs @ [j])
      | None \<Rightarrow> (ju, del_jobs)))"

definition jobs_ms_start_and_reload :: "job_unit \<times> u32 list \<Rightarrow> job_unit \<times> u32 list" where
  "jobs_ms_start_and_reload s = jobs_suspends_remove Reload (jobs_suspends_remove Start s)"

definition jobs_ms_start_or_reload :: "unit_env \<Rightarrow> job_unit \<times> u32 list \<Rightarrow> job_unit \<times> u32 list" where
  "jobs_ms_start_or_reload ue s =
     (if is_active_or_reloading (u_active_state ue (ju_unit (fst s)))
      then jobs_suspends_remove Start s
      else jobs_suspends_remove Reload s)"

definition jobs_merge_suspend :: "unit_env \<Rightarrow> job_unit \<Rightarrow> (job_unit \<times> u32 list) option" where
  "jobs_merge_suspend ue ju = do {
     rust_assert (\<not> ju_order ju);
     Some (if ju_suspends ju Stop = None
           then (let restart = ju_suspends ju Restart \<noteq> None;
                     start = ju_suspends ju Start \<noteq> None;
                     reload = ju_suspends ju Reload \<noteq> None
                 in if restart then jobs_ms_start_and_reload (ju, [])
                    else if start \<and> reload then jobs_ms_start_or_reload ue (ju, [])
                    else (ju, []))
           else (ju, []))
   }"

definition sq_order_pushback :: "job_kind \<Rightarrow> job_unit \<Rightarrow> job_unit" where
  "sq_order_pushback kind ju =
     (case ju_suspends ju kind of Some j \<Rightarrow> ju\<lparr>ju_sq := ju_sq ju @ [j]\<rparr> | None \<Rightarrow> ju)"

definition sq_order :: "job_unit \<Rightarrow> job_unit option" where
  "sq_order ju0 = (let ju = ju0\<lparr>ju_sq := []\<rparr> in
     if ju_suspends ju Stop = None
     then do {
       let ju1 = sq_order_pushback Reload (sq_order_pushback Start (sq_order_pushback Restart ju));
       rust_assert (length (ju_sq ju1) \<le> JOBUNIT_SQ_MUTOP_MAX_NUM);
       let ju2 = sq_order_pushback Nop (sq_order_pushback Verify ju1);
       rust_assert (length (ju_sq ju2) \<le> JOBUNIT_SQ_MAX_NUM);
       Some ju2
     }
     else Some (sq_order_pushback Stop ju))"

definition jobs_merge_trigger_prepare :: "'d job_env \<Rightarrow> job_unit \<Rightarrow> job_unit option" where
  "jobs_merge_trigger_prepare e ju = do {
     rust_assert (ju_order ju);
     (case (ju_trigger ju, ju_sq ju) of
        (Some _, j # _) \<Rightarrow> do {
          jb \<leftarrow> je_jobs e j;
          Some (ju\<lparr>ju_interrupt := (jb_kind jb = Stop \<or> jb_kind jb = Restart)\<rparr>)
        }
      | _ \<Rightarrow> Some ju)
   }"

definition ju_reshuffle :: "job_unit \<Rightarrow> 'd job_env \<Rightarrow> (u32 list \<times> job_unit \<times> 'd job_env) option" where
  "ju_reshuffle ju e = do {
     rust_assert (\<not> ju_is_suspends_conflict ju);
     (ju1, merge_jobs) \<leftarrow>
       (if \<not> ju_order ju
        then do {
          (jua, mj) \<leftarrow> jobs_merge_suspend (je_units e) ju;
          jub \<leftarrow> sq_order jua;
          Some (jub\<lparr>ju_order := True\<rparr>, mj)
        }
        else Some (ju, []));
     ju2 \<leftarrow> jobs_merge_trigger_prepare e ju1;
     ju3 \<leftarrow> ju_update_ready ju2;
     e' \<leftarrow> finish_all Merged merge_jobs e;
     Some (merge_jobs, ju3, e')
   }"

subsection \<open>Triggering\<close>

definition ju_do_pause :: "job_unit \<Rightarrow> job_unit option" where
  "ju_do_pause ju = do {
     rust_assert (ju_order ju);
     ju_update_ready (ju\<lparr>ju_dirty := True, ju_pause := True\<rparr>)
   }"

definition ju_resume :: "job_unit \<Rightarrow> job_unit option" where
  "ju_resume ju = do {
     rust_assert (ju_order ju);
     ju_update_ready (ju\<lparr>ju_dirty := True, ju_pause := False\<rparr>)
   }"

definition ju_retrigger_trigger :: "job_unit \<Rightarrow> job_unit option" where
  "ju_retrigger_trigger ju = do {
     rust_assert (ju_trigger ju \<noteq> None);
     rust_assert (ju_order ju);
     ju_update_ready (ju\<lparr>ju_retrigger := True, ju_dirty := True\<rparr>)
   }"

definition ju_insert_trigger :: "u32 \<Rightarrow> job_unit \<Rightarrow> 'd job_env \<Rightarrow> (u32 option \<times> job_unit) option" where
  "ju_insert_trigger j ju e = do {
     rust_assert (ju_trigger ju = None);
     rust_assert (suspends_values (ju_suspends ju) = []);
     jb \<leftarrow> je_jobs e j;
     rust_assert (job_is_basic_op (jb_kind jb));
     rust_assert (ju_order ju);
     let old = ju_trigger ju;
     ju1 \<leftarrow> ju_retrigger_trigger (ju\<lparr>ju_trigger := Some j\<rparr>);
     ju2 \<leftarrow> ju_update_ready (ju1\<lparr>ju_dirty := True\<rparr>);
     Some (old, ju2)
   }"

definition do_next_trigger_retrigger :: "job_unit \<Rightarrow> ((u32 \<times> u32 option) \<times> job_unit) option" where
  "do_next_trigger_retrigger ju = do {
     rust_assert (ju_trigger ju \<noteq> None \<and> ju_retrigger ju);
     rust_assert (ju_order ju);
     next_trigger \<leftarrow> ju_trigger ju;
     rust_assert (\<not> ju_interrupt ju);
     ju' \<leftarrow> ju_update_ready (ju\<lparr>ju_retrigger := False, ju_dirty := True\<rparr>);
     Some ((next_trigger, None), ju')
   }"

definition do_next_trigger_suspend ::
  "job_unit \<Rightarrow> 'd job_env \<Rightarrow> ((u32 \<times> u32 option) \<times> job_unit) option" where
  "do_next_trigger_suspend ju e = do {
     rust_assert (ju_sq ju \<noteq> []);
     rust_assert (ju_order ju);
     let (merge_trigger, ju1) =
       (if ju_interrupt ju
        then (ju_trigger ju, ju\<lparr>ju_interrupt := False, ju_retrigger := False, ju_trigger := None\<rparr>)
        else (None, ju));
     let next_trigger = hd (ju_sq ju1);
     jb \<leftarrow> je_jobs e next_trigger;
     ju2 \<leftarrow> ju_update_ready
       (ju1\<lparr>ju_trigger := Some next_trigger, ju_sq := tl (ju_sq ju1),
            ju_suspends := (ju_suspends ju1)(jb_kind jb := None), ju_dirty := True\<rparr>);
     Some ((next_trigger, merge_trigger), ju2)
   }"

definition do_next_trigger ::
  "job_unit \<Rightarrow> 'd job_env \<Rightarrow> ((u32 \<times> u32 option) \<times> job_unit) option" where
  "do_next_trigger ju e = do {
     r \<leftarrow> ju_calc_ready ju;
     (case r of
        Some True \<Rightarrow> do_next_trigger_suspend ju e
      | Some False \<Rightarrow> do_next_trigger_retrigger ju
      | None \<Rightarrow> None)
   }"

definition ju_do_trigger ::
  "unit_act \<Rightarrow> job_unit \<Rightarrow> 'd job_env \<Rightarrow>
   (((job_info \<times> job_result option) option \<times> u32 option) \<times> job_unit \<times> 'd job_env) option" where
  "ju_do_trigger act ju e = do {
     ((cur_trigger, merge_trigger), ju1) \<leftarrow> do_next_trigger ju e;
     cur \<leftarrow> je_jobs e cur_trigger;
     let t_jinfo = job_info_map cur;
     e1 \<leftarrow> (case merge_trigger of
              None \<Rightarrow> Some e
            | Some mj \<Rightarrow> do {
                mb \<leftarrow> je_jobs e mj;
                ea \<leftarrow> (if jb_kind mb = jb_kind cur then job_merge_attr cur_trigger mj e else Some e);
                map_option snd (job_finish Merged mj ea)
              });
     (ret, e2) \<leftarrow> job_run act cur_trigger e1;
     (tend_result, ju2) \<leftarrow> (case ret of
         Inr _ \<Rightarrow> Some (None, ju1)
       | Inl None \<Rightarrow> do {
           jua \<leftarrow> ju_do_pause ju1;
           jub \<leftarrow> ju_retrigger_trigger jua;
           Some (None, jub)
         }
       | Inl (Some r) \<Rightarrow> Some (Some r, ju1));
     Some ((Some (t_jinfo, tend_result), merge_trigger), ju2, e2)
   }"

definition ju_finish_trigger ::
  "job_result \<Rightarrow> job_unit \<Rightarrow> 'd job_env \<Rightarrow> (u32 option \<times> job_unit \<times> 'd job_env) option" where
  "ju_finish_trigger result ju e = do {
     rust_assert (ju_trigger ju \<noteq> None);
     rust_assert (ju_order ju);
     t \<leftarrow> ju_trigger ju;
     (retry, e') \<leftarrow> job_finish result t e;
     (del_trigger, ju1) \<leftarrow>
       (if retry then map_option (Pair None) (ju_retrigger_trigger ju)
        else Some (ju_trigger ju,
                   ju\<lparr>ju_interrupt := False, ju_retrigger := False, ju_trigger := None\<rparr>));
     ju2 \<leftarrow> ju_update_ready (ju1\<lparr>ju_dirty := True\<rparr>);
     Some (del_trigger, ju2, e')
   }"

subsection \<open>Queries\<close>

definition ju_is_empty :: "job_unit \<Rightarrow> bool" where
  "ju_is_empty ju \<longleftrightarrow> ju_trigger ju = None \<and> suspends_values (ju_suspends ju) = []"

definition ju_len :: "job_unit \<Rightarrow> nat" where
  "ju_len ju = (if ju_trigger ju = None then 0 else 1) + suspends_len ju"

definition get_next_trigger :: "job_unit \<Rightarrow> u32 option" where
  "get_next_trigger ju = do {
     r \<leftarrow> ju_calc_ready ju;
     (case r of
        Some True \<Rightarrow> (case ju_sq ju of [] \<Rightarrow> None | j # _ \<Rightarrow> Some j)
      | Some False \<Rightarrow> do {
          rust_assert (ju_trigger ju \<noteq> None \<and> ju_retrigger ju);
          ju_trigger ju
        }
      | None \<Rightarrow> None)
   }"

text \<open>The two loops of \<open>is_next_trigger_order_with\<close>: is no job of the list ordered before \<open>job\<close>?\<close>

fun no_order_before :: "'d job_env \<Rightarrow> u32 \<Rightarrow> unit_relation_atom \<Rightarrow> u32 list \<Rightarrow> bool option" where
  "no_order_before e job atom [] = Some True"
| "no_order_before e job atom (o_job # os) = do {
     c \<leftarrow> job_is_order_with e job o_job atom;
     if c > 0 then Some False else no_order_before e job atom os
   }"

definition ju_is_next_trigger_order_with ::
  "'d job_env \<Rightarrow> job_unit \<Rightarrow> job_unit \<Rightarrow> unit_relation_atom \<Rightarrow> bool option" where
  "ju_is_next_trigger_order_with e ju other atom = do {
     rust_assert (ju_ready ju \<and> ju_order other);
     j \<leftarrow> get_next_trigger ju;
     jb \<leftarrow> je_jobs e j;
     if ignore_order (jb_attr jb) then Some True
     else if jb_kind jb = Nop then Some True
     else no_order_before e j atom
            (suspends_values (ju_suspends other) @
             (case ju_trigger other of Some t \<Rightarrow> [t] | None \<Rightarrow> []))
   }"

fun job_merge_trigger_iskeep :: "job_kind \<Rightarrow> bool option" where
  "job_merge_trigger_iskeep Start = Some False"
| "job_merge_trigger_iskeep Reload = Some False"
| "job_merge_trigger_iskeep Restart = Some False"
| "job_merge_trigger_iskeep Stop = Some True"
| "job_merge_trigger_iskeep Verify = Some True"
| "job_merge_trigger_iskeep Nop = Some True"
| "job_merge_trigger_iskeep _ = None"

definition job_merge_trigger_map :: "job_kind \<Rightarrow> job_kind option" where
  "job_merge_trigger_map old = do {
     keep \<leftarrow> job_merge_trigger_iskeep old;
     Some (if keep then old else Restart)
   }"

end
