(* ===== verification/Job_Unit_Props.thy ===== *)
theory Job_Unit_Props
  imports Job_Unit
begin

section \<open>Correctness of the per-unit job queue\<close>

text \<open>
  The laws of \<open>Job_Unit\<close>: what conflicts are, what \<open>reshuffle\<close> computes and when it
  panics, and the invariant \<open>ju_inv\<close>, which ties the queue, the stages of its jobs and
  the two job databases together and is kept by the operations.
\<close>

subsection \<open>The values of the suspended map\<close>

lemma map_filter_set: "j \<in> set (List.map_filter m ks) \<longleftrightarrow> (\<exists>k\<in>set ks. m k = Some j)"
  by (induction ks) (auto simp: map_filter_simps split: option.splits)

lemma set_suspends_values [simp]: "set (suspends_values m) = ran m"
  by (auto simp: suspends_values_def map_filter_set ran_def)

lemma suspends_values_Nil [simp]: "suspends_values m = [] \<longleftrightarrow> m = Map.empty"
proof -
  have "ran m = {} \<longleftrightarrow> m = Map.empty" by (auto simp: ran_def fun_eq_iff) (meson not_None_eq)
  then show ?thesis by (metis set_empty set_suspends_values)
qed

lemma length_map_filter:
  "length (List.map_filter m ks) = sum_list (map (\<lambda>k. if m k = None then 0 else 1) ks)"
  by (induction ks) (auto simp: map_filter_simps split: option.splits)

lemma distinct_map_filter:
  assumes "distinct ks" and "\<And>k k' j. m k = Some j \<Longrightarrow> m k' = Some j \<Longrightarrow> k = k'"
  shows "distinct (List.map_filter m ks)"
  using assms
proof (induction ks)
  case (Cons k ks)
  then show ?case
    by (auto simp: map_filter_simps map_filter_set split: option.splits)
qed (simp add: map_filter_simps)

lemma ju_num_others_eq:
  "ju_num_others ju = sum_list (map (suspends_kind_len ju)
     [Start, Reload, Restart, Verify, TryReload, TryRestart, ReloadOrStart])"
  unfolding ju_num_others_def suspends_len_def suspends_values_def length_map_filter
    job_kinds_def suspends_kind_len_def
  by simp

lemma ju_num_others_pos:
  "0 < ju_num_others ju \<longleftrightarrow> (\<exists>k. k \<noteq> Stop \<and> k \<noteq> Nop \<and> ju_suspends ju k \<noteq> None)"
proof -
  let ?others = "[Start, Reload, Restart, Verify, TryReload, TryRestart, ReloadOrStart]"
  have "k \<noteq> Stop \<and> k \<noteq> Nop \<longleftrightarrow> k \<in> set ?others" for k
    by (cases k) simp_all
  moreover have "0 < sum_list (map (suspends_kind_len ju) ks) \<longleftrightarrow> (\<exists>k\<in>set ks. ju_suspends ju k \<noteq> None)" for ks
    by (induction ks) (auto simp: suspends_kind_len_def)
  ultimately show ?thesis unfolding ju_num_others_eq by blast
qed

lemma suspends_kind_len_pos: "0 < suspends_kind_len ju k \<longleftrightarrow> ju_suspends ju k \<noteq> None"
  by (simp add: suspends_kind_len_def)

text \<open>A stop job conflicts with every other kind except \<open>Nop\<close>, and nothing else conflicts.\<close>

definition kinds_conflict :: "job_kind set \<Rightarrow> bool" where
  "kinds_conflict K \<longleftrightarrow> Stop \<in> K \<and> (\<exists>k\<in>K. k \<noteq> Stop \<and> k \<noteq> Nop)"

lemma ju_is_suspends_conflict_iff:
  "ju_is_suspends_conflict ju \<longleftrightarrow> kinds_conflict (dom (ju_suspends ju))"
  unfolding ju_is_suspends_conflict_def ju_num_others_pos suspends_kind_len_pos kinds_conflict_def
  by (simp add: dom_def) blast

lemma ju_is_suspends_conflict_with_iff:
  "ju_is_suspends_conflict_with ju other \<longleftrightarrow>
     kinds_conflict (dom (ju_suspends ju) \<union> dom (ju_suspends other))"
  unfolding ju_is_suspends_conflict_with_def kinds_conflict_def add_gr_0 ju_num_others_pos
    suspends_kind_len_pos
  by (simp add: dom_def) blast

subsection \<open>Readiness\<close>

text \<open>\<open>calc_ready\<close> panics exactly when an interrupt is pending with nothing to interrupt
  or nothing to interrupt it with, in an ordered entry that is not paused.\<close>

definition ju_ready_ok :: "job_unit \<Rightarrow> bool" where
  "ju_ready_ok ju \<longleftrightarrow>
     ju_pause ju \<or> \<not> ju_order ju \<or> \<not> ju_interrupt ju \<or> (ju_trigger ju \<noteq> None \<longleftrightarrow> ju_sq ju \<noteq> [])"

definition ju_next :: "job_unit \<Rightarrow> bool option" where
  "ju_next ju =
     (if ju_pause ju \<or> \<not> ju_order ju then None
      else if ju_sq ju \<noteq> [] \<and> (ju_trigger ju = None \<or> ju_interrupt ju) then Some True
      else if ju_trigger ju \<noteq> None \<and> ju_retrigger ju then Some False
      else None)"

lemma ju_calc_ready_eq: "ju_calc_ready ju = (if ju_ready_ok ju then Some (ju_next ju) else None)"
  by (auto simp: ju_calc_ready_def calc_natural_ready_def calc_natural_ready_ts_def
      calc_natural_ready_t_def calc_natural_ready_s_def ju_ready_ok_def ju_next_def rust_assert_def
      split: bool.splits)

lemma ju_update_ready_eq:
  "ju_update_ready ju = (if ju_ready_ok ju then Some (ju\<lparr>ju_ready := ju_next ju \<noteq> None\<rparr>) else None)"
  by (simp add: ju_update_ready_def ju_calc_ready_eq)

lemma ju_ready_ok_unordered [simp]: "\<not> ju_order ju \<Longrightarrow> ju_ready_ok ju"
  by (simp add: ju_ready_ok_def)

lemma ju_next_unordered [simp]: "\<not> ju_order ju \<Longrightarrow> ju_next ju = None"
  by (simp add: ju_next_def)

subsection \<open>What reshuffle computes\<close>

text \<open>
  The merge, as a function on the map: with no stop job, a restart absorbs start and
  reload, and of a start and a reload one survives, chosen by the state of the unit.
\<close>

definition merge_kinds :: "bool \<Rightarrow> (job_kind \<rightharpoonup> u32) \<Rightarrow> (job_kind \<rightharpoonup> u32)" where
  "merge_kinds active m =
     (if m Stop \<noteq> None then m
      else if m Restart \<noteq> None then m(Start := None, Reload := None)
      else if m Start \<noteq> None \<and> m Reload \<noteq> None
           then (if active then m(Start := None) else m(Reload := None))
      else m)"

definition merge_dropped :: "bool \<Rightarrow> (job_kind \<rightharpoonup> u32) \<Rightarrow> u32 list" where
  "merge_dropped active m =
     (if m Stop \<noteq> None then []
      else if m Restart \<noteq> None then List.map_filter m [Start, Reload]
      else if m Start \<noteq> None \<and> m Reload \<noteq> None
           then List.map_filter m [if active then Start else Reload]
      else [])"

text \<open>The trigger order of the jobs that are left.\<close>

definition sq_spec :: "(job_kind \<rightharpoonup> u32) \<Rightarrow> u32 list" where
  "sq_spec m = List.map_filter m (if m Stop \<noteq> None then [Stop] else [Restart, Start, Reload, Verify, Nop])"

definition mutop_unique :: "(job_kind \<rightharpoonup> u32) \<Rightarrow> bool" where
  "mutop_unique m \<longleftrightarrow> m Stop \<noteq> None \<or>
     \<not> (m Restart \<noteq> None \<and> m Start \<noteq> None) \<and> \<not> (m Restart \<noteq> None \<and> m Reload \<noteq> None) \<and>
     \<not> (m Start \<noteq> None \<and> m Reload \<noteq> None)"

lemma jobs_merge_suspend_eq:
  assumes "\<not> ju_order ju"
  shows "jobs_merge_suspend ue ju =
    (let active = is_active_or_reloading (u_active_state ue (ju_unit ju)); m = ju_suspends ju
     in Some (ju\<lparr>ju_suspends := merge_kinds active m\<rparr>, merge_dropped active m))"
  using assms
  by (cases ju) (auto simp: jobs_merge_suspend_def jobs_ms_start_and_reload_def
      jobs_ms_start_or_reload_def jobs_suspends_remove_def merge_kinds_def merge_dropped_def Let_def
      fun_upd_idem split: option.splits)

lemma mutop_unique_merge: "mutop_unique (merge_kinds active m)"
  by (auto simp: mutop_unique_def merge_kinds_def)

lemma merge_kinds_Stop [simp]: "merge_kinds active m Stop = m Stop"
  by (simp add: merge_kinds_def)

lemma merge_kinds_subset: "merge_kinds active m k = Some j \<Longrightarrow> m k = Some j"
  by (auto simp: merge_kinds_def split: if_splits)

lemma merge_kinds_empty: "merge_kinds active m = Map.empty \<longleftrightarrow> m = Map.empty"
proof
  assume e: "merge_kinds active m = Map.empty"
  have "m k = None" for k
    using fun_cong[OF e, of k] fun_cong[OF e, of Stop] fun_cong[OF e, of Restart]
      fun_cong[OF e, of Start] fun_cong[OF e, of Reload]
    by (auto simp: merge_kinds_def split: if_splits)
  then show "m = Map.empty" by (simp add: fun_eq_iff)
qed (simp add: merge_kinds_def)

lemma set_merge_dropped:
  "set (merge_dropped active m) = {j. \<exists>k. m k = Some j \<and> merge_kinds active m k = None}"
proof -
  have "k = Start \<or> k = Reload" if "m k = Some j" "merge_kinds active m k = None" for k j
    using that by (auto simp: merge_kinds_def split: if_splits)
  then have "{j. \<exists>k. m k = Some j \<and> merge_kinds active m k = None} =
      {j. m Start = Some j \<and> merge_kinds active m Start = None} \<union>
      {j. m Reload = Some j \<and> merge_kinds active m Reload = None}"
    by blast
  also have "\<dots> = set (merge_dropped active m)"
    by (cases "m Stop"; cases "m Restart"; cases "m Start"; cases "m Reload"; cases active)
       (auto simp: merge_kinds_def merge_dropped_def)
  finally show ?thesis by simp
qed

lemma distinct_merge_dropped:
  assumes "\<And>k k' j. m k = Some j \<Longrightarrow> m k' = Some j \<Longrightarrow> k = k'"
  shows "distinct (merge_dropped active m)"
  using assms[of Start _ Reload] by (auto simp: merge_dropped_def split: option.splits)

lemma sq_order_eq:
  assumes "mutop_unique (ju_suspends ju)"
  shows "sq_order ju = Some (ju\<lparr>ju_sq := sq_spec (ju_suspends ju)\<rparr>)"
  using assms
  by (auto simp: sq_order_def sq_order_pushback_def sq_spec_def mutop_unique_def Let_def
      map_filter_simps JOBUNIT_SQ_MUTOP_MAX_NUM_def JOBUNIT_SQ_MAX_NUM_def rust_assert_def
      split: option.splits)

lemma length_sq_spec: "mutop_unique m \<Longrightarrow> length (sq_spec m) \<le> JOBUNIT_SQ_MAX_NUM"
  by (auto simp: sq_spec_def mutop_unique_def map_filter_simps JOBUNIT_SQ_MAX_NUM_def
      split: option.splits)

lemma sq_spec_Nil:
  assumes "\<And>k. m k \<noteq> None \<Longrightarrow> job_is_basic_op k"
  shows "sq_spec m = [] \<longleftrightarrow> m = Map.empty"
proof
  assume "sq_spec m = []"
  then have "m k = None" if "k \<in> {Stop, Restart, Start, Reload, Verify, Nop}" for k
    using that by (auto simp: sq_spec_def map_filter_simps split: option.splits if_splits)
  moreover have "k \<in> {Stop, Restart, Start, Reload, Verify, Nop}" if "m k \<noteq> None" for k
    using assms[OF that] by (cases k) simp_all
  ultimately show "m = Map.empty" by (intro ext) (metis (no_types, lifting))
qed (simp add: sq_spec_def map_filter_simps)

lemma set_sq_spec: "set (sq_spec m) \<subseteq> ran m"
  unfolding sq_spec_def subset_iff map_filter_set ran_def by blast

subsection \<open>Finishing a list of waiting jobs\<close>

definition job_at :: "'d job_env \<Rightarrow> u32 \<Rightarrow> job_stage \<Rightarrow> job_kind \<Rightarrow> uid \<Rightarrow> bool" where
  "job_at e j st k u \<longleftrightarrow> (case je_jobs e j of None \<Rightarrow> False | Some jb \<Rightarrow>
     jb_stage jb = st \<and> jb_kind jb = k \<and> jb_unit jb = u \<and> job_wf jb)"

lemma job_atE:
  assumes "job_at e j st k u"
  obtains jb where "je_jobs e j = Some jb" "jb_stage jb = st" "jb_kind jb = k" "jb_unit jb = u" "job_wf jb"
  using assms by (auto simp: job_at_def split: option.splits)

lemma job_at_unique: "job_at e j st k u \<Longrightarrow> job_at e j st' k' u' \<Longrightarrow> st = st' \<and> k = k' \<and> u = u'"
  by (auto simp: job_at_def split: option.splits)

lemma job_finish_waiting:
  assumes "job_at e j Wait k u" and "r \<noteq> Done"
  shows "\<exists>jb. je_jobs e j = Some jb \<and>
    job_finish r j e = Some (False, (put_job j (jb\<lparr>jb_stage := End r\<rparr>) e)
      \<lparr>je_re := (je_re e)\<lparr>jre_suspends := redb_remove (u, k) (jre_suspends (je_re e))\<rparr>\<rparr>)"
proof -
  obtain jb where jb: "je_jobs e j = Some jb" "jb_stage jb = Wait" "jb_kind jb = k" "jb_unit jb = u" "job_wf jb"
    by (rule job_atE[OF assms(1)])
  with assms(2) show ?thesis
    by (simp add: job_finish_eq[OF jb(1,5)] Let_def rentry_suspends_remove_def suspends_remove_def)
qed

text \<open>
  Finishing a list of waiting jobs of one unit: every one of them ends, nothing else in
  the heap changes, and their entries leave the \<open>suspends\<close> database.
\<close>

lemma finish_all_spec:
  assumes "r \<noteq> Done" and "distinct js"
    and "\<forall>j\<in>set js. \<exists>k. job_at e j Wait k u"
  shows "\<exists>e'. finish_all r js e = Some e' \<and>
    je_jobs e' = (\<lambda>j. if j \<in> set js then map_option (\<lambda>jb. jb\<lparr>jb_stage := End r\<rparr>) (je_jobs e j) else je_jobs e j) \<and>
    je_alloc e' = je_alloc e \<and> je_units e' = je_units e \<and> je_notes e' = je_notes e \<and>
    jre_trigger (je_re e') = jre_trigger (je_re e) \<and>
    ignore (jre_suspends (je_re e')) = ignore (jre_suspends (je_re e)) \<and>
    (\<not> ignore (jre_suspends (je_re e)) \<longrightarrow> (\<forall>u' k. suspends_get (je_re e') u' k =
       (if u' = u \<and> (\<exists>j\<in>set js. job_at e j Wait k u) then None else suspends_get (je_re e) u' k)))"
  using assms(2,3)
proof (induction js arbitrary: e)
  case Nil
  then show ?case by (simp add: finish_all_def)
next
  case (Cons j js)
  from Cons.prems(2) obtain k where at: "job_at e j Wait k u" by auto
  from job_finish_waiting[OF at assms(1)] obtain jb where jb: "je_jobs e j = Some jb"
    and fin: "job_finish r j e = Some (False, (put_job j (jb\<lparr>jb_stage := End r\<rparr>) e)
      \<lparr>je_re := (je_re e)\<lparr>jre_suspends := redb_remove (u, k) (jre_suspends (je_re e))\<rparr>\<rparr>)"
    by blast
  let ?e = "(put_job j (jb\<lparr>jb_stage := End r\<rparr>) e)
      \<lparr>je_re := (je_re e)\<lparr>jre_suspends := redb_remove (u, k) (jre_suspends (je_re e))\<rparr>\<rparr>"
  have keep: "job_at ?e i Wait k' u \<longleftrightarrow> job_at e i Wait k' u" if "i \<noteq> j" for i k'
    using that by (simp add: job_at_def)
  have j_k: "job_at e j Wait k' u \<longleftrightarrow> k' = k" for k'
    using at by (auto simp: job_at_def jb)
  have "\<forall>i\<in>set js. \<exists>k. job_at ?e i Wait k u"
  proof
    fix i
    assume i: "i \<in> set js"
    with Cons.prems(2) obtain k' where "job_at e i Wait k' u" by auto
    moreover from i Cons.prems(1) have "i \<noteq> j" by auto
    ultimately show "\<exists>k. job_at ?e i Wait k u" using keep by blast
  qed
  from Cons.IH[OF _ this] Cons.prems(1) obtain e' where e': "finish_all r js ?e = Some e'"
    "je_jobs e' = (\<lambda>i. if i \<in> set js then map_option (\<lambda>jb. jb\<lparr>jb_stage := End r\<rparr>) (je_jobs ?e i) else je_jobs ?e i)"
    "je_alloc e' = je_alloc ?e" "je_units e' = je_units ?e" "je_notes e' = je_notes ?e"
    "jre_trigger (je_re e') = jre_trigger (je_re ?e)"
    "ignore (jre_suspends (je_re e')) = ignore (jre_suspends (je_re ?e))"
    "\<not> ignore (jre_suspends (je_re ?e)) \<longrightarrow> (\<forall>u' k. suspends_get (je_re e') u' k =
       (if u' = u \<and> (\<exists>j\<in>set js. job_at ?e j Wait k u) then None else suspends_get (je_re ?e) u' k))"
    by auto
  have run: "finish_all r (j # js) e = Some e'" using e'(1) fin by (simp add: finish_all_def)
  have jobs: "je_jobs e' = (\<lambda>i. if i \<in> set (j # js)
      then map_option (\<lambda>jb. jb\<lparr>jb_stage := End r\<rparr>) (je_jobs e i) else je_jobs e i)"
    using Cons.prems(1) jb unfolding e'(2) by (auto simp: fun_eq_iff)
  have ex: "(\<exists>i\<in>set js. job_at ?e i Wait k' u) \<longleftrightarrow> (\<exists>i\<in>set js. job_at e i Wait k' u)" for k'
    using Cons.prems(1) keep by (metis distinct.simps(2))
  have "suspends_get (je_re e') u' k' =
      (if u' = u \<and> (\<exists>i\<in>set (j # js). job_at e i Wait k' u) then None else suspends_get (je_re e) u' k')"
    if "\<not> ignore (jre_suspends (je_re e))" for u' k'
    using e'(8) that j_k by (auto simp: ex suspends_get_def)
  then show ?case using run jobs e'(3-7) by simp
qed

subsection \<open>The invariant of a job unit\<close>

text \<open>Stages: suspended jobs wait, the triggered one runs, all for this unit and under
  their kind.\<close>

definition ju_jobs :: "'d job_env \<Rightarrow> job_unit \<Rightarrow> bool" where
  "ju_jobs e ju \<longleftrightarrow>
     (\<forall>k j. ju_suspends ju k = Some j \<longrightarrow> job_at e j Wait k (ju_unit ju)) \<and>
     (\<forall>t. ju_trigger ju = Some t \<longrightarrow> (\<exists>k. job_at e t Running k (ju_unit ju)))"

text \<open>Persistence: the databases hold exactly the queue of the unit.\<close>

definition ju_recorded :: "'d job_env \<Rightarrow> job_unit \<Rightarrow> bool" where
  "ju_recorded e ju \<longleftrightarrow> job_re_live (je_re e) \<and>
     (\<forall>k. suspends_get (je_re e) (ju_unit ju) k =
        Option.bind (ju_suspends ju k) (\<lambda>j. map_option jb_attr (je_jobs e j))) \<and>
     trigger_get (je_re e) (ju_unit ju) =
        Option.bind (ju_trigger ju) (\<lambda>t. map_option (\<lambda>jb. (jb_kind jb, jb_attr jb)) (je_jobs e t))"

text \<open>Shape: an ordered queue is merged and its sequence is the canonical one; a \<open>Nop\<close>
  that stayed behind a stop job is the exception.\<close>

definition ju_shape :: "job_unit \<Rightarrow> bool" where
  "ju_shape ju \<longleftrightarrow>
     (ju_trigger ju = None \<longrightarrow> \<not> ju_interrupt ju \<and> \<not> ju_retrigger ju) \<and>
     (ju_order ju \<longrightarrow> mutop_unique (ju_suspends ju) \<and> \<not> kinds_conflict (dom (ju_suspends ju)) \<and>
        (ju_sq ju = sq_spec (ju_suspends ju) \<or> ju_sq ju = [] \<and> dom (ju_suspends ju) \<subseteq> {Nop})) \<and>
     ju_ready_ok ju \<and> ju_ready ju = (ju_next ju \<noteq> None)"

definition ju_inv :: "'d job_env \<Rightarrow> job_unit \<Rightarrow> bool" where
  "ju_inv e ju \<longleftrightarrow> ju_jobs e ju \<and> ju_recorded e ju \<and> ju_shape ju"

lemma ju_jobs_inj:
  "ju_jobs e ju \<Longrightarrow> ju_suspends ju k = Some j \<Longrightarrow> ju_suspends ju k' = Some j \<Longrightarrow> k = k'"
  unfolding ju_jobs_def by (blast dest: job_at_unique)

lemma ju_jobs_basic: "ju_jobs e ju \<Longrightarrow> ju_suspends ju k \<noteq> None \<Longrightarrow> job_is_basic_op k"
  by (auto simp: ju_jobs_def job_at_def job_wf_def split: option.splits)

lemma ju_jobs_trigger_not_suspended:
  "ju_jobs e ju \<Longrightarrow> ju_trigger ju = Some t \<Longrightarrow> ju_suspends ju k \<noteq> Some t"
  unfolding ju_jobs_def by (blast dest: job_at_unique)

lemma hd_sq_spec_kind:
  assumes "sq_spec m = j # js" and "\<And>k j. m k = Some j \<Longrightarrow> job_at e j Wait k u"
  shows "\<exists>jb. je_jobs e j = Some jb \<and>
    (jb_kind jb = Stop \<or> jb_kind jb = Restart \<longleftrightarrow> m Stop \<noteq> None \<or> m Restart \<noteq> None)"
proof -
  have "\<exists>k. m k = Some j \<and> (k = Stop \<or> k = Restart \<longleftrightarrow> m Stop \<noteq> None \<or> m Restart \<noteq> None)"
    using assms(1) by (auto simp: sq_spec_def split: if_splits option.splits)
  then obtain k where k: "m k = Some j" "k = Stop \<or> k = Restart \<longleftrightarrow> m Stop \<noteq> None \<or> m Restart \<noteq> None"
    by blast
  from assms(2)[OF k(1)] show ?thesis by (rule job_atE) (use k(2) in auto)
qed

subsection \<open>reshuffle\<close>

definition reshuffle_map :: "'d job_env \<Rightarrow> job_unit \<Rightarrow> job_kind \<rightharpoonup> u32" where
  "reshuffle_map e ju =
     (if ju_order ju then ju_suspends ju
      else merge_kinds (is_active_or_reloading (u_active_state (je_units e) (ju_unit ju))) (ju_suspends ju))"

definition reshuffle_dropped :: "'d job_env \<Rightarrow> job_unit \<Rightarrow> u32 list" where
  "reshuffle_dropped e ju =
     (if ju_order ju then []
      else merge_dropped (is_active_or_reloading (u_active_state (je_units e) (ju_unit ju))) (ju_suspends ju))"

definition reshuffle_result :: "'d job_env \<Rightarrow> job_unit \<Rightarrow> job_unit" where
  "reshuffle_result e ju = (
     let m = reshuffle_map e ju; sq = (if ju_order ju then ju_sq ju else sq_spec m);
         ju' = ju\<lparr>ju_suspends := m, ju_sq := sq, ju_order := True,
                  ju_interrupt := (if ju_trigger ju \<noteq> None \<and> sq \<noteq> [] then m Stop \<noteq> None \<or> m Restart \<noteq> None
                                   else ju_interrupt ju)\<rparr>
     in ju'\<lparr>ju_ready := ju_next ju' \<noteq> None\<rparr>)"

text \<open>An interrupt that nothing can take up any more.\<close>

definition ju_stale_interrupt :: "job_unit \<Rightarrow> bool" where
  "ju_stale_interrupt ju \<longleftrightarrow>
     ju_interrupt ju \<and> (if ju_order ju then ju_sq ju = [] else ju_suspends ju = Map.empty)"

lemma ju_ready_ok_ready [simp]: "ju_ready_ok (ju\<lparr>ju_ready := b\<rparr>) = ju_ready_ok ju"
  by (simp add: ju_ready_ok_def)

lemma reshuffle_ready_ok:
  assumes "ju_jobs e ju" and "ju_shape ju"
  shows "ju_ready_ok (reshuffle_result e ju) \<longleftrightarrow> ju_pause ju \<or> \<not> ju_stale_interrupt ju"
proof -
  define m where "m = reshuffle_map e ju"
  define sq where "sq = (if ju_order ju then ju_sq ju else sq_spec m)"
  have sq_Nil: "sq = [] \<longleftrightarrow> (if ju_order ju then ju_sq ju = [] else ju_suspends ju = Map.empty)"
  proof (cases "ju_order ju")
    case False
    have "m k \<noteq> None \<Longrightarrow> job_is_basic_op k" for k
      using False ju_jobs_basic[OF assms(1), of k] merge_kinds_subset
      by (fastforce simp: m_def reshuffle_map_def)
    then have "sq = [] \<longleftrightarrow> m = Map.empty" using sq_spec_Nil[of m] False by (simp add: sq_def)
    also have "\<dots> \<longleftrightarrow> ju_suspends ju = Map.empty"
      using False by (simp add: m_def reshuffle_map_def merge_kinds_empty)
    finally show ?thesis using False by simp
  qed (simp add: sq_def)
  have "ju_ready_ok (reshuffle_result e ju) \<longleftrightarrow> ju_pause ju \<or> \<not> (ju_interrupt ju \<and> sq = [])"
    using assms(2) unfolding reshuffle_result_def Let_def m_def[symmetric] sq_def[symmetric]
    by (auto simp: ju_ready_ok_def ju_shape_def)
  then show ?thesis by (simp add: ju_stale_interrupt_def sq_Nil)
qed

lemma reshuffle_prepare:
  assumes "ju_jobs e ju" and "ju_shape ju"
    and "m = reshuffle_map e ju" and "sq = (if ju_order ju then ju_sq ju else sq_spec m)"
  shows "jobs_merge_trigger_prepare e (ju\<lparr>ju_suspends := m, ju_sq := sq, ju_order := True\<rparr>) =
    Some (ju\<lparr>ju_suspends := m, ju_sq := sq, ju_order := True,
      ju_interrupt := (if ju_trigger ju \<noteq> None \<and> sq \<noteq> [] then m Stop \<noteq> None \<or> m Restart \<noteq> None
                       else ju_interrupt ju)\<rparr>)"
proof (cases "ju_trigger ju \<noteq> None \<and> sq \<noteq> []")
  case False
  then show ?thesis
    by (cases ju; cases sq; cases "ju_trigger ju")
       (auto simp: jobs_merge_trigger_prepare_def split: list.splits option.splits)
next
  case True
  then obtain t j js where t: "ju_trigger ju = Some t" and sq: "sq = j # js"
    by (cases sq) auto
  have "sq = sq_spec m" using assms(2-4) sq by (auto simp: ju_shape_def reshuffle_map_def split: if_splits)
  moreover have "\<And>k j. m k = Some j \<Longrightarrow> job_at e j Wait k (ju_unit ju)"
    using assms(1,3) by (auto simp: ju_jobs_def reshuffle_map_def dest: merge_kinds_subset split: if_splits)
  ultimately obtain jb where "je_jobs e j = Some jb"
      "jb_kind jb = Stop \<or> jb_kind jb = Restart \<longleftrightarrow> m Stop \<noteq> None \<or> m Restart \<noteq> None"
    using hd_sq_spec_kind[of m j js e] sq by metis
  with t sq show ?thesis by (simp add: jobs_merge_trigger_prepare_def)
qed

lemma ju_reshuffle_eq:
  assumes "ju_jobs e ju" and "ju_shape ju" and "\<not> ju_is_suspends_conflict ju"
  shows "ju_reshuffle ju e =
    (if ju_pause ju \<or> \<not> ju_stale_interrupt ju
     then map_option (\<lambda>e'. (reshuffle_dropped e ju, reshuffle_result e ju, e'))
            (finish_all Merged (reshuffle_dropped e ju) e)
     else None)"
proof -
  define m where "m = reshuffle_map e ju"
  define sq where "sq = (if ju_order ju then ju_sq ju else sq_spec m)"
  let ?ju1 = "ju\<lparr>ju_suspends := m, ju_sq := sq, ju_order := True\<rparr>"
  let ?ju2 = "?ju1\<lparr>ju_interrupt := (if ju_trigger ju \<noteq> None \<and> sq \<noteq> [] then m Stop \<noteq> None \<or> m Restart \<noteq> None
                                   else ju_interrupt ju)\<rparr>"
  let ?active = "is_active_or_reloading (u_active_state (je_units e) (ju_unit ju))"
  have first: "(if \<not> ju_order ju
        then do {
          (jua, mj) \<leftarrow> jobs_merge_suspend (je_units e) ju;
          jub \<leftarrow> sq_order jua;
          Some (jub\<lparr>ju_order := True\<rparr>, mj)
        }
        else Some (ju, [])) = Some (?ju1, reshuffle_dropped e ju)"
  proof (cases "ju_order ju")
    case True
    then show ?thesis by (cases ju) (simp add: m_def sq_def reshuffle_map_def reshuffle_dropped_def)
  next
    case False
    have "sq_order (ju\<lparr>ju_suspends := merge_kinds ?active (ju_suspends ju)\<rparr>) =
        Some (ju\<lparr>ju_suspends := merge_kinds ?active (ju_suspends ju),
                 ju_sq := sq_spec (merge_kinds ?active (ju_suspends ju))\<rparr>)"
      using sq_order_eq[of "ju\<lparr>ju_suspends := merge_kinds ?active (ju_suspends ju)\<rparr>"]
      by (simp add: mutop_unique_merge)
    with False show ?thesis
      by (simp add: m_def sq_def reshuffle_map_def reshuffle_dropped_def jobs_merge_suspend_eq Let_def)
  qed
  have res: "?ju2\<lparr>ju_ready := ju_next ?ju2 \<noteq> None\<rparr> = reshuffle_result e ju"
    unfolding reshuffle_result_def Let_def m_def sq_def by simp
  have ok: "ju_ready_ok ?ju2 \<longleftrightarrow> ju_pause ju \<or> \<not> ju_stale_interrupt ju"
    using reshuffle_ready_ok[OF assms(1,2)] unfolding res[symmetric] by simp
  have "ju_reshuffle ju e = Option.bind (ju_update_ready ?ju2) (\<lambda>ju3.
      Option.bind (finish_all Merged (reshuffle_dropped e ju) e) (\<lambda>e'.
        Some (reshuffle_dropped e ju, ju3, e')))"
    unfolding ju_reshuffle_def first using assms(3) reshuffle_prepare[OF assms(1,2) m_def sq_def]
    by simp
  also have "\<dots> = (if ju_pause ju \<or> \<not> ju_stale_interrupt ju
     then map_option (\<lambda>e'. (reshuffle_dropped e ju, reshuffle_result e ju, e'))
            (finish_all Merged (reshuffle_dropped e ju) e) else None)"
    unfolding ju_update_ready_eq ok res
    by (cases "finish_all Merged (reshuffle_dropped e ju) e") simp_all
  finally show ?thesis .
qed

text \<open>
  Taking some suspended jobs out of the map and finishing them keeps the stages and the
  databases in step with the queue. Flushing, removing and merging are instances.
\<close>

lemma finish_suspends:
  assumes inv: "ju_inv e ju" and ne: "r \<noteq> Done"
    and dist: "distinct js"
    and drop: "\<And>j. j \<in> set js \<longleftrightarrow> (\<exists>k. ju_suspends ju k = Some j \<and> m k = None)"
    and sub: "\<And>k j. m k = Some j \<Longrightarrow> ju_suspends ju k = Some j"
    and frame: "ju_unit ju' = ju_unit ju" "ju_trigger ju' = ju_trigger ju" "ju_suspends ju' = m"
  shows "\<exists>e'. finish_all r js e = Some e' \<and> ju_jobs e' ju' \<and> ju_recorded e' ju' \<and>
    (\<forall>j. j \<notin> set js \<longrightarrow> je_jobs e' j = je_jobs e j) \<and>
    (\<forall>u' k. u' \<noteq> ju_unit ju \<longrightarrow> suspends_get (je_re e') u' k = suspends_get (je_re e) u' k) \<and>
    jre_trigger (je_re e') = jre_trigger (je_re e) \<and> je_units e' = je_units e \<and>
    je_alloc e' = je_alloc e \<and> je_notes e' = je_notes e"
proof -
  let ?js = js and ?u = "ju_unit ju"
  have jobs: "ju_jobs e ju" and rec: "ju_recorded e ju" using inv by (simp_all add: ju_inv_def)
  have wait: "\<And>k j. ju_suspends ju k = Some j \<Longrightarrow> job_at e j Wait k ?u" using jobs by (simp add: ju_jobs_def)
  have at_js: "\<forall>j\<in>set ?js. \<exists>k. job_at e j Wait k ?u" using drop wait by blast
  obtain e' where e2: "finish_all r ?js e = Some e'" 
      "je_jobs e' = (\<lambda>j. if j \<in> set ?js then map_option (\<lambda>jb. jb\<lparr>jb_stage := End r\<rparr>) (je_jobs e j) else je_jobs e j)"
      "jre_trigger (je_re e') = jre_trigger (je_re e)"
      "ignore (jre_suspends (je_re e')) = ignore (jre_suspends (je_re e))"
      "\<not> ignore (jre_suspends (je_re e)) \<longrightarrow> (\<forall>u' k. suspends_get (je_re e') u' k =
         (if u' = ?u \<and> (\<exists>j\<in>set ?js. job_at e j Wait k ?u) then None else suspends_get (je_re e) u' k))"
      "je_units e' = je_units e" "je_alloc e' = je_alloc e" "je_notes e' = je_notes e"
    using finish_all_spec[OF ne dist at_js] by (elim exE conjE) (rule that)
  note e' = e2(2-5)
  have keep: "j \<notin> set ?js" if "m k = Some j" for k j
  proof
    assume "j \<in> set ?js"
    then obtain k' where k': "ju_suspends ju k' = Some j" "m k' = None"
      unfolding drop by blast
    from ju_jobs_inj[OF jobs k'(1) sub[OF that]] that k'(2) show False by simp
  qed
  have keep_t: "t \<notin> set ?js" if "ju_trigger ju = Some t" for t
    using that drop ju_jobs_trigger_not_suspended[OF jobs] by blast
  have hit: "(\<exists>j\<in>set ?js. job_at e j Wait k ?u) \<longleftrightarrow> ju_suspends ju k \<noteq> None \<and> m k = None" for k
  proof
    assume "\<exists>j\<in>set ?js. job_at e j Wait k ?u"
    then obtain j k' where "job_at e j Wait k ?u" "ju_suspends ju k' = Some j" "m k' = None"
      using drop by blast
    with wait[of k' j] job_at_unique[of e j Wait k ?u] show "ju_suspends ju k \<noteq> None \<and> m k = None"
      by blast
  next
    assume "ju_suspends ju k \<noteq> None \<and> m k = None"
    then obtain j where "ju_suspends ju k = Some j" "m k = None" by blast
    with wait drop show "\<exists>j\<in>set ?js. job_at e j Wait k ?u" by blast
  qed
  have "ju_jobs e' ju'"
    using jobs sub keep keep_t unfolding ju_jobs_def frame by (simp add: job_at_def e'(1))
  moreover have "suspends_get (je_re e') ?u k =
      Option.bind (m k) (\<lambda>j. map_option jb_attr (je_jobs e' j))" for k
  proof (cases "m k")
    case None
    then show ?thesis using e'(4) rec hit[of k] by (auto simp: ju_recorded_def job_re_live_def)
  next
    case (Some j)
    then show ?thesis using e'(4) rec hit[of k] sub[OF Some] keep[OF Some]
      by (auto simp: ju_recorded_def job_re_live_def e'(1))
  qed
  moreover have "trigger_get (je_re e') ?u = Option.bind (ju_trigger ju)
      (\<lambda>t. map_option (\<lambda>jb. (jb_kind jb, jb_attr jb)) (je_jobs e' t))"
    using rec keep_t unfolding ju_recorded_def by (cases "ju_trigger ju") (simp_all add: trigger_get_def e'(1,2))
  moreover have "job_re_live (je_re e')" using rec e'(2,3) by (simp add: ju_recorded_def job_re_live_def)
  moreover have "\<forall>u' k. u' \<noteq> ?u \<longrightarrow> suspends_get (je_re e') u' k = suspends_get (je_re e) u' k"
    using rec e'(4) by (simp add: ju_recorded_def job_re_live_def)
  ultimately show ?thesis using e2 by (intro exI[of _ e']) (simp add: ju_recorded_def frame)
qed

lemma kinds_conflict_mono: "kinds_conflict A \<Longrightarrow> A \<subseteq> B \<Longrightarrow> kinds_conflict B"
  by (auto simp: kinds_conflict_def)

lemma merge_kinds_no_conflict:
  "\<not> kinds_conflict (dom m) \<Longrightarrow> \<not> kinds_conflict (dom (merge_kinds active m))"
  using kinds_conflict_mono[of "dom (merge_kinds active m)" "dom m"]
  by (auto dest: merge_kinds_subset)

lemma reshuffle_result_shape:
  assumes "ju_jobs e ju" and "ju_shape ju" and "\<not> ju_is_suspends_conflict ju"
    and "ju_pause ju \<or> \<not> ju_stale_interrupt ju"
  shows "ju_shape (reshuffle_result e ju)"
proof -
  have "ju_ready_ok (reshuffle_result e ju)" using reshuffle_ready_ok[OF assms(1,2)] assms(4) by simp
  moreover
  have "\<not> kinds_conflict (dom (reshuffle_map e ju))"
    using assms(3) unfolding ju_is_suspends_conflict_iff reshuffle_map_def
    by (simp add: merge_kinds_no_conflict)
  ultimately show ?thesis using assms(2) mutop_unique_merge
    by (auto simp: ju_shape_def reshuffle_result_def reshuffle_map_def Let_def ju_next_def)
qed

text \<open>
  \<open>reshuffle\<close> is total on an invariant queue without conflict, apart from one case: a
  pending interrupt whose suspended jobs are gone, in an entry that is not paused. Where it
  returns, the invariant holds again.
\<close>

lemma ju_reshuffle_spec:
  assumes "ju_inv e ju" and "\<not> ju_is_suspends_conflict ju" and "ju_pause ju \<or> \<not> ju_stale_interrupt ju"
  shows "\<exists>e'. ju_reshuffle ju e = Some (reshuffle_dropped e ju, reshuffle_result e ju, e') \<and>
    ju_inv e' (reshuffle_result e ju) \<and>
    (\<forall>j. j \<notin> set (reshuffle_dropped e ju) \<longrightarrow> je_jobs e' j = je_jobs e j) \<and>
    (\<forall>u' k. u' \<noteq> ju_unit ju \<longrightarrow> suspends_get (je_re e') u' k = suspends_get (je_re e) u' k) \<and>
    jre_trigger (je_re e') = jre_trigger (je_re e) \<and> je_units e' = je_units e \<and>
    je_alloc e' = je_alloc e \<and> je_notes e' = je_notes e"
proof -
  from assms(1) have parts: "ju_jobs e ju" "ju_shape ju" by (simp_all add: ju_inv_def)
  have "\<exists>e'. finish_all Merged (reshuffle_dropped e ju) e = Some e' \<and>
    ju_jobs e' (reshuffle_result e ju) \<and> ju_recorded e' (reshuffle_result e ju) \<and>
    (\<forall>j. j \<notin> set (reshuffle_dropped e ju) \<longrightarrow> je_jobs e' j = je_jobs e j) \<and>
    (\<forall>u' k. u' \<noteq> ju_unit ju \<longrightarrow> suspends_get (je_re e') u' k = suspends_get (je_re e) u' k) \<and>
    jre_trigger (je_re e') = jre_trigger (je_re e) \<and> je_units e' = je_units e \<and>
    je_alloc e' = je_alloc e \<and> je_notes e' = je_notes e"
  proof (rule finish_suspends[OF assms(1), where m = "reshuffle_map e ju"])
    show "distinct (reshuffle_dropped e ju)"
      using ju_jobs_inj[OF parts(1)] by (simp add: reshuffle_dropped_def distinct_merge_dropped)
    show "j \<in> set (reshuffle_dropped e ju) \<longleftrightarrow> (\<exists>k. ju_suspends ju k = Some j \<and> reshuffle_map e ju k = None)" for j
      by (simp add: reshuffle_dropped_def reshuffle_map_def set_merge_dropped)
    show "ju_suspends ju k = Some j" if "reshuffle_map e ju k = Some j" for k j
      using that by (auto simp: reshuffle_map_def dest: merge_kinds_subset split: if_splits)
  qed (simp_all add: reshuffle_result_def Let_def)
  with assms(3) reshuffle_result_shape[OF parts assms(2,3)] show ?thesis
    unfolding ju_reshuffle_eq[OF parts assms(2)] ju_inv_def by auto
qed

end
