(* ===== verification/Job_Unit_Ops.thy ===== *)
theory Job_Unit_Ops
  imports Job_Unit_Props
begin

section \<open>The operations of a job unit keep its invariant\<close>

text \<open>
  Each operation of \<open>JobUnitData\<close> returns on a queue that satisfies \<open>ju_inv\<close> (the
  exceptions are stated), keeps the invariant, and touches only the jobs and the database
  entries of its own unit (\<open>env_frame\<close>).
\<close>

subsection \<open>Frames\<close>

text \<open>What an operation on unit \<open>u\<close> with the jobs \<open>J\<close> leaves alone.\<close>

definition env_frame :: "uid \<Rightarrow> u32 set \<Rightarrow> 'd job_env \<Rightarrow> 'd job_env \<Rightarrow> bool" where
  "env_frame u J e e' \<longleftrightarrow>
     (\<forall>j. j \<notin> J \<longrightarrow> je_jobs e' j = je_jobs e j) \<and>
     (\<forall>u' k. u' \<noteq> u \<longrightarrow> suspends_get (je_re e') u' k = suspends_get (je_re e) u' k) \<and>
     (\<forall>u'. u' \<noteq> u \<longrightarrow> trigger_get (je_re e') u' = trigger_get (je_re e) u') \<and>
     (job_re_live (je_re e) \<longrightarrow> job_re_live (je_re e')) \<and> je_alloc e' = je_alloc e"

lemma env_frame_refl [simp]: "env_frame u J e e"
  by (simp add: env_frame_def)

lemma env_frame_trans:
  "env_frame u J e e1 \<Longrightarrow> env_frame u J e1 e2 \<Longrightarrow> env_frame u J e e2"
  by (simp add: env_frame_def)

lemma env_frame_mono: "env_frame u J e e' \<Longrightarrow> J \<subseteq> K \<Longrightarrow> env_frame u K e e'"
  by (auto simp: env_frame_def)

text \<open>The queue of another unit, none of whose jobs is touched, keeps its invariant.\<close>

lemma ju_inv_frame:
  assumes "ju_inv e ju" and "env_frame u J e e'" and "ju_unit ju \<noteq> u"
    and "ran (ju_suspends ju) \<inter> J = {}" and "set_option (ju_trigger ju) \<inter> J = {}"
  shows "ju_inv e' ju"
proof -
  have s: "je_jobs e' j = je_jobs e j" if "ju_suspends ju k = Some j" for k j
    using that assms(2,4) by (auto simp: env_frame_def ran_def)
  have t: "je_jobs e' j = je_jobs e j" if "ju_trigger ju = Some j" for j
    using that assms(2,5) by (auto simp: env_frame_def)
  have "ju_jobs e' ju"
    using assms(1) s t by (simp add: ju_inv_def ju_jobs_def job_at_def)
  moreover have "Option.bind (ju_suspends ju k) (\<lambda>j. map_option jb_attr (je_jobs e' j)) =
      Option.bind (ju_suspends ju k) (\<lambda>j. map_option jb_attr (je_jobs e j))" for k
    using s by (cases "ju_suspends ju k") simp_all
  moreover have "Option.bind (ju_trigger ju) (\<lambda>t. map_option (\<lambda>jb. (jb_kind jb, jb_attr jb)) (je_jobs e' t)) =
      Option.bind (ju_trigger ju) (\<lambda>t. map_option (\<lambda>jb. (jb_kind jb, jb_attr jb)) (je_jobs e t))"
    using t by (cases "ju_trigger ju") simp_all
  ultimately show ?thesis
    using assms(1-3) by (simp add: ju_inv_def ju_recorded_def env_frame_def)
qed

subsection \<open>Flushing and removing\<close>

lemma ju_shape_unordered:
  assumes "ju_shape ju"
  shows "ju_shape (ju\<lparr>ju_suspends := m, ju_order := False, ju_dirty := True, ju_ready := False\<rparr>)"
  using assms by (simp add: ju_shape_def)

lemma ju_flush_suspends_spec:
  assumes "ju_inv e ju"
  shows "\<exists>e'. ju_flush_suspends ju e = Some (suspends_values (ju_suspends ju),
      ju\<lparr>ju_suspends := Map.empty, ju_order := False, ju_dirty := True, ju_ready := False\<rparr>, e') \<and>
    ju_inv e' (ju\<lparr>ju_suspends := Map.empty, ju_order := False, ju_dirty := True, ju_ready := False\<rparr>) \<and>
    env_frame (ju_unit ju) (ran (ju_suspends ju)) e e' \<and> je_units e' = je_units e \<and> je_notes e' = je_notes e"
proof -
  let ?ju = "ju\<lparr>ju_suspends := Map.empty, ju_order := False, ju_dirty := True, ju_ready := False\<rparr>"
  have jobs: "ju_jobs e ju" using assms by (simp add: ju_inv_def)
  have dist: "distinct (suspends_values (ju_suspends ju))"
    unfolding suspends_values_def using ju_jobs_inj[OF jobs] by (intro distinct_map_filter) auto
  obtain e' where e': "finish_all Cancelled (suspends_values (ju_suspends ju)) e = Some e'"
      "ju_jobs e' ?ju" "ju_recorded e' ?ju"
      "\<forall>j. j \<notin> set (suspends_values (ju_suspends ju)) \<longrightarrow> je_jobs e' j = je_jobs e j"
      "\<forall>u' k. u' \<noteq> ju_unit ju \<longrightarrow> suspends_get (je_re e') u' k = suspends_get (je_re e) u' k"
      "jre_trigger (je_re e') = jre_trigger (je_re e)" "je_units e' = je_units e"
      "je_alloc e' = je_alloc e" "je_notes e' = je_notes e"
    using finish_suspends[OF assms _ dist, of Cancelled Map.empty ?ju] by (auto simp: ran_def)
  have "ju_shape ?ju" using assms by (intro ju_shape_unordered) (simp add: ju_inv_def)
  with e' show ?thesis
    by (simp add: ju_flush_suspends_def Let_def ju_update_ready_eq ju_inv_def env_frame_def trigger_get_def
        ju_recorded_def)
qed

lemma ju_remove_suspend_spec:
  assumes "ju_inv e ju" and "r \<noteq> Done"
  shows "\<exists>e'. ju_remove_suspend k r ju e = Some (ju_suspends ju k,
      ju\<lparr>ju_suspends := (ju_suspends ju)(k := None), ju_order := False, ju_dirty := True, ju_ready := False\<rparr>, e') \<and>
    ju_inv e' (ju\<lparr>ju_suspends := (ju_suspends ju)(k := None), ju_order := False, ju_dirty := True, ju_ready := False\<rparr>) \<and>
    env_frame (ju_unit ju) (set_option (ju_suspends ju k)) e e' \<and> je_units e' = je_units e \<and> je_notes e' = je_notes e"
proof -
  let ?m = "(ju_suspends ju)(k := None)" and ?js = "case ju_suspends ju k of None \<Rightarrow> [] | Some j \<Rightarrow> [j]"
  let ?ju = "ju\<lparr>ju_suspends := ?m, ju_order := False, ju_dirty := True, ju_ready := False\<rparr>"
  have jobs: "ju_jobs e ju" using assms by (simp add: ju_inv_def)
  have "\<exists>e'. finish_all r ?js e = Some e' \<and> ju_jobs e' ?ju \<and> ju_recorded e' ?ju \<and>
      (\<forall>j. j \<notin> set ?js \<longrightarrow> je_jobs e' j = je_jobs e j) \<and>
      (\<forall>u' k. u' \<noteq> ju_unit ju \<longrightarrow> suspends_get (je_re e') u' k = suspends_get (je_re e) u' k) \<and>
      jre_trigger (je_re e') = jre_trigger (je_re e) \<and> je_units e' = je_units e \<and>
      je_alloc e' = je_alloc e \<and> je_notes e' = je_notes e"
    by (rule finish_suspends[OF assms, where m = ?m]) (auto split: option.splits if_splits)
  then obtain e' where e': "finish_all r ?js e = Some e'"
      "ju_jobs e' ?ju" "ju_recorded e' ?ju" "\<forall>j. j \<notin> set ?js \<longrightarrow> je_jobs e' j = je_jobs e j"
      "\<forall>u' k. u' \<noteq> ju_unit ju \<longrightarrow> suspends_get (je_re e') u' k = suspends_get (je_re e) u' k"
      "jre_trigger (je_re e') = jre_trigger (je_re e)" "je_units e' = je_units e"
      "je_alloc e' = je_alloc e" "je_notes e' = je_notes e"
    by blast
  have fin: "(case ju_suspends ju k of Some j \<Rightarrow> map_option snd (job_finish r j e) | None \<Rightarrow> Some e) = Some e'"
    using e'(1) by (cases "ju_suspends ju k")
      (simp_all add: finish_all_def bind_eq_Some_conv split: Option.bind_splits)
  have fr: "\<forall>j. j \<notin> set_option (ju_suspends ju k) \<longrightarrow> je_jobs e' j = je_jobs e j"
    using e'(4) by (cases "ju_suspends ju k") simp_all
  have "ju_shape ?ju" using assms by (intro ju_shape_unordered) (simp add: ju_inv_def)
  with e' fin fr show ?thesis
    by (simp add: ju_remove_suspend_def Let_def ju_update_ready_eq ju_inv_def env_frame_def trigger_get_def
        ju_recorded_def)
qed

subsection \<open>Inserting and merging\<close>

lemma ju_insert_suspend_spec:
  assumes inv: "ju_inv e ju" and at: "job_at e j Init k (ju_unit ju)" and free: "ju_suspends ju k = None"
  shows "\<exists>e'. ju_insert_suspend j True ju e = Some (None,
      ju\<lparr>ju_suspends := (ju_suspends ju)(k \<mapsto> j), ju_order := False, ju_dirty := True, ju_ready := False\<rparr>, e') \<and>
    ju_inv e' (ju\<lparr>ju_suspends := (ju_suspends ju)(k \<mapsto> j), ju_order := False, ju_dirty := True, ju_ready := False\<rparr>) \<and>
    env_frame (ju_unit ju) {j} e e' \<and> je_units e' = je_units e \<and> je_notes e' = je_notes e \<and>
    map_option jb_attr (je_jobs e' j) = map_option jb_attr (je_jobs e j)"
proof -
  let ?u = "ju_unit ju"
  let ?ju = "ju\<lparr>ju_suspends := (ju_suspends ju)(k \<mapsto> j), ju_order := False, ju_dirty := True, ju_ready := False\<rparr>"
  obtain jb where jb: "je_jobs e j = Some jb" "jb_stage jb = Init" "jb_kind jb = k" "jb_unit jb = ?u" "job_wf jb"
    by (rule job_atE[OF at])
  let ?e = "(put_job j (jb\<lparr>jb_stage := Wait\<rparr>) e)
     \<lparr>je_re := (je_re e)\<lparr>jre_suspends := redb_insert (?u, k) (jb_attr jb) (jre_suspends (je_re e))\<rparr>\<rparr>"
  have basic: "job_is_basic_op k" using jb by (simp add: job_wf_def)
  have wait: "job_wait j e = Some ?e"
    using jb basic by (simp add: job_wait_eq[OF jb(1)])
  from inv have jobs: "ju_jobs e ju" and rec: "ju_recorded e ju" and shape: "ju_shape ju"
    by (simp_all add: ju_inv_def)
  have nt: "ju_trigger ju \<noteq> Some j" and ns: "\<And>k'. ju_suspends ju k' \<noteq> Some j"
    using jobs at unfolding ju_jobs_def by (blast dest: job_at_unique)+
  have "\<not> ju_is_trigger ju j" using nt by (auto simp: ju_is_trigger_def split: option.splits)
  then have run: "ju_insert_suspend j True ju e = Some (None, ?ju, ?e)"
    using jb(1,3) basic free wait by (simp add: ju_insert_suspend_def ju_update_ready_eq)
  have "ju_jobs ?e ?ju"
    using jobs nt ns jb by (auto simp: ju_jobs_def job_at_def split: option.splits)
  moreover have "ju_recorded ?e ?ju"
    using rec nt ns by (auto simp: ju_recorded_def job_re_live_def job_re_defs split: Option.bind_splits)
  moreover have "ju_shape ?ju" by (rule ju_shape_unordered[OF shape])
  moreover have "env_frame ?u {j} e ?e"
    using rec by (auto simp: env_frame_def job_re_defs ju_recorded_def job_re_live_def)
  ultimately show ?thesis using run jb(1) by (simp add: ju_inv_def)
qed

lemma job_merge_attr_spec:
  assumes inv: "ju_inv e ju" and s: "ju_suspends ju k = Some j"
    and ob: "je_jobs e oj = Some ob" "jb_kind ob = k" and ne: "j \<noteq> oj"
  shows "\<exists>e'. job_merge_attr j oj e = Some e' \<and> ju_inv e' ju \<and> env_frame (ju_unit ju) {j} e e' \<and>
    je_units e' = je_units e \<and> je_notes e' = je_notes e \<and>
    map_option jb_attr (je_jobs e' j) = combine_options job_attr_or
      (map_option jb_attr (je_jobs e j)) (map_option jb_attr (je_jobs e oj))"
proof -
  let ?u = "ju_unit ju"
  from inv have jobs: "ju_jobs e ju" and rec: "ju_recorded e ju" and shape: "ju_shape ju"
    by (simp_all add: ju_inv_def)
  have atj: "job_at e j Wait k ?u" using jobs s by (simp add: ju_jobs_def)
  obtain jb where jb: "je_jobs e j = Some jb" "jb_stage jb = Wait" "jb_kind jb = k" "jb_unit jb = ?u" "job_wf jb"
    by (rule job_atE[OF atj])
  let ?at = "job_attr_or (jb_attr jb) (jb_attr ob)"
  let ?e = "(put_job j (jb\<lparr>jb_attr := ?at\<rparr>) e)
     \<lparr>je_re := (je_re e)\<lparr>jre_suspends := redb_insert (?u, k) ?at (jre_suspends (je_re e))\<rparr>\<rparr>"
  have "job_is_basic_op k" using jb by (simp add: job_wf_def)
  then have run: "job_merge_attr j oj e = Some ?e"
    using jb ob ne by (simp add: job_merge_attr_def Let_def rentry_suspends_insert_def suspends_insert_def)
  have nt: "ju_trigger ju \<noteq> Some j" using ju_jobs_trigger_not_suspended[OF jobs] s by blast
  have other: "k' = k" if "ju_suspends ju k' = Some j" for k' using ju_jobs_inj[OF jobs that s] .
  have "ju_jobs ?e ju"
    using jobs jb by (auto simp: ju_jobs_def job_at_def split: option.splits)
  moreover have "suspends_get (je_re ?e) ?u k' =
      Option.bind (ju_suspends ju k') (\<lambda>j. map_option jb_attr (je_jobs ?e j))" for k'
  proof (cases "k' = k")
    case True
    then show ?thesis using rec s by (simp add: ju_recorded_def job_re_live_def suspends_get_def)
  next
    case False
    then have "ju_suspends ju k' \<noteq> Some j" using other by blast
    moreover have "suspends_get (je_re e) ?u k' =
        Option.bind (ju_suspends ju k') (\<lambda>j. map_option jb_attr (je_jobs e j))"
      using rec by (simp add: ju_recorded_def)
    ultimately show ?thesis using False
      by (cases "ju_suspends ju k'") (simp_all add: suspends_get_def)
  qed
  moreover have "trigger_get (je_re ?e) ?u =
      Option.bind (ju_trigger ju) (\<lambda>t. map_option (\<lambda>jb. (jb_kind jb, jb_attr jb)) (je_jobs ?e t))"
    using rec nt by (cases "ju_trigger ju") (auto simp: ju_recorded_def trigger_get_def)
  moreover have "job_re_live (je_re ?e)" using rec by (simp add: ju_recorded_def job_re_live_def)
  moreover have "env_frame ?u {j} e ?e"
    using rec by (auto simp: env_frame_def job_re_defs ju_recorded_def job_re_live_def)
  ultimately show ?thesis using run shape jb(1) ob(1) by (simp add: ju_inv_def ju_recorded_def)
qed

definition attr_at :: "'d job_env \<Rightarrow> u32 \<Rightarrow> job_attr option" where
  "attr_at e j = map_option jb_attr (je_jobs e j)"

text \<open>The fields of a job unit that merging does not touch.\<close>

definition ju_same_trigger :: "job_unit \<Rightarrow> job_unit \<Rightarrow> bool" where
  "ju_same_trigger ju ju' \<longleftrightarrow>
     ju_unit ju' = ju_unit ju \<and> ju_trigger ju' = ju_trigger ju \<and> ju_interrupt ju' = ju_interrupt ju \<and>
     ju_retrigger ju' = ju_retrigger ju \<and> ju_pause ju' = ju_pause ju \<and> ju_up_ready ju' = ju_up_ready ju \<and>
     (ju' = ju \<or> ju_dirty ju' \<and> \<not> ju_order ju')"

text \<open>One turn of the union loop.\<close>

lemma ju_merge_one_spec:
  assumes inv: "ju_inv e ju" and at: "job_at e oj Init k (ju_unit ju)"
  shows "\<exists>ju' e' adds' upds'. ju_merge_one oj (ju, e, adds, upds) = Some (ju', e', adds @ adds', upds @ upds') \<and>
    ju_inv e' ju' \<and> ju_same_trigger ju ju' \<and>
    ju_suspends ju' = (if ju_suspends ju k = None then (ju_suspends ju)(k \<mapsto> oj) else ju_suspends ju) \<and>
    env_frame (ju_unit ju) (insert oj (set_option (ju_suspends ju k))) e e' \<and>
    (\<forall>i. ju_suspends ju k \<noteq> Some i \<longrightarrow> attr_at e' i = attr_at e i) \<and>
    (\<forall>i. ju_suspends ju k = Some i \<longrightarrow> attr_at e' i = combine_options job_attr_or (attr_at e i) (attr_at e oj)) \<and>
    (\<forall>i k'. i \<noteq> oj \<longrightarrow> job_at e i Init k' (ju_unit ju) \<longrightarrow> job_at e' i Init k' (ju_unit ju)) \<and>
    je_units e' = je_units e \<and> je_notes e' = je_notes e"
proof -
  obtain ob where ob: "je_jobs e oj = Some ob" "jb_kind ob = k" by (rule job_atE[OF at])
  show ?thesis
  proof (cases "ju_suspends ju k")
    case None
    from ju_insert_suspend_spec[OF inv at None] obtain e' where e':
      "ju_insert_suspend oj True ju e = Some (None,
        ju\<lparr>ju_suspends := (ju_suspends ju)(k \<mapsto> oj), ju_order := False, ju_dirty := True, ju_ready := False\<rparr>, e')"
      "ju_inv e' (ju\<lparr>ju_suspends := (ju_suspends ju)(k \<mapsto> oj), ju_order := False, ju_dirty := True, ju_ready := False\<rparr>)"
      "env_frame (ju_unit ju) {oj} e e'" "je_units e' = je_units e" "je_notes e' = je_notes e"
      "map_option jb_attr (je_jobs e' oj) = map_option jb_attr (je_jobs e oj)"
      by blast
    have "attr_at e' i = attr_at e i" for i
      using e'(3,6) by (cases "i = oj") (simp_all add: attr_at_def env_frame_def)
    moreover have "job_at e' i Init k' (ju_unit ju)" if "i \<noteq> oj" "job_at e i Init k' (ju_unit ju)" for i k'
      using that e'(3) by (simp add: env_frame_def job_at_def)
    ultimately show ?thesis using e' None ob
      by (simp add: ju_merge_one_def ju_same_trigger_def)
  next
    case (Some j)
    have atj: "job_at e j Wait k (ju_unit ju)" using inv Some by (simp add: ju_inv_def ju_jobs_def)
    then have ne: "j \<noteq> oj" using at job_at_unique by blast
    from job_merge_attr_spec[OF inv Some ob ne] obtain e' where e':
      "job_merge_attr j oj e = Some e'" "ju_inv e' ju" "env_frame (ju_unit ju) {j} e e'"
      "je_units e' = je_units e" "je_notes e' = je_notes e"
      "map_option jb_attr (je_jobs e' j) = combine_options job_attr_or
        (map_option jb_attr (je_jobs e j)) (map_option jb_attr (je_jobs e oj))"
      by blast
    from atj have "job_at e' i Init k' (ju_unit ju)" if "job_at e i Init k' (ju_unit ju)" for i k'
      using that e'(3) by (cases "i = j") (auto simp: env_frame_def job_at_def split: option.splits)
    moreover have "env_frame (ju_unit ju) (insert oj (set_option (ju_suspends ju k))) e e'"
      using e'(3) by (rule env_frame_mono) (simp add: Some)
    ultimately show ?thesis using e' Some ob
      by (simp add: ju_merge_one_def ju_same_trigger_def attr_at_def env_frame_def)
  qed
qed

lemma ju_same_trigger_trans:
  assumes "ju_same_trigger a b" and "ju_same_trigger b c"
  shows "ju_same_trigger a c"
  using assms unfolding ju_same_trigger_def by metis

lemma merge_loop:
  assumes "ju_inv e ju" and "distinct ks"
    and "\<forall>k\<in>set ks. \<forall>oj. mo k = Some oj \<longrightarrow> job_at e oj Init k (ju_unit ju)"
  shows "\<exists>ju' e' adds' upds'.
    for_each ju_merge_one (List.map_filter mo ks) (ju, e, adds, upds) =
      Some (ju', e', adds @ adds', upds @ upds') \<and>
    ju_inv e' ju' \<and> ju_same_trigger ju ju' \<and>
    ju_suspends ju' = (\<lambda>k. if ju_suspends ju k = None \<and> k \<in> set ks then mo k else ju_suspends ju k) \<and>
    env_frame (ju_unit ju) (set (List.map_filter mo ks) \<union> ran (ju_suspends ju)) e e' \<and>
    (\<forall>k j. ju_suspends ju k = Some j \<longrightarrow> attr_at e' j =
       combine_options job_attr_or (attr_at e j) (if k \<in> set ks then Option.bind (mo k) (attr_at e) else None)) \<and>
    je_units e' = je_units e \<and> je_notes e' = je_notes e"
  using assms
proof (induction ks arbitrary: ju e adds upds)
  case Nil
  then show ?case by (simp add: ju_same_trigger_def fun_eq_iff combine_options_def split: option.splits)
next
  case (Cons k0 ks)
  show ?case
  proof (cases "mo k0")
    case None
    with Cons.IH[OF Cons.prems(1), of adds upds] Cons.prems(2,3) show ?thesis
      by (auto simp: fun_eq_iff)
  next
    case (Some oj)
    let ?u = "ju_unit ju"
    have at: "job_at e oj Init k0 ?u" using Cons.prems(3) Some by simp
    from ju_merge_one_spec[OF Cons.prems(1) at, of adds upds] obtain ju1 e1 a1 p1 where s1:
      "ju_merge_one oj (ju, e, adds, upds) = Some (ju1, e1, adds @ a1, upds @ p1)"
      "ju_inv e1 ju1" "ju_same_trigger ju ju1"
      "ju_suspends ju1 = (if ju_suspends ju k0 = None then (ju_suspends ju)(k0 \<mapsto> oj) else ju_suspends ju)"
      "env_frame ?u (insert oj (set_option (ju_suspends ju k0))) e e1"
      "\<And>i. ju_suspends ju k0 \<noteq> Some i \<Longrightarrow> attr_at e1 i = attr_at e i"
      "\<And>i. ju_suspends ju k0 = Some i \<Longrightarrow> attr_at e1 i = combine_options job_attr_or (attr_at e i) (attr_at e oj)"
      "\<And>i k'. i \<noteq> oj \<Longrightarrow> job_at e i Init k' ?u \<Longrightarrow> job_at e1 i Init k' ?u"
      "je_units e1 = je_units e" "je_notes e1 = je_notes e"
      by metis
    have u1: "ju_unit ju1 = ?u" using s1(3) by (simp add: ju_same_trigger_def)
    have init: "job_at e oi Init k ?u \<and> oi \<noteq> oj" if "k \<in> set ks" "mo k = Some oi" for k oi
      using that Cons.prems(2,3) at job_at_unique by (metis distinct.simps(2) list.set_intros(2))
    then have "\<forall>k\<in>set ks. \<forall>oi. mo k = Some oi \<longrightarrow> job_at e1 oi Init k (ju_unit ju1)"
      using s1(8) u1 by auto
    from Cons.IH[OF s1(2) _ this, of "adds @ a1" "upds @ p1"] Cons.prems(2)
    obtain ju2 e2 a2 p2 where s2:
      "for_each ju_merge_one (List.map_filter mo ks) (ju1, e1, adds @ a1, upds @ p1) =
         Some (ju2, e2, adds @ a1 @ a2, upds @ p1 @ p2)"
      "ju_inv e2 ju2" "ju_same_trigger ju1 ju2"
      "ju_suspends ju2 = (\<lambda>k. if ju_suspends ju1 k = None \<and> k \<in> set ks then mo k else ju_suspends ju1 k)"
      "env_frame ?u (set (List.map_filter mo ks) \<union> ran (ju_suspends ju1)) e1 e2"
      "\<And>k j. ju_suspends ju1 k = Some j \<Longrightarrow> attr_at e2 j =
         combine_options job_attr_or (attr_at e1 j) (if k \<in> set ks then Option.bind (mo k) (attr_at e1) else None)"
      "je_units e2 = je_units e1" "je_notes e2 = je_notes e1"
      unfolding u1 by auto
    have sus: "ju_suspends ju2 = (\<lambda>k. if ju_suspends ju k = None \<and> k \<in> set (k0 # ks) then mo k else ju_suspends ju k)"
      using s1(4) s2(4) Some Cons.prems(2) by (auto simp: fun_eq_iff)
    let ?J = "set (List.map_filter mo (k0 # ks)) \<union> ran (ju_suspends ju)"
    have J1: "insert oj (set_option (ju_suspends ju k0)) \<subseteq> ?J" using Some by (auto simp: ran_def)
    have J2: "set (List.map_filter mo ks) \<union> ran (ju_suspends ju1) \<subseteq> ?J"
      using Some s1(4) by (auto simp: ran_def split: if_splits)
    have frame: "env_frame ?u ?J e e2"
      by (rule env_frame_trans[OF env_frame_mono[OF s1(5) J1] env_frame_mono[OF s2(5) J2]])
    have jobs: "ju_jobs e ju" using Cons.prems(1) by (simp add: ju_inv_def)
    have attr: "attr_at e2 j = combine_options job_attr_or (attr_at e j)
        (if k \<in> set (k0 # ks) then Option.bind (mo k) (attr_at e) else None)"
      if k: "ju_suspends ju k = Some j" for k j
    proof (cases "k = k0")
      case True
      then show ?thesis using k Some s1(4,7) s2(6)[of k j] Cons.prems(2)
        by (simp add: combine_options_def split: option.splits)
    next
      case False
      have ne: "ju_suspends ju k0 \<noteq> Some j" using ju_jobs_inj[OF jobs k, of k0] False by blast
      have oi: "attr_at e1 oi = attr_at e oi" if "k \<in> set ks" "mo k = Some oi" for oi
      proof (rule s1(6))
        show "ju_suspends ju k0 \<noteq> Some oi"
          using init[OF that] jobs unfolding ju_jobs_def by (blast dest: job_at_unique)
      qed
      have "ju_suspends ju1 k = Some j" using s1(4) k False by simp
      from s2(6)[OF this] s1(6)[OF ne] oi False show ?thesis by (cases "mo k") auto
    qed
    show ?thesis
      using s1 s2 sus frame attr Some ju_same_trigger_trans[OF s1(3) s2(3)]
      by (intro exI[of _ ju2] exI[of _ e2] exI[of _ "a1 @ a2"] exI[of _ "p1 @ p2"]) simp
  qed
qed

text \<open>
  \<open>merge_suspends\<close>: the staged jobs of \<open>other\<close> join the queue. On a conflict the old
  suspended jobs give way; otherwise a kind that is already there keeps its job, and the
  attributes of the two are combined.
\<close>

lemma ju_merge_suspends_spec:
  assumes inv: "ju_inv e ju"
    and staged: "\<forall>k oj. ju_suspends other k = Some oj \<longrightarrow> job_at e oj Init k (ju_unit ju)"
  shows "\<exists>adds dels upds ju' e'. ju_merge_suspends other ju e = Some ((adds, dels, upds), ju', e') \<and>
    ju_inv e' ju' \<and> ju_same_trigger ju ju' \<and>
    ju_suspends ju' = ju_suspends other ++
      (if ju_is_suspends_conflict_with ju other then Map.empty else ju_suspends ju) \<and>
    dels = (if ju_is_suspends_conflict_with ju other then suspends_values (ju_suspends ju) else []) \<and>
    env_frame (ju_unit ju) (ran (ju_suspends ju) \<union> ran (ju_suspends other)) e e' \<and>
    (\<not> ju_is_suspends_conflict_with ju other \<longrightarrow> (\<forall>k j. ju_suspends ju k = Some j \<longrightarrow> attr_at e' j =
       combine_options job_attr_or (attr_at e j) (Option.bind (ju_suspends other k) (attr_at e)))) \<and>
    je_units e' = je_units e \<and> je_notes e' = je_notes e"
proof -
  let ?c = "ju_is_suspends_conflict_with ju other" and ?mo = "ju_suspends other"
  let ?J = "ran (ju_suspends ju) \<union> ran ?mo"
  obtain ju1 e1 where s1: "(if ?c then ju_flush_suspends ju e else Some ([], ju, e)) =
        Some (if ?c then suspends_values (ju_suspends ju) else [], ju1, e1)"
      "ju_inv e1 ju1" "ju_same_trigger ju ju1" "ju_suspends ju1 = (if ?c then Map.empty else ju_suspends ju)"
      "env_frame (ju_unit ju) (ran (ju_suspends ju)) e e1" "je_units e1 = je_units e" "je_notes e1 = je_notes e"
      "\<not> ?c \<Longrightarrow> e1 = e"
    using ju_flush_suspends_spec[OF inv] inv
    by (cases ?c) (auto simp: ju_same_trigger_def)
  have u1: "ju_unit ju1 = ju_unit ju" using s1(3) by (simp add: ju_same_trigger_def)
  have jobs: "ju_jobs e ju" using inv by (simp add: ju_inv_def)
  have "job_at e1 oj Init k (ju_unit ju1)" if "?mo k = Some oj" for k oj
  proof -
    have "oj \<notin> ran (ju_suspends ju)"
      using staged[rule_format, OF that] jobs unfolding ju_jobs_def ran_def by (blast dest: job_at_unique)
    then show ?thesis using staged[rule_format, OF that] s1(5) u1 by (simp add: env_frame_def job_at_def)
  qed
  then have init: "\<forall>k\<in>set job_kinds. \<forall>oj. ?mo k = Some oj \<longrightarrow> job_at e1 oj Init k (ju_unit ju1)" by blast
  from merge_loop[OF s1(2) distinct_job_kinds init, of "[]" "[]"] obtain ju2 e2 adds upds where s2:
    "for_each ju_merge_one (suspends_values ?mo) (ju1, e1, [], []) = Some (ju2, e2, adds, upds)"
    "ju_inv e2 ju2" "ju_same_trigger ju1 ju2"
    "ju_suspends ju2 = (\<lambda>k. if ju_suspends ju1 k = None then ?mo k else ju_suspends ju1 k)"
    "env_frame (ju_unit ju) (ran ?mo \<union> ran (ju_suspends ju1)) e1 e2"
    "\<forall>k j. ju_suspends ju1 k = Some j \<longrightarrow> attr_at e2 j =
       combine_options job_attr_or (attr_at e1 j) (Option.bind (?mo k) (attr_at e1))"
    "je_units e2 = je_units e1" "je_notes e2 = je_notes e1"
    unfolding u1 suspends_values_def[symmetric] by auto
  have frame: "env_frame (ju_unit ju) ?J e e2"
    by (rule env_frame_trans[OF env_frame_mono[OF s1(5)] env_frame_mono[OF s2(5)]])
       (auto simp: s1(4) split: if_splits)
  have "ju_suspends ju2 = ?mo ++ (if ?c then Map.empty else ju_suspends ju)"
    using s2(4) s1(4) by (auto simp: fun_eq_iff map_add_def split: option.splits)
  then show ?thesis
    using s1 s2 frame ju_same_trigger_trans[OF s1(3) s2(3)]
    by (intro exI[of _ adds] exI[of _ "if ?c then suspends_values (ju_suspends ju) else []"] exI[of _ upds]
        exI[of _ ju2] exI[of _ e2]) (simp add: ju_merge_suspends_def)
qed

text \<open>Merging a conflict-free request into a conflict-free queue leaves no conflict.\<close>

lemma ju_merge_no_conflict:
  assumes "\<not> ju_is_suspends_conflict other"
    and "ju_suspends ju' = ju_suspends other ++
      (if ju_is_suspends_conflict_with ju other then Map.empty else ju_suspends ju)"
  shows "\<not> ju_is_suspends_conflict ju'"
  using assms
  by (auto simp: ju_is_suspends_conflict_iff ju_is_suspends_conflict_with_iff Un_commute split: if_splits)

end
