(* ===== verification/Job_Unit_Trigger.thy ===== *)
theory Job_Unit_Trigger
  imports Job_Unit_Ops
begin

section \<open>Triggering and finishing keep the invariant of a job unit\<close>

text \<open>
  The second half of the operations of \<open>JobUnitData\<close>: taking the next job from the queue
  and running it, finishing the triggered job, pausing and resuming.
\<close>

subsection \<open>The head of the sequence\<close>

lemma sq_spec_Cons:
  assumes "sq_spec m = j # js" and "mutop_unique m" and "\<not> kinds_conflict (dom m)"
  shows "\<exists>k. m k = Some j \<and> mutop_unique (m(k := None)) \<and> \<not> kinds_conflict (dom (m(k := None))) \<and>
    (js = sq_spec (m(k := None)) \<or> js = [] \<and> dom (m(k := None)) \<subseteq> {Nop})"
proof (cases "m Stop")
  case (Some s)
  then have "j = s" "js = []" using assms(1) by (auto simp: sq_spec_def)
  moreover have none: "m k = None" if "k \<noteq> Stop" "k \<noteq> Nop" for k
    using assms(3) Some that unfolding kinds_conflict_def by blast
  moreover from none have "dom (m(Stop := None)) \<subseteq> {Nop}" by (force split: if_splits)
  moreover have "mutop_unique (m(Stop := None))" "\<not> kinds_conflict (dom (m(Stop := None)))"
    using none by (auto simp: mutop_unique_def kinds_conflict_def)
  ultimately show ?thesis using Some by blast
next
  case None
  define ks where "ks = [Restart, Start, Reload, Verify, Nop]"
  have sq: "List.map_filter m ks = j # js" using assms(1) None by (simp add: sq_spec_def ks_def del: map_filter_simps)
  have hd_split: "\<exists>k. m k = Some j \<and> List.map_filter (m(k := None)) ks = js"
    if "List.map_filter m ks = j # js" "distinct ks" for ks
    using that
  proof (induction ks)
    case (Cons k ks)
    then show ?case
    proof (cases "m k")
      case (Some i)
      have "List.map_filter (m(k := None)) ks = List.map_filter m ks"
        using Cons.prems(2) by (induction ks) (auto simp: map_filter_simps split: option.split)
      then show ?thesis using Cons.prems Some by (intro exI[of _ k]) (simp add: fun_upd_def)
    next
      case None
      with Cons obtain k' where "m k' = Some j" "List.map_filter (m(k' := None)) ks = js"
        by (auto simp: fun_upd_def)
      then show ?thesis using None by (intro exI[of _ k']) (auto simp: fun_upd_def)
    qed
  qed (simp add: map_filter_simps)
  from hd_split[OF sq] obtain k where k: "m k = Some j" "List.map_filter (m(k := None)) ks = js"
    by (auto simp: ks_def)
  have stop: "\<not> (m(k := None)) Stop \<noteq> None" using None by simp
  have "js = sq_spec (m(k := None))"
    unfolding sq_spec_def if_not_P[OF stop] ks_def[symmetric] by (rule k(2)[symmetric])
  moreover have "mutop_unique (m(k := None))" using assms(2) None by (auto simp: mutop_unique_def)
  moreover have "\<not> kinds_conflict (dom (m(k := None)))" using None by (auto simp: kinds_conflict_def)
  ultimately show ?thesis using k(1) by blast
qed

subsection \<open>Pausing, resuming and re-triggering\<close>

lemma ju_do_pause_spec:
  assumes "ju_inv e ju" and "ju_order ju"
  shows "\<exists>ju'. ju_do_pause ju = Some ju' \<and> ju_inv e ju' \<and>
    ju' = ju\<lparr>ju_dirty := True, ju_pause := True, ju_ready := False\<rparr>"
proof -
  have "ju_shape (ju\<lparr>ju_dirty := True, ju_pause := True, ju_ready := False\<rparr>)"
    using assms by (simp add: ju_inv_def ju_shape_def ju_next_def ju_ready_ok_def)
  then show ?thesis
    using assms by (simp add: ju_do_pause_def ju_update_ready_eq ju_ready_ok_def ju_next_def ju_inv_def
        ju_jobs_def ju_recorded_def)
qed

text \<open>Resuming panics exactly on a stale interrupt.\<close>

lemma ju_resume_spec:
  assumes "ju_inv e ju" and "ju_order ju"
  shows "ju_stale_interrupt ju \<Longrightarrow> ju_resume ju = None"
    and "\<not> ju_stale_interrupt ju \<Longrightarrow> \<exists>ju'. ju_resume ju = Some ju' \<and> ju_inv e ju' \<and>
      ju' = ju\<lparr>ju_dirty := True, ju_pause := False,
               ju_ready := ju_next (ju\<lparr>ju_dirty := True, ju_pause := False\<rparr>) \<noteq> None\<rparr>"
proof -
  let ?ju = "ju\<lparr>ju_dirty := True, ju_pause := False\<rparr>"
  have ok: "ju_ready_ok ?ju \<longleftrightarrow> \<not> ju_stale_interrupt ju"
    using assms by (auto simp: ju_ready_ok_def ju_stale_interrupt_def ju_inv_def ju_shape_def)
  show "ju_stale_interrupt ju \<Longrightarrow> ju_resume ju = None"
    using assms(2) ok by (simp add: ju_resume_def ju_update_ready_eq)
  assume "\<not> ju_stale_interrupt ju"
  moreover from this have "ju_shape (?ju\<lparr>ju_ready := ju_next ?ju \<noteq> None\<rparr>)"
    using assms ok by (auto simp: ju_inv_def ju_shape_def ju_next_def)
  ultimately show "\<exists>ju'. ju_resume ju = Some ju' \<and> ju_inv e ju' \<and> ju' = ?ju\<lparr>ju_ready := ju_next ?ju \<noteq> None\<rparr>"
    using assms ok by (simp add: ju_resume_def ju_update_ready_eq ju_inv_def ju_jobs_def ju_recorded_def)
qed

lemma ju_retrigger_trigger_spec:
  assumes "ju_inv e ju" and "ju_order ju" and "ju_trigger ju \<noteq> None" and "ju_pause ju \<or> \<not> ju_stale_interrupt ju"
  shows "\<exists>ju'. ju_retrigger_trigger ju = Some ju' \<and> ju_inv e ju' \<and>
    ju' = ju\<lparr>ju_retrigger := True, ju_dirty := True,
             ju_ready := ju_next (ju\<lparr>ju_retrigger := True, ju_dirty := True\<rparr>) \<noteq> None\<rparr>"
proof -
  let ?ju = "ju\<lparr>ju_retrigger := True, ju_dirty := True\<rparr>"
  have ok: "ju_ready_ok ?ju"
    using assms by (auto simp: ju_ready_ok_def ju_stale_interrupt_def)
  have "ju_shape (?ju\<lparr>ju_ready := ju_next ?ju \<noteq> None\<rparr>)"
    using assms ok by (auto simp: ju_inv_def ju_shape_def ju_next_def)
  with ok show ?thesis
    using assms by (simp add: ju_retrigger_trigger_def ju_update_ready_eq ju_inv_def ju_jobs_def ju_recorded_def)
qed

subsection \<open>Taking the next job\<close>

lemma do_next_trigger_suspend_spec:
  assumes inv: "ju_inv e ju" and next_s: "ju_next ju = Some True"
  shows "\<exists>k j ju'. do_next_trigger ju e = Some ((j, if ju_interrupt ju then ju_trigger ju else None), ju') \<and>
    ju_suspends ju k = Some j \<and> ju_shape ju' \<and> ju_order ju' \<and> (\<exists>js. ju_sq ju = j # js) \<and>
    ju' = ju\<lparr>ju_interrupt := False, ju_retrigger := False, ju_trigger := Some j, ju_sq := tl (ju_sq ju),
             ju_suspends := (ju_suspends ju)(k := None), ju_dirty := True, ju_ready := False\<rparr>"
proof -
  from inv have jobs: "ju_jobs e ju" and shape: "ju_shape ju" by (simp_all add: ju_inv_def)
  from next_s have o: "\<not> ju_pause ju" "ju_order ju" and sq_ne: "ju_sq ju \<noteq> []"
    and tr: "ju_trigger ju = None \<or> ju_interrupt ju"
    by (auto simp: ju_next_def split: if_splits)
  then obtain j js where sq: "ju_sq ju = j # js" by (cases "ju_sq ju") auto
  then have spec: "sq_spec (ju_suspends ju) = j # js" using shape o by (auto simp: ju_shape_def)
  have mu: "mutop_unique (ju_suspends ju)" "\<not> kinds_conflict (dom (ju_suspends ju))"
    using shape o by (auto simp: ju_shape_def)
  from sq_spec_Cons[OF spec mu] obtain k where k: "ju_suspends ju k = Some j"
    "mutop_unique ((ju_suspends ju)(k := None))" "\<not> kinds_conflict (dom ((ju_suspends ju)(k := None)))"
    "js = sq_spec ((ju_suspends ju)(k := None)) \<or> js = [] \<and> dom ((ju_suspends ju)(k := None)) \<subseteq> {Nop}"
    by blast
  have "job_at e j Wait k (ju_unit ju)" using jobs k(1) by (simp add: ju_jobs_def)
  then obtain jb where jb: "je_jobs e j = Some jb" "jb_kind jb = k" by (rule job_atE)
  let ?ju = "ju\<lparr>ju_interrupt := False, ju_retrigger := False, ju_trigger := Some j, ju_sq := tl (ju_sq ju),
       ju_suspends := (ju_suspends ju)(k := None), ju_dirty := True, ju_ready := False\<rparr>"
  have none: "\<not> ju_interrupt ju \<Longrightarrow> \<not> ju_retrigger ju" using tr shape by (auto simp: ju_shape_def)
  have ok: "ju_ready_ok ju" using shape by (simp add: ju_shape_def)
  have "do_next_trigger ju e = do_next_trigger_suspend ju e"
    by (simp add: do_next_trigger_def ju_calc_ready_eq ok next_s)
  also have "\<dots> = Some ((j, if ju_interrupt ju then ju_trigger ju else None), ?ju)"
    using o sq jb none
    by (cases ju) (auto simp: do_next_trigger_suspend_def Let_def ju_update_ready_eq ju_ready_ok_def ju_next_def)
  finally have run: "do_next_trigger ju e = Some ((j, if ju_interrupt ju then ju_trigger ju else None), ?ju)" .
  have "ju_shape ?ju" using k(2-4) o sq by (simp add: ju_shape_def ju_next_def ju_ready_ok_def)
  then show ?thesis using run k(1) o sq by (intro exI[of _ k] exI[of _ j] exI[of _ ?ju]) simp
qed

lemma do_next_trigger_retrigger_spec:
  assumes inv: "ju_inv e ju" and next_t: "ju_next ju = Some False"
  shows "\<exists>t ju'. do_next_trigger ju e = Some ((t, None), ju') \<and> ju_trigger ju = Some t \<and> ju_shape ju' \<and>
    ju_order ju' \<and> \<not> ju_interrupt ju' \<and> ju' = ju\<lparr>ju_retrigger := False, ju_dirty := True, ju_ready := False\<rparr>"
proof -
  from inv have shape: "ju_shape ju" by (simp add: ju_inv_def)
  from next_t have o: "\<not> ju_pause ju" "ju_order ju" "ju_retrigger ju" "ju_trigger ju \<noteq> None"
    and i: "ju_sq ju = [] \<or> \<not> ju_interrupt ju"
    by (auto simp: ju_next_def split: if_splits)
  obtain t where t: "ju_trigger ju = Some t" using o by auto
  have ok: "ju_ready_ok ju" using shape by (simp add: ju_shape_def)
  with o i t have ni: "\<not> ju_interrupt ju" by (auto simp: ju_ready_ok_def)
  let ?ju = "ju\<lparr>ju_retrigger := False, ju_dirty := True, ju_ready := False\<rparr>"
  have "do_next_trigger ju e = do_next_trigger_retrigger ju"
    by (simp add: do_next_trigger_def ju_calc_ready_eq ok next_t)
  also have "\<dots> = Some ((t, None), ?ju)"
    using o t ni by (simp add: do_next_trigger_retrigger_def ju_update_ready_eq ju_ready_ok_def ju_next_def)
  finally have "do_next_trigger ju e = Some ((t, None), ?ju)" .
  moreover have "ju_shape ?ju" using shape t ni by (simp add: ju_shape_def ju_next_def ju_ready_ok_def)
  ultimately show ?thesis using t o ni by simp
qed

subsection \<open>The environment side of running and finishing\<close>

lemma finish_running:
  assumes jobs: "ju_jobs e ju" and rec: "ju_recorded e ju" and t: "ju_trigger ju = Some t"
    and jb: "je_jobs e t = Some jb"
    and last: "\<not> (r = Done \<and> jb_kind jb = Restart \<and> jb_run_kind jb = Stop)"
  shows "\<exists>e'. job_finish r t e = Some (False, e') \<and> ju_jobs e' (ju\<lparr>ju_trigger := None\<rparr>) \<and>
    ju_recorded e' (ju\<lparr>ju_trigger := None\<rparr>) \<and> env_frame (ju_unit ju) {t} e e' \<and>
    je_units e' = je_units e \<and> je_notes e' = je_notes e"
proof -
  let ?u = "ju_unit ju"
  from jobs t obtain k where at: "job_at e t Running k ?u" by (auto simp: ju_jobs_def)
  with jb have wf: "job_wf jb" "jb_stage jb = Running" "jb_unit jb = ?u" by (auto simp: job_at_def)
  let ?e = "(put_job t (jb\<lparr>jb_stage := End r\<rparr>) e)
     \<lparr>je_re := (je_re e)\<lparr>jre_trigger := redb_remove ?u (jre_trigger (je_re e))\<rparr>\<rparr>"
  have run: "job_finish r t e = Some (False, ?e)"
    using wf last by (auto simp: job_finish_eq[OF jb wf(1)] Let_def rentry_trigger_remove_def trigger_remove_def)
  have ns: "ju_suspends ju k' \<noteq> Some t" for k' using ju_jobs_trigger_not_suspended[OF jobs t] .
  have "ju_jobs ?e (ju\<lparr>ju_trigger := None\<rparr>)"
    using jobs ns by (auto simp: ju_jobs_def job_at_def)
  moreover have "suspends_get (je_re ?e) ?u k' =
      Option.bind (ju_suspends ju k') (\<lambda>j. map_option jb_attr (je_jobs ?e j))" for k'
    using rec ns[of k'] by (cases "ju_suspends ju k'") (auto simp: ju_recorded_def suspends_get_def)
  moreover have "trigger_get (je_re ?e) ?u = None" "job_re_live (je_re ?e)"
    using rec by (simp_all add: ju_recorded_def trigger_get_def job_re_live_def)
  moreover have "env_frame ?u {t} e ?e"
    using rec by (auto simp: env_frame_def job_re_defs ju_recorded_def job_re_live_def)
  ultimately show ?thesis using run by (simp add: ju_recorded_def)
qed

lemma run_suspended:
  assumes jobs: "ju_jobs e ju" and rec: "ju_recorded e ju" and t: "ju_trigger ju = None"
    and s: "ju_suspends ju k = Some j"
  shows "\<exists>r e'. job_run act j e = Some (r, e') \<and>
    ju_jobs e' (ju\<lparr>ju_trigger := Some j, ju_suspends := (ju_suspends ju)(k := None)\<rparr>) \<and>
    ju_recorded e' (ju\<lparr>ju_trigger := Some j, ju_suspends := (ju_suspends ju)(k := None)\<rparr>) \<and>
    env_frame (ju_unit ju) {j} e e' \<and> job_at e' j Running k (ju_unit ju)"
proof -
  let ?u = "ju_unit ju" and ?ju = "ju\<lparr>ju_trigger := Some j, ju_suspends := (ju_suspends ju)(k := None)\<rparr>"
  have "job_at e j Wait k ?u" using jobs s by (simp add: ju_jobs_def)
  then obtain jb where jb: "je_jobs e j = Some jb" "jb_stage jb = Wait" "jb_kind jb = k" "jb_unit jb = ?u" "job_wf jb"
    by (rule job_atE)
  from job_run_total[OF jb(1,5), of act] jb obtain r e' where e': "job_run act j e = Some (r, e')"
    "je_jobs e' = (je_jobs e)(j \<mapsto> jb\<lparr>jb_stage := Running\<rparr>)" "je_alloc e' = je_alloc e"
    "je_re e' = (je_re e)\<lparr>jre_suspends := redb_remove (?u, k) (jre_suspends (je_re e)),
                     jre_trigger := redb_insert ?u (k, jb_attr jb) (jre_trigger (je_re e))\<rparr>"
    by auto
  have other: "ju_suspends ju k' \<noteq> Some j" if "k' \<noteq> k" for k'
    using ju_jobs_inj[OF jobs s] that by blast
  have "ju_jobs e' ?ju"
    using jobs jb other by (auto simp: ju_jobs_def job_at_def e'(2) split: if_splits)
  moreover have "suspends_get (je_re e') ?u k' =
      Option.bind (((ju_suspends ju)(k := None)) k') (\<lambda>j. map_option jb_attr (je_jobs e' j))" for k'
  proof (cases "k' = k")
    case True
    then show ?thesis using rec by (simp add: ju_recorded_def job_re_live_def suspends_get_def e'(4))
  next
    case False
    moreover have "suspends_get (je_re e) ?u k' =
        Option.bind (ju_suspends ju k') (\<lambda>j. map_option jb_attr (je_jobs e j))"
      using rec by (simp add: ju_recorded_def)
    ultimately show ?thesis using other[OF False]
      by (cases "ju_suspends ju k'") (simp_all add: suspends_get_def e'(2,4))
  qed
  moreover have "trigger_get (je_re e') ?u = Some (k, jb_attr jb)" "job_re_live (je_re e')"
    using rec by (simp_all add: ju_recorded_def trigger_get_def job_re_live_def e'(4))
  moreover have "env_frame ?u {j} e e'"
    using rec by (auto simp: env_frame_def job_re_defs ju_recorded_def job_re_live_def e')
  moreover have "job_at e' j Running k ?u" using jb by (simp add: job_at_def e'(2))
  ultimately show ?thesis using e'(1,2) jb(3) by (simp add: ju_recorded_def)
qed

lemma run_again:
  assumes jobs: "ju_jobs e ju" and rec: "ju_recorded e ju" and t: "ju_trigger ju = Some t"
  shows "\<exists>r e'. job_run act t e = Some (r, e') \<and> ju_jobs e' ju \<and> ju_recorded e' ju \<and>
    env_frame (ju_unit ju) {t} e e'"
proof -
  let ?u = "ju_unit ju"
  from jobs t obtain k where "job_at e t Running k ?u" by (auto simp: ju_jobs_def)
  then obtain jb where jb: "je_jobs e t = Some jb" "jb_stage jb = Running" "jb_kind jb = k" "jb_unit jb = ?u" "job_wf jb"
    by (rule job_atE)
  from job_run_total[OF jb(1,5), of act] jb obtain r e' where e': "job_run act t e = Some (r, e')"
    "je_jobs e' = (je_jobs e)(t \<mapsto> jb\<lparr>jb_stage := Running\<rparr>)" "je_alloc e' = je_alloc e" "je_re e' = je_re e"
    by auto
  have "jb\<lparr>jb_stage := Running\<rparr> = jb" using jb(2) by (cases jb) simp
  then have "je_jobs e' = je_jobs e" using e'(2) jb(1) by (simp add: fun_upd_idem)
  then show ?thesis using e' jobs rec
    by (simp add: ju_jobs_def job_at_def ju_recorded_def env_frame_def)
qed

subsection \<open>do_trigger\<close>

lemma ju_jobs_cong:
  assumes "ju_unit ju' = ju_unit ju" "ju_trigger ju' = ju_trigger ju" "ju_suspends ju' = ju_suspends ju"
  shows "ju_jobs e ju' = ju_jobs e ju" and "ju_recorded e ju' = ju_recorded e ju"
  using assms by (simp_all add: ju_jobs_def ju_recorded_def)

text \<open>Before the next suspended job runs, the interrupted one (if any) is merged into it and ended.\<close>

lemma interrupt_trigger:
  assumes inv: "ju_inv e ju" and s: "ju_suspends ju k = Some j" and cur: "je_jobs e j = Some cur"
    and tr: "ju_trigger ju = None \<or> ju_interrupt ju"
  shows "\<exists>e1. (case (if ju_interrupt ju then ju_trigger ju else None) of
       None \<Rightarrow> Some e
     | Some mj \<Rightarrow> do {
         mb \<leftarrow> je_jobs e mj;
         ea \<leftarrow> (if jb_kind mb = jb_kind cur then job_merge_attr j mj e else Some e);
         map_option snd (job_finish Merged mj ea)
       }) = Some e1 \<and>
    ju_jobs e1 (ju\<lparr>ju_trigger := None\<rparr>) \<and> ju_recorded e1 (ju\<lparr>ju_trigger := None\<rparr>) \<and>
    env_frame (ju_unit ju) (insert j (set_option (ju_trigger ju))) e e1"
proof (cases "ju_trigger ju")
  case None
  have "ju_jobs e (ju\<lparr>ju_trigger := None\<rparr>) = ju_jobs e ju"
    "ju_recorded e (ju\<lparr>ju_trigger := None\<rparr>) = ju_recorded e ju"
    using None by (simp_all add: ju_jobs_def ju_recorded_def)
  then show ?thesis using inv None by (simp add: ju_inv_def)
next
  case (Some t)
  let ?J = "insert j (set_option (ju_trigger ju))"
  have jobs: "ju_jobs e ju" using inv by (simp add: ju_inv_def)
  then obtain kt where "job_at e t Running kt (ju_unit ju)" using Some by (auto simp: ju_jobs_def)
  then obtain mb where mb: "je_jobs e t = Some mb" by (rule job_atE)
  have "job_at e j Wait k (ju_unit ju)" using jobs s by (simp add: ju_jobs_def)
  with cur have kind: "jb_kind cur = k" by (simp add: job_at_def)
  have ne: "j \<noteq> t" using ju_jobs_trigger_not_suspended[OF jobs Some] s by blast
  obtain ea where ea: "(if jb_kind mb = jb_kind cur then job_merge_attr j t e else Some e) = Some ea"
    "ju_inv ea ju" "env_frame (ju_unit ju) {j} e ea"
    using job_merge_attr_spec[OF inv s mb _ ne] inv kind by (cases "jb_kind mb = jb_kind cur") auto
  have mb': "je_jobs ea t = Some mb" using ea(3) mb ne by (simp add: env_frame_def)
  from ea(2) finish_running[OF _ _ Some mb', of Merged] obtain e1 where
    e1: "job_finish Merged t ea = Some (False, e1)" "ju_jobs e1 (ju\<lparr>ju_trigger := None\<rparr>)"
      "ju_recorded e1 (ju\<lparr>ju_trigger := None\<rparr>)" "env_frame (ju_unit ju) {t} ea e1"
    by (auto simp: ju_inv_def)
  have "env_frame (ju_unit ju) ?J e e1"
    by (rule env_frame_trans[OF env_frame_mono[OF ea(3)] env_frame_mono[OF e1(4)]]) (auto simp: Some)
  then show ?thesis using Some tr mb ea(1) e1 by auto
qed

text \<open>The queue after the action has returned: unchanged, or paused to be triggered again.\<close>

lemma trigger_outcome:
  assumes "ju_inv e ju" and "ju_order ju" and "ju_trigger ju \<noteq> None" and "\<not> ju_ready ju"
  shows "\<exists>res ju'. (case ret of
         Inr _ \<Rightarrow> Some (None, ju)
       | Inl None \<Rightarrow> do {
           jua \<leftarrow> ju_do_pause ju;
           jub \<leftarrow> ju_retrigger_trigger jua;
           Some (None, jub)
         }
       | Inl (Some r) \<Rightarrow> Some (Some r, ju)) = Some (res, ju') \<and>
    ju_inv e ju' \<and> \<not> ju_ready ju' \<and> ju_trigger ju' = ju_trigger ju \<and> ju_suspends ju' = ju_suspends ju \<and>
    ju_unit ju' = ju_unit ju \<and> ju_order ju' \<and> ju_up_ready ju' = ju_up_ready ju \<and> ju_sq ju' = ju_sq ju"
proof (cases "ret = Inl None")
  case True
  from ju_do_pause_spec[OF assms(1,2)] obtain jua where jua: "ju_do_pause ju = Some jua" "ju_inv e jua"
    "jua = ju\<lparr>ju_dirty := True, ju_pause := True, ju_ready := False\<rparr>" by blast
  with assms have "ju_order jua" "ju_trigger jua \<noteq> None" "ju_pause jua \<or> \<not> ju_stale_interrupt jua" by simp_all
  from ju_retrigger_trigger_spec[OF jua(2) this] obtain jub where jub: "ju_retrigger_trigger jua = Some jub"
    "ju_inv e jub" "jub = jua\<lparr>ju_retrigger := True, ju_dirty := True,
       ju_ready := ju_next (jua\<lparr>ju_retrigger := True, ju_dirty := True\<rparr>) \<noteq> None\<rparr>" by blast
  have "\<not> ju_ready jub" using jub(3) jua(3) by (simp add: ju_next_def)
  with True jua jub assms(2) show ?thesis by simp
next
  case False
  with assms show ?thesis by (cases ret) (auto split: option.splits)
qed

text \<open>The state between the run of the job and the handling of its result.\<close>

definition trigger_ran ::
  "unit_act \<Rightarrow> job_unit \<Rightarrow> 'd job_env \<Rightarrow> u32 \<Rightarrow> u32 option \<Rightarrow> job \<Rightarrow> (job_result option + unit) \<Rightarrow>
   job_unit \<Rightarrow> 'd job_env \<Rightarrow> bool" where
  "trigger_ran act ju e cur mj cb ret ju1 e2 \<longleftrightarrow>
     do_next_trigger ju e = Some ((cur, mj), ju1) \<and> je_jobs e cur = Some cb \<and>
     (\<exists>e1. (case mj of None \<Rightarrow> Some e
       | Some m \<Rightarrow> do {
           mb \<leftarrow> je_jobs e m;
           ea \<leftarrow> (if jb_kind mb = jb_kind cb then job_merge_attr cur m e else Some e);
           map_option snd (job_finish Merged m ea)
         }) = Some e1 \<and> job_run act cur e1 = Some (ret, e2)) \<and>
     ju_inv e2 ju1 \<and> \<not> ju_ready ju1 \<and> ju_order ju1 \<and> ju_trigger ju1 = Some cur \<and>
     ju_unit ju1 = ju_unit ju \<and> ju_up_ready ju1 = ju_up_ready ju \<and>
     env_frame (ju_unit ju) (ran (ju_suspends ju) \<union> set_option (ju_trigger ju)) e e2"

lemma trigger_ran_suspend:
  assumes inv: "ju_inv e ju" and next_s: "ju_next ju = Some True"
  shows "\<exists>k cur mj cb ret ju1 e2. trigger_ran act ju e cur mj cb ret ju1 e2 \<and> ju_suspends ju k = Some cur \<and>
    ju_suspends ju1 = (ju_suspends ju)(k := None) \<and> ju_sq ju = cur # ju_sq ju1 \<and>
    job_at e2 cur Running k (ju_unit ju)"
proof -
  let ?J = "ran (ju_suspends ju) \<union> set_option (ju_trigger ju)"
  have jobs: "ju_jobs e ju" using inv by (simp add: ju_inv_def)
  from do_next_trigger_suspend_spec[OF inv next_s] obtain k j ju1 where n:
    "do_next_trigger ju e = Some ((j, if ju_interrupt ju then ju_trigger ju else None), ju1)"
    "ju_suspends ju k = Some j" "ju_shape ju1" "ju_order ju1" "\<exists>js. ju_sq ju = j # js"
    "ju1 = ju\<lparr>ju_interrupt := False, ju_retrigger := False, ju_trigger := Some j, ju_sq := tl (ju_sq ju),
           ju_suspends := (ju_suspends ju)(k := None), ju_dirty := True, ju_ready := False\<rparr>"
    by blast
  have tr: "ju_trigger ju = None \<or> ju_interrupt ju" using next_s by (auto simp: ju_next_def split: if_splits)
  have "job_at e j Wait k (ju_unit ju)" using jobs n(2) by (simp add: ju_jobs_def)
  then obtain cb where cb: "je_jobs e j = Some cb" by (rule job_atE)
  from interrupt_trigger[OF inv n(2) cb tr] obtain e1 where e1:
    "(case (if ju_interrupt ju then ju_trigger ju else None) of None \<Rightarrow> Some e
     | Some mj \<Rightarrow> do {
         mb \<leftarrow> je_jobs e mj;
         ea \<leftarrow> (if jb_kind mb = jb_kind cb then job_merge_attr j mj e else Some e);
         map_option snd (job_finish Merged mj ea)
       }) = Some e1"
    "ju_jobs e1 (ju\<lparr>ju_trigger := None\<rparr>)" "ju_recorded e1 (ju\<lparr>ju_trigger := None\<rparr>)"
    "env_frame (ju_unit ju) (insert j (set_option (ju_trigger ju))) e e1"
    by blast
  let ?ju = "(ju\<lparr>ju_trigger := None\<rparr>)\<lparr>ju_trigger := Some j,
      ju_suspends := (ju_suspends (ju\<lparr>ju_trigger := None\<rparr>))(k := None)\<rparr>"
  from run_suspended[OF e1(2,3), of k j act] n(2) obtain ret e2 where r: "job_run act j e1 = Some (ret, e2)"
    "ju_jobs e2 ?ju" "ju_recorded e2 ?ju" "env_frame (ju_unit ju) {j} e1 e2" "job_at e2 j Running k (ju_unit ju)"
    by auto
  have "ju_inv e2 ju1"
    using r(2,3) n(3) ju_jobs_cong[of ju1 ?ju e2] by (simp add: ju_inv_def n(6))
  moreover have j: "j \<in> ran (ju_suspends ju)" using n(2) by (auto simp: ran_def)
  moreover have "env_frame (ju_unit ju) ?J e e2"
    by (rule env_frame_trans[OF env_frame_mono[OF e1(4)] env_frame_mono[OF r(4)]]) (use j in auto)
  ultimately have "trigger_ran act ju e j (if ju_interrupt ju then ju_trigger ju else None) cb ret ju1 e2"
    unfolding trigger_ran_def using n(1,4) cb e1(1) r(1) by (simp add: n(6))
  moreover have "ju_suspends ju1 = (ju_suspends ju)(k := None)" "ju_sq ju = j # ju_sq ju1"
    using n(5) by (auto simp: n(6))
  ultimately show ?thesis using n(2) r(5) by blast
qed

lemma trigger_ran_retrigger:
  assumes inv: "ju_inv e ju" and next_t: "ju_next ju = Some False"
  shows "\<exists>cur cb ret ju1 e2. trigger_ran act ju e cur None cb ret ju1 e2 \<and> ju_trigger ju = Some cur \<and>
    ju_suspends ju1 = ju_suspends ju \<and> ju_sq ju1 = ju_sq ju"
proof -
  let ?J = "ran (ju_suspends ju) \<union> set_option (ju_trigger ju)"
  have jobs: "ju_jobs e ju" and rec: "ju_recorded e ju" using inv by (simp_all add: ju_inv_def)
  from do_next_trigger_retrigger_spec[OF inv next_t] obtain t ju1 where n:
    "do_next_trigger ju e = Some ((t, None), ju1)" "ju_trigger ju = Some t" "ju_shape ju1" "ju_order ju1"
    "ju1 = ju\<lparr>ju_retrigger := False, ju_dirty := True, ju_ready := False\<rparr>"
    by blast
  from jobs n(2) obtain k where "job_at e t Running k (ju_unit ju)" by (auto simp: ju_jobs_def)
  then obtain cb where cb: "je_jobs e t = Some cb" by (rule job_atE)
  from run_again[OF jobs rec n(2), of act] obtain ret e2 where r: "job_run act t e = Some (ret, e2)"
    "ju_jobs e2 ju" "ju_recorded e2 ju" "env_frame (ju_unit ju) {t} e e2"
    by blast
  have "ju_inv e2 ju1"
    using r(2,3) n(3) ju_jobs_cong[of ju1 ju e2] by (simp add: ju_inv_def n(5))
  moreover have "env_frame (ju_unit ju) ?J e e2"
    by (rule env_frame_mono[OF r(4)]) (simp add: n(2))
  ultimately have "trigger_ran act ju e t None cb ret ju1 e2"
    unfolding trigger_ran_def using n(1,2,4) cb r(1) by (simp add: n(5))
  moreover have "ju_suspends ju1 = ju_suspends ju" "ju_sq ju1 = ju_sq ju" by (simp_all add: n(5))
  ultimately show ?thesis using n(2) by blast
qed

lemma trigger_ran_result:
  assumes "trigger_ran act ju e cur mj cb ret ju1 e2"
  shows "\<exists>res ju2. ju_do_trigger act ju e = Some ((Some (job_info_map cb, res), mj), ju2, e2) \<and>
    ju_inv e2 ju2 \<and> \<not> ju_ready ju2 \<and> ju_order ju2 \<and> ju_trigger ju2 = Some cur \<and> ju_unit ju2 = ju_unit ju \<and>
    ju_up_ready ju2 = ju_up_ready ju \<and> ju_suspends ju2 = ju_suspends ju1 \<and> ju_sq ju2 = ju_sq ju1"
proof -
  note st = assms[unfolded trigger_ran_def]
  then obtain e1 where st1: "(case mj of None \<Rightarrow> Some e
       | Some m \<Rightarrow> do {
           mb \<leftarrow> je_jobs e m;
           ea \<leftarrow> (if jb_kind mb = jb_kind cb then job_merge_attr cur m e else Some e);
           map_option snd (job_finish Merged m ea)
         }) = Some e1" "job_run act cur e1 = Some (ret, e2)" by blast
  from st have pre: "ju_inv e2 ju1" "ju_order ju1" "ju_trigger ju1 \<noteq> None" "\<not> ju_ready ju1" by simp_all
  from trigger_outcome[OF pre, of ret] obtain res ju2 where o:
    "(case ret of Inr _ \<Rightarrow> Some (None, ju1)
       | Inl None \<Rightarrow> do {
           jua \<leftarrow> ju_do_pause ju1;
           jub \<leftarrow> ju_retrigger_trigger jua;
           Some (None, jub)
         }
       | Inl (Some r) \<Rightarrow> Some (Some r, ju1)) = Some (res, ju2)"
    "ju_inv e2 ju2" "\<not> ju_ready ju2" "ju_trigger ju2 = ju_trigger ju1" "ju_suspends ju2 = ju_suspends ju1"
    "ju_unit ju2 = ju_unit ju1" "ju_order ju2" "ju_up_ready ju2 = ju_up_ready ju1" "ju_sq ju2 = ju_sq ju1"
    by blast
  have "ju_do_trigger act ju e = Some ((Some (job_info_map cb, res), mj), ju2, e2)"
    unfolding ju_do_trigger_def using st st1 o(1) by (simp add: Let_def)
  then show ?thesis using st o by auto
qed

text \<open>Triggering a ready queue returns, and keeps the invariant and the frame.\<close>

lemma ju_do_trigger_spec:
  assumes inv: "ju_inv e ju" and ready: "ju_next ju \<noteq> None"
  shows "\<exists>cb res mj ju' e' t. ju_do_trigger act ju e = Some ((Some (job_info_map cb, res), mj), ju', e') \<and>
    ju_inv e' ju' \<and> \<not> ju_ready ju' \<and> ju_order ju' \<and> ju_trigger ju' = Some t \<and> je_jobs e t = Some cb \<and>
    ju_unit ju' = ju_unit ju \<and> ju_up_ready ju' = ju_up_ready ju \<and>
    env_frame (ju_unit ju) (ran (ju_suspends ju) \<union> set_option (ju_trigger ju)) e e' \<and>
    ran (ju_suspends ju') \<subseteq> ran (ju_suspends ju) \<and> t \<in> ran (ju_suspends ju) \<union> set_option (ju_trigger ju)"
proof (cases "ju_next ju = Some True")
  case True
  from trigger_ran_suspend[OF inv True, of act] obtain k cur mj cb ret ju1 e2 where
    r: "trigger_ran act ju e cur mj cb ret ju1 e2" "ju_suspends ju k = Some cur"
       "ju_suspends ju1 = (ju_suspends ju)(k := None)" by blast
  moreover have "ran ((ju_suspends ju)(k := None)) \<subseteq> ran (ju_suspends ju)" "cur \<in> ran (ju_suspends ju)"
    using r(2) by (auto simp: ran_def split: if_splits)
  ultimately show ?thesis using trigger_ran_result[OF r(1)] r(1)[unfolded trigger_ran_def] by auto
next
  case False
  with ready have nf: "ju_next ju = Some False" by (cases "ju_next ju") auto
  from trigger_ran_retrigger[OF inv nf, of act] obtain cur cb ret ju1 e2 where
    r: "trigger_ran act ju e cur None cb ret ju1 e2" "ju_trigger ju = Some cur" "ju_suspends ju1 = ju_suspends ju"
    by blast
  then show ?thesis using trigger_ran_result[OF r(1)] r(1)[unfolded trigger_ran_def] by auto
qed

subsection \<open>finish_trigger\<close>

lemma finish_restart_half:
  assumes jobs: "ju_jobs e ju" and rec: "ju_recorded e ju" and t: "ju_trigger ju = Some t"
    and jb: "je_jobs e t = Some jb" "jb_kind jb = Restart" "jb_run_kind jb = Stop"
  shows "\<exists>e'. job_finish Done t e = Some (True, e') \<and> ju_jobs e' ju \<and> ju_recorded e' ju \<and>
    env_frame (ju_unit ju) {t} e e' \<and> je_units e' = je_units e \<and> je_notes e' = je_notes e \<and>
    je_jobs e' t = Some (jb\<lparr>jb_run_kind := Start, jb_stage := Running\<rparr>)"
proof -
  from jobs t obtain k where at: "job_at e t Running k (ju_unit ju)" by (auto simp: ju_jobs_def)
  with jb have wf: "job_wf jb" "jb_stage jb = Running" "jb_unit jb = ju_unit ju" by (auto simp: job_at_def)
  let ?e = "put_job t (jb\<lparr>jb_run_kind := Start, jb_stage := Running\<rparr>) e"
  have run: "job_finish Done t e = Some (True, ?e)"
    using wf jb by (simp add: job_finish_eq[OF jb(1) wf(1)])
  have ns: "ju_suspends ju k' \<noteq> Some t" for k' using ju_jobs_trigger_not_suspended[OF jobs t] .
  have "ju_jobs ?e ju"
    using jobs ns t jb wf by (auto simp: ju_jobs_def job_at_def job_wf_def rkind_ok_def)
  moreover have "suspends_get (je_re ?e) (ju_unit ju) k' =
      Option.bind (ju_suspends ju k') (\<lambda>j. map_option jb_attr (je_jobs ?e j))" for k'
    using rec ns[of k'] by (cases "ju_suspends ju k'") (auto simp: ju_recorded_def suspends_get_def)
  moreover have "env_frame (ju_unit ju) {t} e ?e" by (simp add: env_frame_def)
  ultimately show ?thesis using run rec t jb by (simp add: ju_recorded_def)
qed

lemma ju_finish_trigger_spec:
  assumes inv: "ju_inv e ju" and order: "ju_order ju" and t: "ju_trigger ju = Some t" and jb: "je_jobs e t = Some jb"
  shows "\<exists>del ju' e'. ju_finish_trigger r ju e = Some (del, ju', e') \<and> ju_inv e' ju' \<and> ju_order ju' \<and>
    del = (if r = Done \<and> jb_kind jb = Restart \<and> jb_run_kind jb = Stop then None else Some t) \<and>
    ju_trigger ju' = (if r = Done \<and> jb_kind jb = Restart \<and> jb_run_kind jb = Stop then Some t else None) \<and>
    ju_suspends ju' = ju_suspends ju \<and> ju_sq ju' = ju_sq ju \<and> ju_unit ju' = ju_unit ju \<and> ju_up_ready ju' = ju_up_ready ju \<and>
    env_frame (ju_unit ju) {t} e e' \<and> je_units e' = je_units e \<and> je_notes e' = je_notes e"
proof -
  from inv have jobs: "ju_jobs e ju" and rec: "ju_recorded e ju" and shape: "ju_shape ju"
    by (simp_all add: ju_inv_def)
  have nstale: "ju_pause ju \<or> \<not> ju_stale_interrupt ju"
    using shape order t by (auto simp: ju_shape_def ju_ready_ok_def ju_stale_interrupt_def)
  show ?thesis
  proof (cases "r = Done \<and> jb_kind jb = Restart \<and> jb_run_kind jb = Stop")
    case True
    from finish_restart_half[OF jobs rec t jb] True obtain e' where e': "job_finish Done t e = Some (True, e')"
      "ju_jobs e' ju" "ju_recorded e' ju" "env_frame (ju_unit ju) {t} e e'" "je_units e' = je_units e" "je_notes e' = je_notes e"
      by blast
    have inv': "ju_inv e' ju" using e'(2,3) shape by (simp add: ju_inv_def)
    from ju_retrigger_trigger_spec[OF inv' order _ nstale] t obtain ju1 where ju1:
      "ju_retrigger_trigger ju = Some ju1" "ju_inv e' ju1"
      "ju1 = ju\<lparr>ju_retrigger := True, ju_dirty := True,
               ju_ready := ju_next (ju\<lparr>ju_retrigger := True, ju_dirty := True\<rparr>) \<noteq> None\<rparr>"
      by auto
    have same: "ju1\<lparr>ju_dirty := True\<rparr> = ju1" using ju1(3) by simp
    have "ju_ready_ok ju1" "ju_ready ju1 = (ju_next ju1 \<noteq> None)"
      using ju1(2) by (simp_all add: ju_inv_def ju_shape_def)
    then have "ju_update_ready ju1 = Some ju1" by (cases ju1) (simp add: ju_update_ready_eq)
    then have "ju_finish_trigger r ju e = Some (None, ju1, e')"
      using True t order e'(1) ju1(1) same by (simp add: ju_finish_trigger_def)
    then show ?thesis using True e' ju1(2) t order by (simp add: ju1(3))
  next
    case False
    from finish_running[OF jobs rec t jb False] obtain e' where e': "job_finish r t e = Some (False, e')"
      "ju_jobs e' (ju\<lparr>ju_trigger := None\<rparr>)" "ju_recorded e' (ju\<lparr>ju_trigger := None\<rparr>)"
      "env_frame (ju_unit ju) {t} e e'" "je_units e' = je_units e" "je_notes e' = je_notes e"
      by blast
    let ?ju = "ju\<lparr>ju_interrupt := False, ju_retrigger := False, ju_trigger := None, ju_dirty := True\<rparr>"
    have ok: "ju_ready_ok ?ju" by (simp add: ju_ready_ok_def)
    have run: "ju_finish_trigger r ju e = Some (Some t, ?ju\<lparr>ju_ready := ju_next ?ju \<noteq> None\<rparr>, e')"
      using t order e'(1) ok by (simp add: ju_finish_trigger_def ju_update_ready_eq)
    have "ju_shape (?ju\<lparr>ju_ready := ju_next ?ju \<noteq> None\<rparr>)"
      using shape ok order by (auto simp: ju_shape_def ju_next_def)
    then have "ju_inv e' (?ju\<lparr>ju_ready := ju_next ?ju \<noteq> None\<rparr>)"
      using e'(2,3) by (simp add: ju_inv_def ju_jobs_def ju_recorded_def)
    then show ?thesis using False run e' t order by simp
  qed
qed

end
