(* ===== verification/Job_Unit_Thms.thy ===== *)
theory Job_Unit_Thms
  imports Job_Unit_Trigger
begin

section \<open>What the job queue of a unit guarantees\<close>

text \<open>
  The properties of \<open>JobUnit\<close> (core/bin/job/junit.rs), each with a witness on the queue of
  one unit whose start job runs while other jobs wait.
\<close>

subsection \<open>Example queues\<close>

definition ex_attr :: job_attr where
  "ex_attr = job_attr_new False False False False"

definition ex_job :: "u32 \<Rightarrow> job_kind \<Rightarrow> job_stage \<Rightarrow> job" where
  "ex_job j k st = (job_new j ''a.service'' k)\<lparr>jb_stage := st\<rparr>"

text \<open>A running start job and a waiting job of another kind.\<close>

definition ex_busy_env :: "job_kind \<Rightarrow> nat job_env" where
  "ex_busy_env k = ex_env
     \<lparr>je_jobs := [1 \<mapsto> ex_job 1 Start Running, 2 \<mapsto> ex_job 2 k Wait, 3 \<mapsto> ex_job 3 k Init],
      je_re := \<lparr>jre_trigger = redb_insert ''a.service'' (Start, ex_attr) (redb_new 0),
               jre_suspends = redb_insert (''a.service'', k) ex_attr (redb_new 0)\<rparr>\<rparr>"

definition ex_busy :: "job_kind \<Rightarrow> job_unit" where
  "ex_busy k = (job_unit_new ''a.service'')\<lparr>ju_suspends := [k \<mapsto> 2], ju_trigger := Some 1,
     ju_order := False, ju_dirty := True\<rparr>"

text \<open>A stop job and a \<open>Nop\<close> job, both waiting.\<close>

definition ex_stop_nop_env :: "nat job_env" where
  "ex_stop_nop_env = ex_env
     \<lparr>je_jobs := [1 \<mapsto> ex_job 1 Stop Wait, 2 \<mapsto> ex_job 2 Nop Wait],
      je_re := \<lparr>jre_trigger = redb_new 0,
               jre_suspends = redb_insert (''a.service'', Stop) ex_attr
                 (redb_insert (''a.service'', Nop) ex_attr (redb_new 0))\<rparr>\<rparr>"

definition ex_stop_nop :: job_unit where
  "ex_stop_nop = (job_unit_new ''a.service'')\<lparr>ju_suspends := [Stop \<mapsto> 1, Nop \<mapsto> 2],
     ju_order := False, ju_dirty := True\<rparr>"

lemmas ex_queue_defs =
  ex_busy_env_def ex_busy_def ex_stop_nop_env_def ex_stop_nop_def ex_job_def ex_attr_def ex_env_def
  job_unit_new_def job_new_def

lemma ex_busy_inv: "job_is_basic_op k \<Longrightarrow> k \<noteq> Restart \<Longrightarrow> ju_inv (ex_busy_env k) (ex_busy k)"
  by (auto simp: ju_inv_def ju_jobs_def ju_recorded_def ju_shape_def job_at_def job_wf_def rkind_ok_def
      job_rkind_new_def ju_ready_ok_def ju_next_def job_re_live_def suspends_get_def trigger_get_def
      ex_queue_defs split: job_kind.splits)

lemma ex_stop_nop_inv: "ju_inv ex_stop_nop_env ex_stop_nop"
  by (auto simp: ju_inv_def ju_jobs_def ju_recorded_def ju_shape_def job_at_def job_wf_def rkind_ok_def
      job_rkind_new_def ju_ready_ok_def ju_next_def job_re_live_def suspends_get_def trigger_get_def
      ex_queue_defs)

subsection \<open>Properties\<close>





text \<open>
  merging the staged jobs of a unit into its queue never panics; on a conflict the
  waiting jobs are replaced, otherwise the kinds are united, a kind that is already there
  keeps its job with the attributes of both combined, the running job is untouched, and a
  conflict-free request leaves a conflict-free queue.
\<close>

theorem ju_merge_suspends_correct:
  assumes "ju_inv e ju" and "\<not> ju_is_suspends_conflict other"
    and "\<forall>k oj. ju_suspends other k = Some oj \<longrightarrow> job_at e oj Init k (ju_unit ju)"
  shows "\<exists>adds dels upds ju' e'. ju_merge_suspends other ju e = Some ((adds, dels, upds), ju', e') \<and>
    ju_inv e' ju' \<and> \<not> ju_is_suspends_conflict ju' \<and> ju_trigger ju' = ju_trigger ju \<and>
    ju_suspends ju' = ju_suspends other ++
      (if ju_is_suspends_conflict_with ju other then Map.empty else ju_suspends ju) \<and>
    (\<not> ju_is_suspends_conflict_with ju other \<longrightarrow> dels = [] \<and>
       (\<forall>k j. ju_suspends ju k = Some j \<longrightarrow> attr_at e' j =
          combine_options job_attr_or (attr_at e j) (Option.bind (ju_suspends other k) (attr_at e))))"
proof -
  from ju_merge_suspends_spec[OF assms(1,3)] obtain adds dels upds ju' e' where
    "ju_merge_suspends other ju e = Some ((adds, dels, upds), ju', e')" "ju_inv e' ju'" "ju_same_trigger ju ju'"
    "ju_suspends ju' = ju_suspends other ++
      (if ju_is_suspends_conflict_with ju other then Map.empty else ju_suspends ju)"
    "dels = (if ju_is_suspends_conflict_with ju other then suspends_values (ju_suspends ju) else [])"
    "\<not> ju_is_suspends_conflict_with ju other \<longrightarrow> (\<forall>k j. ju_suspends ju k = Some j \<longrightarrow> attr_at e' j =
       combine_options job_attr_or (attr_at e j) (Option.bind (ju_suspends other k) (attr_at e)))"
    by blast
  moreover from this(4) have "\<not> ju_is_suspends_conflict ju'" by (rule ju_merge_no_conflict[OF assms(2)])
  ultimately show ?thesis by (auto simp: ju_same_trigger_def)
qed

theorem ju_merge_suspends_correct_witness:
  "\<exists>adds dels upds ju' e'.
     ju_merge_suspends ((job_unit_new ''a.service'')\<lparr>ju_suspends := [Verify \<mapsto> 3]\<rparr>) (ex_busy Verify) (ex_busy_env Verify) =
       Some ((adds, dels, upds), ju', e') \<and> ju_inv e' ju' \<and> ju_trigger ju' = Some 1"
proof -
  have inv: "ju_inv (ex_busy_env Verify) (ex_busy Verify)" by (rule ex_busy_inv) simp_all
  let ?o = "(job_unit_new ''a.service'')\<lparr>ju_suspends := [Verify \<mapsto> 3]\<rparr>"
  have "\<not> ju_is_suspends_conflict ?o" by (simp add: ju_is_suspends_conflict_iff kinds_conflict_def)
  moreover have "\<forall>k oj. ju_suspends ?o k = Some oj \<longrightarrow> job_at (ex_busy_env Verify) oj Init k (ju_unit (ex_busy Verify))"
    by (simp add: job_at_def ex_queue_defs job_wf_def rkind_ok_def job_rkind_new_def)
  moreover have "ju_trigger (ex_busy Verify) = Some 1" by (simp add: ex_busy_def)
  ultimately show ?thesis using ju_merge_suspends_correct[OF inv, of ?o] by metis
qed


lemma ex_busy_ready:
  "\<exists>ju e. ju_reshuffle (ex_busy Stop) (ex_busy_env Stop) = Some ([], ju, e) \<and> ju_inv e ju \<and> ju_ready ju"
proof -
  have inv: "ju_inv (ex_busy_env Stop) (ex_busy Stop)" by (rule ex_busy_inv) simp_all
  have "\<not> ju_is_suspends_conflict (ex_busy Stop)"
    by (simp add: ju_is_suspends_conflict_iff kinds_conflict_def ex_queue_defs)
  moreover have "ju_pause (ex_busy Stop) \<or> \<not> ju_stale_interrupt (ex_busy Stop)"
    by (simp add: ju_stale_interrupt_def ex_queue_defs)
  moreover have "reshuffle_dropped (ex_busy_env Stop) (ex_busy Stop) = []"
    "ju_ready (reshuffle_result (ex_busy_env Stop) (ex_busy Stop))"
    by (auto simp: reshuffle_dropped_def merge_dropped_def reshuffle_result_def reshuffle_map_def Let_def
        merge_kinds_def sq_spec_def ju_next_def ex_queue_defs)
  ultimately show ?thesis using ju_reshuffle_spec[OF inv] by fastforce
qed


text \<open>
  finishing the triggered job never panics on an ordered queue. The stop half of a
  restart that is done keeps the job, now to be run as a start; every other outcome ends
  the job and frees the slot, and the waiting jobs stay.
\<close>

theorem ju_finish_trigger_correct:
  assumes "ju_inv e ju" and "ju_order ju" and "ju_trigger ju = Some t" and "je_jobs e t = Some jb"
  shows "\<exists>ju' e'. ju_finish_trigger r ju e =
      Some (if r = Done \<and> jb_kind jb = Restart \<and> jb_run_kind jb = Stop then None else Some t, ju', e') \<and>
    ju_inv e' ju' \<and> ju_suspends ju' = ju_suspends ju \<and>
    ju_trigger ju' = (if r = Done \<and> jb_kind jb = Restart \<and> jb_run_kind jb = Stop then Some t else None)"
  using ju_finish_trigger_spec[OF assms, of r] by auto

theorem ju_finish_trigger_correct_witness:
  "\<exists>ju e ju' e'. ju_reshuffle (ex_busy Stop) (ex_busy_env Stop) = Some ([], ju, e) \<and>
     ju_finish_trigger Failed ju e = Some (Some 1, ju', e') \<and> ju_inv e' ju'"
proof -
  obtain ju e where r: "ju_reshuffle (ex_busy Stop) (ex_busy_env Stop) = Some ([], ju, e)" "ju_inv e ju" "ju_ready ju"
    using ex_busy_ready by blast
  have parts: "ju_jobs (ex_busy_env Stop) (ex_busy Stop)" "ju_shape (ex_busy Stop)"
    using ex_busy_inv[of Stop] by (simp_all add: ju_inv_def)
  have "\<not> ju_is_suspends_conflict (ex_busy Stop)"
    by (simp add: ju_is_suspends_conflict_iff kinds_conflict_def ex_queue_defs)
  then have "ju = reshuffle_result (ex_busy_env Stop) (ex_busy Stop)"
    using r(1) ju_reshuffle_eq[OF parts] by (auto split: if_splits)
  then have t: "ju_order ju" "ju_trigger ju = Some 1" by (simp_all add: reshuffle_result_def Let_def ex_busy_def)
  with r(2) obtain k where "job_at e 1 Running k (ju_unit ju)" by (auto simp: ju_inv_def ju_jobs_def)
  then obtain jb where "je_jobs e 1 = Some jb" by (rule job_atE)
  from ju_finish_trigger_correct[OF r(2) t this, of Failed] r(1) show ?thesis by auto
qed

text \<open>
  a \<open>Nop\<close> job queued together with a stop job is never triggered. The stop job is
  alone in the sequence, and once it has run the queue is not ready although the \<open>Nop\<close> job
  still waits; only the arrival or removal of another job makes the queue order it.
\<close>

theorem ju_nop_behind_stop_waits:
  assumes "ju_inv e ju" and "ju_suspends ju = [Stop \<mapsto> s, Nop \<mapsto> n]" and "ju_trigger ju = None"
    and "\<not> ju_order ju" and "\<not> ju_pause ju"
  shows "\<exists>ju1 e1 out ju2 e2 ju3 e3. ju_reshuffle ju e = Some ([], ju1, e1) \<and>
    ju_do_trigger act ju1 e1 = Some (out, ju2, e2) \<and> ju_trigger ju2 = Some s \<and>
    ju_finish_trigger r ju2 e2 = Some (Some s, ju3, e3) \<and>
    ju_suspends ju3 = [Nop \<mapsto> n] \<and> ju_trigger ju3 = None \<and> ju_calc_ready ju3 = Some None"
proof -
  let ?ju1 = "reshuffle_result e ju"
  have nc: "\<not> ju_is_suspends_conflict ju"
    by (auto simp: ju_is_suspends_conflict_iff kinds_conflict_def assms(2))
  have st: "ju_pause ju \<or> \<not> ju_stale_interrupt ju" using assms(2,4) by (simp add: ju_stale_interrupt_def)
  have drop: "reshuffle_dropped e ju = []" using assms(2,4) by (simp add: reshuffle_dropped_def merge_dropped_def)
  have sn: "s \<noteq> n" using assms(1,2) ju_jobs_inj[of e ju Stop s Nop] by (auto simp: ju_inv_def)
  from ju_reshuffle_spec[OF assms(1) nc st] obtain e1 where e1:
    "ju_reshuffle ju e = Some ([], ?ju1, e1)" "ju_inv e1 ?ju1" unfolding drop by blast
  have f: "ju_suspends ?ju1 = [Stop \<mapsto> s, Nop \<mapsto> n]" "ju_sq ?ju1 = [s]" "ju_next ?ju1 = Some True"
    using assms(2-5) by (simp_all add: reshuffle_result_def reshuffle_map_def merge_kinds_def sq_spec_def ju_next_def Let_def)
  from trigger_ran_suspend[OF e1(2) f(3), of act] obtain k cur mj cb ret ju1 e2 where
    r: "trigger_ran act ?ju1 e1 cur mj cb ret ju1 e2" "ju_suspends ?ju1 k = Some cur"
      "ju_suspends ju1 = (ju_suspends ?ju1)(k := None)" "ju_sq ?ju1 = cur # ju_sq ju1"
      "job_at e2 cur Running k (ju_unit ?ju1)" by blast
  have cur: "cur = s" "ju_sq ju1 = []" using r(4) f(2) by simp_all
  with r(2) f(1) sn have k: "k = Stop" by (auto split: if_splits)
  from trigger_ran_result[OF r(1)] obtain res ju2 where j2:
    "ju_do_trigger act ?ju1 e1 = Some ((Some (job_info_map cb, res), mj), ju2, e2)" "ju_inv e2 ju2" "ju_order ju2"
    "ju_trigger ju2 = Some s" "ju_suspends ju2 = [Nop \<mapsto> n]" "ju_sq ju2 = []"
    using r(3) f(1) cur k by (auto simp: fun_upd_twist)
  from r(5) cur k obtain jb where jb: "je_jobs e2 s = Some jb" "jb_kind jb = Stop"
    by (auto simp: job_at_def split: option.splits)
  from ju_finish_trigger_spec[OF j2(2-4) jb(1), of r] jb(2) obtain ju3 e3 where j3:
    "ju_finish_trigger r ju2 e2 = Some (Some s, ju3, e3)" "ju_inv e3 ju3" "ju_order ju3" "ju_trigger ju3 = None"
    "ju_suspends ju3 = [Nop \<mapsto> n]" "ju_sq ju3 = ju_sq ju2"
    using j2(5) by auto
  then have "ju_calc_ready ju3 = Some None"
    using j2(6) by (simp add: ju_calc_ready_eq ju_inv_def ju_shape_def ju_next_def)
  with e1(1) j2(1,4) j3 show ?thesis by blast
qed

theorem ju_nop_behind_stop_waits_witness:
  "\<exists>ju1 e1 out ju2 e2 ju3 e3. ju_reshuffle ex_stop_nop ex_stop_nop_env = Some ([], ju1, e1) \<and>
     ju_do_trigger ex_act ju1 e1 = Some (out, ju2, e2) \<and> ju_trigger ju2 = Some 1 \<and>
     ju_finish_trigger Done ju2 e2 = Some (Some 1, ju3, e3) \<and>
     ju_suspends ju3 = [Nop \<mapsto> 2] \<and> ju_trigger ju3 = None \<and> ju_calc_ready ju3 = Some None"
  by (rule ju_nop_behind_stop_waits[OF ex_stop_nop_inv]) (simp_all add: ex_queue_defs)

end
