(* ===== verification/Job_Table.thy ===== *)
theory Job_Table
  imports Job_Unit_Trigger Unit_Deps
begin

section \<open>The job table (core/bin/job/table.rs)\<close>

text \<open>
  \<open>JobUnitTable\<close> keeps one \<open>JobUnit\<close> per unit and the ready ones in unit order;
  \<open>JobTable\<close> adds the set of job ids and the relations between units.

  An \<open>Rc<JobUnit>\<close> is shared between the hash map \<open>t_data\<close>, the ordered map \<open>t_ready\<close> and
  the vector \<open>readys\<close>, and all three see every change of it. The model therefore stores
  the job units in cells (\<open>ut_heap\<close>, with \<open>ut_next\<close> the next unused cell), and the three
  collections hold cell numbers. A job (\<open>Rc<Job>\<close>) is an id into the heap of \<open>job_env\<close>, so
  \<open>t_id\<close> is the set of its keys.
\<close>

subsection \<open>Ordered maps\<close>

fun bt_update :: "'k::linorder \<Rightarrow> 'v \<Rightarrow> ('k \<times> 'v) list \<Rightarrow> ('k \<times> 'v) list" where
  "bt_update k v [] = [(k, v)]"
| "bt_update k v ((k', v') # m) =
     (if k < k' then (k, v) # (k', v') # m
      else if k = k' then (k, v) # m
      else (k', v') # bt_update k v m)"

subsection \<open>JobUnitTable: state\<close>

record unit_table =
  ut_data :: "(uid \<times> nat) list"
  ut_ready :: "(uid \<times> nat) list"
  ut_readys :: "nat list"
  ut_up_ready :: bool
  ut_sync :: bool
  ut_heap :: "nat \<Rightarrow> job_unit"
  ut_next :: nat

definition ut_new :: unit_table where
  "ut_new = \<lparr>ut_data = [], ut_ready = [], ut_readys = [], ut_up_ready = False, ut_sync = True,
     ut_heap = (\<lambda>_. job_unit_new []), ut_next = 0\<rparr>"

definition ut_clear :: "unit_table \<Rightarrow> unit_table" where
  "ut_clear t = t\<lparr>ut_data := [], ut_ready := [], ut_readys := [], ut_up_ready := False, ut_sync := True\<rparr>"

definition put_uv :: "nat \<Rightarrow> job_unit \<Rightarrow> unit_table \<Rightarrow> unit_table" where
  "put_uv r ju t = t\<lparr>ut_heap := (ut_heap t)(r := ju)\<rparr>"

lemma put_uv_sel [simp]:
  "ut_data (put_uv r ju t) = ut_data t" "ut_ready (put_uv r ju t) = ut_ready t"
  "ut_readys (put_uv r ju t) = ut_readys t" "ut_up_ready (put_uv r ju t) = ut_up_ready t"
  "ut_sync (put_uv r ju t) = ut_sync t" "ut_heap (put_uv r ju t) = (ut_heap t)(r := ju)"
  "ut_next (put_uv r ju t) = ut_next t"
  by (simp_all add: put_uv_def)

definition get_mut_uv_pad :: "uid \<Rightarrow> unit_table \<Rightarrow> (nat \<times> unit_table) option" where
  "get_mut_uv_pad u t = (
     let t' = (if map_of (ut_data t) u = None
               then put_uv (ut_next t) (job_unit_new u)
                      (t\<lparr>ut_data := AList.update u (ut_next t) (ut_data t), ut_next := Suc (ut_next t)\<rparr>)
               else t)
     in map_option (\<lambda>r. (r, t')) (map_of (ut_data t') u))"

subsection \<open>The ready units\<close>

definition readys_backfill :: "unit_table \<Rightarrow> unit_table" where
  "readys_backfill t =
     (if ut_readys t \<noteq> []
      then t\<lparr>ut_readys := [],
             ut_ready := fold (\<lambda>r. bt_update (ju_unit (ut_heap t r)) r) (ut_readys t) (ut_ready t)\<rparr>
      else t)"

definition readys_fill :: "unit_table \<Rightarrow> unit_table" where
  "readys_fill t =
     (if ut_readys t = [] then t\<lparr>ut_readys := map snd (ut_ready t), ut_ready := []\<rparr> else t)"

definition ready_insert :: "uid \<Rightarrow> nat \<Rightarrow> unit_table \<Rightarrow> unit_table" where
  "ready_insert u r t =
     (if \<not> ju_up_ready (ut_heap t r)
      then let t1 = readys_backfill t
           in put_uv r ((ut_heap t r)\<lparr>ju_up_ready := True\<rparr>) (t1\<lparr>ut_ready := bt_update u r (ut_ready t1)\<rparr>)
      else t)"

definition ready_remove :: "uid \<Rightarrow> nat \<Rightarrow> unit_table \<Rightarrow> unit_table" where
  "ready_remove u r t =
     (if ju_up_ready (ut_heap t r)
      then let t1 = readys_backfill t
           in put_uv r ((ut_heap t r)\<lparr>ju_up_ready := False\<rparr>) (t1\<lparr>ut_ready := AList.delete u (ut_ready t1)\<rparr>)
      else t)"

definition ready_sync :: "uid \<Rightarrow> nat \<Rightarrow> unit_table \<Rightarrow> unit_table" where
  "ready_sync u r t = (if ju_ready (ut_heap t r) then ready_insert u r t else ready_remove u r t)"

definition uv_clear_dirty :: "nat \<Rightarrow> unit_table \<Rightarrow> unit_table" where
  "uv_clear_dirty r t = put_uv r ((ut_heap t r)\<lparr>ju_dirty := False\<rparr>) t"

definition ready_pop :: "uid option \<Rightarrow> unit_table \<Rightarrow> nat option \<times> unit_table" where
  "ready_pop un t = (
     let (uv_ret, t1) =
       (case un of
          Some u \<Rightarrow> (let ta = readys_backfill t
                     in (map_of (ut_ready ta) u, ta\<lparr>ut_ready := AList.delete u (ut_ready ta)\<rparr>))
        | None \<Rightarrow> (let ta = readys_fill t
                   in if ut_readys ta = [] then (None, ta)
                      else (Some (last (ut_readys ta)), ta\<lparr>ut_readys := butlast (ut_readys ta)\<rparr>)))
     in (uv_ret, case uv_ret of
                   Some r \<Rightarrow> put_uv r ((ut_heap t1 r)\<lparr>ju_up_ready := False\<rparr>) t1
                 | None \<Rightarrow> t1))"

definition ut_calc_ready :: "unit_table \<Rightarrow> bool" where
  "ut_calc_ready t =
     (if ut_sync t
      then (case (ut_ready t = [], ut_readys t = []) of (True, True) \<Rightarrow> False | _ \<Rightarrow> True)
      else False)"

definition ut_update_up_ready :: "unit_table \<Rightarrow> unit_table" where
  "ut_update_up_ready t = t\<lparr>ut_up_ready := ut_calc_ready t\<rparr>"

definition try_gc_empty_unit :: "uid \<Rightarrow> nat \<Rightarrow> unit_table \<Rightarrow> unit_table option" where
  "try_gc_empty_unit u r t =
     (if ju_is_empty (ut_heap t r)
      then do {
        rust_assert (\<not> ju_ready (ut_heap t r));
        rust_assert (\<not> ju_up_ready (ut_heap t r));
        Some (t\<lparr>ut_data := AList.delete u (ut_data t), ut_ready := AList.delete u (ut_ready t)\<rparr>)
      }
      else Some t)"

subsection \<open>JobUnitTable: the operations on one entry\<close>

definition reshuffle_entry ::
  "uid \<Rightarrow> nat \<Rightarrow> unit_table \<Rightarrow> 'd job_env \<Rightarrow> (u32 list \<times> unit_table \<times> 'd job_env) option" where
  "reshuffle_entry u r t e =
     (if ju_dirty (ut_heap t r)
      then do {
        (merge_jobs, ju', e') \<leftarrow> ju_reshuffle (ut_heap t r) e;
        Some (merge_jobs, uv_clear_dirty r (ready_sync u r (put_uv r ju' t)), e')
      }
      else Some ([], t, e))"

definition finish_entry ::
  "uid \<Rightarrow> nat \<Rightarrow> job_result \<Rightarrow> unit_table \<Rightarrow> 'd job_env \<Rightarrow>
   (u32 option \<times> unit_table \<times> 'd job_env) option" where
  "finish_entry u r result t e = do {
     rust_assert (\<not> ju_dirty (ut_heap t r));
     (del_trigger, ju', e') \<leftarrow> ju_finish_trigger result (ut_heap t r) e;
     Some (del_trigger, uv_clear_dirty r (ready_sync u r (put_uv r ju' t)), e')
   }"

definition remove_entry ::
  "uid \<Rightarrow> nat \<Rightarrow> job_kind \<Rightarrow> job_kind option \<Rightarrow> job_result \<Rightarrow> unit_table \<Rightarrow> 'd job_env \<Rightarrow>
   (u32 list \<times> unit_table \<times> 'd job_env) option" where
  "remove_entry u r kind1 kind2 result t e = do {
     rust_assert (\<not> ju_dirty (ut_heap t r));
     (j1, ju1, e1) \<leftarrow> ju_remove_suspend kind1 result (ut_heap t r) e;
     (j2, ju2, e2) \<leftarrow> (case kind2 of
         Some k2 \<Rightarrow> ju_remove_suspend k2 result ju1 e1
       | None \<Rightarrow> Some (None, ju1, e1));
     (_, t', e') \<leftarrow> reshuffle_entry u r (put_uv r ju2 t) e2;
     Some (List.map_filter (\<lambda>x. x) [j1, j2], t', e')
   }"

definition resume_entry :: "uid \<Rightarrow> nat \<Rightarrow> unit_table \<Rightarrow> unit_table option" where
  "resume_entry u r t = do {
     rust_assert (\<not> ju_dirty (ut_heap t r));
     if ju_pause (ut_heap t r)
     then do {
       ju' \<leftarrow> ju_resume (ut_heap t r);
       Some (uv_clear_dirty r (ready_sync u r (put_uv r ju' t)))
     }
     else Some t
   }"

subsection \<open>JobUnitTable: the operations on the table\<close>

definition ut_insert_suspend ::
  "u32 \<Rightarrow> unit_table \<Rightarrow> 'd job_env \<Rightarrow> (u32 option \<times> unit_table \<times> 'd job_env) option" where
  "ut_insert_suspend j t e = do {
     jb \<leftarrow> je_jobs e j;
     (r, t1) \<leftarrow> get_mut_uv_pad (jb_unit jb) t;
     (old, ju', e') \<leftarrow> ju_insert_suspend j False (ut_heap t1 r) e;
     rust_assert (ju_dirty ju');
     Some (old, (put_uv r ju' t1)\<lparr>ut_sync := False\<rparr>, e')
   }"

definition ut_insert_trigger ::
  "u32 \<Rightarrow> unit_table \<Rightarrow> 'd job_env \<Rightarrow> (u32 option \<times> unit_table) option" where
  "ut_insert_trigger j t e = do {
     jb \<leftarrow> je_jobs e j;
     (r, t1) \<leftarrow> get_mut_uv_pad (jb_unit jb) t;
     (old, ju') \<leftarrow> ju_insert_trigger j (ut_heap t1 r) e;
     rust_assert (ju_dirty ju');
     Some (old, (put_uv r ju' t1)\<lparr>ut_sync := False\<rparr>)
   }"

text \<open>The bodies of the two loops over entries; the state carries the collected jobs.\<close>

definition ut_isolate_one ::
  "unit_table \<Rightarrow> uid \<times> nat \<Rightarrow> u32 list \<times> unit_table \<times> 'd job_env \<Rightarrow>
   (u32 list \<times> unit_table \<times> 'd job_env) option" where
  "ut_isolate_one other entry s = (case (entry, s) of ((u, r), del_jobs, t, e) \<Rightarrow>
     if IgnoreOnIsolate (u_config (je_units e) u) then Some (del_jobs, t, e)
     else if map_of (ut_data other) u \<noteq> None then Some (del_jobs, t, e)
     else do {
       (dels, ju', e') \<leftarrow> ju_flush_suspends (ut_heap t r) e;
       rust_assert (ju_dirty ju');
       Some (del_jobs @ dels, put_uv r ju' t, e')
     })"

definition ut_isolate_suspends ::
  "unit_table \<Rightarrow> unit_table \<Rightarrow> 'd job_env \<Rightarrow> (u32 list \<times> unit_table \<times> 'd job_env) option" where
  "ut_isolate_suspends other t e = do {
     (del_jobs, t', e') \<leftarrow> for_each (ut_isolate_one other) (ut_data t) ([], t, e);
     Some (del_jobs, t'\<lparr>ut_sync := False\<rparr>, e')
   }"

definition ut_merge_one ::
  "unit_table \<Rightarrow> uid \<times> nat \<Rightarrow> (u32 list \<times> u32 list \<times> u32 list) \<times> unit_table \<times> 'd job_env \<Rightarrow>
   ((u32 list \<times> u32 list \<times> u32 list) \<times> unit_table \<times> 'd job_env) option" where
  "ut_merge_one other entry s = (case (entry, s) of ((u, o_r), (add_jobs, del_jobs, update_jobs), t, e) \<Rightarrow> do {
     (r, t1) \<leftarrow> get_mut_uv_pad u t;
     ((adds, dels, updates), ju', e') \<leftarrow> ju_merge_suspends (ut_heap other o_r) (ut_heap t1 r) e;
     Some ((add_jobs @ adds, del_jobs @ dels, update_jobs @ updates), put_uv r ju' t1, e')
   })"

definition ut_merge_suspends ::
  "unit_table \<Rightarrow> unit_table \<Rightarrow> 'd job_env \<Rightarrow>
   ((u32 list \<times> u32 list \<times> u32 list) \<times> unit_table \<times> 'd job_env) option" where
  "ut_merge_suspends other t e = do {
     (jobs, t', e') \<leftarrow> for_each (ut_merge_one other) (ut_data other) (([], [], []), t, e);
     Some (jobs, t'\<lparr>ut_sync := False\<rparr>, e')
   }"

definition ut_reshuffle_one ::
  "uid \<times> nat \<Rightarrow> u32 list \<times> unit_table \<times> 'd job_env \<Rightarrow> (u32 list \<times> unit_table \<times> 'd job_env) option" where
  "ut_reshuffle_one entry s = (case (entry, s) of ((u, r), merge_jobs, t, e) \<Rightarrow> do {
     (mj, t1, e1) \<leftarrow> reshuffle_entry u r t e;
     t2 \<leftarrow> try_gc_empty_unit u r t1;
     Some (merge_jobs @ mj, t2, e1)
   })"

definition ut_reshuffle ::
  "unit_table \<Rightarrow> 'd job_env \<Rightarrow> (u32 list \<times> unit_table \<times> 'd job_env) option" where
  "ut_reshuffle t e = do {
     (merge_jobs, t', e') \<leftarrow> for_each ut_reshuffle_one (ut_data t) ([], t, e);
     Some (merge_jobs, t'\<lparr>ut_sync := True\<rparr>, e')
   }"

definition ut_finish_trigger ::
  "uid \<Rightarrow> job_result \<Rightarrow> unit_table \<Rightarrow> 'd job_env \<Rightarrow> (u32 option \<times> unit_table \<times> 'd job_env) option" where
  "ut_finish_trigger u result t e = do {
     rust_assert (ut_sync t);
     r \<leftarrow> map_of (ut_data t) u;
     rust_assert (ju_trigger (ut_heap t r) \<noteq> None);
     (del_trigger, t1, e') \<leftarrow> finish_entry u r result t e;
     t2 \<leftarrow> try_gc_empty_unit u r t1;
     Some (del_trigger, t2, e')
   }"

definition ut_remove_suspends ::
  "uid \<Rightarrow> job_kind \<Rightarrow> job_kind option \<Rightarrow> job_result \<Rightarrow> unit_table \<Rightarrow> 'd job_env \<Rightarrow>
   (u32 list \<times> unit_table \<times> 'd job_env) option" where
  "ut_remove_suspends u kind1 kind2 result t e = do {
     rust_assert (ut_sync t);
     (case map_of (ut_data t) u of
        Some r \<Rightarrow> do {
          (del_jobs, t1, e') \<leftarrow> remove_entry u r kind1 kind2 result t e;
          t2 \<leftarrow> try_gc_empty_unit u r t1;
          Some (del_jobs, t2, e')
        }
      | None \<Rightarrow> Some ([], t, e))
   }"

definition ut_resume_unit :: "uid \<Rightarrow> unit_table \<Rightarrow> unit_table option" where
  "ut_resume_unit u t =
     (case map_of (ut_data t) u of Some r \<Rightarrow> resume_entry u r t | None \<Rightarrow> Some t)"

definition ut_remove_unit :: "uid \<Rightarrow> unit_table \<Rightarrow> unit_table" where
  "ut_remove_unit u t = t\<lparr>ut_data := AList.delete u (ut_data t), ut_ready := AList.delete u (ut_ready t)\<rparr>"

subsection \<open>JobUnitTable: queries\<close>

definition ut_ready_len :: "unit_table \<Rightarrow> nat" where
  "ut_ready_len t = length (ut_ready t)"

definition ut_get_suspend :: "unit_table \<Rightarrow> uid \<Rightarrow> job_kind \<Rightarrow> u32 option" where
  "ut_get_suspend t u kind =
     (case map_of (ut_data t) u of Some r \<Rightarrow> ju_suspends (ut_heap t r) kind | None \<Rightarrow> None)"

definition ut_get_suspends :: "unit_table \<Rightarrow> uid \<Rightarrow> u32 list" where
  "ut_get_suspends t u =
     (case map_of (ut_data t) u of Some r \<Rightarrow> suspends_values (ju_suspends (ut_heap t r)) | None \<Rightarrow> [])"

definition ut_get_trigger_info :: "unit_table \<Rightarrow> uid \<Rightarrow> (u32 \<times> bool) option" where
  "ut_get_trigger_info t u =
     (case map_of (ut_data t) u of
        Some r \<Rightarrow> map_option (\<lambda>j. (j, ju_pause (ut_heap t r))) (ju_trigger (ut_heap t r))
      | None \<Rightarrow> None)"

definition ut_is_empty :: "unit_table \<Rightarrow> bool" where
  "ut_is_empty t \<longleftrightarrow> ut_data t = []"

definition ut_is_unit_empty :: "unit_table \<Rightarrow> uid \<Rightarrow> bool" where
  "ut_is_unit_empty t u \<longleftrightarrow> map_of (ut_data t) u \<noteq> None"

definition ut_is_suspends_conflict :: "unit_table \<Rightarrow> bool" where
  "ut_is_suspends_conflict t \<longleftrightarrow> list_ex (\<lambda>(u, r). ju_is_suspends_conflict (ut_heap t r)) (ut_data t)"

definition ut_is_suspends_conflict_with :: "unit_table \<Rightarrow> unit_table \<Rightarrow> bool" where
  "ut_is_suspends_conflict_with t other \<longleftrightarrow>
     list_ex (\<lambda>(u, r). case map_of (ut_data other) u of
         Some o_r \<Rightarrow> ju_is_suspends_conflict_with (ut_heap t r) (ut_heap other o_r)
       | None \<Rightarrow> False) (ut_data t)"

text \<open>The loop of \<open>is_suspends_replace_with\<close>; it stops at the first unit that says no.\<close>

fun ut_replace_loop ::
  "'d job_env \<Rightarrow> unit_table \<Rightarrow> unit_table \<Rightarrow> (uid \<times> nat) list \<Rightarrow> bool option" where
  "ut_replace_loop e t other [] = Some True"
| "ut_replace_loop e t other ((u, r) # rest) =
     (case map_of (ut_data other) u of
        Some o_r \<Rightarrow> do {
          b \<leftarrow> ju_is_suspends_replace_with e (ut_heap t r) (ut_heap other o_r);
          if \<not> b then Some False else ut_replace_loop e t other rest
        }
      | None \<Rightarrow> ut_replace_loop e t other rest)"

definition ut_is_suspends_replace_with ::
  "'d job_env \<Rightarrow> unit_table \<Rightarrow> unit_table \<Rightarrow> bool option" where
  "ut_is_suspends_replace_with e t other = ut_replace_loop e t other (ut_data t)"

text \<open>The two loops of \<open>is_uv_runnable\<close>, for one atom.\<close>

fun ut_order_loop ::
  "'d job_env \<Rightarrow> unit_table \<Rightarrow> job_unit \<Rightarrow> unit_relation_atom \<Rightarrow> uid list \<Rightarrow> bool option" where
  "ut_order_loop e t uv atom [] = Some True"
| "ut_order_loop e t uv atom (other # rest) =
     (case map_of (ut_data t) other of
        Some o_r \<Rightarrow> do {
          b \<leftarrow> ju_is_next_trigger_order_with e uv (ut_heap t o_r) atom;
          if \<not> b then Some False else ut_order_loop e t uv atom rest
        }
      | None \<Rightarrow> ut_order_loop e t uv atom rest)"

definition is_uv_runnable ::
  "'x unit_dep_data \<Rightarrow> 'd job_env \<Rightarrow> unit_table \<Rightarrow> job_unit \<Rightarrow> bool option" where
  "is_uv_runnable dd e t uv = do {
     a \<leftarrow> ut_order_loop e t uv UnitAtomAfter (gets_atom dd (ju_unit uv) UnitAtomAfter);
     if \<not> a then Some False
     else ut_order_loop e t uv UnitAtomBefore (gets_atom dd (ju_unit uv) UnitAtomBefore)
   }"

subsection \<open>JobTable: state and the id table\<close>

record job_table =
  jt_id :: "u32 set"
  jt_unit :: unit_table

definition jt_new :: job_table where
  "jt_new = \<lparr>jt_id = {}, jt_unit = ut_new\<rparr>"

text \<open>\<open>clear\<close> also calls \<open>Job::clear\<close>, which does nothing.\<close>

definition jt_clear :: "job_table \<Rightarrow> job_table" where
  "jt_clear jt = jt\<lparr>jt_id := {}, jt_unit := ut_clear (jt_unit jt)\<rparr>"

definition jt_insert_suspend ::
  "u32 \<Rightarrow> job_table \<Rightarrow> 'd job_env \<Rightarrow> ((error + unit) \<times> job_table \<times> 'd job_env) option" where
  "jt_insert_suspend j jt e =
     (if j \<in> jt_id jt then Some (Inl Internal, jt, e)
      else do {
        (old, t', e') \<leftarrow> ut_insert_suspend j (jt_unit jt) e;
        if old \<noteq> None then Some (Inl Input, jt\<lparr>jt_unit := t'\<rparr>, e')
        else Some (Inr (), jt\<lparr>jt_unit := t', jt_id := insert j (jt_id jt)\<rparr>, e')
      })"

definition jt_insert_trigger ::
  "u32 \<Rightarrow> job_table \<Rightarrow> 'd job_env \<Rightarrow> ((error + unit) \<times> job_table) option" where
  "jt_insert_trigger j jt e =
     (if j \<in> jt_id jt then Some (Inl Internal, jt)
      else do {
        (old, t') \<leftarrow> ut_insert_trigger j (jt_unit jt) e;
        if old \<noteq> None then Some (Inl Input, jt\<lparr>jt_unit := t'\<rparr>)
        else Some (Inr (), jt\<lparr>jt_unit := t', jt_id := insert j (jt_id jt)\<rparr>)
      })"

text \<open>\<open>unwrap\<close> and \<open>expect\<close> of a result.\<close>

definition rust_unwrap :: "error + 'a \<Rightarrow> 'a option" where
  "rust_unwrap r = (case r of Inl _ \<Rightarrow> None | Inr x \<Rightarrow> Some x)"

lemma rust_unwrap_simps [simp]: "rust_unwrap (Inr x) = Some x" "rust_unwrap (Inl err) = None"
  by (simp_all add: rust_unwrap_def)

definition jt_rentry_map_suspend ::
  "job_conf \<Rightarrow> job_table \<Rightarrow> 'd job_env \<Rightarrow> (u32 \<times> job_table \<times> 'd job_env) option" where
  "jt_rentry_map_suspend conf jt e = do {
     (j, e1) \<leftarrow> job_alloc conf e;
     e2 \<leftarrow> rentry_map_suspend j e1;
     (res, jt', e3) \<leftarrow> jt_insert_suspend j jt e2;
     _ \<leftarrow> rust_unwrap res;
     Some (j, jt', e3)
   }"

definition jt_rentry_map_trigger ::
  "job_conf \<Rightarrow> job_table \<Rightarrow> 'd job_env \<Rightarrow> (u32 \<times> job_table \<times> 'd job_env) option" where
  "jt_rentry_map_trigger conf jt e = do {
     (j, e1) \<leftarrow> job_alloc conf e;
     e2 \<leftarrow> rentry_map_trigger j e1;
     (res, jt') \<leftarrow> jt_insert_trigger j jt e2;
     _ \<leftarrow> rust_unwrap res;
     Some (j, jt', e2)
   }"

definition jt_record_suspend ::
  "job_conf \<Rightarrow> job_mode \<Rightarrow> job_table \<Rightarrow> 'd job_env \<Rightarrow> (bool \<times> job_table \<times> 'd job_env) option" where
  "jt_record_suspend conf mode jt e =
     (if ut_get_suspend (jt_unit jt) (jc_unit conf) (jc_kind conf) = None
      then do {
        (j, e1) \<leftarrow> job_alloc conf e;
        e2 \<leftarrow> job_init_attr mode j e1;
        (res, jt', e3) \<leftarrow> jt_insert_suspend j jt e2;
        _ \<leftarrow> rust_unwrap res;
        Some (True, jt', e3)
      }
      else Some (False, jt, e))"

subsection \<open>JobTable: relations between units\<close>

definition jt_resume_unit :: "uid \<Rightarrow> job_table \<Rightarrow> job_table option" where
  "jt_resume_unit u jt = map_option (\<lambda>t. jt\<lparr>jt_unit := t\<rparr>) (ut_resume_unit u (jt_unit jt))"

text \<open>\<open>UnitX::trigger\<close>, called for the units that trigger this one, has an empty body.\<close>

definition process_relation :: "'x unit_dep_data \<Rightarrow> uid \<Rightarrow> job_table \<Rightarrow> job_table option" where
  "process_relation dd u jt = do {
     jt1 \<leftarrow> for_each jt_resume_unit (gets_atom dd u UnitAtomAfter) jt;
     for_each jt_resume_unit (gets_atom dd u UnitAtomBefore) jt1
   }"

definition jobs_2_units :: "'d job_env \<Rightarrow> u32 list \<Rightarrow> uid list" where
  "jobs_2_units e jobs = remdups (List.map_filter (\<lambda>j. map_option jb_unit (je_jobs e j)) jobs)"

subsection \<open>JobTable: committing a request\<close>

definition jt_isolate_suspends ::
  "job_table \<Rightarrow> job_mode \<Rightarrow> job_table \<Rightarrow> 'd job_env \<Rightarrow> (u32 list \<times> job_table \<times> 'd job_env) option" where
  "jt_isolate_suspends other mode jt e = do {
     (del_jobs, t', e') \<leftarrow>
       (if mode = Isolate \<or> mode = Flush then ut_isolate_suspends (jt_unit other) (jt_unit jt) e
        else Some ([], jt_unit jt, e));
     Some (del_jobs, jt\<lparr>jt_unit := t', jt_id := jt_id jt - set del_jobs\<rparr>, e')
   }"

definition jt_merge_suspends ::
  "job_table \<Rightarrow> job_table \<Rightarrow> 'd job_env \<Rightarrow>
   ((u32 list \<times> u32 list \<times> u32 list) \<times> job_table \<times> 'd job_env) option" where
  "jt_merge_suspends other jt e = do {
     ((add_jobs, del_jobs, update_jobs), t', e') \<leftarrow> ut_merge_suspends (jt_unit other) (jt_unit jt) e;
     Some ((add_jobs, del_jobs, update_jobs),
           jt\<lparr>jt_unit := t', jt_id := jt_id jt \<union> set add_jobs - set del_jobs\<rparr>, e')
   }"

definition jt_reshuffle ::
  "job_table \<Rightarrow> 'd job_env \<Rightarrow> (u32 list \<times> job_table \<times> 'd job_env) option" where
  "jt_reshuffle jt e = do {
     (merge_jobs, t', e') \<leftarrow> ut_reshuffle (jt_unit jt) e;
     Some (merge_jobs, jt\<lparr>jt_unit := t', jt_id := jt_id jt - set merge_jobs\<rparr>, e')
   }"

definition jt_commit ::
  "'x unit_dep_data \<Rightarrow> job_table \<Rightarrow> job_mode \<Rightarrow> job_table \<Rightarrow> 'd job_env \<Rightarrow>
   ((error + u32 list \<times> u32 list \<times> u32 list) \<times> job_table \<times> 'd job_env) option" where
  "jt_commit dd other mode jt e =
     (if jt_id other \<inter> jt_id jt \<noteq> {} then Some (Inl Internal, jt, e)
      else do {
        (iso_jobs, jt1, e1) \<leftarrow> jt_isolate_suspends other mode jt e;
        ((add_jobs, flush_jobs, update_jobs), jt2, e2) \<leftarrow> jt_merge_suspends other jt1 e1;
        (merge_jobs, jt3, e3) \<leftarrow> jt_reshuffle jt2 e2;
        jt4 \<leftarrow> (if iso_jobs \<noteq> [] \<or> flush_jobs \<noteq> []
                then do {
                  jta \<leftarrow> for_each (process_relation dd) (jobs_2_units e3 iso_jobs) jt3;
                  for_each (process_relation dd) (jobs_2_units e3 flush_jobs) jta
                }
                else Some jt3);
        Some (Inr (add_jobs, iso_jobs @ flush_jobs @ merge_jobs, update_jobs), jt4, e3)
      })"

subsection \<open>JobTable: triggering and finishing\<close>

definition try_trigger_entry ::
  "unit_act \<Rightarrow> 'x unit_dep_data \<Rightarrow> nat \<Rightarrow> unit_table \<Rightarrow> 'd job_env \<Rightarrow>
   (((job_info \<times> job_result option) option \<times> u32 option) \<times> unit_table \<times> 'd job_env) option" where
  "try_trigger_entry act dd r t e = do {
     rust_assert (\<not> ju_dirty (ut_heap t r));
     is_runnable \<leftarrow> is_uv_runnable dd e t (ut_heap t r);
     (ret, ju', e') \<leftarrow>
       (if is_runnable then ju_do_trigger act (ut_heap t r) e
        else do { ju1 \<leftarrow> ju_do_pause (ut_heap t r); Some ((None, None), ju1, e) });
     rust_assert (\<not> ju_ready ju');
     Some (ret, uv_clear_dirty r (put_uv r ju' t), e')
   }"

definition do_try_trigger ::
  "unit_act \<Rightarrow> 'x unit_dep_data \<Rightarrow> uid option \<Rightarrow> unit_table \<Rightarrow> 'd job_env \<Rightarrow>
   (((job_info \<times> job_result option) option \<times> u32 option) option \<times> unit_table \<times> 'd job_env) option" where
  "do_try_trigger act dd un t e = do {
     rust_assert (ut_sync t);
     let (uv_try, t1) = ready_pop un t;
     (case uv_try of
        Some r \<Rightarrow> do {
          (ret, t2, e') \<leftarrow> try_trigger_entry act dd r t1 e;
          rust_assert (\<not> ju_is_empty (ut_heap t2 r));
          Some (Some ret, t2, e')
        }
      | None \<Rightarrow> Some (None, t1, e))
   }"

definition jt_try_trigger ::
  "unit_act \<Rightarrow> 'x unit_dep_data \<Rightarrow> uid option \<Rightarrow> job_table \<Rightarrow> 'd job_env \<Rightarrow>
   (((job_info \<times> job_result option) option \<times> u32 option) option \<times> job_table \<times> 'd job_env) option" where
  "jt_try_trigger act dd un jt e = do {
     (ret, t', e') \<leftarrow> do_try_trigger act dd un (jt_unit jt) e;
     let ids = (case ret of Some (_, Some j) \<Rightarrow> jt_id jt - {j} | _ \<Rightarrow> jt_id jt);
     Some (ret, jt\<lparr>jt_unit := t', jt_id := ids\<rparr>, e')
   }"

definition jt_finish_trigger ::
  "'x unit_dep_data \<Rightarrow> uid \<Rightarrow> job_result \<Rightarrow> job_table \<Rightarrow> 'd job_env \<Rightarrow>
   (u32 option \<times> job_table \<times> 'd job_env) option" where
  "jt_finish_trigger dd u result jt e = do {
     (del_trigger, t', e') \<leftarrow> ut_finish_trigger u result (jt_unit jt) e;
     let jt1 = jt\<lparr>jt_unit := t', jt_id := jt_id jt - set_option del_trigger\<rparr>;
     jt2 \<leftarrow> (if del_trigger \<noteq> None then process_relation dd u jt1 else Some jt1);
     Some (del_trigger, jt2, e')
   }"

definition jt_remove_suspends ::
  "'x unit_dep_data \<Rightarrow> uid \<Rightarrow> job_kind \<Rightarrow> job_kind option \<Rightarrow> job_result \<Rightarrow> job_table \<Rightarrow> 'd job_env \<Rightarrow>
   (u32 list \<times> job_table \<times> 'd job_env) option" where
  "jt_remove_suspends dd u kind1 kind2 result jt e = do {
     (del_jobs, t', e') \<leftarrow> ut_remove_suspends u kind1 kind2 result (jt_unit jt) e;
     let jt1 = jt\<lparr>jt_unit := t', jt_id := jt_id jt - set del_jobs\<rparr>;
     jt2 \<leftarrow> (if del_jobs \<noteq> [] then process_relation dd u jt1 else Some jt1);
     Some (del_jobs, jt2, e')
   }"

definition jt_remove_unit :: "uid \<Rightarrow> job_table \<Rightarrow> (u32 option \<times> u32 list) \<times> job_table" where
  "jt_remove_unit u jt = (
     let del_trigger = map_option fst (ut_get_trigger_info (jt_unit jt) u);
         del_suspends = ut_get_suspends (jt_unit jt) u
     in ((del_trigger, del_suspends),
         jt\<lparr>jt_id := jt_id jt - set_option del_trigger - set del_suspends,
            jt_unit := ut_remove_unit u (jt_unit jt)\<rparr>))"

definition jt_update_up_ready :: "job_table \<Rightarrow> job_table" where
  "jt_update_up_ready jt = jt\<lparr>jt_unit := ut_update_up_ready (jt_unit jt)\<rparr>"

subsection \<open>JobTable: queries\<close>

definition jt_get :: "'d job_env \<Rightarrow> job_table \<Rightarrow> u32 \<Rightarrow> job_info option" where
  "jt_get e jt j = (if j \<in> jt_id jt then map_option job_info_map (je_jobs e j) else None)"

definition jt_get_suspend :: "'d job_env \<Rightarrow> job_table \<Rightarrow> uid \<Rightarrow> job_kind \<Rightarrow> job_info option" where
  "jt_get_suspend e jt u kind = do {
     j \<leftarrow> ut_get_suspend (jt_unit jt) u kind;
     map_option job_info_map (je_jobs e j)
   }"

definition jt_get_trigger_info :: "'d job_env \<Rightarrow> job_table \<Rightarrow> uid \<Rightarrow> (job_info \<times> bool) option" where
  "jt_get_trigger_info e jt u = do {
     (j, pause) \<leftarrow> ut_get_trigger_info (jt_unit jt) u;
     map_option (\<lambda>jb. (job_info_map jb, pause)) (je_jobs e j)
   }"

definition jt_is_trigger :: "'d job_env \<Rightarrow> job_table \<Rightarrow> u32 \<Rightarrow> bool" where
  "jt_is_trigger e jt j =
     (case jt_get e jt j of
        Some info \<Rightarrow> (case jt_get_trigger_info e jt (ji_unit info) of
            Some (t_info, _) \<Rightarrow> ji_id t_info = ji_id info
          | None \<Rightarrow> False)
      | None \<Rightarrow> False)"

definition jt_is_suspend :: "'d job_env \<Rightarrow> job_table \<Rightarrow> u32 \<Rightarrow> bool" where
  "jt_is_suspend e jt j =
     (case jt_get e jt j of
        Some info \<Rightarrow> (case jt_get_suspend e jt (ji_unit info) (ji_kind info) of
            Some s_info \<Rightarrow> ji_id s_info = ji_id info
          | None \<Rightarrow> False)
      | None \<Rightarrow> False)"

definition jt_len :: "job_table \<Rightarrow> nat" where
  "jt_len jt = card (jt_id jt)"

end
