(* ===== verification/Job_Table_Props.thy ===== *)
theory Job_Table_Props
  imports Job_Table
begin

section \<open>The invariant of the job table\<close>

text \<open>
  Every job unit of the table satisfies its own invariant, and the two collections of
  ready units together are one queue in unit order (\<open>ready_view\<close>): they hold exactly the
  job units marked \<open>up_ready\<close>, and for every unit that is not dirty that is exactly the
  ready ones.
\<close>

subsection \<open>Ordered maps\<close>

lemma map_of_bt_update [simp, map_laws]:
  "map_of (bt_update k v m) k' = (if k' = k then Some v else map_of m k')"
  if "sorted_wrt (<) (map fst m)"
  using that by (induction m) (auto simp: map_of_eq_None_iff)

lemma bt_update_keys [simp]: "fst ` set (bt_update k v m) = insert k (fst ` set m)"
  by (induction m rule: bt_update.induct) auto

lemma bt_update_sorted:
  "sorted_wrt (<) (map fst m) \<Longrightarrow> sorted_wrt (<) (map fst (bt_update k v m))"
proof (induction m)
  case (Cons p m)
  obtain k' v' where p: "p = (k', v')" by (cases p)
  have "set (map fst (bt_update k v m)) = insert k (set (map fst m))" by simp
  then show ?case using Cons p by (auto simp del: bt_update_keys)
qed simp

lemma bt_update_last:
  "\<forall>p\<in>set m. fst p < k \<Longrightarrow> bt_update k v m = m @ [(k, v)]"
  by (induction m) auto

lemma set_bt_update:
  assumes "sorted_wrt (<) (map fst m)"
  shows "set (bt_update k v m) = insert (k, v) {p \<in> set m. fst p \<noteq> k}"
  using assms
proof (induction m)
  case (Cons p m)
  obtain k' v' where p: "p = (k', v')" by (cases p)
  have "k < k' \<Longrightarrow> \<forall>q\<in>set m. fst q \<noteq> k" "k = k' \<Longrightarrow> \<forall>q\<in>set m. fst q \<noteq> k"
    using Cons.prems p by fastforce+
  then show ?case using Cons p by (cases "k < k'"; cases "k = k'") auto
qed simp

lemma fold_bt_update_sorted:
  assumes "sorted_wrt (<) (map f rs)"
  shows "fold (\<lambda>r. bt_update (f r) r) rs [] = map (\<lambda>r. (f r, r)) rs"
  using assms
proof (induction rs rule: rev_induct)
  case (snoc r rs)
  then show ?case
    by (simp add: sorted_wrt_append bt_update_last)
qed simp

lemma AList_delete_sorted:
  "sorted_wrt (<) (map fst m) \<Longrightarrow> sorted_wrt (<) (map fst (AList.delete k m))"
  by (simp add: AList.delete_eq sorted_wrt_map sorted_wrt_filter)

lemma set_AList_delete: "set (AList.delete k m) = {p \<in> set m. fst p \<noteq> k}"
  by (auto simp: AList.delete_eq)

subsection \<open>The ready queue\<close>

definition ready_view :: "unit_table \<Rightarrow> (uid \<times> nat) list" where
  "ready_view t = ut_ready t @ map (\<lambda>r. (ju_unit (ut_heap t r), r)) (ut_readys t)"

definition ready_wf :: "unit_table \<Rightarrow> bool" where
  "ready_wf t \<longleftrightarrow> (ut_ready t = [] \<or> ut_readys t = []) \<and> sorted_wrt (<) (map fst (ready_view t))"

lemma readys_backfill_spec:
  assumes "ready_wf t"
  shows "readys_backfill t = t\<lparr>ut_readys := [], ut_ready := ready_view t\<rparr>"
proof (cases "ut_readys t = []")
  case True
  then show ?thesis by (cases t) (simp add: readys_backfill_def ready_view_def)
next
  case False
  then have e: "ut_ready t = []" using assms by (simp add: ready_wf_def)
  then have "sorted_wrt (<) (map (\<lambda>r. ju_unit (ut_heap t r)) (ut_readys t))"
    using assms by (simp add: ready_wf_def ready_view_def comp_def)
  from fold_bt_update_sorted[OF this] show ?thesis using False e
    by (simp add: readys_backfill_def ready_view_def)
qed

lemma readys_fill_spec:
  assumes "ready_wf t"
  shows "readys_fill t = t\<lparr>ut_readys := map snd (ready_view t), ut_ready := []\<rparr>"
  using assms by (cases t) (auto simp: readys_fill_def ready_view_def ready_wf_def comp_def)

subsection \<open>The invariant\<close>

definition ju_settled :: "job_unit \<Rightarrow> bool" where
  "ju_settled ju \<longleftrightarrow> ju_dirty ju \<or> ju_order ju \<and> ju_up_ready ju = ju_ready ju"

definition tb_units :: "'d job_env \<Rightarrow> unit_table \<Rightarrow> bool" where
  "tb_units e t \<longleftrightarrow> distinct (map fst (ut_data t)) \<and>
     (\<forall>u r. map_of (ut_data t) u = Some r \<longrightarrow>
        r < ut_next t \<and> ju_unit (ut_heap t r) = u \<and> ju_inv e (ut_heap t r) \<and> ju_settled (ut_heap t r))"

definition tb_ready :: "unit_table \<Rightarrow> bool" where
  "tb_ready t \<longleftrightarrow> ready_wf t \<and>
     (\<forall>u r. (u, r) \<in> set (ready_view t) \<longleftrightarrow> map_of (ut_data t) u = Some r \<and> ju_up_ready (ut_heap t r))"

text \<open>\<open>tb_core\<close> holds at every point of an operation; the sync flag promises that no entry is dirty.\<close>

definition tb_core :: "'d job_env \<Rightarrow> unit_table \<Rightarrow> bool" where
  "tb_core e t \<longleftrightarrow> tb_units e t \<and> tb_ready t"

definition tb_clean :: "unit_table \<Rightarrow> bool" where
  "tb_clean t \<longleftrightarrow> (\<forall>u r. map_of (ut_data t) u = Some r \<longrightarrow> \<not> ju_dirty (ut_heap t r))"

text \<open>The abstract table: a map from units to job units.\<close>

definition uv_of :: "unit_table \<Rightarrow> uid \<Rightarrow> job_unit option" where
  "uv_of t u = map_option (ut_heap t) (map_of (ut_data t) u)"

text \<open>The databases hold nothing for a unit that is not in the table.\<close>

definition tb_db :: "'d job_env \<Rightarrow> unit_table \<Rightarrow> bool" where
  "tb_db e t \<longleftrightarrow> (\<forall>u. uv_of t u = None \<longrightarrow> ju_inv e (job_unit_new u))"

definition tb_inv :: "'d job_env \<Rightarrow> unit_table \<Rightarrow> bool" where
  "tb_inv e t \<longleftrightarrow> tb_core e t \<and> tb_db e t \<and> (ut_sync t \<longrightarrow> tb_clean t)"

definition ju_ids :: "job_unit \<Rightarrow> u32 set" where
  "ju_ids ju = ran (ju_suspends ju) \<union> set_option (ju_trigger ju)"

definition tb_ids :: "unit_table \<Rightarrow> u32 set" where
  "tb_ids t = (\<Union>u. \<Union>ju\<in>set_option (uv_of t u). ju_ids ju)"

lemma tb_unitsD:
  assumes "tb_core e t" and "map_of (ut_data t) u = Some r"
  shows "r < ut_next t" "ju_unit (ut_heap t r) = u" "ju_inv e (ut_heap t r)" "ju_settled (ut_heap t r)"
  using assms by (auto simp: tb_core_def tb_units_def)

lemma tb_ref_inj:
  "tb_core e t \<Longrightarrow> map_of (ut_data t) u = Some r \<Longrightarrow> map_of (ut_data t) u' = Some r \<Longrightarrow> u = u'"
  by (metis tb_unitsD(2))

text \<open>\<open>JobUnit\<close>'s invariant does not look at the two flags the table manages.\<close>

lemma ju_inv_flags [simp]:
  "ju_inv e (ju\<lparr>ju_dirty := b\<rparr>) = ju_inv e ju" "ju_inv e (ju\<lparr>ju_up_ready := b\<rparr>) = ju_inv e ju"
  by (simp_all add: ju_inv_def ju_jobs_def ju_recorded_def ju_shape_def ju_ready_ok_def ju_next_def)

lemma ju_ids_flags [simp]:
  "ju_ids (ju\<lparr>ju_dirty := b\<rparr>) = ju_ids ju" "ju_ids (ju\<lparr>ju_up_ready := b\<rparr>) = ju_ids ju"
  by (simp_all add: ju_ids_def)

lemma tb_core_empty [simp]: "tb_core e ut_new" "tb_core e (ut_clear t)"
  by (simp_all add: tb_core_def tb_units_def tb_ready_def ready_wf_def ready_view_def ut_new_def ut_clear_def)

lemma tb_ids_clear [simp]: "tb_ids (ut_clear t) = {}" "tb_ids ut_new = {}"
  by (simp_all add: tb_ids_def uv_of_def ut_clear_def ut_new_def)

subsection \<open>Changing one entry\<close>

text \<open>The unit a job belongs to.\<close>

definition job_owner :: "'d job_env \<Rightarrow> u32 \<Rightarrow> uid option" where
  "job_owner e j = map_option jb_unit (je_jobs e j)"

lemma ju_ids_owner: "ju_inv e ju \<Longrightarrow> j \<in> ju_ids ju \<Longrightarrow> job_owner e j = Some (ju_unit ju)"
  by (auto simp: ju_inv_def ju_jobs_def ju_ids_def ran_def job_owner_def elim!: job_atE)
     (metis job_atE option.simps(9))+

lemma ju_inv_other:
  assumes "ju_inv e ju" and "env_frame u J e e'" and "\<forall>j\<in>J. job_owner e j = Some u" and "ju_unit ju \<noteq> u"
  shows "ju_inv e' ju"
proof (rule ju_inv_frame[OF assms(1,2,4)])
  have "ju_ids ju \<inter> J = {}" using ju_ids_owner[OF assms(1)] assms(3,4) by fastforce
  then show "ran (ju_suspends ju) \<inter> J = {}" "set_option (ju_trigger ju) \<inter> J = {}"
    by (auto simp: ju_ids_def)
qed

text \<open>What an operation on one job unit promises to the table.\<close>

definition ju_step :: "'d job_env \<Rightarrow> job_unit \<Rightarrow> 'd job_env \<Rightarrow> job_unit \<Rightarrow> bool" where
  "ju_step e ju e' ju' \<longleftrightarrow>
     ju_inv e' ju' \<and> ju_unit ju' = ju_unit ju \<and> ju_up_ready ju' = ju_up_ready ju \<and>
     (ju' = ju \<or> ju_dirty ju') \<and>
     (\<exists>J. env_frame (ju_unit ju) J e e' \<and> (\<forall>j\<in>J. job_owner e j = Some (ju_unit ju)))"

lemma ready_view_put_uv [simp]:
  "ju_unit ju' = ju_unit (ut_heap t r) \<Longrightarrow> ready_view (put_uv r ju' t) = ready_view t"
  by (auto simp: ready_view_def)

lemma tb_update:
  assumes inv: "tb_core e t" and r: "map_of (ut_data t) u = Some r" and step: "ju_step e (ut_heap t r) e' ju'"
  shows "tb_core e' (put_uv r ju' t)"
proof -
  from step obtain J where J: "env_frame u J e e'" "\<forall>j\<in>J. job_owner e j = Some u"
    using tb_unitsD(2)[OF inv r] by (auto simp: ju_step_def)
  have st: "ju_inv e' ju'" "ju_unit ju' = u" "ju_up_ready ju' = ju_up_ready (ut_heap t r)"
      "ju' = ut_heap t r \<or> ju_dirty ju'"
    using step tb_unitsD(2)[OF inv r] by (auto simp: ju_step_def)
  have set: "ju_settled ju'" using st(4) tb_unitsD(4)[OF inv r] by (auto simp: ju_settled_def)
  have other: "ju_inv e' (ut_heap t r')" if "map_of (ut_data t) u' = Some r'" "u' \<noteq> u" for u' r'
    using ju_inv_other[OF tb_unitsD(3)[OF inv that(1)] J] tb_unitsD(2)[OF inv that(1)] that(2) by simp
  have "tb_units e' (put_uv r ju' t)"
    unfolding tb_units_def
  proof (intro conjI allI impI)
    show "distinct (map fst (ut_data (put_uv r ju' t)))" using inv by (simp add: tb_core_def tb_units_def)
    fix u' r' assume "map_of (ut_data (put_uv r ju' t)) u' = Some r'"
    then have d: "map_of (ut_data t) u' = Some r'" by simp
    note ju = tb_unitsD[OF inv d]
    show "r' < ut_next (put_uv r ju' t)" using ju by simp
    have "r' = r \<longleftrightarrow> u' = u" by (metis tb_ref_inj[OF inv r] d r option.inject)
    then have h: "ut_heap (put_uv r ju' t) r' = (if u' = u then ju' else ut_heap t r')" by simp
    show "ju_unit (ut_heap (put_uv r ju' t) r') = u'" unfolding h using ju(2) st(2) by simp
    show "ju_inv e' (ut_heap (put_uv r ju' t) r')" unfolding h using other[OF d] st(1) by simp
    show "ju_settled (ut_heap (put_uv r ju' t) r')" unfolding h using set ju(4) by simp
  qed
  moreover have "tb_ready (put_uv r ju' t)"
    using inv st(2,3) tb_unitsD(2)[OF inv r] by (simp add: tb_core_def tb_ready_def ready_wf_def)
  ultimately show ?thesis by (simp add: tb_core_def)
qed

lemma ready_view_update:
  "ready_view (t\<lparr>ut_readys := [], ut_ready := m\<rparr>) = m"
  by (simp add: ready_view_def)

text \<open>Marking an entry in or out of the ready queue.\<close>

definition ju_settle :: "job_unit \<Rightarrow> job_unit" where
  "ju_settle ju = ju\<lparr>ju_up_ready := ju_ready ju, ju_dirty := False\<rparr>"

lemma ju_settle_simps [simp]:
  "ju_unit (ju_settle ju) = ju_unit ju" "ju_suspends (ju_settle ju) = ju_suspends ju"
  "ju_trigger (ju_settle ju) = ju_trigger ju" "ju_order (ju_settle ju) = ju_order ju"
  "ju_sq (ju_settle ju) = ju_sq ju" "ju_interrupt (ju_settle ju) = ju_interrupt ju"
  "ju_pause (ju_settle ju) = ju_pause ju" "ju_ready (ju_settle ju) = ju_ready ju"
  "ju_up_ready (ju_settle ju) = ju_ready ju" "\<not> ju_dirty (ju_settle ju)"
  "ju_retrigger (ju_settle ju) = ju_retrigger ju" "ju_inv e (ju_settle ju) = ju_inv e ju"
  "ju_ids (ju_settle ju) = ju_ids ju" "ju_is_empty (ju_settle ju) = ju_is_empty ju"
  by (simp_all add: ju_settle_def ju_is_empty_def)

lemma settle_entry:
  assumes core: "tb_core e t" and r: "map_of (ut_data t) u = Some r" and order: "ju_order (ut_heap t r)"
  shows "tb_core e (uv_clear_dirty r (ready_sync u r t))"
    and "\<exists>rd rs. uv_clear_dirty r (ready_sync u r t) =
      put_uv r (ju_settle (ut_heap t r)) (t\<lparr>ut_ready := rd, ut_readys := rs\<rparr>)"
proof -
  let ?ju = "ut_heap t r" and ?t = "uv_clear_dirty r (ready_sync u r t)"
  have wf: "ready_wf t" using core by (simp add: tb_core_def tb_ready_def)
  have view: "(u', r') \<in> set (ready_view t) \<longleftrightarrow> map_of (ut_data t) u' = Some r' \<and> ju_up_ready (ut_heap t r')" for u' r'
    using core by (simp add: tb_core_def tb_ready_def)
  note bf = readys_backfill_spec[OF wf]
  have unit: "ju_unit ?ju = u" by (rule tb_unitsD(2)[OF core r])
  have srt: "sorted_wrt (<) (map fst (ready_view t))" using wf by (simp add: ready_wf_def)
  define m where "m = (if ju_ready ?ju then (if ju_up_ready ?ju then ready_view t else bt_update u r (ready_view t))
     else (if ju_up_ready ?ju then AList.delete u (ready_view t) else ready_view t))"
  obtain rd rs where eq: "?t = put_uv r (ju_settle ?ju) (t\<lparr>ut_ready := rd, ut_readys := rs\<rparr>)"
    and vm: "ready_view (t\<lparr>ut_ready := rd, ut_readys := rs\<rparr>) = m" and alt: "rd = [] \<or> rs = []"
  proof (cases "ju_ready ?ju = ju_up_ready ?ju")
    case True
    have "?t = put_uv r (ju_settle ?ju) (t\<lparr>ut_ready := ut_ready t, ut_readys := ut_readys t\<rparr>)"
      using True
      by (simp add: uv_clear_dirty_def ready_sync_def ready_insert_def ready_remove_def ju_settle_def put_uv_def)
    moreover have "ready_view (t\<lparr>ut_ready := ut_ready t, ut_readys := ut_readys t\<rparr>) = m"
      using True by (simp add: m_def ready_view_def)
    ultimately show ?thesis
    proof (rule that)
      show "ut_ready t = [] \<or> ut_readys t = []" using wf by (simp add: ready_wf_def)
    qed
  next
    case False
    then have "?t = put_uv r (ju_settle ?ju) (t\<lparr>ut_ready := m, ut_readys := []\<rparr>)"
      by (auto simp: uv_clear_dirty_def ready_sync_def ready_insert_def ready_remove_def ju_settle_def
          put_uv_def bf m_def Let_def)
    then show ?thesis using that by (simp add: ready_view_def)
  qed
  show "\<exists>rd rs. ?t = put_uv r (ju_settle ?ju) (t\<lparr>ut_ready := rd, ut_readys := rs\<rparr>)" using eq by blast
  have vt: "ready_view ?t = m" unfolding eq using vm by (subst ready_view_put_uv) simp_all
  have sm: "sorted_wrt (<) (map fst m)"
    using srt by (simp add: m_def bt_update_sorted AList_delete_sorted)
  have other: "r' = r \<longleftrightarrow> u' = u" if "map_of (ut_data t) u' = Some r'" for u' r'
    by (metis tb_ref_inj[OF core r] that r option.inject)
  have "(u', r') \<in> set m \<longleftrightarrow> map_of (ut_data t) u' = Some r' \<and> ju_up_ready (if r' = r then ju_settle ?ju else ut_heap t r')"
    for u' r'
    using view[of u' r'] other[of u' r'] view[of u r] r srt
    by (auto simp: m_def set_bt_update set_AList_delete)
  then have "tb_ready ?t" using sm alt vt by (simp add: tb_ready_def ready_wf_def eq)
  moreover have "tb_units e ?t"
    using core order unit by (auto simp: tb_core_def tb_units_def eq ju_settled_def)
  ultimately show "tb_core e ?t" by (simp add: tb_core_def)
qed

end
