(* ===== verification/Job_Table_Ops.thy ===== *)
theory Job_Table_Ops
  imports Job_Table_Props
begin

section \<open>The operations of the job table\<close>

text \<open>
  Several operations of \<open>JobUnitTable\<close> have the same form: apply an operation of \<open>JobUnit\<close>
  to one entry, bring the ready queue in line, clear the dirty flag, and drop the entry
  when it has become empty. The locale \<open>ju_operation\<close> states what such an operation has to
  promise, and proves once what the table makes of it.
\<close>

subsection \<open>One entry of the abstract table\<close>

lemma uv_ofI: "map_of (ut_data t) u = Some r \<Longrightarrow> uv_of t u = Some (ut_heap t r)"
  by (simp add: uv_of_def)

lemma uv_ofE:
  assumes "uv_of t u = Some ju"
  obtains r where "map_of (ut_data t) u = Some r" and "ut_heap t r = ju"
  using assms by (auto simp: uv_of_def)

lemma uv_of_put:
  assumes "tb_core e t" and "map_of (ut_data t) u = Some r" and "ut_data t' = ut_data t"
    and "ut_heap t' = (ut_heap t)(r := ju)"
  shows "uv_of t' = (uv_of t)(u \<mapsto> ju)"
proof
  fix u'
  have "r' = r \<longleftrightarrow> u' = u" if "map_of (ut_data t) u' = Some r'" for r'
    by (metis tb_ref_inj[OF assms(1,2)] that assms(2) option.inject)
  then show "uv_of t' u' = ((uv_of t)(u \<mapsto> ju)) u'"
    using assms(2-4) by (cases "map_of (ut_data t) u'") (auto simp: uv_of_def)
qed

lemma tb_uvD:
  assumes "tb_core e t" and "uv_of t u = Some ju"
  shows "ju_unit ju = u" "ju_inv e ju" "ju_settled ju"
  using assms tb_unitsD by (auto elim!: uv_ofE)

lemma tb_clean_iff: "tb_clean t \<longleftrightarrow> (\<forall>u ju. uv_of t u = Some ju \<longrightarrow> \<not> ju_dirty ju)"
  by (auto simp: tb_clean_def uv_of_def)

lemma ju_empty_not_ready: "ju_inv e ju \<Longrightarrow> ju_is_empty ju \<Longrightarrow> \<not> ju_ready ju"
  by (auto simp: ju_inv_def ju_shape_def ju_is_empty_def ju_next_def sq_spec_def)

definition uv_gc :: "job_unit \<Rightarrow> job_unit option" where
  "uv_gc ju = (if ju_is_empty ju then None else Some ju)"

lemma gc_entry:
  assumes core: "tb_core e t" and r: "map_of (ut_data t) u = Some r" and clean: "\<not> ju_dirty (ut_heap t r)"
  shows "\<exists>t'. try_gc_empty_unit u r t = Some t' \<and> tb_core e t' \<and> ut_sync t' = ut_sync t \<and>
    uv_of t' = (uv_of t)(u := uv_gc (ut_heap t r)) \<and>
    (\<forall>u'. u' \<noteq> u \<longrightarrow> map_of (ut_data t') u' = map_of (ut_data t) u')"
proof (cases "ju_is_empty (ut_heap t r)")
  case False
  then show ?thesis using core r by (auto simp: try_gc_empty_unit_def uv_gc_def uv_of_def fun_eq_iff)
next
  case True
  let ?t = "t\<lparr>ut_data := AList.delete u (ut_data t), ut_ready := AList.delete u (ut_ready t)\<rparr>"
  have nr: "\<not> ju_ready (ut_heap t r)" by (rule ju_empty_not_ready[OF tb_unitsD(3)[OF core r] True])
  then have nu: "\<not> ju_up_ready (ut_heap t r)" using tb_unitsD(4)[OF core r] clean by (simp add: ju_settled_def)
  have run: "try_gc_empty_unit u r t = Some ?t" using True nr nu by (simp add: try_gc_empty_unit_def)
  have "(u, r') \<notin> set (ready_view t)" for r'
    using core r nu by (auto simp: tb_core_def tb_ready_def)
  then have keep: "AList.delete u (ut_ready t) = ut_ready t"
    by (auto simp: AList.delete_eq filter_id_conv ready_view_def split_beta)
  have view: "ready_view ?t = ready_view t" by (simp add: ready_view_def keep)
  have "tb_units e ?t" using core by (auto simp: tb_core_def tb_units_def)
  moreover have "tb_ready ?t"
    using core r nu view by (auto simp: tb_core_def tb_ready_def ready_wf_def keep)
  moreover have "uv_of ?t = (uv_of t)(u := None)" by (auto simp: uv_of_def fun_eq_iff)
  ultimately show ?thesis using run True by (auto simp: uv_gc_def tb_core_def)
qed

subsection \<open>The contract of an operation on a job unit\<close>

locale ju_operation =
  fixes oper :: "job_unit \<Rightarrow> 'd job_env \<Rightarrow> ('r \<times> job_unit \<times> 'd job_env) option"
    and pre :: "'d job_env \<Rightarrow> job_unit \<Rightarrow> bool"
  assumes oper_step: "ju_inv e ju \<Longrightarrow> pre e ju \<Longrightarrow>
    \<exists>res ju' e'. oper ju e = Some (res, ju', e') \<and> ju_step e ju e' ju' \<and> ju_order ju'"
begin

lemma at_entry:
  assumes core: "tb_core e t" and r: "map_of (ut_data t) u = Some r" and "pre e (ut_heap t r)"
  shows "\<exists>res ju' e' t'. oper (ut_heap t r) e = Some (res, ju', e') \<and> ju_step e (ut_heap t r) e' ju' \<and>
    t' = uv_clear_dirty r (ready_sync u r (put_uv r ju' t)) \<and> tb_core e' t' \<and> ut_data t' = ut_data t \<and>
    ut_sync t' = ut_sync t \<and> uv_of t' = (uv_of t)(u \<mapsto> ju_settle ju')"
proof -
  from oper_step[OF tb_unitsD(3)[OF core r] assms(3)] obtain res ju' e' where
    o: "oper (ut_heap t r) e = Some (res, ju', e')" "ju_step e (ut_heap t r) e' ju'" "ju_order ju'" by blast
  let ?t = "put_uv r ju' t"
  have core1: "tb_core e' ?t" by (rule tb_update[OF core r o(2)])
  have r1: "map_of (ut_data ?t) u = Some r" "ju_order (ut_heap ?t r)" using r o(3) by simp_all
  note s = settle_entry[OF core1 r1]
  from s(2) obtain rd rs where
    eq: "uv_clear_dirty r (ready_sync u r ?t) =
      put_uv r (ju_settle (ut_heap ?t r)) (?t\<lparr>ut_ready := rd, ut_readys := rs\<rparr>)" by blast
  have h: "ut_heap (uv_clear_dirty r (ready_sync u r ?t)) = (ut_heap t)(r := ju_settle ju')"
    unfolding eq by simp
  have "uv_of (uv_clear_dirty r (ready_sync u r ?t)) = (uv_of t)(u \<mapsto> ju_settle ju')"
    by (rule uv_of_put[OF core r _ h]) (simp add: eq)
  then show ?thesis using o s(1) by (simp add: eq)
qed

lemma at_entry_gc:
  assumes core: "tb_core e t" and r: "map_of (ut_data t) u = Some r" and p: "pre e (ut_heap t r)"
  shows "\<exists>res ju' e' t'. oper (ut_heap t r) e = Some (res, ju', e') \<and> ju_step e (ut_heap t r) e' ju' \<and>
    try_gc_empty_unit u r (uv_clear_dirty r (ready_sync u r (put_uv r ju' t))) = Some t' \<and>
    tb_core e' t' \<and> ut_sync t' = ut_sync t \<and> uv_of t' = (uv_of t)(u := uv_gc (ju_settle ju')) \<and>
    (\<forall>u'. u' \<noteq> u \<longrightarrow> map_of (ut_data t') u' = map_of (ut_data t) u')"
proof -
  from at_entry[OF assms] obtain res ju' e' t' where
    a: "oper (ut_heap t r) e = Some (res, ju', e')" "ju_step e (ut_heap t r) e' ju'"
    "t' = uv_clear_dirty r (ready_sync u r (put_uv r ju' t))" "tb_core e' t'" "ut_data t' = ut_data t"
    "ut_sync t' = ut_sync t" "uv_of t' = (uv_of t)(u \<mapsto> ju_settle ju')" by blast
  have r': "map_of (ut_data t') u = Some r" using a(5) r by simp
  have h: "ut_heap t' r = ju_settle ju'" using a(7) uv_ofI[OF r'] by simp
  from gc_entry[OF a(4) r'] h obtain t2 where "try_gc_empty_unit u r t' = Some t2" "tb_core e' t2"
    "ut_sync t2 = ut_sync t'" "uv_of t2 = (uv_of t')(u := uv_gc (ju_settle ju'))"
    "\<forall>u'. u' \<noteq> u \<longrightarrow> map_of (ut_data t2) u' = map_of (ut_data t') u'" by auto
  with a show ?thesis by (intro exI[of _ res] exI[of _ ju'] exI[of _ e'] exI[of _ t2]) simp
qed

end

subsection \<open>The operations of a job unit meet the contract\<close>

lemma ju_stepI:
  assumes "ju_inv e ju" and "ju_inv e' ju'" and "ju_unit ju' = ju_unit ju" and "ju_up_ready ju' = ju_up_ready ju"
    and "ju_dirty ju'" and "env_frame (ju_unit ju) J e e'" and "J \<subseteq> ju_ids ju"
  shows "ju_step e ju e' ju'"
  using assms ju_ids_owner[OF assms(1)] unfolding ju_step_def by blast

lemma set_reshuffle_dropped: "set (reshuffle_dropped e ju) \<subseteq> ran (ju_suspends ju)"
  by (auto simp: reshuffle_dropped_def set_merge_dropped ran_def)

lemma reshuffle_result_simps [simp]:
  "ju_unit (reshuffle_result e ju) = ju_unit ju" "ju_up_ready (reshuffle_result e ju) = ju_up_ready ju"
  "ju_dirty (reshuffle_result e ju) = ju_dirty ju" "ju_order (reshuffle_result e ju)"
  "ju_trigger (reshuffle_result e ju) = ju_trigger ju" "ju_pause (reshuffle_result e ju) = ju_pause ju"
  "ju_suspends (reshuffle_result e ju) = reshuffle_map e ju"
  "ju_retrigger (reshuffle_result e ju) = ju_retrigger ju"
  by (simp_all add: reshuffle_result_def Let_def)

definition can_reshuffle :: "job_unit \<Rightarrow> bool" where
  "can_reshuffle ju \<longleftrightarrow> \<not> ju_is_suspends_conflict ju \<and> (ju_pause ju \<or> \<not> ju_stale_interrupt ju)"

lemma ju_reshuffle_step:
  assumes "ju_inv e ju" and "can_reshuffle ju" and "ju_dirty ju"
  shows "\<exists>e'. ju_reshuffle ju e = Some (reshuffle_dropped e ju, reshuffle_result e ju, e') \<and>
    ju_step e ju e' (reshuffle_result e ju) \<and> je_units e' = je_units e \<and> je_notes e' = je_notes e"
proof -
  from assms have c: "\<not> ju_is_suspends_conflict ju" "ju_pause ju \<or> \<not> ju_stale_interrupt ju"
    by (simp_all add: can_reshuffle_def)
  from ju_reshuffle_spec[OF assms(1) c] obtain e' where e':
    "ju_reshuffle ju e = Some (reshuffle_dropped e ju, reshuffle_result e ju, e')"
    "ju_inv e' (reshuffle_result e ju)"
    "\<forall>j. j \<notin> set (reshuffle_dropped e ju) \<longrightarrow> je_jobs e' j = je_jobs e j"
    "\<forall>u' k. u' \<noteq> ju_unit ju \<longrightarrow> suspends_get (je_re e') u' k = suspends_get (je_re e) u' k"
    "jre_trigger (je_re e') = jre_trigger (je_re e)" "je_units e' = je_units e"
    "je_alloc e' = je_alloc e" "je_notes e' = je_notes e" by blast
  have live: "job_re_live (je_re e')" using e'(2) by (simp add: ju_inv_def ju_recorded_def)
  have "env_frame (ju_unit ju) (set (reshuffle_dropped e ju)) e e'"
    using e'(3-5,7) live by (simp add: env_frame_def trigger_get_def)
  then have "ju_step e ju e' (reshuffle_result e ju)"
    using ju_stepI[OF assms(1) e'(2)] assms(3) set_reshuffle_dropped[of e ju] by (auto simp: ju_ids_def)
  then show ?thesis using e' by blast
qed

interpretation reshuffle_op: ju_operation ju_reshuffle "\<lambda>e ju. can_reshuffle ju \<and> ju_dirty ju"
proof
  fix e :: "'d job_env" and ju
  assume "ju_inv e ju" and "can_reshuffle ju \<and> ju_dirty ju"
  then obtain e' where "ju_reshuffle ju e = Some (reshuffle_dropped e ju, reshuffle_result e ju, e')"
    "ju_step e ju e' (reshuffle_result e ju)" using ju_reshuffle_step by blast
  then show "\<exists>res ju' e'. ju_reshuffle ju e = Some (res, ju', e') \<and> ju_step e ju e' ju' \<and> ju_order ju'"
    by simp
qed

interpretation finish_op: ju_operation "ju_finish_trigger result" "\<lambda>e ju. ju_order ju \<and> ju_trigger ju \<noteq> None"
  for result
proof
  fix e :: "'d job_env" and ju
  assume inv: "ju_inv e ju" and "ju_order ju \<and> ju_trigger ju \<noteq> None"
  then obtain t where t: "ju_order ju" "ju_trigger ju = Some t" by blast
  from inv t obtain k where "job_at e t Running k (ju_unit ju)" by (auto simp: ju_inv_def ju_jobs_def)
  then obtain jb where jb: "je_jobs e t = Some jb" by (rule job_atE)
  from ju_finish_trigger_spec[OF inv t jb, of result] obtain del ju' e' where
    f: "ju_finish_trigger result ju e = Some (del, ju', e')" "ju_inv e' ju'" "ju_order ju'"
    "ju_unit ju' = ju_unit ju" "ju_up_ready ju' = ju_up_ready ju" "env_frame (ju_unit ju) {t} e e'" by blast
  have "ju_dirty ju'"
    using f(1) t by (auto simp: ju_finish_trigger_def bind_eq_Some_conv ju_update_ready_eq split: if_splits prod.splits)
  from ju_stepI[OF inv f(2,4,5) this f(6)] t(2) f(1,3)
  show "\<exists>res ju' e'. ju_finish_trigger result ju e = Some (res, ju', e') \<and> ju_step e ju e' ju' \<and> ju_order ju'"
    by (auto simp: ju_ids_def)
qed

lemma ju_resume_step:
  assumes "ju_inv e ju" and "ju_order ju" and "\<not> ju_stale_interrupt ju"
  shows "\<exists>ju'. ju_resume ju = Some ju' \<and> ju_step e ju e ju' \<and> ju_order ju' \<and>
    ju' = ju\<lparr>ju_dirty := True, ju_pause := False,
             ju_ready := ju_next (ju\<lparr>ju_dirty := True, ju_pause := False\<rparr>) \<noteq> None\<rparr>"
proof -
  from ju_resume_spec(2)[OF assms] obtain ju' where ju': "ju_resume ju = Some ju'" "ju_inv e ju'"
    "ju' = ju\<lparr>ju_dirty := True, ju_pause := False,
             ju_ready := ju_next (ju\<lparr>ju_dirty := True, ju_pause := False\<rparr>) \<noteq> None\<rparr>" by blast
  have "ju_step e ju e ju'" by (rule ju_stepI[OF assms(1) ju'(2), of "{}"]) (simp_all add: ju'(3))
  then show ?thesis using ju' assms(2) by simp
qed

interpretation resume_op:
  ju_operation "\<lambda>ju e. map_option (\<lambda>ju'. ((), ju', e)) (ju_resume ju)"
    "\<lambda>e ju. ju_order ju \<and> \<not> ju_stale_interrupt ju"
  by unfold_locales (use ju_resume_step in fastforce)

subsection \<open>Cancelling suspended jobs of one unit\<close>

text \<open>\<open>remove_entry\<close> removes up to two kinds and reshuffles; seen from the table it is one operation.\<close>

definition ju_cancel ::
  "job_kind \<Rightarrow> job_kind option \<Rightarrow> job_result \<Rightarrow> job_unit \<Rightarrow> 'd job_env \<Rightarrow>
   (u32 list \<times> job_unit \<times> 'd job_env) option" where
  "ju_cancel kind1 kind2 result ju e = do {
     (j1, ju1, e1) \<leftarrow> ju_remove_suspend kind1 result ju e;
     (j2, ju2, e2) \<leftarrow> (case kind2 of
         Some k2 \<Rightarrow> ju_remove_suspend k2 result ju1 e1
       | None \<Rightarrow> Some (None, ju1, e1));
     (_, ju3, e3) \<leftarrow> ju_reshuffle ju2 e2;
     Some (List.map_filter (\<lambda>x. x) [j1, j2], ju3, e3)
   }"

lemma ju_remove_suspend_dirty: "ju_remove_suspend k r ju e = Some (j, ju', e') \<Longrightarrow> ju_dirty ju'"
  by (auto simp: ju_remove_suspend_def bind_eq_Some_conv ju_update_ready_eq Let_def split: if_splits)

lemma put_uv_put_uv [simp]: "put_uv r b (put_uv r a t) = put_uv r b t"
  by (simp add: put_uv_def)

lemma remove_entry_eq:
  "remove_entry u r kind1 kind2 result t e =
     (if ju_dirty (ut_heap t r) then None
      else map_option (\<lambda>(dels, ju', e'). (dels, uv_clear_dirty r (ready_sync u r (put_uv r ju' t)), e'))
             (ju_cancel kind1 kind2 result (ut_heap t r) e))"
  by (auto simp: remove_entry_def ju_cancel_def reshuffle_entry_def rust_assert_def
      dest: ju_remove_suspend_dirty split: option.split Option.bind_split)

lemma merge_kinds_id: "mutop_unique m \<Longrightarrow> merge_kinds active m = m"
  by (auto simp: merge_kinds_def mutop_unique_def fun_upd_idem)

lemma mutop_unique_restrict: "mutop_unique m \<Longrightarrow> \<not> kinds_conflict (dom m) \<Longrightarrow> mutop_unique (m(k := None))"
  by (auto simp: mutop_unique_def kinds_conflict_def dom_def)

definition cancel_map :: "job_kind \<Rightarrow> job_kind option \<Rightarrow> (job_kind \<rightharpoonup> u32) \<Rightarrow> job_kind \<rightharpoonup> u32" where
  "cancel_map kind1 kind2 m = (case kind2 of None \<Rightarrow> m(kind1 := None) | Some k2 \<Rightarrow> m(kind1 := None, k2 := None))"

lemma ju_step_trans:
  assumes "ju_step e ju e1 ju1" and "ju_step e1 ju1 e2 ju2"
  shows "ju_step e ju e2 ju2"
proof -
  from assms obtain J1 J2 where J:
    "env_frame (ju_unit ju) J1 e e1" "\<forall>j\<in>J1. job_owner e j = Some (ju_unit ju)"
    "env_frame (ju_unit ju) J2 e1 e2" "\<forall>j\<in>J2. job_owner e1 j = Some (ju_unit ju)"
    by (auto simp: ju_step_def)
  have "env_frame (ju_unit ju) (J1 \<union> J2) e e2"
    by (rule env_frame_trans[OF env_frame_mono[OF J(1)] env_frame_mono[OF J(3)]]) auto
  moreover have "job_owner e j = Some (ju_unit ju)" if "j \<in> J1 \<union> J2" for j
    using that J by (cases "j \<in> J1") (auto simp: env_frame_def job_owner_def)
  ultimately show ?thesis using assms by (auto simp: ju_step_def)
qed

lemma ju_remove_suspend_step:
  assumes "ju_inv e ju" and "result \<noteq> Done"
  shows "\<exists>ju' e'. ju_remove_suspend k result ju e = Some (ju_suspends ju k, ju', e') \<and> ju_step e ju e' ju' \<and>
    ju' = ju\<lparr>ju_suspends := (ju_suspends ju)(k := None), ju_order := False, ju_dirty := True, ju_ready := False\<rparr> \<and>
    je_units e' = je_units e \<and> je_notes e' = je_notes e"
proof -
  let ?ju = "ju\<lparr>ju_suspends := (ju_suspends ju)(k := None), ju_order := False, ju_dirty := True, ju_ready := False\<rparr>"
  from ju_remove_suspend_spec[OF assms] obtain e' where e':
    "ju_remove_suspend k result ju e = Some (ju_suspends ju k, ?ju, e')" "ju_inv e' ?ju"
    "env_frame (ju_unit ju) (set_option (ju_suspends ju k)) e e'" "je_units e' = je_units e" "je_notes e' = je_notes e"
    by blast
  have "set_option (ju_suspends ju k) \<subseteq> ju_ids ju" by (auto simp: ju_ids_def ran_def)
  from ju_stepI[OF assms(1) e'(2) _ _ _ e'(3) this] have "ju_step e ju e' ?ju" by simp
  then show ?thesis using e' by blast
qed

text \<open>The queue that is left when the named kinds are gone, before it is ordered again.\<close>

definition cancel_ju :: "job_kind \<Rightarrow> job_kind option \<Rightarrow> job_unit \<Rightarrow> job_unit" where
  "cancel_ju kind1 kind2 ju =
     ju\<lparr>ju_suspends := cancel_map kind1 kind2 (ju_suspends ju), ju_order := False, ju_dirty := True, ju_ready := False\<rparr>"

lemma ju_cancel_remove:
  assumes "ju_inv e ju" and "result \<noteq> Done"
  shows "\<exists>dels e'. do {
     (j1, ju1, e1) \<leftarrow> ju_remove_suspend kind1 result ju e;
     (j2, ju2, e2) \<leftarrow> (case kind2 of Some k2 \<Rightarrow> ju_remove_suspend k2 result ju1 e1 | None \<Rightarrow> Some (None, ju1, e1));
     Some (List.map_filter (\<lambda>x. x) [j1, j2], ju2, e2) } = Some (dels, cancel_ju kind1 kind2 ju, e') \<and>
    ju_step e ju e' (cancel_ju kind1 kind2 ju) \<and> je_units e' = je_units e \<and> je_notes e' = je_notes e \<and>
    (dels = [] \<longleftrightarrow> cancel_map kind1 kind2 (ju_suspends ju) = ju_suspends ju) \<and>
    set dels = {j. \<exists>k. ju_suspends ju k = Some j \<and> cancel_map kind1 kind2 (ju_suspends ju) k = None}"
proof -
  from ju_remove_suspend_step[OF assms, of kind1] obtain ju1 e1 where
    s1: "ju_remove_suspend kind1 result ju e = Some (ju_suspends ju kind1, ju1, e1)" "ju_step e ju e1 ju1"
    "ju1 = ju\<lparr>ju_suspends := (ju_suspends ju)(kind1 := None), ju_order := False, ju_dirty := True, ju_ready := False\<rparr>"
    "je_units e1 = je_units e" "je_notes e1 = je_notes e" by blast
  show ?thesis
  proof (cases kind2)
    case None
    then show ?thesis using s1
      by (cases "ju_suspends ju kind1") (auto simp: cancel_ju_def cancel_map_def fun_eq_iff)
  next
    case (Some k2)
    have "ju_inv e1 ju1" using s1(2) by (simp add: ju_step_def)
    from ju_remove_suspend_step[OF this assms(2), of k2] obtain ju2 e2 where
      s2: "ju_remove_suspend k2 result ju1 e1 = Some (ju_suspends ju1 k2, ju2, e2)" "ju_step e1 ju1 e2 ju2"
      "ju2 = ju1\<lparr>ju_suspends := (ju_suspends ju1)(k2 := None), ju_order := False, ju_dirty := True, ju_ready := False\<rparr>"
      "je_units e2 = je_units e1" "je_notes e2 = je_notes e1" by blast
    have eq: "ju2 = cancel_ju kind1 kind2 ju" using s1(3) s2(3) Some by (simp add: cancel_ju_def cancel_map_def)
    note st = ju_step_trans[OF s1(2) s2(2)]
    show ?thesis using s1(1,3-5) s2(1,4,5) st Some eq
      by (cases "ju_suspends ju kind1"; cases "ju_suspends ju k2"; cases "k2 = kind1")
         (auto simp: cancel_map_def fun_eq_iff)
  qed
qed

lemma ju_cancel_split:
  "ju_cancel kind1 kind2 result ju e = do {
     (dels, ju2, e2) \<leftarrow> do {
       (j1, ju1, e1) \<leftarrow> ju_remove_suspend kind1 result ju e;
       (j2, ju2, e2) \<leftarrow> (case kind2 of Some k2 \<Rightarrow> ju_remove_suspend k2 result ju1 e1 | None \<Rightarrow> Some (None, ju1, e1));
       Some (List.map_filter (\<lambda>x. x) [j1, j2], ju2, e2) };
     (_, ju3, e3) \<leftarrow> ju_reshuffle ju2 e2;
     Some (dels, ju3, e3)
   }"
  by (auto simp: ju_cancel_def split: Option.bind_split option.split)

definition can_cancel :: "job_kind \<Rightarrow> job_kind option \<Rightarrow> job_unit \<Rightarrow> bool" where
  "can_cancel kind1 kind2 ju \<longleftrightarrow> ju_order ju \<and>
     (ju_pause ju \<or> \<not> ju_interrupt ju \<or> cancel_map kind1 kind2 (ju_suspends ju) \<noteq> Map.empty)"

lemma cancel_map_le: "cancel_map kind1 kind2 m k = Some j \<Longrightarrow> m k = Some j"
  by (auto simp: cancel_map_def split: option.splits if_splits)

lemma cancel_map_shape:
  assumes "mutop_unique m" and "\<not> kinds_conflict (dom m)"
  shows "mutop_unique (cancel_map kind1 kind2 m) \<and> \<not> kinds_conflict (dom (cancel_map kind1 kind2 m))"
proof -
  have drop: "mutop_unique (m(k := None)) \<and> \<not> kinds_conflict (dom (m(k := None)))"
    if "mutop_unique m" "\<not> kinds_conflict (dom m)" for m :: "job_kind \<rightharpoonup> u32" and k
    using mutop_unique_restrict[OF that] kinds_conflict_mono[of "dom (m(k := None))" "dom m"] that by auto
  from drop[OF assms, of kind1] drop[of "m(kind1 := None)"] show ?thesis
    by (simp add: cancel_map_def split: option.splits)
qed

lemma ju_cancel_spec:
  assumes inv: "ju_inv e ju" and can: "can_cancel kind1 kind2 ju" and ne: "result \<noteq> Done"
  shows "\<exists>dels ju' e'. ju_cancel kind1 kind2 result ju e = Some (dels, ju', e') \<and> ju_step e ju e' ju' \<and>
    ju' = reshuffle_result e (cancel_ju kind1 kind2 ju) \<and>
    ju_suspends ju' = cancel_map kind1 kind2 (ju_suspends ju) \<and>
    (dels = [] \<longleftrightarrow> cancel_map kind1 kind2 (ju_suspends ju) = ju_suspends ju) \<and>
    set dels = {j. \<exists>k. ju_suspends ju k = Some j \<and> cancel_map kind1 kind2 (ju_suspends ju) k = None} \<and>
    je_units e' = je_units e \<and> je_notes e' = je_notes e"
proof -
  let ?ju = "cancel_ju kind1 kind2 ju" and ?m = "cancel_map kind1 kind2 (ju_suspends ju)"
  from ju_cancel_remove[OF inv ne, of kind1 kind2] obtain dels e1 where
    c: "do {
       (j1, ju1, e1) \<leftarrow> ju_remove_suspend kind1 result ju e;
       (j2, ju2, e2) \<leftarrow> (case kind2 of Some k2 \<Rightarrow> ju_remove_suspend k2 result ju1 e1 | None \<Rightarrow> Some (None, ju1, e1));
       Some (List.map_filter (\<lambda>x. x) [j1, j2], ju2, e2) } = Some (dels, ?ju, e1)"
    "ju_step e ju e1 ?ju" "je_units e1 = je_units e" "je_notes e1 = je_notes e" "dels = [] \<longleftrightarrow> ?m = ju_suspends ju"
    "set dels = {j. \<exists>k. ju_suspends ju k = Some j \<and> ?m k = None}" by blast
  have shape: "mutop_unique ?m" "\<not> kinds_conflict (dom ?m)"
    using cancel_map_shape[of "ju_suspends ju"] inv can by (auto simp: ju_inv_def ju_shape_def can_cancel_def)
  have cr: "can_reshuffle ?ju"
    using shape(2) can by (auto simp: can_reshuffle_def ju_is_suspends_conflict_iff cancel_ju_def ju_stale_interrupt_def can_cancel_def)
  have inv1: "ju_inv e1 ?ju" using c(2) by (simp add: ju_step_def)
  from ju_reshuffle_step[OF inv1 cr] obtain e2 where
    r: "ju_reshuffle ?ju e1 = Some (reshuffle_dropped e1 ?ju, reshuffle_result e1 ?ju, e2)"
    "ju_step e1 ?ju e2 (reshuffle_result e1 ?ju)" "je_units e2 = je_units e1" "je_notes e2 = je_notes e1"
    by (auto simp: cancel_ju_def)
  have same: "reshuffle_result e1 ?ju = reshuffle_result e ?ju"
    using c(3) by (simp add: reshuffle_result_def reshuffle_map_def)
  have sus: "ju_suspends (reshuffle_result e ?ju) = ?m"
    using merge_kinds_id[OF shape(1)] by (simp add: reshuffle_map_def cancel_ju_def)
  have "ju_cancel kind1 kind2 result ju e = Some (dels, reshuffle_result e1 ?ju, e2)"
    unfolding ju_cancel_split c(1) using r(1) by simp
  then show ?thesis
    using ju_step_trans[OF c(2) r(2)] sus c(3-6) r(3,4) unfolding same
    by (intro exI[of _ dels] exI[of _ "reshuffle_result e ?ju"] exI[of _ e2]) simp
qed

interpretation cancel_op:
  ju_operation "ju_cancel kind1 kind2 result" "\<lambda>e ju. can_cancel kind1 kind2 ju \<and> result \<noteq> Done"
  for kind1 kind2 result
proof
  fix e :: "'d job_env" and ju
  assume "ju_inv e ju" and "can_cancel kind1 kind2 ju \<and> result \<noteq> Done"
  with ju_cancel_spec[of e ju kind1 kind2 result] obtain dels ju' e' where
    "ju_cancel kind1 kind2 result ju e = Some (dels, ju', e')" "ju_step e ju e' ju'"
    "ju' = reshuffle_result e (cancel_ju kind1 kind2 ju)" by blast
  then show "\<exists>res ju' e'. ju_cancel kind1 kind2 result ju e = Some (res, ju', e') \<and> ju_step e ju e' ju' \<and> ju_order ju'"
    by simp
qed

end
