(* ===== verification/Job_Table_Spec.thy ===== *)
theory Job_Table_Spec
  imports Job_Table_Ops
begin

section \<open>What the operations of the job table do\<close>

text \<open>
  Each operation of \<open>JobUnitTable\<close>, read through \<open>uv_of\<close> as a map from units to job units,
  changes the entries it names and no other, and keeps \<open>tb_inv\<close>.
\<close>

subsection \<open>The databases and the absent units\<close>

lemma ju_inv_empty_new: "ju_inv e ju \<Longrightarrow> ju_is_empty ju \<Longrightarrow> ju_inv e (job_unit_new (ju_unit ju))"
  by (auto simp: ju_inv_def ju_jobs_def ju_recorded_def ju_shape_def ju_is_empty_def job_unit_new_def
      sq_spec_def mutop_unique_def kinds_conflict_def ju_ready_ok_def ju_next_def)

lemma tb_db_step:
  assumes "tb_db e t" and step: "ju_step e ju e' ju'" and "ju_unit ju = u"
    and "uv_of t' = (uv_of t)(u := x)" and "x = None \<Longrightarrow> ju_is_empty ju'"
  shows "tb_db e' t'"
  unfolding tb_db_def
proof (intro allI impI)
  fix u' assume none: "uv_of t' u' = None"
  from step obtain J where J: "env_frame u J e e'" "\<forall>j\<in>J. job_owner e j = Some u"
    using assms(3) by (auto simp: ju_step_def)
  show "ju_inv e' (job_unit_new u')"
  proof (cases "u' = u")
    case True
    then have "ju_is_empty ju'" using none assms(4,5) by simp
    then show ?thesis using ju_inv_empty_new[of e' ju'] step assms(3) True by (simp add: ju_step_def)
  next
    case False
    then have "ju_inv e (job_unit_new u')" using none assms(1,4) by (simp add: tb_db_def)
    from ju_inv_other[OF this J] False show ?thesis by (simp add: job_unit_new_def)
  qed
qed

lemma uv_gc_None: "uv_gc ju = None \<longleftrightarrow> ju_is_empty ju"
  by (simp add: uv_gc_def)

lemma uv_gc_Some: "uv_gc ju = Some ju' \<longleftrightarrow> ju' = ju \<and> \<not> ju_is_empty ju"
  by (auto simp: uv_gc_def)

lemma tb_clean_upd:
  assumes "tb_clean t" and "uv_of t' = (uv_of t)(u := x)" and "\<And>ju. x = Some ju \<Longrightarrow> \<not> ju_dirty ju"
  shows "tb_clean t'"
  using assms by (auto simp: tb_clean_iff)

text \<open>The result of an operation on one entry of a table in sync.\<close>

lemma tb_inv_entry:
  assumes "tb_inv e t" and "ju_step e ju e' ju'" and "uv_of t u = Some ju"
    and "tb_core e' t'" and "ut_sync t' = ut_sync t" and "uv_of t' = (uv_of t)(u := uv_gc (ju_settle ju'))"
  shows "tb_inv e' t'"
proof -
  have "tb_core e t" using assms(1) by (simp add: tb_inv_def)
  then have u: "ju_unit ju = u" using assms(3) by (rule tb_uvD(1))
  have "tb_db e' t'"
    by (rule tb_db_step[OF _ assms(2) u assms(6)]) (use assms(1) in \<open>simp_all add: tb_inv_def uv_gc_None\<close>)
  moreover have "tb_clean t'" if "tb_clean t"
    by (rule tb_clean_upd[OF that assms(6)]) (auto simp: uv_gc_Some)
  ultimately show ?thesis using assms(1,4,5) by (simp add: tb_inv_def)
qed

subsection \<open>Finishing, cancelling, resuming\<close>

lemma ut_finish_trigger_spec:
  assumes inv: "tb_inv e t" and sync: "ut_sync t" and ju: "uv_of t u = Some ju" and tr: "ju_trigger ju \<noteq> None"
  shows "\<exists>del ju' t' e'. ut_finish_trigger u result t e = Some (del, t', e') \<and>
    ju_finish_trigger result ju e = Some (del, ju', e') \<and> ju_step e ju e' ju' \<and> tb_inv e' t' \<and> ut_sync t' \<and>
    uv_of t' = (uv_of t)(u := uv_gc (ju_settle ju'))"
proof -
  from inv sync have core: "tb_core e t" and clean: "tb_clean t" by (simp_all add: tb_inv_def)
  from ju obtain r where r: "map_of (ut_data t) u = Some r" "ut_heap t r = ju" by (rule uv_ofE)
  have nd: "\<not> ju_dirty ju" using clean r by (auto simp: tb_clean_def)
  then have "ju_order ju" using tb_uvD(3)[OF core ju] by (simp add: ju_settled_def)
  with tr r have "ju_order (ut_heap t r) \<and> ju_trigger (ut_heap t r) \<noteq> None" by simp
  from finish_op.at_entry_gc[OF core r(1) this, of result] r(2) obtain del ju' e' t' where
    f: "ju_finish_trigger result ju e = Some (del, ju', e')" "ju_step e ju e' ju'"
    "try_gc_empty_unit u r (uv_clear_dirty r (ready_sync u r (put_uv r ju' t))) = Some t'"
    "tb_core e' t'" "ut_sync t' = ut_sync t" "uv_of t' = (uv_of t)(u := uv_gc (ju_settle ju'))" by auto
  have "ut_finish_trigger u result t e = Some (del, t', e')"
    using f(1,3) r tr nd sync by (simp add: ut_finish_trigger_def finish_entry_def)
  moreover have "tb_inv e' t'" by (rule tb_inv_entry[OF inv f(2) ju f(4-6)])
  ultimately show ?thesis using f sync by auto
qed

lemma ut_remove_suspends_spec:
  assumes inv: "tb_inv e t" and sync: "ut_sync t" and ju: "uv_of t u = Some ju"
    and can: "can_cancel kind1 kind2 ju" and ne: "result \<noteq> Done"
  shows "\<exists>dels ju' t' e'. ut_remove_suspends u kind1 kind2 result t e = Some (dels, t', e') \<and>
    ju_cancel kind1 kind2 result ju e = Some (dels, ju', e') \<and> ju_step e ju e' ju' \<and> tb_inv e' t' \<and> ut_sync t' \<and>
    uv_of t' = (uv_of t)(u := uv_gc (ju_settle ju'))"
proof -
  from inv sync have core: "tb_core e t" and clean: "tb_clean t" by (simp_all add: tb_inv_def)
  from ju obtain r where r: "map_of (ut_data t) u = Some r" "ut_heap t r = ju" by (rule uv_ofE)
  have nd: "\<not> ju_dirty ju" using clean r by (auto simp: tb_clean_def)
  from can ne r have "can_cancel kind1 kind2 (ut_heap t r) \<and> result \<noteq> Done" by simp
  from cancel_op.at_entry_gc[OF core r(1) this] r(2) obtain dels ju' e' t' where
    f: "ju_cancel kind1 kind2 result ju e = Some (dels, ju', e')" "ju_step e ju e' ju'"
    "try_gc_empty_unit u r (uv_clear_dirty r (ready_sync u r (put_uv r ju' t))) = Some t'"
    "tb_core e' t'" "ut_sync t' = ut_sync t" "uv_of t' = (uv_of t)(u := uv_gc (ju_settle ju'))" by auto
  have "ut_remove_suspends u kind1 kind2 result t e = Some (dels, t', e')"
    using f(1,3) r nd sync by (simp add: ut_remove_suspends_def remove_entry_eq)
  moreover have "tb_inv e' t'" by (rule tb_inv_entry[OF inv f(2) ju f(4-6)])
  ultimately show ?thesis using f sync by auto
qed

definition ju_resumed :: "job_unit \<Rightarrow> job_unit" where
  "ju_resumed ju = (if ju_pause ju
     then ju_settle (ju\<lparr>ju_pause := False, ju_ready := ju_next (ju\<lparr>ju_pause := False\<rparr>) \<noteq> None\<rparr>)
     else ju)"

lemma ju_next_dirty [simp]: "ju_next (ju\<lparr>ju_dirty := b\<rparr>) = ju_next ju"
  by (simp add: ju_next_def)

lemma ut_resume_unit_spec:
  assumes inv: "tb_inv e t" and sync: "ut_sync t"
    and fresh: "\<And>ju. uv_of t u = Some ju \<Longrightarrow> ju_pause ju \<Longrightarrow> \<not> ju_stale_interrupt ju"
  shows "\<exists>t'. ut_resume_unit u t = Some t' \<and> tb_inv e t' \<and> ut_sync t' \<and>
    uv_of t' = (uv_of t)(u := map_option ju_resumed (uv_of t u))"
proof (cases "uv_of t u")
  case None
  then show ?thesis using inv sync by (auto simp: ut_resume_unit_def uv_of_def fun_upd_idem)
next
  case (Some ju)
  from inv sync have core: "tb_core e t" and clean: "tb_clean t" by (simp_all add: tb_inv_def)
  from Some obtain r where r: "map_of (ut_data t) u = Some r" "ut_heap t r = ju" by (rule uv_ofE)
  have nd: "\<not> ju_dirty ju" using clean r by (auto simp: tb_clean_def)
  then have order: "ju_order ju" using tb_uvD(3)[OF core Some] by (simp add: ju_settled_def)
  show ?thesis
  proof (cases "ju_pause ju")
    case False
    then show ?thesis using inv sync r nd Some
      by (auto simp: ut_resume_unit_def resume_entry_def ju_resumed_def fun_upd_idem)
  next
    case True
    with fresh Some order r have p: "ju_order (ut_heap t r) \<and> \<not> ju_stale_interrupt (ut_heap t r)" by simp
    from resume_op.at_entry[OF core r(1) p] r(2) obtain ju' t' where
      f: "ju_resume ju = Some ju'" "ju_step e ju e ju'"
      "t' = uv_clear_dirty r (ready_sync u r (put_uv r ju' t))"
      "tb_core e t'" "ut_sync t' = ut_sync t" "uv_of t' = (uv_of t)(u \<mapsto> ju_settle ju')" by auto
    have eq: "ju_settle ju' = ju_resumed ju"
      using ju_resume_step[OF tb_uvD(2)[OF core Some] order] fresh[OF Some True] f(1) True
      by (auto simp: ju_resumed_def ju_settle_def ju_next_def)
    have run: "ut_resume_unit u t = Some t'"
      using f(1,3) r nd True by (simp add: ut_resume_unit_def resume_entry_def)
    have "tb_db e t'"
      using inv f(6) by (auto simp: tb_inv_def tb_db_def)
    moreover have "tb_clean t'" by (rule tb_clean_upd[OF clean f(6)]) auto
    ultimately show ?thesis using run f(4-6) eq sync Some by (auto simp: tb_inv_def)
  qed
qed

end
