(* ===== verification/Job_Table_Trigger.thy ===== *)
theory Job_Table_Trigger
  imports Job_Table_Spec
begin

section \<open>Triggering from the job table\<close>

text \<open>
  \<open>try_trigger\<close> takes a unit from the ready queue and triggers its next job if the order
  relations allow it, or pauses the unit. This theory gives the order check a declarative
  reading and shows that the operation never fails on a table in sync.
\<close>

subsection \<open>The order check\<close>

text \<open>The job a ready unit would trigger.\<close>

definition ju_next_job :: "job_unit \<Rightarrow> u32 option" where
  "ju_next_job ju =
     (case ju_next ju of
        Some True \<Rightarrow> (case ju_sq ju of [] \<Rightarrow> None | j # _ \<Rightarrow> Some j)
      | Some False \<Rightarrow> ju_trigger ju
      | None \<Rightarrow> None)"

text \<open>Job \<open>oj\<close> of a unit that is related by \<open>atom\<close> has to go before job \<open>j\<close>.\<close>

definition job_before :: "'d job_env \<Rightarrow> unit_relation_atom \<Rightarrow> u32 \<Rightarrow> u32 \<Rightarrow> bool" where
  "job_before e atom oj j \<longleftrightarrow> (case (je_jobs e j, je_jobs e oj) of
     (Some jb, Some ob) \<Rightarrow> \<not> ignore_order (jb_attr jb) \<and> \<not> ignore_order (jb_attr ob) \<and>
        job_order_compare (jb_run_kind jb) (jb_run_kind ob) atom > 0
   | _ \<Rightarrow> False)"

definition order_free :: "'d job_env \<Rightarrow> u32 \<Rightarrow> bool" where
  "order_free e j \<longleftrightarrow> (case je_jobs e j of
     Some jb \<Rightarrow> ignore_order (jb_attr jb) \<or> jb_kind jb = Nop | None \<Rightarrow> False)"

text \<open>No related unit has a job that goes first.\<close>

definition order_allows :: "'x unit_dep_data \<Rightarrow> 'd job_env \<Rightarrow> unit_table \<Rightarrow> uid \<Rightarrow> u32 \<Rightarrow> bool" where
  "order_allows dd e t u j \<longleftrightarrow> order_free e j \<or>
     (\<forall>atom\<in>{UnitAtomAfter, UnitAtomBefore}. \<forall>other\<in>set (gets_atom dd u atom).
        \<forall>ju oj. uv_of t other = Some ju \<longrightarrow> oj \<in> ju_ids ju \<longrightarrow> \<not> job_before e atom oj j)"

lemma ju_next_up_ready [simp]: "ju_next (ju\<lparr>ju_up_ready := b\<rparr>) = ju_next ju"
  by (simp add: ju_next_def)

lemma ju_next_job_up_ready [simp]: "ju_next_job (ju\<lparr>ju_up_ready := b\<rparr>) = ju_next_job ju"
  by (simp add: ju_next_job_def split: option.split bool.split)

lemma ju_next_job_ready:
  assumes "ju_inv e ju" and "ju_ready ju"
  shows "\<exists>j. ju_next_job ju = Some j \<and> get_next_trigger ju = Some j \<and> j \<in> ju_ids ju"
proof -
  from assms have shape: "ju_shape ju" and jobs: "ju_jobs e ju" by (simp_all add: ju_inv_def)
  with assms(2) have n: "ju_next ju \<noteq> None" and ok: "ju_ready_ok ju" by (simp_all add: ju_shape_def)
  show ?thesis
  proof (cases "ju_next ju = Some True")
    case True
    then obtain j js where sq: "ju_sq ju = j # js" and o: "ju_order ju"
      by (cases "ju_sq ju") (auto simp: ju_next_def split: if_splits)
    have "ju_sq ju = sq_spec (ju_suspends ju)" using shape sq o by (auto simp: ju_shape_def)
    then have "j \<in> set (sq_spec (ju_suspends ju))" using sq by (metis list.set_intros(1))
    then have "j \<in> ran (ju_suspends ju)" using set_sq_spec by blast
    then show ?thesis using True sq ok
      by (simp add: ju_next_job_def get_next_trigger_def ju_calc_ready_eq ju_ids_def)
  next
    case False
    then have f: "ju_next ju = Some False" using n by auto
    then have "ju_trigger ju \<noteq> None \<and> ju_retrigger ju" by (auto simp: ju_next_def split: if_splits)
    then show ?thesis using f ok
      by (auto simp: ju_next_job_def get_next_trigger_def ju_calc_ready_eq ju_ids_def)
  qed
qed

lemma ju_ids_job: "ju_inv e ju \<Longrightarrow> j \<in> ju_ids ju \<Longrightarrow> \<exists>jb. je_jobs e j = Some jb"
  using ju_ids_owner[of e ju j] by (auto simp: job_owner_def)

lemma no_order_before_spec:
  assumes "\<forall>oj\<in>set ojs. je_jobs e oj \<noteq> None" and "je_jobs e j \<noteq> None"
    and "atom = UnitAtomAfter \<or> atom = UnitAtomBefore"
  shows "no_order_before e j atom ojs = Some (\<forall>oj\<in>set ojs. \<not> job_before e atom oj j)"
  using assms
  by (induction ojs) (auto simp: job_is_order_with_def job_before_def rust_assert_def)

lemma order_with_spec:
  assumes "ju_inv e uv" and "ju_ready uv" and "ju_inv e other" and "ju_order other" and "ju_next_job uv = Some j"
    and "atom = UnitAtomAfter \<or> atom = UnitAtomBefore"
  shows "ju_is_next_trigger_order_with e uv other atom =
    Some (order_free e j \<or> (\<forall>oj\<in>ju_ids other. \<not> job_before e atom oj j))"
proof -
  from ju_next_job_ready[OF assms(1,2)] assms(5) have g: "get_next_trigger uv = Some j" "j \<in> ju_ids uv" by auto
  from ju_ids_job[OF assms(1) g(2)] obtain jb where jb: "je_jobs e j = Some jb" ..
  let ?ojs = "suspends_values (ju_suspends other) @ (case ju_trigger other of Some t \<Rightarrow> [t] | None \<Rightarrow> [])"
  have set: "set ?ojs = ju_ids other" by (auto simp: ju_ids_def split: option.splits)
  have "\<forall>oj\<in>set ?ojs. je_jobs e oj \<noteq> None" unfolding set using ju_ids_job[OF assms(3)] by blast
  from no_order_before_spec[OF this _ assms(6), of j] jb
  have "no_order_before e j atom ?ojs = Some (\<forall>oj\<in>ju_ids other. \<not> job_before e atom oj j)"
    unfolding set by simp
  then show ?thesis using assms(2,4) g jb
    by (simp add: ju_is_next_trigger_order_with_def order_free_def)
qed

lemma ut_order_loop_spec:
  assumes uv: "ju_inv e uv" "ju_ready uv" "ju_next_job uv = Some j"
    and others: "\<forall>u ju. uv_of t u = Some ju \<longrightarrow> ju_inv e ju \<and> ju_order ju"
    and atom: "atom = UnitAtomAfter \<or> atom = UnitAtomBefore"
  shows "ut_order_loop e t uv atom us =
    Some (\<forall>u\<in>set us. \<forall>ju. uv_of t u = Some ju \<longrightarrow> order_free e j \<or> (\<forall>oj\<in>ju_ids ju. \<not> job_before e atom oj j))"
proof (induction us)
  case (Cons u us)
  show ?case
  proof (cases "map_of (ut_data t) u")
    case None
    then show ?thesis using Cons by (simp add: uv_of_def)
  next
    case (Some r)
    then have u: "uv_of t u = Some (ut_heap t r)" by (rule uv_ofI)
    with others have "ju_inv e (ut_heap t r)" "ju_order (ut_heap t r)" by blast+
    from order_with_spec[OF uv(1,2) this uv(3) atom] show ?thesis
      using Some Cons u by (cases "order_free e j \<or> (\<forall>oj\<in>ju_ids (ut_heap t r). \<not> job_before e atom oj j)") auto
  qed
qed simp

lemma is_uv_runnable_spec:
  assumes "ju_inv e uv" "ju_ready uv" "ju_next_job uv = Some j"
    and "\<forall>u ju. uv_of t u = Some ju \<longrightarrow> ju_inv e ju \<and> ju_order ju"
  shows "is_uv_runnable dd e t uv = Some (order_allows dd e t (ju_unit uv) j)"
proof -
  note l = ut_order_loop_spec[OF assms]
  show ?thesis
    unfolding is_uv_runnable_def order_allows_def l[of UnitAtomAfter, simplified] l[of UnitAtomBefore, simplified]
    by auto
qed

subsection \<open>Taking a unit from the ready queue\<close>

text \<open>The abstract queue: a named unit, or the last one in unit order.\<close>

definition ready_pick :: "uid option \<Rightarrow> (uid \<times> nat) list \<Rightarrow> (uid \<times> nat) option" where
  "ready_pick un v = (case un of
     Some u \<Rightarrow> map_option (Pair u) (map_of v u)
   | None \<Rightarrow> (if v = [] then None else Some (last v)))"

lemma butlast_delete:
  fixes v :: "('k::linorder \<times> 'v) list"
  assumes "sorted_wrt (<) (map fst v)" and "v \<noteq> []"
  shows "butlast v = AList.delete (fst (last v)) v"
proof -
  obtain w k x where v: "v = w @ [(k, x)]" using assms(2) by (metis append_butlast_last_id surj_pair)
  have "\<forall>p\<in>set w. fst p \<noteq> k" using assms(1) by (fastforce simp: v sorted_wrt_append)
  then have "AList.delete k w = w" by (force simp: AList.delete_eq filter_id_conv)
  then show ?thesis by (simp add: v AList.delete_eq)
qed

lemma AList_delete_absent: "map_of v u = None \<Longrightarrow> AList.delete u v = v"
  by (force simp: AList.delete_eq filter_id_conv map_of_eq_None_iff)

lemma ready_pop_spec:
  assumes core: "tb_core e t"
  shows "\<exists>rd rs. (rd = [] \<or> rs = []) \<and>
    (case ready_pick un (ready_view t) of
       None \<Rightarrow> ready_pop un t = (None, t\<lparr>ut_ready := rd, ut_readys := rs\<rparr>) \<and>
         ready_view (t\<lparr>ut_ready := rd, ut_readys := rs\<rparr>) = ready_view t
     | Some (u, r) \<Rightarrow>
         ready_pop un t = (Some r, put_uv r ((ut_heap t r)\<lparr>ju_up_ready := False\<rparr>) (t\<lparr>ut_ready := rd, ut_readys := rs\<rparr>)) \<and>
         ready_view (t\<lparr>ut_ready := rd, ut_readys := rs\<rparr>) = AList.delete u (ready_view t))"
proof -
  from core have wf: "ready_wf t" by (simp add: tb_core_def tb_ready_def)
  have srt: "sorted_wrt (<) (map fst (ready_view t))" using wf by (simp add: ready_wf_def)
  have unit: "ju_unit (ut_heap t r) = u" if "(u, r) \<in> set (ready_view t)" for u r
    using that core tb_unitsD(2)[OF core] by (auto simp: tb_core_def tb_ready_def)
  show ?thesis
  proof (cases un)
    case (Some u)
    have "ready_pop un t = (map_of (ready_view t) u,
        case map_of (ready_view t) u of
          Some r \<Rightarrow> put_uv r ((ut_heap t r)\<lparr>ju_up_ready := False\<rparr>) (t\<lparr>ut_ready := AList.delete u (ready_view t), ut_readys := []\<rparr>)
        | None \<Rightarrow> t\<lparr>ut_ready := AList.delete u (ready_view t), ut_readys := []\<rparr>)"
      by (simp add: ready_pop_def Some readys_backfill_spec[OF wf] Let_def split: option.split)
    then show ?thesis
      by (intro exI[of _ "AList.delete u (ready_view t)"] exI[of _ "[]"])
         (auto simp: ready_pick_def Some ready_view_def AList_delete_absent split: option.split)
  next
    case None
    let ?rs = "map snd (butlast (ready_view t))"
    have pop: "ready_pop un t = (if ready_view t = [] then (None, t\<lparr>ut_ready := [], ut_readys := []\<rparr>)
        else (Some (snd (last (ready_view t))),
          put_uv (snd (last (ready_view t))) ((ut_heap t (snd (last (ready_view t))))\<lparr>ju_up_ready := False\<rparr>)
            (t\<lparr>ut_ready := [], ut_readys := ?rs\<rparr>)))"
      by (simp add: ready_pop_def None readys_fill_spec[OF wf] Let_def last_map map_butlast)
    have "map (\<lambda>r. (ju_unit (ut_heap t r), r)) ?rs = butlast (ready_view t)"
      unfolding map_map comp_def
    proof (rule map_idI)
      fix p assume "p \<in> set (butlast (ready_view t))"
      then have "p \<in> set (ready_view t)" by (rule in_set_butlastD)
      then show "(ju_unit (ut_heap t (snd p)), snd p) = p" using unit[of "fst p" "snd p"] by simp
    qed
    then have "ready_view (t\<lparr>ut_ready := [], ut_readys := ?rs\<rparr>) = butlast (ready_view t)"
      by (simp add: ready_view_def)
    then show ?thesis using pop butlast_delete[OF srt]
      by (intro exI[of _ "[]"] exI[of _ ?rs]) (auto simp: ready_pick_def None split: prod.split)
  qed
qed

lemma pop_core:
  assumes core: "tb_core e t" and r: "map_of (ut_data t) u = Some r"
    and view: "ready_view (t\<lparr>ut_ready := rd, ut_readys := rs\<rparr>) = AList.delete u (ready_view t)"
    and alt: "rd = [] \<or> rs = []"
  shows "tb_core e (put_uv r ((ut_heap t r)\<lparr>ju_up_ready := False, ju_dirty := True\<rparr>)
    (t\<lparr>ut_ready := rd, ut_readys := rs\<rparr>))" (is "tb_core e ?t")
proof -
  have vt: "ready_view ?t = AList.delete u (ready_view t)"
    by (subst ready_view_put_uv) (simp_all add: view)
  have srt: "sorted_wrt (<) (map fst (ready_view t))" using core by (simp add: tb_core_def tb_ready_def ready_wf_def)
  have "r' = r \<longleftrightarrow> u' = u" if "map_of (ut_data t) u' = Some r'" for u' r'
    by (metis tb_ref_inj[OF core r] that r option.inject)
  then have "tb_ready ?t"
    using core alt srt r unfolding tb_ready_def ready_wf_def vt
    by (auto simp: tb_core_def tb_ready_def set_AList_delete AList_delete_sorted)
  moreover have "tb_units e ?t"
    using core by (auto simp: tb_core_def tb_units_def ju_settled_def)
  ultimately show ?thesis by (simp add: tb_core_def)
qed

lemma clear_dirty_core:
  assumes core: "tb_core e t" and r: "map_of (ut_data t) u = Some r" and "ju_order (ut_heap t r)"
    and "ju_up_ready (ut_heap t r) = ju_ready (ut_heap t r)"
  shows "tb_core e (uv_clear_dirty r t)"
  using assms by (auto simp: tb_core_def tb_units_def tb_ready_def ready_wf_def uv_clear_dirty_def ju_settled_def)

subsection \<open>The ids of the jobs in the table\<close>

definition uv_ids :: "job_unit option \<Rightarrow> u32 set" where
  "uv_ids x = (case x of None \<Rightarrow> {} | Some ju \<Rightarrow> ju_ids ju)"

lemma uv_ids_simps [simp]: "uv_ids None = {}" "uv_ids (Some ju) = ju_ids ju"
  by (simp_all add: uv_ids_def)

lemma tb_ids_iff: "j \<in> tb_ids t \<longleftrightarrow> (\<exists>u. j \<in> uv_ids (uv_of t u))"
  by (auto simp: tb_ids_def uv_ids_def split: option.splits)

lemma tb_ids_upd:
  "uv_of t' = (uv_of t)(u := x) \<Longrightarrow> j \<in> tb_ids t' \<longleftrightarrow> j \<in> uv_ids x \<or> (\<exists>u'. u' \<noteq> u \<and> j \<in> uv_ids (uv_of t u'))"
  by (auto simp: tb_ids_iff)

lemma ju_is_empty_iff: "ju_is_empty ju \<longleftrightarrow> ju_ids ju = {}"
proof -
  have "ran m = {} \<longleftrightarrow> m = Map.empty" for m :: "job_kind \<rightharpoonup> u32"
    by (auto simp: ran_def fun_eq_iff) (meson not_None_eq)
  then show ?thesis by (auto simp: ju_is_empty_def ju_ids_def)
qed

lemma tb_ids_owner: "tb_core e t \<Longrightarrow> j \<in> uv_ids (uv_of t u) \<Longrightarrow> job_owner e j = Some u"
  using ju_ids_owner tb_uvD by (cases "uv_of t u") fastforce+

text \<open>Shrinking one entry, the entry being dropped when nothing is left.\<close>

lemma tb_ids_shrink:
  assumes core: "tb_core e t" and t': "uv_of t' = (uv_of t)(u := x)"
    and x: "uv_ids x = uv_ids (uv_of t u) - D" and D: "D \<subseteq> uv_ids (uv_of t u)"
  shows "tb_ids t' = tb_ids t - D"
proof (intro set_eqI)
  fix j
  have other: "j \<notin> D" if "u' \<noteq> u" "j \<in> uv_ids (uv_of t u')" for u'
    using tb_ids_owner[OF core that(2)] tb_ids_owner[OF core, of j u] D that(1) by (metis option.inject subsetD)
  have "j \<in> tb_ids t' \<longleftrightarrow> j \<in> uv_ids (uv_of t u) \<and> j \<notin> D \<or> (\<exists>u'. u' \<noteq> u \<and> j \<in> uv_ids (uv_of t u'))"
    unfolding tb_ids_upd[OF t'] x by blast
  also have "\<dots> \<longleftrightarrow> (\<exists>u'. j \<in> uv_ids (uv_of t u')) \<and> j \<notin> D" using other by metis
  also have "\<dots> \<longleftrightarrow> j \<in> tb_ids t \<and> j \<notin> D" unfolding tb_ids_iff ..
  finally show "j \<in> tb_ids t' \<longleftrightarrow> j \<in> tb_ids t - D" by simp
qed

lemma uv_gc_ids [simp]: "uv_ids (uv_gc ju) = ju_ids ju"
  by (simp add: uv_gc_def ju_is_empty_iff)

lemma ran_remove:
  assumes "m k = Some j" and "\<forall>k'. m k' = Some j \<longrightarrow> k' = k"
  shows "ran (m(k := None)) = ran m - {j}"
proof (intro set_eqI iffI)
  fix i assume "i \<in> ran (m(k := None))"
  then obtain k' where "k' \<noteq> k" "m k' = Some i" by (auto simp: ran_def split: if_splits)
  then show "i \<in> ran m - {j}" using assms(2) by (metis DiffI ranI singletonD)
next
  fix i assume "i \<in> ran m - {j}"
  then obtain k' where "m k' = Some i" "i \<noteq> j" by (auto simp: ran_def)
  then have "(m(k := None)) k' = Some i" using assms(1) by auto
  then show "i \<in> ran (m(k := None))" by (rule ranI)
qed

lemma ju_do_trigger_ids:
  assumes inv: "ju_inv e ju" and nx: "ju_next ju \<noteq> None" and run: "ju_do_trigger act ju e = Some ((x, mj), ju', e')"
  shows "ju_ids ju' = ju_ids ju - set_option mj" and "set_option mj \<subseteq> ju_ids ju"
proof -
  have jobs: "ju_jobs e ju" using inv by (simp add: ju_inv_def)
  have "ju_ids ju' = ju_ids ju - set_option mj \<and> set_option mj \<subseteq> ju_ids ju"
  proof (cases "ju_next ju = Some True")
    case True
    from trigger_ran_suspend[OF inv True, of act] obtain k cur mj' cb ret ju1 e2 where
      r: "trigger_ran act ju e cur mj' cb ret ju1 e2" "ju_suspends ju k = Some cur"
        "ju_suspends ju1 = (ju_suspends ju)(k := None)" by blast
    from trigger_ran_result[OF r(1)] run have res: "mj' = mj" "ju_trigger ju' = Some cur"
        "ju_suspends ju' = (ju_suspends ju)(k := None)" using r(3) by auto
    from do_next_trigger_suspend_spec[OF inv True] r(1) have mj: "mj' = (if ju_interrupt ju then ju_trigger ju else None)"
      by (auto simp: trigger_ran_def)
    have "ju_interrupt ju \<or> ju_trigger ju = None" using True by (auto simp: ju_next_def split: if_splits)
    then have "mj = ju_trigger ju" using mj res(1) inv by (auto simp: ju_inv_def ju_shape_def)
    moreover have "ran ((ju_suspends ju)(k := None)) = ran (ju_suspends ju) - {cur}"
      using ju_jobs_inj[OF jobs _ r(2)] by (intro ran_remove[where m = "ju_suspends ju", OF r(2)]) blast
    moreover have "cur \<in> ran (ju_suspends ju)" using r(2) by (auto simp: ran_def)
    moreover have "ran (ju_suspends ju) \<inter> set_option (ju_trigger ju) = {}"
      using ju_jobs_trigger_not_suspended[OF jobs] by (auto simp: ran_def)
    ultimately show ?thesis using res by (auto simp: ju_ids_def)
  next
    case False
    then have "ju_next ju = Some False" using nx by auto
    from trigger_ran_retrigger[OF inv this, of act] obtain cur cb ret ju1 e2 where
      r: "trigger_ran act ju e cur None cb ret ju1 e2" "ju_trigger ju = Some cur" "ju_suspends ju1 = ju_suspends ju" by blast
    from trigger_ran_result[OF r(1)] run r show ?thesis by (auto simp: ju_ids_def)
  qed
  then show "ju_ids ju' = ju_ids ju - set_option mj" "set_option mj \<subseteq> ju_ids ju" by simp_all
qed

lemma ju_do_trigger_next:
  assumes inv: "ju_inv e ju" and nx: "ju_next ju \<noteq> None" and run: "ju_do_trigger act ju e = Some (x, ju', e')"
  shows "ju_trigger ju' = ju_next_job ju"
proof (cases "ju_next ju = Some True")
  case True
  from trigger_ran_suspend[OF inv True, of act] obtain k cur mj' cb ret ju1 e2 where
    r: "trigger_ran act ju e cur mj' cb ret ju1 e2" "ju_sq ju = cur # ju_sq ju1" by blast
  from trigger_ran_result[OF r(1)] run have "ju_trigger ju' = Some cur" by auto
  then show ?thesis by (simp only: ju_next_job_def True r(2)) simp
next
  case False
  then have f: "ju_next ju = Some False" using nx by auto
  from trigger_ran_retrigger[OF inv f, of act] obtain cur cb ret ju1 e2 where
    r: "trigger_ran act ju e cur None cb ret ju1 e2" "ju_trigger ju = Some cur" by blast
  from trigger_ran_result[OF r(1)] run r(2) show ?thesis by (auto simp: ju_next_job_def f)
qed

lemma order_allows_ids:
  "order_allows dd e t u j \<longleftrightarrow> order_free e j \<or>
     (\<forall>atom\<in>{UnitAtomAfter, UnitAtomBefore}. \<forall>other\<in>set (gets_atom dd u atom).
        \<forall>oj\<in>uv_ids (uv_of t other). \<not> job_before e atom oj j)"
  unfolding order_allows_def uv_ids_def by (simp split: option.split) blast

subsection \<open>Triggering or pausing the unit that was taken\<close>

lemma ready_pick_Some:
  assumes core: "tb_core e t" and clean: "tb_clean t" and pick: "ready_pick un (ready_view t) = Some (u, r)"
  shows "map_of (ut_data t) u = Some r" and "ju_ready (ut_heap t r)"
proof -
  have "(u, r) \<in> set (ready_view t)"
    using pick by (auto simp: ready_pick_def dest: map_of_SomeD split: option.splits if_splits) (metis last_in_set)
  then have up: "map_of (ut_data t) u = Some r" "ju_up_ready (ut_heap t r)"
    using core by (simp_all add: tb_core_def tb_ready_def)
  then show "map_of (ut_data t) u = Some r" "ju_ready (ut_heap t r)"
    using tb_unitsD(4)[OF core up(1)] clean by (auto simp: ju_settled_def tb_clean_def)
qed

text \<open>Replacing the entry that was popped.\<close>

lemma popped_replace:
  assumes inv: "tb_inv e t" and r: "map_of (ut_data t) u = Some r"
    and view: "ready_view (t\<lparr>ut_ready := rd, ut_readys := rs\<rparr>) = AList.delete u (ready_view t)"
    and alt: "rd = [] \<or> rs = []" and sync: "ut_sync t"
    and ju': "ju_inv e' ju'" "ju_unit ju' = u" "\<not> ju_up_ready ju'" "\<not> ju_ready ju'" "ju_order ju'"
      "\<not> ju_is_empty ju'"
    and frame: "env_frame u J e e'" "J \<subseteq> ju_ids (ut_heap t r)"
    and t': "t' = put_uv r (ju'\<lparr>ju_dirty := False\<rparr>) (t\<lparr>ut_ready := rd, ut_readys := rs\<rparr>)"
  shows "tb_inv e' t'" and "uv_of t' = (uv_of t)(u \<mapsto> ju'\<lparr>ju_dirty := False\<rparr>)"
proof -
  let ?t0 = "t\<lparr>ut_ready := rd, ut_readys := rs\<rparr>" and ?ju = "(ut_heap t r)\<lparr>ju_up_ready := False, ju_dirty := True\<rparr>"
  from inv sync have core: "tb_core e t" and clean: "tb_clean t" and db: "tb_db e t" by (simp_all add: tb_inv_def)
  have coreA: "tb_core e (put_uv r ?ju ?t0)" by (rule pop_core[OF core r view alt])
  have invA: "ju_inv e ?ju" using tb_unitsD(3)[OF core r] by simp
  have unitA: "ju_unit ?ju = u" using tb_unitsD(2)[OF core r] by simp
  have step: "ju_step e ?ju e' (ju'\<lparr>ju_dirty := True\<rparr>)"
    using ju_stepI[OF invA, of e' "ju'\<lparr>ju_dirty := True\<rparr>" J] ju' frame unitA by simp
  have rA: "map_of (ut_data (put_uv r ?ju ?t0)) u = Some r" using r by simp
  have coreB: "tb_core e' (put_uv r (ju'\<lparr>ju_dirty := True\<rparr>) ?t0)"
    using tb_update[OF coreA rA, of e' "ju'\<lparr>ju_dirty := True\<rparr>"] step by simp
  have "tb_core e' (uv_clear_dirty r (put_uv r (ju'\<lparr>ju_dirty := True\<rparr>) ?t0))"
    by (rule clear_dirty_core[OF coreB, of u]) (use r ju' in simp_all)
  then have core': "tb_core e' t'" by (simp add: t' uv_clear_dirty_def)
  show uv: "uv_of t' = (uv_of t)(u \<mapsto> ju'\<lparr>ju_dirty := False\<rparr>)"
    by (rule uv_of_put[OF core r]) (simp_all add: t')
  have "tb_db e' t'" by (rule tb_db_step[OF db step unitA uv]) simp
  moreover have "tb_clean t'" by (rule tb_clean_upd[OF clean uv]) auto
  ultimately show "tb_inv e' t'" using core' by (simp add: tb_inv_def)
qed

lemma do_try_trigger_None:
  assumes inv: "tb_inv e t" and sync: "ut_sync t" and pick: "ready_pick un (ready_view t) = None"
  shows "\<exists>t'. do_try_trigger act dd un t e = Some (None, t', e) \<and> tb_inv e t' \<and> ut_sync t' \<and>
    uv_of t' = uv_of t \<and> ready_view t' = ready_view t"
proof -
  have core: "tb_core e t" using inv by (simp add: tb_inv_def)
  from ready_pop_spec[OF core, of un] pick obtain rd rs where
    p: "rd = [] \<or> rs = []" "ready_pop un t = (None, t\<lparr>ut_ready := rd, ut_readys := rs\<rparr>)"
    "ready_view (t\<lparr>ut_ready := rd, ut_readys := rs\<rparr>) = ready_view t" by auto
  let ?t = "t\<lparr>ut_ready := rd, ut_readys := rs\<rparr>"
  have uv: "uv_of ?t = uv_of t" by (simp add: uv_of_def fun_eq_iff)
  have "tb_core e ?t" using core p by (simp add: tb_core_def tb_units_def tb_ready_def ready_wf_def)
  then have "tb_inv e ?t" using inv uv by (simp add: tb_inv_def tb_db_def tb_clean_def)
  then show ?thesis using p sync uv by (auto simp: do_try_trigger_def)
qed

definition ju_paused :: "job_unit \<Rightarrow> job_unit" where
  "ju_paused ju = ju\<lparr>ju_pause := True, ju_ready := False, ju_up_ready := False, ju_dirty := False\<rparr>"

lemma do_try_trigger_Some:
  assumes inv: "tb_inv e t" and sync: "ut_sync t" and pick: "ready_pick un (ready_view t) = Some (u, r)"
  shows "\<exists>ju j ret mj t' e'. uv_of t u = Some ju \<and> ju_ready ju \<and> ju_next_job ju = Some j \<and>
    do_try_trigger act dd un t e = Some (Some (ret, mj), t', e') \<and> tb_inv e' t' \<and> ut_sync t' \<and>
    tb_ids t' = tb_ids t - set_option mj \<and> set_option mj \<subseteq> tb_ids t \<and>
    (if order_allows dd e t u j
     then \<exists>ju' cb res. ret = Some (job_info_map cb, res) \<and> je_jobs e j = Some cb \<and>
       ju_do_trigger act (ju\<lparr>ju_up_ready := False\<rparr>) e = Some ((ret, mj), ju', e') \<and>
       uv_of t' = (uv_of t)(u \<mapsto> ju'\<lparr>ju_dirty := False\<rparr>) \<and> ju_trigger ju' = Some j
     else ret = None \<and> mj = None \<and> e' = e \<and> uv_of t' = (uv_of t)(u \<mapsto> ju_paused ju))"
proof -
  from inv sync have core: "tb_core e t" and clean: "tb_clean t" by (simp_all add: tb_inv_def)
  note rr = ready_pick_Some[OF core clean pick]
  let ?ju = "ut_heap t r" let ?jup = "?ju\<lparr>ju_up_ready := False\<rparr>"
  note un = tb_unitsD[OF core rr(1)]
  have nd: "\<not> ju_dirty ?ju" using clean rr(1) by (auto simp: tb_clean_def)
  then have order: "ju_order ?ju" using un(4) by (simp add: ju_settled_def)
  have uv: "uv_of t u = Some ?ju" by (rule uv_ofI[OF rr(1)])
  from ready_pop_spec[OF core, of un] pick obtain rd rs where
    p: "rd = [] \<or> rs = []" "ready_pop un t = (Some r, put_uv r ?jup (t\<lparr>ut_ready := rd, ut_readys := rs\<rparr>))"
    "ready_view (t\<lparr>ut_ready := rd, ut_readys := rs\<rparr>) = AList.delete u (ready_view t)" by auto
  let ?t0 = "t\<lparr>ut_ready := rd, ut_readys := rs\<rparr>"
  let ?t1 = "put_uv r ?jup ?t0"
  have uv1: "uv_of ?t1 = (uv_of t)(u \<mapsto> ?jup)" by (rule uv_of_put[OF core rr(1)]) simp_all
  from ju_next_job_ready[OF un(3) rr(2)] obtain j where j: "ju_next_job ?ju = Some j" "j \<in> ju_ids ?ju" by blast
  have jup: "ju_inv e ?jup" "ju_ready ?jup" "ju_next_job ?jup = Some j" "ju_next ?jup = ju_next ?ju"
    using un(3) rr(2) j(1) by simp_all
  have all: "\<forall>u ju. uv_of ?t1 u = Some ju \<longrightarrow> ju_inv e ju \<and> ju_order ju"
  proof (intro allI impI)
    fix u' ju' assume "uv_of ?t1 u' = Some ju'"
    then consider "ju' = ?jup" | "uv_of t u' = Some ju'" unfolding uv1 by (cases "u' = u") simp_all
    then show "ju_inv e ju' \<and> ju_order ju'"
    proof cases
      case 2
      have "\<not> ju_dirty ju'" using clean 2 by (simp add: tb_clean_iff)
      then show ?thesis using tb_uvD[OF core 2] by (simp add: ju_settled_def)
    qed (use jup order in simp)
  qed
  have allow: "order_allows dd e ?t1 u j = order_allows dd e t u j"
    unfolding order_allows_ids uv1 using uv by (metis fun_upd_apply ju_ids_flags(2) uv_ids_simps(2))
  have runnable: "is_uv_runnable dd e ?t1 (ut_heap ?t1 r) = Some (order_allows dd e t u j)"
    using is_uv_runnable_spec[OF jup(1-3) all, of dd] un(2) allow by simp
  have nx: "ju_next ?jup \<noteq> None" using jup(1,2) by (simp add: ju_inv_def ju_shape_def)
  show ?thesis
  proof (cases "order_allows dd e t u j")
    case True
    from ju_do_trigger_spec[OF jup(1) nx, of act] obtain cb res mj ju' e' j' where d:
      "ju_do_trigger act ?jup e = Some ((Some (job_info_map cb, res), mj), ju', e')" "ju_inv e' ju'" "\<not> ju_ready ju'"
      "ju_order ju'" "ju_trigger ju' = Some j'" "je_jobs e j' = Some cb" "ju_unit ju' = ju_unit ?jup"
      "ju_up_ready ju' = ju_up_ready ?jup"
      "env_frame (ju_unit ?jup) (ran (ju_suspends ?jup) \<union> set_option (ju_trigger ?jup)) e e'" by blast
    let ?t' = "put_uv r (ju'\<lparr>ju_dirty := False\<rparr>) ?t0"
    have ne: "\<not> ju_is_empty ju'" using d(5) by (simp add: ju_is_empty_def)
    have fr: "env_frame u (ju_ids ?ju) e e'" using d(9) un(2) by (simp add: ju_ids_def)
    have un': "ju_unit ju' = u" "\<not> ju_up_ready ju'" using d(7,8) un(2) by simp_all
    note res = popped_replace[OF inv rr(1) p(3,1) sync d(2) un' d(3,4) ne fr subset_refl refl]
    have jj: "j' = j" using d(1,5) jup(3) ju_do_trigger_next[OF jup(1) nx d(1)] by simp
    have ids: "ju_ids ju' = ju_ids ?ju - set_option mj" "set_option mj \<subseteq> ju_ids ?ju"
      using ju_do_trigger_ids[OF jup(1) nx d(1)] by simp_all
    have "tb_ids ?t' = tb_ids t - set_option mj"
      by (rule tb_ids_shrink[OF core res(2)]) (use ids uv in simp_all)
    moreover have "set_option mj \<subseteq> tb_ids t"
    proof
      fix x assume "x \<in> set_option mj"
      then have "x \<in> uv_ids (uv_of t u)" using ids(2) uv by auto
      then show "x \<in> tb_ids t" unfolding tb_ids_iff by blast
    qed
    moreover have "do_try_trigger act dd un t e = Some (Some (Some (job_info_map cb, res), mj), ?t', e')"
      using sync p(2) nd runnable True d(1,3,5)
      by (simp add: do_try_trigger_def try_trigger_entry_def uv_clear_dirty_def ju_is_empty_def)
    ultimately show ?thesis using True uv rr(2) j res sync d(1,5,6) jj by auto
  next
    case False
    from ju_do_pause_spec[OF jup(1)] order obtain ju' where pa: "ju_do_pause ?jup = Some ju'" "ju_inv e ju'"
      "ju' = ?jup\<lparr>ju_dirty := True, ju_pause := True, ju_ready := False\<rparr>" by auto
    let ?t' = "put_uv r (ju'\<lparr>ju_dirty := False\<rparr>) ?t0"
    have f: "ju_unit ju' = u" "\<not> ju_up_ready ju'" "\<not> ju_ready ju'" "ju_order ju'" "ju_ids ju' = ju_ids ?ju"
      using un(2) order by (simp_all add: pa(3) ju_ids_def)
    then have ne: "\<not> ju_is_empty ju'" using j(2) by (auto simp: ju_is_empty_iff)
    have fr: "env_frame u {} e e" by simp
    note res = popped_replace[OF inv rr(1) p(3,1) sync pa(2) f(1-4) ne fr empty_subsetI refl]
    have eq: "ju'\<lparr>ju_dirty := False\<rparr> = ju_paused ?ju" by (simp add: pa(3) ju_paused_def)
    have "tb_ids ?t' = tb_ids t - {}"
      by (rule tb_ids_shrink[OF core res(2)]) (use f(5) uv in simp_all)
    moreover have "do_try_trigger act dd un t e = Some (Some (None, None), ?t', e)"
      using sync p(2) nd runnable False pa(1) f(3) ne
      by (simp add: do_try_trigger_def try_trigger_entry_def uv_clear_dirty_def ju_is_empty_def)
    ultimately show ?thesis using False uv rr(2) j res sync eq by auto
  qed
qed

end
