(* ===== verification/Job_Table_Commit.thy ===== *)
theory Job_Table_Commit
  imports Job_Table_Trigger
begin

section \<open>Committing staged jobs to the job table\<close>

text \<open>
  \<open>commit\<close> runs \<open>isolate_suspends\<close>, \<open>merge_suspends\<close> and \<open>reshuffle\<close>, each a loop over
  entries, and then resumes the units whose order relations may have been released.
\<close>

subsection \<open>Stale interrupts\<close>

text \<open>The one state in which reordering or resuming a unit panics.\<close>

definition tb_fresh :: "unit_table \<Rightarrow> bool" where
  "tb_fresh t \<longleftrightarrow> (\<forall>u ju. uv_of t u = Some ju \<longrightarrow> \<not> ju_stale_interrupt ju)"

lemma ju_stale_flags [simp]:
  "ju_stale_interrupt (ju\<lparr>ju_dirty := b\<rparr>) = ju_stale_interrupt ju"
  "ju_stale_interrupt (ju\<lparr>ju_up_ready := b\<rparr>) = ju_stale_interrupt ju"
  "ju_stale_interrupt (ju\<lparr>ju_ready := b\<rparr>) = ju_stale_interrupt ju"
  "ju_stale_interrupt (ju\<lparr>ju_pause := b\<rparr>) = ju_stale_interrupt ju"
  "ju_stale_interrupt (ju_settle ju) = ju_stale_interrupt ju"
  by (simp_all add: ju_stale_interrupt_def)

lemma tb_fresh_upd:
  assumes "tb_fresh t" and "uv_of t' = (uv_of t)(u := x)" and "\<And>ju. x = Some ju \<Longrightarrow> \<not> ju_stale_interrupt ju"
  shows "tb_fresh t'"
  using assms by (auto simp: tb_fresh_def)

lemma reshuffle_result_fresh:
  assumes "ju_inv e ju" and "\<not> ju_stale_interrupt ju"
  shows "\<not> ju_stale_interrupt (reshuffle_result e ju)"
proof (cases "ju_order ju")
  case True
  then show ?thesis using assms(2) by (auto simp: ju_stale_interrupt_def reshuffle_result_def Let_def)
next
  case False
  have jobs: "ju_jobs e ju" using assms(1) by (simp add: ju_inv_def)
  have basic: "job_is_basic_op k" if "reshuffle_map e ju k \<noteq> None" for k
    using that False ju_jobs_basic[OF jobs, of k] merge_kinds_subset by (fastforce simp: reshuffle_map_def)
  have "sq_spec (reshuffle_map e ju) = [] \<longleftrightarrow> ju_suspends ju = Map.empty"
    using sq_spec_Nil[of "reshuffle_map e ju", OF basic] merge_kinds_empty False by (simp add: reshuffle_map_def)
  then show ?thesis using assms(2) False
    by (auto simp: ju_stale_interrupt_def reshuffle_result_def Let_def)
qed

text \<open>A unit that is not dirty has no conflict among its suspended jobs.\<close>

lemma settled_no_conflict:
  "ju_inv e ju \<Longrightarrow> ju_order ju \<Longrightarrow> \<not> ju_is_suspends_conflict ju"
  by (simp add: ju_inv_def ju_shape_def ju_is_suspends_conflict_iff)

lemma uv_ids_subset: "uv_ids (uv_of t u) \<subseteq> tb_ids t"
  using tb_ids_iff by blast

subsection \<open>reshuffle\<close>

definition reshuffled :: "'d job_env \<Rightarrow> job_unit \<Rightarrow> job_unit option" where
  "reshuffled e ju = uv_gc (if ju_dirty ju then ju_settle (reshuffle_result e ju) else ju)"

lemma reshuffled_clean: "reshuffled e ju = Some ju' \<Longrightarrow> \<not> ju_dirty ju'"
  by (cases "ju_dirty ju") (simp_all add: reshuffled_def uv_gc_Some)

lemma reshuffle_result_units: "je_units e' = je_units e \<Longrightarrow> reshuffle_result e' ju = reshuffle_result e ju"
  by (simp add: reshuffle_result_def reshuffle_map_def)

lemma reshuffle_dropped_units: "je_units e' = je_units e \<Longrightarrow> reshuffle_dropped e' ju = reshuffle_dropped e ju"
  by (simp add: reshuffle_dropped_def)

lemma reshuffle_ids:
  assumes "ju_inv e ju"
  shows "ju_ids (reshuffle_result e ju) = ju_ids ju - set (reshuffle_dropped e ju)"
proof -
  from assms have jobs: "ju_jobs e ju" by (simp add: ju_inv_def)
  have drop: "set (reshuffle_dropped e ju) = {j. \<exists>k. ju_suspends ju k = Some j \<and> reshuffle_map e ju k = None}"
    by (auto simp: reshuffle_dropped_def reshuffle_map_def set_merge_dropped)
  have sub: "ju_suspends ju k = Some j" if "reshuffle_map e ju k = Some j" for k j
    using that by (auto simp: reshuffle_map_def dest: merge_kinds_subset split: if_splits)
  have "ran (reshuffle_map e ju) = ran (ju_suspends ju) - set (reshuffle_dropped e ju)"
  proof (intro set_eqI iffI)
    fix j assume "j \<in> ran (reshuffle_map e ju)"
    then obtain k where k: "reshuffle_map e ju k = Some j" by (auto simp: ran_def)
    have "k' = k" if "ju_suspends ju k' = Some j" for k' by (rule ju_jobs_inj[OF jobs that sub[OF k]])
    then have "j \<notin> set (reshuffle_dropped e ju)" unfolding drop using k by fastforce
    then show "j \<in> ran (ju_suspends ju) - set (reshuffle_dropped e ju)" using sub[OF k] by (auto intro: ranI)
  next
    fix j assume "j \<in> ran (ju_suspends ju) - set (reshuffle_dropped e ju)"
    then obtain k where k: "ju_suspends ju k = Some j" "reshuffle_map e ju k \<noteq> None"
      unfolding drop by (auto simp: ran_def)
    then have "reshuffle_map e ju k = Some j" using sub by fastforce
    then show "j \<in> ran (reshuffle_map e ju)" by (rule ranI)
  qed
  moreover have "set_option (ju_trigger ju) \<inter> set (reshuffle_dropped e ju) = {}"
    using ju_jobs_trigger_not_suspended[OF jobs] by (auto simp: drop)
  ultimately show ?thesis by (auto simp: ju_ids_def)
qed

text \<open>One turn of the loop, on an entry that has not been visited yet.\<close>

lemma ut_reshuffle_one_spec:
  assumes core: "tb_core e t" and db: "tb_db e t" and r: "map_of (ut_data t) u = Some r" "ut_heap t r = ju"
    and can: "ju_dirty ju \<longrightarrow> can_reshuffle ju"
  shows "\<exists>mj t' e'. ut_reshuffle_one (u, r) (mj0, t, e) = Some (mj0 @ mj, t', e') \<and>
    tb_core e' t' \<and> tb_db e' t' \<and> ut_sync t' = ut_sync t \<and> uv_of t' = (uv_of t)(u := reshuffled e ju) \<and>
    (\<forall>u'. u' \<noteq> u \<longrightarrow> map_of (ut_data t') u' = map_of (ut_data t) u') \<and>
    tb_ids t' = tb_ids t - set mj \<and> set mj \<subseteq> uv_ids (uv_of t u) \<and>
    je_units e' = je_units e \<and> je_notes e' = je_notes e"
proof (cases "ju_dirty ju")
  case False
  from gc_entry[OF core r(1)] False r(2) obtain t' where g: "try_gc_empty_unit u r t = Some t'" "tb_core e t'"
    "ut_sync t' = ut_sync t" "uv_of t' = (uv_of t)(u := uv_gc ju)"
    "\<forall>u'. u' \<noteq> u \<longrightarrow> map_of (ut_data t') u' = map_of (ut_data t) u'" by auto
  have ju: "ju_inv e ju" "ju_unit ju = u" using tb_unitsD[OF core r(1)] r(2) by simp_all
  have "ju_step e ju e ju" using ju by (auto simp: ju_step_def intro!: exI[of _ "{}"])
  from tb_db_step[OF db this ju(2) g(4)] have "tb_db e t'" by (simp add: uv_gc_None)
  moreover have "tb_ids t' = tb_ids t - {}"
    by (rule tb_ids_shrink[OF core g(4)]) (use uv_ofI[OF r(1)] r(2) in simp_all)
  ultimately show ?thesis
    using g r False by (intro exI[of _ "[]"] exI[of _ t'] exI[of _ e])
      (simp add: ut_reshuffle_one_def reshuffle_entry_def reshuffled_def)
next
  case True
  have inv: "ju_inv e ju" "ju_unit ju = u" using tb_unitsD[OF core r(1)] r(2) by simp_all
  from ju_reshuffle_step[OF inv(1) mp[OF can True] True] obtain e' where e':
    "ju_reshuffle ju e = Some (reshuffle_dropped e ju, reshuffle_result e ju, e')"
    "je_units e' = je_units e" "je_notes e' = je_notes e" by blast
  from True can r(2) have "can_reshuffle (ut_heap t r) \<and> ju_dirty (ut_heap t r)" by simp
  from reshuffle_op.at_entry_gc[OF core r(1) this] r(2) e'(1) obtain t' where f:
    "ju_step e ju e' (reshuffle_result e ju)"
    "try_gc_empty_unit u r (uv_clear_dirty r (ready_sync u r (put_uv r (reshuffle_result e ju) t))) = Some t'"
    "tb_core e' t'" "ut_sync t' = ut_sync t" "uv_of t' = (uv_of t)(u := uv_gc (ju_settle (reshuffle_result e ju)))"
    "\<forall>u'. u' \<noteq> u \<longrightarrow> map_of (ut_data t') u' = map_of (ut_data t) u'" by auto
  have uv: "uv_of t u = Some ju" using uv_ofI[OF r(1)] r(2) by simp
  have mj: "set (reshuffle_dropped e ju) \<subseteq> ju_ids ju" using set_reshuffle_dropped by (auto simp: ju_ids_def)
  have "tb_ids t' = tb_ids t - set (reshuffle_dropped e ju)"
    by (rule tb_ids_shrink[OF core f(5)]) (use uv mj reshuffle_ids[OF inv(1)] in simp_all)
  moreover have "tb_db e' t'" by (rule tb_db_step[OF db f(1) inv(2) f(5)]) (simp add: uv_gc_None)
  ultimately show ?thesis
    using f e' r True uv mj
    by (intro exI[of _ "reshuffle_dropped e ju"] exI[of _ t'] exI[of _ e'])
       (simp add: ut_reshuffle_one_def reshuffle_entry_def reshuffled_def)
qed

lemma ut_reshuffle_spec:
  fixes e :: "'a job_env"
  assumes core: "tb_core e t" and db: "tb_db e t"
    and can: "\<forall>u ju. uv_of t u = Some ju \<longrightarrow> ju_dirty ju \<longrightarrow> can_reshuffle ju"
  shows "\<exists>mj t' e'. ut_reshuffle t e = Some (mj, t', e') \<and> tb_inv e' t' \<and> ut_sync t' \<and>
    (\<forall>u. uv_of t' u = Option.bind (uv_of t u) (reshuffled e)) \<and>
    tb_ids t' = tb_ids t - set mj \<and> set mj \<subseteq> tb_ids t \<and> je_units e' = je_units e \<and> je_notes e' = je_notes e"
proof -
  have dist: "distinct (map fst (ut_data t))" using core by (simp add: tb_core_def tb_units_def)
  define I where "I = (\<lambda>(ys :: (uid \<times> nat) list) (mj, t', e' :: 'a job_env). tb_core e' t' \<and> tb_db e' t' \<and>
    (\<forall>u. uv_of t' u = (if u \<in> fst ` set ys then Option.bind (uv_of t u) (reshuffled e) else uv_of t u)) \<and>
    (\<forall>u. u \<notin> fst ` set ys \<longrightarrow> map_of (ut_data t') u = map_of (ut_data t) u) \<and>
    tb_ids t' = tb_ids t - set mj \<and> set mj \<subseteq> tb_ids t \<and> je_units e' = je_units e \<and> je_notes e' = je_notes e)"
  have "\<exists>s'. for_each ut_reshuffle_one (ut_data t) ([], t, e) = Some s' \<and> I (ut_data t) s'"
  proof (rule for_each_total_prefix)
    show "I [] ([], t, e)" using core db by (simp add: I_def)
    fix ys ent zs s
    assume split: "ut_data t = ys @ ent # zs" and IH: "I ys s"
    obtain u r where ent: "ent = (u, r)" by (cases ent)
    obtain mj t' e' where s: "s = (mj, t', e')" by (cases s)
    have new: "u \<notin> fst ` set ys" using dist split ent by auto
    have d: "map_of (ut_data t) u = Some r" using dist split ent by (intro map_of_is_SomeI) auto
    have h: "tb_core e' t'" "tb_db e' t'"
      "\<And>u. uv_of t' u = (if u \<in> fst ` set ys then Option.bind (uv_of t u) (reshuffled e) else uv_of t u)"
      "\<And>u. u \<notin> fst ` set ys \<Longrightarrow> map_of (ut_data t') u = map_of (ut_data t) u"
      "tb_ids t' = tb_ids t - set mj" "set mj \<subseteq> tb_ids t" "je_units e' = je_units e" "je_notes e' = je_notes e"
      using IH unfolding I_def s prod.case by blast+
    have d': "map_of (ut_data t') u = Some r" using h(4)[OF new] d by simp
    have uv: "uv_of t' u = uv_of t u" using h(3)[of u] new by simp
    then have heap: "ut_heap t' r = ut_heap t r" using uv_ofI[OF d] uv_ofI[OF d'] by simp
    have cn: "ju_dirty (ut_heap t r) \<longrightarrow> can_reshuffle (ut_heap t r)" using can uv_ofI[OF d] by blast
    from ut_reshuffle_one_spec[OF h(1,2) d' heap cn, of mj]
    obtain mj1 t1 e1 where n: "ut_reshuffle_one (u, r) (mj, t', e') = Some (mj @ mj1, t1, e1)"
      "tb_core e1 t1" "tb_db e1 t1" "uv_of t1 = (uv_of t')(u := reshuffled e' (ut_heap t r))"
      "\<forall>u'. u' \<noteq> u \<longrightarrow> map_of (ut_data t1) u' = map_of (ut_data t') u'"
      "tb_ids t1 = tb_ids t' - set mj1" "set mj1 \<subseteq> uv_ids (uv_of t' u)"
      "je_units e1 = je_units e'" "je_notes e1 = je_notes e'"
      by (elim exE conjE) (rule that; assumption)
    have same: "reshuffled e' (ut_heap t r) = reshuffled e (ut_heap t r)"
      unfolding reshuffled_def reshuffle_result_units[OF h(7)] ..
    have "set mj1 \<subseteq> tb_ids t" using n(7) uv_ids_subset[of t u] unfolding uv by (rule subset_trans)
    moreover have "uv_of t1 u' = (if u' \<in> fst ` set (ys @ [ent]) then Option.bind (uv_of t u') (reshuffled e) else uv_of t u')" for u'
      unfolding n(4) same ent using h(3)[of u'] uv_ofI[OF d] by simp
    moreover have "map_of (ut_data t1) u' = map_of (ut_data t) u'" if "u' \<notin> fst ` set (ys @ [ent])" for u'
      using that n(5) h(4)[of u'] by (simp add: ent)
    moreover have "tb_ids t1 = tb_ids t - set (mj @ mj1)" unfolding n(6) h(5) by auto
    ultimately have "I (ys @ [ent]) (mj @ mj1, t1, e1)"
      using h(6-8) n(2,3,8,9) unfolding I_def prod.case by simp
    then show "\<exists>s'. ut_reshuffle_one ent s = Some s' \<and> I (ys @ [ent]) s'" using n(1) ent s by blast
  qed
  then obtain mj t' e' where f: "for_each ut_reshuffle_one (ut_data t) ([], t, e) = Some (mj, t', e')"
    and i: "I (ut_data t) (mj, t', e')" by (metis prod_cases3)
  note h = i[unfolded I_def prod.case]
  let ?t = "t'\<lparr>ut_sync := True\<rparr>"
  have uv: "uv_of t' u = Option.bind (uv_of t u) (reshuffled e)" for u
  proof (cases "u \<in> fst ` set (ut_data t)")
    case False
    then have "uv_of t u = None" by (simp add: uv_of_def map_of_eq_None_iff)
    then show ?thesis using h False by simp
  qed (use h in simp)
  have eq: "uv_of ?t = uv_of t'" "ready_view ?t = ready_view t'" "tb_ids ?t = tb_ids t'"
    by (simp_all add: uv_of_def ready_view_def fun_eq_iff tb_ids_def)
  have "tb_clean ?t"
    unfolding tb_clean_iff eq(1) uv using reshuffled_clean by (auto simp: bind_eq_Some_conv)
  moreover have "tb_core e' ?t" "tb_db e' ?t"
    using h eq by (simp_all add: tb_core_def tb_units_def tb_ready_def ready_wf_def tb_db_def)
  ultimately show ?thesis using f h uv eq by (auto simp: ut_reshuffle_def tb_inv_def)
qed

subsection \<open>merge_suspends\<close>

definition uv_or_new :: "unit_table \<Rightarrow> uid \<Rightarrow> job_unit" where
  "uv_or_new t u = (case uv_of t u of Some ju \<Rightarrow> ju | None \<Rightarrow> job_unit_new u)"

lemma get_mut_uv_pad_spec:
  assumes core: "tb_core e t" and db: "tb_db e t"
  shows "\<exists>r t'. get_mut_uv_pad u t = Some (r, t') \<and> tb_core e t' \<and> tb_db e t' \<and> map_of (ut_data t') u = Some r \<and>
    uv_of t' = (uv_of t)(u \<mapsto> uv_or_new t u) \<and> ut_sync t' = ut_sync t \<and> tb_ids t' = tb_ids t"
proof (cases "map_of (ut_data t) u")
  case (Some r)
  then have "uv_of t = (uv_of t)(u \<mapsto> uv_or_new t u)"
    by (simp add: uv_or_new_def uv_of_def fun_eq_iff)
  then show ?thesis using core db Some by (auto simp: get_mut_uv_pad_def)
next
  case None
  let ?r = "ut_next t"
  let ?t = "put_uv ?r (job_unit_new u) (t\<lparr>ut_data := AList.update u ?r (ut_data t), ut_next := Suc ?r\<rparr>)"
  have run: "get_mut_uv_pad u t = Some (?r, ?t)" using None by (simp add: get_mut_uv_pad_def)
  have fresh: "r' \<noteq> ?r" if "map_of (ut_data t) u' = Some r'" for u' r' using tb_unitsD(1)[OF core that] by simp
  have uv0: "uv_of t u = None" using None by (simp add: uv_of_def)
  then have new: "ju_inv e (job_unit_new u)" using db by (simp add: tb_db_def)
  have uv: "uv_of ?t = (uv_of t)(u \<mapsto> job_unit_new u)"
  proof
    fix u'
    show "uv_of ?t u' = ((uv_of t)(u \<mapsto> job_unit_new u)) u'"
      using fresh[of u'] by (cases "map_of (ut_data t) u'") (simp_all add: uv_of_def)
  qed
  have ready: "map_of (ut_data t) (ju_unit (ut_heap t r)) = Some r" if "r \<in> set (ut_readys t)" for r
    using core that by (auto simp: tb_core_def tb_ready_def ready_view_def)
  have "map (\<lambda>r. (ju_unit (ut_heap ?t r), r)) (ut_readys t) = map (\<lambda>r. (ju_unit (ut_heap t r), r)) (ut_readys t)"
    using fresh ready by (intro map_cong) auto
  then have view: "ready_view ?t = ready_view t" by (simp add: ready_view_def)
  have "tb_units e ?t"
    using core new fresh by (auto simp: tb_core_def tb_units_def job_unit_new_def ju_settled_def less_Suc_eq)
  moreover have "tb_ready ?t"
    using core fresh None view by (auto simp: tb_core_def tb_ready_def ready_wf_def job_unit_new_def)
  moreover have "tb_db e ?t" using db by (auto simp: tb_db_def uv)
  moreover have "tb_ids ?t = tb_ids t - {}"
    by (rule tb_ids_shrink[OF core uv]) (simp_all add: uv0 ju_ids_def job_unit_new_def)
  moreover have "uv_or_new t u = job_unit_new u" by (simp add: uv_or_new_def uv0)
  ultimately show ?thesis using run uv by (auto simp: tb_core_def)
qed

definition merged_ju :: "job_unit \<Rightarrow> job_unit \<Rightarrow> job_unit \<Rightarrow> bool" where
  "merged_ju oju ju ju' \<longleftrightarrow> ju_same_trigger ju ju' \<and>
     ju_suspends ju' = ju_suspends oju ++
       (if ju_is_suspends_conflict_with ju oju then Map.empty else ju_suspends ju)"

lemma ju_flush_ran:
  assumes "ju_flush_suspends ju e = Some (dels, ju', e')"
  shows "set dels = ran (ju_suspends ju)" "ju_suspends ju' = Map.empty"
  using assms by (auto simp: ju_flush_suspends_def Let_def bind_eq_Some_conv ju_update_ready_eq split: if_splits)

lemma ran_upd_new: "m k = None \<Longrightarrow> ran (m(k \<mapsto> v)) = insert v (ran m)"
  by (simp add: ran_map_upd)

lemma ju_insert_ran:
  assumes "ju_insert_suspend j b ju e = Some (old, ju', e')"
  shows "ran (ju_suspends ju') = insert j (ran (ju_suspends ju))"
  using assms ran_upd_new[of "ju_suspends ju"]
  by (auto simp: ju_insert_suspend_def bind_eq_Some_conv Let_def ju_update_ready_eq split: if_splits)

lemma ju_merge_ran:
  assumes "ju_merge_suspends oju ju e = Some ((adds, dels, upds), ju', e')"
  shows "ran (ju_suspends ju') = ran (ju_suspends ju) - set dels \<union> set adds"
    and "set adds \<subseteq> ran (ju_suspends oju)"
    and "set dels \<subseteq> ran (ju_suspends ju)"
proof -
  let ?c = "ju_is_suspends_conflict_with ju oju"
  from assms obtain ju1 e1 where s:
    "(if ?c then ju_flush_suspends ju e else Some ([], ju, e)) = Some (dels, ju1, e1)"
    "for_each ju_merge_one (suspends_values (ju_suspends oju)) (ju1, e1, [], []) = Some (ju', e', adds, upds)"
    by (auto simp: ju_merge_suspends_def bind_eq_Some_conv)
  have r1: "ran (ju_suspends ju1) = ran (ju_suspends ju) - set dels" "set dels \<subseteq> ran (ju_suspends ju)"
    using s(1) ju_flush_ran by (cases ?c; fastforce)+
  define I where "I = (\<lambda>(jua :: job_unit, _ :: 'a job_env, a, _ :: u32 list).
    ran (ju_suspends jua) = ran (ju_suspends ju1) \<union> set a \<and> set a \<subseteq> ran (ju_suspends oju))"
  have "I (ju', e', adds, upds)"
  proof (rule for_each_inv[OF s(2)])
    show "I (ju1, e1, [], [])" by (simp add: I_def)
    fix x st st'
    assume x: "x \<in> set (suspends_values (ju_suspends oju))" and "I st" and "ju_merge_one x st = Some st'"
    then show "I st'"
      by (auto simp: I_def ju_merge_one_def bind_eq_Some_conv dest!: ju_insert_ran split: option.splits prod.splits)
  qed
  then show "ran (ju_suspends ju') = ran (ju_suspends ju) - set dels \<union> set adds" "set adds \<subseteq> ran (ju_suspends oju)"
    by (simp_all add: I_def r1)
  show "set dels \<subseteq> ran (ju_suspends ju)" by (rule r1(2))
qed

text \<open>The jobs of a staging table are new, one table entry per unit that has some.\<close>

definition stage_ok :: "'d job_env \<Rightarrow> unit_table \<Rightarrow> bool" where
  "stage_ok e st \<longleftrightarrow> distinct (map fst (ut_data st)) \<and>
     (\<forall>u ju. uv_of st u = Some ju \<longrightarrow> ju_trigger ju = None \<and> ju_suspends ju \<noteq> Map.empty \<and>
        (\<forall>k j. ju_suspends ju k = Some j \<longrightarrow> job_at e j Init k u))"

lemma ut_merge_one_spec:
  assumes core: "tb_core e t" and db: "tb_db e t"
    and staged: "\<forall>k oj. ju_suspends (ut_heap st o_r) k = Some oj \<longrightarrow> job_at e oj Init k u"
  shows "\<exists>adds dels upds t' e' ju'. ut_merge_one st (u, o_r) ((a, d, p), t, e) =
      Some ((a @ adds, d @ dels, p @ upds), t', e') \<and>
    tb_core e' t' \<and> tb_db e' t' \<and> uv_of t' = (uv_of t)(u \<mapsto> ju') \<and>
    merged_ju (ut_heap st o_r) (uv_or_new t u) ju' \<and>
    tb_ids t' = tb_ids t - set dels \<union> set adds \<and> set dels \<subseteq> uv_ids (uv_of t u) \<and> set adds \<subseteq> ju_ids ju' \<and>
    set adds \<subseteq> ran (ju_suspends (ut_heap st o_r)) \<and>
    (\<forall>j u' k. u' \<noteq> u \<longrightarrow> job_at e j Init k u' \<longrightarrow> job_at e' j Init k u') \<and>
    je_units e' = je_units e \<and> je_notes e' = je_notes e"
proof -
  let ?oju = "ut_heap st o_r" and ?ju = "uv_or_new t u"
  from get_mut_uv_pad_spec[OF core db, of u] obtain r t1 where p1: "get_mut_uv_pad u t = Some (r, t1)"
    "tb_core e t1" "tb_db e t1" "map_of (ut_data t1) u = Some r" "uv_of t1 = (uv_of t)(u \<mapsto> ?ju)"
    "tb_ids t1 = tb_ids t" by (elim exE conjE) (rule that; assumption)
  have ju: "ut_heap t1 r = ?ju" using uv_ofI[OF p1(4)] p1(5) by simp
  note un = tb_unitsD[OF p1(2,4), unfolded ju]
  have "\<forall>k oj. ju_suspends ?oju k = Some oj \<longrightarrow> job_at e oj Init k (ju_unit ?ju)" using staged un(2) by simp
  from ju_merge_suspends_spec[OF un(3) this] obtain adds dels upds ju' e' where m:
    "ju_merge_suspends ?oju ?ju e = Some ((adds, dels, upds), ju', e')" "ju_inv e' ju'" "ju_same_trigger ?ju ju'"
    "ju_suspends ju' = ju_suspends ?oju ++ (if ju_is_suspends_conflict_with ?ju ?oju then Map.empty else ju_suspends ?ju)"
    "env_frame (ju_unit ?ju) (ran (ju_suspends ?ju) \<union> ran (ju_suspends ?oju)) e e'"
    "je_units e' = je_units e" "je_notes e' = je_notes e" by (elim exE conjE) (rule that; assumption)
  let ?J = "ran (ju_suspends ?ju) \<union> ran (ju_suspends ?oju)" and ?t = "put_uv r ju' t1"
  have own: "job_owner e j = Some u" if "j \<in> ?J" for j
  proof -
    from that consider "j \<in> ju_ids ?ju" | k where "job_at e j Init k u"
      using staged by (auto simp: ju_ids_def ran_def)
    then show ?thesis
      by cases (use ju_ids_owner[OF un(3)] un(2) in \<open>auto simp: job_owner_def elim: job_atE\<close>)
  qed
  have step: "ju_step e ?ju e' ju'"
    unfolding ju_step_def using m(2,3,5) own un(2) by (auto simp: ju_same_trigger_def)
  have core': "tb_core e' ?t" using tb_update[OF p1(2,4), of e' ju'] step ju by simp
  have uv: "uv_of ?t = (uv_of t1)(u \<mapsto> ju')" by (rule uv_of_put[OF p1(2,4)]) simp_all
  have db': "tb_db e' ?t" by (rule tb_db_step[OF p1(3) step un(2) uv]) simp
  note ran = ju_merge_ran[OF m(1)]
  have trig: "set_option (ju_trigger ?ju) \<inter> set dels = {}" "ju_trigger ju' = ju_trigger ?ju"
    using ran(3) ju_jobs_trigger_not_suspended[of e ?ju] un(3) m(3)
    by (auto simp: ju_inv_def ran_def ju_same_trigger_def)
  have ids: "ju_ids ju' = ju_ids ?ju - set dels \<union> set adds"
    using ran(1) trig by (auto simp: ju_ids_def)
  have dels1: "set dels \<subseteq> ju_ids ?ju" using ran(3) by (auto simp: ju_ids_def)
  have dels: "set dels \<subseteq> uv_ids (uv_of t u)"
    using dels1 by (cases "uv_of t u") (auto simp: uv_or_new_def ju_ids_def job_unit_new_def)
  have other: "j \<notin> set dels" if "u' \<noteq> u" "j \<in> uv_ids (uv_of t1 u')" for j u'
  proof
    assume "j \<in> set dels"
    then have "job_owner e j = Some u" using dels1 ju_ids_owner[OF un(3)] un(2) by auto
    then show False using tb_ids_owner[OF p1(2) that(2)] that(1) by simp
  qed
  have "tb_ids ?t = tb_ids t1 - set dels \<union> set adds"
  proof (intro set_eqI)
    fix j
    have "j \<in> tb_ids t1 \<longleftrightarrow> j \<in> ju_ids ?ju \<or> (\<exists>u'. u' \<noteq> u \<and> j \<in> uv_ids (uv_of t1 u'))"
      using tb_ids_upd[of t1 t1 u "Some ?ju" j] p1(5) by simp
    then show "j \<in> tb_ids ?t \<longleftrightarrow> j \<in> tb_ids t1 - set dels \<union> set adds"
      unfolding tb_ids_upd[OF uv] using ids other by auto
  qed
  moreover have "ut_merge_one st (u, o_r) ((a, d, p), t, e) = Some ((a @ adds, d @ dels, p @ upds), ?t, e')"
    using p1(1) m(1) ju by (simp add: ut_merge_one_def)
  moreover have "job_at e' j Init k u'" if "u' \<noteq> u" "job_at e j Init k u'" for j k u'
  proof -
    have "j \<notin> ?J" using own[of j] that by (auto simp: job_owner_def elim: job_atE)
    then show ?thesis using that(2) m(5) by (simp add: env_frame_def job_at_def)
  qed
  moreover have "uv_of ?t = (uv_of t)(u \<mapsto> ju')" using uv p1(5) by simp
  moreover have "merged_ju ?oju ?ju ju'" using m(3,4) by (simp add: merged_ju_def)
  moreover have "set adds \<subseteq> ju_ids ju'" using ids by auto
  ultimately show ?thesis using core' db' dels ran(2) m(6,7) p1(6)
    by (intro exI[of _ adds] exI[of _ dels] exI[of _ upds] exI[of _ ?t] exI[of _ e'] exI[of _ ju']) simp
qed

lemma ut_merge_suspends_spec:
  fixes e :: "'a job_env"
  assumes core: "tb_core e t" and db: "tb_db e t" and stage: "stage_ok e st"
  shows "\<exists>adds dels upds t' e'. ut_merge_suspends st t e = Some ((adds, dels, upds), t', e') \<and>
    tb_core e' t' \<and> tb_db e' t' \<and> \<not> ut_sync t' \<and>
    (\<forall>u. uv_of st u = None \<longrightarrow> uv_of t' u = uv_of t u) \<and>
    (\<forall>u oju. uv_of st u = Some oju \<longrightarrow> (\<exists>ju'. uv_of t' u = Some ju' \<and> merged_ju oju (uv_or_new t u) ju')) \<and>
    tb_ids t' = tb_ids t - set dels \<union> set adds \<and> set dels \<subseteq> tb_ids t \<and> set adds \<subseteq> tb_ids st \<and>
    je_units e' = je_units e \<and> je_notes e' = je_notes e"
proof -
  from stage have dist: "distinct (map fst (ut_data st))" by (simp add: stage_ok_def)
  have init: "job_at e j Init k u" if "uv_of st u = Some oju" "ju_suspends oju k = Some j" for u oju k j
    using stage that by (auto simp: stage_ok_def)
  define I where "I = (\<lambda>(ys :: (uid \<times> nat) list) ((a, d, p :: u32 list), t', e' :: 'a job_env).
    tb_core e' t' \<and> tb_db e' t' \<and>
    (\<forall>u. u \<notin> fst ` set ys \<longrightarrow> uv_of t' u = uv_of t u) \<and>
    (\<forall>u oju. u \<in> fst ` set ys \<longrightarrow> uv_of st u = Some oju \<longrightarrow>
       (\<exists>ju'. uv_of t' u = Some ju' \<and> merged_ju oju (uv_or_new t u) ju')) \<and>
    (\<forall>u oju k j. u \<notin> fst ` set ys \<longrightarrow> uv_of st u = Some oju \<longrightarrow> ju_suspends oju k = Some j \<longrightarrow> job_at e' j Init k u) \<and>
    tb_ids t' = tb_ids t - set d \<union> set a \<and> set d \<subseteq> tb_ids t \<and> set a \<subseteq> tb_ids st \<and>
    (\<forall>j\<in>set a. \<exists>u\<in>fst ` set ys. j \<in> uv_ids (uv_of t' u)) \<and>
    je_units e' = je_units e \<and> je_notes e' = je_notes e)"
  have "\<exists>s'. for_each (ut_merge_one st) (ut_data st) (([], [], []), t, e) = Some s' \<and> I (ut_data st) s'"
  proof (rule for_each_total_prefix)
    show "I [] (([], [], []), t, e)" using core db init by (simp add: I_def)
    fix ys ent zs s
    assume split: "ut_data st = ys @ ent # zs" and IH: "I ys s"
    obtain u r where ent: "ent = (u, r)" by (cases ent)
    obtain a d p t' e' where s: "s = ((a, d, p), t', e')" by (metis prod_cases3)
    have new: "u \<notin> fst ` set ys" using dist split ent by auto
    have "map_of (ut_data st) u = Some r" using dist split ent by (intro map_of_is_SomeI) auto
    then have oju: "uv_of st u = Some (ut_heap st r)" by (rule uv_ofI)
    have h: "tb_core e' t'" "tb_db e' t'" "\<And>u. u \<notin> fst ` set ys \<Longrightarrow> uv_of t' u = uv_of t u"
      "\<And>u oju. u \<in> fst ` set ys \<Longrightarrow> uv_of st u = Some oju \<Longrightarrow>
         \<exists>ju'. uv_of t' u = Some ju' \<and> merged_ju oju (uv_or_new t u) ju'"
      "\<forall>u oju k j. u \<notin> fst ` set ys \<longrightarrow> uv_of st u = Some oju \<longrightarrow> ju_suspends oju k = Some j \<longrightarrow> job_at e' j Init k u"
      "tb_ids t' = tb_ids t - set d \<union> set a" "set d \<subseteq> tb_ids t" "set a \<subseteq> tb_ids st"
      "\<forall>j\<in>set a. \<exists>u\<in>fst ` set ys. j \<in> uv_ids (uv_of t' u)" "je_units e' = je_units e" "je_notes e' = je_notes e"
      using IH unfolding I_def s prod.case by blast+
    have staged: "\<forall>k oj. ju_suspends (ut_heap st r) k = Some oj \<longrightarrow> job_at e' oj Init k u" using h(5) new oju by blast
    from ut_merge_one_spec[OF h(1,2) staged, of a d p] obtain adds dels upds t1 e1 ju' where n:
      "ut_merge_one st (u, r) ((a, d, p), t', e') = Some ((a @ adds, d @ dels, p @ upds), t1, e1)"
      "tb_core e1 t1" "tb_db e1 t1" "uv_of t1 = (uv_of t')(u \<mapsto> ju')"
      "merged_ju (ut_heap st r) (uv_or_new t' u) ju'" "tb_ids t1 = tb_ids t' - set dels \<union> set adds"
      "set dels \<subseteq> uv_ids (uv_of t' u)" "set adds \<subseteq> ju_ids ju'" "set adds \<subseteq> ran (ju_suspends (ut_heap st r))"
      "\<forall>j u' k. u' \<noteq> u \<longrightarrow> job_at e' j Init k u' \<longrightarrow> job_at e1 j Init k u'"
      "je_units e1 = je_units e'" "je_notes e1 = je_notes e'"
      by (elim exE conjE) (rule that; assumption)
    have uvu: "uv_of t' u = uv_of t u" by (rule h(3)[OF new])
    have "uv_or_new t' u = uv_or_new t u" by (simp add: uv_or_new_def uvu)
    note mj = n(5)[unfolded this]
    have disj: "set a \<inter> set dels = {}"
    proof (intro equals0I)
      fix j assume j: "j \<in> set a \<inter> set dels"
      then obtain u' where "u' \<in> fst ` set ys" "j \<in> uv_ids (uv_of t' u')" using h(9) by blast
      moreover have "j \<in> uv_ids (uv_of t' u)" using j n(7) by blast
      ultimately show False using tb_ids_owner[OF h(1)] new by (metis option.inject)
    qed
    have c1: "uv_of t1 u' = uv_of t u'" if "u' \<notin> fst ` set (ys @ [ent])" for u'
      using that h(3)[of u'] by (simp add: n(4) ent)
    have c2: "\<exists>ju'. uv_of t1 u' = Some ju' \<and> merged_ju oju (uv_or_new t u') ju'"
      if "u' \<in> fst ` set (ys @ [ent])" "uv_of st u' = Some oju" for u' oju
    proof (cases "u' = u")
      case True
      then show ?thesis using that(2) oju mj by (simp add: n(4))
    next
      case False
      then have "u' \<in> fst ` set ys" using that(1) ent by auto
      from h(4)[OF this that(2)] False show ?thesis by (simp add: n(4))
    qed
    have c3: "job_at e1 j Init k u'" if "u' \<notin> fst ` set (ys @ [ent])" "uv_of st u' = Some oju" "ju_suspends oju k = Some j" for u' oju k j
      using that h(5) n(10) by (auto simp: ent)
    have c4: "tb_ids t1 = tb_ids t - set (d @ dels) \<union> set (a @ adds)"
      unfolding n(6) h(6) using disj by auto
    have "set dels \<subseteq> tb_ids t" using n(7) uv_ids_subset[of t u] unfolding uvu by (rule subset_trans)
    then have c5: "set (d @ dels) \<subseteq> tb_ids t" using h(7) by simp
    have "set adds \<subseteq> uv_ids (uv_of st u)" using n(9) oju by (auto simp: ju_ids_def)
    then have "set adds \<subseteq> tb_ids st" using uv_ids_subset[of st u] by (rule subset_trans)
    then have c6: "set (a @ adds) \<subseteq> tb_ids st" using h(8) by simp
    have c7: "\<exists>u'\<in>fst ` set (ys @ [ent]). j \<in> uv_ids (uv_of t1 u')" if j: "j \<in> set (a @ adds)" for j
    proof (cases "j \<in> set adds")
      case True
      then show ?thesis using n(8) by (auto simp: n(4) ent)
    next
      case False
      then obtain u' where u': "u' \<in> fst ` set ys" "j \<in> uv_ids (uv_of t' u')"
        using j h(9) by (metis Un_iff set_append)
      then have "u' \<noteq> u" using new by blast
      then show ?thesis using u' by (intro bexI[of _ u']) (simp_all add: n(4))
    qed
    have "I (ys @ [ent]) ((a @ adds, d @ dels, p @ upds), t1, e1)"
      unfolding I_def prod.case
      by (intro conjI allI impI ballI)
         (assumption | rule n(2) n(3) c1 c2 c3 c4 c5 c6 c7 | simp only: n(11,12) h(10,11))+
    then show "\<exists>s'. ut_merge_one st ent s = Some s' \<and> I (ys @ [ent]) s'" using n(1) ent s by blast
  qed
  then obtain a d p t' e' where f: "for_each (ut_merge_one st) (ut_data st) (([], [], []), t, e) = Some ((a, d, p), t', e')"
    and i: "I (ut_data st) ((a, d, p), t', e')" by (metis prod_cases3)
  have keys: "u \<in> fst ` set (ut_data st) \<longleftrightarrow> uv_of st u \<noteq> None" for u
    by (simp add: uv_of_def map_of_eq_None_iff)
  let ?t = "t'\<lparr>ut_sync := False\<rparr>"
  have eq: "uv_of ?t = uv_of t'" "ready_view ?t = ready_view t'" "tb_ids ?t = tb_ids t'"
    by (simp_all add: uv_of_def ready_view_def fun_eq_iff tb_ids_def)
  have "tb_core e' ?t \<longleftrightarrow> tb_core e' t'" "tb_db e' ?t \<longleftrightarrow> tb_db e' t'"
    using eq by (simp_all add: tb_core_def tb_units_def tb_ready_def ready_wf_def tb_db_def)
  moreover have "ut_merge_suspends st t e = Some ((a, d, p), ?t, e')" using f by (simp add: ut_merge_suspends_def)
  ultimately show ?thesis
    using i unfolding I_def prod.case keys eq[symmetric]
    by (intro exI[of _ a] exI[of _ d] exI[of _ p] exI[of _ ?t] exI[of _ e']) simp
qed

end
