(* ===== verification/Job_Table_Thms.thy ===== *)
theory Job_Table_Thms
  imports Job_Table_Commit
begin

section \<open>The job table as a whole\<close>

text \<open>
  The invariant of \<open>JobTable\<close> (the ids of \<open>t_id\<close> are exactly the jobs of the unit table)
  is kept by its operations, and the theorems about committing, triggering, finishing and
  resuming.
\<close>

subsection \<open>isolate_suspends\<close>

definition ju_flushed :: "job_unit \<Rightarrow> job_unit" where
  "ju_flushed ju = ju\<lparr>ju_suspends := Map.empty, ju_order := False, ju_dirty := True, ju_ready := False\<rparr>"

definition isolated :: "'d job_env \<Rightarrow> unit_table \<Rightarrow> uid \<Rightarrow> bool" where
  "isolated e st u \<longleftrightarrow> \<not> IgnoreOnIsolate (u_config (je_units e) u) \<and> uv_of st u = None"

lemma ut_isolate_one_spec:
  assumes core: "tb_core e t" and db: "tb_db e t" and r: "map_of (ut_data t) u = Some r" and iso: "isolated e st u"
  shows "\<exists>dels t' e'. ut_isolate_one st (u, r) (d, t, e) = Some (d @ dels, t', e') \<and>
    tb_core e' t' \<and> tb_db e' t' \<and> ut_data t' = ut_data t \<and> uv_of t' = (uv_of t)(u \<mapsto> ju_flushed (ut_heap t r)) \<and>
    tb_ids t' = tb_ids t - set dels \<and> set dels \<subseteq> uv_ids (uv_of t u) \<and>
    (\<forall>j k u'. job_at e j Init k u' \<longrightarrow> job_at e' j Init k u') \<and>
    je_units e' = je_units e \<and> je_notes e' = je_notes e"
proof -
  let ?ju = "ut_heap t r"
  note un = tb_unitsD[OF core r]
  from ju_flush_suspends_spec[OF un(3)] obtain e' where e':
    "ju_flush_suspends ?ju e = Some (suspends_values (ju_suspends ?ju), ju_flushed ?ju, e')" "ju_inv e' (ju_flushed ?ju)"
    "env_frame (ju_unit ?ju) (ran (ju_suspends ?ju)) e e'" "je_units e' = je_units e" "je_notes e' = je_notes e"
    unfolding ju_flushed_def[symmetric] by (elim exE conjE) (rule that; assumption)
  have ids: "ran (ju_suspends ?ju) \<subseteq> ju_ids ?ju" by (auto simp: ju_ids_def)
  from ju_stepI[OF un(3) e'(2) _ _ _ e'(3) ids] have step: "ju_step e ?ju e' (ju_flushed ?ju)"
    by (simp add: ju_flushed_def)
  let ?t = "put_uv r (ju_flushed ?ju) t"
  have uv: "uv_of ?t = (uv_of t)(u \<mapsto> ju_flushed ?ju)" by (rule uv_of_put[OF core r]) simp_all
  have "tb_core e' ?t" by (rule tb_update[OF core r step])
  moreover have "tb_db e' ?t" by (rule tb_db_step[OF db step un(2) uv]) simp
  moreover have "tb_ids ?t = tb_ids t - ran (ju_suspends ?ju)"
  proof (rule tb_ids_shrink[OF core uv])
    have jobs: "ju_jobs e ?ju" using un(3) by (simp add: ju_inv_def)
    have "ran (ju_suspends ?ju) \<inter> set_option (ju_trigger ?ju) = {}"
      using ju_jobs_trigger_not_suspended[OF jobs] by (auto simp: ran_def)
    then show "uv_ids (Some (ju_flushed ?ju)) = uv_ids (uv_of t u) - ran (ju_suspends ?ju)"
      using uv_ofI[OF r] by (auto simp: ju_ids_def ju_flushed_def)
    show "ran (ju_suspends ?ju) \<subseteq> uv_ids (uv_of t u)" using uv_ofI[OF r] ids by simp
  qed
  moreover have "job_at e' j Init k u'" if "job_at e j Init k u'" for j k u'
  proof -
    have "j \<notin> ran (ju_suspends ?ju)"
      using that un(3) unfolding ju_inv_def ju_jobs_def ran_def by (blast dest: job_at_unique)
    then show ?thesis using that e'(3) by (simp add: env_frame_def job_at_def)
  qed
  moreover have "ut_isolate_one st (u, r) (d, t, e) = Some (d @ suspends_values (ju_suspends ?ju), ?t, e')"
    using iso e'(1) by (simp add: ut_isolate_one_def isolated_def uv_of_def ju_flushed_def)
  ultimately show ?thesis using uv e'(4,5) ids uv_ofI[OF r]
    by (intro exI[of _ "suspends_values (ju_suspends ?ju)"] exI[of _ ?t] exI[of _ e']) simp
qed

lemma ut_isolate_suspends_spec:
  fixes e :: "'a job_env"
  assumes core: "tb_core e t" and db: "tb_db e t"
  shows "\<exists>dels t' e'. ut_isolate_suspends st t e = Some (dels, t', e') \<and>
    tb_core e' t' \<and> tb_db e' t' \<and> \<not> ut_sync t' \<and>
    (\<forall>u. uv_of t' u = (if isolated e st u then map_option ju_flushed (uv_of t u) else uv_of t u)) \<and>
    tb_ids t' = tb_ids t - set dels \<and> set dels \<subseteq> tb_ids t \<and>
    (\<forall>j k u'. job_at e j Init k u' \<longrightarrow> job_at e' j Init k u') \<and>
    je_units e' = je_units e \<and> je_notes e' = je_notes e"
proof -
  have dist: "distinct (map fst (ut_data t))" using core by (simp add: tb_core_def tb_units_def)
  define I where "I = (\<lambda>(ys :: (uid \<times> nat) list) (d, t', e' :: 'a job_env). tb_core e' t' \<and> tb_db e' t' \<and>
    ut_data t' = ut_data t \<and>
    (\<forall>u. uv_of t' u = (if u \<in> fst ` set ys \<and> isolated e st u then map_option ju_flushed (uv_of t u) else uv_of t u)) \<and>
    tb_ids t' = tb_ids t - set d \<and> set d \<subseteq> tb_ids t \<and>
    (\<forall>j k u'. job_at e j Init k u' \<longrightarrow> job_at e' j Init k u') \<and>
    je_units e' = je_units e \<and> je_notes e' = je_notes e)"
  have "\<exists>s'. for_each (ut_isolate_one st) (ut_data t) ([], t, e) = Some s' \<and> I (ut_data t) s'"
  proof (rule for_each_total_prefix)
    show "I [] ([], t, e)" using core db by (simp add: I_def)
    fix ys ent zs s
    assume split: "ut_data t = ys @ ent # zs" and IH: "I ys s"
    obtain u r where ent: "ent = (u, r)" by (cases ent)
    obtain d t' e' where s: "s = (d, t', e')" by (cases s)
    have new: "u \<notin> fst ` set ys" using dist split ent by auto
    have d: "map_of (ut_data t) u = Some r" using dist split ent by (intro map_of_is_SomeI) auto
    have h: "tb_core e' t'" "tb_db e' t'" "ut_data t' = ut_data t"
      "\<And>u. uv_of t' u = (if u \<in> fst ` set ys \<and> isolated e st u then map_option ju_flushed (uv_of t u) else uv_of t u)"
      "tb_ids t' = tb_ids t - set d" "set d \<subseteq> tb_ids t" "\<And>j k u'. job_at e j Init k u' \<Longrightarrow> job_at e' j Init k u'"
      "je_units e' = je_units e" "je_notes e' = je_notes e"
      using IH unfolding I_def s prod.case by blast+
    have iso: "isolated e' st u = isolated e st u" by (simp add: isolated_def h(8))
    have uvu: "uv_of t' u = uv_of t u" using h(4)[of u] new by simp
    show "\<exists>s'. ut_isolate_one st ent s = Some s' \<and> I (ys @ [ent]) s'"
    proof (cases "isolated e st u")
      case False
      then have "ut_isolate_one st ent s = Some (d, t', e')"
        by (auto simp: ut_isolate_one_def ent s isolated_def uv_of_def h(8))
      moreover have "uv_of t' u' = (if u' \<in> fst ` set (ys @ [ent]) \<and> isolated e st u'
          then map_option ju_flushed (uv_of t u') else uv_of t u')" for u'
        using h(4)[of u'] False by (cases "u' = u") (simp_all add: ent)
      then have "I (ys @ [ent]) (d, t', e')" unfolding I_def prod.case using h by simp
      ultimately show ?thesis by blast
    next
      case True
      have d': "map_of (ut_data t') u = Some r" using d h(3) by simp
      from ut_isolate_one_spec[OF h(1,2) d' iso[THEN iffD2, OF True], of d] obtain dels t1 e1 where n:
        "ut_isolate_one st (u, r) (d, t', e') = Some (d @ dels, t1, e1)" "tb_core e1 t1" "tb_db e1 t1"
        "ut_data t1 = ut_data t'" "uv_of t1 = (uv_of t')(u \<mapsto> ju_flushed (ut_heap t' r))"
        "tb_ids t1 = tb_ids t' - set dels" "set dels \<subseteq> uv_ids (uv_of t' u)"
        "\<forall>j k u'. job_at e' j Init k u' \<longrightarrow> job_at e1 j Init k u'"
        "je_units e1 = je_units e'" "je_notes e1 = je_notes e'"
        by (elim exE conjE) (rule that; assumption)
      have uvt: "uv_of t u = Some (ut_heap t' r)" using uv_ofI[OF d'] unfolding uvu .
      have c1: "uv_of t1 u' = (if u' \<in> fst ` set (ys @ [ent]) \<and> isolated e st u'
          then map_option ju_flushed (uv_of t u') else uv_of t u')" for u'
        using uvt True by (cases "u' = u") (simp_all add: n(5) ent h(4))
      have c2: "tb_ids t1 = tb_ids t - set (d @ dels)" unfolding n(6) h(5) by auto
      have "set dels \<subseteq> tb_ids t" using n(7) uv_ids_subset[of t u] unfolding uvu by (rule subset_trans)
      then have c3: "set (d @ dels) \<subseteq> tb_ids t" using h(6) by simp
      have c4: "job_at e1 j Init k u'" if "job_at e j Init k u'" for j k u' using h(7)[OF that] n(8) by blast
      have "I (ys @ [ent]) (d @ dels, t1, e1)"
        unfolding I_def prod.case
        by (intro conjI allI impI)
           (assumption | rule n(2) n(3) c1 c2 c3 c4 | simp only: n(4) h(3) n(9,10) h(8,9))+
      then show ?thesis using n(1) ent s by blast
    qed
  qed
  then obtain d t' e' where f: "for_each (ut_isolate_one st) (ut_data t) ([], t, e) = Some (d, t', e')"
    and i: "I (ut_data t) (d, t', e')" by (metis prod_cases3)
  let ?t = "t'\<lparr>ut_sync := False\<rparr>"
  have eq: "uv_of ?t = uv_of t'" "ready_view ?t = ready_view t'" "tb_ids ?t = tb_ids t'"
    by (simp_all add: uv_of_def ready_view_def fun_eq_iff tb_ids_def)
  have absent: "u \<notin> fst ` set (ut_data t) \<Longrightarrow> uv_of t u = None" for u
    by (simp add: uv_of_def map_of_eq_None_iff)
  have "uv_of ?t u = (if isolated e st u then map_option ju_flushed (uv_of t u) else uv_of t u)" for u
    using i absent[of u] unfolding I_def prod.case eq(1) by (cases "u \<in> fst ` set (ut_data t)") simp_all
  moreover have "tb_core e' ?t \<longleftrightarrow> tb_core e' t'" "tb_db e' ?t \<longleftrightarrow> tb_db e' t'"
    using eq by (simp_all add: tb_core_def tb_units_def tb_ready_def ready_wf_def tb_db_def)
  moreover have "ut_isolate_suspends st t e = Some (d, ?t, e')" using f by (simp add: ut_isolate_suspends_def)
  ultimately show ?thesis
    using i unfolding I_def prod.case eq[symmetric]
    by (intro exI[of _ d] exI[of _ ?t] exI[of _ e']) simp
qed

subsection \<open>Resuming related units\<close>

definition jt_inv :: "'d job_env \<Rightarrow> job_table \<Rightarrow> bool" where
  "jt_inv e jt \<longleftrightarrow> tb_inv e (jt_unit jt) \<and> ut_sync (jt_unit jt) \<and> jt_id jt = tb_ids (jt_unit jt)"

lemma ju_resumed_simps [simp]:
  "ju_suspends (ju_resumed ju) = ju_suspends ju" "ju_trigger (ju_resumed ju) = ju_trigger ju"
  "ju_unit (ju_resumed ju) = ju_unit ju" "\<not> ju_pause (ju_resumed ju)" "ju_ids (ju_resumed ju) = ju_ids ju"
  "ju_resumed (ju_resumed ju) = ju_resumed ju" "ju_stale_interrupt (ju_resumed ju) = ju_stale_interrupt ju"
  by (simp_all add: ju_resumed_def ju_ids_def)

lemma resume_loop:
  assumes "jt_inv e jt" and "tb_fresh (jt_unit jt)"
  shows "\<exists>jt'. for_each jt_resume_unit us jt = Some jt' \<and> jt_inv e jt' \<and> tb_fresh (jt_unit jt') \<and> jt_id jt' = jt_id jt \<and>
    (\<forall>u. uv_of (jt_unit jt') u = (if u \<in> set us then map_option ju_resumed (uv_of (jt_unit jt) u) else uv_of (jt_unit jt) u))"
  using assms
proof (induction us arbitrary: jt)
  case (Cons u us)
  let ?t = "jt_unit jt"
  from Cons.prems have inv: "tb_inv e ?t" "ut_sync ?t" by (simp_all add: jt_inv_def)
  have fr: "\<And>ju. uv_of ?t u = Some ju \<Longrightarrow> ju_pause ju \<Longrightarrow> \<not> ju_stale_interrupt ju"
    using Cons.prems(2) by (simp add: tb_fresh_def)
  from ut_resume_unit_spec[OF inv fr] obtain t' where t': "ut_resume_unit u ?t = Some t'" "tb_inv e t'" "ut_sync t'"
    "uv_of t' = (uv_of ?t)(u := map_option ju_resumed (uv_of ?t u))" by blast
  have core: "tb_core e ?t" using inv by (simp add: tb_inv_def)
  have "tb_ids t' = tb_ids ?t - {}"
    by (rule tb_ids_shrink[OF core t'(4)]) (cases "uv_of ?t u"; simp)+
  moreover have "tb_fresh t'"
    by (rule tb_fresh_upd[OF Cons.prems(2) t'(4)]) (use Cons.prems(2) in \<open>auto simp: tb_fresh_def\<close>)
  ultimately have "jt_inv e (jt\<lparr>jt_unit := t'\<rparr>)" "tb_fresh (jt_unit (jt\<lparr>jt_unit := t'\<rparr>))"
    using Cons.prems(1) t'(2,3) by (simp_all add: jt_inv_def)
  from Cons.IH[OF this] obtain jt' where j: "for_each jt_resume_unit us (jt\<lparr>jt_unit := t'\<rparr>) = Some jt'"
    "jt_inv e jt'" "tb_fresh (jt_unit jt')" "jt_id jt' = jt_id jt"
    "\<And>u. uv_of (jt_unit jt') u = (if u \<in> set us then map_option ju_resumed (uv_of t' u) else uv_of t' u)" by auto
  have "uv_of (jt_unit jt') u' = (if u' \<in> set (u # us) then map_option ju_resumed (uv_of ?t u') else uv_of ?t u')" for u'
    unfolding j(5) t'(4) by (auto simp: option.map_comp comp_def)
  moreover have "for_each jt_resume_unit (u # us) jt = Some jt'"
    using t'(1) j(1) jt_resume_unit_def[of u jt] by simp
  ultimately show ?case using j(2-4) by blast
qed simp

definition related :: "'x unit_dep_data \<Rightarrow> uid \<Rightarrow> uid set" where
  "related dd u = set (gets_atom dd u UnitAtomAfter) \<union> set (gets_atom dd u UnitAtomBefore)"

lemma process_relation_spec:
  assumes "jt_inv e jt" and "tb_fresh (jt_unit jt)"
  shows "\<exists>jt'. process_relation dd u jt = Some jt' \<and> jt_inv e jt' \<and> tb_fresh (jt_unit jt') \<and> jt_id jt' = jt_id jt \<and>
    (\<forall>u'. uv_of (jt_unit jt') u' =
       (if u' \<in> related dd u then map_option ju_resumed (uv_of (jt_unit jt) u') else uv_of (jt_unit jt) u'))"
proof -
  from resume_loop[OF assms, of "gets_atom dd u UnitAtomAfter"] obtain jt1 where a:
    "for_each jt_resume_unit (gets_atom dd u UnitAtomAfter) jt = Some jt1" "jt_inv e jt1" "tb_fresh (jt_unit jt1)"
    "jt_id jt1 = jt_id jt" "\<And>u'. uv_of (jt_unit jt1) u' = (if u' \<in> set (gets_atom dd u UnitAtomAfter)
       then map_option ju_resumed (uv_of (jt_unit jt) u') else uv_of (jt_unit jt) u')" by blast
  from resume_loop[OF a(2,3), of "gets_atom dd u UnitAtomBefore"] obtain jt2 where b:
    "for_each jt_resume_unit (gets_atom dd u UnitAtomBefore) jt1 = Some jt2" "jt_inv e jt2" "tb_fresh (jt_unit jt2)"
    "jt_id jt2 = jt_id jt1" "\<And>u'. uv_of (jt_unit jt2) u' = (if u' \<in> set (gets_atom dd u UnitAtomBefore)
       then map_option ju_resumed (uv_of (jt_unit jt1) u') else uv_of (jt_unit jt1) u')" by blast
  have "uv_of (jt_unit jt2) u' =
      (if u' \<in> related dd u then map_option ju_resumed (uv_of (jt_unit jt) u') else uv_of (jt_unit jt) u')" for u'
    unfolding b(5) a(5) related_def by (auto simp: option.map_comp comp_def)
  then show ?thesis using a b by (auto simp: process_relation_def)
qed

text \<open>The same for a list of units.\<close>

lemma process_relations_spec:
  assumes "jt_inv e jt" and "tb_fresh (jt_unit jt)"
  shows "\<exists>jt'. for_each (process_relation dd) us jt = Some jt' \<and> jt_inv e jt' \<and> tb_fresh (jt_unit jt') \<and>
    jt_id jt' = jt_id jt \<and>
    (\<forall>u'. uv_of (jt_unit jt') u' = (if u' \<in> (\<Union>u\<in>set us. related dd u)
       then map_option ju_resumed (uv_of (jt_unit jt) u') else uv_of (jt_unit jt) u'))"
  using assms
proof (induction us arbitrary: jt)
  case (Cons u us)
  from process_relation_spec[OF Cons.prems, of dd u] obtain jt1 where a:
    "process_relation dd u jt = Some jt1" "jt_inv e jt1" "tb_fresh (jt_unit jt1)" "jt_id jt1 = jt_id jt"
    "\<And>u'. uv_of (jt_unit jt1) u' =
       (if u' \<in> related dd u then map_option ju_resumed (uv_of (jt_unit jt) u') else uv_of (jt_unit jt) u')" by blast
  from Cons.IH[OF a(2,3)] obtain jt' where b: "for_each (process_relation dd) us jt1 = Some jt'"
    "jt_inv e jt'" "tb_fresh (jt_unit jt')" "jt_id jt' = jt_id jt1"
    "\<And>u'. uv_of (jt_unit jt') u' = (if u' \<in> (\<Union>u\<in>set us. related dd u)
       then map_option ju_resumed (uv_of (jt_unit jt1) u') else uv_of (jt_unit jt1) u')" by blast
  have "uv_of (jt_unit jt') u' = (if u' \<in> (\<Union>u\<in>set (u # us). related dd u)
       then map_option ju_resumed (uv_of (jt_unit jt) u') else uv_of (jt_unit jt) u')" for u'
    unfolding b(5) a(5) by (cases "u' \<in> related dd u") (auto simp: option.map_comp comp_def)
  then show ?case using a b by auto
qed simp

subsection \<open>commit\<close>

lemma merged_can:
  assumes "merged_ju oju ju ju'" and "\<not> ju_is_suspends_conflict oju" and "ju_suspends oju \<noteq> Map.empty"
    and "\<not> ju_stale_interrupt ju"
  shows "\<not> ju_stale_interrupt ju'" and "\<not> ju_is_suspends_conflict ju'" and "ju_suspends ju' \<noteq> Map.empty"
proof -
  show "\<not> ju_is_suspends_conflict ju'"
    by (rule ju_merge_no_conflict[OF assms(2), of ju' ju]) (use assms(1) in \<open>simp add: merged_ju_def\<close>)
  from assms(1,3) show ne: "ju_suspends ju' \<noteq> Map.empty" by (auto simp: merged_ju_def)
  show "\<not> ju_stale_interrupt ju'"
    using assms(1,4) ne by (auto simp: merged_ju_def ju_same_trigger_def ju_stale_interrupt_def)
qed

lemma reshuffled_Some:
  assumes "ju_inv e ju" and "ju_suspends ju \<noteq> Map.empty" and that: "\<not> ju_dirty ju \<longrightarrow> ju_order ju"
  shows "\<exists>ju'. reshuffled e ju = Some ju' \<and> ju_trigger ju' = ju_trigger ju \<and>
    ju_suspends ju' = merge_kinds (is_active_or_reloading (u_active_state (je_units e) (ju_unit ju))) (ju_suspends ju)"
    (is "\<exists>ju'. _ \<and> _ \<and> _ = merge_kinds ?a _")
proof -
  have uniq: "ju_order ju \<Longrightarrow> mutop_unique (ju_suspends ju)" using assms(1) by (simp add: ju_inv_def ju_shape_def)
  have m: "reshuffle_map e ju = merge_kinds ?a (ju_suspends ju)"
    using merge_kinds_id[OF uniq] by (simp add: reshuffle_map_def)
  show ?thesis
  proof (cases "ju_dirty ju")
    case True
    have "merge_kinds ?a (ju_suspends ju) \<noteq> Map.empty" using assms(2) by (simp add: merge_kinds_empty)
    then show ?thesis using True m by (simp add: reshuffled_def uv_gc_def ju_is_empty_def)
  next
    case False
    then show ?thesis using that assms(2) merge_kinds_id[OF uniq]
      by (simp add: reshuffled_def uv_gc_def ju_is_empty_def)
  qed
qed

text \<open>The table that \<open>reshuffle\<close> gets from the two steps before it.\<close>

definition isolating :: "job_mode \<Rightarrow> bool" where
  "isolating mode \<longleftrightarrow> mode = Isolate \<or> mode = Flush"

definition iso_free :: "'d job_env \<Rightarrow> unit_table \<Rightarrow> job_mode \<Rightarrow> unit_table \<Rightarrow> bool" where
  "iso_free e st mode t \<longleftrightarrow>
     (isolating mode \<longrightarrow> (\<forall>u ju. uv_of t u = Some ju \<longrightarrow> isolated e st u \<longrightarrow> \<not> ju_interrupt ju))"

lemma jt_isolate_suspends_spec:
  assumes "tb_core e (jt_unit jt)" and "tb_db e (jt_unit jt)" and "jt_id jt = tb_ids (jt_unit jt)"
  shows "\<exists>dels jt' e'. jt_isolate_suspends st mode jt e = Some (dels, jt', e') \<and>
    tb_core e' (jt_unit jt') \<and> tb_db e' (jt_unit jt') \<and> jt_id jt' = tb_ids (jt_unit jt') \<and>
    (\<forall>u. uv_of (jt_unit jt') u = (if isolating mode \<and> isolated e (jt_unit st) u
       then map_option ju_flushed (uv_of (jt_unit jt) u) else uv_of (jt_unit jt) u)) \<and>
    jt_id jt' = jt_id jt - set dels \<and> set dels \<subseteq> jt_id jt \<and>
    (\<forall>j k u'. job_at e j Init k u' \<longrightarrow> job_at e' j Init k u') \<and>
    je_units e' = je_units e \<and> je_notes e' = je_notes e"
proof (cases "isolating mode")
  case False
  then show ?thesis using assms by (simp add: jt_isolate_suspends_def isolating_def)
next
  case True
  from ut_isolate_suspends_spec[OF assms(1,2), of "jt_unit st"] obtain dels t' e' where i:
    "ut_isolate_suspends (jt_unit st) (jt_unit jt) e = Some (dels, t', e')" "tb_core e' t'" "tb_db e' t'"
    "\<forall>u. uv_of t' u = (if isolated e (jt_unit st) u then map_option ju_flushed (uv_of (jt_unit jt) u)
       else uv_of (jt_unit jt) u)"
    "tb_ids t' = tb_ids (jt_unit jt) - set dels" "set dels \<subseteq> tb_ids (jt_unit jt)"
    "\<forall>j k u'. job_at e j Init k u' \<longrightarrow> job_at e' j Init k u'"
    "je_units e' = je_units e" "je_notes e' = je_notes e"
    by (elim exE conjE) (rule that; assumption)
  then show ?thesis using True assms(3)
    by (intro exI[of _ dels] exI[of _ "jt\<lparr>jt_unit := t', jt_id := jt_id jt - set dels\<rparr>"] exI[of _ e'])
       (simp add: jt_isolate_suspends_def isolating_def)
qed

lemma stage_ok_mono:
  assumes "stage_ok e st" and "\<forall>j k u'. job_at e j Init k u' \<longrightarrow> job_at e' j Init k u'"
  shows "stage_ok e' st"
  using assms unfolding stage_ok_def by blast

definition commit_map :: "'d job_env \<Rightarrow> job_unit \<Rightarrow> job_unit \<Rightarrow> job_kind \<rightharpoonup> u32" where
  "commit_map e oju ju =
     merge_kinds (is_active_or_reloading (u_active_state (je_units e) (ju_unit ju)))
       (ju_suspends oju ++ (if ju_is_suspends_conflict_with ju oju then Map.empty else ju_suspends ju))"

lemma stage_no_conflict:
  "\<not> ut_is_suspends_conflict st \<Longrightarrow> uv_of st u = Some oju \<Longrightarrow> \<not> ju_is_suspends_conflict oju"
  by (auto simp: ut_is_suspends_conflict_def list_ex_iff uv_of_def dest: map_of_SomeD)

lemma uv_or_new_at_rest:
  assumes "jt_inv e jt" and "tb_fresh (jt_unit jt)"
  shows "\<not> ju_dirty (uv_or_new (jt_unit jt) u)" "ju_order (uv_or_new (jt_unit jt) u)"
    "\<not> ju_stale_interrupt (uv_or_new (jt_unit jt) u)" "ju_unit (uv_or_new (jt_unit jt) u) = u"
proof -
  from assms(1) have core: "tb_core e (jt_unit jt)" and clean: "tb_clean (jt_unit jt)"
    by (simp_all add: jt_inv_def tb_inv_def)
  have "\<not> ju_dirty ju \<and> ju_order ju \<and> \<not> ju_stale_interrupt ju \<and> ju_unit ju = u" if "uv_of (jt_unit jt) u = Some ju" for ju
    using that clean assms(2) tb_uvD[OF core that] by (simp add: tb_clean_iff tb_fresh_def ju_settled_def)
  then show "\<not> ju_dirty (uv_or_new (jt_unit jt) u)" "ju_order (uv_or_new (jt_unit jt) u)"
    "\<not> ju_stale_interrupt (uv_or_new (jt_unit jt) u)" "ju_unit (uv_or_new (jt_unit jt) u) = u"
    by (cases "uv_of (jt_unit jt) u"; simp add: uv_or_new_def job_unit_new_def ju_stale_interrupt_def)+
qed

text \<open>The entries before \<open>reshuffle\<close>: merged, flushed or as they were.\<close>

lemma commit_entries:
  assumes inv: "jt_inv e jt" and fresh: "tb_fresh (jt_unit jt)" and stage: "stage_ok e (jt_unit st)"
    and nc: "\<not> ut_is_suspends_conflict (jt_unit st)" and iso: "iso_free e (jt_unit st) mode (jt_unit jt)"
    and t1: "\<forall>u. uv_of t1 u = (if isolating mode \<and> isolated e (jt_unit st) u
       then map_option ju_flushed (uv_of (jt_unit jt) u) else uv_of (jt_unit jt) u)"
    and t2: "\<forall>u. uv_of (jt_unit st) u = None \<longrightarrow> uv_of t2 u = uv_of t1 u"
      "\<forall>u oju. uv_of (jt_unit st) u = Some oju \<longrightarrow> (\<exists>ju'. uv_of t2 u = Some ju' \<and> merged_ju oju (uv_or_new t1 u) ju')"
    and u: "uv_of t2 u = Some ju"
  shows "\<not> ju_stale_interrupt ju" and "ju_dirty ju \<longrightarrow> can_reshuffle ju"
proof -
  from inv have core: "tb_core e (jt_unit jt)" and clean: "tb_clean (jt_unit jt)" by (simp_all add: jt_inv_def tb_inv_def)
  have "\<not> ju_stale_interrupt ju \<and> (ju_dirty ju \<longrightarrow> can_reshuffle ju)"
  proof (cases "uv_of (jt_unit st) u")
    case (Some oju)
    then have "\<not> isolated e (jt_unit st) u" by (simp add: isolated_def)
    then have same: "uv_or_new t1 u = uv_or_new (jt_unit jt) u" using t1 by (simp add: uv_or_new_def)
    from t2(2) Some u have m: "merged_ju oju (uv_or_new (jt_unit jt) u) ju" unfolding same[symmetric]
      by (metis option.inject)
    have ne: "ju_suspends oju \<noteq> Map.empty" using stage Some by (auto simp: stage_ok_def)
    note mc = merged_can[OF m stage_no_conflict[OF nc Some] ne uv_or_new_at_rest(3)[OF inv fresh]]
    then show ?thesis by (simp add: can_reshuffle_def)
  next
    case None
    then have u1: "uv_of t1 u = Some ju" using t2(1) u by simp
    show ?thesis
    proof (cases "isolating mode \<and> isolated e (jt_unit st) u")
      case False
      then have "uv_of (jt_unit jt) u = Some ju" using u1 spec[OF t1, of u] by (simp split: if_splits)
      then show ?thesis using fresh clean by (auto simp: tb_fresh_def tb_clean_iff)
    next
      case True
      with u1 t1 obtain ju0 where j0: "uv_of (jt_unit jt) u = Some ju0" "ju = ju_flushed ju0" by auto
      then have "\<not> ju_interrupt ju0" using iso True by (auto simp: iso_free_def)
      then have "\<not> ju_stale_interrupt ju" by (simp add: j0 ju_flushed_def ju_stale_interrupt_def)
      moreover have "\<not> ju_is_suspends_conflict ju"
        by (simp add: j0 ju_flushed_def ju_is_suspends_conflict_iff kinds_conflict_def)
      ultimately show ?thesis by (simp add: can_reshuffle_def)
    qed
  qed
  then show "\<not> ju_stale_interrupt ju" "ju_dirty ju \<longrightarrow> can_reshuffle ju" by blast+
qed

lemma reshuffled_fresh:
  assumes "ju_inv e ju" and "\<not> ju_stale_interrupt ju" and "reshuffled e ju = Some ju'"
  shows "\<not> ju_stale_interrupt ju'"
  using assms reshuffle_result_fresh[OF assms(1,2)]
  by (cases "ju_dirty ju") (auto simp: reshuffled_def uv_gc_Some)

lemma flushed_reshuffled:
  "reshuffled e (ju_flushed ju) = Some ju' \<Longrightarrow> ju_suspends ju' = Map.empty"
  by (auto simp: reshuffled_def uv_gc_Some ju_flushed_def reshuffle_map_def merge_kinds_def)

lemma jt_commit_spec:
  assumes inv: "jt_inv e jt" and fresh: "tb_fresh (jt_unit jt)" and stage: "stage_ok e (jt_unit st)"
    and ids: "jt_id st = tb_ids (jt_unit st)" and nc: "\<not> ut_is_suspends_conflict (jt_unit st)"
    and disj: "jt_id st \<inter> jt_id jt = {}" and iso: "iso_free e (jt_unit st) mode (jt_unit jt)"
  shows "\<exists>adds dels upds jt' e'. jt_commit dd st mode jt e = Some (Inr (adds, dels, upds), jt', e') \<and>
    jt_inv e' jt' \<and> tb_fresh (jt_unit jt') \<and> jt_id jt' = jt_id jt \<union> set adds - set dels \<and> set adds \<subseteq> jt_id st \<and>
    (\<forall>u oju. uv_of (jt_unit st) u = Some oju \<longrightarrow> (\<exists>ju'. uv_of (jt_unit jt') u = Some ju' \<and>
       ju_trigger ju' = ju_trigger (uv_or_new (jt_unit jt) u) \<and>
       ju_suspends ju' = commit_map e oju (uv_or_new (jt_unit jt) u))) \<and>
    (\<forall>u. uv_of (jt_unit st) u = None \<longrightarrow>
       (if isolating mode \<and> isolated e (jt_unit st) u
        then \<forall>ju'. uv_of (jt_unit jt') u = Some ju' \<longrightarrow> ju_suspends ju' = Map.empty
        else uv_ids (uv_of (jt_unit jt') u) = uv_ids (uv_of (jt_unit jt) u))) \<and>
    je_units e' = je_units e \<and> je_notes e' = je_notes e"
proof -
  let ?t = "jt_unit jt" and ?st = "jt_unit st"
  from inv have core: "tb_core e ?t" and db: "tb_db e ?t" and clean: "tb_clean ?t" and idt: "jt_id jt = tb_ids ?t"
    by (simp_all add: jt_inv_def tb_inv_def)
  from jt_isolate_suspends_spec[OF core db idt, of st mode] obtain ij jt1 e1 where i:
    "jt_isolate_suspends st mode jt e = Some (ij, jt1, e1)" "tb_core e1 (jt_unit jt1)" "tb_db e1 (jt_unit jt1)"
    "jt_id jt1 = tb_ids (jt_unit jt1)"
    "\<forall>u. uv_of (jt_unit jt1) u = (if isolating mode \<and> isolated e ?st u then map_option ju_flushed (uv_of ?t u) else uv_of ?t u)"
    "jt_id jt1 = jt_id jt - set ij" "set ij \<subseteq> jt_id jt"
    "\<forall>j k u'. job_at e j Init k u' \<longrightarrow> job_at e1 j Init k u'" "je_units e1 = je_units e" "je_notes e1 = je_notes e"
    by (elim exE conjE) (rule that; assumption)
  from ut_merge_suspends_spec[OF i(2,3) stage_ok_mono[OF stage i(8)]] obtain adds fj upds t2 e2 where m:
    "ut_merge_suspends ?st (jt_unit jt1) e1 = Some ((adds, fj, upds), t2, e2)" "tb_core e2 t2" "tb_db e2 t2"
    "\<forall>u. uv_of ?st u = None \<longrightarrow> uv_of t2 u = uv_of (jt_unit jt1) u"
    "\<forall>u oju. uv_of ?st u = Some oju \<longrightarrow> (\<exists>ju'. uv_of t2 u = Some ju' \<and> merged_ju oju (uv_or_new (jt_unit jt1) u) ju')"
    "tb_ids t2 = tb_ids (jt_unit jt1) - set fj \<union> set adds" "set fj \<subseteq> tb_ids (jt_unit jt1)" "set adds \<subseteq> tb_ids ?st"
    "je_units e2 = je_units e1" "je_notes e2 = je_notes e1"
    by (elim exE conjE) (rule that; assumption)
  note ent = commit_entries[OF inv fresh stage nc iso i(5) m(4,5)]
  have can: "\<forall>u ju. uv_of t2 u = Some ju \<longrightarrow> ju_dirty ju \<longrightarrow> can_reshuffle ju" using ent(2) by blast
  from ut_reshuffle_spec[OF m(2,3) can] obtain mj t3 e3 where r:
    "ut_reshuffle t2 e2 = Some (mj, t3, e3)" "tb_inv e3 t3" "ut_sync t3"
    "\<forall>u. uv_of t3 u = Option.bind (uv_of t2 u) (reshuffled e2)" "tb_ids t3 = tb_ids t2 - set mj"
    "je_units e3 = je_units e2" "je_notes e3 = je_notes e2"
    by (elim exE conjE) (rule that; assumption)
  define jt3 where "jt3 = jt\<lparr>jt_unit := t3, jt_id := jt_id jt \<union> set adds - set (ij @ fj @ mj)\<rparr>"
  have adds: "set adds \<subseteq> jt_id st" "set adds \<inter> jt_id jt = {}" using m(8) ids disj by auto
  have u3: "jt_unit jt3 = t3" "jt_id jt3 = jt_id jt \<union> set adds - set (ij @ fj @ mj)" by (simp_all add: jt3_def)
  have "jt_id jt3 = tb_ids t3"
    unfolding u3 r(5) m(6) using i(4,6,7) m(7) adds(2) by auto
  then have inv3: "jt_inv e3 jt3" using r(2,3) by (simp add: jt_inv_def u3)
  have fresh3: "tb_fresh (jt_unit jt3)"
    unfolding u3 tb_fresh_def r(4)[rule_format]
    using reshuffled_fresh ent(1) tb_uvD(2)[OF m(2)] by (fastforce simp: bind_eq_Some_conv)
  let ?rel = "\<lambda>us. \<Union>u\<in>set us. related dd u"
  obtain jt4 rel where p: "(if ij \<noteq> [] \<or> fj \<noteq> []
       then do { jta \<leftarrow> for_each (process_relation dd) (jobs_2_units e3 ij) jt3;
                 for_each (process_relation dd) (jobs_2_units e3 fj) jta }
       else Some jt3) = Some jt4" "jt_inv e3 jt4" "tb_fresh (jt_unit jt4)" "jt_id jt4 = jt_id jt3"
    "\<And>u. uv_of (jt_unit jt4) u = (if u \<in> rel then map_option ju_resumed (uv_of t3 u) else uv_of t3 u)"
  proof (cases "ij \<noteq> [] \<or> fj \<noteq> []")
    case False
    then show ?thesis using that[of jt3 "{}"] inv3 fresh3 u3 by simp
  next
    case True
    from process_relations_spec[OF inv3 fresh3, of dd "jobs_2_units e3 ij"] obtain jta where a:
      "for_each (process_relation dd) (jobs_2_units e3 ij) jt3 = Some jta" "jt_inv e3 jta" "tb_fresh (jt_unit jta)"
      "jt_id jta = jt_id jt3" "\<And>u'. uv_of (jt_unit jta) u' = (if u' \<in> ?rel (jobs_2_units e3 ij)
         then map_option ju_resumed (uv_of (jt_unit jt3) u') else uv_of (jt_unit jt3) u')" by blast
    from process_relations_spec[OF a(2,3), of dd "jobs_2_units e3 fj"] obtain jtb where b:
      "for_each (process_relation dd) (jobs_2_units e3 fj) jta = Some jtb" "jt_inv e3 jtb" "tb_fresh (jt_unit jtb)"
      "jt_id jtb = jt_id jta" "\<And>u'. uv_of (jt_unit jtb) u' = (if u' \<in> ?rel (jobs_2_units e3 fj)
         then map_option ju_resumed (uv_of (jt_unit jta) u') else uv_of (jt_unit jta) u')" by blast
    show ?thesis
    proof (rule that[of jtb "?rel (jobs_2_units e3 ij) \<union> ?rel (jobs_2_units e3 fj)"])
      show "uv_of (jt_unit jtb) u' = (if u' \<in> ?rel (jobs_2_units e3 ij) \<union> ?rel (jobs_2_units e3 fj)
          then map_option ju_resumed (uv_of t3 u') else uv_of t3 u')" for u'
        unfolding b(5) a(5) u3
        by (cases "u' \<in> ?rel (jobs_2_units e3 ij)"; cases "u' \<in> ?rel (jobs_2_units e3 fj)")
           (simp_all add: option.map_comp comp_def)
    qed (use True a b in simp_all)
  qed
  have "jt_merge_suspends st jt1 e1 = Some ((adds, fj, upds), jt1\<lparr>jt_unit := t2, jt_id := jt_id jt1 \<union> set adds - set fj\<rparr>, e2)"
    using m(1) by (simp add: jt_merge_suspends_def)
  moreover have "jt_reshuffle (jt1\<lparr>jt_unit := t2, jt_id := jt_id jt1 \<union> set adds - set fj\<rparr>) e2 = Some (mj, jt3, e3)"
  proof -
    have "jt_id jt1 \<union> set adds - set fj - set mj = jt_id jt \<union> set adds - set (ij @ fj @ mj)"
      using i(6,7) adds(2) by auto
    then show ?thesis using r(1) by (simp add: jt_reshuffle_def jt3_def)
  qed
  ultimately have run: "jt_commit dd st mode jt e = Some (Inr (adds, ij @ fj @ mj, upds), jt4, e3)"
    using disj i(1) p(1) by (simp add: jt_commit_def)
  have units: "je_units e3 = je_units e" "je_notes e3 = je_notes e" "je_units e2 = je_units e"
    using i(9,10) m(9,10) r(6,7) by simp_all
  have staged: "\<exists>ju'. uv_of (jt_unit jt4) u = Some ju' \<and> ju_trigger ju' = ju_trigger (uv_or_new ?t u) \<and>
      ju_suspends ju' = commit_map e oju (uv_or_new ?t u)" if so: "uv_of ?st u = Some oju" for u oju
  proof -
    have "\<not> isolated e ?st u" using so by (simp add: isolated_def)
    then have same: "uv_or_new (jt_unit jt1) u = uv_or_new ?t u" using i(5) by (simp add: uv_or_new_def)
    from m(5) so obtain ju2 where j2: "uv_of t2 u = Some ju2" "merged_ju oju (uv_or_new ?t u) ju2"
      unfolding same[symmetric] by blast
    note rest = uv_or_new_at_rest[OF inv fresh, of u]
    have ne: "ju_suspends oju \<noteq> Map.empty" using stage so by (auto simp: stage_ok_def)
    note mc = merged_can[OF j2(2) stage_no_conflict[OF nc so] ne rest(3)]
    have o2: "\<not> ju_dirty ju2 \<longrightarrow> ju_order ju2" using j2(2) rest(2) by (auto simp: merged_ju_def ju_same_trigger_def)
    note un = tb_uvD[OF m(2) j2(1)]
    from reshuffled_Some[OF un(2) mc(3) o2] obtain ju3 where j3: "reshuffled e2 ju2 = Some ju3"
      "ju_trigger ju3 = ju_trigger ju2" "ju_suspends ju3 = merge_kinds (is_active_or_reloading
        (u_active_state (je_units e2) (ju_unit ju2))) (ju_suspends ju2)" by blast
    have "ju_suspends ju3 = commit_map e oju (uv_or_new ?t u)"
      using j3(3) j2(2) un(1) rest(4) units(3) by (simp add: commit_map_def merged_ju_def)
    moreover have "ju_trigger ju3 = ju_trigger (uv_or_new ?t u)"
      using j3(2) j2(2) by (simp add: merged_ju_def ju_same_trigger_def)
    moreover have "uv_of t3 u = Some ju3" using r(4) j2(1) j3(1) by simp
    ultimately show ?thesis using p(5)[of u] by (cases "u \<in> rel") simp_all
  qed
  have rest: "if isolating mode \<and> isolated e ?st u
      then \<forall>ju'. uv_of (jt_unit jt4) u = Some ju' \<longrightarrow> ju_suspends ju' = Map.empty
      else uv_ids (uv_of (jt_unit jt4) u) = uv_ids (uv_of ?t u)" if so: "uv_of ?st u = None" for u
  proof -
    have u3: "uv_of t3 u = Option.bind (uv_of (jt_unit jt1) u) (reshuffled e2)" using r(4) m(4) so by simp
    show ?thesis
    proof (cases "isolating mode \<and> isolated e ?st u")
      case True
      then have "uv_of t3 u = Option.bind (uv_of ?t u) (\<lambda>ju. reshuffled e2 (ju_flushed ju))"
        using u3 i(5) by (cases "uv_of ?t u") simp_all
      then have "ju_suspends ju' = Map.empty" if "uv_of t3 u = Some ju'" for ju'
        using that flushed_reshuffled[of e2 _ ju'] by (cases "uv_of ?t u") simp_all
      then show ?thesis using True p(5)[of u] by (cases "u \<in> rel") auto
    next
      case False
      then have u1: "uv_of (jt_unit jt1) u = uv_of ?t u" using spec[OF i(5), of u] by (simp only: if_False)
      have "uv_ids (uv_of t3 u) = uv_ids (uv_of ?t u)"
      proof (cases "uv_of ?t u")
        case (Some ju)
        then have "\<not> ju_dirty ju" using clean by (simp add: tb_clean_iff)
        then show ?thesis using u3 u1 Some by (simp add: reshuffled_def)
      qed (simp add: u3 u1)
      then show ?thesis unfolding if_not_P[OF False] using p(5)[of u] by (cases "uv_of t3 u") simp_all
    qed
  qed
  show ?thesis
    using run p(2,3) p(4) u3(2) adds(1) staged rest units(1,2)
    by (intro exI[of _ adds] exI[of _ "ij @ fj @ mj"] exI[of _ upds] exI[of _ jt4] exI[of _ e3]) simp
qed

end
