(* ===== verification/Job_Table_Claims.thy ===== *)
theory Job_Table_Claims
  imports Job_Table_Thms Job_Unit_Thms
begin

section \<open>Theorems about the job table\<close>

text \<open>
  Committing a request, triggering, finishing and cancelling keep the invariant of the job
  table; what each does to the queues of the units; and two defects of the table.
\<close>

subsection \<open>Lemmas for the operations of JobTable\<close>

lemma jt_view_ready:
  assumes "jt_inv e jt"
  shows "(u, r) \<in> set (ready_view (jt_unit jt)) \<longleftrightarrow>
    map_of (ut_data (jt_unit jt)) u = Some r \<and> ju_ready (ut_heap (jt_unit jt) r)"
proof -
  from assms have core: "tb_core e (jt_unit jt)" and clean: "tb_clean (jt_unit jt)"
    by (simp_all add: jt_inv_def tb_inv_def)
  have "ju_up_ready (ut_heap (jt_unit jt) r) = ju_ready (ut_heap (jt_unit jt) r)"
    if "map_of (ut_data (jt_unit jt)) u = Some r"
    using tb_unitsD(4)[OF core that] clean that by (auto simp: ju_settled_def tb_clean_def)
  then show ?thesis using core by (auto simp: tb_core_def tb_ready_def)
qed

lemma ready_pick_None:
  assumes "jt_inv e jt"
  shows "ready_pick un (ready_view (jt_unit jt)) = None \<longleftrightarrow>
    (\<forall>u ju. uv_of (jt_unit jt) u = Some ju \<longrightarrow> ju_ready ju \<longrightarrow> (\<exists>x. un = Some x \<and> x \<noteq> u))"
proof -
  note v = jt_view_ready[OF assms]
  have srt: "distinct (map fst (ready_view (jt_unit jt)))"
    using assms strict_sorted_imp_sorted by (auto simp: jt_inv_def tb_inv_def tb_core_def tb_ready_def ready_wf_def strict_sorted_iff)
  have none: "ready_view (jt_unit jt) = [] \<longleftrightarrow> (\<forall>u ju. uv_of (jt_unit jt) u = Some ju \<longrightarrow> \<not> ju_ready ju)"
    using v by (auto simp: uv_of_def) (metis (no_types) ex_in_conv set_empty2 surj_pair)
  have some: "map_of (ready_view (jt_unit jt)) x = None \<longleftrightarrow> (\<forall>ju. uv_of (jt_unit jt) x = Some ju \<longrightarrow> \<not> ju_ready ju)" for x
  proof -
    have "map_of (ready_view (jt_unit jt)) x = Some r \<longleftrightarrow> (x, r) \<in> set (ready_view (jt_unit jt))" for r
      using srt by (rule map_of_eq_Some_iff)
    then show ?thesis using v[of x] by (auto simp: uv_of_def) (metis not_None_eq)
  qed
  show ?thesis by (cases un) (auto simp: ready_pick_def none some)
qed

lemma calc_ready_spec:
  assumes "jt_inv e jt"
  shows "ut_calc_ready (jt_unit jt) \<longleftrightarrow> (\<exists>u ju. uv_of (jt_unit jt) u = Some ju \<and> ju_ready ju)"
proof -
  have "ut_calc_ready (jt_unit jt) \<longleftrightarrow> ready_view (jt_unit jt) \<noteq> []"
    using assms by (auto simp: ut_calc_ready_def jt_inv_def ready_view_def split: bool.splits)
  also have "\<dots> \<longleftrightarrow> ready_pick None (ready_view (jt_unit jt)) \<noteq> None" by (simp add: ready_pick_def)
  also have "\<dots> \<longleftrightarrow> (\<exists>u ju. uv_of (jt_unit jt) u = Some ju \<and> ju_ready ju)"
    using ready_pick_None[OF assms, of None] by auto
  finally show ?thesis .
qed

lemma ready_pick_last:
  assumes "jt_inv e jt" and "ready_pick un (ready_view (jt_unit jt)) = Some (u, r)"
  shows "\<forall>x. un = Some x \<longrightarrow> x = u"
    and "un = None \<Longrightarrow> uv_of (jt_unit jt) u' = Some ju' \<Longrightarrow> ju_ready ju' \<Longrightarrow> u' \<le> u"
proof -
  show "\<forall>x. un = Some x \<longrightarrow> x = u" using assms(2) by (auto simp: ready_pick_def)
  assume un: "un = None" and u': "uv_of (jt_unit jt) u' = Some ju'" "ju_ready ju'"
  then obtain r' where "(u', r') \<in> set (ready_view (jt_unit jt))"
    using jt_view_ready[OF assms(1)] by (auto elim!: uv_ofE)
  moreover have "sorted_wrt (<) (map fst (ready_view (jt_unit jt)))"
    using assms(1) by (simp add: jt_inv_def tb_inv_def tb_core_def tb_ready_def ready_wf_def)
  moreover obtain w where "ready_view (jt_unit jt) = w @ [(u, r)]"
    using assms(2) un by (auto simp: ready_pick_def split: if_splits) (metis append_butlast_last_id)
  ultimately show "u' \<le> u" by (fastforce simp: sorted_wrt_append)
qed

lemma ju_finish_interrupt:
  assumes "ju_finish_trigger result ju e = Some (dj, ju', e')"
  shows "ju_interrupt ju' \<longrightarrow> ju_interrupt ju" "ju_sq ju' = ju_sq ju" "ju_order ju'" "ju_order ju"
  using assms
  by (auto simp: ju_finish_trigger_def ju_retrigger_trigger_def bind_eq_Some_conv ju_update_ready_eq split: if_splits)

lemma ju_finish_ids:
  assumes inv: "ju_inv e ju" and t: "ju_trigger ju = Some t" and "ju_suspends ju' = ju_suspends ju"
    and "dj = None \<and> ju_trigger ju' = Some t \<or> dj = Some t \<and> ju_trigger ju' = None"
  shows "ju_ids ju' = ju_ids ju - set_option dj"
proof -
  have "t \<notin> ran (ju_suspends ju)"
    using ju_jobs_trigger_not_suspended[of e ju t] inv t by (auto simp: ju_inv_def ran_def)
  then show ?thesis using assms by (auto simp: ju_ids_def)
qed

lemma jt_finish_trigger_spec:
  fixes result :: job_result
  assumes inv: "jt_inv e jt" and fresh: "tb_fresh (jt_unit jt)" and ju: "uv_of (jt_unit jt) u = Some ju"
    and t: "ju_trigger ju = Some t" "je_jobs e t = Some jb"
  defines "again \<equiv> result = Done \<and> jb_kind jb = Restart \<and> jb_run_kind jb = Stop"
  shows "\<exists>jt' e'. jt_finish_trigger dd u result jt e = Some (if again then None else Some t, jt', e') \<and>
    jt_inv e' jt' \<and> tb_fresh (jt_unit jt') \<and> jt_id jt' = (if again then jt_id jt else jt_id jt - {t}) \<and>
    (\<not> again \<longrightarrow> (\<forall>u' ju'. u' \<in> related dd u \<longrightarrow> uv_of (jt_unit jt') u' = Some ju' \<longrightarrow>
       \<not> ju_pause ju' \<and> (ju_ready ju' \<longleftrightarrow> ju_next ju' \<noteq> None)))"
proof -
  let ?t = "jt_unit jt" and ?dj = "if again then None else Some t"
  from inv have i: "tb_inv e ?t" "ut_sync ?t" "jt_id jt = tb_ids ?t" by (simp_all add: jt_inv_def)
  then have core: "tb_core e ?t" and clean: "tb_clean ?t" by (simp_all add: tb_inv_def)
  note un = tb_uvD[OF core ju]
  have order: "ju_order ju" using un(3) clean ju by (auto simp: tb_clean_iff ju_settled_def)
  have "ju_trigger ju \<noteq> None" using t by simp
  from ut_finish_trigger_spec[OF i(1,2) ju this, of result] obtain dj ju' t' e' where f:
    "ut_finish_trigger u result ?t e = Some (dj, t', e')" "ju_finish_trigger result ju e = Some (dj, ju', e')"
    "tb_inv e' t'" "ut_sync t'" "uv_of t' = (uv_of ?t)(u := uv_gc (ju_settle ju'))"
    by (elim exE conjE) (rule that; assumption)
  from ju_finish_trigger_spec[OF un(2) order t, of result] f(2) have d: "dj = ?dj"
    "ju_trigger ju' = (if again then Some t else None)" "ju_suspends ju' = ju_suspends ju"
    by (auto simp: again_def)
  have ids: "ju_ids ju' = ju_ids ju - set_option dj"
    by (rule ju_finish_ids[OF un(2) t(1) d(3)]) (use d in auto)
  have "set_option dj \<subseteq> ju_ids ju" using d(1) t(1) by (auto simp: ju_ids_def)
  with ids have tids: "tb_ids t' = tb_ids ?t - set_option dj"
    by (intro tb_ids_shrink[OF core f(5)]) (simp_all add: ju)
  have "\<not> ju_stale_interrupt ju" using fresh ju by (auto simp: tb_fresh_def)
  then have "\<not> ju_stale_interrupt ju'"
    using ju_finish_interrupt[OF f(2)] by (auto simp: ju_stale_interrupt_def)
  then have fr: "tb_fresh t'" by (intro tb_fresh_upd[OF fresh f(5)]) (auto simp: uv_gc_Some)
  define jt1 where "jt1 = jt\<lparr>jt_unit := t', jt_id := jt_id jt - set_option dj\<rparr>"
  have j1: "jt_inv e' jt1" "tb_fresh (jt_unit jt1)" "jt_id jt1 = jt_id jt - set_option dj"
    using f(3,4) tids i(3) fr by (simp_all add: jt_inv_def jt1_def)
  show ?thesis
  proof (cases again)
    case True
    then have "jt_finish_trigger dd u result jt e = Some (None, jt1, e')"
      using f(1) d(1) by (simp add: jt_finish_trigger_def jt1_def)
    then show ?thesis using True j1 d(1) by auto
  next
    case False
    from process_relation_spec[OF j1(1,2), of dd u] obtain jt2 where p: "process_relation dd u jt1 = Some jt2"
      "jt_inv e' jt2" "tb_fresh (jt_unit jt2)" "jt_id jt2 = jt_id jt1"
      "\<forall>u'. uv_of (jt_unit jt2) u' =
         (if u' \<in> related dd u then map_option ju_resumed (uv_of (jt_unit jt1) u') else uv_of (jt_unit jt1) u')"
      by (elim exE conjE) (rule that; assumption)
    have "jt_finish_trigger dd u result jt e = Some (Some t, jt2, e')"
      using f(1) d(1) p(1) False by (simp add: jt_finish_trigger_def jt1_def)
    moreover have "\<not> ju_pause ju2 \<and> (ju_ready ju2 \<longleftrightarrow> ju_next ju2 \<noteq> None)"
      if "u' \<in> related dd u" "uv_of (jt_unit jt2) u' = Some ju2" for u' ju2
    proof -
      have "ju_inv e' ju2" using p(2) that(2) tb_uvD(2) by (auto simp: jt_inv_def tb_inv_def)
      moreover have "\<not> ju_pause ju2" using p(5) that by auto
      ultimately show ?thesis by (simp add: ju_inv_def ju_shape_def)
    qed
    ultimately show ?thesis using False p(2-4) j1(3) d(1) by auto
  qed
qed

lemma cancel_ids:
  assumes inv: "ju_inv e ju" and m: "ju_suspends ju' = cancel_map kind1 kind2 (ju_suspends ju)" "ju_trigger ju' = ju_trigger ju"
    and dels: "set dels = {j. \<exists>k. ju_suspends ju k = Some j \<and> cancel_map kind1 kind2 (ju_suspends ju) k = None}"
  shows "ju_ids ju' = ju_ids ju - set dels" and "set dels \<subseteq> ju_ids ju"
proof -
  from inv have jobs: "ju_jobs e ju" by (simp add: ju_inv_def)
  let ?m = "cancel_map kind1 kind2 (ju_suspends ju)"
  have "j \<in> ran ?m \<longleftrightarrow> j \<in> ran (ju_suspends ju) \<and> j \<notin> set dels" for j
  proof
    assume "j \<in> ran ?m"
    then obtain k where k: "?m k = Some j" by (auto simp: ran_def)
    then have s: "ju_suspends ju k = Some j" by (rule cancel_map_le)
    have "j \<notin> set dels"
    proof
      assume "j \<in> set dels"
      then obtain k' where k': "ju_suspends ju k' = Some j" "?m k' = None" unfolding dels by blast
      with ju_jobs_inj[OF jobs k'(1) s] k show False by simp
    qed
    then show "j \<in> ran (ju_suspends ju) \<and> j \<notin> set dels" using ranI[of "ju_suspends ju", OF s] by simp
  next
    assume "j \<in> ran (ju_suspends ju) \<and> j \<notin> set dels"
    then obtain k where k: "ju_suspends ju k = Some j" "?m k \<noteq> None" by (auto simp: dels ran_def)
    from k(2) obtain i where i: "?m k = Some i" by blast
    from cancel_map_le[OF i] k(1) i have "?m k = Some j" by simp
    then show "j \<in> ran ?m" by (rule ranI)
  qed
  moreover have "set_option (ju_trigger ju) \<inter> set dels = {}"
    using ju_jobs_trigger_not_suspended[OF jobs] by (auto simp: dels)
  ultimately show "ju_ids ju' = ju_ids ju - set dels" using m by (auto simp: ju_ids_def)
  show "set dels \<subseteq> ju_ids ju" by (auto simp: dels ju_ids_def ran_def)
qed

lemma jt_remove_suspends_spec:
  assumes inv: "jt_inv e jt" and fresh: "tb_fresh (jt_unit jt)" and ne: "result \<noteq> Done"
    and can: "\<forall>ju. uv_of (jt_unit jt) u = Some ju \<longrightarrow>
      \<not> ju_interrupt ju \<or> cancel_map kind1 kind2 (ju_suspends ju) \<noteq> Map.empty"
  shows "\<exists>dels jt' e'. jt_remove_suspends dd u kind1 kind2 result jt e = Some (dels, jt', e') \<and>
    jt_inv e' jt' \<and> tb_fresh (jt_unit jt') \<and> jt_id jt' = jt_id jt - set dels \<and>
    set dels = {j. \<exists>ju k. uv_of (jt_unit jt) u = Some ju \<and> ju_suspends ju k = Some j \<and>
      cancel_map kind1 kind2 (ju_suspends ju) k = None} \<and>
    je_units e' = je_units e \<and> je_notes e' = je_notes e"
proof (cases "uv_of (jt_unit jt) u")
  case None
  then show ?thesis using inv fresh
    by (auto simp: jt_remove_suspends_def ut_remove_suspends_def jt_inv_def uv_of_def)
next
  case (Some ju)
  let ?t = "jt_unit jt"
  from inv have i: "tb_inv e ?t" "ut_sync ?t" "jt_id jt = tb_ids ?t" by (simp_all add: jt_inv_def)
  then have core: "tb_core e ?t" and clean: "tb_clean ?t" by (simp_all add: tb_inv_def)
  note un = tb_uvD[OF core Some]
  have order: "ju_order ju" using un(3) clean Some by (auto simp: tb_clean_iff ju_settled_def)
  have can': "\<not> ju_interrupt ju \<or> cancel_map kind1 kind2 (ju_suspends ju) \<noteq> Map.empty" using can Some by blast
  then have cc: "can_cancel kind1 kind2 ju" using order by (auto simp: can_cancel_def)
  from ut_remove_suspends_spec[OF i(1,2) Some cc ne] obtain dels ju' t' e' where f:
    "ut_remove_suspends u kind1 kind2 result ?t e = Some (dels, t', e')" "ju_cancel kind1 kind2 result ju e = Some (dels, ju', e')"
    "tb_inv e' t'" "ut_sync t'" "uv_of t' = (uv_of ?t)(u := uv_gc (ju_settle ju'))"
    by (elim exE conjE) (rule that; assumption)
  from ju_cancel_spec[OF un(2) cc ne] f(2) have c: "ju' = reshuffle_result e (cancel_ju kind1 kind2 ju)"
    "ju_suspends ju' = cancel_map kind1 kind2 (ju_suspends ju)"
    "set dels = {j. \<exists>k. ju_suspends ju k = Some j \<and> cancel_map kind1 kind2 (ju_suspends ju) k = None}"
    "je_units e' = je_units e" "je_notes e' = je_notes e" by auto
  have tr: "ju_trigger ju' = ju_trigger ju" unfolding c(1) by (simp add: cancel_ju_def)
  note ids = cancel_ids[OF un(2) c(2) tr c(3)]
  have tids: "tb_ids t' = tb_ids ?t - set dels"
    by (rule tb_ids_shrink[OF core f(5)]) (use ids Some in simp_all)
  obtain e1 where st1: "ju_step e ju e1 (cancel_ju kind1 kind2 ju)" and u1: "je_units e1 = je_units e"
    using ju_cancel_remove[OF un(2) ne, of kind1 kind2] by (elim exE conjE) (rule that; assumption)
  then have inv1: "ju_inv e1 (cancel_ju kind1 kind2 ju)" "je_units e1 = je_units e" by (simp_all add: ju_step_def)
  have "\<not> ju_stale_interrupt (cancel_ju kind1 kind2 ju)"
    using can' by (auto simp: cancel_ju_def ju_stale_interrupt_def)
  from reshuffle_result_fresh[OF inv1(1) this] have "\<not> ju_stale_interrupt ju'"
    unfolding c(1) reshuffle_result_units[OF inv1(2)] .
  then have fr: "tb_fresh t'" by (intro tb_fresh_upd[OF fresh f(5)]) (auto simp: uv_gc_Some)
  define jt1 where "jt1 = jt\<lparr>jt_unit := t', jt_id := jt_id jt - set dels\<rparr>"
  have j1: "jt_inv e' jt1" "tb_fresh (jt_unit jt1)" "jt_id jt1 = jt_id jt - set dels"
    using f(3,4) tids i(3) fr by (simp_all add: jt_inv_def jt1_def)
  from process_relation_spec[OF j1(1,2), of dd u] obtain jt2 where p: "process_relation dd u jt1 = Some jt2"
    "jt_inv e' jt2" "tb_fresh (jt_unit jt2)" "jt_id jt2 = jt_id jt1"
    by (elim exE conjE) (rule that; assumption)
  have "\<exists>jt'. jt_remove_suspends dd u kind1 kind2 result jt e = Some (dels, jt', e') \<and>
      jt_inv e' jt' \<and> tb_fresh (jt_unit jt') \<and> jt_id jt' = jt_id jt - set dels"
    using f(1) p j1 by (cases "dels = []") (simp_all add: jt_remove_suspends_def jt1_def)
  then obtain jt' where "jt_remove_suspends dd u kind1 kind2 result jt e = Some (dels, jt', e')" "jt_inv e' jt'"
    "tb_fresh (jt_unit jt')" "jt_id jt' = jt_id jt - set dels" by blast
  then show ?thesis using c(3-5) by (intro exI[of _ dels] exI[of _ jt'] exI[of _ e']) (simp add: Some)
qed

subsection \<open>A small table\<close>

text \<open>One unit with a running start job and an ordered queue of one job of another kind.\<close>

definition ex_queued :: "job_kind \<Rightarrow> job_unit" where
  "ex_queued k = (job_unit_new ''a.service'')\<lparr>ju_suspends := [k \<mapsto> 2], ju_trigger := Some 1, ju_sq := [2],
     ju_interrupt := (k = Stop), ju_ready := (k = Stop), ju_up_ready := (k = Stop)\<rparr>"

definition ex_table :: "job_kind \<Rightarrow> job_table" where
  "ex_table k = \<lparr>jt_id = {1, 2}, jt_unit = ut_new\<lparr>ut_data := [(''a.service'', 0)],
     ut_ready := (if k = Stop then [(''a.service'', 0)] else []), ut_heap := (\<lambda>_. ex_queued k), ut_next := 1\<rparr>\<rparr>"

definition ex_staged :: "job_kind \<Rightarrow> job_table" where
  "ex_staged k = \<lparr>jt_id = {3}, jt_unit = ut_new\<lparr>ut_data := [(''a.service'', 0)],
     ut_heap := (\<lambda>_. (job_unit_new ''a.service'')\<lparr>ju_suspends := [k \<mapsto> 3], ju_order := False, ju_dirty := True\<rparr>),
     ut_next := 1, ut_sync := False\<rparr>\<rparr>"

lemma ex_queued_inv:
  assumes "k = Stop \<or> k = Verify"
  shows "ju_inv (ex_busy_env k) (ex_queued k)"
  using assms
  by (auto simp: ju_inv_def ju_jobs_def ju_recorded_def ju_shape_def job_at_def job_wf_def rkind_ok_def
      job_rkind_new_def ju_ready_ok_def ju_next_def job_re_live_def suspends_get_def trigger_get_def
      mutop_unique_def kinds_conflict_def sq_spec_def ex_queued_def ex_queue_defs)

lemma ex_absent_inv: "u \<noteq> ''a.service'' \<Longrightarrow> job_is_basic_op k \<Longrightarrow> ju_inv (ex_busy_env k) (job_unit_new u)"
  by (auto simp: ju_inv_def ju_jobs_def ju_recorded_def ju_shape_def ju_ready_ok_def ju_next_def job_re_live_def
      suspends_get_def trigger_get_def mutop_unique_def kinds_conflict_def sq_spec_def ex_queue_defs)

lemma uv_of_ex_table: "uv_of (jt_unit (ex_table k)) u = (if u = ''a.service'' then Some (ex_queued k) else None)"
  by (simp add: uv_of_def ex_table_def)

lemma ex_table_inv:
  assumes "k = Stop \<or> k = Verify"
  shows "jt_inv (ex_busy_env k) (ex_table k)" and "tb_fresh (jt_unit (ex_table k))"
proof -
  have basic: "job_is_basic_op k" using assms by auto
  have q: "ju_unit (ex_queued k) = ''a.service''" "ju_settled (ex_queued k)" "\<not> ju_dirty (ex_queued k)"
      "ju_ids (ex_queued k) = {1, 2}" "ju_up_ready (ex_queued k) = (k = Stop)"
    by (auto simp: ex_queued_def job_unit_new_def ju_settled_def ju_ids_def)
  have "tb_core (ex_busy_env k) (jt_unit (ex_table k))"
    using q ex_queued_inv[OF assms] assms
    by (auto simp: tb_core_def tb_units_def tb_ready_def ready_wf_def ready_view_def ex_table_def ut_new_def)
  moreover have "tb_db (ex_busy_env k) (jt_unit (ex_table k))"
    using ex_absent_inv[OF _ basic] by (simp add: tb_db_def uv_of_ex_table)
  moreover have "tb_clean (jt_unit (ex_table k))" using q(3) by (simp add: tb_clean_iff uv_of_ex_table)
  moreover have "tb_ids (jt_unit (ex_table k)) = {1, 2}"
    using q(4) by (simp add: set_eq_iff tb_ids_iff uv_of_ex_table)
  ultimately show "jt_inv (ex_busy_env k) (ex_table k)"
    by (simp add: jt_inv_def tb_inv_def) (simp add: ex_table_def ut_new_def)
  show "tb_fresh (jt_unit (ex_table k))"
    by (simp add: tb_fresh_def uv_of_ex_table ju_stale_interrupt_def ex_queued_def job_unit_new_def)
qed

lemma ex_staged_ok:
  assumes "k = Stop \<or> k = Verify"
  shows "stage_ok (ex_busy_env k) (jt_unit (ex_staged k))" "jt_id (ex_staged k) = tb_ids (jt_unit (ex_staged k))"
    "\<not> ut_is_suspends_conflict (jt_unit (ex_staged k))"
  using assms
  by (auto simp: stage_ok_def uv_of_def ex_staged_def job_at_def ex_queue_defs job_wf_def rkind_ok_def job_rkind_new_def
      tb_ids_def ju_ids_def ut_is_suspends_conflict_def ju_is_suspends_conflict_iff kinds_conflict_def fun_eq_iff)

subsection \<open>Properties\<close>



text \<open>
  C3: triggering from a table at rest never panics and keeps the invariant. It reports
  nothing exactly when no unit (or not the named one) is ready. Otherwise it takes the named
  unit or the last ready one in unit order; the unit's next job starts only if no related
  unit has a job that goes before it, and if it may not start the unit is paused and nothing
  else happens.
\<close>

theorem jt_try_trigger_correct:
  assumes "jt_inv e jt"
  shows "\<exists>ret jt' e'. jt_try_trigger act dd un jt e = Some (ret, jt', e') \<and> jt_inv e' jt' \<and>
    (ret = None \<longleftrightarrow>
       (\<forall>u ju. uv_of (jt_unit jt) u = Some ju \<longrightarrow> ju_ready ju \<longrightarrow> (\<exists>x. un = Some x \<and> x \<noteq> u))) \<and>
    (\<forall>info mj. ret = Some (info, mj) \<longrightarrow>
       (\<exists>u ju j ju'. uv_of (jt_unit jt) u = Some ju \<and> ju_ready ju \<and> ju_next_job ju = Some j \<and>
          (\<forall>x. un = Some x \<longrightarrow> x = u) \<and>
          (un = None \<longrightarrow> (\<forall>v jv. uv_of (jt_unit jt) v = Some jv \<longrightarrow> ju_ready jv \<longrightarrow> v \<le> u)) \<and>
          (info \<noteq> None \<longleftrightarrow> order_allows dd e (jt_unit jt) u j) \<and>
          uv_of (jt_unit jt') = (uv_of (jt_unit jt))(u \<mapsto> ju') \<and>
          (if info \<noteq> None then ju_trigger ju' = Some j else ju' = ju_paused ju \<and> e' = e)))"
proof -
  let ?t = "jt_unit jt"
  from assms have inv: "tb_inv e ?t" "ut_sync ?t" "jt_id jt = tb_ids ?t" by (simp_all add: jt_inv_def)
  show ?thesis
  proof (cases "ready_pick un (ready_view ?t)")
    case None
    from do_try_trigger_None[OF inv(1,2) None, of act dd] obtain t' where d:
      "do_try_trigger act dd un ?t e = Some (None, t', e)" "tb_inv e t'" "ut_sync t'" "uv_of t' = uv_of ?t" by blast
    have "tb_ids t' = tb_ids ?t" using d(4) by (simp add: tb_ids_def)
    then have "jt_inv e (jt\<lparr>jt_unit := t', jt_id := jt_id jt\<rparr>)" using d inv by (simp add: jt_inv_def)
    moreover have "jt_try_trigger act dd un jt e = Some (None, jt\<lparr>jt_unit := t', jt_id := jt_id jt\<rparr>, e)"
      using d(1) by (simp add: jt_try_trigger_def)
    moreover note ready_pick_None[OF assms, of un, THEN iffD1, OF None]
    ultimately show ?thesis by blast
  next
    case (Some p)
    obtain u r where p: "p = (u, r)" by (cases p)
    note pick = Some[unfolded p]
    from do_try_trigger_Some[OF inv(1,2) pick, of act dd] obtain ju j ret mj t' e' where d:
      "uv_of ?t u = Some ju" "ju_ready ju" "ju_next_job ju = Some j"
      "do_try_trigger act dd un ?t e = Some (Some (ret, mj), t', e')" "tb_inv e' t'" "ut_sync t'"
      "tb_ids t' = tb_ids ?t - set_option mj"
      "if order_allows dd e ?t u j
       then \<exists>ju' cb res. ret = Some (job_info_map cb, res) \<and> je_jobs e j = Some cb \<and>
         ju_do_trigger act (ju\<lparr>ju_up_ready := False\<rparr>) e = Some ((ret, mj), ju', e') \<and>
         uv_of t' = (uv_of ?t)(u \<mapsto> ju'\<lparr>ju_dirty := False\<rparr>) \<and> ju_trigger ju' = Some j
       else ret = None \<and> mj = None \<and> e' = e \<and> uv_of t' = (uv_of ?t)(u \<mapsto> ju_paused ju)"
      by (elim exE conjE) (rule that; assumption)
    define jt' where "jt' = jt\<lparr>jt_unit := t', jt_id := jt_id jt - set_option mj\<rparr>"
    have run: "jt_try_trigger act dd un jt e = Some (Some (ret, mj), jt', e')"
      using d(4) by (cases mj) (simp_all add: jt_try_trigger_def jt'_def)
    have inv': "jt_inv e' jt'" using d(5-7) inv(3) by (simp add: jt_inv_def jt'_def)
    obtain ju' where ju': "ret \<noteq> None \<longleftrightarrow> order_allows dd e ?t u j" "uv_of (jt_unit jt') = (uv_of ?t)(u \<mapsto> ju')"
      "if ret \<noteq> None then ju_trigger ju' = Some j else ju' = ju_paused ju \<and> e' = e"
    proof (cases "order_allows dd e ?t u j")
      case True
      with d(8) obtain ja where "ret \<noteq> None" "uv_of t' = (uv_of ?t)(u \<mapsto> ja\<lparr>ju_dirty := False\<rparr>)" "ju_trigger ja = Some j"
        by auto
      then show ?thesis using True that[of "ja\<lparr>ju_dirty := False\<rparr>"] by (simp add: jt'_def)
    qed (use d(8) that[of "ju_paused ju"] in \<open>simp add: jt'_def\<close>)
    have lst: "un = None \<longrightarrow> (\<forall>v jv. uv_of ?t v = Some jv \<longrightarrow> ju_ready jv \<longrightarrow> v \<le> u)"
      by (intro impI allI) (rule ready_pick_last(2)[OF assms pick])
    have "Some (ret, mj) = None \<longleftrightarrow>
        (\<forall>u ju. uv_of ?t u = Some ju \<longrightarrow> ju_ready ju \<longrightarrow> (\<exists>x. un = Some x \<and> x \<noteq> u))"
      using ready_pick_None[OF assms, of un] pick by simp
    moreover have "\<exists>u ju j ju'. uv_of ?t u = Some ju \<and> ju_ready ju \<and> ju_next_job ju = Some j \<and>
        (\<forall>x. un = Some x \<longrightarrow> x = u) \<and>
        (un = None \<longrightarrow> (\<forall>v jv. uv_of ?t v = Some jv \<longrightarrow> ju_ready jv \<longrightarrow> v \<le> u)) \<and>
        (ret \<noteq> None \<longleftrightarrow> order_allows dd e ?t u j) \<and> uv_of (jt_unit jt') = (uv_of ?t)(u \<mapsto> ju') \<and>
        (if ret \<noteq> None then ju_trigger ju' = Some j else ju' = ju_paused ju \<and> e' = e)"
      by (intro exI[of _ u] exI[of _ ju] exI[of _ j] exI[of _ ju'] conjI d(1) d(2) d(3) ju' lst
          ready_pick_last(1)[OF assms pick])
    ultimately show ?thesis using run inv'
      by (intro exI[of _ "Some (ret, mj)"] exI[of _ jt'] exI[of _ e'] conjI) (simp_all only: option.inject prod.inject, blast)
  qed
qed

theorem jt_try_trigger_correct_witness:
  "\<exists>info mj jt' e'. jt_try_trigger ex_act ex_deps None (ex_table Stop) (ex_busy_env Stop) =
     Some (Some (info, mj), jt', e') \<and> jt_inv e' jt'"
proof -
  have s: "Stop = Stop \<or> Stop = Verify" by simp
  have "uv_of (jt_unit (ex_table Stop)) ''a.service'' = Some (ex_queued Stop)" "ju_ready (ex_queued Stop)"
    by (simp_all add: uv_of_ex_table) (simp add: ex_queued_def)
  note ready = this
  obtain ret jt' e' where r: "jt_try_trigger ex_act ex_deps None (ex_table Stop) (ex_busy_env Stop) = Some (ret, jt', e')"
    "jt_inv e' jt'" and none: "ret = None \<longleftrightarrow> (\<forall>u ju. uv_of (jt_unit (ex_table Stop)) u = Some ju \<longrightarrow> ju_ready ju \<longrightarrow>
       (\<exists>x. None = Some x \<and> x \<noteq> u))"
    using jt_try_trigger_correct[OF ex_table_inv(1)[OF s], of ex_act ex_deps None]
    by (elim exE conjE) (rule that; assumption)
  from none ready have "ret \<noteq> None" by blast
  then show ?thesis using r by (cases ret) auto
qed

text \<open>
  C4: when the running job of a unit is finished, it leaves the table (the stop half of a
  restart stays, to be run as a start), and every unit ordered before or after this one is
  no longer paused, so it is ready again whenever it has something to do.
\<close>

theorem jt_finish_trigger_correct:
  assumes "jt_inv e jt" and "tb_fresh (jt_unit jt)" and "uv_of (jt_unit jt) u = Some ju"
    and "ju_trigger ju = Some t" and "je_jobs e t = Some jb"
    and "\<not> (result = Done \<and> jb_kind jb = Restart \<and> jb_run_kind jb = Stop)"
  shows "\<exists>jt' e'. jt_finish_trigger dd u result jt e = Some (Some t, jt', e') \<and>
    jt_inv e' jt' \<and> tb_fresh (jt_unit jt') \<and> jt_id jt' = jt_id jt - {t} \<and>
    (\<forall>u' ju'. u' \<in> related dd u \<longrightarrow> uv_of (jt_unit jt') u' = Some ju' \<longrightarrow>
       \<not> ju_pause ju' \<and> (ju_ready ju' \<longleftrightarrow> ju_next ju' \<noteq> None))"
  using jt_finish_trigger_spec[OF assms(1-5), of dd result]
  unfolding if_not_P[OF assms(6)] by (simp only: assms(6) not_False_eq_True simp_thms)

theorem jt_finish_trigger_correct_witness:
  "\<exists>jt' e'. jt_finish_trigger ex_deps ''a.service'' Done (ex_table Verify) (ex_busy_env Verify) = Some (Some 1, jt', e') \<and>
     jt_inv e' jt' \<and> jt_id jt' = {2}"
proof -
  have s: "Verify = Stop \<or> Verify = Verify" by simp
  have u: "uv_of (jt_unit (ex_table Verify)) ''a.service'' = Some (ex_queued Verify)" by (simp add: uv_of_ex_table)
  have t: "ju_trigger (ex_queued Verify) = Some 1" by (simp add: ex_queued_def)
  have j: "je_jobs (ex_busy_env Verify) 1 = Some (ex_job 1 Start Running)" by (simp add: ex_busy_env_def)
  have n: "\<not> (Done = Done \<and> jb_kind (ex_job 1 Start Running) = Restart \<and> jb_run_kind (ex_job 1 Start Running) = Stop)"
    by (simp add: ex_job_def job_new_def)
  have "jt_id (ex_table Verify) - {1} = {2}" by (auto simp: ex_table_def)
  with jt_finish_trigger_correct[OF ex_table_inv[OF s] u t j n, of ex_deps] show ?thesis
    by (elim exE conjE) (intro exI conjI; simp)
qed

text \<open>
  cancelling suspended jobs of a unit never panics as long as it does not take away the
  last waiting job while an interrupt is pending; exactly the jobs of the named kinds leave
  the unit and the id table.
\<close>

theorem jt_remove_suspends_correct:
  assumes "jt_inv e jt" and "tb_fresh (jt_unit jt)" and "result \<noteq> Done"
    and "\<forall>ju. uv_of (jt_unit jt) u = Some ju \<longrightarrow>
      \<not> ju_interrupt ju \<or> cancel_map kind1 kind2 (ju_suspends ju) \<noteq> Map.empty"
  shows "\<exists>dels jt' e'. jt_remove_suspends dd u kind1 kind2 result jt e = Some (dels, jt', e') \<and>
    jt_inv e' jt' \<and> tb_fresh (jt_unit jt') \<and> jt_id jt' = jt_id jt - set dels \<and>
    set dels = {j. \<exists>ju k. uv_of (jt_unit jt) u = Some ju \<and> ju_suspends ju k = Some j \<and>
      (k = kind1 \<or> Some k = kind2)}"
proof -
  have k: "cancel_map kind1 kind2 m k = None \<longleftrightarrow> m k = None \<or> k = kind1 \<or> Some k = kind2"
    for m :: "job_kind \<rightharpoonup> u32" and k
    by (cases kind2) (auto simp: cancel_map_def)
  have "{j. \<exists>ju k. uv_of (jt_unit jt) u = Some ju \<and> ju_suspends ju k = Some j \<and>
      cancel_map kind1 kind2 (ju_suspends ju) k = None} =
    {j. \<exists>ju k. uv_of (jt_unit jt) u = Some ju \<and> ju_suspends ju k = Some j \<and> (k = kind1 \<or> Some k = kind2)}"
    unfolding k by auto
  with jt_remove_suspends_spec[OF assms, of dd] show ?thesis by (elim exE conjE) (intro exI conjI; simp)
qed

theorem jt_remove_suspends_correct_witness:
  "\<exists>dels jt' e'. jt_remove_suspends ex_deps ''a.service'' Start (Some Verify) Dependency (ex_table Verify) (ex_busy_env Verify) =
     Some (dels, jt', e') \<and> jt_inv e' jt' \<and> set dels = {2}"
proof -
  have s: "Verify = Stop \<or> Verify = Verify" by simp
  have "\<forall>ju. uv_of (jt_unit (ex_table Verify)) ''a.service'' = Some ju \<longrightarrow>
      \<not> ju_interrupt ju \<or> cancel_map Start (Some Verify) (ju_suspends ju) \<noteq> Map.empty"
    by (simp add: uv_of_ex_table ex_queued_def)
  from jt_remove_suspends_correct[OF ex_table_inv[OF s] _ this, of Dependency ex_deps]
  show ?thesis by (auto simp: uv_of_ex_table ex_queued_def split: if_splits)
qed

text \<open>
  The cheap test \<open>calc_ready\<close>, which decides whether the job manager asks for another
  turn of the event loop, is equivalent to some unit being ready.
\<close>

theorem jt_calc_ready_iff:
  assumes "jt_inv e jt"
  shows "ut_calc_ready (jt_unit jt) \<longleftrightarrow> (\<exists>u ju. uv_of (jt_unit jt) u = Some ju \<and> ju_ready ju)"
  using assms by (rule calc_ready_spec)

theorem jt_calc_ready_iff_witness: "ut_calc_ready (jt_unit (ex_table Stop)) \<and> \<not> ut_calc_ready (jt_unit (ex_table Verify))"
proof -
  have "jt_inv (ex_busy_env Stop) (ex_table Stop)" "jt_inv (ex_busy_env Verify) (ex_table Verify)"
    by (rule ex_table_inv; simp)+
  from this[THEN jt_calc_ready_iff] show ?thesis by (simp add: uv_of_ex_table ex_queued_def job_unit_new_def)
qed

text \<open>
  \<open>remove_unit\<close> forgets a unit in the two maps but not in \<open>readys\<close>: if the ready units
  had been moved there, the next \<open>ready_pop\<close> still returns the job unit of the removed unit,
  which no longer is in the table.
\<close>

theorem jt_remove_unit_stays_ready:
  assumes "ut_readys t = rs @ [r]" and "map_of (ut_data t) u = Some r"
  shows "fst (ready_pop None (ut_remove_unit u t)) = Some r \<and> uv_of (ut_remove_unit u t) u = None"
  using assms by (simp add: ready_pop_def readys_fill_def ut_remove_unit_def uv_of_def Let_def)

theorem jt_remove_unit_stays_ready_witness:
  "fst (ready_pop None (ut_remove_unit ''a.service'' (readys_fill (jt_unit (ex_table Stop))))) = Some 0"
  by (rule jt_remove_unit_stays_ready[of _ "[]", THEN conjunct1]) (simp_all add: readys_fill_def ex_table_def ut_new_def)

end
