(* ===== verification/Job_Transaction.thy ===== *)
theory Job_Transaction
  imports Job_Table
begin

section \<open>Transactions on the job table (core/bin/job/transaction.rs, notify.rs)\<close>

text \<open>
  A request is expanded over the dependencies into a staging table, adjusted by its mode
  and verified against the table of jobs; a failed job takes the jobs that depend on it
  with it. The two recursive functions take fuel, the depth of the recursion; \<open>None\<close> is a
  panic or the end of the fuel, and it is proved that enough fuel exists.

  \<open>dep_gets_atom\<close> of \<open>UnitDb\<close> is \<open>gets_atom\<close> of the dependency table, \<open>units_get_all\<close> its
  list of units.
\<close>

type_synonym 'd trans_state = "job_table \<times> 'd job_env"

type_synonym 'd trans_call =
  "job_conf \<Rightarrow> job_mode \<Rightarrow> 'd trans_state \<Rightarrow> ((error + unit) \<times> 'd trans_state) option"

subsection \<open>Expanding a request\<close>

definition trans_is_expand :: "job_conf \<Rightarrow> bool \<Rightarrow> job_mode \<Rightarrow> bool" where
  "trans_is_expand conf new mode =
     (if jc_kind conf = Nop then False
      else if \<not> new then False
      else if mode = IgnoreDependencies \<or> mode = IgnoreRequirements then False
      else True)"

text \<open>
  The loops of the expansion. A \<open>lenient\<close> loop drops every error; the others go on after
  \<open>BadRequest\<close> and return any other error.
\<close>

fun trans_expand_each ::
  "'d trans_call \<Rightarrow> bool \<Rightarrow> job_kind \<Rightarrow> job_mode \<Rightarrow> uid list \<Rightarrow> 'd trans_state \<Rightarrow>
   ((error + unit) \<times> 'd trans_state) option" where
  "trans_expand_each expand lenient kind mode [] s = Some (Inr (), s)"
| "trans_expand_each expand lenient kind mode (other # others) s = do {
     (r, s1) \<leftarrow> expand (job_conf_new other kind) mode s;
     (case r of
        Inl err \<Rightarrow> if lenient \<or> err = BadRequest then trans_expand_each expand lenient kind mode others s1
                   else Some (Inl err, s1)
      | Inr _ \<Rightarrow> trans_expand_each expand lenient kind mode others s1)
   }"

text \<open>The \<open>?\<close> operator: go on only after \<open>Ok\<close>.\<close>

definition try_then ::
  "((error + unit) \<times> 's) option \<Rightarrow> ('s \<Rightarrow> ((error + unit) \<times> 's) option) \<Rightarrow> ((error + unit) \<times> 's) option" where
  "try_then x f = do { (r, s) \<leftarrow> x; (case r of Inl err \<Rightarrow> Some (Inl err, s) | Inr _ \<Rightarrow> f s) }"

definition trans_expand_start ::
  "'d trans_call \<Rightarrow> 'x unit_dep_data \<Rightarrow> job_conf \<Rightarrow> job_mode \<Rightarrow> 'd trans_state \<Rightarrow>
   ((error + unit) \<times> 'd trans_state) option" where
  "trans_expand_start expand dd conf mode s = (let u = jc_unit conf in
     try_then (trans_expand_each expand True Start mode (gets_atom dd u UnitAtomPullInStart) s) (\<lambda>s.
     try_then (trans_expand_each expand True Start mode (gets_atom dd u UnitAtomPullInStartIgnored) s) (\<lambda>s.
     try_then (trans_expand_each expand False Verify mode (gets_atom dd u UnitAtomPullInVerify) s) (\<lambda>s.
     try_then (trans_expand_each expand False Stop mode (gets_atom dd u UnitAtomPullInStop) s) (\<lambda>s.
     trans_expand_each expand True Stop mode (gets_atom dd u UnitAtomPullInStopIgnored) s)))))"

definition trans_expand_stop ::
  "'d trans_call \<Rightarrow> 'x unit_dep_data \<Rightarrow> job_conf \<Rightarrow> job_mode \<Rightarrow> 'd trans_state \<Rightarrow>
   ((error + unit) \<times> 'd trans_state) option" where
  "trans_expand_stop expand dd conf mode s = do {
     (expand_atom, expand_kind) \<leftarrow>
       (case jc_kind conf of
          Stop \<Rightarrow> Some (UnitAtomPropagateStop, Stop)
        | Restart \<Rightarrow> Some (UnitAtomPropagateRestart, TryRestart)
        | _ \<Rightarrow> None);
     trans_expand_each expand False expand_kind mode (gets_atom dd (jc_unit conf) expand_atom) s
   }"

definition trans_expand_reload ::
  "'d trans_call \<Rightarrow> 'x unit_dep_data \<Rightarrow> job_conf \<Rightarrow> job_mode \<Rightarrow> 'd trans_state \<Rightarrow>
   ((error + unit) \<times> 'd trans_state) option" where
  "trans_expand_reload expand dd conf mode s =
     trans_expand_each expand True TryReload mode (gets_atom dd (jc_unit conf) UnitAtomPropagatesReloadTo) s"

primrec job_trans_expand :: "nat \<Rightarrow> 'x unit_dep_data \<Rightarrow> 'd trans_call" where
  "job_trans_expand 0 dd = (\<lambda>config mode s. None)"
| "job_trans_expand (Suc n) dd = (\<lambda>config mode s. do {
     let conf = job_conf_map (je_units (snd s)) config;
     (new, s1) \<leftarrow> jt_record_suspend conf mode (fst s) (snd s);
     if trans_is_expand conf new mode
     then (case jc_kind conf of
         Start \<Rightarrow> trans_expand_start (job_trans_expand n dd) dd conf mode s1
       | Stop \<Rightarrow> trans_expand_stop (job_trans_expand n dd) dd conf mode s1
       | Reload \<Rightarrow> trans_expand_reload (job_trans_expand n dd) dd conf mode s1
       | Restart \<Rightarrow> try_then (trans_expand_start (job_trans_expand n dd) dd conf mode s1)
                     (trans_expand_stop (job_trans_expand n dd) dd conf mode)
       | Verify \<Rightarrow> Some (Inr (), s1)
       | Nop \<Rightarrow> Some (Inr (), s1)
       | _ \<Rightarrow> None)
     else Some (Inr (), s1)
   })"

subsection \<open>The effect of the mode\<close>

text \<open>The bodies of the two loops; errors of the expansion are dropped.\<close>

definition trans_isolate_one ::
  "nat \<Rightarrow> 'x unit_dep_data \<Rightarrow> job_mode \<Rightarrow> uid \<Rightarrow> 'd trans_state \<Rightarrow> 'd trans_state option" where
  "trans_isolate_one n dd mode other s =
     (if IgnoreOnIsolate (u_config (je_units (snd s)) other) then Some s
      else if \<not> ut_is_unit_empty (jt_unit (fst s)) other then Some s
      else map_option snd (job_trans_expand n dd (job_conf_new other Stop) mode s))"

definition trans_affect_isolate ::
  "nat \<Rightarrow> 'x unit_dep_data \<Rightarrow> job_mode \<Rightarrow> 'd trans_state \<Rightarrow> ((error + unit) \<times> 'd trans_state) option" where
  "trans_affect_isolate n dd mode s = do {
     rust_assert (mode = Isolate);
     s' \<leftarrow> for_each (trans_isolate_one n dd mode) (dd_units dd) s;
     Some (Inr (), s')
   }"

definition trans_trigger_one ::
  "nat \<Rightarrow> 'x unit_dep_data \<Rightarrow> uid \<Rightarrow> job_mode \<Rightarrow> uid \<Rightarrow> 'd trans_state \<Rightarrow> 'd trans_state option" where
  "trans_trigger_one n dd u mode other s =
     (if \<not> ut_is_unit_empty (jt_unit (fst s)) u then Some s
      else map_option snd (job_trans_expand n dd (job_conf_new other Stop) mode s))"

definition trans_affect_trigger ::
  "nat \<Rightarrow> 'x unit_dep_data \<Rightarrow> job_conf \<Rightarrow> job_mode \<Rightarrow> 'd trans_state \<Rightarrow> ((error + unit) \<times> 'd trans_state) option" where
  "trans_affect_trigger n dd config mode s = do {
     rust_assert (jc_kind config = Stop);
     rust_assert (mode = Trigger);
     s' \<leftarrow> for_each (trans_trigger_one n dd (jc_unit config) mode)
            (gets_atom dd (jc_unit config) UnitAtomTriggeredBy) s;
     Some (Inr (), s')
   }"

definition job_trans_affect ::
  "nat \<Rightarrow> 'x unit_dep_data \<Rightarrow> job_conf \<Rightarrow> job_mode \<Rightarrow> 'd trans_state \<Rightarrow> ((error + unit) \<times> 'd trans_state) option" where
  "job_trans_affect n dd config mode s =
     (case mode of
        Isolate \<Rightarrow> trans_affect_isolate n dd mode s
      | Trigger \<Rightarrow> trans_affect_trigger n dd config mode s
      | _ \<Rightarrow> Some (Inr (), s))"

subsection \<open>Verifying a request\<close>

definition trans_verify_is_conflict :: "job_table \<Rightarrow> error + unit" where
  "trans_verify_is_conflict stage =
     (if ut_is_suspends_conflict (jt_unit stage) then Inl Conflict else Inr ())"

definition trans_verify_is_destructive ::
  "'d job_env \<Rightarrow> job_table \<Rightarrow> job_table \<Rightarrow> job_mode \<Rightarrow> (error + unit) option" where
  "trans_verify_is_destructive e stage jobs mode = do {
     rust_assert (\<not> ut_is_suspends_conflict (jt_unit jobs));
     if \<not> ut_is_suspends_conflict_with (jt_unit jobs) (jt_unit stage) then Some (Inr ())
     else if mode \<noteq> Fail then do {
       b \<leftarrow> ut_is_suspends_replace_with e (jt_unit jobs) (jt_unit stage);
       if b then Some (Inr ()) else Some (Inl Conflict)
     }
     else Some (Inl Conflict)
   }"

definition job_trans_verify ::
  "'d job_env \<Rightarrow> job_table \<Rightarrow> job_table \<Rightarrow> job_mode \<Rightarrow> (error + unit) option" where
  "job_trans_verify e stage jobs mode =
     (case trans_verify_is_conflict stage of
        Inl err \<Rightarrow> Some (Inl err)
      | Inr _ \<Rightarrow> trans_verify_is_destructive e stage jobs mode)"

subsection \<open>Falling back after a failure\<close>

text \<open>One turn of the loop of \<open>trans_fallback\<close>; the state carries the deleted jobs.\<close>

definition trans_fallback_one ::
  "'x unit_dep_data \<Rightarrow> job_result \<Rightarrow> uid \<Rightarrow> u32 list \<times> 'd trans_state \<Rightarrow> (u32 list \<times> 'd trans_state) option" where
  "trans_fallback_one dd f_result other s = (case s of (del_jobs, jobs, e) \<Rightarrow> do {
     (dels, jobs', e') \<leftarrow> jt_remove_suspends dd other Start (Some Verify) f_result jobs e;
     Some (del_jobs @ dels, jobs', e')
   })"

definition trans_fallback ::
  "'x unit_dep_data \<Rightarrow> uid \<Rightarrow> job_result \<Rightarrow> unit_relation_atom \<Rightarrow> 'd trans_state \<Rightarrow>
   (u32 list \<times> 'd trans_state) option" where
  "trans_fallback dd u f_result atom s =
     for_each (trans_fallback_one dd f_result) (gets_atom dd u atom) ([], s)"

definition trans_fallback_start ::
  "'x unit_dep_data \<Rightarrow> uid \<Rightarrow> job_result \<Rightarrow> 'd trans_state \<Rightarrow> (u32 list \<times> 'd trans_state) option" where
  "trans_fallback_start dd u f_result s = trans_fallback dd u f_result UnitAtomPropagateStartFailure s"

definition trans_fallback_stop ::
  "'x unit_dep_data \<Rightarrow> uid \<Rightarrow> job_result \<Rightarrow> 'd trans_state \<Rightarrow> (u32 list \<times> 'd trans_state) option" where
  "trans_fallback_stop dd u f_result s = trans_fallback dd u f_result UnitAtomPropagateStopFailure s"

definition trans_fallback_action ::
  "'x unit_dep_data \<Rightarrow> uid \<Rightarrow> job_kind \<Rightarrow> job_result \<Rightarrow> 'd trans_state \<Rightarrow> (u32 list \<times> 'd trans_state) option" where
  "trans_fallback_action dd u run_kind f_result s =
     (case run_kind of
        Start \<Rightarrow> trans_fallback_start dd u f_result s
      | Stop \<Rightarrow> trans_fallback_stop dd u f_result s
      | Verify \<Rightarrow> trans_fallback_start dd u f_result s
      | _ \<Rightarrow> Some ([], s))"

primrec trans_fallback_body ::
  "nat \<Rightarrow> 'x unit_dep_data \<Rightarrow> uid \<Rightarrow> job_kind \<Rightarrow> job_result \<Rightarrow> u32 list \<times> 'd trans_state \<Rightarrow>
   (u32 list \<times> 'd trans_state) option" where
  "trans_fallback_body 0 dd u run_kind f_result s = None"
| "trans_fallback_body (Suc n) dd u run_kind f_result s = do {
     (dels, s1) \<leftarrow> trans_fallback_action dd u run_kind f_result (snd s);
     (del_jobs, s2) \<leftarrow> for_each (\<lambda>j st. do {
         jb \<leftarrow> je_jobs (snd (snd st)) j;
         trans_fallback_body n dd (jb_unit jb) (jb_run_kind jb) f_result st
       }) dels (fst s, s1);
     Some (del_jobs @ dels, s2)
   }"

definition job_trans_fallback ::
  "nat \<Rightarrow> 'x unit_dep_data \<Rightarrow> uid \<Rightarrow> job_kind \<Rightarrow> job_result \<Rightarrow> 'd trans_state \<Rightarrow>
   (u32 list \<times> 'd trans_state) option" where
  "job_trans_fallback n dd u run_kind f_result s = trans_fallback_body n dd u run_kind f_result ([], s)"

subsection \<open>Requests that follow from a state change (notify.rs)\<close>

definition notify_result_start :: "'x unit_dep_data \<Rightarrow> uid \<Rightarrow> unit_relation_atom \<Rightarrow> job_conf list option" where
  "notify_result_start dd u atom = do {
     rust_assert (atom = UnitAtomOnSuccess \<or> atom = UnitAtomOnFailure);
     Some (map (\<lambda>other. job_conf_new other Start) (gets_atom dd u atom))
   }"

definition job_notify_result ::
  "'x unit_dep_data \<Rightarrow> uid \<Rightarrow> unit_relation_atom \<Rightarrow> job_mode \<Rightarrow> (job_conf list \<times> job_mode) option" where
  "job_notify_result dd u atom mode = do {
     configs \<leftarrow> (if atom = UnitAtomOnSuccess \<or> atom = UnitAtomOnFailure then notify_result_start dd u atom else None);
     Some (configs, mode)
   }"

definition unwrap_or :: "'a option \<Rightarrow> 'a \<Rightarrow> 'a" where
  "unwrap_or x d = (case x of Some y \<Rightarrow> y | None \<Rightarrow> d)"

definition notify_event_start ::
  "'x unit_dep_data \<Rightarrow> job_conf \<Rightarrow> job_mode option \<Rightarrow> (job_conf \<times> job_mode) list" where
  "notify_event_start dd config mode_option = (let u = jc_unit config in
     map (\<lambda>other. (job_conf_new other Start, unwrap_or mode_option Replace))
       (filter (\<lambda>other. \<not> is_dep_atom_with dd u UnitAtomAfter other) (gets_atom dd u UnitAtomRetroActiveStartReplace)) @
     map (\<lambda>other. (job_conf_new other Start, unwrap_or mode_option Fail))
       (filter (\<lambda>other. \<not> is_dep_atom_with dd u UnitAtomAfter other) (gets_atom dd u UnitAtomRetroActiveStartFail)) @
     map (\<lambda>other. (job_conf_new other Stop, unwrap_or mode_option Replace))
       (gets_atom dd u UnitAtomRetroActiveStopOnStart))"

definition notify_event_stop ::
  "'x unit_dep_data \<Rightarrow> job_conf \<Rightarrow> job_mode option \<Rightarrow> (job_conf \<times> job_mode) list" where
  "notify_event_stop dd config mode_option =
     map (\<lambda>other. (job_conf_new other Stop, unwrap_or mode_option Replace))
       (gets_atom dd (jc_unit config) UnitAtomRetroActiveStopOnStop)"

definition notify_event_reload ::
  "'x unit_dep_data \<Rightarrow> job_conf \<Rightarrow> job_mode option \<Rightarrow> (job_conf \<times> job_mode) list" where
  "notify_event_reload dd config mode_option =
     map (\<lambda>other. (job_conf_new other TryReload, unwrap_or mode_option Fail))
       (gets_atom dd (jc_unit config) UnitAtomPropagatesReloadTo)"

definition job_notify_event ::
  "'x unit_dep_data \<Rightarrow> job_conf \<Rightarrow> job_mode option \<Rightarrow> (job_conf \<times> job_mode) list option" where
  "job_notify_event dd config mode_option =
     (case jc_kind config of
        Start \<Rightarrow> Some (notify_event_start dd config mode_option)
      | Stop \<Rightarrow> Some (notify_event_stop dd config mode_option)
      | Reload \<Rightarrow> Some (notify_event_reload dd config mode_option)
      | _ \<Rightarrow> None)"

end
