(* ===== verification/Job_Stat.thy ===== *)
theory Job_Stat
  imports Job_Unit_Props
begin

section \<open>Job statistics (core/bin/job/stat.rs)\<close>

text \<open>
  \<open>JobStat\<close> counts the jobs of the table by kind (\<open>num\<close>) and the results and changes of
  the past (\<open>cnt\<close>). The counters are \<open>usize\<close>. The snapshot asserts that it never leaves the
  range; the history keeps its old value on overflow. The stage counters exist but nothing
  updates them.
\<close>

subsection \<open>Counters\<close>

definition value_try_add :: "usize \<Rightarrow> usize \<Rightarrow> bool \<times> usize" where
  "value_try_add v a = (let o' = v + a < v in (o', if o' then v else v + a))"

definition value_try_sub :: "usize \<Rightarrow> usize \<Rightarrow> bool \<times> usize" where
  "value_try_sub v s = (let o' = v < s in (o', if o' then v else v - s))"

text \<open>The carry of a word addition is an overflow of the natural numbers.\<close>

lemma add_carry: "(v :: usize) + a < v \<longleftrightarrow> 2 ^ 64 \<le> unat v + unat a"
proof -
  have "unat v < 2 ^ 64" "unat a < 2 ^ 64" using unsigned_less[of v] unsigned_less[of a] by simp_all
  moreover have "unat (v + a) = (unat v + unat a) mod 2 ^ 64" by (simp add: unat_word_ariths)
  moreover have "(unat v + unat a) mod 2 ^ 64 = unat v + unat a - 2 ^ 64" if "2 ^ 64 \<le> unat v + unat a"
    using that calculation(1,2) by (simp add: le_mod_geq)
  ultimately show ?thesis by (cases "2 ^ 64 \<le> unat v + unat a") (auto simp: word_less_nat_alt)
qed

lemma word_below_one: "(v :: usize) < 1 \<longleftrightarrow> unat v = 0"
  by (simp add: word_less_nat_alt)

record job_kind_num =
  kn_start :: usize
  kn_stop :: usize
  kn_reload :: usize
  kn_restart :: usize
  kn_verify :: usize
  kn_nop :: usize

record job_stage_num =
  sn_wait :: usize
  sn_running :: usize

record job_num =
  jn_kind :: job_kind_num
  jn_stage :: job_stage_num

record job_result_cnt =
  rc_done :: usize
  rc_cancelled :: usize
  rc_timeout :: usize
  rc_failed :: usize
  rc_dependency :: usize
  rc_skipped :: usize
  rc_invalid :: usize
  rc_assert :: usize
  rc_unsupported :: usize
  rc_collected :: usize
  rc_once :: usize
  rc_merged :: usize

record job_op_cnt =
  oc_add :: usize
  oc_update :: usize
  oc_del :: usize

record job_cnt =
  jc_result :: job_result_cnt
  jc_op :: job_op_cnt

record job_stat =
  js_num :: job_num
  js_cnt :: job_cnt

definition job_kind_num_new :: job_kind_num where
  "job_kind_num_new = \<lparr>kn_start = 0, kn_stop = 0, kn_reload = 0, kn_restart = 0, kn_verify = 0, kn_nop = 0\<rparr>"

definition job_stage_num_new :: job_stage_num where
  "job_stage_num_new = \<lparr>sn_wait = 0, sn_running = 0\<rparr>"

definition job_num_new :: job_num where
  "job_num_new = \<lparr>jn_kind = job_kind_num_new, jn_stage = job_stage_num_new\<rparr>"

definition job_result_cnt_new :: job_result_cnt where
  "job_result_cnt_new = \<lparr>rc_done = 0, rc_cancelled = 0, rc_timeout = 0, rc_failed = 0, rc_dependency = 0,
     rc_skipped = 0, rc_invalid = 0, rc_assert = 0, rc_unsupported = 0, rc_collected = 0, rc_once = 0, rc_merged = 0\<rparr>"

definition job_op_cnt_new :: job_op_cnt where
  "job_op_cnt_new = \<lparr>oc_add = 0, oc_update = 0, oc_del = 0\<rparr>"

definition job_cnt_new :: job_cnt where
  "job_cnt_new = \<lparr>jc_result = job_result_cnt_new, jc_op = job_op_cnt_new\<rparr>"

definition job_stat_new :: job_stat where
  "job_stat_new = \<lparr>js_num = job_num_new, js_cnt = job_cnt_new\<rparr>"

definition job_stat_clear :: "job_stat \<Rightarrow> job_stat" where
  "job_stat_clear s = s\<lparr>js_num := job_num_new, js_cnt := job_cnt_new\<rparr>"

definition job_stat_clear_cnt :: "job_stat \<Rightarrow> job_stat" where
  "job_stat_clear_cnt s = s\<lparr>js_cnt := job_cnt_new\<rparr>"

subsection \<open>The snapshot by kind\<close>

text \<open>The two matches of \<open>update\<close>: the counter of the job's kind goes down, or up; leaving
  the range and the kinds that never reach the table panic.\<close>

definition kind_num_change ::
  "(usize \<Rightarrow> bool \<times> usize) \<Rightarrow> job_kind \<Rightarrow> job_kind_num \<Rightarrow> job_kind_num option" where
  "kind_num_change f kind num = do {
     (overflow, num') \<leftarrow>
       (case kind of
          Start \<Rightarrow> Some (map_prod (\<lambda>b. b) (\<lambda>v. num\<lparr>kn_start := v\<rparr>) (f (kn_start num)))
        | Stop \<Rightarrow> Some (map_prod (\<lambda>b. b) (\<lambda>v. num\<lparr>kn_stop := v\<rparr>) (f (kn_stop num)))
        | Reload \<Rightarrow> Some (map_prod (\<lambda>b. b) (\<lambda>v. num\<lparr>kn_reload := v\<rparr>) (f (kn_reload num)))
        | Restart \<Rightarrow> Some (map_prod (\<lambda>b. b) (\<lambda>v. num\<lparr>kn_restart := v\<rparr>) (f (kn_restart num)))
        | Verify \<Rightarrow> Some (map_prod (\<lambda>b. b) (\<lambda>v. num\<lparr>kn_verify := v\<rparr>) (f (kn_verify num)))
        | Nop \<Rightarrow> Some (map_prod (\<lambda>b. b) (\<lambda>v. num\<lparr>kn_nop := v\<rparr>) (f (kn_nop num)))
        | _ \<Rightarrow> None);
     rust_assert (\<not> overflow);
     Some num'
   }"

definition job_kind_num_update ::
  "job list \<Rightarrow> job list \<Rightarrow> job_kind_num \<Rightarrow> job_kind_num option" where
  "job_kind_num_update adds dels num = do {
     num1 \<leftarrow> for_each (\<lambda>jb. kind_num_change (\<lambda>v. value_try_sub v 1) (jb_kind jb)) dels num;
     for_each (\<lambda>jb. kind_num_change (\<lambda>v. value_try_add v 1) (jb_kind jb)) adds num1
   }"

definition job_num_update :: "job list \<Rightarrow> job list \<Rightarrow> job_num \<Rightarrow> job_num option" where
  "job_num_update adds dels num = map_option (\<lambda>k. num\<lparr>jn_kind := k\<rparr>) (job_kind_num_update adds dels (jn_kind num))"

subsection \<open>The history\<close>

fun result_cnt_add :: "job_result \<Rightarrow> job_result_cnt \<Rightarrow> bool \<times> job_result_cnt" where
  "result_cnt_add Done c = map_prod (\<lambda>b. b) (\<lambda>v. c\<lparr>rc_done := v\<rparr>) (value_try_add (rc_done c) 1)"
| "result_cnt_add Cancelled c = map_prod (\<lambda>b. b) (\<lambda>v. c\<lparr>rc_cancelled := v\<rparr>) (value_try_add (rc_cancelled c) 1)"
| "result_cnt_add TimeOut c = map_prod (\<lambda>b. b) (\<lambda>v. c\<lparr>rc_timeout := v\<rparr>) (value_try_add (rc_timeout c) 1)"
| "result_cnt_add Failed c = map_prod (\<lambda>b. b) (\<lambda>v. c\<lparr>rc_failed := v\<rparr>) (value_try_add (rc_failed c) 1)"
| "result_cnt_add Dependency c = map_prod (\<lambda>b. b) (\<lambda>v. c\<lparr>rc_dependency := v\<rparr>) (value_try_add (rc_dependency c) 1)"
| "result_cnt_add Skipped c = map_prod (\<lambda>b. b) (\<lambda>v. c\<lparr>rc_skipped := v\<rparr>) (value_try_add (rc_skipped c) 1)"
| "result_cnt_add Invalid c = map_prod (\<lambda>b. b) (\<lambda>v. c\<lparr>rc_invalid := v\<rparr>) (value_try_add (rc_invalid c) 1)"
| "result_cnt_add Assert c = map_prod (\<lambda>b. b) (\<lambda>v. c\<lparr>rc_assert := v\<rparr>) (value_try_add (rc_assert c) 1)"
| "result_cnt_add UnSupported c = map_prod (\<lambda>b. b) (\<lambda>v. c\<lparr>rc_unsupported := v\<rparr>) (value_try_add (rc_unsupported c) 1)"
| "result_cnt_add Collected c = map_prod (\<lambda>b. b) (\<lambda>v. c\<lparr>rc_collected := v\<rparr>) (value_try_add (rc_collected c) 1)"
| "result_cnt_add Once c = map_prod (\<lambda>b. b) (\<lambda>v. c\<lparr>rc_once := v\<rparr>) (value_try_add (rc_once c) 1)"
| "result_cnt_add Merged c = map_prod (\<lambda>b. b) (\<lambda>v. c\<lparr>rc_merged := v\<rparr>) (value_try_add (rc_merged c) 1)"

definition job_result_cnt_update :: "job list \<Rightarrow> job_result_cnt \<Rightarrow> bool \<times> job_result_cnt" where
  "job_result_cnt_update dels c =
     fold (\<lambda>jb (overflow, c). case jb_stage jb of
         End result \<Rightarrow> (let (o', c') = result_cnt_add result c in (overflow \<or> o', c'))
       | _ \<Rightarrow> (overflow, c)) dels (False, c)"

definition job_op_cnt_update :: "job list \<Rightarrow> job list \<Rightarrow> job list \<Rightarrow> job_op_cnt \<Rightarrow> bool \<times> job_op_cnt" where
  "job_op_cnt_update adds dels updates c = (
     let (o1, a) = value_try_add (oc_add c) (of_nat (length adds));
         (o2, d) = value_try_add (oc_del c) (of_nat (length dels));
         (o3, u) = value_try_add (oc_update c) (of_nat (length updates))
     in (o1 \<or> o2 \<or> o3, c\<lparr>oc_add := a, oc_del := d, oc_update := u\<rparr>))"

definition job_cnt_update :: "job list \<Rightarrow> job list \<Rightarrow> job list \<Rightarrow> job_cnt \<Rightarrow> bool \<times> job_cnt" where
  "job_cnt_update adds dels updates c = (
     let (o1, r) = job_result_cnt_update dels (jc_result c);
         (o2, p) = job_op_cnt_update adds dels updates (jc_op c)
     in (o1 \<or> o2, c\<lparr>jc_result := r, jc_op := p\<rparr>))"

text \<open>The overflow of the history is only logged.\<close>

definition job_stat_update_changes :: "job list \<Rightarrow> job list \<Rightarrow> job list \<Rightarrow> job_stat \<Rightarrow> job_stat option" where
  "job_stat_update_changes adds dels updates s = do {
     num \<leftarrow> job_num_update adds dels (js_num s);
     Some (s\<lparr>js_num := num, js_cnt := snd (job_cnt_update adds dels updates (js_cnt s))\<rparr>)
   }"

definition change_to_changes :: "job option \<Rightarrow> job list" where
  "change_to_changes jb = (case jb of Some j \<Rightarrow> [j] | None \<Rightarrow> [])"

definition job_stat_update_change :: "job option \<Rightarrow> job option \<Rightarrow> job option \<Rightarrow> job_stat \<Rightarrow> job_stat option" where
  "job_stat_update_change aj dj uj s =
     job_stat_update_changes (change_to_changes aj) (change_to_changes dj) (change_to_changes uj) s"

subsection \<open>The counters of the snapshot\<close>

definition kind_num :: "job_kind_num \<Rightarrow> job_kind \<Rightarrow> usize" where
  "kind_num num kind =
     (case kind of Start \<Rightarrow> kn_start num | Stop \<Rightarrow> kn_stop num | Reload \<Rightarrow> kn_reload num
      | Restart \<Rightarrow> kn_restart num | Verify \<Rightarrow> kn_verify num | Nop \<Rightarrow> kn_nop num | _ \<Rightarrow> 0)"

text \<open>How many of the jobs have a kind.\<close>

definition kind_count :: "job list \<Rightarrow> job_kind \<Rightarrow> nat" where
  "kind_count jbs k = length (filter (\<lambda>jb. jb_kind jb = k) jbs)"

lemma kind_count_simps [simp]:
  "kind_count [] k = 0" "kind_count (jb # jbs) k = (if jb_kind jb = k then 1 else 0) + kind_count jbs k"
  by (simp_all add: kind_count_def)

lemma unat_sub_one: "(v :: usize) \<noteq> 0 \<Longrightarrow> unat (v - 1) = unat v - 1"
  by (rule unat_minus_one)

lemma kind_num_sub:
  assumes "job_is_basic_op kind"
  shows "kind_num_change (\<lambda>v. value_try_sub v 1) kind num =
    (if unat (kind_num num kind) = 0 then None
     else Some (case kind of
          Start \<Rightarrow> num\<lparr>kn_start := kn_start num - 1\<rparr> | Stop \<Rightarrow> num\<lparr>kn_stop := kn_stop num - 1\<rparr>
        | Reload \<Rightarrow> num\<lparr>kn_reload := kn_reload num - 1\<rparr> | Restart \<Rightarrow> num\<lparr>kn_restart := kn_restart num - 1\<rparr>
        | Verify \<Rightarrow> num\<lparr>kn_verify := kn_verify num - 1\<rparr> | _ \<Rightarrow> num\<lparr>kn_nop := kn_nop num - 1\<rparr>))"
  using assms by (cases kind) (simp_all add: kind_num_change_def value_try_sub_def kind_num_def Let_def word_below_one unat_eq_0)

lemma kind_num_add:
  assumes "job_is_basic_op kind"
  shows "kind_num_change (\<lambda>v. value_try_add v 1) kind num =
    (if unat (kind_num num kind) + 1 \<ge> 2 ^ 64 then None
     else Some (case kind of
          Start \<Rightarrow> num\<lparr>kn_start := kn_start num + 1\<rparr> | Stop \<Rightarrow> num\<lparr>kn_stop := kn_stop num + 1\<rparr>
        | Reload \<Rightarrow> num\<lparr>kn_reload := kn_reload num + 1\<rparr> | Restart \<Rightarrow> num\<lparr>kn_restart := kn_restart num + 1\<rparr>
        | Verify \<Rightarrow> num\<lparr>kn_verify := kn_verify num + 1\<rparr> | _ \<Rightarrow> num\<lparr>kn_nop := kn_nop num + 1\<rparr>))"
  using assms by (cases kind) (simp_all add: kind_num_change_def value_try_add_def kind_num_def Let_def add_carry)

lemma kind_num_upd:
  assumes "job_is_basic_op kind" and "kind_num_change f kind num = Some num'"
  shows "kind_num num' k = (if k = kind then snd (f (kind_num num kind)) else kind_num num k)"
  using assms
  by (cases kind; cases k; cases "f (kind_num num kind)")
     (auto simp: kind_num_change_def kind_num_def bind_eq_Some_conv)

lemma sub_loop:
  assumes "\<forall>jb\<in>set dels. job_is_basic_op (jb_kind jb)"
  shows "(for_each (\<lambda>jb. kind_num_change (\<lambda>v. value_try_sub v 1) (jb_kind jb)) dels num \<noteq> None \<longleftrightarrow>
      (\<forall>k. kind_count dels k \<le> unat (kind_num num k))) \<and>
    (\<forall>num'. for_each (\<lambda>jb. kind_num_change (\<lambda>v. value_try_sub v 1) (jb_kind jb)) dels num = Some num' \<longrightarrow>
      (\<forall>k. unat (kind_num num' k) = unat (kind_num num k) - kind_count dels k))"
  using assms
proof (induction dels arbitrary: num)
  case (Cons jb dels)
  let ?f = "\<lambda>jb. kind_num_change (\<lambda>v. value_try_sub v 1) (jb_kind jb)" and ?k = "jb_kind jb"
  have basic: "job_is_basic_op ?k" and rest: "\<forall>jb\<in>set dels. job_is_basic_op (jb_kind jb)" using Cons.prems by simp_all
  show ?case
  proof (cases "?f jb num")
    case None
    then have "unat (kind_num num ?k) = 0" using kind_num_sub[OF basic, of num] by (auto split: if_splits)
    then have "\<not> (\<forall>k. kind_count (jb # dels) k \<le> unat (kind_num num k))" by (intro notI) (drule spec[of _ ?k], simp)
    then show ?thesis using None by auto
  next
    case (Some num1)
    then have nz: "unat (kind_num num ?k) \<noteq> 0" using kind_num_sub[OF basic, of num] by (auto split: if_splits)
    have n1: "unat (kind_num num1 k) = unat (kind_num num k) - (if jb_kind jb = k then 1 else 0)" for k
      using kind_num_upd[OF basic Some, of k] nz unat_sub_one[of "kind_num num ?k"]
      by (auto simp: value_try_sub_def Let_def word_below_one unat_eq_0)
    have "(\<forall>k. kind_count dels k \<le> unat (kind_num num1 k)) \<longleftrightarrow> (\<forall>k. kind_count (jb # dels) k \<le> unat (kind_num num k))"
      by (intro all_cong1) (use nz in \<open>auto simp: n1\<close>)
    then show ?thesis using Cons.IH[OF rest, of num1] Some n1 by auto
  qed
qed simp

lemma add_loop:
  assumes "\<forall>jb\<in>set adds. job_is_basic_op (jb_kind jb)"
  shows "(for_each (\<lambda>jb. kind_num_change (\<lambda>v. value_try_add v 1) (jb_kind jb)) adds num \<noteq> None \<longleftrightarrow>
      (\<forall>k. unat (kind_num num k) + kind_count adds k < 2 ^ 64)) \<and>
    (\<forall>num'. for_each (\<lambda>jb. kind_num_change (\<lambda>v. value_try_add v 1) (jb_kind jb)) adds num = Some num' \<longrightarrow>
      (\<forall>k. unat (kind_num num' k) = unat (kind_num num k) + kind_count adds k))"
  using assms
proof (induction adds arbitrary: num)
  case Nil
  have "unat (kind_num num k) < 2 ^ 64" for k using unsigned_less[of "kind_num num k"] by simp
  then show ?case by simp
next
  case (Cons jb adds)
  let ?f = "\<lambda>jb. kind_num_change (\<lambda>v. value_try_add v 1) (jb_kind jb)" and ?k = "jb_kind jb"
  have basic: "job_is_basic_op ?k" and rest: "\<forall>jb\<in>set adds. job_is_basic_op (jb_kind jb)" using Cons.prems by simp_all
  show ?case
  proof (cases "?f jb num")
    case None
    then have "unat (kind_num num ?k) + 1 \<ge> 2 ^ 64" using kind_num_add[OF basic, of num] by (auto split: if_splits)
    then have "\<not> (\<forall>k. unat (kind_num num k) + kind_count (jb # adds) k < 2 ^ 64)" by (intro notI) (drule spec[of _ ?k], simp)
    then show ?thesis using None by auto
  next
    case (Some num1)
    then have small: "unat (kind_num num ?k) + 1 < 2 ^ 64" using kind_num_add[OF basic, of num] by (auto split: if_splits)
    have "unat (kind_num num ?k + 1) = unat (kind_num num ?k) + 1"
      using small unat_add_lem[of "kind_num num ?k" 1] by simp
    then have n1: "unat (kind_num num1 k) = unat (kind_num num k) + (if jb_kind jb = k then 1 else 0)" for k
      using kind_num_upd[OF basic Some, of k] small by (auto simp: value_try_add_def Let_def add_carry)
    have "(\<forall>k. unat (kind_num num1 k) + kind_count adds k < 2 ^ 64) \<longleftrightarrow> (\<forall>k. unat (kind_num num k) + kind_count (jb # adds) k < 2 ^ 64)"
      by (intro all_cong1) (auto simp: n1)
    then show ?thesis using Cons.IH[OF rest, of num1] Some n1 by auto
  qed
qed

text \<open>
  C27: updating the snapshot panics exactly when more jobs of a kind are deleted than are
  counted at that moment, or when a counter would pass the 64-bit range; otherwise every
  counter moves by the difference. The deletions are subtracted first, so a job that is
  added and deleted in one change must already be counted.
\<close>

theorem job_kind_num_update_exact:
  assumes "\<forall>jb\<in>set adds \<union> set dels. job_is_basic_op (jb_kind jb)"
  shows "(job_kind_num_update adds dels num = None \<longleftrightarrow>
      (\<exists>k. unat (kind_num num k) < kind_count dels k \<or>
           2 ^ 64 \<le> unat (kind_num num k) - kind_count dels k + kind_count adds k)) \<and>
    (\<forall>num'. job_kind_num_update adds dels num = Some num' \<longrightarrow>
      (\<forall>k. unat (kind_num num' k) = unat (kind_num num k) - kind_count dels k + kind_count adds k))"
proof -
  let ?sub = "for_each (\<lambda>jb. kind_num_change (\<lambda>v. value_try_sub v 1) (jb_kind jb)) dels num"
  have dels: "\<forall>jb\<in>set dels. job_is_basic_op (jb_kind jb)" and adds: "\<forall>jb\<in>set adds. job_is_basic_op (jb_kind jb)"
    using assms by blast+
  note s = sub_loop[OF dels, of num]
  show ?thesis
  proof (cases ?sub)
    case None
    then obtain k where "unat (kind_num num k) < kind_count dels k" using s by (auto simp: not_le)
    then show ?thesis using None by (auto simp: job_kind_num_update_def)
  next
    case (Some num1)
    then have n1: "unat (kind_num num1 k) = unat (kind_num num k) - kind_count dels k"
      and le: "\<not> unat (kind_num num k) < kind_count dels k" for k using s by (auto simp: not_less)
    have eq: "job_kind_num_update adds dels num =
        for_each (\<lambda>jb. kind_num_change (\<lambda>v. value_try_add v 1) (jb_kind jb)) adds num1"
      using Some by (simp add: job_kind_num_update_def)
    note a = add_loop[OF adds, of num1, folded eq, unfolded n1]
    show ?thesis
    proof (intro conjI)
      show "job_kind_num_update adds dels num = None \<longleftrightarrow>
        (\<exists>k. unat (kind_num num k) < kind_count dels k \<or> 2 ^ 64 \<le> unat (kind_num num k) - kind_count dels k + kind_count adds k)"
        using conjunct1[OF a] le unfolding not_less[symmetric] by blast
      show "\<forall>num'. job_kind_num_update adds dels num = Some num' \<longrightarrow>
        (\<forall>k. unat (kind_num num' k) = unat (kind_num num k) - kind_count dels k + kind_count adds k)"
        by (rule conjunct2[OF a])
    qed
  qed
qed

text \<open>One start job.\<close>

theorem job_kind_num_update_exact_witness:
  "job_kind_num_update [job_new 1 ''a.service'' Start] [] job_kind_num_new \<noteq> None \<and>
   job_kind_num_update [job_new 1 ''a.service'' Start] [job_new 1 ''a.service'' Start] job_kind_num_new = None"
proof -
  have "\<forall>jb\<in>set [job_new 1 ''a.service'' Start] \<union> set []. job_is_basic_op (jb_kind jb)"
    "\<forall>jb\<in>set [job_new 1 ''a.service'' Start] \<union> set [job_new 1 ''a.service'' Start]. job_is_basic_op (jb_kind jb)"
    by (simp_all add: job_new_def)
  note t = this[THEN job_kind_num_update_exact, of job_kind_num_new]
  have 0: "unat (kind_num job_kind_num_new k) = 0" for k by (cases k) (simp_all add: kind_num_def job_kind_num_new_def)
  have "kind_count [job_new 1 ''a.service'' Start] Start = 1" by (simp add: job_new_def)
  then show ?thesis using t 0 by (auto simp: job_new_def intro: exI[of _ Start])
qed

end
