(* ===== verification/Job_Manager.thy ===== *)
theory Job_Manager
  imports Job_Transaction Job_Stat
begin

section \<open>The job manager (core/bin/job/manager.rs)\<close>

text \<open>
  \<open>JobManagerData\<close> ties the parts together: a request is expanded into \<open>stage\<close>, verified
  and committed to \<open>jobs\<close>; the event loop dispatches \<open>run\<close>, which triggers ready jobs until
  none is left; a unit reports its state changes through \<open>try_finish\<close>.

  \<open>job_env\<close> holds what the manager shares with its jobs (heap, allocator, databases, units,
  last unit). A unit that changes state while its job is being triggered reports before the
  trigger returns: these reports are the \<open>je_notes\<close> of the environment. \<open>jm_enabled\<close> says
  whether the event source is armed, \<open>jm_last_frame\<close> is the frame recorded for recovery.

  The dependency table \<open>dd\<close>, which no operation here changes, the unit actions \<open>act\<close> and the
  two on-disk databases \<open>H\<close> are arguments.
\<close>

subsection \<open>State\<close>

record job_affect =
  af_adds :: "job_info list"
  af_dels :: "job_info list"
  af_updates :: "job_info list"
  af_interested :: bool

record 'd job_manager =
  jm_jobs :: job_table
  jm_stage :: job_table
  jm_running :: bool
  jm_text :: "unit_state_note option"
  jm_stat :: job_stat
  jm_env :: "'d job_env"
  jm_enabled :: bool
  jm_last_frame :: "u32 option"

record 'd job_disk =
  jd_trigger :: "('d, uid, job_kind \<times> job_attr) heed"
  jd_suspends :: "('d, uid \<times> job_kind, job_attr) heed"

definition job_affect_new :: "bool \<Rightarrow> job_affect" where
  "job_affect_new b = \<lparr>af_adds = [], af_dels = [], af_updates = [], af_interested = b\<rparr>"

text \<open>The jobs behind a list of references.\<close>

definition jobs_of :: "'d job_env \<Rightarrow> u32 list \<Rightarrow> job list" where
  "jobs_of e js = List.map_filter (je_jobs e) js"

definition jobs_2_jobinfo :: "'d job_env \<Rightarrow> u32 list \<Rightarrow> job_info list" where
  "jobs_2_jobinfo e js = map job_info_map (jobs_of e js)"

definition job_affect_record ::
  "'d job_env \<Rightarrow> u32 list \<times> u32 list \<times> u32 list \<Rightarrow> job_affect \<Rightarrow> job_affect" where
  "job_affect_record e jobs a =
     (if af_interested a
      then (case jobs of (adds, dels, updates) \<Rightarrow>
        a\<lparr>af_adds := af_adds a @ jobs_2_jobinfo e adds, af_dels := af_dels a @ jobs_2_jobinfo e dels,
          af_updates := af_updates a @ jobs_2_jobinfo e updates\<rparr>)
      else a)"

definition job_manager_new :: "'d job_env \<Rightarrow> 'd job_manager" where
  "job_manager_new e = \<lparr>jm_jobs = jt_new, jm_stage = jt_new, jm_running = False, jm_text = None,
     jm_stat = job_stat_new, jm_env = e, jm_enabled = False, jm_last_frame = None\<rparr>"

definition jm_entry_clear :: "'d job_manager \<Rightarrow> 'd job_manager" where
  "jm_entry_clear jm = jm\<lparr>jm_jobs := jt_clear (jm_jobs jm), jm_stage := jt_clear (jm_stage jm),
     jm_env := (jm_env jm)\<lparr>je_alloc := job_alloc_clear (je_alloc (jm_env jm))\<rparr>,
     jm_running := False, jm_text := None, jm_stat := job_stat_clear (jm_stat jm)\<rparr>"

subsection \<open>Executing a request\<close>

definition job_trans_check_input :: "job_conf \<Rightarrow> job_mode \<Rightarrow> error + unit" where
  "job_trans_check_input config mode =
     (if mode = Isolate \<and> jc_kind config \<noteq> Start then Inl Input
      else if mode = Trigger \<and> jc_kind config \<noteq> Stop then Inl Input
      else Inr ())"

text \<open>The fuel of the two recursions: six kinds for every unit, and one level for every job.\<close>

definition expand_fuel :: "'x unit_dep_data \<Rightarrow> nat" where
  "expand_fuel dd = Suc (6 * length (dd_units dd))"

definition fallback_fuel :: "job_table \<Rightarrow> nat" where
  "fallback_fuel jobs = Suc (card (jt_id jobs))"

definition jm_update_changes ::
  "u32 list \<times> u32 list \<times> u32 list \<Rightarrow> 'd job_manager \<Rightarrow> 'd job_manager option" where
  "jm_update_changes changes jm = (case changes of (adds, dels, updates) \<Rightarrow>
     map_option (\<lambda>s. jm\<lparr>jm_stat := s\<rparr>)
       (job_stat_update_changes (jobs_of (jm_env jm) adds) (jobs_of (jm_env jm) dels)
          (jobs_of (jm_env jm) updates) (jm_stat jm)))"

definition jm_exec ::
  "'x unit_dep_data \<Rightarrow> job_conf \<Rightarrow> job_mode \<Rightarrow> job_affect \<Rightarrow> 'd job_manager \<Rightarrow>
   ((error + unit) \<times> job_affect \<times> 'd job_manager) option" where
  "jm_exec dd config mode affect jm =
     (case job_trans_check_input config mode of
        Inl err \<Rightarrow> Some (Inl err, affect, jm)
      | Inr _ \<Rightarrow> do {
          let n = expand_fuel dd;
          (r, st1, e1) \<leftarrow> job_trans_expand n dd config mode (jt_clear (jm_stage jm), jm_env jm);
          (case r of
             Inl err \<Rightarrow> Some (Inl err, affect, jm\<lparr>jm_stage := st1, jm_env := e1\<rparr>)
           | Inr _ \<Rightarrow> do {
               (r, st2, e2) \<leftarrow> job_trans_affect n dd config mode (st1, e1);
               (case r of
                  Inl err \<Rightarrow> Some (Inl err, affect, jm\<lparr>jm_stage := st2, jm_env := e2\<rparr>)
                | Inr _ \<Rightarrow> do {
                    r \<leftarrow> job_trans_verify e2 st2 (jm_jobs jm) mode;
                    (case r of
                       Inl err \<Rightarrow> Some (Inl err, affect, jm\<lparr>jm_stage := st2, jm_env := e2\<rparr>)
                     | Inr _ \<Rightarrow> do {
                         (r, jobs, e3) \<leftarrow> jt_commit dd st2 mode (jm_jobs jm) e2;
                         (case r of
                            Inl err \<Rightarrow> Some (Inl err, affect, jm\<lparr>jm_stage := st2, jm_jobs := jobs, jm_env := e3\<rparr>)
                          | Inr changes \<Rightarrow> do {
                              jm' \<leftarrow> jm_update_changes changes
                                (jm\<lparr>jm_stage := jt_clear st2, jm_jobs := jobs, jm_env := e3\<rparr>);
                              Some (Inr (), job_affect_record e3 changes affect, jm')
                            })
                       })
                  })
             })
        })"

text \<open>Requests the manager makes by itself; their errors are only logged.\<close>

definition jm_exec_quiet :: "'x unit_dep_data \<Rightarrow> job_conf \<Rightarrow> job_mode \<Rightarrow> 'd job_manager \<Rightarrow> 'd job_manager option" where
  "jm_exec_quiet dd config mode jm =
     map_option (\<lambda>(_, _, jm'). jm') (jm_exec dd config mode (job_affect_new False) jm)"

definition exec_on ::
  "'x unit_dep_data \<Rightarrow> uid \<Rightarrow> unit_relation_atom \<Rightarrow> job_mode \<Rightarrow> 'd job_manager \<Rightarrow> 'd job_manager option" where
  "exec_on dd u atom mode jm = do {
     (configs, mode') \<leftarrow> job_notify_result dd u atom mode;
     for_each (\<lambda>config. jm_exec_quiet dd config mode') configs jm
   }"

definition jm_do_notify ::
  "'x unit_dep_data \<Rightarrow> job_conf \<Rightarrow> job_mode option \<Rightarrow> 'd job_manager \<Rightarrow> 'd job_manager option" where
  "jm_do_notify dd config mode_option jm = do {
     targets \<leftarrow> job_notify_event dd config mode_option;
     for_each (\<lambda>(config, mode). jm_exec_quiet dd config mode) targets jm
   }"

definition jm_notify_data ::
  "'x unit_dep_data \<Rightarrow> job_conf \<Rightarrow> job_mode \<Rightarrow> 'd job_manager \<Rightarrow> ((error + unit) \<times> 'd job_manager) option" where
  "jm_notify_data dd config mode jm =
     (if jc_kind config \<noteq> Reload then Some (Inl Input, jm)
      else map_option (Pair (Inr ())) (jm_do_notify dd config (Some mode) jm))"

subsection \<open>Events that the manager simulates\<close>

definition simulate_job_notify ::
  "'x unit_dep_data \<Rightarrow> uid \<Rightarrow> unit_active_state \<Rightarrow> unit_active_state \<Rightarrow> 'd job_manager \<Rightarrow> 'd job_manager option" where
  "simulate_job_notify dd u os ns jm =
     (if (os = UnitInActive \<or> os = UnitFailed) \<and> (ns = UnitActive \<or> ns = UnitActivating)
      then jm_do_notify dd (job_conf_new u Start) None jm
      else if (os = UnitActive \<or> os = UnitActivating) \<and> (ns = UnitInActive \<or> ns = UnitDeActivating)
      then jm_do_notify dd (job_conf_new u Stop) None jm
      else Some jm)"

definition simulate_unit_notify ::
  "'x unit_dep_data \<Rightarrow> uid \<Rightarrow> job_result \<Rightarrow> bool \<Rightarrow> 'd job_manager \<Rightarrow> 'd job_manager option" where
  "simulate_unit_notify dd u result inside jm =
     (if inside \<and> result \<noteq> Done
      then (if OnFailureJobMode (u_config (je_units (jm_env jm)) u) = Fail
            then exec_on dd u UnitAtomOnFailure Fail jm else Some jm)
      else Some jm)"

definition unit_start_on ::
  "'x unit_dep_data \<Rightarrow> uid \<Rightarrow> unit_active_state \<Rightarrow> unit_active_state \<Rightarrow> unit_notify_flags \<Rightarrow>
   'd job_manager \<Rightarrow> 'd job_manager option" where
  "unit_start_on dd u os ns flags jm = do {
     jm1 \<leftarrow> (if ns \<noteq> os \<and> \<not> flags_intersects flags UNIT_NOTIFY_WILL_AUTO_RESTART \<and> ns = UnitFailed
             then exec_on dd u UnitAtomOnFailure (OnFailureJobMode (u_config (je_units (jm_env jm)) u)) jm
             else Some jm);
     if ns = UnitInActive \<and> \<not> flags_intersects flags UNIT_NOTIFY_WILL_AUTO_RESTART
     then (if os = UnitFailed \<or> os = UnitInActive \<or> os = UnitMaintenance then Some jm1
           else exec_on dd u UnitAtomOnSuccess (OnSuccessJobMode (u_config (je_units (jm_env jm1)) u)) jm1)
     else Some jm1
   }"

subsection \<open>Removing a job\<close>

definition do_remove_one ::
  "'x unit_dep_data \<Rightarrow> job_info \<Rightarrow> job_result \<Rightarrow> bool \<Rightarrow> 'd job_manager \<Rightarrow> (bool \<times> 'd job_manager) option" where
  "do_remove_one dd info result inside jm = do {
     (del_trigger, del_suspend, jobs, e) \<leftarrow>
       (if jt_is_trigger (jm_env jm) (jm_jobs jm) (ji_id info)
        then do {
          (dt, jobs, e) \<leftarrow> jt_finish_trigger dd (ji_unit info) result (jm_jobs jm) (jm_env jm);
          Some (dt, None, jobs, e)
        }
        else do {
          (del_s, jobs, e) \<leftarrow> jt_remove_suspends dd (ji_unit info) (ji_kind info) None result (jm_jobs jm) (jm_env jm);
          rust_assert (length del_s = 1);
          Some (None, Some (last del_s), jobs, e)
        });
     let del_one = (del_trigger \<noteq> None \<or> del_suspend \<noteq> None);
     let jm1 = jm\<lparr>jm_jobs := jobs, jm_env := e\<rparr>;
     jm2 \<leftarrow> (if del_one then simulate_unit_notify dd (ji_unit info) result inside jm1 else Some jm1);
     jm3 \<leftarrow> jm_update_changes ([], (case del_trigger of Some j \<Rightarrow> [j] | None \<Rightarrow> []), []) jm2;
     jm4 \<leftarrow> jm_update_changes ([], (case del_suspend of Some j \<Rightarrow> [j] | None \<Rightarrow> []), []) jm3;
     Some (del_one, jm4)
   }"

definition do_remove_relation ::
  "'x unit_dep_data \<Rightarrow> job_info \<Rightarrow> 'd job_manager \<Rightarrow> 'd job_manager option" where
  "do_remove_relation dd info jm =
     (if no_relevancy (ji_attr info)
      then jm_exec_quiet dd (job_conf_new (ji_unit info) Stop) Replace jm
      else do {
        (del_rel, jobs, e) \<leftarrow> job_trans_fallback (fallback_fuel (jm_jobs jm)) dd (ji_unit info) (ji_run_kind info)
          Dependency (jm_jobs jm, jm_env jm);
        jm1 \<leftarrow> for_each (\<lambda>u jm. if u \<noteq> ji_unit info then simulate_unit_notify dd u Dependency True jm else Some jm)
          (jobs_2_units e del_rel) (jm\<lparr>jm_jobs := jobs, jm_env := e\<rparr>);
        jm_update_changes ([], del_rel, []) jm1
      })"

definition do_remove ::
  "'x unit_dep_data \<Rightarrow> job_info \<Rightarrow> job_result \<Rightarrow> bool \<Rightarrow> 'd job_manager \<Rightarrow> (bool \<times> 'd job_manager) option" where
  "do_remove dd info result inside jm = do {
     (del_one, jm1) \<leftarrow> do_remove_one dd info result inside jm;
     if \<not> del_one then Some (del_one, jm1)
     else do {
       jm2 \<leftarrow> (if result \<noteq> Done then do_remove_relation dd info jm1 else Some jm1);
       Some (del_one, jm2)
     }
   }"

definition jm_remove_data ::
  "'x unit_dep_data \<Rightarrow> u32 \<Rightarrow> 'd job_manager \<Rightarrow> ((error + unit) \<times> 'd job_manager) option" where
  "jm_remove_data dd j jm = do {
     rust_assert (\<not> jm_running jm);
     (case jt_get (jm_env jm) (jm_jobs jm) j of
        None \<Rightarrow> Some (Inl NotExisted, jm)
      | Some info \<Rightarrow>
          if jt_is_trigger (jm_env jm) (jm_jobs jm) j then Some (Inl NotSupported, jm)
          else if \<not> jt_is_suspend (jm_env jm) (jm_jobs jm) j then Some (Inl Internal, jm)
          else map_option (\<lambda>(_, jm'). (Inr (), jm')) (do_remove dd info Cancelled False jm))
   }"

subsection \<open>Finishing on a unit's report\<close>

text \<open>\<open>UnitX::trigger\<close>, called at the end for the units that trigger this one, has an empty body.\<close>

definition do_try_finish ::
  "'x unit_dep_data \<Rightarrow> unit_state_note \<Rightarrow> 'd job_manager \<Rightarrow> 'd job_manager option" where
  "do_try_finish dd note jm = (let u = note_unit note in do {
     (generated, jm1) \<leftarrow>
       (case jt_get_trigger_info (jm_env jm) (jm_jobs jm) u of
          Some (trigger, pause) \<Rightarrow>
            if pause then map_option (\<lambda>jobs. (True, jm\<lparr>jm_jobs := jobs\<rparr>)) (jt_resume_unit u (jm_jobs jm))
            else do {
              (suggest_r, suggest_g) \<leftarrow> job_process_unit (ji_run_kind trigger) (note_ns note) (note_flags note);
              jm' \<leftarrow> (case suggest_r of
                  Some result \<Rightarrow> map_option snd (do_remove dd trigger result False jm)
                | None \<Rightarrow> Some jm);
              Some (suggest_g, jm')
            }
        | None \<Rightarrow> Some (False, jm));
     jm2 \<leftarrow> (if \<not> generated then simulate_job_notify dd u (note_os note) (note_ns note) jm1 else Some jm1);
     unit_start_on dd u (note_os note) (note_ns note) (note_flags note) jm2
   })"

definition jm_try_finish_data ::
  "'x unit_dep_data \<Rightarrow> unit_state_note \<Rightarrow> 'd job_manager \<Rightarrow> ((error + unit) \<times> 'd job_manager) option" where
  "jm_try_finish_data dd note jm =
     (if jm_running jm
      then (if jm_text jm \<noteq> None then Some (Inl Input, jm) else Some (Inr (), jm\<lparr>jm_text := Some note\<rparr>))
      else map_option (Pair (Inr ())) (do_try_finish dd note jm))"

subsection \<open>Arming the event source\<close>

definition jm_update_up_ready :: "'d job_manager \<Rightarrow> 'd job_manager" where
  "jm_update_up_ready jm = jm\<lparr>jm_jobs := jt_update_up_ready (jm_jobs jm)\<rparr>"

definition try_enable :: "'d job_manager \<Rightarrow> 'd job_manager" where
  "try_enable jm = jm_update_up_ready
     (if ut_calc_ready (jt_unit (jm_jobs jm)) \<and> \<not> ut_up_ready (jt_unit (jm_jobs jm))
      then jm\<lparr>jm_enabled := True\<rparr> else jm)"

text \<open>The public calls: \<open>try_enable\<close> follows only on success.\<close>

definition and_enable :: "(error + unit) \<times> 'd job_manager \<Rightarrow> (error + unit) \<times> 'd job_manager" where
  "and_enable rj = (case rj of (Inl err, jm) \<Rightarrow> (Inl err, jm) | (Inr _, jm) \<Rightarrow> (Inr (), try_enable jm))"

definition job_manager_exec ::
  "'x unit_dep_data \<Rightarrow> job_conf \<Rightarrow> job_mode \<Rightarrow> job_affect \<Rightarrow> 'd job_manager \<Rightarrow>
   ((error + unit) \<times> job_affect \<times> 'd job_manager) option" where
  "job_manager_exec dd config mode affect jm = do {
     (r, a, jm1) \<leftarrow> jm_exec dd config mode affect jm;
     let (r', jm2) = and_enable (r, jm1);
     Some (r', a, jm2)
   }"

definition job_manager_notify ::
  "'x unit_dep_data \<Rightarrow> job_conf \<Rightarrow> job_mode \<Rightarrow> 'd job_manager \<Rightarrow> ((error + unit) \<times> 'd job_manager) option" where
  "job_manager_notify dd config mode jm = map_option and_enable (jm_notify_data dd config mode jm)"

definition job_manager_try_finish ::
  "'x unit_dep_data \<Rightarrow> unit_state_note \<Rightarrow> 'd job_manager \<Rightarrow> ((error + unit) \<times> 'd job_manager) option" where
  "job_manager_try_finish dd note jm = map_option and_enable (jm_try_finish_data dd note jm)"

definition job_manager_remove ::
  "'x unit_dep_data \<Rightarrow> u32 \<Rightarrow> 'd job_manager \<Rightarrow> ((error + unit) \<times> 'd job_manager) option" where
  "job_manager_remove dd j jm = map_option and_enable (jm_remove_data dd j jm)"

definition has_stop_job :: "uid \<Rightarrow> 'd job_manager \<Rightarrow> bool" where
  "has_stop_job u jm \<longleftrightarrow> jt_get_suspend (jm_env jm) (jm_jobs jm) u Stop \<noteq> None"

definition has_start_like_job :: "uid \<Rightarrow> 'd job_manager \<Rightarrow> bool" where
  "has_start_like_job u jm \<longleftrightarrow>
     jt_get_suspend (jm_env jm) (jm_jobs jm) u Start \<noteq> None \<or>
     jt_get_suspend (jm_env jm) (jm_jobs jm) u ReloadOrStart \<noteq> None \<or>
     jt_get_suspend (jm_env jm) (jm_jobs jm) u Restart \<noteq> None"

subsection \<open>Running\<close>

text \<open>\<open>Reliability::clear_last_unit\<close> and \<open>clear_last_frame\<close> first write the caches of all
  databases to disk; here the two of the job manager.\<close>

definition job_re_commit :: "'d job_disk \<Rightarrow> 'd job_env \<Rightarrow> 'd job_env" where
  "job_re_commit H e = e\<lparr>je_re := (je_re e)\<lparr>
     jre_trigger := redb_cache_2_db (jd_trigger H) (jre_trigger (je_re e)),
     jre_suspends := redb_cache_2_db (jd_suspends H) (jre_suspends (je_re e))\<rparr>\<rparr>"

definition clear_last_unit :: "'d job_disk \<Rightarrow> 'd job_manager \<Rightarrow> 'd job_manager" where
  "clear_last_unit H jm = jm\<lparr>jm_env := (job_re_commit H (jm_env jm))\<lparr>je_last_unit := None\<rparr>\<rparr>"

definition clear_last_frame :: "'d job_disk \<Rightarrow> 'd job_manager \<Rightarrow> 'd job_manager" where
  "clear_last_frame H jm = jm\<lparr>jm_env := job_re_commit H (jm_env jm), jm_last_frame := None\<rparr>"

text \<open>
  The call of \<open>try_trigger\<close> with \<open>running\<close> set: the reports the unit makes meanwhile go
  through \<open>try_finish\<close>, so the first is kept in \<open>text\<close> and the others are refused. A report
  that is kept arms the event source; the ready queue does not change between the report and
  the return of \<open>try_trigger\<close>.
\<close>

definition run_trigger ::
  "unit_act \<Rightarrow> 'x unit_dep_data \<Rightarrow> uid option \<Rightarrow> 'd job_manager \<Rightarrow>
   (((job_info \<times> job_result option) option \<times> u32 option) option \<times> 'd job_manager) option" where
  "run_trigger act dd un jm = do {
     (ret, jobs, e) \<leftarrow> jt_try_trigger act dd un (jm_jobs jm) ((jm_env jm)\<lparr>je_notes := []\<rparr>);
     jm1 \<leftarrow> for_each (\<lambda>note jm. map_option snd (job_manager_try_finish dd note jm)) (je_notes e)
       (jm\<lparr>jm_text := None, jm_running := True, jm_jobs := jobs, jm_env := e\<lparr>je_notes := []\<rparr>\<rparr>);
     Some (ret, jm1\<lparr>jm_running := False\<rparr>)
   }"

text \<open>One turn of the loop of \<open>run\<close>; it says whether something was triggered.\<close>

definition run_one ::
  "'d job_disk \<Rightarrow> unit_act \<Rightarrow> 'x unit_dep_data \<Rightarrow> uid option \<Rightarrow> 'd job_manager \<Rightarrow> (bool \<times> 'd job_manager) option" where
  "run_one H act dd un jm = do {
     (trigger_ret, jm1) \<leftarrow> run_trigger act dd un jm;
     (case trigger_ret of
        None \<Rightarrow> Some (False, jm1)
      | Some (trigger_info, merge_trigger) \<Rightarrow> do {
          jm2 \<leftarrow> jm_update_changes ([], (case merge_trigger of Some j \<Rightarrow> [j] | None \<Rightarrow> []), []) jm1;
          jm3 \<leftarrow> (case jm_text jm2 of
              Some note \<Rightarrow> map_option (\<lambda>jm. jm\<lparr>jm_text := None\<rparr>) (do_try_finish dd note (jm2\<lparr>jm_text := None\<rparr>))
            | None \<Rightarrow> Some jm2);
          jm4 \<leftarrow> (case trigger_info of
              Some (t_jinfo, Some tend_r) \<Rightarrow>
                if jt_get (jm_env jm3) (jm_jobs jm3) (ji_id t_jinfo) \<noteq> None
                then map_option snd (do_remove dd t_jinfo tend_r True jm3)
                else Some jm3
            | _ \<Rightarrow> Some jm3);
          Some (True, clear_last_unit H jm4)
        })
   }"

text \<open>The loop; it has no bound of its own, so not returning is \<open>None\<close>.\<close>

partial_function (option) jm_run ::
  "'d job_disk \<Rightarrow> unit_act \<Rightarrow> 'x unit_dep_data \<Rightarrow> uid option \<Rightarrow> usize \<Rightarrow> 'd job_manager \<Rightarrow>
   (usize \<times> 'd job_manager) option" where
  "jm_run H act dd un cnt jm = Option.bind (run_one H act dd un jm) (\<lambda>(again, jm').
     if again then jm_run H act dd un (cnt + 1) jm' else Some (cnt, jm'))"

definition RELI_LAST_FRAME_JOB_MANAGER :: u32 where
  "RELI_LAST_FRAME_JOB_MANAGER = 1"

text \<open>The event source is one-shot: a dispatch disarms it.\<close>

definition jm_dispatch ::
  "'d job_disk \<Rightarrow> unit_act \<Rightarrow> 'x unit_dep_data \<Rightarrow> 'd job_manager \<Rightarrow> 'd job_manager option" where
  "jm_dispatch H act dd jm = do {
     (_, jm1) \<leftarrow> jm_run H act dd None 0
       (jm\<lparr>jm_enabled := False, jm_last_frame := Some RELI_LAST_FRAME_JOB_MANAGER\<rparr>);
     let jm2 = jm_update_up_ready (clear_last_frame H jm1);
     rust_assert (\<not> ut_calc_ready (jt_unit (jm_jobs jm2)));
     Some jm2
   }"

definition trigger_unit ::
  "'d job_disk \<Rightarrow> unit_act \<Rightarrow> 'x unit_dep_data \<Rightarrow> uid \<Rightarrow> 'd job_manager \<Rightarrow> 'd job_manager option" where
  "trigger_unit H act dd lunit jm = do {
     rust_assert (lunit \<in> set (dd_units dd));
     (cnt, jm1) \<leftarrow> jm_run H act dd (Some lunit) 0 jm;
     rust_assert (cnt \<noteq> 0);
     Some (try_enable jm1)
   }"

subsection \<open>Removed units and recovery\<close>

definition jm_remove_unit :: "uid \<Rightarrow> 'd job_manager \<Rightarrow> 'd job_manager option" where
  "jm_remove_unit u jm = (
     let ((del_trigger, del_suspends), jobs) = jt_remove_unit u (jm_jobs jm)
     in do {
       jm1 \<leftarrow> jm_update_changes ([], (case del_trigger of Some j \<Rightarrow> [j] | None \<Rightarrow> []), []) (jm\<lparr>jm_jobs := jobs\<rparr>);
       jm_update_changes ([], del_suspends, []) jm1
     })"

definition jm_table_notify :: "(uid, 'v) table_op \<Rightarrow> 'd job_manager \<Rightarrow> 'd job_manager option" where
  "jm_table_notify op jm = (case op of TableInsert _ _ \<Rightarrow> Some jm | TableRemove u _ \<Rightarrow> jm_remove_unit u jm)"

definition rentry_trigger_merge :: "uid \<Rightarrow> bool \<Rightarrow> 'd job_env \<Rightarrow> 'd job_env option" where
  "rentry_trigger_merge u fc e = do {
     let (k_o, a_o) = (case trigger_get (je_re e) u of
         Some ka \<Rightarrow> ka
       | None \<Rightarrow> (Restart, job_attr_new True True fc True));
     relevancy \<leftarrow> job_merge_trigger_iskeep k_o;
     k_n \<leftarrow> job_merge_trigger_map k_o;
     let a_n = job_attr_or (job_attr_new True True fc (\<not> relevancy)) a_o;
     map_option (\<lambda>re. e\<lparr>je_re := re\<rparr>) (trigger_insert u k_n a_n (je_re e))
   }"

definition jm_db_compensate_last :: "uid option \<Rightarrow> 'd job_manager \<Rightarrow> 'd job_manager option" where
  "jm_db_compensate_last lunit jm =
     (case lunit of
        Some u \<Rightarrow> map_option (\<lambda>e. jm\<lparr>jm_env := e\<rparr>) (rentry_trigger_merge u True (jm_env jm))
      | None \<Rightarrow> Some jm)"

definition jm_db_compensate_history :: "'d job_manager \<Rightarrow> 'd job_manager option" where
  "jm_db_compensate_history jm =
     map_option (\<lambda>e. jm\<lparr>jm_env := e\<rparr>)
       (for_each (\<lambda>u. rentry_trigger_merge u False) (trigger_keys (je_re (jm_env jm))) (jm_env jm))"

definition jm_do_compensate_last ::
  "'d job_disk \<Rightarrow> unit_act \<Rightarrow> 'x unit_dep_data \<Rightarrow> uid option \<Rightarrow> 'd job_manager \<Rightarrow> 'd job_manager option" where
  "jm_do_compensate_last H act dd lunit jm =
     (case lunit of Some u \<Rightarrow> trigger_unit H act dd u jm | None \<Rightarrow> Some jm)"

definition jm_do_compensate_others ::
  "'d job_disk \<Rightarrow> unit_act \<Rightarrow> 'x unit_dep_data \<Rightarrow> uid option \<Rightarrow> 'd job_manager \<Rightarrow> 'd job_manager option" where
  "jm_do_compensate_others H act dd lunit jm =
     for_each (\<lambda>u jm. if Some u \<noteq> lunit then trigger_unit H act dd u jm else Some jm)
       (trigger_keys (je_re (jm_env jm))) jm"

text \<open>The two loops of \<open>db_map\<close>; the state carries the rebuilt jobs.\<close>

definition db_map_trigger ::
  "'x unit_dep_data \<Rightarrow> uid \<times> job_kind \<times> job_attr \<Rightarrow> u32 list \<times> 'd trans_state \<Rightarrow> (u32 list \<times> 'd trans_state) option" where
  "db_map_trigger dd entry s = (case (entry, s) of ((u, kind, _), js, jobs, e) \<Rightarrow> do {
     rust_assert (u \<in> set (dd_units dd));
     (j, jobs', e') \<leftarrow> jt_rentry_map_trigger (job_conf_new u kind) jobs e;
     Some (js @ [j], jobs', e')
   })"

definition db_map_suspend ::
  "'x unit_dep_data \<Rightarrow> uid \<times> job_kind \<times> job_attr \<Rightarrow> u32 list \<times> 'd trans_state \<Rightarrow> (u32 list \<times> 'd trans_state) option" where
  "db_map_suspend dd entry s = (case (entry, s) of ((u, kind, _), js, jobs, e) \<Rightarrow> do {
     rust_assert (u \<in> set (dd_units dd));
     (j, jobs', e') \<leftarrow> jt_rentry_map_suspend (job_conf_new u kind) jobs e;
     Some (js @ [j], jobs', e')
   })"

definition jm_db_map :: "'x unit_dep_data \<Rightarrow> 'd job_manager \<Rightarrow> 'd job_manager option" where
  "jm_db_map dd jm = do {
     (triggers, s1) \<leftarrow> for_each (db_map_trigger dd) (trigger_entries (je_re (jm_env jm))) ([], jm_jobs jm, jm_env jm);
     (suspends, s2) \<leftarrow> for_each (db_map_suspend dd) (suspends_entries (je_re (snd s1))) ([], s1);
     (_, jobs, e) \<leftarrow> jt_reshuffle (fst s2) (snd s2);
     jm1 \<leftarrow> jm_update_changes (triggers, [], []) (jm\<lparr>jm_jobs := jobs, jm_env := e\<rparr>);
     jm2 \<leftarrow> jm_update_changes (suspends, [], []) jm1;
     Some (jm2\<lparr>jm_stat := job_stat_clear_cnt (jm_stat jm2)\<rparr>)
   }"

end
