(* ===== verification/Job_Table_Partial.thy ===== *)
theory Job_Table_Partial
  imports Job_Table_Claims
begin

section \<open>The job table after any operation that returns\<close>

text \<open>
  The specifications before this theory say when an operation on the job table returns.
  Here the view is the other one: whatever the state of the interrupts, an operation that
  does return leaves the table with its invariant. Where an operation does not meet the
  precondition of its specification, it panics.
\<close>

lemma for_each_inv_prefix:
  assumes "for_each f xs s = Some s'" and "I [] s"
    and "\<And>ys x zs s s'. xs = ys @ x # zs \<Longrightarrow> I ys s \<Longrightarrow> f x s = Some s' \<Longrightarrow> I (ys @ [x]) s'"
  shows "I xs s'"
  using assms
proof (induction xs arbitrary: s' rule: rev_induct)
  case Nil
  then show ?case by simp
next
  case (snoc x xs)
  from snoc.prems(1) obtain s1 where s1: "for_each f xs s = Some s1" "f x s1 = Some s'"
    by (auto simp: for_each_append bind_eq_Some_conv)
  have "I xs s1"
  proof (rule snoc.IH[OF s1(1) snoc.prems(2)])
    fix ys y zs t t' assume "xs = ys @ y # zs" "I ys t" "f y t = Some t'"
    then show "I (ys @ [y]) t'" using snoc.prems(3)[of ys y "zs @ [x]" t t'] by simp
  qed
  then show ?case using snoc.prems(3)[of xs x "[]"] s1(2) by simp
qed

subsection \<open>Jobs never go back\<close>

text \<open>
  Through every operation the allocated ids stay allocated, a job that has been triggered
  is never queued again, and every job of the heap has its own, allocated id.
\<close>

named_theorems env_laws \<open>operations whose effect on the environment is monotone\<close>

definition job_begun :: "job \<Rightarrow> bool" where
  "job_begun jb \<longleftrightarrow> jb_stage jb \<noteq> Init \<and> jb_stage jb \<noteq> Wait"

definition begun :: "'d job_env \<Rightarrow> u32 \<Rightarrow> bool" where
  "begun e j \<longleftrightarrow> (\<exists>jb. je_jobs e j = Some jb \<and> job_begun jb)"

definition heap_ids :: "'d job_env \<Rightarrow> bool" where
  "heap_ids e \<longleftrightarrow> (\<forall>j jb. je_jobs e j = Some jb \<longrightarrow> jb_id jb = j \<and> j \<in> ja_ids (je_alloc e))"

definition env_mono :: "'d job_env \<Rightarrow> 'd job_env \<Rightarrow> bool" where
  "env_mono e e' \<longleftrightarrow> ja_ids (je_alloc e) \<subseteq> ja_ids (je_alloc e') \<and>
     (\<forall>j\<in>ja_ids (je_alloc e). begun e j \<longrightarrow> begun e' j) \<and> (heap_ids e \<longrightarrow> heap_ids e')"

lemma env_mono_refl [simp]: "env_mono e e"
  by (simp add: env_mono_def)

lemma env_mono_trans: "env_mono e e1 \<Longrightarrow> env_mono e1 e2 \<Longrightarrow> env_mono e e2"
  by (auto simp: env_mono_def)

lemma env_mono_same: "je_jobs e' = je_jobs e \<Longrightarrow> je_alloc e' = je_alloc e \<Longrightarrow> env_mono e e'"
  by (simp add: env_mono_def begun_def heap_ids_def)

lemma env_mono_upd:
  assumes "je_jobs e j = Some jb" and "je_jobs e' = (je_jobs e)(j \<mapsto> jb')" and "je_alloc e' = je_alloc e"
    and "jb_id jb' = jb_id jb" and "job_begun jb \<Longrightarrow> job_begun jb'"
  shows "env_mono e e'"
  using assms by (auto simp: env_mono_def begun_def heap_ids_def)

lemma job_finish_env [env_laws]:
  assumes "job_finish r j e = Some (b, e')"
  shows "env_mono e e'"
proof -
  from assms obtain jb where jb: "je_jobs e j = Some jb" by (auto simp: job_finish_def elim: bind_SomeE)
  obtain retry jb1 where u: "(if r = Done then job_update_runkind jb else (False, jb)) = (retry, jb1)"
    by (cases "if r = Done then job_update_runkind jb else (False, jb)")
  then have "jb_id jb1 = jb_id jb" by (auto simp: job_update_runkind_def Let_def split: if_splits)
  then show ?thesis using assms jb u
    by (intro env_mono_upd[OF jb, of e' "if retry then jb1\<lparr>jb_stage := Running\<rparr> else jb1\<lparr>jb_stage := End r\<rparr>"])
       (auto simp: job_finish_def rentry_suspends_remove_def rentry_trigger_remove_def rust_assert_def
          job_begun_def Let_def split: if_splits)
qed

lemma finish_all_env [env_laws]: "finish_all r js e = Some e' \<Longrightarrow> env_mono e e'"
  unfolding finish_all_def
  by (erule for_each_inv[where I = "env_mono e"]) (auto dest: job_finish_env intro: env_mono_trans)

lemma job_wait_env [env_laws]:
  assumes "job_wait j e = Some e'"
  shows "env_mono e e'"
proof -
  from assms obtain jb where jb: "je_jobs e j = Some jb" by (auto simp: job_wait_def elim: bind_SomeE)
  then show ?thesis using assms
    by (intro env_mono_upd[OF jb, of e' "jb\<lparr>jb_stage := Wait\<rparr>"])
       (auto simp: job_wait_eq[OF jb] job_begun_def split: if_splits)
qed

lemma job_merge_attr_env [env_laws]:
  assumes "job_merge_attr j k e = Some e'"
  shows "env_mono e e'"
proof -
  from assms obtain jb ob where jb: "je_jobs e j = Some jb" "je_jobs e k = Some ob"
    by (auto simp: job_merge_attr_def elim!: bind_SomeE)
  then show ?thesis using assms
    by (intro env_mono_upd[OF jb(1), of e' "jb\<lparr>jb_attr := job_attr_or (jb_attr jb) (jb_attr ob)\<rparr>"])
       (auto simp: job_merge_attr_def job_method_defs bind_eq_Some_conv job_begun_def Let_def)
qed

lemma job_run_env [env_laws]:
  assumes "job_run act j e = Some (r, e')"
  shows "env_mono e e'"
proof -
  from assms obtain jb where jb: "je_jobs e j = Some jb" by (auto simp: job_run_def elim: bind_SomeE)
  have "je_jobs e' = (je_jobs e)(j \<mapsto> jb\<lparr>jb_stage := Running\<rparr>)"
    using assms jb
    by (auto simp: job_run_def job_method_defs bind_eq_Some_conv Let_def dest!: job_trigger_unit_frame(1) split: if_splits)
  moreover have "je_alloc e' = je_alloc e"
    using assms jb
    by (auto simp: job_run_def job_method_defs bind_eq_Some_conv Let_def dest!: job_trigger_unit_frame(3) split: if_splits)
  ultimately show ?thesis by (rule env_mono_upd[OF jb]) (simp_all add: job_begun_def)
qed

lemma ju_flush_env [env_laws]: "ju_flush_suspends ju e = Some (d, ju', e') \<Longrightarrow> env_mono e e'"
  by (auto simp: ju_flush_suspends_def bind_eq_Some_conv Let_def dest: finish_all_env)

lemma ju_insert_env [env_laws]: "ju_insert_suspend j b ju e = Some (d, ju', e') \<Longrightarrow> env_mono e e'"
  by (auto simp: ju_insert_suspend_def bind_eq_Some_conv Let_def dest: job_wait_env split: if_splits)

lemma ju_merge_one_env [env_laws]:
  "ju_merge_one j (ju, e, a, p) = Some (ju', e', a', p') \<Longrightarrow> env_mono e e'"
  by (auto simp: ju_merge_one_def bind_eq_Some_conv dest: job_merge_attr_env ju_insert_env split: option.splits)

lemma ju_merge_env [env_laws]:
  assumes "ju_merge_suspends oju ju e = Some (x, ju', e')"
  shows "env_mono e e'"
proof -
  from assms obtain dels ju1 e1 adds upds where s:
    "(if ju_is_suspends_conflict_with ju oju then ju_flush_suspends ju e else Some ([], ju, e)) = Some (dels, ju1, e1)"
    "for_each ju_merge_one (suspends_values (ju_suspends oju)) (ju1, e1, [], []) = Some (ju', e', adds, upds)"
    by (auto simp: ju_merge_suspends_def bind_eq_Some_conv)
  have "case (ju', e', adds, upds) of (_, x, _, _) \<Rightarrow> env_mono e1 x"
    by (rule for_each_inv[OF s(2)]) (auto dest: ju_merge_one_env intro: env_mono_trans)
  then show ?thesis using s(1) by (auto dest: ju_flush_env intro: env_mono_trans split: if_splits)
qed

lemma ju_reshuffle_env [env_laws]: "ju_reshuffle ju e = Some (d, ju', e') \<Longrightarrow> env_mono e e'"
  by (auto simp: ju_reshuffle_def bind_eq_Some_conv dest: finish_all_env)

lemma ju_do_trigger_env [env_laws]: "ju_do_trigger act ju e = Some (x, ju', e') \<Longrightarrow> env_mono e e'"
proof -
  assume "ju_do_trigger act ju e = Some (x, ju', e')"
  then obtain c m ju1 cur e1 ret where s: "do_next_trigger ju e = Some ((c, m), ju1)" "je_jobs e c = Some cur"
    "(case m of None \<Rightarrow> Some e | Some mj \<Rightarrow> do {
         mb \<leftarrow> je_jobs e mj;
         ea \<leftarrow> (if jb_kind mb = jb_kind cur then job_merge_attr c mj e else Some e);
         map_option snd (job_finish Merged mj ea) }) = Some e1"
    "job_run act c e1 = Some (ret, e')"
    unfolding ju_do_trigger_def Let_def by (elim bind_SomeE case_prodE) (auto elim!: bind_SomeE split: prod.splits)
  from s(3) have "env_mono e e1"
  proof (cases m)
    case (Some mj)
    then show ?thesis using s(3)
      by (auto elim!: bind_SomeE dest!: job_finish_env job_merge_attr_env intro: env_mono_trans split: if_splits)
  qed simp
  then show ?thesis using job_run_env[OF s(4)] by (rule env_mono_trans)
qed

lemma reshuffle_entry_env [env_laws]: "reshuffle_entry u r t e = Some (x, t', e') \<Longrightarrow> env_mono e e'"
  by (auto simp: reshuffle_entry_def bind_eq_Some_conv dest: ju_reshuffle_env split: if_splits)

lemma ut_loop_env:
  assumes "for_each f xs (a, t, e) = Some (a', t', e')"
    and "\<And>x a t e a' t' e'. f x (a, t, e) = Some (a', t', e') \<Longrightarrow> env_mono e e'"
  shows "env_mono e e'"
proof -
  have "case (a', t', e') of (_, _, x) \<Rightarrow> env_mono e x"
    by (rule for_each_inv[OF assms(1)]) (use assms(2) in \<open>fastforce intro: env_mono_trans\<close>)+
  then show ?thesis by simp
qed

lemma jt_isolate_env [env_laws]:
  assumes "jt_isolate_suspends st mode jt e = Some (d, jt', e')"
  shows "env_mono e e'"
proof -
  have "env_mono e e'" if "for_each (ut_isolate_one o') xs (a, t, e) = Some (a', t', e')" for o' xs a t a' t'
    using that by (rule ut_loop_env) (auto simp: ut_isolate_one_def bind_eq_Some_conv dest: ju_flush_env split: if_splits prod.splits)
  then show ?thesis using assms
    by (auto simp: jt_isolate_suspends_def ut_isolate_suspends_def bind_eq_Some_conv split: if_splits)
qed

lemma jt_merge_env [env_laws]:
  assumes "jt_merge_suspends st jt e = Some (d, jt', e')"
  shows "env_mono e e'"
proof -
  have "env_mono e e'" if "for_each (ut_merge_one o') xs (a, t, e) = Some (a', t', e')" for o' xs a t a' t'
    using that by (rule ut_loop_env) (auto simp: ut_merge_one_def bind_eq_Some_conv dest: ju_merge_env split: prod.splits)
  then show ?thesis using assms by (auto simp: jt_merge_suspends_def ut_merge_suspends_def bind_eq_Some_conv)
qed

lemma jt_reshuffle_env [env_laws]:
  assumes "jt_reshuffle jt e = Some (d, jt', e')"
  shows "env_mono e e'"
proof -
  have "env_mono e e'" if "for_each ut_reshuffle_one xs (a, t, e) = Some (a', t', e')" for xs a t a' t'
    using that by (rule ut_loop_env) (auto simp: ut_reshuffle_one_def bind_eq_Some_conv dest: reshuffle_entry_env split: prod.splits)
  then show ?thesis using assms by (auto simp: jt_reshuffle_def ut_reshuffle_def bind_eq_Some_conv)
qed

lemma jt_commit_env [env_laws]: "jt_commit dd st mode jt e = Some (r, jt', e') \<Longrightarrow> env_mono e e'"
  by (auto simp: jt_commit_def bind_eq_Some_conv dest!: jt_isolate_env jt_merge_env jt_reshuffle_env
      split: if_splits) (meson env_mono_trans)+

lemma jt_try_trigger_env [env_laws]: "jt_try_trigger act dd un jt e = Some (r, jt', e') \<Longrightarrow> env_mono e e'"
  by (auto simp: jt_try_trigger_def do_try_trigger_def try_trigger_entry_def bind_eq_Some_conv Let_def
      dest!: ju_do_trigger_env split: option.splits prod.splits if_splits)

lemma jt_finish_trigger_env [env_laws]: "jt_finish_trigger dd u r jt e = Some (d, jt', e') \<Longrightarrow> env_mono e e'"
  by (auto simp: jt_finish_trigger_def ut_finish_trigger_def finish_entry_def ju_finish_trigger_def bind_eq_Some_conv Let_def
      dest!: job_finish_env split: if_splits prod.splits)

lemma ju_remove_env [env_laws]: "ju_remove_suspend k r ju e = Some (d, ju', e') \<Longrightarrow> env_mono e e'"
  by (auto simp: ju_remove_suspend_def bind_eq_Some_conv Let_def dest: job_finish_env split: option.splits)

lemma jt_remove_suspends_env [env_laws]: "jt_remove_suspends dd u k1 k2 r jt e = Some (d, jt', e') \<Longrightarrow> env_mono e e'"
  by (auto simp: jt_remove_suspends_def ut_remove_suspends_def remove_entry_def bind_eq_Some_conv Let_def
      dest!: ju_remove_env reshuffle_entry_env split: option.splits if_splits)
     (meson env_mono_trans)+

subsection \<open>Resuming\<close>

lemma jt_inv_uv:
  assumes "jt_inv e jt" and "uv_of (jt_unit jt) u = Some ju"
  shows "ju_inv e ju" "ju_unit ju = u" "\<not> ju_dirty ju" "ju_order ju"
proof -
  from assms(1) have core: "tb_core e (jt_unit jt)" and clean: "tb_clean (jt_unit jt)"
    by (simp_all add: jt_inv_def tb_inv_def)
  note un = tb_uvD[OF core assms(2)]
  show "ju_inv e ju" "ju_unit ju = u" using un by simp_all
  show "\<not> ju_dirty ju" "ju_order ju" using un(3) clean assms(2) by (auto simp: tb_clean_iff ju_settled_def)
qed

lemma jt_resume_returns:
  assumes inv: "jt_inv e jt" and ret: "jt_resume_unit u jt = Some jt'"
  shows "jt_inv e jt' \<and> jt_id jt' = jt_id jt"
proof -
  let ?t = "jt_unit jt"
  from inv have i: "tb_inv e ?t" "ut_sync ?t" "jt_id jt = tb_ids ?t" by (simp_all add: jt_inv_def)
  have fr: "\<not> ju_stale_interrupt ju" if "uv_of ?t u = Some ju" "ju_pause ju" for ju
  proof
    assume stale: "ju_stale_interrupt ju"
    from that(1) obtain r where r: "map_of (ut_data ?t) u = Some r" "ut_heap ?t r = ju" by (rule uv_ofE)
    have "ju_resume ju = None" using ju_resume_spec(1)[OF jt_inv_uv(1,4)[OF inv that(1)] stale] .
    then show False using ret r that(2) by (simp add: jt_resume_unit_def ut_resume_unit_def resume_entry_def rust_assert_def split: if_splits)
  qed
  from ut_resume_unit_spec[OF i(1,2) fr] obtain t' where t': "ut_resume_unit u ?t = Some t'" "tb_inv e t'" "ut_sync t'"
    "uv_of t' = (uv_of ?t)(u := map_option ju_resumed (uv_of ?t u))" by blast
  have core: "tb_core e ?t" using i by (simp add: tb_inv_def)
  have "tb_ids t' = tb_ids ?t - {}"
    by (rule tb_ids_shrink[OF core t'(4)]) (cases "uv_of ?t u"; simp)+
  then show ?thesis using ret t' i(3) by (auto simp: jt_resume_unit_def jt_inv_def)
qed

lemma table_loop_returns:
  assumes "for_each f us jt = Some jt'" and "jt_inv e jt"
    and "\<And>u jt jt'. jt_inv e jt \<Longrightarrow> f u jt = Some jt' \<Longrightarrow> jt_inv e jt' \<and> jt_id jt' = jt_id jt"
  shows "jt_inv e jt' \<and> jt_id jt' = jt_id jt"
proof (rule for_each_inv[OF assms(1), where I = "\<lambda>x. jt_inv e x \<and> jt_id x = jt_id jt"])
  show "jt_inv e jt \<and> jt_id jt = jt_id jt" using assms(2) by simp
  fix u s s' assume s: "jt_inv e s \<and> jt_id s = jt_id jt" "f u s = Some s'"
  from assms(3)[OF conjunct1[OF s(1)] s(2)] s(1) show "jt_inv e s' \<and> jt_id s' = jt_id jt" by simp
qed

lemma process_relation_returns:
  assumes "jt_inv e jt" and "process_relation dd u jt = Some jt'"
  shows "jt_inv e jt' \<and> jt_id jt' = jt_id jt"
proof -
  from assms(2) obtain jt1 where s: "for_each jt_resume_unit (gets_atom dd u UnitAtomAfter) jt = Some jt1"
    "for_each jt_resume_unit (gets_atom dd u UnitAtomBefore) jt1 = Some jt'"
    unfolding process_relation_def by (rule bind_SomeE)
  from table_loop_returns[OF s(1) assms(1) jt_resume_returns] have 1: "jt_inv e jt1" "jt_id jt1 = jt_id jt" by simp_all
  from table_loop_returns[OF s(2) 1(1) jt_resume_returns] 1(2) show ?thesis by simp
qed

lemma process_relations_returns:
  assumes "for_each (process_relation dd) us jt = Some jt'" and "jt_inv e jt"
  shows "jt_inv e jt' \<and> jt_id jt' = jt_id jt"
  using assms process_relation_returns by (rule table_loop_returns)

text \<open>The relations of a unit are processed when something was removed.\<close>

lemma relation_step_returns:
  assumes "jt_inv e jt" and "(if b then process_relation dd u jt else Some jt) = Some jt'"
  shows "jt_inv e jt' \<and> jt_id jt' = jt_id jt"
  using assms process_relation_returns[OF assms(1), of dd u jt'] by (cases b) simp_all

subsection \<open>Finishing and cancelling\<close>

lemma jt_finish_returns:
  assumes inv: "jt_inv e jt" and ret: "jt_finish_trigger dd u result jt e = Some (dj, jt', e')"
  shows "jt_inv e' jt' \<and> jt_id jt' = jt_id jt - set_option dj"
proof -
  let ?t = "jt_unit jt"
  from inv have i: "tb_inv e ?t" "ut_sync ?t" "jt_id jt = tb_ids ?t" by (simp_all add: jt_inv_def)
  then have core: "tb_core e ?t" by (simp add: tb_inv_def)
  from ret obtain t1 where ut: "ut_finish_trigger u result ?t e = Some (dj, t1, e')"
    and rel: "(if dj \<noteq> None then process_relation dd u (jt\<lparr>jt_unit := t1, jt_id := jt_id jt - set_option dj\<rparr>)
         else Some (jt\<lparr>jt_unit := t1, jt_id := jt_id jt - set_option dj\<rparr>)) = Some jt'"
    by (auto simp: jt_finish_trigger_def Let_def elim!: bind_SomeE)
  from ut obtain r t where r: "map_of (ut_data ?t) u = Some r" "ju_trigger (ut_heap ?t r) = Some t"
    by (auto simp: ut_finish_trigger_def elim!: bind_SomeE)
  define ju where "ju = ut_heap ?t r"
  have ju: "uv_of ?t u = Some ju" "ju_trigger ju = Some t" using r by (simp_all add: ju_def uv_of_def)
  note un = jt_inv_uv[OF inv ju(1)]
  from un(1) ju(2) obtain k where "job_at e t Running k u" using un(2) by (auto simp: ju_inv_def ju_jobs_def)
  then obtain jb where jb: "je_jobs e t = Some jb" by (rule job_atE)
  have tn: "ju_trigger ju \<noteq> None" using ju(2) by simp
  from ut_finish_trigger_spec[OF i(1,2) ju(1) tn, of result] ut obtain ju' where f:
    "ju_finish_trigger result ju e = Some (dj, ju', e')" "tb_inv e' t1" "ut_sync t1"
    "uv_of t1 = (uv_of ?t)(u := uv_gc (ju_settle ju'))" by auto
  from ju_finish_trigger_spec[OF un(1,4) ju(2) jb, of result] f(1) have d: "ju_suspends ju' = ju_suspends ju"
    "dj = None \<and> ju_trigger ju' = Some t \<or> dj = Some t \<and> ju_trigger ju' = None"
    by (auto split: if_splits)
  note ids = ju_finish_ids[OF un(1) ju(2) d]
  have "set_option dj \<subseteq> ju_ids ju" using d(2) ju(2) by (auto simp: ju_ids_def)
  with ids have "tb_ids t1 = tb_ids ?t - set_option dj"
    by (intro tb_ids_shrink[OF core f(4)]) (simp_all add: ju(1))
  then have "jt_inv e' (jt\<lparr>jt_unit := t1, jt_id := jt_id jt - set_option dj\<rparr>)" using f(2,3) i(3) by (simp add: jt_inv_def)
  from relation_step_returns[OF this rel] show ?thesis by simp
qed

lemma ju_reshuffle_None:
  "ju_inv e ju \<Longrightarrow> \<not> can_reshuffle ju \<Longrightarrow> ju_reshuffle ju e = None"
proof (cases "ju_is_suspends_conflict ju")
  case True
  then show ?thesis by (simp add: ju_reshuffle_def)
next
  case False
  assume "ju_inv e ju" "\<not> can_reshuffle ju"
  then show ?thesis using False ju_reshuffle_eq[of e ju] by (simp add: ju_inv_def can_reshuffle_def)
qed

lemma ju_cancel_returns:
  assumes inv: "ju_inv e ju" and order: "ju_order ju" and ne: "result \<noteq> Done"
    and ret: "ju_cancel kind1 kind2 result ju e = Some x"
  shows "can_cancel kind1 kind2 ju"
proof (rule ccontr)
  assume nc: "\<not> can_cancel kind1 kind2 ju"
  from ju_cancel_remove[OF inv ne, of kind1 kind2] obtain dels e1 where
    c: "do {
       (j1, ju1, e1) \<leftarrow> ju_remove_suspend kind1 result ju e;
       (j2, ju2, e2) \<leftarrow> (case kind2 of Some k2 \<Rightarrow> ju_remove_suspend k2 result ju1 e1 | None \<Rightarrow> Some (None, ju1, e1));
       Some (List.map_filter (\<lambda>x. x) [j1, j2], ju2, e2) } = Some (dels, cancel_ju kind1 kind2 ju, e1)"
    "ju_step e ju e1 (cancel_ju kind1 kind2 ju)" by blast
  have "\<not> can_reshuffle (cancel_ju kind1 kind2 ju)"
    using nc order by (auto simp: can_cancel_def can_reshuffle_def cancel_ju_def ju_stale_interrupt_def)
  with c(2) have "ju_reshuffle (cancel_ju kind1 kind2 ju) e1 = None"
    by (intro ju_reshuffle_None) (simp_all add: ju_step_def)
  then show False using ret unfolding ju_cancel_split c(1) by simp
qed

lemma jt_remove_suspends_returns:
  assumes inv: "jt_inv e jt" and ne: "result \<noteq> Done"
    and ret: "jt_remove_suspends dd u kind1 kind2 result jt e = Some (dels, jt', e')"
  shows "jt_inv e' jt' \<and> jt_id jt' = jt_id jt - set dels"
proof (cases "uv_of (jt_unit jt) u")
  case None
  then have "map_of (ut_data (jt_unit jt)) u = None" by (simp add: uv_of_def)
  moreover have "ut_sync (jt_unit jt)" using inv by (simp add: jt_inv_def)
  ultimately have "dels = [] \<and> jt' = jt \<and> e' = e"
    using ret by (simp add: jt_remove_suspends_def ut_remove_suspends_def)
  then show ?thesis using inv by simp
next
  case (Some ju)
  let ?t = "jt_unit jt"
  from inv have i: "tb_inv e ?t" "ut_sync ?t" "jt_id jt = tb_ids ?t" by (simp_all add: jt_inv_def)
  then have core: "tb_core e ?t" by (simp add: tb_inv_def)
  note un = jt_inv_uv[OF inv Some]
  from ret obtain t1 where ut: "ut_remove_suspends u kind1 kind2 result ?t e = Some (dels, t1, e')"
    and rel: "(if dels \<noteq> [] then process_relation dd u (jt\<lparr>jt_unit := t1, jt_id := jt_id jt - set dels\<rparr>)
         else Some (jt\<lparr>jt_unit := t1, jt_id := jt_id jt - set dels\<rparr>)) = Some jt'"
    by (auto simp: jt_remove_suspends_def Let_def elim!: bind_SomeE)
  from Some obtain r where r: "map_of (ut_data ?t) u = Some r" "ut_heap ?t r = ju" by (rule uv_ofE)
  with ut obtain x where "ju_cancel kind1 kind2 result ju e = Some x"
    by (auto simp: ut_remove_suspends_def remove_entry_eq elim!: bind_SomeE split: if_splits)
  then have cc: "can_cancel kind1 kind2 ju" by (rule ju_cancel_returns[OF un(1,4) ne])
  from ut_remove_suspends_spec[OF i(1,2) Some cc ne] ut obtain ju' where f:
    "ju_cancel kind1 kind2 result ju e = Some (dels, ju', e')" "tb_inv e' t1" "ut_sync t1"
    "uv_of t1 = (uv_of ?t)(u := uv_gc (ju_settle ju'))" by auto
  from ju_cancel_spec[OF un(1) cc ne] f(1) have c: "ju' = reshuffle_result e (cancel_ju kind1 kind2 ju)"
    "ju_suspends ju' = cancel_map kind1 kind2 (ju_suspends ju)"
    "set dels = {j. \<exists>k. ju_suspends ju k = Some j \<and> cancel_map kind1 kind2 (ju_suspends ju) k = None}" by auto
  have tr: "ju_trigger ju' = ju_trigger ju" unfolding c(1) by (simp add: cancel_ju_def)
  note ids = cancel_ids[OF un(1) c(2) tr c(3)]
  have "tb_ids t1 = tb_ids ?t - set dels" by (rule tb_ids_shrink[OF core f(4)]) (use ids Some in simp_all)
  then have "jt_inv e' (jt\<lparr>jt_unit := t1, jt_id := jt_id jt - set dels\<rparr>)" using f(2,3) i(3) by (simp add: jt_inv_def)
  from relation_step_returns[OF this rel] show ?thesis by simp
qed

subsection \<open>Committing\<close>

lemma ut_reshuffle_one_returns:
  assumes core: "tb_core e t" and r: "map_of (ut_data t) u = Some r" and d: "ju_dirty (ut_heap t r)"
    and ret: "ut_reshuffle_one (u, r) (mj, t, e) = Some x"
  shows "can_reshuffle (ut_heap t r)"
proof (rule ccontr)
  assume "\<not> can_reshuffle (ut_heap t r)"
  with tb_unitsD(3)[OF core r] have "ju_reshuffle (ut_heap t r) e = None" by (rule ju_reshuffle_None)
  then show False using ret d by (simp add: ut_reshuffle_one_def reshuffle_entry_def)
qed

lemma ut_reshuffle_returns:
  assumes core: "tb_core e t" and db: "tb_db e t" and ret: "ut_reshuffle t e = Some x"
  shows "\<forall>u ju. uv_of t u = Some ju \<longrightarrow> ju_dirty ju \<longrightarrow> can_reshuffle ju"
proof -
  have dist: "distinct (map fst (ut_data t))" using core by (simp add: tb_core_def tb_units_def)
  from ret obtain y where ret': "for_each ut_reshuffle_one (ut_data t) ([], t, e) = Some y"
    by (auto simp: ut_reshuffle_def elim: bind_SomeE)
  define I where "I = (\<lambda>(ys :: (uid \<times> nat) list) (mj :: u32 list, t', e' :: 'a job_env). tb_core e' t' \<and> tb_db e' t' \<and>
    (\<forall>u. u \<notin> fst ` set ys \<longrightarrow> uv_of t' u = uv_of t u \<and> map_of (ut_data t') u = map_of (ut_data t) u) \<and>
    (\<forall>u ju. u \<in> fst ` set ys \<longrightarrow> uv_of t u = Some ju \<longrightarrow> ju_dirty ju \<longrightarrow> can_reshuffle ju))"
  have "I (ut_data t) y"
  proof (rule for_each_inv_prefix[OF ret'])
    show "I [] ([], t, e)" using core db by (simp add: I_def)
    fix ys ent zs s s' assume split: "ut_data t = ys @ ent # zs" and IH: "I ys s" and step: "ut_reshuffle_one ent s = Some s'"
    obtain u r where ent: "ent = (u, r)" by (cases ent)
    obtain mj t' e' where s: "s = (mj, t', e')" by (cases s)
    have new: "u \<notin> fst ` set ys" using dist split ent by auto
    have d: "map_of (ut_data t) u = Some r" using dist split ent by (intro map_of_is_SomeI) auto
    have h: "tb_core e' t'" "tb_db e' t'" "\<And>u. u \<notin> fst ` set ys \<Longrightarrow> uv_of t' u = uv_of t u"
      "\<And>u. u \<notin> fst ` set ys \<Longrightarrow> map_of (ut_data t') u = map_of (ut_data t) u"
      "\<And>u ju. u \<in> fst ` set ys \<Longrightarrow> uv_of t u = Some ju \<Longrightarrow> ju_dirty ju \<Longrightarrow> can_reshuffle ju"
      using IH unfolding I_def s prod.case by blast+
    have d': "map_of (ut_data t') u = Some r" using h(4)[OF new] d by simp
    have heap: "ut_heap t' r = ut_heap t r" using h(3)[OF new] uv_ofI[OF d] uv_ofI[OF d'] by simp
    have cn: "ju_dirty (ut_heap t r) \<longrightarrow> can_reshuffle (ut_heap t r)"
      using ut_reshuffle_one_returns[OF h(1) d'] step heap by (auto simp: s ent)
    from ut_reshuffle_one_spec[OF h(1,2) d' heap cn, of mj]
    obtain mj1 t1 e1 where n: "ut_reshuffle_one (u, r) (mj, t', e') = Some (mj @ mj1, t1, e1)"
      "tb_core e1 t1" "tb_db e1 t1" "uv_of t1 = (uv_of t')(u := reshuffled e' (ut_heap t r))"
      "\<forall>u'. u' \<noteq> u \<longrightarrow> map_of (ut_data t1) u' = map_of (ut_data t') u'"
      by (elim exE conjE) (rule that; assumption)
    have s': "s' = (mj @ mj1, t1, e1)" using step n(1) by (simp add: s ent)
    have "can_reshuffle ju" if "u' \<in> fst ` set (ys @ [ent])" "uv_of t u' = Some ju" "ju_dirty ju" for u' ju
    proof (cases "u' = u")
      case True
      then show ?thesis using cn that uv_ofI[OF d] by simp
    next
      case False
      then have "u' \<in> fst ` set ys" using that(1) ent by auto
      then show ?thesis using that by (intro h(5))
    qed
    moreover have "uv_of t1 u' = uv_of t u' \<and> map_of (ut_data t1) u' = map_of (ut_data t) u'" if "u' \<notin> fst ` set (ys @ [ent])" for u'
      using that n(4,5) h(3,4)[of u'] by (simp add: ent)
    ultimately show "I (ys @ [ent]) s'" using n(2,3) unfolding I_def s' prod.case by blast
  qed
  moreover have "u \<in> fst ` set (ut_data t)" if "uv_of t u = Some ju" for u ju
    using that by (auto simp: uv_of_def dest!: map_of_SomeD intro: rev_image_eqI)
  moreover obtain mj t' e' where y: "y = (mj, t', e')" by (cases y)
  ultimately have all: "I (ut_data t) (mj, t', e')" "\<And>u ju. uv_of t u = Some ju \<Longrightarrow> u \<in> fst ` set (ut_data t)" by simp_all
  have "\<forall>u ju. u \<in> fst ` set (ut_data t) \<longrightarrow> uv_of t u = Some ju \<longrightarrow> ju_dirty ju \<longrightarrow> can_reshuffle ju"
    using all(1) unfolding I_def prod.case by (elim conjE)
  then show ?thesis using all(2) by metis
qed

lemma jt_commit_returns:
  assumes inv: "jt_inv e jt" and stage: "stage_ok e (jt_unit st)" and ids: "jt_id st = tb_ids (jt_unit st)"
    and ret: "jt_commit dd st mode jt e = Some (r, jt', e')"
  shows "jt_inv e' jt' \<and> jt_id jt' \<subseteq> jt_id jt \<union> jt_id st"
proof (cases "jt_id st \<inter> jt_id jt = {}")
  case False
  then show ?thesis using ret inv by (auto simp: jt_commit_def)
next
  case disj: True
  let ?t = "jt_unit jt" and ?st = "jt_unit st"
  from inv have core: "tb_core e ?t" and db: "tb_db e ?t" and idt: "jt_id jt = tb_ids ?t"
    by (simp_all add: jt_inv_def tb_inv_def)
  from jt_isolate_suspends_spec[OF core db idt, of st mode] obtain ij jt1 e1 where i:
    "jt_isolate_suspends st mode jt e = Some (ij, jt1, e1)" "tb_core e1 (jt_unit jt1)" "tb_db e1 (jt_unit jt1)"
    "jt_id jt1 = tb_ids (jt_unit jt1)" "jt_id jt1 = jt_id jt - set ij"
    "\<forall>j k u'. job_at e j Init k u' \<longrightarrow> job_at e1 j Init k u'"
    by (elim exE conjE) (rule that; assumption)
  from ut_merge_suspends_spec[OF i(2,3) stage_ok_mono[OF stage i(6)]] obtain adds fj upds t2 e2 where m:
    "ut_merge_suspends ?st (jt_unit jt1) e1 = Some ((adds, fj, upds), t2, e2)" "tb_core e2 t2" "tb_db e2 t2"
    "tb_ids t2 = tb_ids (jt_unit jt1) - set fj \<union> set adds" "set fj \<subseteq> tb_ids (jt_unit jt1)" "set adds \<subseteq> tb_ids ?st"
    by (elim exE conjE) (rule that; assumption)
  define jt2 where "jt2 = jt1\<lparr>jt_unit := t2, jt_id := jt_id jt1 \<union> set adds - set fj\<rparr>"
  have m2: "jt_merge_suspends st jt1 e1 = Some ((adds, fj, upds), jt2, e2)"
    using m(1) by (simp add: jt_merge_suspends_def jt2_def)
  have "set fj \<inter> set adds = {}" using m(5,6) i(4,5) disj ids by blast
  then have id2: "jt_id jt2 = tb_ids t2" using i(4) m(4) by (auto simp: jt2_def)
  from ret disj i(1) m2 obtain mj jt3 e3 where rs: "jt_reshuffle jt2 e2 = Some (mj, jt3, e3)"
    and rel: "(if ij \<noteq> [] \<or> fj \<noteq> []
       then do { jta \<leftarrow> for_each (process_relation dd) (jobs_2_units e3 ij) jt3;
                 for_each (process_relation dd) (jobs_2_units e3 fj) jta }
       else Some jt3) = Some jt'" and e3: "e3 = e'"
    by (auto simp: jt_commit_def elim!: bind_SomeE)
  from rs obtain t3 where t3: "ut_reshuffle t2 e2 = Some (mj, t3, e3)" "jt3 = jt2\<lparr>jt_unit := t3, jt_id := jt_id jt2 - set mj\<rparr>"
    by (auto simp: jt_reshuffle_def jt2_def elim!: bind_SomeE)
  note can = ut_reshuffle_returns[OF m(2,3) t3(1)]
  from ut_reshuffle_spec[OF m(2,3) can] t3(1) have r: "tb_inv e3 t3" "ut_sync t3" "tb_ids t3 = tb_ids t2 - set mj" by auto
  have inv3: "jt_inv e3 jt3" using r id2 t3(2) by (simp add: jt_inv_def)
  have sub: "jt_id jt3 \<subseteq> jt_id jt \<union> jt_id st" using t3(2) i(5) m(6) ids by (auto simp: jt2_def)
  show ?thesis
  proof (cases "ij \<noteq> [] \<or> fj \<noteq> []")
    case False
    then show ?thesis using rel inv3 sub e3 by simp
  next
    case True
    with rel obtain jta where a: "for_each (process_relation dd) (jobs_2_units e3 ij) jt3 = Some jta"
      "for_each (process_relation dd) (jobs_2_units e3 fj) jta = Some jt'" by (auto elim: bind_SomeE)
    from process_relations_returns[OF a(1) inv3] have a1: "jt_inv e3 jta" "jt_id jta = jt_id jt3" by simp_all
    from process_relations_returns[OF a(2) a1(1)] a1(2) sub e3 show ?thesis by simp
  qed
qed

subsection \<open>Triggering\<close>

lemma jt_try_trigger_ids:
  assumes inv: "jt_inv e jt" and ret: "jt_try_trigger act dd un jt e = Some (r, jt', e')"
  shows "jt_id jt' \<subseteq> jt_id jt"
  using ret by (auto simp: jt_try_trigger_def Let_def elim!: bind_SomeE split: option.splits)

end
