(* ===== verification/Job_Trans_Stage.thy ===== *)
theory Job_Trans_Stage
  imports Job_Transaction Job_Table_Partial
begin

section \<open>The staging table of a transaction\<close>

text \<open>
  A transaction collects its jobs in a staging table (\<open>JobManagerData::stage\<close>). This theory
  has the invariant of that table, what recording one request does to it, and that the jobs
  of the job table are not affected by new jobs.
\<close>

subsection \<open>New jobs leave the old ones alone\<close>

definition env_grow :: "'d job_env \<Rightarrow> 'd job_env \<Rightarrow> bool" where
  "env_grow e e' \<longleftrightarrow>
     (\<forall>j\<in>ja_ids (je_alloc e). je_jobs e' j = je_jobs e j) \<and> ja_ids (je_alloc e) \<subseteq> ja_ids (je_alloc e') \<and>
     je_re e' = je_re e \<and> je_units e' = je_units e \<and> je_notes e' = je_notes e \<and>
     je_last_unit e' = je_last_unit e \<and> je_timers e' = je_timers e"

lemma env_grow_refl [simp]: "env_grow e e"
  by (simp add: env_grow_def)

lemma env_grow_trans: "env_grow e e1 \<Longrightarrow> env_grow e1 e2 \<Longrightarrow> env_grow e e2"
  by (auto simp: env_grow_def)

lemma env_grow_units: "env_grow e e' \<Longrightarrow> je_units e' = je_units e"
  by (simp add: env_grow_def)

lemma job_at_grow: "env_grow e e' \<Longrightarrow> j \<in> ja_ids (je_alloc e) \<Longrightarrow> job_at e' j st k u = job_at e j st k u"
  by (simp add: env_grow_def job_at_def)

text \<open>A job unit all of whose jobs were allocated before keeps its invariant.\<close>

lemma ju_inv_grow:
  assumes g: "env_grow e e'" and ids: "ju_ids ju \<subseteq> ja_ids (je_alloc e)" and inv: "ju_inv e ju"
  shows "ju_inv e' ju"
proof -
  have jobs: "ju_suspends ju k = Some j \<Longrightarrow> je_jobs e' j = je_jobs e j" "ju_trigger ju = Some j \<Longrightarrow> je_jobs e' j = je_jobs e j" for k j
    using ids g by (auto simp: ju_ids_def env_grow_def ran_def)
  then have at: "ju_suspends ju k' = Some j \<Longrightarrow> job_at e' j st k u = job_at e j st k u"
      "ju_trigger ju = Some j \<Longrightarrow> job_at e' j st k u = job_at e j st k u" for j st k k' u
    by (simp_all add: job_at_def)
  have re: "je_re e' = je_re e" using g by (simp add: env_grow_def)
  have "ju_jobs e' ju" using inv at unfolding ju_inv_def ju_jobs_def by blast
  moreover have "Option.bind (ju_suspends ju k) (\<lambda>j. map_option jb_attr (je_jobs e' j)) =
      Option.bind (ju_suspends ju k) (\<lambda>j. map_option jb_attr (je_jobs e j))" for k
    using jobs(1) by (cases "ju_suspends ju k") simp_all
  moreover have "Option.bind (ju_trigger ju) (\<lambda>t. map_option (\<lambda>jb. (jb_kind jb, jb_attr jb)) (je_jobs e' t)) =
      Option.bind (ju_trigger ju) (\<lambda>t. map_option (\<lambda>jb. (jb_kind jb, jb_attr jb)) (je_jobs e t))"
    using jobs(2) by (cases "ju_trigger ju") simp_all
  ultimately have "ju_jobs e' ju" "ju_recorded e' ju"
    using inv by (simp_all add: ju_inv_def ju_recorded_def re)
  then show ?thesis using inv by (simp add: ju_inv_def)
qed

lemma jt_inv_grow:
  assumes g: "env_grow e e'" and ids: "jt_id jt \<subseteq> ja_ids (je_alloc e)" and inv: "jt_inv e jt"
  shows "jt_inv e' jt"
proof -
  have sub: "ju_ids ju \<subseteq> ja_ids (je_alloc e)" if "uv_of (jt_unit jt) u = Some ju" for u ju
    using that ids inv by (auto simp: jt_inv_def tb_ids_def)
  have "tb_units e' (jt_unit jt)"
    unfolding tb_units_def
  proof (intro conjI allI impI)
    show "distinct (map fst (ut_data (jt_unit jt)))"
      using inv by (simp add: jt_inv_def tb_inv_def tb_core_def tb_units_def)
    fix u r assume r: "map_of (ut_data (jt_unit jt)) u = Some r"
    have core: "tb_core e (jt_unit jt)" using inv by (simp add: jt_inv_def tb_inv_def)
    note un = tb_unitsD[OF core r]
    show "r < ut_next (jt_unit jt)" "ju_unit (ut_heap (jt_unit jt) r) = u" "ju_settled (ut_heap (jt_unit jt) r)"
      using un by simp_all
    show "ju_inv e' (ut_heap (jt_unit jt) r)" using ju_inv_grow[OF g sub[OF uv_ofI[OF r]] un(3)] .
  qed
  moreover have "ju_ids (job_unit_new u) = {}" for u by (simp add: ju_ids_def job_unit_new_def)
  then have "tb_db e' (jt_unit jt)"
    using inv ju_inv_grow[OF g] by (simp add: jt_inv_def tb_inv_def tb_db_def)
  ultimately show ?thesis using inv by (simp add: jt_inv_def tb_inv_def tb_core_def)
qed

subsection \<open>The invariant of the staging table\<close>

definition stage_inv :: "'d job_env \<Rightarrow> job_table \<Rightarrow> bool" where
  "stage_inv e st \<longleftrightarrow> distinct (map fst (ut_data (jt_unit st))) \<and>
     (\<forall>u r. map_of (ut_data (jt_unit st)) u = Some r \<longrightarrow> r < ut_next (jt_unit st)) \<and>
     (\<forall>u ju. uv_of (jt_unit st) u = Some ju \<longrightarrow> ju_unit ju = u \<and> ju_trigger ju = None \<and> ju_suspends ju \<noteq> Map.empty \<and>
        (\<forall>k j. ju_suspends ju k = Some j \<longrightarrow> job_at e j Init k u)) \<and>
     jt_id st = tb_ids (jt_unit st) \<and> jt_id st \<subseteq> ja_ids (je_alloc e)"

text \<open>The requests a staging table holds.\<close>

definition staged :: "job_table \<Rightarrow> (uid \<times> job_kind) set" where
  "staged st = {(u, k). ut_get_suspend (jt_unit st) u k \<noteq> None}"

lemma stage_inv_ok: "stage_inv e st \<Longrightarrow> stage_ok e (jt_unit st)"
  by (simp add: stage_inv_def stage_ok_def)

lemma stage_inv_empty [simp]: "stage_inv e (jt_clear st)" "stage_inv e jt_new"
  by (simp_all add: stage_inv_def jt_clear_def jt_new_def tb_ids_def uv_of_def ut_clear_def ut_new_def)

lemma staged_empty [simp]: "staged (jt_clear st) = {}" "staged jt_new = {}"
  by (simp_all add: staged_def ut_get_suspend_def jt_clear_def jt_new_def ut_clear_def ut_new_def)

lemma staged_iff:
  "(u, k) \<in> staged st \<longleftrightarrow> (\<exists>ju j. uv_of (jt_unit st) u = Some ju \<and> ju_suspends ju k = Some j)"
  by (auto simp: staged_def ut_get_suspend_def uv_of_def split: option.splits)

lemma stage_ref_inj:
  "stage_inv e st \<Longrightarrow> map_of (ut_data (jt_unit st)) u = Some r \<Longrightarrow> map_of (ut_data (jt_unit st)) u' = Some r \<Longrightarrow> u = u'"
  by (metis stage_inv_def uv_ofI)

subsection \<open>Recording one request\<close>

lemma ju_insert_suspend_new:
  assumes "je_jobs e j = Some jb" and "job_is_basic_op (jb_kind jb)" and "ju_trigger ju = None"
    and "ju_suspends ju (jb_kind jb) = None"
  shows "ju_insert_suspend j False ju e = Some (None,
     ju\<lparr>ju_suspends := (ju_suspends ju)(jb_kind jb \<mapsto> j), ju_order := False, ju_dirty := True, ju_ready := False\<rparr>, e)"
  using assms by (simp add: ju_insert_suspend_def ju_is_trigger_def Let_def ju_update_ready_eq)

lemma get_mut_uv_pad_cases:
  obtains r where "map_of (ut_data t) u = Some r" "get_mut_uv_pad u t = Some (r, t)"
  | "map_of (ut_data t) u = None"
    "get_mut_uv_pad u t = Some (ut_next t, put_uv (ut_next t) (job_unit_new u)
       (t\<lparr>ut_data := AList.update u (ut_next t) (ut_data t), ut_next := Suc (ut_next t)\<rparr>))"
  by (cases "map_of (ut_data t) u") (simp_all add: get_mut_uv_pad_def)

text \<open>Inserting a new job of the unit into its queue, with the effect on the abstract table.\<close>

definition stage_ju :: "unit_table \<Rightarrow> uid \<Rightarrow> job_unit" where
  "stage_ju t u = (case uv_of t u of Some ju \<Rightarrow> ju | None \<Rightarrow> job_unit_new u)"

lemma stage_insert:
  assumes inv: "stage_inv e st" and jb: "je_jobs e1 j = Some jb" "jb_unit jb = u" "jb_kind jb = k"
      "job_is_basic_op k" and new: "(u, k) \<notin> staged st" "j \<notin> jt_id st"
  shows "\<exists>t' ju'. jt_insert_suspend j st e1 =
      Some (Inr (), st\<lparr>jt_unit := t', jt_id := insert j (jt_id st)\<rparr>, e1) \<and>
    uv_of t' = (uv_of (jt_unit st))(u \<mapsto> ju') \<and> ju_trigger ju' = None \<and> ju_unit ju' = u \<and>
    ju_suspends ju' = (ju_suspends (stage_ju (jt_unit st) u))(k \<mapsto> j) \<and>
    distinct (map fst (ut_data t')) \<and> (\<forall>u r. map_of (ut_data t') u = Some r \<longrightarrow> r < ut_next t')"
proof -
  let ?t = "jt_unit st"
  let ?upd = "\<lambda>ju. ju\<lparr>ju_suspends := (ju_suspends ju)(k \<mapsto> j), ju_order := False, ju_dirty := True, ju_ready := False\<rparr>"
  have ref: "r' < ut_next ?t" if "map_of (ut_data ?t) u' = Some r'" for u' r'
    using inv that by (simp add: stage_inv_def)
  show ?thesis
  proof (cases rule: get_mut_uv_pad_cases[of ?t u])
    case (1 r)
    let ?ju = "ut_heap ?t r"
    have uv: "uv_of ?t u = Some ?ju" by (rule uv_ofI[OF 1(1)])
    then have un: "ju_unit ?ju = u" "ju_trigger ?ju = None" using inv by (simp_all add: stage_inv_def)
    have "ju_suspends ?ju k = None" using uv new(1) by (auto simp: staged_iff)
    then have ins: "ju_insert_suspend j False ?ju e1 = Some (None, ?upd ?ju, e1)"
      using ju_insert_suspend_new[of e1 j jb ?ju] jb un(2) by simp
    let ?t' = "(put_uv r (?upd ?ju) ?t)\<lparr>ut_sync := False\<rparr>"
    have "uv_of ?t' u' = ((uv_of ?t)(u \<mapsto> ?upd ?ju)) u'" for u'
    proof (cases "u' = u")
      case True
      then show ?thesis using 1(1) by (simp add: uv_of_def)
    next
      case False
      then have "map_of (ut_data ?t) u' \<noteq> Some r" using stage_ref_inj[OF inv 1(1), of u'] by blast
      then show ?thesis using False by (cases "map_of (ut_data ?t) u'") (simp_all add: uv_of_def)
    qed
    then have "uv_of ?t' = (uv_of ?t)(u \<mapsto> ?upd ?ju)" by blast
    moreover have "jt_insert_suspend j st e1 = Some (Inr (), st\<lparr>jt_unit := ?t', jt_id := insert j (jt_id st)\<rparr>, e1)"
      using new(2) jb 1(2) ins by (simp add: jt_insert_suspend_def ut_insert_suspend_def)
    moreover have "stage_ju ?t u = ?ju" using uv by (simp add: stage_ju_def)
    moreover have "distinct (map fst (ut_data ?t'))" using inv by (simp add: stage_inv_def)
    ultimately show ?thesis using un ref by (intro exI[of _ ?t'] exI[of _ "?upd ?ju"]) simp
  next
    case 2
    let ?r = "ut_next ?t" and ?ju = "job_unit_new u"
    let ?t1 = "put_uv ?r ?ju (?t\<lparr>ut_data := AList.update u ?r (ut_data ?t), ut_next := Suc ?r\<rparr>)"
    have ins: "ju_insert_suspend j False ?ju e1 = Some (None, ?upd ?ju, e1)"
      using ju_insert_suspend_new[of e1 j jb ?ju] jb by (simp add: job_unit_new_def)
    let ?t' = "(put_uv ?r (?upd ?ju) ?t1)\<lparr>ut_sync := False\<rparr>"
    have "uv_of ?t' u' = ((uv_of ?t)(u \<mapsto> ?upd ?ju)) u'" for u'
    proof (cases "u' = u")
      case True
      then show ?thesis by (simp add: uv_of_def)
    next
      case False
      then show ?thesis using ref[of u'] by (cases "map_of (ut_data ?t) u'") (simp_all add: uv_of_def)
    qed
    then have "uv_of ?t' = (uv_of ?t)(u \<mapsto> ?upd ?ju)" by blast
    moreover have "jt_insert_suspend j st e1 = Some (Inr (), st\<lparr>jt_unit := ?t', jt_id := insert j (jt_id st)\<rparr>, e1)"
      using new(2) jb 2(2) ins by (simp add: jt_insert_suspend_def ut_insert_suspend_def)
    moreover have "stage_ju ?t u = ?ju" using 2(1) by (simp add: stage_ju_def uv_of_def)
    moreover have "distinct (map fst (ut_data ?t'))" using inv by (simp add: stage_inv_def)
    moreover have "r' < ut_next ?t'" if "map_of (ut_data ?t') u' = Some r'" for u' r'
      using that ref[of u' r'] by (auto split: if_splits)
    ultimately show ?thesis
      by (intro exI[of _ ?t'] exI[of _ "?upd ?ju"]) (simp add: job_unit_new_def)
  qed
qed

lemma stage_ids:
  assumes "stage_inv e st" and "uv_of (jt_unit st) u = Some ju" and "ju_suspends ju k = Some j"
  shows "j \<in> jt_id st"
proof -
  have "j \<in> uv_ids (uv_of (jt_unit st) u)" using assms(2,3) by (auto simp: ju_ids_def ran_def)
  then show ?thesis using assms(1) by (auto simp: stage_inv_def tb_ids_iff)
qed

lemma record_suspend_old:
  "(jc_unit conf, jc_kind conf) \<in> staged st \<Longrightarrow> jt_record_suspend conf mode st e = Some (False, st, e)"
  by (auto simp: jt_record_suspend_def staged_def)

lemma alloc_init:
  assumes "ja_ids (je_alloc e) \<noteq> UNIV" and "job_is_basic_op (jc_kind conf)"
  shows "\<exists>j e1 e2 jb. job_alloc conf e = Some (j, e1) \<and> job_init_attr mode j e1 = Some e2 \<and>
    je_jobs e2 j = Some jb \<and> jb_unit jb = jc_unit conf \<and> jb_kind jb = jc_kind conf \<and> jb_stage jb = Init \<and> job_wf jb \<and>
    j \<notin> ja_ids (je_alloc e) \<and> ja_ids (je_alloc e2) = insert j (ja_ids (je_alloc e)) \<and> env_grow e e2 \<and> env_mono e e2"
proof -
  from assms(1) obtain j a' where "alloc_id (je_alloc e) = Some (j, a')"
    using alloc_id_returns_iff[of "je_alloc e"] by auto
  then obtain e1 where a: "job_alloc conf e = Some (j, e1)" by (simp add: job_alloc_def Let_def)
  note s = job_alloc_Some[OF a]
  let ?jb = "job_set_timer (je_units e) (job_new j (jc_unit conf) (jc_kind conf))"
  have jb: "je_jobs e1 j = Some ?jb" "jb_stage ?jb = Init" "jb_unit ?jb = jc_unit conf" "jb_kind ?jb = jc_kind conf"
    using s(3) by (simp_all add: job_new_def)
  then obtain at where i: "job_init_attr mode j e1 = Some (put_job j (?jb\<lparr>jb_attr := at\<rparr>) e1)"
    by (simp add: job_init_attr_def Let_def)
  have "env_grow e (put_job j (?jb\<lparr>jb_attr := at\<rparr>) e1)"
    using s by (auto simp: env_grow_def)
  moreover have "env_mono e (put_job j (?jb\<lparr>jb_attr := at\<rparr>) e1)"
    using s by (auto simp: env_mono_def begun_def heap_ids_def job_new_def)
  moreover have "job_wf (?jb\<lparr>jb_attr := at\<rparr>)" using assms(2) by simp
  ultimately show ?thesis using a i jb s(1,2)
    by (intro exI[of _ j] exI[of _ e1] exI[of _ "put_job j (?jb\<lparr>jb_attr := at\<rparr>) e1"] exI[of _ "?jb\<lparr>jb_attr := at\<rparr>"]) simp
qed

lemma record_suspend_new:
  assumes inv: "stage_inv e st" and new: "(u, k) \<notin> staged st" and k: "job_is_basic_op k"
    and free: "ja_ids (je_alloc e) \<noteq> UNIV"
  shows "\<exists>st' e' j. jt_record_suspend (job_conf_new u k) mode st e = Some (True, st', e') \<and>
    stage_inv e' st' \<and> staged st' = insert (u, k) (staged st) \<and> env_grow e e' \<and>
    ja_ids (je_alloc e') = insert j (ja_ids (je_alloc e)) \<and> j \<notin> ja_ids (je_alloc e) \<and>
    jt_id st' = insert j (jt_id st) \<and> env_mono e e'"
proof -
  let ?t = "jt_unit st" and ?c = "job_conf_new u k"
  have c: "jc_unit ?c = u" "jc_kind ?c = k" by (simp_all add: job_conf_new_def)
  from alloc_init[OF free, of ?c mode] k c obtain j e1 e2 jb where a:
    "job_alloc ?c e = Some (j, e1)" "job_init_attr mode j e1 = Some e2" "je_jobs e2 j = Some jb"
    "jb_unit jb = u" "jb_kind jb = k" "jb_stage jb = Init" "job_wf jb" "j \<notin> ja_ids (je_alloc e)"
    "ja_ids (je_alloc e2) = insert j (ja_ids (je_alloc e))" "env_grow e e2" "env_mono e e2" by (auto simp del: not_None_eq)
  have jn: "j \<notin> jt_id st" using inv a(8) by (auto simp: stage_inv_def)
  from stage_insert[OF inv a(3,4,5) k new jn] obtain t' ju' where i:
    "jt_insert_suspend j st e2 = Some (Inr (), st\<lparr>jt_unit := t', jt_id := insert j (jt_id st)\<rparr>, e2)"
    "uv_of t' = (uv_of ?t)(u \<mapsto> ju')" "ju_trigger ju' = None" "ju_unit ju' = u"
    "ju_suspends ju' = (ju_suspends (stage_ju ?t u))(k \<mapsto> j)"
    "distinct (map fst (ut_data t'))" "\<forall>u r. map_of (ut_data t') u = Some r \<longrightarrow> r < ut_next t'"
    by (elim exE conjE) (rule that; assumption)
  let ?st = "st\<lparr>jt_unit := t', jt_id := insert j (jt_id st)\<rparr>"
  have sj: "ju_suspends (stage_ju ?t u) k' = Some j' \<longleftrightarrow> (\<exists>ju. uv_of ?t u = Some ju \<and> ju_suspends ju k' = Some j')" for k' j'
    by (auto simp: stage_ju_def job_unit_new_def split: option.splits)
  have old: "job_at e2 j' Init k' u'" if "uv_of ?t u' = Some ju" "ju_suspends ju k' = Some j'" for u' ju k' j'
  proof -
    have "j' \<in> ja_ids (je_alloc e)" using stage_ids[OF inv that] inv by (auto simp: stage_inv_def)
    with job_at_grow[OF a(10)] show ?thesis using inv that by (simp add: stage_inv_def)
  qed
  have fresh: "job_at e2 j Init k u" using a(3-7) by (simp add: job_at_def)
  have none: "ju_suspends (stage_ju ?t u) k = None" using new sj[of k] by (simp add: staged_iff) (metis not_None_eq)
  have run: "jt_record_suspend ?c mode st e = Some (True, ?st, e2)"
    using new a(1,2) i(1) c by (simp add: jt_record_suspend_def staged_def)
  have "staged ?st = insert (u, k) (staged st)"
    using i(2,5) sj by (auto simp: staged_iff set_eq_iff split: if_splits)
  moreover have "tb_ids t' = insert j (tb_ids ?t)"
  proof -
    have "ran (ju_suspends ju') = insert j (ran (ju_suspends (stage_ju ?t u)))"
      unfolding i(5) using none by (rule ran_map_upd)
    moreover have "ju_trigger (stage_ju ?t u) = None"
      using inv by (auto simp: stage_ju_def stage_inv_def job_unit_new_def split: option.splits)
    ultimately have "ju_ids ju' = insert j (ju_ids (stage_ju ?t u))" by (simp add: ju_ids_def i(3))
    moreover have "ju_ids (stage_ju ?t u) = uv_ids (uv_of ?t u)"
      by (simp add: stage_ju_def ju_ids_def job_unit_new_def split: option.splits)
    ultimately show ?thesis
      using tb_ids_upd[OF i(2)] tb_ids_upd[of ?t ?t u "uv_of ?t u"] by (auto simp: set_eq_iff)
  qed
  then have "stage_inv e2 ?st"
    using i(2-7) inv old fresh a(9) sj by (auto simp: stage_inv_def split: if_splits)
  ultimately show ?thesis using run a(8,9,10,11)
    by (intro exI[of _ ?st] exI[of _ e2] exI[of _ j]) simp
qed

end
