(* ===== verification/Job_Trans_Expand.thy ===== *)
theory Job_Trans_Expand
  imports Job_Trans_Stage
begin

section \<open>Expanding a request is a search over the dependencies\<close>

text \<open>
  \<open>job_trans_expand\<close> visits the requests that a request pulls in, depth first, and records
  each once. The edges of the search are \<open>pulls\<close>; \<open>explored\<close> is the contract of one visit,
  and it composes, so that the loops and the sequences of loops follow from the contract of
  the recursive call. The number of requests that are not yet recorded bounds the depth.
\<close>

subsection \<open>The edges\<close>

definition start_atoms :: "(unit_relation_atom \<times> job_kind) list" where
  "start_atoms = [(UnitAtomPullInStart, Start), (UnitAtomPullInStartIgnored, Start),
     (UnitAtomPullInVerify, Verify), (UnitAtomPullInStop, Stop), (UnitAtomPullInStopIgnored, Stop)]"

definition expand_atoms :: "job_kind \<Rightarrow> (unit_relation_atom \<times> job_kind) list" where
  "expand_atoms k =
     (case k of
        Start \<Rightarrow> start_atoms
      | Stop \<Rightarrow> [(UnitAtomPropagateStop, Stop)]
      | Reload \<Rightarrow> [(UnitAtomPropagatesReloadTo, TryReload)]
      | Restart \<Rightarrow> start_atoms @ [(UnitAtomPropagateRestart, TryRestart)]
      | _ \<Rightarrow> [])"

text \<open>The request a job configuration stands for in the present state of the units.\<close>

definition request :: "unit_env \<Rightarrow> uid \<Rightarrow> job_kind \<Rightarrow> uid \<times> job_kind" where
  "request ue u k = (u, job_merge_unit k (u_active_state ue u))"

definition pulls :: "'x unit_dep_data \<Rightarrow> unit_env \<Rightarrow> job_mode \<Rightarrow> uid \<times> job_kind \<Rightarrow> uid \<times> job_kind \<Rightarrow> bool" where
  "pulls dd ue mode x y \<longleftrightarrow> mode \<noteq> IgnoreDependencies \<and> mode \<noteq> IgnoreRequirements \<and>
     (\<exists>(a, k)\<in>set (expand_atoms (snd x)). \<exists>u\<in>set (gets_atom dd (fst x) a). y = request ue u k)"

subsection \<open>The contract of a visit\<close>

text \<open>
  \<open>explored\<close>: the requests \<open>R\<close> are recorded, only requests reached from them are new, and
  whatever a new request pulls in is recorded too.
\<close>

definition explored ::
  "(uid \<times> job_kind \<Rightarrow> uid \<times> job_kind \<Rightarrow> bool) \<Rightarrow> (uid \<times> job_kind) set \<Rightarrow> 'd trans_state \<Rightarrow> 'd trans_state \<Rightarrow> bool" where
  "explored E R s s' \<longleftrightarrow> env_grow (snd s) (snd s') \<and> staged (fst s) \<union> R \<subseteq> staged (fst s') \<and>
     staged (fst s') \<subseteq> staged (fst s) \<union> {y. \<exists>x\<in>R. E\<^sup>*\<^sup>* x y} \<and>
     (\<forall>x\<in>staged (fst s') - staged (fst s). \<forall>y. E x y \<longrightarrow> y \<in> staged (fst s'))"

lemma explored_refl: "R \<subseteq> staged (fst s) \<Longrightarrow> explored E R s s"
  by (auto simp: explored_def)

lemma explored_trans:
  "explored E R1 s s1 \<Longrightarrow> explored E R2 s1 s2 \<Longrightarrow> explored E (R1 \<union> R2) s s2"
  unfolding explored_def by (blast intro: env_grow_trans)

lemma explored_root:
  assumes "env_grow (snd s) (snd s1)" and "staged (fst s1) = insert x (staged (fst s))"
    and "explored E {y. E x y} s1 s'"
  shows "explored E {x} s s'"
proof -
  let ?S = "staged (fst s)" and ?S1 = "staged (fst s1)" and ?S' = "staged (fst s')"
  have h: "env_grow (snd s1) (snd s')" "?S1 \<union> {y. E x y} \<subseteq> ?S'" "?S' \<subseteq> ?S1 \<union> {z. \<exists>y\<in>{y. E x y}. E\<^sup>*\<^sup>* y z}"
    "\<And>w y. w \<in> ?S' - ?S1 \<Longrightarrow> E w y \<Longrightarrow> y \<in> ?S'"
    using assms(3) by (auto simp: explored_def)
  have "E\<^sup>*\<^sup>* x z" if "E x y" "E\<^sup>*\<^sup>* y z" for y z using that by (rule converse_rtranclp_into_rtranclp)
  then have "?S' \<subseteq> ?S \<union> {y. \<exists>x\<in>{x}. E\<^sup>*\<^sup>* x y}" using h(3) assms(2) by auto
  moreover have "y \<in> ?S'" if "w \<in> ?S' - ?S" "E w y" for w y
    using that h(2) h(4)[of w y] assms(2) by (cases "w = x") auto
  ultimately show ?thesis using h(2) assms(2) env_grow_trans[OF assms(1) h(1)] by (auto simp: explored_def)
qed

text \<open>The state of the search: \<open>U\<close> is the set of requests that can be reached; the fuel and
  the free job ids exceed the number of those not yet recorded.\<close>

definition exp_pre :: "(uid \<times> job_kind) set \<Rightarrow> unit_env \<Rightarrow> nat \<Rightarrow> 'd trans_state \<Rightarrow> bool" where
  "exp_pre U ue n s \<longleftrightarrow> stage_inv (snd s) (fst s) \<and> je_units (snd s) = ue \<and>
     card (U - staged (fst s)) \<le> card (- ja_ids (je_alloc (snd s))) \<and> card (U - staged (fst s)) < n"

definition exp_ok ::
  "(uid \<times> job_kind \<Rightarrow> uid \<times> job_kind \<Rightarrow> bool) \<Rightarrow> (uid \<times> job_kind) set \<Rightarrow> unit_env \<Rightarrow> nat \<Rightarrow>
   (uid \<times> job_kind) set \<Rightarrow> ('d trans_state \<Rightarrow> ((error + unit) \<times> 'd trans_state) option) \<Rightarrow> bool" where
  "exp_ok E U ue n R f \<longleftrightarrow>
     (\<forall>s. exp_pre U ue n s \<longrightarrow> (\<exists>s'. f s = Some (Inr (), s') \<and> exp_pre U ue n s' \<and> explored E R s s'))"

lemma exp_okE:
  assumes "exp_ok E U ue n R f" and "exp_pre U ue n s"
  obtains s' where "f s = Some (Inr (), s')" "exp_pre U ue n s'" "explored E R s s'"
  using assms unfolding exp_ok_def by blast

lemma exp_ok_skip: "exp_ok E U ue n {} (\<lambda>s. Some (Inr (), s))"
  by (simp add: exp_ok_def explored_refl)

lemma exp_ok_then:
  assumes "exp_ok E U ue n R1 f" and "exp_ok E U ue n R2 g"
  shows "exp_ok E U ue n (R1 \<union> R2) (\<lambda>s. try_then (f s) g)"
  unfolding exp_ok_def
proof (intro allI impI)
  fix s :: "'a trans_state" assume "exp_pre U ue n s"
  with assms(1) obtain s1 where s1: "f s = Some (Inr (), s1)" "exp_pre U ue n s1" "explored E R1 s s1" by (rule exp_okE)
  from assms(2) s1(2) obtain s2 where s2: "g s1 = Some (Inr (), s2)" "exp_pre U ue n s2" "explored E R2 s1 s2" by (rule exp_okE)
  then show "\<exists>s'. try_then (f s) g = Some (Inr (), s') \<and> exp_pre U ue n s' \<and> explored E (R1 \<union> R2) s s'"
    using s1 explored_trans[OF s1(3) s2(3)] by (intro exI[of _ s2]) (simp add: try_then_def)
qed

lemma exp_ok_each:
  assumes "\<And>u. u \<in> set us \<Longrightarrow> exp_ok E U ue n {request ue u k} (expand (job_conf_new u k) mode)"
  shows "exp_ok E U ue n ((\<lambda>u. request ue u k) ` set us) (trans_expand_each expand lenient k mode us)"
  using assms
proof (induction us)
  case Nil
  then show ?case by (simp add: exp_ok_def explored_refl)
next
  case (Cons u us)
  have eq: "trans_expand_each expand lenient k mode (u # us) s =
      try_then (expand (job_conf_new u k) mode s) (trans_expand_each expand lenient k mode us) \<or>
      (\<exists>err s'. expand (job_conf_new u k) mode s = Some (Inl err, s'))" for s
    by (cases "expand (job_conf_new u k) mode s") (auto simp: try_then_def split: sum.splits)
  have ok: "exp_ok E U ue n ({request ue u k} \<union> (\<lambda>u. request ue u k) ` set us)
      (\<lambda>s. try_then (expand (job_conf_new u k) mode s) (trans_expand_each expand lenient k mode us))"
    using Cons by (intro exp_ok_then) auto
  have first: "exp_ok E U ue n {request ue u k} (expand (job_conf_new u k) mode)" using Cons.prems by simp
  show ?case
    unfolding exp_ok_def
  proof (intro allI impI)
    fix s :: "'a trans_state" assume pre: "exp_pre U ue n s"
    with first obtain s1 where "expand (job_conf_new u k) mode s = Some (Inr (), s1)" by (rule exp_okE)
    then have "trans_expand_each expand lenient k mode (u # us) s =
      try_then (expand (job_conf_new u k) mode s) (trans_expand_each expand lenient k mode us)"
      using eq[of s] by simp
    moreover have "(\<lambda>u. request ue u k) ` set (u # us) = {request ue u k} \<union> (\<lambda>u. request ue u k) ` set us" by simp
    ultimately show "\<exists>s'. trans_expand_each expand lenient k mode (u # us) s = Some (Inr (), s') \<and>
      exp_pre U ue n s' \<and> explored E ((\<lambda>u. request ue u k) ` set (u # us)) s s'"
      using exp_okE[OF ok pre] by metis
  qed
qed

subsection \<open>The recursive call\<close>

text \<open>The body of the expansion, for a request that is new and may be expanded.\<close>

definition expand_body :: "'d trans_call \<Rightarrow> 'x unit_dep_data \<Rightarrow> job_conf \<Rightarrow> job_mode \<Rightarrow> 'd trans_state \<Rightarrow>
    ((error + unit) \<times> 'd trans_state) option" where
  "expand_body expand dd conf mode s =
     (case jc_kind conf of
         Start \<Rightarrow> trans_expand_start expand dd conf mode s
       | Stop \<Rightarrow> trans_expand_stop expand dd conf mode s
       | Reload \<Rightarrow> trans_expand_reload expand dd conf mode s
       | Restart \<Rightarrow> try_then (trans_expand_start expand dd conf mode s) (trans_expand_stop expand dd conf mode)
       | Verify \<Rightarrow> Some (Inr (), s)
       | Nop \<Rightarrow> Some (Inr (), s)
       | _ \<Rightarrow> None)"

definition pulled :: "'x unit_dep_data \<Rightarrow> unit_env \<Rightarrow> uid \<Rightarrow> (unit_relation_atom \<times> job_kind) list \<Rightarrow> (uid \<times> job_kind) set" where
  "pulled dd ue u aks = (\<Union>(a, k)\<in>set aks. (\<lambda>v. request ue v k) ` set (gets_atom dd u a))"

lemma pulled_simps [simp]:
  "pulled dd ue u [] = {}"
  "pulled dd ue u ((a, k) # aks) = (\<lambda>v. request ue v k) ` set (gets_atom dd u a) \<union> pulled dd ue u aks"
  "pulled dd ue u (aks @ bks) = pulled dd ue u aks \<union> pulled dd ue u bks"
  by (auto simp: pulled_def)

lemma pulls_eq:
  "mode \<noteq> IgnoreDependencies \<Longrightarrow> mode \<noteq> IgnoreRequirements \<Longrightarrow>
     {y. pulls dd ue mode (u, k) y} = pulled dd ue u (expand_atoms k)"
  by (auto simp: pulls_def pulled_def)

lemma expand_start_ok:
  assumes "\<And>v k. request ue v k \<in> pulled dd ue (jc_unit conf) start_atoms \<Longrightarrow>
      exp_ok E U ue n {request ue v k} (expand (job_conf_new v k) mode)"
  shows "exp_ok E U ue n (pulled dd ue (jc_unit conf) start_atoms) (trans_expand_start expand dd conf mode)"
proof -
  have each: "exp_ok E U ue n ((\<lambda>v. request ue v k) ` set (gets_atom dd (jc_unit conf) a))
      (trans_expand_each expand lenient k mode (gets_atom dd (jc_unit conf) a))"
    if "(a, k) \<in> set start_atoms" for a k lenient
    using that by (intro exp_ok_each assms) (auto simp: pulled_def)
  show ?thesis
    unfolding trans_expand_start_def[abs_def] Let_def start_atoms_def pulled_simps Un_empty_right
    by (intro exp_ok_then each) (simp_all add: start_atoms_def)
qed

lemma expand_body_ok:
  assumes "\<And>v k. request ue v k \<in> pulled dd ue (jc_unit conf) (expand_atoms (jc_kind conf)) \<Longrightarrow>
      exp_ok E U ue n {request ue v k} (expand (job_conf_new v k) mode)"
    and "job_is_basic_op (jc_kind conf)"
  shows "exp_ok E U ue n (pulled dd ue (jc_unit conf) (expand_atoms (jc_kind conf))) (expand_body expand dd conf mode)"
proof -
  have each: "exp_ok E U ue n ((\<lambda>v. request ue v k) ` set (gets_atom dd (jc_unit conf) a))
      (trans_expand_each expand lenient k mode (gets_atom dd (jc_unit conf) a))"
    if "(a, k) \<in> set (expand_atoms (jc_kind conf))" for a k lenient
    using that by (intro exp_ok_each assms(1)) (auto simp: pulled_def)
  show ?thesis
  proof (cases "jc_kind conf")
    case Start
    then show ?thesis using expand_start_ok[of ue dd conf E U n expand mode] assms(1)
      by (simp add: expand_body_def[abs_def] expand_atoms_def)
  next
    case Stop
    then show ?thesis using each[of UnitAtomPropagateStop Stop]
      by (simp add: expand_body_def[abs_def] expand_atoms_def trans_expand_stop_def)
  next
    case Reload
    then show ?thesis using each[of UnitAtomPropagatesReloadTo TryReload]
      by (simp add: expand_body_def[abs_def] expand_atoms_def trans_expand_reload_def)
  next
    case Restart
    have "exp_ok E U ue n ((\<lambda>v. request ue v TryRestart) ` set (gets_atom dd (jc_unit conf) UnitAtomPropagateRestart))
        (trans_expand_stop expand dd conf mode)"
      using Restart each[of UnitAtomPropagateRestart TryRestart]
      by (simp add: expand_atoms_def trans_expand_stop_def[abs_def])
    moreover have "exp_ok E U ue n (pulled dd ue (jc_unit conf) start_atoms) (trans_expand_start expand dd conf mode)"
      using assms(1) Restart by (intro expand_start_ok) (simp add: expand_atoms_def)
    ultimately show ?thesis using Restart exp_ok_then
      by (fastforce simp: expand_body_def[abs_def] expand_atoms_def)
  qed (use assms(2) exp_ok_skip in \<open>simp_all add: expand_body_def[abs_def] expand_atoms_def\<close>)
qed

lemma job_trans_expand_eq:
  "job_trans_expand (Suc n) dd config mode s = do {
     let conf = job_conf_map (je_units (snd s)) config;
     (new, s1) \<leftarrow> jt_record_suspend conf mode (fst s) (snd s);
     if trans_is_expand conf new mode then expand_body (job_trans_expand n dd) dd conf mode s1
     else Some (Inr (), s1)
   }"
  unfolding expand_body_def job_trans_expand.simps ..

lemma exp_pre_mono: "exp_pre U ue n s \<Longrightarrow> n \<le> m \<Longrightarrow> exp_pre U ue m s"
  by (simp add: exp_pre_def)

lemma exp_pre_record:
  assumes fin: "finite U" and pre: "exp_pre U ue (Suc n) s" and x: "(u, k) \<in> U - staged (fst s)" "job_is_basic_op k"
  shows "\<exists>s1. jt_record_suspend (job_conf_new u k) mode (fst s) (snd s) = Some (True, s1) \<and> exp_pre U ue n s1 \<and>
    env_grow (snd s) (snd s1) \<and> staged (fst s1) = insert (u, k) (staged (fst s))"
proof -
  have h: "stage_inv (snd s) (fst s)" "je_units (snd s) = ue"
    "card (U - staged (fst s)) \<le> card (- ja_ids (je_alloc (snd s)))" "card (U - staged (fst s)) < Suc n"
    using pre by (simp_all add: exp_pre_def)
  have pos: "0 < card (U - staged (fst s))" using fin x(1) by (auto simp: card_gt_0_iff)
  then have "ja_ids (je_alloc (snd s)) \<noteq> UNIV" using h(3) by fastforce
  from record_suspend_new[OF h(1) _ x(2) this] x(1) obtain st' e' j where r:
    "jt_record_suspend (job_conf_new u k) mode (fst s) (snd s) = Some (True, st', e')" "stage_inv e' st'"
    "staged st' = insert (u, k) (staged (fst s))" "env_grow (snd s) e'"
    "ja_ids (je_alloc e') = insert j (ja_ids (je_alloc (snd s)))" "j \<notin> ja_ids (je_alloc (snd s))"
    by blast
  have "U - staged st' = (U - staged (fst s)) - {(u, k)}" using r(3) by blast
  then have "card (U - staged st') = card (U - staged (fst s)) - 1" using fin x(1) by simp
  moreover have "- ja_ids (je_alloc e') = - ja_ids (je_alloc (snd s)) - {j}" using r(5) by blast
  then have "card (- ja_ids (je_alloc e')) = card (- ja_ids (je_alloc (snd s))) - 1" using r(6) by simp
  ultimately have "exp_pre U ue n (st', e')"
    using r(2) h pos env_grow_units[OF r(4)] by (auto simp: exp_pre_def)
  then show ?thesis using r by (intro exI[of _ "(st', e')"]) simp
qed

lemma job_trans_expand_ok:
  fixes dd :: "'x unit_dep_data"
  assumes fin: "finite U" and closed: "\<And>x y. x \<in> U \<Longrightarrow> pulls dd ue mode x y \<Longrightarrow> y \<in> U"
    and x: "request ue u k \<in> U"
  shows "exp_ok (pulls dd ue mode) U ue n {request ue u k}
    (job_trans_expand n dd (job_conf_new u k) mode :: 'd trans_state \<Rightarrow> _)"
  using x
proof (induction n arbitrary: u k)
  case 0
  then show ?case by (simp add: exp_ok_def exp_pre_def)
next
  case (Suc n)
  let ?E = "pulls dd ue mode" and ?k = "job_merge_unit k (u_active_state ue u)"
  let ?x = "request ue u k" and ?c = "job_conf_new u ?k"
  have x: "?x = (u, ?k)" by (simp add: request_def)
  have c: "jc_unit ?c = u" "jc_kind ?c = ?k" by (simp_all add: job_conf_new_def)
  show ?case
    unfolding exp_ok_def
  proof (intro allI impI)
    fix s :: "'d trans_state" assume pre: "exp_pre U ue (Suc n) s"
    then have "job_conf_map (je_units (snd s)) (job_conf_new u k) = ?c"
      by (simp add: exp_pre_def job_conf_map_def job_conf_new_def)
    note eq = job_trans_expand_eq[of n dd "job_conf_new u k" mode s, unfolded this Let_def]
    show "\<exists>s'. job_trans_expand (Suc n) dd (job_conf_new u k) mode s = Some (Inr (), s') \<and>
        exp_pre U ue (Suc n) s' \<and> explored ?E {?x} s s'"
    proof (cases "?x \<in> staged (fst s)")
      case True
      then have "jt_record_suspend ?c mode (fst s) (snd s) = Some (False, s)"
        using record_suspend_old[of ?c "fst s" mode "snd s"] c x by simp
      then show ?thesis using True pre eq by (intro exI[of _ s]) (simp add: trans_is_expand_def explored_refl)
    next
      case False
      have "(u, ?k) \<in> U - staged (fst s)" using False Suc.prems x by simp
      from exp_pre_record[OF fin pre this, of mode] obtain s1 where s1:
        "jt_record_suspend ?c mode (fst s) (snd s) = Some (True, s1)" "exp_pre U ue n s1"
        "env_grow (snd s) (snd s1)" "staged (fst s1) = insert ?x (staged (fst s))"
        unfolding x by auto
      show ?thesis
      proof (cases "trans_is_expand ?c True mode")
        case True
        then have m: "mode \<noteq> IgnoreDependencies" "mode \<noteq> IgnoreRequirements"
          by (auto simp: trans_is_expand_def split: if_splits)
        have R: "pulled dd ue u (expand_atoms ?k) = {y. ?E ?x y}" using pulls_eq[OF m, of dd ue u ?k] x by simp
        have "exp_ok ?E U ue n {y. ?E ?x y} (expand_body (job_trans_expand n dd) dd ?c mode :: 'd trans_state \<Rightarrow> _)"
          unfolding R[symmetric] using expand_body_ok[of ue dd ?c ?E U n "job_trans_expand n dd :: 'd trans_call" mode] c
            Suc.IH closed[OF Suc.prems] R by auto
        from exp_okE[OF this s1(2)] obtain s' where s': "expand_body (job_trans_expand n dd) dd ?c mode s1 = Some (Inr (), s')"
          "exp_pre U ue n s'" "explored ?E {y. ?E ?x y} s1 s'" .
        then show ?thesis using explored_root[OF s1(3,4) s'(3)] exp_pre_mono[OF s'(2)] eq s1(1) True
          by (intro exI[of _ s']) simp
      next
        case False
        then have "\<not> ?E ?x y" for y
          using c x by (auto simp: trans_is_expand_def pulls_def expand_atoms_def split: if_splits)
        then have "explored ?E {y. ?E ?x y} s1 s1" by (simp add: explored_refl)
        then show ?thesis using explored_root[OF s1(3,4)] exp_pre_mono[OF s1(2)] eq s1(1) False
          by (intro exI[of _ s1]) simp
      qed
    qed
  qed
qed

end
