(* ===== verification/Job_Trans_Thms.thy ===== *)
theory Job_Trans_Thms
  imports Job_Trans_Expand
begin

section \<open>Theorems about transactions\<close>

text \<open>
  Expanding a request returns and records exactly what the request pulls in; verifying a
  request fails exactly on a conflict; and isolating always conflicts with itself, because
  \<open>is_unit_empty\<close> answers the opposite of its name.
\<close>

subsection \<open>The universe of requests\<close>

definition basic_kinds :: "job_kind set" where
  "basic_kinds = {Start, Stop, Reload, Restart, Verify, Nop}"

lemma basic_kinds_iff [simp]: "k \<in> basic_kinds \<longleftrightarrow> job_is_basic_op k"
  by (cases k) (simp_all add: basic_kinds_def)

lemma finite_basic_kinds [simp]: "finite basic_kinds"
  by (simp add: basic_kinds_def)

text \<open>A set of units that no dependency leaves.\<close>

definition dep_closed :: "'x unit_dep_data \<Rightarrow> uid set \<Rightarrow> bool" where
  "dep_closed dd V \<longleftrightarrow> finite V \<and> (\<forall>v\<in>V. \<forall>a. set (gets_atom dd v a) \<subseteq> V)"

lemma card_basic_kinds [simp]: "card basic_kinds = 6"
  by (simp add: basic_kinds_def)

lemma requests_closed:
  assumes "dep_closed dd V" and "x \<in> V \<times> basic_kinds" and "pulls dd ue mode x y"
  shows "y \<in> V \<times> basic_kinds"
proof -
  from assms(3) obtain a k u where "u \<in> set (gets_atom dd (fst x) a)" "y = request ue u k"
    by (auto simp: pulls_def)
  moreover from assms(1,2) have "set (gets_atom dd (fst x) a) \<subseteq> V" unfolding dep_closed_def by (metis mem_Times_iff)
  ultimately show ?thesis by (auto simp: request_def)
qed

lemma request_in: "u \<in> V \<Longrightarrow> request ue u k \<in> V \<times> basic_kinds"
  by (simp add: request_def)

text \<open>Enough fuel and enough free ids for the units \<open>V\<close>.\<close>

definition exp_room :: "uid set \<Rightarrow> nat \<Rightarrow> 'd job_env \<Rightarrow> bool" where
  "exp_room V n e \<longleftrightarrow> finite V \<and> 6 * card V < n \<and> 6 * card V \<le> card (- ja_ids (je_alloc e))"

lemma exp_room_pre:
  assumes "exp_room V n (snd s)" and "stage_inv (snd s) (fst s)"
  shows "exp_pre (V \<times> basic_kinds) (je_units (snd s)) n s"
proof -
  have "card (V \<times> basic_kinds - staged (fst s)) \<le> 6 * card V"
    using assms(1) card_mono[of "V \<times> basic_kinds" "V \<times> basic_kinds - staged (fst s)"]
    by (simp add: exp_room_def card_cartesian_product)
  then show ?thesis using assms by (simp add: exp_pre_def exp_room_def)
qed

lemma rtranclp_closed: "E\<^sup>*\<^sup>* x y \<Longrightarrow> x \<in> S \<Longrightarrow> (\<And>a b. a \<in> S \<Longrightarrow> E a b \<Longrightarrow> b \<in> S) \<Longrightarrow> y \<in> S"
  by (induction rule: rtranclp_induct) blast+

lemma expand_request_ok:
  assumes "dep_closed dd V" and "u \<in> V"
  shows "exp_ok (pulls dd ue mode) (V \<times> basic_kinds) ue n {request ue u k} (job_trans_expand n dd (job_conf_new u k) mode)"
proof (rule job_trans_expand_ok)
  show "finite (V \<times> basic_kinds)" using assms(1) by (simp add: dep_closed_def)
  show "y \<in> V \<times> basic_kinds" if "x \<in> V \<times> basic_kinds" "pulls dd ue mode x y" for x y
    using requests_closed[OF assms(1) that] .
  show "request ue u k \<in> V \<times> basic_kinds" using assms(2) by (rule request_in)
qed

subsection \<open>Isolating\<close>

lemma ut_is_unit_empty_iff: "stage_inv e st \<Longrightarrow> ut_is_unit_empty (jt_unit st) u \<longleftrightarrow> (\<exists>k. (u, k) \<in> staged st)"
proof -
  assume inv: "stage_inv e st"
  have "ut_is_unit_empty (jt_unit st) u \<longleftrightarrow> (\<exists>ju. uv_of (jt_unit st) u = Some ju)"
    by (simp add: ut_is_unit_empty_def uv_of_def)
  moreover have "\<exists>k j. ju_suspends ju k = Some j" if "uv_of (jt_unit st) u = Some ju" for ju
    using inv that unfolding stage_inv_def by (metis ext option.exhaust)
  ultimately show ?thesis by (auto simp: staged_iff)
qed

lemma trans_isolate_one_spec:
  assumes V: "dep_closed dd V" "u \<in> V"
    and pre: "exp_pre (V \<times> basic_kinds) ue n s"
  shows "\<exists>s'. trans_isolate_one n dd mode u s = Some s' \<and> exp_pre (V \<times> basic_kinds) ue n s' \<and>
    staged (fst s) \<subseteq> staged (fst s') \<and>
    (\<not> IgnoreOnIsolate (u_config ue u) \<longrightarrow> (\<exists>k. (u, k) \<in> staged (fst s)) \<longrightarrow> (u, Stop) \<in> staged (fst s'))"
proof -
  have h: "stage_inv (snd s) (fst s)" "je_units (snd s) = ue" using pre by (simp_all add: exp_pre_def)
  have "exp_ok (pulls dd ue mode) (V \<times> basic_kinds) ue n {request ue u Stop}
      (job_trans_expand n dd (job_conf_new u Stop) mode)"
    by (rule expand_request_ok[OF V])
  from exp_okE[OF this pre] obtain s' where s':
    "job_trans_expand n dd (job_conf_new u Stop) mode s = Some (Inr (), s')"
    "exp_pre (V \<times> basic_kinds) ue n s'" "explored (pulls dd ue mode) {request ue u Stop} s s'" .
  have "staged (fst s) \<subseteq> staged (fst s')" "(u, Stop) \<in> staged (fst s')"
    using s'(3) by (simp_all add: explored_def request_def)
  then show ?thesis
  proof (cases "IgnoreOnIsolate (u_config ue u) \<or> \<not> ut_is_unit_empty (jt_unit (fst s)) u")
    case True
    then have "trans_isolate_one n dd mode u s = Some s" by (auto simp: trans_isolate_one_def h(2))
    then show ?thesis using True pre ut_is_unit_empty_iff[OF h(1), of u] by (intro exI[of _ s]) auto
  next
    case False
    then have "trans_isolate_one n dd mode u s = Some s'" by (simp add: trans_isolate_one_def h(2) s'(1))
    then show ?thesis using s'(2) \<open>staged (fst s) \<subseteq> staged (fst s')\<close> \<open>(u, Stop) \<in> staged (fst s')\<close>
      by (intro exI[of _ s']) simp
  qed
qed

lemma trans_affect_isolate_spec:
  assumes V: "dep_closed dd V" "set (dd_units dd) \<subseteq> V"
    and pre: "exp_pre (V \<times> basic_kinds) ue n s"
  shows "\<exists>s'. trans_affect_isolate n dd Isolate s = Some (Inr (), s') \<and> exp_pre (V \<times> basic_kinds) ue n s' \<and>
    staged (fst s) \<subseteq> staged (fst s') \<and>
    (\<forall>u\<in>set (dd_units dd). \<not> IgnoreOnIsolate (u_config ue u) \<longrightarrow> (\<exists>k. (u, k) \<in> staged (fst s)) \<longrightarrow> (u, Stop) \<in> staged (fst s'))"
proof -
  define I where "I ys t \<longleftrightarrow> exp_pre (V \<times> basic_kinds) ue n t \<and> staged (fst s) \<subseteq> staged (fst t) \<and>
    (\<forall>u\<in>set ys. \<not> IgnoreOnIsolate (u_config ue u) \<longrightarrow> (\<exists>k. (u, k) \<in> staged (fst s)) \<longrightarrow> (u, Stop) \<in> staged (fst t))"
    for ys and t :: "'b trans_state"
  have "\<exists>s'. for_each (trans_isolate_one n dd Isolate) (dd_units dd) s = Some s' \<and> I (dd_units dd) s'"
  proof (rule for_each_total_prefix)
    show "I [] s" using pre by (simp add: I_def)
    fix ys u zs t assume split: "dd_units dd = ys @ u # zs" and t: "I ys t"
    then have "u \<in> V" "exp_pre (V \<times> basic_kinds) ue n t" using V(2) by (auto simp: I_def)
    from trans_isolate_one_spec[OF V(1) this, of Isolate] obtain t' where t':
      "trans_isolate_one n dd Isolate u t = Some t'" "exp_pre (V \<times> basic_kinds) ue n t'" "staged (fst t) \<subseteq> staged (fst t')"
      "\<not> IgnoreOnIsolate (u_config ue u) \<longrightarrow> (\<exists>k. (u, k) \<in> staged (fst t)) \<longrightarrow> (u, Stop) \<in> staged (fst t')"
      by (elim exE conjE) (rule that; assumption)
    have "I (ys @ [u]) t'"
      unfolding I_def
    proof (intro conjI ballI impI)
      fix v assume v: "v \<in> set (ys @ [u])" "\<not> IgnoreOnIsolate (u_config ue v)" "\<exists>k. (v, k) \<in> staged (fst s)"
      show "(v, Stop) \<in> staged (fst t')"
      proof (cases "v = u")
        case True
        then show ?thesis using v t t'(4) by (auto simp: I_def)
      next
        case False
        then show ?thesis using v t t'(3) by (auto simp: I_def)
      qed
    qed (use t t' in \<open>auto simp: I_def\<close>)
    then show "\<exists>t'. trans_isolate_one n dd Isolate u t = Some t' \<and> I (ys @ [u]) t'" using t'(1) by blast
  qed
  then obtain s' where "for_each (trans_isolate_one n dd Isolate) (dd_units dd) s = Some s'" "I (dd_units dd) s'" by blast
  then show ?thesis by (intro exI[of _ s']) (simp add: trans_affect_isolate_def I_def)
qed

lemma stage_conflictI:
  assumes "(u, Stop) \<in> staged st" and "(u, k) \<in> staged st" and "k \<noteq> Stop" "k \<noteq> Nop"
  shows "ut_is_suspends_conflict (jt_unit st)"
proof -
  from assms(1) obtain ju where ju: "uv_of (jt_unit st) u = Some ju" "ju_suspends ju Stop \<noteq> None" by (auto simp: staged_iff)
  moreover have "ju_suspends ju k \<noteq> None" using assms(2) ju(1) by (auto simp: staged_iff)
  ultimately have "ju_is_suspends_conflict ju"
    using assms(3,4) by (auto simp: ju_is_suspends_conflict_iff kinds_conflict_def dom_def)
  moreover obtain r where "map_of (ut_data (jt_unit st)) u = Some r" "ut_heap (jt_unit st) r = ju"
    using ju(1) by (auto simp: uv_of_def)
  ultimately show ?thesis
    by (auto simp: ut_is_suspends_conflict_def list_ex_iff dest!: map_of_SomeD)
qed

subsection \<open>Verifying\<close>

text \<open>The kinds queued for a unit.\<close>

definition queued_kinds :: "unit_table \<Rightarrow> uid \<Rightarrow> job_kind set" where
  "queued_kinds t u = (case uv_of t u of None \<Rightarrow> {} | Some ju \<Rightarrow> dom (ju_suspends ju))"

definition queued_irreversible :: "'d job_env \<Rightarrow> unit_table \<Rightarrow> uid \<Rightarrow> bool" where
  "queued_irreversible e t u \<longleftrightarrow> (case uv_of t u of None \<Rightarrow> False | Some ju \<Rightarrow> ju_is_suspends_irreversible e ju)"

lemma ut_data_uv:
  "distinct (map fst (ut_data t)) \<Longrightarrow> (u, r) \<in> set (ut_data t) \<longleftrightarrow> map_of (ut_data t) u = Some r"
  by (rule map_of_eq_Some_iff[symmetric])

lemma conflict_iff:
  assumes "distinct (map fst (ut_data t))"
  shows "ut_is_suspends_conflict t \<longleftrightarrow> (\<exists>u. kinds_conflict (queued_kinds t u))"
proof -
  have "ut_is_suspends_conflict t \<longleftrightarrow> (\<exists>u r. map_of (ut_data t) u = Some r \<and> ju_is_suspends_conflict (ut_heap t r))"
    unfolding ut_is_suspends_conflict_def list_ex_iff using ut_data_uv[OF assms] by fast
  moreover have "(\<exists>r. map_of (ut_data t) u = Some r \<and> ju_is_suspends_conflict (ut_heap t r)) \<longleftrightarrow>
      kinds_conflict (queued_kinds t u)" for u
    by (cases "map_of (ut_data t) u")
       (simp_all add: uv_of_def queued_kinds_def ju_is_suspends_conflict_iff kinds_conflict_def[of "{}"])
  ultimately show ?thesis by simp
qed

text \<open>A unit clashes when it has queued jobs on both sides that cannot stand together.\<close>

definition clashes :: "unit_table \<Rightarrow> unit_table \<Rightarrow> uid \<Rightarrow> bool" where
  "clashes t st u \<longleftrightarrow> uv_of t u \<noteq> None \<and> uv_of st u \<noteq> None \<and> kinds_conflict (queued_kinds t u \<union> queued_kinds st u)"

lemma conflict_with_iff:
  assumes "distinct (map fst (ut_data t))"
  shows "ut_is_suspends_conflict_with t st \<longleftrightarrow> (\<exists>u. clashes t st u)"
proof -
  have "ut_is_suspends_conflict_with t st \<longleftrightarrow> (\<exists>u r o_r. map_of (ut_data t) u = Some r \<and> map_of (ut_data st) u = Some o_r \<and>
      ju_is_suspends_conflict_with (ut_heap t r) (ut_heap st o_r))"
    (is "_ \<longleftrightarrow> (\<exists>u r o_r. ?P u r o_r)")
  proof -
    have "ut_is_suspends_conflict_with t st \<longleftrightarrow> (\<exists>u r. map_of (ut_data t) u = Some r \<and>
        (case map_of (ut_data st) u of Some o_r \<Rightarrow> ju_is_suspends_conflict_with (ut_heap t r) (ut_heap st o_r) | None \<Rightarrow> False))"
      unfolding ut_is_suspends_conflict_with_def list_ex_iff using ut_data_uv[OF assms] by fast
    also have "\<dots> \<longleftrightarrow> (\<exists>u r o_r. ?P u r o_r)" by (auto split: option.splits)
    finally show ?thesis .
  qed
  moreover have "(\<exists>r o_r. ?P u r o_r) \<longleftrightarrow> clashes t st u" for u
    by (cases "map_of (ut_data t) u"; cases "map_of (ut_data st) u")
       (simp_all add: clashes_def queued_kinds_def uv_of_def ju_is_suspends_conflict_with_iff)
  ultimately show ?thesis by simp
qed

lemma replace_with_ju:
  assumes "\<not> kinds_conflict (dom (ju_suspends ju))" and "\<not> kinds_conflict (dom (ju_suspends oju))"
  shows "ju_is_suspends_replace_with e ju oju =
    Some (kinds_conflict (dom (ju_suspends ju) \<union> dom (ju_suspends oju)) \<longrightarrow> \<not> ju_is_suspends_irreversible e ju)"
proof -
  have 1: "\<not> ju_is_suspends_conflict ju" "\<not> ju_is_suspends_conflict oju"
    using assms by (simp_all add: ju_is_suspends_conflict_iff)
  then have "ju_is_suspends_conflict_with ju oju \<longleftrightarrow>
      ju_num_others ju > 0 \<and> suspends_kind_len oju Stop > 0 \<or> suspends_kind_len ju Stop > 0 \<and> ju_num_others oju > 0"
    by (auto simp: ju_is_suspends_conflict_with_def ju_is_suspends_conflict_def)
  then show ?thesis using 1
    by (auto simp: ju_is_suspends_replace_with_def Let_def ju_is_suspends_conflict_with_iff[symmetric])
qed

lemma replace_loop_eq:
  assumes "\<And>u. \<not> kinds_conflict (queued_kinds t u)" and "\<And>u. \<not> kinds_conflict (queued_kinds st u)"
    and "\<And>u r. (u, r) \<in> set xs \<Longrightarrow> map_of (ut_data t) u = Some r"
  shows "ut_replace_loop e t st xs = Some (\<forall>(u, r)\<in>set xs. clashes t st u \<longrightarrow> \<not> queued_irreversible e t u)"
  using assms(3)
proof (induction xs)
  case (Cons p xs)
  obtain u r where p: "p = (u, r)" by (cases p)
  have r: "map_of (ut_data t) u = Some r" using Cons.prems p by simp
  have IH: "ut_replace_loop e t st xs = Some (\<forall>(u, r)\<in>set xs. clashes t st u \<longrightarrow> \<not> queued_irreversible e t u)"
    using Cons by simp
  show ?case
  proof (cases "map_of (ut_data st) u")
    case None
    then have "\<not> clashes t st u" by (simp add: clashes_def uv_of_def)
    then show ?thesis using None IH p by simp
  next
    case (Some o_r)
    have "\<not> kinds_conflict (dom (ju_suspends (ut_heap t r)))" "\<not> kinds_conflict (dom (ju_suspends (ut_heap st o_r)))"
      using assms(1,2)[of u] r Some by (simp_all add: queued_kinds_def uv_of_def)
    note rep = replace_with_ju[OF this, of e]
    have cl: "clashes t st u \<longleftrightarrow> kinds_conflict (dom (ju_suspends (ut_heap t r)) \<union> dom (ju_suspends (ut_heap st o_r)))"
      "queued_irreversible e t u \<longleftrightarrow> ju_is_suspends_irreversible e (ut_heap t r)"
      using r Some by (simp_all add: clashes_def uv_of_def queued_kinds_def queued_irreversible_def)
    show ?thesis using Some p by (simp add: rep IH cl[symmetric])
  qed
qed simp

lemma job_trans_verify_eq:
  assumes dist: "distinct (map fst (ut_data (jt_unit jobs)))" "distinct (map fst (ut_data (jt_unit stage)))"
    and none: "\<And>u. \<not> kinds_conflict (queued_kinds (jt_unit jobs) u)"
  shows "job_trans_verify e stage jobs mode = Some (
    if (\<exists>u. kinds_conflict (queued_kinds (jt_unit stage) u)) \<or>
       (\<exists>u. clashes (jt_unit jobs) (jt_unit stage) u \<and> (mode = Fail \<or>
          (\<exists>v. clashes (jt_unit jobs) (jt_unit stage) v \<and> queued_irreversible e (jt_unit jobs) v)))
    then Inl Conflict else Inr ())"
proof (cases "ut_is_suspends_conflict (jt_unit stage)")
  case True
  then show ?thesis using conflict_iff[OF dist(2)] by (simp add: job_trans_verify_def trans_verify_is_conflict_def)
next
  case False
  let ?t = "jt_unit jobs" and ?st = "jt_unit stage"
  have st: "\<not> kinds_conflict (queued_kinds ?st u)" for u using False conflict_iff[OF dist(2)] by simp
  have t: "\<not> ut_is_suspends_conflict ?t" using conflict_iff[OF dist(1)] none by simp
  have in_t: "\<exists>r. (v, r) \<in> set (ut_data ?t)" if "clashes ?t ?st v" for v
    using that ut_data_uv[OF dist(1), of v] by (auto simp: clashes_def uv_of_def)
  have "ut_is_suspends_replace_with e ?t ?st = Some (\<forall>(u, r)\<in>set (ut_data ?t). clashes ?t ?st u \<longrightarrow> \<not> queued_irreversible e ?t u)"
    unfolding ut_is_suspends_replace_with_def
    by (rule replace_loop_eq) (use none st ut_data_uv[OF dist(1)] in auto)
  also have "(\<forall>(u, r)\<in>set (ut_data ?t). clashes ?t ?st u \<longrightarrow> \<not> queued_irreversible e ?t u) \<longleftrightarrow>
      \<not> (\<exists>v. clashes ?t ?st v \<and> queued_irreversible e ?t v)" using in_t by blast
  finally have repl: "ut_is_suspends_replace_with e ?t ?st = Some (\<not> (\<exists>v. clashes ?t ?st v \<and> queued_irreversible e ?t v))" .
  have cw: "ut_is_suspends_conflict_with ?t ?st \<longleftrightarrow> (\<exists>u. clashes ?t ?st u)" by (rule conflict_with_iff[OF dist(1)])
  show ?thesis
  proof (cases "\<exists>u. clashes ?t ?st u")
    case True
    then show ?thesis using False st t repl cw
      by (auto simp: job_trans_verify_def trans_verify_is_conflict_def trans_verify_is_destructive_def)
  next
    case none': False
    then show ?thesis using False st t cw
      by (auto simp: job_trans_verify_def trans_verify_is_conflict_def trans_verify_is_destructive_def)
  qed
qed

subsection \<open>Properties\<close>

text \<open>Three units, the first of which requires the second.\<close>

definition ex_pull :: "nat unit_dep_data" where
  "ex_pull = ex_deps\<lparr>dd_t := [(''a.service'', [(UnitRequires, [(''b.service'', unit_dep_mask_new 0 0)])])]\<rparr>"

lemma ex_pull_gets:
  "gets_atom ex_pull ''a.service'' UnitAtomPullInStart = [''b.service'']"
  "d \<in> set (gets_atom ex_pull v a) \<Longrightarrow> d = ''b.service''"
  by (auto simp: gets_atom_def dep_data_gets_def ex_pull_def split: option.splits if_splits)

lemma ex_pull_closed: "dep_closed ex_pull {''a.service'', ''b.service'', ''c.service''}"
  using ex_pull_gets(2) by (fastforce simp: dep_closed_def)

lemma ex_room: "exp_room {''a.service'', ''b.service'', ''c.service''} 19 ex_env"
proof -
  have "card (UNIV :: u32 set) = 2 ^ 32" by (simp add: card_word)
  then show ?thesis by (simp add: exp_room_def ex_env_def job_alloc_new_def)
qed

text \<open>
  C6: expanding a request returns for every dependency graph, cycles included, as long as
  the fuel and the free job ids exceed the number of possible requests (six kinds per
  unit). It never fails; it records the request and exactly the requests that it pulls in,
  directly or through others, each as one new job; and it leaves every job that existed
  before alone, so the invariant of the job table survives it.
\<close>

theorem job_trans_expand_correct:
  assumes "dep_closed dd V" and "u \<in> V" and "exp_room V n e" and "stage_inv e st"
    and "\<forall>x\<in>staged st. \<forall>y. pulls dd (je_units e) mode x y \<longrightarrow> y \<in> staged st"
  shows "\<exists>st' e'. job_trans_expand n dd (job_conf_new u k) mode (st, e) = Some (Inr (), st', e') \<and>
    stage_inv e' st' \<and>
    staged st' = staged st \<union> {y. (pulls dd (je_units e) mode)\<^sup>*\<^sup>* (request (je_units e) u k) y} \<and>
    (\<forall>jobs. jt_inv e jobs \<longrightarrow> jt_id jobs \<subseteq> ja_ids (je_alloc e) \<longrightarrow> jt_inv e' jobs)"
proof -
  let ?E = "pulls dd (je_units e) mode" and ?x = "request (je_units e) u k"
  have "exp_pre (V \<times> basic_kinds) (je_units e) n (st, e)" using exp_room_pre[of V n "(st, e)"] assms(3,4) by simp
  with expand_request_ok[OF assms(1,2)] obtain s' where s':
    "job_trans_expand n dd (job_conf_new u k) mode (st, e) = Some (Inr (), s')"
    "exp_pre (V \<times> basic_kinds) (je_units e) n s'" "explored ?E {?x} (st, e) s'" by (rule exp_okE)
  have h: "env_grow e (snd s')" "staged st \<union> {?x} \<subseteq> staged (fst s')"
    "staged (fst s') \<subseteq> staged st \<union> {y. ?E\<^sup>*\<^sup>* ?x y}"
    "\<And>x y. x \<in> staged (fst s') \<Longrightarrow> ?E x y \<Longrightarrow> y \<in> staged (fst s')"
    using s'(3) assms(5) unfolding explored_def fst_conv snd_conv by blast+
  have "y \<in> staged (fst s')" if "?E\<^sup>*\<^sup>* ?x y" for y
    using that by (rule rtranclp_closed) (use h(2,4) in auto)
  then have "staged (fst s') = staged st \<union> {y. ?E\<^sup>*\<^sup>* ?x y}" using h(2,3) by blast
  moreover have "stage_inv (snd s') (fst s')" using s'(2) by (simp add: exp_pre_def)
  ultimately show ?thesis using s'(1) jt_inv_grow[OF h(1)]
    by (intro exI[of _ "fst s'"] exI[of _ "snd s'"]) simp
qed

theorem job_trans_expand_correct_witness:
  "\<exists>st' e'. job_trans_expand 19 ex_pull (job_conf_new ''a.service'' Start) Replace (jt_new, ex_env) = Some (Inr (), st', e') \<and>
    {(''a.service'', Start), (''b.service'', Start)} \<subseteq> staged st'"
proof -
  let ?ue = "je_units ex_env"
  have "''a.service'' \<in> {''a.service'', ''b.service'', ''c.service''}" by simp
  from job_trans_expand_correct[OF ex_pull_closed this ex_room, of jt_new Replace Start] obtain st' e' where s:
    "job_trans_expand 19 ex_pull (job_conf_new ''a.service'' Start) Replace (jt_new, ex_env) = Some (Inr (), st', e')"
    "staged st' = {y. (pulls ex_pull ?ue Replace)\<^sup>*\<^sup>* (request ?ue ''a.service'' Start) y}" by auto
  have r: "request ?ue v Start = (v, Start)" for v by (simp add: request_def)
  have "pulls ex_pull ?ue Replace (''a.service'', Start) (''b.service'', Start)"
    using ex_pull_gets(1) r[of "''b.service''"]
    by (auto simp: pulls_def expand_atoms_def start_atoms_def intro!: bexI[of _ "''b.service''"])
  then show ?thesis using s r by auto
qed

text \<open>
  C19: a request is refused exactly when the request itself asks a unit to stop and to do
  something else, or when some unit's queued jobs clash with the request and either the
  mode is \<open>Fail\<close> or the queued jobs of a clashing unit are irreversible. Verification
  never panics on a job table at rest.
\<close>

theorem job_trans_verify_correct:
  assumes "stage_inv e stage" and "jt_inv e jobs"
  shows "job_trans_verify e stage jobs mode = Some (
    if (\<exists>u. kinds_conflict (queued_kinds (jt_unit stage) u)) \<or>
       (\<exists>u. clashes (jt_unit jobs) (jt_unit stage) u \<and> (mode = Fail \<or>
          (\<exists>v. clashes (jt_unit jobs) (jt_unit stage) v \<and> queued_irreversible e (jt_unit jobs) v)))
    then Inl Conflict else Inr ())"
proof (rule job_trans_verify_eq)
  have core: "tb_core e (jt_unit jobs)" and clean: "tb_clean (jt_unit jobs)"
    using assms(2) by (simp_all add: jt_inv_def tb_inv_def)
  then show "distinct (map fst (ut_data (jt_unit jobs)))" by (simp add: tb_core_def tb_units_def)
  show "distinct (map fst (ut_data (jt_unit stage)))" using assms(1) by (simp add: stage_inv_def)
  fix u
  show "\<not> kinds_conflict (queued_kinds (jt_unit jobs) u)"
  proof (cases "uv_of (jt_unit jobs) u")
    case None
    then show ?thesis by (simp add: queued_kinds_def kinds_conflict_def)
  next
    case (Some ju)
    note un = tb_uvD[OF core Some]
    have "ju_order ju" using un(3) clean Some by (auto simp: tb_clean_iff ju_settled_def)
    from settled_no_conflict[OF un(2) this] Some show ?thesis
      by (simp add: queued_kinds_def ju_is_suspends_conflict_iff)
  qed
qed

theorem job_trans_verify_correct_witness:
  "job_trans_verify (ex_busy_env Stop) jt_new (ex_table Stop) Fail = Some (Inr ())"
proof -
  have "uv_of (jt_unit jt_new) u = None" for u by (simp add: uv_of_def jt_new_def ut_new_def)
  then show ?thesis using job_trans_verify_correct[OF stage_inv_empty(2) ex_table_inv(1), of Stop Fail]
    by (simp add: queued_kinds_def clashes_def kinds_conflict_def)
qed

text \<open>
  C32: isolating a unit always fails. The loop that should stop every unit that is not part
  of the request skips exactly those units and stops the requested ones instead
  (\<open>is_unit_empty\<close> returns whether the unit has an entry), so a request to start or restart
  a unit that is not exempt from isolation conflicts with the stop job that the isolation
  adds to the same unit.
\<close>

theorem trans_isolate_conflicts:
  assumes "dep_closed dd V" and "set (dd_units dd) \<subseteq> V" and "u \<in> set (dd_units dd)" and "exp_room V n e"
    and "\<not> IgnoreOnIsolate (u_config (je_units e) u)" and "kind \<in> {Start, Restart, Reload, Verify}"
  shows "\<exists>s1 s2. job_trans_expand n dd (job_conf_new u kind) Isolate (jt_new, e) = Some (Inr (), s1) \<and>
    job_trans_affect n dd (job_conf_new u kind) Isolate s1 = Some (Inr (), s2) \<and>
    job_trans_verify (snd s2) (fst s2) jobs Isolate = Some (Inl Conflict)"
proof -
  let ?ue = "je_units e"
  have u: "u \<in> V" using assms(2,3) by blast
  have "exp_pre (V \<times> basic_kinds) ?ue n (jt_new, e)" using exp_room_pre[of V n "(jt_new, e)"] assms(4) by simp
  with expand_request_ok[OF assms(1) u] obtain s1 where s1:
    "job_trans_expand n dd (job_conf_new u kind) Isolate (jt_new, e) = Some (Inr (), s1)"
    "exp_pre (V \<times> basic_kinds) ?ue n s1" "explored (pulls dd ?ue Isolate) {request ?ue u kind} (jt_new, e) s1"
    by (rule exp_okE)
  have "request ?ue u kind = (u, kind)" using assms(6) by (auto simp: request_def)
  then have uk: "(u, kind) \<in> staged (fst s1)" using s1(3) by (simp add: explored_def)
  from trans_affect_isolate_spec[OF assms(1,2) s1(2)] obtain s2 where s2:
    "trans_affect_isolate n dd Isolate s1 = Some (Inr (), s2)" "staged (fst s1) \<subseteq> staged (fst s2)"
    "\<forall>u\<in>set (dd_units dd). \<not> IgnoreOnIsolate (u_config ?ue u) \<longrightarrow> (\<exists>k. (u, k) \<in> staged (fst s1)) \<longrightarrow> (u, Stop) \<in> staged (fst s2)"
    by (elim exE conjE) (rule that; assumption)
  have "(u, Stop) \<in> staged (fst s2)" "(u, kind) \<in> staged (fst s2)" using s2(2,3) uk assms(3,5) by blast+
  then have "ut_is_suspends_conflict (jt_unit (fst s2))" by (rule stage_conflictI) (use assms(6) in auto)
  then show ?thesis using s1(1) s2(1)
    by (intro exI[of _ s1] exI[of _ s2])
       (simp add: job_trans_affect_def job_trans_verify_def trans_verify_is_conflict_def)
qed

theorem trans_isolate_conflicts_witness:
  "\<exists>s1 s2. job_trans_expand 19 ex_pull (job_conf_new ''a.service'' Start) Isolate (jt_new, ex_env) = Some (Inr (), s1) \<and>
    job_trans_affect 19 ex_pull (job_conf_new ''a.service'' Start) Isolate s1 = Some (Inr (), s2) \<and>
    job_trans_verify (snd s2) (fst s2) jt_new Isolate = Some (Inl Conflict)"
proof (rule trans_isolate_conflicts[OF ex_pull_closed _ _ ex_room])
  show "set (dd_units ex_pull) \<subseteq> {''a.service'', ''b.service'', ''c.service''}" "''a.service'' \<in> set (dd_units ex_pull)"
    by (simp_all add: ex_pull_def ex_deps_def dep_data_new_def)
  show "\<not> IgnoreOnIsolate (u_config (je_units ex_env) ''a.service'')"
    by (simp add: ex_env_def ex_units_def ue_config_unit_default_def)
qed simp

end
