(* ===== verification/Job_Manager_Inv.thy ===== *)
theory Job_Manager_Inv
  imports Job_Manager Job_Trans_Thms
begin

section \<open>The invariant of the job manager\<close>

text \<open>
  Every operation of the manager that returns keeps the table of jobs at rest and
  consistent with the databases, whatever requests come in and whatever the units report.
  \<open>tj_inv\<close> is the invariant of the table with its environment; \<open>tj_ok\<close> relates the states
  before and after an operation and composes.
\<close>

subsection \<open>The invariant\<close>

definition tj_inv :: "job_table \<Rightarrow> 'd job_env \<Rightarrow> bool" where
  "tj_inv jobs e \<longleftrightarrow> jt_inv e jobs \<and> jt_id jobs \<subseteq> ja_ids (je_alloc e) \<and> heap_ids e"

definition jm_inv :: "'d job_manager \<Rightarrow> bool" where
  "jm_inv jm \<longleftrightarrow> tj_inv (jm_jobs jm) (jm_env jm)"

definition jm_ok :: "'d job_manager \<Rightarrow> 'd job_manager \<Rightarrow> bool" where
  "jm_ok jm jm' \<longleftrightarrow> jm_inv jm' \<and> env_mono (jm_env jm) (jm_env jm') \<and> jm_running jm' = jm_running jm"

lemma jm_ok_refl: "jm_inv jm \<Longrightarrow> jm_ok jm jm"
  by (simp add: jm_ok_def)

lemma jm_ok_trans: "jm_ok jm jm1 \<Longrightarrow> jm_ok jm1 jm2 \<Longrightarrow> jm_ok jm jm2"
  by (auto simp: jm_ok_def intro: env_mono_trans)

lemma jm_ok_inv: "jm_ok jm jm' \<Longrightarrow> jm_inv jm'"
  by (simp add: jm_ok_def)

lemma jm_loop_ok:
  assumes "for_each f xs jm = Some jm'" and "jm_inv jm"
    and "\<And>x jm jm'. jm_inv jm \<Longrightarrow> f x jm = Some jm' \<Longrightarrow> jm_ok jm jm'"
  shows "jm_ok jm jm'"
proof (rule for_each_inv[OF assms(1), where I = "jm_ok jm"])
  show "jm_ok jm jm" using assms(2) by (rule jm_ok_refl)
  fix x s s' assume "jm_ok jm s" "f x s = Some s'"
  then show "jm_ok jm s'" using assms(3)[of s x s'] jm_ok_inv jm_ok_trans by blast
qed

text \<open>The invariant looks at the jobs and at what the databases answer, nothing else.\<close>

lemma ju_inv_env:
  assumes "je_jobs e' = je_jobs e" and "\<And>u k. suspends_get (je_re e') u k = suspends_get (je_re e) u k"
    and "\<And>u. trigger_get (je_re e') u = trigger_get (je_re e) u" and "job_re_live (je_re e') = job_re_live (je_re e)"
  shows "ju_inv e' ju = ju_inv e ju"
  using assms by (simp add: ju_inv_def ju_jobs_def ju_recorded_def job_at_def)

lemma jt_inv_env:
  assumes "je_jobs e' = je_jobs e" and "\<And>u k. suspends_get (je_re e') u k = suspends_get (je_re e) u k"
    and "\<And>u. trigger_get (je_re e') u = trigger_get (je_re e) u" and "job_re_live (je_re e') = job_re_live (je_re e)"
  shows "jt_inv e' jt = jt_inv e jt"
  using ju_inv_env[OF assms] by (simp add: jt_inv_def tb_inv_def tb_core_def tb_units_def tb_db_def)

lemma tj_inv_env:
  assumes "je_jobs e' = je_jobs e" and "\<And>u k. suspends_get (je_re e') u k = suspends_get (je_re e) u k"
    and "\<And>u. trigger_get (je_re e') u = trigger_get (je_re e) u" and "job_re_live (je_re e') = job_re_live (je_re e)"
    and "je_alloc e' = je_alloc e"
  shows "tj_inv jobs e' = tj_inv jobs e"
  using jt_inv_env[OF assms(1-4)] assms(1,5) by (simp add: tj_inv_def heap_ids_def)

lemma jt_inv_up_ready [simp]: "jt_inv e (jt_update_up_ready jt) = jt_inv e jt"
proof -
  let ?t = "ut_update_up_ready (jt_unit jt)"
  have uv: "uv_of ?t = uv_of (jt_unit jt)" by (simp add: ut_update_up_ready_def uv_of_def fun_eq_iff)
  then have "tb_ids ?t = tb_ids (jt_unit jt)" by (simp add: tb_ids_def)
  then show ?thesis using uv
    by (simp add: jt_update_up_ready_def ut_update_up_ready_def jt_inv_def tb_inv_def tb_core_def tb_units_def tb_ready_def
        ready_wf_def ready_view_def tb_db_def tb_clean_def)
qed

lemma try_enable_sel [simp]:
  "jm_env (try_enable jm) = jm_env jm" "jm_running (try_enable jm) = jm_running jm"
  "jm_jobs (try_enable jm) = jt_update_up_ready (jm_jobs jm)" "jm_text (try_enable jm) = jm_text jm"
  by (simp_all add: try_enable_def jm_update_up_ready_def)

lemma tj_inv_up_ready [simp]: "tj_inv (jt_update_up_ready jobs) e = tj_inv jobs e"
  by (simp add: tj_inv_def) (simp add: jt_update_up_ready_def)

lemma try_enable_ok: "jm_inv jm \<Longrightarrow> jm_ok jm (try_enable jm)"
  by (simp add: jm_ok_def jm_inv_def)

lemma update_changes_ok:
  "jm_inv jm \<Longrightarrow> jm_update_changes c jm = Some jm' \<Longrightarrow> jm_ok jm jm'"
  by (cases c) (auto simp: jm_update_changes_def jm_ok_def jm_inv_def)

lemma update_changes_sel:
  assumes "jm_update_changes c jm = Some jm'"
  shows "jm_jobs jm' = jm_jobs jm" "jm_env jm' = jm_env jm" "jm_text jm' = jm_text jm"
  using assms by (auto simp: jm_update_changes_def split: prod.splits)

subsection \<open>Expanding, where it returns\<close>

text \<open>The state of a transaction that began in \<open>e\<close>: the jobs of the stage are all new.\<close>

definition stage_good :: "'d job_env \<Rightarrow> 'd trans_state \<Rightarrow> bool" where
  "stage_good e s \<longleftrightarrow> stage_inv (snd s) (fst s) \<and> env_grow e (snd s) \<and> env_mono e (snd s)"

lemma record_suspend_good:
  assumes good: "stage_good e (st, e1)" and ret: "jt_record_suspend conf mode st e1 = Some (new, s')"
    and k: "job_is_basic_op (jc_kind conf)"
  shows "stage_good e s'"
proof (cases "(jc_unit conf, jc_kind conf) \<in> staged st")
  case True
  then show ?thesis using good ret record_suspend_old[of conf st mode e1] by auto
next
  case False
  have conf: "conf = job_conf_new (jc_unit conf) (jc_kind conf)" by (simp add: job_conf_new_def)
  have "ut_get_suspend (jt_unit st) (jc_unit conf) (jc_kind conf) = None" using False by (simp add: staged_def)
  then obtain r where "alloc_id (je_alloc e1) = Some r"
    using ret by (auto simp: jt_record_suspend_def job_alloc_def elim!: bind_SomeE)
  then have free: "ja_ids (je_alloc e1) \<noteq> UNIV" using alloc_id_returns_iff[of "je_alloc e1"] by blast
  have inv: "stage_inv e1 st" using good by (simp add: stage_good_def)
  from record_suspend_new[OF inv False k free, of mode] ret obtain st' e' where "s' = (st', e')" "stage_inv e' st'"
    "env_grow e1 e'" "env_mono e1 e'" unfolding conf[symmetric] by auto
  then show ?thesis using good env_grow_trans env_mono_trans by (fastforce simp: stage_good_def)
qed

lemma try_then_good:
  assumes "try_then x f = Some (r, s')" and "\<And>r s. x = Some (r, s) \<Longrightarrow> stage_good e s"
    and "\<And>s r s'. stage_good e s \<Longrightarrow> f s = Some (r, s') \<Longrightarrow> stage_good e s'"
  shows "stage_good e s'"
proof -
  from assms(1) obtain r1 s1 where x: "x = Some (r1, s1)" by (auto simp: try_then_def elim!: bind_SomeE)
  then have "s' = s1 \<or> (\<exists>r. f s1 = Some (r, s'))" using assms(1) by (auto simp: try_then_def split: sum.splits)
  then show ?thesis using assms(2)[OF x] assms(3) by blast
qed

lemma expand_each_good:
  assumes "trans_expand_each expand lenient k mode us s = Some (r, s')" and "stage_good e s"
    and "\<And>c s r s'. stage_good e s \<Longrightarrow> expand c mode s = Some (r, s') \<Longrightarrow> stage_good e s'"
  shows "stage_good e s'"
  using assms
proof (induction us arbitrary: s)
  case (Cons u us)
  from Cons.prems(1) obtain r1 s1 where s1: "expand (job_conf_new u k) mode s = Some (r1, s1)"
    by (auto elim!: bind_SomeE)
  with Cons.prems have good: "stage_good e s1" by blast
  from Cons.prems(1) s1 have "trans_expand_each expand lenient k mode us s1 = Some (r, s') \<or> s' = s1"
    by (auto split: sum.splits if_splits)
  then show ?case using Cons.IH[of s1] good Cons.prems(3) by blast
qed simp

lemma expand_body_good:
  assumes ret: "expand_body expand dd conf mode s = Some (r, s')" and good: "stage_good e s"
    and step: "\<And>c s r s'. stage_good e s \<Longrightarrow> expand c mode s = Some (r, s') \<Longrightarrow> stage_good e s'"
  shows "stage_good e s'"
proof -
  note each = expand_each_good[where expand = expand and mode = mode, OF _ _ step]
  have start: "stage_good e s'" if "trans_expand_start expand dd conf mode s = Some (r, s')" "stage_good e s" for s r s'
    using that(1) unfolding trans_expand_start_def Let_def
    by (rule try_then_good; (elim try_then_good)?) (auto intro: each that(2) elim!: try_then_good)
  have stop: "stage_good e s'" if "trans_expand_stop expand dd conf mode s = Some (r, s')" "stage_good e s" for s r s'
    using that unfolding trans_expand_stop_def by (auto elim!: bind_SomeE intro: each split: job_kind.splits)
  have reload: "stage_good e s'" if "trans_expand_reload expand dd conf mode s = Some (r, s')" "stage_good e s" for s r s'
    using that unfolding trans_expand_reload_def by (auto intro: each)
  show ?thesis
  proof (cases "jc_kind conf")
    case Restart
    then have "try_then (trans_expand_start expand dd conf mode s) (trans_expand_stop expand dd conf mode) = Some (r, s')"
      using ret by (simp add: expand_body_def)
    then show ?thesis by (rule try_then_good) (use good start stop in blast)+
  qed (use ret good start stop reload in \<open>auto simp: expand_body_def\<close>)
qed

lemma job_trans_expand_good:
  assumes "job_trans_expand n dd c mode s = Some (r, s')" and "stage_good e s"
  shows "stage_good e s'"
  using assms
proof (induction n arbitrary: c s r s')
  case (Suc n)
  let ?c = "job_conf_map (je_units (snd s)) c"
  have basic: "job_is_basic_op (jc_kind ?c)" by (simp add: job_conf_map_def job_conf_new_def)
  from Suc.prems(1) obtain new s1 where s1: "jt_record_suspend ?c mode (fst s) (snd s) = Some (new, s1)"
    "(if trans_is_expand ?c new mode then expand_body (job_trans_expand n dd) dd ?c mode s1 else Some (Inr (), s1)) = Some (r, s')"
    unfolding job_trans_expand_eq Let_def by (auto elim!: bind_SomeE)
  have good: "stage_good e s1" by (rule record_suspend_good[OF _ s1(1) basic]) (use Suc.prems(2) in simp)
  show ?case
  proof (cases "trans_is_expand ?c new mode")
    case True
    then have "expand_body (job_trans_expand n dd) dd ?c mode s1 = Some (r, s')" using s1(2) by simp
    then show ?thesis using good Suc.IH by (rule expand_body_good)
  qed (use good s1(2) in simp)
qed simp

lemma expand_loop_good:
  assumes "for_each f us s = Some s'" and "stage_good e s"
    and "\<And>u s s'. f u s = Some s' \<Longrightarrow> s' = s \<or> (\<exists>c r. job_trans_expand n dd c mode s = Some (r, s'))"
  shows "stage_good e s'"
proof (rule for_each_inv[OF assms(1), where I = "stage_good e"])
  show "stage_good e s" by (rule assms(2))
  fix u t t' assume "stage_good e t" "f u t = Some t'"
  then show "stage_good e t'" using assms(3)[of u t t'] job_trans_expand_good by blast
qed

lemma job_trans_affect_good:
  assumes ret: "job_trans_affect n dd c mode s = Some (r, s')" and good: "stage_good e s"
  shows "stage_good e s'"
proof -
  have iso: "s2 = s1 \<or> (\<exists>c r. job_trans_expand n dd c mode s1 = Some (r, s2))" if "trans_isolate_one n dd mode u s1 = Some s2" for u s1 s2
    using that unfolding trans_isolate_one_def by (auto split: if_splits)
  have tri: "s2 = s1 \<or> (\<exists>c r. job_trans_expand n dd c mode s1 = Some (r, s2))" if "trans_trigger_one n dd v mode u s1 = Some s2" for u v s1 s2
    using that unfolding trans_trigger_one_def by (auto split: if_splits)
  consider "mode = Isolate" "\<exists>us. for_each (trans_isolate_one n dd mode) us s = Some s'"
    | "mode = Trigger" "\<exists>us v. for_each (trans_trigger_one n dd v mode) us s = Some s'" | "s' = s"
    using ret by (cases mode) (auto simp: job_trans_affect_def trans_affect_isolate_def trans_affect_trigger_def elim!: bind_SomeE)
  then show ?thesis
  proof cases
    case 1
    then obtain us where "for_each (trans_isolate_one n dd mode) us s = Some s'" by blast
    then show ?thesis using good by (rule expand_loop_good) (rule iso)
  next
    case 2
    then obtain us v where "for_each (trans_trigger_one n dd v mode) us s = Some s'" by blast
    then show ?thesis using good by (rule expand_loop_good) (rule tri)
  qed (use good in simp)
qed

subsection \<open>Executing a request\<close>

lemma jm_okI:
  "tj_inv (jm_jobs jm') (jm_env jm') \<Longrightarrow> env_mono (jm_env jm) (jm_env jm') \<Longrightarrow> jm_running jm' = jm_running jm \<Longrightarrow> jm_ok jm jm'"
  by (simp add: jm_ok_def jm_inv_def)

lemma stage_good_start: "stage_good e (jt_clear st, e)"
  by (simp add: stage_good_def)

lemma stage_good_tj:
  assumes "stage_good e (st, e1)" and "tj_inv jobs e"
  shows "tj_inv jobs e1" "env_mono e e1"
proof -
  from assms have g: "env_grow e e1" "env_mono e e1" "jt_inv e jobs" "jt_id jobs \<subseteq> ja_ids (je_alloc e)" "heap_ids e"
    by (simp_all add: stage_good_def tj_inv_def)
  then show "tj_inv jobs e1" "env_mono e e1" using jt_inv_grow[OF g(1,4,3)] by (auto simp: tj_inv_def env_mono_def)
qed

lemma commit_tj:
  assumes good: "stage_good e (st, e1)" and inv: "tj_inv jobs e" and ret: "jt_commit dd st mode jobs e1 = Some (r, jobs', e2)"
  shows "tj_inv jobs' e2" "env_mono e e2"
proof -
  note t = stage_good_tj[OF good inv]
  from good have st: "stage_inv e1 st" by (simp add: stage_good_def)
  then have ids: "jt_id st = tb_ids (jt_unit st)" "jt_id st \<subseteq> ja_ids (je_alloc e1)" unfolding stage_inv_def by blast+
  have mono: "env_mono e1 e2" using ret by (rule jt_commit_env)
  from t(1) have "jt_inv e1 jobs" by (simp add: tj_inv_def)
  from jt_commit_returns[OF this stage_inv_ok[OF st] ids(1) ret] t(1) ids(2) mono
  show "tj_inv jobs' e2" by (fastforce simp: tj_inv_def env_mono_def)
  show "env_mono e e2" using t(2) mono by (rule env_mono_trans)
qed

text \<open>The steps of a request; it stops at the first error.\<close>

lemma jm_exec_cases:
  assumes "jm_exec dd config mode affect jm = Some (r, affect', jm')"
  obtains (input) err where "job_trans_check_input config mode = Inl err" "r = Inl err" "jm' = jm"
  | (staged) err r1 s1 where "job_trans_check_input config mode = Inr ()" "r = Inl err"
      "job_trans_expand (expand_fuel dd) dd config mode (jt_clear (jm_stage jm), jm_env jm) = Some (r1, s1)"
      "jm' = jm\<lparr>jm_stage := fst s1, jm_env := snd s1\<rparr>"
  | (affected) err s1 r2 s2 where "job_trans_check_input config mode = Inr ()" "r = Inl err"
      "job_trans_expand (expand_fuel dd) dd config mode (jt_clear (jm_stage jm), jm_env jm) = Some (Inr (), s1)"
      "job_trans_affect (expand_fuel dd) dd config mode s1 = Some (r2, s2)"
      "jm' = jm\<lparr>jm_stage := fst s2, jm_env := snd s2\<rparr>"
  | (committed) s1 s2 c jobs e3 where "job_trans_check_input config mode = Inr ()"
      "job_trans_expand (expand_fuel dd) dd config mode (jt_clear (jm_stage jm), jm_env jm) = Some (Inr (), s1)"
      "job_trans_affect (expand_fuel dd) dd config mode s1 = Some (Inr (), s2)"
      "job_trans_verify (snd s2) (fst s2) (jm_jobs jm) mode = Some (Inr ())"
      "jt_commit dd (fst s2) mode (jm_jobs jm) (snd s2) = Some (c, jobs, e3)"
      "case c of Inl err \<Rightarrow> r = Inl err \<and> jm' = jm\<lparr>jm_stage := fst s2, jm_jobs := jobs, jm_env := e3\<rparr>
       | Inr changes \<Rightarrow> r = Inr () \<and> affect' = job_affect_record e3 changes affect \<and>
           jm_update_changes changes (jm\<lparr>jm_stage := jt_clear (fst s2), jm_jobs := jobs, jm_env := e3\<rparr>) = Some jm'"
  using assms unfolding jm_exec_def Let_def
  by (fastforce elim!: bind_SomeE split: sum.splits)

lemma jm_exec_ok:
  assumes inv: "jm_inv jm" and ret: "jm_exec dd config mode affect jm = Some (r, affect', jm')"
  shows "jm_ok jm jm'"
proof -
  have tj: "tj_inv (jm_jobs jm) (jm_env jm)" using inv by (simp add: jm_inv_def)
  note expand = job_trans_expand_good[OF _ stage_good_start]
  from ret show ?thesis
  proof (cases rule: jm_exec_cases)
    case input
    then show ?thesis using inv by (simp add: jm_ok_refl)
  next
    case (staged err r1 s1)
    have "stage_good (jm_env jm) (fst s1, snd s1)" using expand[OF staged(3)] by simp
    from stage_good_tj[OF this tj] show ?thesis using staged(4) by (simp add: jm_okI)
  next
    case (affected err s1 r2 s2)
    have "stage_good (jm_env jm) (fst s2, snd s2)" using job_trans_affect_good[OF affected(4) expand[OF affected(3)]] by simp
    from stage_good_tj[OF this tj] show ?thesis using affected(5) by (simp add: jm_okI)
  next
    case (committed s1 s2 c jobs e3)
    have "stage_good (jm_env jm) (fst s2, snd s2)" using job_trans_affect_good[OF committed(3) expand[OF committed(2)]] by simp
    note c = commit_tj[OF this tj committed(5)]
    show ?thesis
    proof (cases c)
      case (Inl err)
      then show ?thesis using committed(6) c by (simp add: jm_okI)
    next
      case (Inr ch)
      let ?jm = "jm\<lparr>jm_stage := jt_clear (fst s2), jm_jobs := jobs, jm_env := e3\<rparr>"
      have ok: "jm_ok jm ?jm" using c by (simp add: jm_okI)
      have "jm_update_changes ch ?jm = Some jm'" using committed(6) Inr by simp
      with jm_ok_inv[OF ok] have "jm_ok ?jm jm'" by (rule update_changes_ok)
      with ok show ?thesis by (rule jm_ok_trans)
    qed
  qed
qed

lemma jm_exec_quiet_ok: "jm_inv jm \<Longrightarrow> jm_exec_quiet dd config mode jm = Some jm' \<Longrightarrow> jm_ok jm jm'"
  by (auto simp: jm_exec_quiet_def dest: jm_exec_ok)

lemma exec_on_ok: "jm_inv jm \<Longrightarrow> exec_on dd u atom mode jm = Some jm' \<Longrightarrow> jm_ok jm jm'"
  by (auto simp: exec_on_def elim!: bind_SomeE jm_loop_ok intro: jm_exec_quiet_ok)

lemma jm_do_notify_ok: "jm_inv jm \<Longrightarrow> jm_do_notify dd config mode jm = Some jm' \<Longrightarrow> jm_ok jm jm'"
  by (auto simp: jm_do_notify_def elim!: bind_SomeE jm_loop_ok intro: jm_exec_quiet_ok)

lemma jm_notify_data_ok: "jm_inv jm \<Longrightarrow> jm_notify_data dd config mode jm = Some (r, jm') \<Longrightarrow> jm_ok jm jm'"
  by (auto simp: jm_notify_data_def intro: jm_ok_refl dest: jm_do_notify_ok split: if_splits)

lemma simulate_job_notify_ok: "jm_inv jm \<Longrightarrow> simulate_job_notify dd u os ns jm = Some jm' \<Longrightarrow> jm_ok jm jm'"
  by (simp add: simulate_job_notify_def jm_ok_refl jm_do_notify_ok split: if_splits)

lemma simulate_unit_notify_ok: "jm_inv jm \<Longrightarrow> simulate_unit_notify dd u result inside jm = Some jm' \<Longrightarrow> jm_ok jm jm'"
  by (simp add: simulate_unit_notify_def jm_ok_refl exec_on_ok split: if_splits)

lemma unit_start_on_ok:
  assumes inv: "jm_inv jm" and ret: "unit_start_on dd u os ns flags jm = Some jm'"
  shows "jm_ok jm jm'"
proof -
  from ret obtain jm1 where s:
    "(if ns \<noteq> os \<and> \<not> flags_intersects flags UNIT_NOTIFY_WILL_AUTO_RESTART \<and> ns = UnitFailed
      then exec_on dd u UnitAtomOnFailure (OnFailureJobMode (u_config (je_units (jm_env jm)) u)) jm else Some jm) = Some jm1"
    "(if ns = UnitInActive \<and> \<not> flags_intersects flags UNIT_NOTIFY_WILL_AUTO_RESTART
      then (if os = UnitFailed \<or> os = UnitInActive \<or> os = UnitMaintenance then Some jm1
           else exec_on dd u UnitAtomOnSuccess (OnSuccessJobMode (u_config (je_units (jm_env jm1)) u)) jm1)
      else Some jm1) = Some jm'"
    unfolding unit_start_on_def by (rule bind_SomeE)
  have 1: "jm_ok jm jm1" using s(1) inv exec_on_ok[OF inv] by (auto intro: jm_ok_refl split: if_splits)
  note inv1 = jm_ok_inv[OF 1]
  have "jm_ok jm1 jm'" using s(2) inv1 exec_on_ok[OF inv1] by (auto intro: jm_ok_refl split: if_splits)
  with 1 show ?thesis by (rule jm_ok_trans)
qed

subsection \<open>Removing a job\<close>

text \<open>A job that has begun and is still in the table is the running one of its unit.\<close>

lemma begun_is_trigger:
  assumes tj: "tj_inv jobs e" and j: "j \<in> jt_id jobs" and b: "begun e j"
  shows "jt_is_trigger e jobs j"
proof -
  from tj have inv: "jt_inv e jobs" and heap: "heap_ids e" by (simp_all add: tj_inv_def)
  then have core: "tb_core e (jt_unit jobs)" by (simp add: jt_inv_def tb_inv_def)
  from j inv obtain u ju where ju: "uv_of (jt_unit jobs) u = Some ju" "j \<in> ju_ids ju" by (auto simp: jt_inv_def tb_ids_def)
  then obtain r where r: "map_of (ut_data (jt_unit jobs)) u = Some r" "ut_heap (jt_unit jobs) r = ju" by (elim uv_ofE)
  from b obtain jb where jb: "je_jobs e j = Some jb" "job_begun jb" by (auto simp: begun_def)
  note jinv = jt_inv_uv(1,2)[OF inv ju(1)]
  have "ju_suspends ju k \<noteq> Some j" for k
  proof
    assume "ju_suspends ju k = Some j"
    then have "job_at e j Wait k (ju_unit ju)" using jinv(1) by (simp add: ju_inv_def ju_jobs_def)
    then show False using jb by (simp add: job_at_def job_begun_def)
  qed
  then have t: "ju_trigger ju = Some j" using ju(2) by (auto simp: ju_ids_def ran_def)
  then have "jb_unit jb = u" using jinv jb by (auto simp: ju_inv_def ju_jobs_def job_at_def)
  then show ?thesis using t j jb(1) r
    by (simp add: jt_is_trigger_def jt_get_def jt_get_trigger_info_def ut_get_trigger_info_def job_info_map_def)
qed

lemma trigger_info_begun:
  assumes tj: "tj_inv jobs e" and ti: "jt_get_trigger_info e jobs u = Some (info, pause)"
  shows "ji_id info \<in> jt_id jobs" "begun e (ji_id info)"
proof -
  from tj have inv: "jt_inv e jobs" and heap: "heap_ids e" by (simp_all add: tj_inv_def)
  from ti obtain j r jb where j: "map_of (ut_data (jt_unit jobs)) u = Some r" "ju_trigger (ut_heap (jt_unit jobs) r) = Some j"
    "je_jobs e j = Some jb" "info = job_info_map jb"
    by (auto simp: jt_get_trigger_info_def ut_get_trigger_info_def elim!: bind_SomeE split: option.splits)
  let ?ju = "ut_heap (jt_unit jobs) r"
  have uv: "uv_of (jt_unit jobs) u = Some ?ju" by (rule uv_ofI[OF j(1)])
  have id: "ji_id info = j" using heap j(3,4) by (simp add: heap_ids_def job_info_map_def)
  have "j \<in> ju_ids ?ju" using j(2) by (simp add: ju_ids_def)
  then have "j \<in> jt_id jobs" using inv uv by (auto simp: jt_inv_def tb_ids_def)
  then show "ji_id info \<in> jt_id jobs" using id by simp
  have "job_begun jb" using jt_inv_uv(1)[OF inv uv] j(2,3) by (auto simp: ju_inv_def ju_jobs_def job_at_def job_begun_def)
  then show "begun e (ji_id info)" using id j(3) by (simp add: begun_def)
qed

lemma remove_table_ok:
  assumes tj: "tj_inv jobs e" and fin: "result = Done \<longrightarrow> jt_is_trigger e jobs (ji_id info)"
    and ret: "(if jt_is_trigger e jobs (ji_id info)
        then do {
          (dt, jobs, e) \<leftarrow> jt_finish_trigger dd (ji_unit info) result jobs e;
          Some (dt, None, jobs, e)
        }
        else do {
          (del_s, jobs, e) \<leftarrow> jt_remove_suspends dd (ji_unit info) (ji_kind info) None result jobs e;
          rust_assert (length del_s = 1);
          Some (None, Some (last del_s), jobs, e)
        }) = Some (dt, ds, jobs', e')"
  shows "tj_inv jobs' e' \<and> env_mono e e'"
proof -
  from tj have inv: "jt_inv e jobs" by (simp add: tj_inv_def)
  have "jt_inv e' jobs' \<and> jt_id jobs' \<subseteq> jt_id jobs \<and> env_mono e e'"
  proof (cases "jt_is_trigger e jobs (ji_id info)")
    case True
    then have "jt_finish_trigger dd (ji_unit info) result jobs e = Some (dt, jobs', e')"
      using ret by (auto elim!: bind_SomeE)
    from jt_finish_returns[OF inv this] jt_finish_trigger_env[OF this] show ?thesis by blast
  next
    case False
    then obtain del_s where r: "jt_remove_suspends dd (ji_unit info) (ji_kind info) None result jobs e = Some (del_s, jobs', e')"
      using ret by (auto elim!: bind_SomeE)
    have "result \<noteq> Done" using False fin by blast
    from jt_remove_suspends_returns[OF inv this r] jt_remove_suspends_env[OF r] show ?thesis by blast
  qed
  then show ?thesis using tj by (auto simp: tj_inv_def env_mono_def)
qed

lemma do_remove_one_ok:
  assumes inv: "jm_inv jm" and fin: "result = Done \<longrightarrow> jt_is_trigger (jm_env jm) (jm_jobs jm) (ji_id info)"
    and ret: "do_remove_one dd info result inside jm = Some (b, jm')"
  shows "jm_ok jm jm'"
proof -
  from ret obtain dt ds jobs e jm2 jm3 where s:
    "(if jt_is_trigger (jm_env jm) (jm_jobs jm) (ji_id info)
        then do {
          (dt, jobs, e) \<leftarrow> jt_finish_trigger dd (ji_unit info) result (jm_jobs jm) (jm_env jm);
          Some (dt, None, jobs, e)
        }
        else do {
          (del_s, jobs, e) \<leftarrow> jt_remove_suspends dd (ji_unit info) (ji_kind info) None result (jm_jobs jm) (jm_env jm);
          rust_assert (length del_s = 1);
          Some (None, Some (last del_s), jobs, e)
        }) = Some (dt, ds, jobs, e)"
    "(if dt \<noteq> None \<or> ds \<noteq> None then simulate_unit_notify dd (ji_unit info) result inside (jm\<lparr>jm_jobs := jobs, jm_env := e\<rparr>)
      else Some (jm\<lparr>jm_jobs := jobs, jm_env := e\<rparr>)) = Some jm2"
    "jm_update_changes ([], (case dt of Some j \<Rightarrow> [j] | None \<Rightarrow> []), []) jm2 = Some jm3"
    "jm_update_changes ([], (case ds of Some j \<Rightarrow> [j] | None \<Rightarrow> []), []) jm3 = Some jm'"
    unfolding do_remove_one_def Let_def
    by (elim bind_SomeE) (rename_tac x, case_tac x rule: prod_cases4, simp only: prod.case, elim bind_SomeE, simp only: option.inject prod.inject)
  let ?jm1 = "jm\<lparr>jm_jobs := jobs, jm_env := e\<rparr>"
  have tj: "tj_inv (jm_jobs jm) (jm_env jm)" using inv by (simp add: jm_inv_def)
  have 1: "jm_ok jm ?jm1" using remove_table_ok[OF tj fin s(1)] by (simp add: jm_okI)
  note i1 = jm_ok_inv[OF 1]
  have 2: "jm_ok ?jm1 jm2" using s(2) simulate_unit_notify_ok[OF i1] jm_ok_refl[OF i1] by (auto split: if_splits)
  have 3: "jm_ok jm2 jm3" using jm_ok_inv[OF 2] s(3) by (rule update_changes_ok)
  have 4: "jm_ok jm3 jm'" using jm_ok_inv[OF 3] s(4) by (rule update_changes_ok)
  from jm_ok_trans[OF jm_ok_trans[OF jm_ok_trans[OF 1 2] 3] 4] show ?thesis .
qed

text \<open>The recursive removal only cancels suspended jobs, with a result that is not \<open>Done\<close>.\<close>

lemma fallback_one_ok:
  assumes "trans_fallback_one dd f u (ds, jobs, e) = Some (ds', jobs', e')" and "tj_inv jobs e" and "f \<noteq> Done"
  shows "tj_inv jobs' e' \<and> env_mono e e'"
proof -
  from assms(1) obtain dels where r: "jt_remove_suspends dd u Start (Some Verify) f jobs e = Some (dels, jobs', e')"
    by (auto simp: trans_fallback_one_def elim!: bind_SomeE)
  have inv: "jt_inv e jobs" using assms(2) by (simp add: tj_inv_def)
  from jt_remove_suspends_returns[OF inv assms(3) r] jt_remove_suspends_env[OF r] assms(2)
  show ?thesis by (auto simp: tj_inv_def env_mono_def)
qed

definition fb_ok :: "'d job_env \<Rightarrow> u32 list \<times> 'd trans_state \<Rightarrow> bool" where
  "fb_ok e s \<longleftrightarrow> tj_inv (fst (snd s)) (snd (snd s)) \<and> env_mono e (snd (snd s))"

lemma fallback_action_ok:
  assumes "trans_fallback_action dd u k f s = Some x" and "fb_ok e (ds, s)" and "f \<noteq> Done"
  shows "fb_ok e x"
proof -
  have loop: "fb_ok e x" if "trans_fallback dd u f atom s = Some x" for atom
  proof (rule for_each_inv[OF that[unfolded trans_fallback_def], where I = "fb_ok e"])
    show "fb_ok e ([], s)" using assms(2) by (simp add: fb_ok_def)
    fix v y y' assume "fb_ok e y" "trans_fallback_one dd f v y = Some y'"
    then show "fb_ok e y'" using fallback_one_ok[OF _ _ assms(3)] env_mono_trans
      by (cases y; cases y') (fastforce simp: fb_ok_def)
  qed
  then show ?thesis using assms(1,2)
    by (cases k) (auto simp: trans_fallback_action_def trans_fallback_start_def trans_fallback_stop_def fb_ok_def)
qed

lemma fallback_body_ok:
  assumes "trans_fallback_body n dd u k f s = Some s'" and "fb_ok e s" and "f \<noteq> Done"
  shows "fb_ok e s'"
  using assms
proof (induction n arbitrary: u k s s')
  case (Suc n)
  from Suc.prems(1) obtain dels s1 del_jobs s2 where r: "trans_fallback_action dd u k f (snd s) = Some (dels, s1)"
    "for_each (\<lambda>j st. do { jb \<leftarrow> je_jobs (snd (snd st)) j; trans_fallback_body n dd (jb_unit jb) (jb_run_kind jb) f st })
       dels (fst s, s1) = Some (del_jobs, s2)" "s' = (del_jobs @ dels, s2)"
    by (auto elim!: bind_SomeE)
  have "fb_ok e (dels, s1)" using Suc.prems(2,3) by (intro fallback_action_ok[OF r(1), of _ "fst s"]) simp_all
  then have "fb_ok e (fst s, s1)" by (simp add: fb_ok_def)
  have "fb_ok e (del_jobs, s2)"
  proof (rule for_each_inv[OF r(2), where I = "fb_ok e"])
    fix j y y' assume y: "fb_ok e y"
      "Option.bind (je_jobs (snd (snd y)) j) (\<lambda>jb. trans_fallback_body n dd (jb_unit jb) (jb_run_kind jb) f y) = Some y'"
    from y(2) show "fb_ok e y'" by (rule bind_SomeE) (erule Suc.IH[OF _ y(1) Suc.prems(3)])
  qed fact
  then show ?case using r(3) by (simp add: fb_ok_def)
qed simp

lemma do_remove_relation_ok:
  assumes inv: "jm_inv jm" and ret: "do_remove_relation dd info jm = Some jm'"
  shows "jm_ok jm jm'"
proof (cases "no_relevancy (ji_attr info)")
  case True
  then show ?thesis using ret jm_exec_quiet_ok[OF inv] by (simp add: do_remove_relation_def)
next
  case False
  with ret obtain del_rel jobs e jm1 where s:
    "job_trans_fallback (fallback_fuel (jm_jobs jm)) dd (ji_unit info) (ji_run_kind info) Dependency (jm_jobs jm, jm_env jm) =
       Some (del_rel, jobs, e)"
    "for_each (\<lambda>u jm. if u \<noteq> ji_unit info then simulate_unit_notify dd u Dependency True jm else Some jm)
       (jobs_2_units e del_rel) (jm\<lparr>jm_jobs := jobs, jm_env := e\<rparr>) = Some jm1"
    "jm_update_changes ([], del_rel, []) jm1 = Some jm'"
    by (auto simp: do_remove_relation_def elim!: bind_SomeE)
  have "fb_ok (jm_env jm) ([], jm_jobs jm, jm_env jm)" using inv by (simp add: fb_ok_def jm_inv_def)
  from fallback_body_ok[OF s(1)[unfolded job_trans_fallback_def] this]
  have 1: "jm_ok jm (jm\<lparr>jm_jobs := jobs, jm_env := e\<rparr>)" by (simp add: fb_ok_def jm_okI)
  have 2: "jm_ok (jm\<lparr>jm_jobs := jobs, jm_env := e\<rparr>) jm1"
    by (rule jm_loop_ok[OF s(2) jm_ok_inv[OF 1]]) (auto intro: jm_ok_refl simulate_unit_notify_ok split: if_splits)
  have 3: "jm_ok jm1 jm'" using jm_ok_inv[OF 2] s(3) by (rule update_changes_ok)
  from jm_ok_trans[OF jm_ok_trans[OF 1 2] 3] show ?thesis .
qed

lemma do_remove_ok:
  assumes inv: "jm_inv jm" and fin: "result = Done \<longrightarrow> jt_is_trigger (jm_env jm) (jm_jobs jm) (ji_id info)"
    and ret: "do_remove dd info result inside jm = Some (b, jm')"
  shows "jm_ok jm jm'"
proof -
  from ret obtain d jm1 where s: "do_remove_one dd info result inside jm = Some (d, jm1)"
    "jm' = jm1 \<or> do_remove_relation dd info jm1 = Some jm'"
    by (auto simp: do_remove_def elim!: bind_SomeE split: if_splits)
  note 1 = do_remove_one_ok[OF inv fin s(1)]
  have "jm_ok jm1 jm'" using s(2) jm_ok_refl[OF jm_ok_inv[OF 1]] do_remove_relation_ok[OF jm_ok_inv[OF 1]] by blast
  with 1 show ?thesis by (rule jm_ok_trans)
qed

lemma jm_remove_data_ok: "jm_inv jm \<Longrightarrow> jm_remove_data dd j jm = Some (r, jm') \<Longrightarrow> jm_ok jm jm'"
  by (auto simp: jm_remove_data_def intro: jm_ok_refl elim!: bind_SomeE dest: do_remove_ok[rotated 2] split: option.splits if_splits)

subsection \<open>Finishing on a unit's report\<close>

lemma do_try_finish_ok:
  assumes inv: "jm_inv jm" and ret: "do_try_finish dd note jm = Some jm'"
  shows "jm_ok jm jm'"
proof -
  let ?u = "note_unit note"
  from ret obtain g jm1 jm2 where s:
    "(case jt_get_trigger_info (jm_env jm) (jm_jobs jm) ?u of
          Some (trigger, pause) \<Rightarrow>
            if pause then map_option (\<lambda>jobs. (True, jm\<lparr>jm_jobs := jobs\<rparr>)) (jt_resume_unit ?u (jm_jobs jm))
            else do {
              (suggest_r, suggest_g) \<leftarrow> job_process_unit (ji_run_kind trigger) (note_ns note) (note_flags note);
              jm' \<leftarrow> (case suggest_r of
                  Some result \<Rightarrow> map_option snd (do_remove dd trigger result False jm)
                | None \<Rightarrow> Some jm);
              Some (suggest_g, jm')
            }
        | None \<Rightarrow> Some (False, jm)) = Some (g, jm1)"
    "(if \<not> g then simulate_job_notify dd ?u (note_os note) (note_ns note) jm1 else Some jm1) = Some jm2"
    "unit_start_on dd ?u (note_os note) (note_ns note) (note_flags note) jm2 = Some jm'"
    unfolding do_try_finish_def Let_def
    by (elim bind_SomeE) (rename_tac x, case_tac x, simp only: prod.case, elim bind_SomeE, blast)
  have tj: "tj_inv (jm_jobs jm) (jm_env jm)" using inv by (simp add: jm_inv_def)
  have 1: "jm_ok jm jm1"
  proof (cases "jt_get_trigger_info (jm_env jm) (jm_jobs jm) ?u")
    case None
    then show ?thesis using s(1) inv by (simp add: jm_ok_refl)
  next
    case (Some p)
    obtain trigger pause where p: "p = (trigger, pause)" by (cases p)
    note ti = Some[unfolded p]
    have it: "jt_is_trigger (jm_env jm) (jm_jobs jm) (ji_id trigger)"
      using begun_is_trigger[OF tj trigger_info_begun[OF tj ti]] .
    show ?thesis
    proof (cases pause)
      case True
      then obtain jobs where j: "jt_resume_unit ?u (jm_jobs jm) = Some jobs" "jm1 = jm\<lparr>jm_jobs := jobs\<rparr>"
        using s(1) ti by auto
      have "jt_inv (jm_env jm) (jm_jobs jm)" using tj by (simp add: tj_inv_def)
      from jt_resume_returns[OF this j(1)] tj show ?thesis using j(2) by (intro jm_okI) (simp_all add: tj_inv_def)
    next
      case False
      then have "jm1 = jm \<or> (\<exists>result b. do_remove dd trigger result False jm = Some (b, jm1))"
        using s(1) ti by (auto elim!: bind_SomeE split: option.splits)
      then show ?thesis using jm_ok_refl[OF inv] do_remove_ok[OF inv] it by blast
    qed
  qed
  note i1 = jm_ok_inv[OF 1]
  have 2: "jm_ok jm1 jm2" using s(2) simulate_job_notify_ok[OF i1] jm_ok_refl[OF i1] by (auto split: if_splits)
  have 3: "jm_ok jm2 jm'" using jm_ok_inv[OF 2] s(3) by (rule unit_start_on_ok)
  from jm_ok_trans[OF jm_ok_trans[OF 1 2] 3] show ?thesis .
qed

lemma jm_text_ok: "jm_ok jm jm' \<Longrightarrow> jm_ok jm (jm'\<lparr>jm_text := x\<rparr>)" "jm_ok (jm\<lparr>jm_text := x\<rparr>) jm' = jm_ok jm jm'"
  "jm_inv (jm\<lparr>jm_text := x\<rparr>) = jm_inv jm"
  by (simp_all add: jm_ok_def jm_inv_def)

lemma jm_try_finish_data_ok: "jm_inv jm \<Longrightarrow> jm_try_finish_data dd note jm = Some (r, jm') \<Longrightarrow> jm_ok jm jm'"
  by (auto simp: jm_try_finish_data_def intro: jm_ok_refl jm_text_ok(1) dest: do_try_finish_ok split: if_splits)

lemma and_enable_ok: "and_enable (r, jm1) = (r', jm2) \<Longrightarrow> jm_ok jm jm1 \<Longrightarrow> jm_ok jm jm2"
  by (auto simp: and_enable_def intro: jm_ok_trans try_enable_ok jm_ok_inv split: sum.splits)

lemma job_manager_try_finish_ok:
  assumes "jm_inv jm" and "job_manager_try_finish dd note jm = Some (r, jm')"
  shows "jm_ok jm jm'"
proof -
  from assms(2) obtain r1 jm1 where s: "jm_try_finish_data dd note jm = Some (r1, jm1)" "and_enable (r1, jm1) = (r, jm')"
    by (auto simp: job_manager_try_finish_def)
  from and_enable_ok[OF s(2) jm_try_finish_data_ok[OF assms(1) s(1)]] show ?thesis .
qed

lemma job_manager_notify_ok:
  assumes "jm_inv jm" and "job_manager_notify dd config mode jm = Some (r, jm')"
  shows "jm_ok jm jm'"
proof -
  from assms(2) obtain r1 jm1 where s: "jm_notify_data dd config mode jm = Some (r1, jm1)" "and_enable (r1, jm1) = (r, jm')"
    by (auto simp: job_manager_notify_def)
  from and_enable_ok[OF s(2) jm_notify_data_ok[OF assms(1) s(1)]] show ?thesis .
qed

lemma job_manager_remove_ok:
  assumes "jm_inv jm" and "job_manager_remove dd j jm = Some (r, jm')"
  shows "jm_ok jm jm'"
proof -
  from assms(2) obtain r1 jm1 where s: "jm_remove_data dd j jm = Some (r1, jm1)" "and_enable (r1, jm1) = (r, jm')"
    by (auto simp: job_manager_remove_def)
  from and_enable_ok[OF s(2) jm_remove_data_ok[OF assms(1) s(1)]] show ?thesis .
qed

lemma job_manager_exec_ok:
  assumes "jm_inv jm" and "job_manager_exec dd config mode affect jm = Some (r, a, jm')"
  shows "jm_ok jm jm'"
proof -
  from assms(2) obtain r1 jm1 where s: "jm_exec dd config mode affect jm = Some (r1, a, jm1)" "and_enable (r1, jm1) = (r, jm')"
    by (auto simp: job_manager_exec_def elim!: bind_SomeE split: prod.splits)
  from and_enable_ok[OF s(2) jm_exec_ok[OF assms(1) s(1)]] show ?thesis .
qed

subsection \<open>Running\<close>

lemma try_trigger_begun:
  assumes inv: "jt_inv e jobs" and ret: "jt_try_trigger act dd un jobs e = Some (r, jobs', e')"
  shows "jt_inv e' jobs'" "r = Some (Some (info, res), mj) \<Longrightarrow> heap_ids e \<Longrightarrow> ji_id info \<in> jt_id jobs \<and> begun e' (ji_id info)"
    "r = None \<Longrightarrow> e' = e \<and> uv_of (jt_unit jobs') = uv_of (jt_unit jobs) \<and> ready_pick un (ready_view (jt_unit jobs)) = None"
proof -
  let ?t = "jt_unit jobs"
  from inv have i: "tb_inv e ?t" "ut_sync ?t" "jt_id jobs = tb_ids ?t" by (simp_all add: jt_inv_def)
  have "jt_inv e' jobs' \<and>
    (r = Some (Some (info, res), mj) \<longrightarrow> heap_ids e \<longrightarrow> ji_id info \<in> jt_id jobs \<and> begun e' (ji_id info)) \<and>
    (r = None \<longrightarrow> e' = e \<and> uv_of (jt_unit jobs') = uv_of ?t \<and> ready_pick un (ready_view ?t) = None)"
  proof (cases "ready_pick un (ready_view ?t)")
    case None
    from do_try_trigger_None[OF i(1,2) None, of act dd] obtain t' where d:
      "do_try_trigger act dd un ?t e = Some (None, t', e)" "tb_inv e t'" "ut_sync t'" "uv_of t' = uv_of ?t" by blast
    have "tb_ids t' = tb_ids ?t" using d(4) by (simp add: tb_ids_def)
    then show ?thesis using d i ret None by (auto simp: jt_try_trigger_def jt_inv_def)
  next
    case (Some p)
    obtain u q where p: "p = (u, q)" by (cases p)
    from do_try_trigger_Some[OF i(1,2) Some[unfolded p], of act dd] obtain ju j ret' mj' t' e1 where d:
      "uv_of ?t u = Some ju" "ju_ready ju" "ju_next_job ju = Some j"
      "do_try_trigger act dd un ?t e = Some (Some (ret', mj'), t', e1)" "tb_inv e1 t'" "ut_sync t'"
      "tb_ids t' = tb_ids ?t - set_option mj'" "set_option mj' \<subseteq> tb_ids ?t"
      "if order_allows dd e ?t u j
       then \<exists>ju' cb res. ret' = Some (job_info_map cb, res) \<and> je_jobs e j = Some cb \<and>
         ju_do_trigger act (ju\<lparr>ju_up_ready := False\<rparr>) e = Some ((ret', mj'), ju', e1) \<and>
         uv_of t' = (uv_of ?t)(u \<mapsto> ju'\<lparr>ju_dirty := False\<rparr>) \<and> ju_trigger ju' = Some j
       else ret' = None \<and> mj' = None \<and> e1 = e \<and> uv_of t' = (uv_of ?t)(u \<mapsto> ju_paused ju)"
      by (elim exE conjE) (rule that; assumption)
    have "jt_try_trigger act dd un jobs e =
        Some (Some (ret', mj'), jobs\<lparr>jt_unit := t', jt_id := jt_id jobs - set_option mj'\<rparr>, e1)"
      using d(4) by (cases mj') (simp_all add: jt_try_trigger_def)
    then have jt: "r = Some (ret', mj')" "e' = e1" "jobs' = jobs\<lparr>jt_unit := t', jt_id := jt_id jobs - set_option mj'\<rparr>"
      using ret by simp_all
    have inv': "jt_inv e' jobs'" using d(5-7) i(3) jt by (simp add: jt_inv_def)
    have "ji_id info \<in> jt_id jobs \<and> begun e' (ji_id info)" if r: "ret' = Some (info, res)" and heap: "heap_ids e"
    proof -
      from d(9) r obtain ju' cb where t: "info = job_info_map cb" "je_jobs e j = Some cb"
        "uv_of t' = (uv_of ?t)(u \<mapsto> ju'\<lparr>ju_dirty := False\<rparr>)" "ju_trigger ju' = Some j"
        by (auto split: if_splits)
      have id: "ji_id info = j" using heap t(1,2) by (simp add: heap_ids_def job_info_map_def)
      have uv: "uv_of (jt_unit jobs') u = Some (ju'\<lparr>ju_dirty := False\<rparr>)" using t(3) jt(3) by simp
      have "j \<in> ju_ids (ju'\<lparr>ju_dirty := False\<rparr>)" using t(4) by (simp add: ju_ids_def)
      then have "j \<in> tb_ids t'" using uv jt(3) by (auto simp: tb_ids_def intro!: exI[of _ u])
      moreover have "begun e' j"
      proof -
        from jt_inv_uv(1)[OF inv' uv] t(4) obtain k where "job_at e' j Running k (ju_unit ju')"
          by (auto simp: ju_inv_def ju_jobs_def)
        then show ?thesis by (simp add: job_at_def begun_def job_begun_def split: option.splits)
      qed
      ultimately show ?thesis using id d(7) i(3) by simp
    qed
    then show ?thesis using inv' jt(1) by simp
  qed
  then show "jt_inv e' jobs'" "r = Some (Some (info, res), mj) \<Longrightarrow> heap_ids e \<Longrightarrow> ji_id info \<in> jt_id jobs \<and> begun e' (ji_id info)"
    "r = None \<Longrightarrow> e' = e \<and> uv_of (jt_unit jobs') = uv_of ?t \<and> ready_pick un (ready_view ?t) = None" by blast+
qed

lemma run_trigger_ok:
  assumes inv: "jm_inv jm" and idle: "\<not> jm_running jm" and ret: "run_trigger act dd un jm = Some (r, jm')"
  shows "jm_ok jm jm'"
    "r = Some (Some (info, res), mj) \<Longrightarrow> ji_id info \<in> ja_ids (je_alloc (jm_env jm')) \<and> begun (jm_env jm') (ji_id info)"
    "r = None \<Longrightarrow> uv_of (jt_unit (jm_jobs jm')) = uv_of (jt_unit (jm_jobs jm)) \<and>
      ready_pick un (ready_view (jt_unit (jm_jobs jm))) = None"
proof -
  let ?e = "(jm_env jm)\<lparr>je_notes := []\<rparr>"
  from ret obtain jobs e jm1 where s: "jt_try_trigger act dd un (jm_jobs jm) ?e = Some (r, jobs, e)"
    "for_each (\<lambda>note jm. map_option snd (job_manager_try_finish dd note jm)) (je_notes e)
       (jm\<lparr>jm_text := None, jm_running := True, jm_jobs := jobs, jm_env := e\<lparr>je_notes := []\<rparr>\<rparr>) = Some jm1"
    "jm' = jm1\<lparr>jm_running := False\<rparr>"
    by (auto simp: run_trigger_def elim!: bind_SomeE)
  let ?jm = "jm\<lparr>jm_text := None, jm_running := True, jm_jobs := jobs, jm_env := e\<lparr>je_notes := []\<rparr>\<rparr>"
  have tj0: "tj_inv (jm_jobs jm) ?e" using inv tj_inv_env[of ?e "jm_env jm"] by (simp add: jm_inv_def)
  then have jt0: "jt_inv ?e (jm_jobs jm)" by (simp add: tj_inv_def)
  note tb = try_trigger_begun[OF jt0 s(1)]
  have m0: "env_mono (jm_env jm) ?e" by (simp add: env_mono_same)
  have m1: "env_mono ?e e" using s(1) by (rule jt_try_trigger_env)
  have m2: "env_mono e (e\<lparr>je_notes := []\<rparr>)" by (simp add: env_mono_same)
  have "tj_inv jobs e" using tb(1) tj0 m1 jt_try_trigger_ids[OF jt0 s(1)] by (auto simp: tj_inv_def env_mono_def)
  then have inv1: "jm_inv ?jm" using tj_inv_env[of "e\<lparr>je_notes := []\<rparr>" e] by (simp add: jm_inv_def)
  have loop: "jm_ok ?jm jm1"
    by (rule jm_loop_ok[OF s(2) inv1]) (auto intro: job_manager_try_finish_ok)
  have mono: "env_mono ?e (jm_env jm')" using loop s(3) env_mono_trans[OF m1 m2] by (auto simp: jm_ok_def intro: env_mono_trans)
  show "jm_ok jm jm'" using loop s(3) idle env_mono_trans[OF m0 mono] by (simp add: jm_ok_def jm_inv_def)
  show "ji_id info \<in> ja_ids (je_alloc (jm_env jm')) \<and> begun (jm_env jm') (ji_id info)" if "r = Some (Some (info, res), mj)"
  proof -
    from tb(2)[OF that] tj0 have b: "ji_id info \<in> jt_id (jm_jobs jm)" "begun e (ji_id info)" by (simp_all add: tj_inv_def)
    then have "ji_id info \<in> ja_ids (je_alloc e)" using tj0 m1 by (auto simp: tj_inv_def env_mono_def)
    moreover have "env_mono e (jm_env jm')" using env_mono_trans[OF m2, of "jm_env jm1"] loop s(3) by (simp add: jm_ok_def)
    ultimately show ?thesis using b(2) by (auto simp: env_mono_def)
  qed
  show "uv_of (jt_unit (jm_jobs jm')) = uv_of (jt_unit (jm_jobs jm)) \<and>
      ready_pick un (ready_view (jt_unit (jm_jobs jm))) = None" if "r = None"
    using tb(3)[OF that] s(2,3) by auto
qed

text \<open>Writing the caches to disk changes no answer of the databases.\<close>

lemma redb_cache_2_db_ignore: "ignore (redb_cache_2_db H r) = ignore r"
  by (simp add: redb_cache_2_db_def Let_def)

lemma job_re_commit_inv [simp]: "tj_inv jobs (job_re_commit H e) = tj_inv jobs e" "env_mono e (job_re_commit H e)"
proof -
  show "tj_inv jobs (job_re_commit H e) = tj_inv jobs e"
    by (rule tj_inv_env) (simp_all add: job_re_commit_def suspends_get_def trigger_get_def job_re_live_def redb_cache_2_db_ignore)
  show "env_mono e (job_re_commit H e)" by (rule env_mono_same) (simp_all add: job_re_commit_def)
qed

lemma clear_last_unit_ok: "jm_ok jm jm' \<Longrightarrow> jm_ok jm (clear_last_unit H jm')"
proof (rule jm_okI)
  let ?e = "job_re_commit H (jm_env jm')"
  assume ok: "jm_ok jm jm'"
  then have "tj_inv (jm_jobs jm') ?e" "env_mono (jm_env jm) ?e" by (auto simp: jm_ok_def jm_inv_def intro: env_mono_trans)
  moreover have "tj_inv (jm_jobs jm') (?e\<lparr>je_last_unit := None\<rparr>) = tj_inv (jm_jobs jm') ?e" by (rule tj_inv_env) simp_all
  moreover have "env_mono ?e (?e\<lparr>je_last_unit := None\<rparr>)" by (rule env_mono_same) simp_all
  ultimately show "tj_inv (jm_jobs (clear_last_unit H jm')) (jm_env (clear_last_unit H jm'))"
    "env_mono (jm_env jm) (jm_env (clear_last_unit H jm'))" by (auto simp: clear_last_unit_def intro: env_mono_trans)
  show "jm_running (clear_last_unit H jm') = jm_running jm" using ok by (simp add: clear_last_unit_def jm_ok_def)
qed

lemma run_one_ok:
  assumes inv: "jm_inv jm" and idle: "\<not> jm_running jm" and ret: "run_one H act dd un jm = Some (again, jm')"
  shows "jm_ok jm jm'"
    "\<not> again \<Longrightarrow> uv_of (jt_unit (jm_jobs jm')) = uv_of (jt_unit (jm_jobs jm)) \<and>
      ready_pick un (ready_view (jt_unit (jm_jobs jm))) = None"
proof -
  from ret obtain tr jm1 where t: "run_trigger act dd un jm = Some (tr, jm1)" by (auto simp: run_one_def elim!: bind_SomeE)
  note rt = run_trigger_ok[OF inv idle t]
  have "jm_ok jm jm' \<and> (\<not> again \<longrightarrow> uv_of (jt_unit (jm_jobs jm')) = uv_of (jt_unit (jm_jobs jm)) \<and>
      ready_pick un (ready_view (jt_unit (jm_jobs jm))) = None)"
  proof (cases tr)
    case None
    then show ?thesis using ret t rt(1,3) by (auto simp: run_one_def)
  next
    case (Some p)
    obtain ti merge where p: "p = (ti, merge)" by (cases p)
    from ret t Some p obtain jm2 jm3 jm4 where s:
      "jm_update_changes ([], (case merge of Some j \<Rightarrow> [j] | None \<Rightarrow> []), []) jm1 = Some jm2"
      "(case jm_text jm2 of
              Some note \<Rightarrow> map_option (\<lambda>jm. jm\<lparr>jm_text := None\<rparr>) (do_try_finish dd note (jm2\<lparr>jm_text := None\<rparr>))
            | None \<Rightarrow> Some jm2) = Some jm3"
      "(case ti of
              Some (t_jinfo, Some tend_r) \<Rightarrow>
                if jt_get (jm_env jm3) (jm_jobs jm3) (ji_id t_jinfo) \<noteq> None
                then map_option snd (do_remove dd t_jinfo tend_r True jm3)
                else Some jm3
            | _ \<Rightarrow> Some jm3) = Some jm4"
      "again" "jm' = clear_last_unit H jm4"
      by (auto simp: run_one_def elim!: bind_SomeE)
    have 2: "jm_ok jm1 jm2" using jm_ok_inv[OF rt(1)] s(1) by (rule update_changes_ok)
    note i2 = jm_ok_inv[OF 2]
    have 3: "jm_ok jm2 jm3"
      using s(2) jm_ok_refl[OF i2] do_try_finish_ok[of "jm2\<lparr>jm_text := None\<rparr>"] i2
      by (auto simp: jm_text_ok(2,3) intro: jm_text_ok(1) split: option.splits)
    have 13: "jm_ok jm1 jm3" using 2 3 by (rule jm_ok_trans)
    note i3 = jm_ok_inv[OF 3]
    have 4: "jm_ok jm3 jm4"
    proof (cases "\<exists>i x. ti = Some (i, Some x) \<and> jt_get (jm_env jm3) (jm_jobs jm3) (ji_id i) \<noteq> None")
      case False
      then show ?thesis using s(3) jm_ok_refl[OF i3] by (auto split: option.splits)
    next
      case True
      then obtain i x where i: "ti = Some (i, Some x)" "jt_get (jm_env jm3) (jm_jobs jm3) (ji_id i) \<noteq> None" by blast
      then obtain b where rm: "do_remove dd i x True jm3 = Some (b, jm4)" using s(3) by auto
      from rt(2)[of i "Some x" merge] i(1) Some p have "begun (jm_env jm1) (ji_id i)"
        "ji_id i \<in> ja_ids (je_alloc (jm_env jm1))" by simp_all
      then have "begun (jm_env jm3) (ji_id i)" using 13 by (auto simp: jm_ok_def env_mono_def)
      moreover have "ji_id i \<in> jt_id (jm_jobs jm3)" using i(2) by (simp add: jt_get_def split: if_splits)
      ultimately have "jt_is_trigger (jm_env jm3) (jm_jobs jm3) (ji_id i)"
        using begun_is_trigger[of "jm_jobs jm3" "jm_env jm3" "ji_id i"] i3 by (simp add: jm_inv_def)
      then show ?thesis using do_remove_ok[OF i3 _ rm] by blast
    qed
    from clear_last_unit_ok[OF jm_ok_trans[OF jm_ok_trans[OF rt(1) 13] 4]] show ?thesis using s(4,5) by simp
  qed
  then show "jm_ok jm jm'"
    "\<not> again \<Longrightarrow> uv_of (jt_unit (jm_jobs jm')) = uv_of (jt_unit (jm_jobs jm)) \<and>
      ready_pick un (ready_view (jt_unit (jm_jobs jm))) = None" by blast+
qed

lemma jm_run_ok:
  assumes "jm_run H act dd un cnt jm = Some (n, jm')" and "jm_inv jm" and "\<not> jm_running jm"
  shows "jm_ok jm jm' \<and> (\<forall>u ju. uv_of (jt_unit (jm_jobs jm')) u = Some ju \<longrightarrow> ju_ready ju \<longrightarrow> (\<exists>x. un = Some x \<and> x \<noteq> u))"
proof -
  have "jm_inv jm \<longrightarrow> \<not> jm_running jm \<longrightarrow>
    (case (n, jm') of (_, jm') \<Rightarrow> jm_ok jm jm' \<and>
      (\<forall>u ju. uv_of (jt_unit (jm_jobs jm')) u = Some ju \<longrightarrow> ju_ready ju \<longrightarrow> (\<exists>x. un = Some x \<and> x \<noteq> u)))"
    using assms(1)
  proof (induction rule: jm_run.raw_induct[rotated, consumes 1, case_names step])
    case (step run H act dd un cnt jm y)
    from step(2) obtain again jm1 where r: "run_one H act dd un jm = Some (again, jm1)"
      "(if again then run H act dd un (cnt + 1) jm1 else Some (cnt, jm1)) = Some y"
      by (auto elim!: bind_SomeE)
    show ?case
    proof (intro impI)
      assume inv: "jm_inv jm" and idle: "\<not> jm_running jm"
      note o = run_one_ok[OF inv idle r(1)]
      have idle1: "\<not> jm_running jm1" using o(1) idle by (simp add: jm_ok_def)
      show "case y of (_, jm') \<Rightarrow> jm_ok jm jm' \<and>
        (\<forall>u ju. uv_of (jt_unit (jm_jobs jm')) u = Some ju \<longrightarrow> ju_ready ju \<longrightarrow> (\<exists>x. un = Some x \<and> x \<noteq> u))"
      proof (cases again)
        case True
        then have "run H act dd un (cnt + 1) jm1 = Some y" using r(2) by simp
        from step(1)[OF this] jm_ok_inv[OF o(1)] idle1 show ?thesis using jm_ok_trans[OF o(1)] by (auto split: prod.splits)
      next
        case False
        then have y: "y = (cnt, jm1)" using r(2) by simp
        have "jt_inv (jm_env jm) (jm_jobs jm)" using inv by (simp add: jm_inv_def tj_inv_def)
        from ready_pick_None[OF this, of un] o(2)[OF False] o(1) show ?thesis unfolding y by simp
      qed
    qed
  qed
  then show ?thesis using assms(2,3) by simp
qed

end
