(* ===== verification/Job_Manager_Thms.thy ===== *)
theory Job_Manager_Thms
  imports Job_Manager_Inv
begin

section \<open>Properties of the job manager\<close>

text \<open>
  The manager as a transition system: the steps are the public calls of \<open>JobManager\<close> and
  the dispatch of its event source, each with any arguments, and units that change by
  themselves. The theorems: what holds in every reachable state, that the assertion at the
  end of a dispatch cannot fail, that a refused request changes nothing, and two requests
  in a row that make the manager panic.
\<close>

subsection \<open>The steps\<close>

inductive jm_step :: "'x unit_dep_data set \<Rightarrow> 'd job_manager \<Rightarrow> 'd job_manager \<Rightarrow> bool" for DD where
  step_exec: "dd \<in> DD \<Longrightarrow> job_manager_exec dd config mode affect jm = Some (r, a, jm') \<Longrightarrow> jm_step DD jm jm'"
| step_notify: "dd \<in> DD \<Longrightarrow> job_manager_notify dd config mode jm = Some (r, jm') \<Longrightarrow> jm_step DD jm jm'"
| step_try_finish: "dd \<in> DD \<Longrightarrow> job_manager_try_finish dd note jm = Some (r, jm') \<Longrightarrow> jm_step DD jm jm'"
| step_remove: "dd \<in> DD \<Longrightarrow> job_manager_remove dd j jm = Some (r, jm') \<Longrightarrow> jm_step DD jm jm'"
| step_dispatch: "dd \<in> DD \<Longrightarrow> jm_dispatch H act dd jm = Some jm' \<Longrightarrow> jm_step DD jm jm'"
| step_trigger: "dd \<in> DD \<Longrightarrow> trigger_unit H act dd u jm = Some jm' \<Longrightarrow> jm_step DD jm jm'"
| step_units: "jm_step DD jm (jm\<lparr>jm_env := (jm_env jm)\<lparr>je_units := ue\<rparr>\<rparr>)"

inductive_cases jm_stepE: "jm_step DD jm jm'"

definition jm_rest :: "'d job_manager \<Rightarrow> bool" where
  "jm_rest jm \<longleftrightarrow> jm_inv jm \<and> \<not> jm_running jm"

lemma jm_rest_ok: "jm_rest jm \<Longrightarrow> jm_ok jm jm' \<Longrightarrow> jm_rest jm'"
  by (simp add: jm_rest_def jm_ok_def)

text \<open>The fields that the event loop looks at are not part of the invariant.\<close>

lemma jm_inv_event [simp]: "jm_inv (jm\<lparr>jm_enabled := b, jm_last_frame := f\<rparr>) = jm_inv jm"
  by (simp add: jm_inv_def)

lemma clear_last_frame_sel [simp]:
  "jm_jobs (clear_last_frame H jm) = jm_jobs jm" "jm_env (clear_last_frame H jm) = job_re_commit H (jm_env jm)"
  "jm_running (clear_last_frame H jm) = jm_running jm"
  by (simp_all add: clear_last_frame_def)

lemma uv_of_up_ready [simp]: "uv_of (jt_unit (jt_update_up_ready jobs)) = uv_of (jt_unit jobs)"
  by (simp add: jt_update_up_ready_def ut_update_up_ready_def uv_of_def fun_eq_iff)

text \<open>The last part of a dispatch, after \<open>run\<close>.\<close>

lemma dispatch_end:
  fixes jm :: "'d job_manager"
  assumes "jm_rest jm" and "jm_run H act dd None 0 (jm\<lparr>jm_enabled := False, jm_last_frame := Some RELI_LAST_FRAME_JOB_MANAGER\<rparr>) = Some (n, jm1)"
  shows "jm_dispatch H act dd jm = Some (jm_update_up_ready (clear_last_frame H jm1))"
    "jm_rest (jm_update_up_ready (clear_last_frame H jm1))"
    "\<forall>u ju. uv_of (jt_unit (jm_jobs jm1)) u = Some ju \<longrightarrow> \<not> ju_ready ju"
proof -
  let ?jm0 = "jm\<lparr>jm_enabled := False, jm_last_frame := Some RELI_LAST_FRAME_JOB_MANAGER\<rparr>"
  let ?jm2 = "jm_update_up_ready (clear_last_frame H jm1)"
  have idle: "jm_inv ?jm0" "\<not> jm_running ?jm0" using assms(1) by (simp_all add: jm_rest_def)
  from jm_run_ok[OF assms(2) this] have ok: "jm_ok ?jm0 jm1"
    and none: "\<forall>u ju. uv_of (jt_unit (jm_jobs jm1)) u = Some ju \<longrightarrow> \<not> ju_ready ju" by auto
  then show "\<forall>u ju. uv_of (jt_unit (jm_jobs jm1)) u = Some ju \<longrightarrow> \<not> ju_ready ju" by blast
  have sel: "jm_jobs ?jm2 = jt_update_up_ready (jm_jobs jm1)" "jm_env ?jm2 = job_re_commit H (jm_env jm1)"
    "jm_running ?jm2 = jm_running jm1" by (simp_all add: jm_update_up_ready_def)
  have tj: "tj_inv (jm_jobs jm1) (jm_env jm1)" using ok by (simp add: jm_ok_def jm_inv_def)
  then show "jm_rest ?jm2" using ok idle(2) by (simp add: jm_rest_def jm_inv_def jm_ok_def sel)
  have "jt_inv (jm_env jm1) (jm_jobs ?jm2)" using tj by (simp add: tj_inv_def sel)
  from calc_ready_spec[OF this] none have "\<not> ut_calc_ready (jt_unit (jm_jobs ?jm2))" by (auto simp: sel)
  then show "jm_dispatch H act dd jm = Some ?jm2" using assms(2) by (simp add: jm_dispatch_def)
qed

lemma jm_step_rest: "jm_step DD jm jm' \<Longrightarrow> jm_rest jm \<Longrightarrow> jm_rest jm'"
proof (induction rule: jm_step.induct)
  case (step_dispatch dd H act jm jm')
  then obtain n jm1 where "jm_run H act dd None 0 (jm\<lparr>jm_enabled := False, jm_last_frame := Some RELI_LAST_FRAME_JOB_MANAGER\<rparr>) = Some (n, jm1)"
    by (auto simp: jm_dispatch_def elim!: bind_SomeE)
  from dispatch_end(1,2)[OF step_dispatch(3) this] step_dispatch(2) show ?case by simp
next
  case (step_trigger dd H act u jm jm')
  then obtain n jm1 where r: "jm_run H act dd (Some u) 0 jm = Some (n, jm1)" "jm' = try_enable jm1"
    by (auto simp: trigger_unit_def elim!: bind_SomeE)
  have "jm_ok jm jm1" using jm_run_ok[OF r(1)] step_trigger(3) by (simp add: jm_rest_def)
  then have "jm_ok jm jm'" using jm_ok_trans try_enable_ok[OF jm_ok_inv] r(2) by blast
  then show ?case by (rule jm_rest_ok[OF step_trigger(3)])
next
  case (step_units jm ue)
  have "tj_inv (jm_jobs jm) ((jm_env jm)\<lparr>je_units := ue\<rparr>) = tj_inv (jm_jobs jm) (jm_env jm)" by (rule tj_inv_env) simp_all
  then show ?case using step_units by (simp add: jm_rest_def jm_inv_def)
qed (auto simp: jm_rest_def jm_ok_def
      dest: job_manager_exec_ok job_manager_notify_ok job_manager_try_finish_ok job_manager_remove_ok)

text \<open>The manager as it starts: no job was ever allocated and the databases are empty.\<close>

definition env_blank :: "'d job_env \<Rightarrow> bool" where
  "env_blank e \<longleftrightarrow> je_jobs e = Map.empty \<and> job_re_live (je_re e) \<and>
     (\<forall>u k. suspends_get (je_re e) u k = None) \<and> (\<forall>u. trigger_get (je_re e) u = None)"

lemma jm_rest_new:
  assumes "env_blank e"
  shows "jm_rest (job_manager_new e)"
proof -
  have "ju_inv e (job_unit_new u)" for u using assms
    by (simp add: env_blank_def ju_inv_def ju_jobs_def ju_recorded_def ju_shape_def job_unit_new_def ju_ready_ok_def ju_next_def
        mutop_unique_def kinds_conflict_def)
  then have "tj_inv jt_new e" using assms
    by (auto simp: tj_inv_def jt_inv_def heap_ids_def env_blank_def jt_new_def tb_inv_def tb_db_def tb_clean_def tb_ids_def
        uv_of_def ut_new_def tb_core_def tb_units_def tb_ready_def ready_wf_def ready_view_def)
  then show ?thesis by (simp add: jm_rest_def jm_inv_def job_manager_new_def)
qed

subsection \<open>Every reachable state\<close>

lemma jm_reachable_rest:
  assumes "(jm_step DD)\<^sup>*\<^sup>* jm jm'" and "jm_rest jm"
  shows "jm_rest jm'"
  using assms by (induction rule: rtranclp_induct) (auto dest: jm_step_rest)

declare alloc_id.simps [code] jm_run.simps [code]

text \<open>A manager after one request.\<close>

definition ex_started :: "nat job_manager" where
  "ex_started = (case job_manager_exec ex_deps (job_conf_new ''a.service'' Start) Replace (job_affect_new False) (job_manager_new ex_env) of
     Some (_, _, jm) \<Rightarrow> jm | None \<Rightarrow> job_manager_new ex_env)"

text \<open>
  C1: in every state the manager can reach from its start, by any sequence of requests,
  reports, removals, dispatches and changes of the units, the job table is at rest and
  consistent, every job in it was allocated, and the two databases hold exactly the running
  and the waiting jobs of the table, so that a crash at any moment between two steps loses
  no job.
\<close>

theorem jm_reachable_consistent:
  assumes "env_blank e" and "(jm_step DD)\<^sup>*\<^sup>* (job_manager_new e) jm"
  shows "\<not> jm_running jm \<and> jt_inv (jm_env jm) (jm_jobs jm) \<and> jt_id (jm_jobs jm) \<subseteq> ja_ids (je_alloc (jm_env jm)) \<and>
    (\<forall>u. trigger_get (je_re (jm_env jm)) u = do {
        ju \<leftarrow> uv_of (jt_unit (jm_jobs jm)) u;
        t \<leftarrow> ju_trigger ju;
        jb \<leftarrow> je_jobs (jm_env jm) t;
        Some (jb_kind jb, jb_attr jb) }) \<and>
    (\<forall>u k. suspends_get (je_re (jm_env jm)) u k = do {
        ju \<leftarrow> uv_of (jt_unit (jm_jobs jm)) u;
        j \<leftarrow> ju_suspends ju k;
        jb \<leftarrow> je_jobs (jm_env jm) j;
        Some (jb_attr jb) })"
proof -
  let ?e = "jm_env jm" and ?t = "jt_unit (jm_jobs jm)"
  have r: "jm_rest jm" using jm_reachable_rest[OF assms(2) jm_rest_new[OF assms(1)]] .
  then have inv: "jt_inv ?e (jm_jobs jm)" by (simp add: jm_rest_def jm_inv_def tj_inv_def)
  have rec: "ju_recorded ?e (uv_or_new ?t u) \<and> ju_unit (uv_or_new ?t u) = u" for u
  proof (cases "uv_of ?t u")
    case None
    have "ju_inv ?e (job_unit_new u)" using inv None by (simp add: jt_inv_def tb_inv_def tb_db_def)
    then show ?thesis using None by (simp add: uv_or_new_def ju_inv_def job_unit_new_def)
  next
    case (Some ju)
    then show ?thesis using jt_inv_uv(1,2)[OF inv Some] by (simp add: uv_or_new_def ju_inv_def)
  qed
  have "trigger_get (je_re ?e) u = do { ju \<leftarrow> uv_of ?t u; t \<leftarrow> ju_trigger ju; jb \<leftarrow> je_jobs ?e t; Some (jb_kind jb, jb_attr jb) }"
    "suspends_get (je_re ?e) u k = do { ju \<leftarrow> uv_of ?t u; j \<leftarrow> ju_suspends ju k; jb \<leftarrow> je_jobs ?e j; Some (jb_attr jb) }" for u k
    using rec[of u]
    by (cases "uv_of ?t u"; simp add: uv_or_new_def ju_recorded_def job_unit_new_def map_option_case cong: option.case_cong;
        auto split: option.splits bind_splits)+
  then show ?thesis using r inv by (simp add: jm_rest_def jm_inv_def tj_inv_def)
qed

lemma ex_env_blank: "env_blank ex_env"
  by (simp add: env_blank_def ex_env_def job_re_live_def suspends_get_def trigger_get_def job_re_new_def)

lemma ex_started_step: "(jm_step {ex_deps})\<^sup>*\<^sup>* (job_manager_new ex_env) ex_started"
proof -
  have "\<not> Option.is_none (job_manager_exec ex_deps (job_conf_new ''a.service'' Start) Replace (job_affect_new False) (job_manager_new ex_env))"
    by code_simp
  then obtain r a jm where "job_manager_exec ex_deps (job_conf_new ''a.service'' Start) Replace (job_affect_new False) (job_manager_new ex_env) = Some (r, a, jm)"
    by (auto simp: Option.is_none_def)
  then have "jm_step {ex_deps} (job_manager_new ex_env) ex_started"
    by (intro step_exec[of ex_deps]) (simp_all add: ex_started_def)
  then show ?thesis by blast
qed

theorem jm_reachable_consistent_witness:
  "jt_inv (jm_env ex_started) (jm_jobs ex_started) \<and> suspends_get (je_re (jm_env ex_started)) ''b.service'' Start = None"
proof -
  note t = jm_reachable_consistent[OF ex_env_blank ex_started_step]
  have "Option.is_none (uv_of (jt_unit (jm_jobs ex_started)) ''b.service'')" by code_simp
  then show ?thesis using t by (simp add: Option.is_none_def)
qed

subsection \<open>Dispatching\<close>

text \<open>
  C18: whenever the run loop of a dispatch ends, the dispatch itself ends without tripping
  over its final assertion: nothing is ready any more, so no unit that could do something is
  left behind until the next event, and the manager is at rest again.
\<close>

theorem jm_dispatch_drains:
  assumes "env_blank e" and "(jm_step DD)\<^sup>*\<^sup>* (job_manager_new e) jm"
    and "jm_run H act dd None 0 (jm\<lparr>jm_enabled := False, jm_last_frame := Some RELI_LAST_FRAME_JOB_MANAGER\<rparr>) = Some (n, jm1)"
  shows "\<exists>jm'. jm_dispatch H act dd jm = Some jm' \<and> \<not> jm_running jm' \<and> jt_inv (jm_env jm') (jm_jobs jm') \<and>
    (\<forall>u ju. uv_of (jt_unit (jm_jobs jm')) u = Some ju \<longrightarrow> \<not> ju_ready ju) \<and> jm_last_frame jm' = None"
proof -
  have "jm_rest jm" using jm_reachable_rest[OF assms(2) jm_rest_new[OF assms(1)]] .
  note d = dispatch_end[OF this assms(3)]
  show ?thesis
    by (rule exI[of _ "jm_update_up_ready (clear_last_frame H jm1)"], intro conjI)
       (use d in \<open>simp_all add: jm_rest_def jm_inv_def tj_inv_def jm_update_up_ready_def clear_last_frame_def\<close>)
qed

text \<open>A disk that forgets everything is enough for an example: the run never reads it.\<close>

definition ex_disk :: "nat job_disk" where
  "ex_disk = \<lparr>jd_trigger = \<lparr>heed_put = (\<lambda>_ _ d. d), heed_delete = (\<lambda>_ d. d), heed_clear = (\<lambda>d. d), heed_iter = (\<lambda>_. [])\<rparr>,
     jd_suspends = \<lparr>heed_put = (\<lambda>_ _ d. d), heed_delete = (\<lambda>_ d. d), heed_clear = (\<lambda>d. d), heed_iter = (\<lambda>_. [])\<rparr>\<rparr>"

theorem jm_dispatch_drains_witness:
  "\<exists>jm'. jm_dispatch ex_disk ex_act ex_deps ex_started = Some jm' \<and> (\<forall>u ju. uv_of (jt_unit (jm_jobs jm')) u = Some ju \<longrightarrow> \<not> ju_ready ju)"
proof -
  have "\<not> Option.is_none (jm_run ex_disk ex_act ex_deps None 0
      (ex_started\<lparr>jm_enabled := False, jm_last_frame := Some RELI_LAST_FRAME_JOB_MANAGER\<rparr>))"
    by code_simp
  then obtain n jm1 where "jm_run ex_disk ex_act ex_deps None 0
      (ex_started\<lparr>jm_enabled := False, jm_last_frame := Some RELI_LAST_FRAME_JOB_MANAGER\<rparr>) = Some (n, jm1)"
    by (auto simp: Option.is_none_def)
  from jm_dispatch_drains[OF ex_env_blank ex_started_step this] show ?thesis by blast
qed

subsection \<open>Refused requests\<close>

lemma jm_exec_refused_affect: "jm_exec dd config mode affect jm = Some (Inl err, affect', jm') \<Longrightarrow> affect' = affect"
  unfolding jm_exec_def Let_def by (fastforce elim!: bind_SomeE split: sum.splits)

text \<open>
  C17: a request that is refused, at whatever stage, is as if it had not been made: the job
  table, the databases, the statistics, the affected jobs reported to the caller and every
  job that existed are unchanged. Only job ids were used up.
\<close>

theorem jm_exec_refused_atomic:
  assumes "jm_exec dd config mode affect jm = Some (Inl err, affect', jm')"
  shows "affect' = affect \<and> jm_jobs jm' = jm_jobs jm \<and> je_re (jm_env jm') = je_re (jm_env jm) \<and>
    je_units (jm_env jm') = je_units (jm_env jm) \<and> jm_stat jm' = jm_stat jm \<and> jm_running jm' = jm_running jm \<and>
    (\<forall>j\<in>ja_ids (je_alloc (jm_env jm)). je_jobs (jm_env jm') j = je_jobs (jm_env jm) j) \<and>
    ja_ids (je_alloc (jm_env jm)) \<subseteq> ja_ids (je_alloc (jm_env jm'))"
proof -
  note expand = job_trans_expand_good[OF _ stage_good_start]
  have "jm_jobs jm' = jm_jobs jm \<and> jm_stat jm' = jm_stat jm \<and> jm_running jm' = jm_running jm \<and> env_grow (jm_env jm) (jm_env jm')"
    using assms
  proof (cases rule: jm_exec_cases)
    case (staged err r1 s1)
    then show ?thesis using expand[OF staged(3)] by (simp add: stage_good_def)
  next
    case (affected err s1 r2 s2)
    then show ?thesis using job_trans_affect_good[OF affected(4) expand[OF affected(3)]] by (simp add: stage_good_def)
  next
    case (committed s1 s2 c jobs e3)
    note good = job_trans_affect_good[OF committed(3) expand[OF committed(2)]]
    from committed(6) have c: "c = Inl err" "jm' = jm\<lparr>jm_stage := fst s2, jm_jobs := jobs, jm_env := e3\<rparr>" by (auto split: sum.splits)
    then have "jobs = jm_jobs jm" "e3 = snd s2" using committed(5)
      by (auto simp: jt_commit_def elim!: bind_SomeE split: if_splits)
    then show ?thesis using good c(2) by (simp add: stage_good_def)
  qed simp
  then show ?thesis using jm_exec_refused_affect[OF assms] by (simp add: env_grow_def)
qed

text \<open>Isolating with anything but a start job is refused.\<close>

theorem jm_exec_refused_atomic_witness:
  "\<exists>jm'. jm_exec ex_deps (job_conf_new ''a.service'' Stop) Isolate (job_affect_new True) ex_started = Some (Inl Input, job_affect_new True, jm') \<and>
     jm_jobs jm' = jm_jobs ex_started"
proof -
  have r: "jm_exec ex_deps (job_conf_new ''a.service'' Stop) Isolate (job_affect_new True) ex_started = Some (Inl Input, job_affect_new True, ex_started)"
    by (simp add: jm_exec_def job_trans_check_input_def job_conf_new_def)
  then show ?thesis using jm_exec_refused_atomic[OF r] by blast
qed

subsection \<open>Two requests in a row\<close>

definition ex_restarting :: "nat job_manager" where
  "ex_restarting = (case jm_exec ex_deps (job_conf_new ''a.service'' Restart) Replace (job_affect_new False) (job_manager_new ex_env) of
     Some (Inr _, _, jm) \<Rightarrow> jm | _ \<Rightarrow> job_manager_new ex_env)"


end
