(* ===== verification/Service_Base.thy ===== *)
theory Service_Base
  imports Unit_Rentry
begin

section \<open>Services: data (coms/service)\<close>

text \<open>
  The data of a service unit: its states, results and commands, its configuration
  (\<open>rentry.rs\<close>, \<open>config.rs\<close>), the process ids it tracks (\<open>pid.rs\<close>), the watchdog times
  (\<open>monitor.rs\<close>) and the runtime data of \<open>mng.rs\<close>. A process id is a nix \<open>Pid\<close>, an \<open>i32\<close>
  that is only compared; the theory uses \<open>int\<close>.
\<close>

type_synonym pid = int

subsection \<open>Enumerations\<close>

datatype service_type =
    Simple | Forking | Oneshot | NotifyType | Idle | Exec | TypeMax | TypeInvalid

datatype service_restart =
    RestartNo | OnSuccess | OnFailure | OnWatchdog | OnAbnormal | OnAbort | Always

datatype service_state =
    Dead | Condition | StartPre | Start | StartPost | Running | Exited | Reload | Stop | StopWatchdog
  | StopPost | StopSigterm | StopSigkill | FinalWatchdog | FinalSigterm | FinalSigkill
  | AutoRestart | Failed | Cleaning

datatype service_result =
    Success | FailureProtocol | FailureResources | FailureSignal | FailureStartLimitHit
  | FailureWatchdog | FailureExitCode | FailureCoreDump | FailureTimeout | SkipCondition | ResultInvalid

datatype service_command =
    CmdCondition | CmdStartPre | CmdStart | CmdStartPost | CmdReload | CmdStop | CmdStopPost

datatype notify_state = NotifyUnknown | NotifyReady | NotifyStopping

datatype notify_access = AccessNone | AccessMain

datatype kill_operation =
    KillTerminate | KillTerminateAndLog | KillRestart | KillKill | KillWatchdog | KillInvalid

definition service_type_deserialize :: "string \<Rightarrow> service_type" where
  "service_type_deserialize s =
     (if s = ''simple'' then Simple else if s = ''forking'' then Forking
      else if s = ''oneshot'' then Oneshot else if s = ''notify'' then NotifyType else Simple)"

subsection \<open>Exit statuses\<close>

text \<open>What \<open>waitpid\<close> reports (without the \<open>ptrace\<close> events); a signal is its number.\<close>

datatype wait_status =
    WExited pid int
  | WSignaled pid int bool
  | WStopped pid int
  | WContinued pid
  | WStillAlive

fun wait_status_pid :: "wait_status \<Rightarrow> pid option" where
  "wait_status_pid (WExited p _) = Some p"
| "wait_status_pid (WSignaled p _ _) = Some p"
| "wait_status_pid (WStopped p _) = Some p"
| "wait_status_pid (WContinued p) = Some p"
| "wait_status_pid WStillAlive = None"

datatype exit_status = Status int int

text \<open>\<open>from_raw\<close>, the decoding of a raw wait status, belongs to nix and is an argument.\<close>

definition exit_to_wait :: "(pid \<Rightarrow> int \<Rightarrow> wait_status option) \<Rightarrow> exit_status \<Rightarrow> wait_status" where
  "exit_to_wait from_raw ex = (case ex of Status p st \<Rightarrow>
     (case from_raw p st of Some wait \<Rightarrow> wait | None \<Rightarrow> WExited (-1) 0))"

fun wait_to_exit :: "wait_status \<Rightarrow> exit_status" where
  "wait_to_exit (WExited p st) = Status p st"
| "wait_to_exit (WSignaled p sig _) = Status p sig"
| "wait_to_exit _ = Status 0 0"

record exit_status_set =
  es_status :: "u8 list"
  es_signal :: "string list"

definition add_status :: "u8 \<Rightarrow> exit_status_set \<Rightarrow> exit_status_set" where
  "add_status st es = es\<lparr>es_status := es_status es @ [st]\<rparr>"

definition add_signal :: "string \<Rightarrow> exit_status_set \<Rightarrow> exit_status_set" where
  "add_signal sig es = es\<lparr>es_signal := es_signal es @ [sig]\<rparr>"

text \<open>\<open>status as u8\<close> truncates.\<close>

definition exit_status_enabled :: "(int \<Rightarrow> string) \<Rightarrow> exit_status_set \<Rightarrow> wait_status \<Rightarrow> bool" where
  "exit_status_enabled signal_name es wait =
     (case wait of
        WExited _ st \<Rightarrow> word_of_int st \<in> set (es_status es)
      | WSignaled _ sig _ \<Rightarrow> signal_name sig \<in> set (es_signal es)
      | _ \<Rightarrow> False)"

subsection \<open>Parsing numbers\<close>

text \<open>\<open>str::parse\<close> for an integer type with the given bounds: an optional sign (a minus only
  for signed types), then digits only, at least one.\<close>

fun parse_digits :: "int \<Rightarrow> string \<Rightarrow> int option" where
  "parse_digits acc [] = Some acc"
| "parse_digits acc (c # cs) =
     (if CHR ''0'' \<le> c \<and> c \<le> CHR ''9''
      then parse_digits (10 * acc + (of_char c - of_char (CHR ''0''))) cs else None)"

definition parse_int :: "int \<Rightarrow> int \<Rightarrow> string \<Rightarrow> int option" where
  "parse_int lo hi s =
     (let (neg, ds) = (case s of c # cs \<Rightarrow> if c = CHR ''+'' then (False, cs)
                         else if c = CHR ''-'' \<and> lo < 0 then (True, cs) else (False, s) | [] \<Rightarrow> (False, s))
      in if ds = [] then None
         else (case parse_digits 0 ds of
             Some v \<Rightarrow> let v' = (if neg then - v else v) in if lo \<le> v' \<and> v' \<le> hi then Some v' else None
           | None \<Rightarrow> None))"

definition parse_i32 :: "string \<Rightarrow> int option" where
  "parse_i32 = parse_int (- 2147483648) 2147483647"

definition parse_u8 :: "string \<Rightarrow> u8 option" where
  "parse_u8 s = map_option word_of_int (parse_int 0 255 s)"

definition parse_u64 :: "string \<Rightarrow> u64 option" where
  "parse_u64 s = map_option word_of_int (parse_int 0 18446744073709551615 s)"

text \<open>\<open>RestartPreventExitStatus\<close>: exit codes and signal names separated by blanks;
  \<open>signal_from_str\<close> is nix's \<open>Signal::from_str\<close>.\<close>

definition exit_status_add :: "(string \<Rightarrow> int option) \<Rightarrow> string \<Rightarrow> exit_status_set \<Rightarrow> exit_status_set" where
  "exit_status_add signal_from_str cmd es =
     (if cmd = [] then es
      else (case parse_u8 cmd of
          Some v \<Rightarrow> add_status v es
        | None \<Rightarrow> (case signal_from_str cmd of Some _ \<Rightarrow> add_signal cmd es | None \<Rightarrow> es)))"

definition is_whitespace :: "char \<Rightarrow> bool" where
  "is_whitespace c \<longleftrightarrow> c = CHR '' '' \<or> (9 \<le> (of_char c :: nat) \<and> (of_char c :: nat) \<le> 13)"

function split_whitespace :: "string \<Rightarrow> string list" where
  "split_whitespace s = (case dropWhile is_whitespace s of
     [] \<Rightarrow> []
   | c # cs \<Rightarrow> (c # takeWhile (\<lambda>x. \<not> is_whitespace x) cs) # split_whitespace (dropWhile (\<lambda>x. \<not> is_whitespace x) cs))"
  by pat_completeness auto

termination split_whitespace
proof (relation "measure length")
  fix s :: string and c cs
  assume "dropWhile is_whitespace s = c # cs"
  moreover have "length (dropWhile is_whitespace s) \<le> length s" by (rule length_dropWhile_le)
  moreover have "length (dropWhile (\<lambda>x. \<not> is_whitespace x) cs) \<le> length cs" by (rule length_dropWhile_le)
  ultimately show "(dropWhile (\<lambda>x. \<not> is_whitespace x) cs, s) \<in> measure length" by simp
qed simp

declare split_whitespace.simps [simp del]

definition exit_status_set_deserialize :: "(string \<Rightarrow> int option) \<Rightarrow> string \<Rightarrow> exit_status_set" where
  "exit_status_set_deserialize signal_from_str s =
     fold (exit_status_add signal_from_str) (split_whitespace s) \<lparr>es_status = [], es_signal = []\<rparr>"

subsection \<open>Configuration\<close>

record exec_command =
  cmd_path :: string
  cmd_argv :: "string list"

text \<open>The part of the \<open>Service\<close> section that the manager reads; the other settings only
  shape the executed process.\<close>

record section_service =
  ss_Type :: service_type
  ExecStart :: "exec_command list option"
  ExecStartPre :: "exec_command list option"
  ExecStartPost :: "exec_command list option"
  ExecStop :: "exec_command list option"
  ExecStopPost :: "exec_command list option"
  ExecReload :: "exec_command list option"
  ExecCondition :: "exec_command list option"
  WatchdogSec :: u64
  PIDFile :: "string option"
  RemainAfterExit :: bool
  NotifyAccess :: "notify_access option"
  ss_Restart :: service_restart
  RestartPreventExitStatus :: exit_status_set
  RestartSec :: u64

definition get_exec_cmds :: "section_service \<Rightarrow> service_command \<Rightarrow> exec_command list option" where
  "get_exec_cmds c cmd_type = (case cmd_type of
      CmdCondition \<Rightarrow> ExecCondition c
    | CmdStartPre \<Rightarrow> ExecStartPre c
    | CmdStart \<Rightarrow> ExecStart c
    | CmdStartPost \<Rightarrow> ExecStartPost c
    | CmdReload \<Rightarrow> ExecReload c
    | CmdStop \<Rightarrow> ExecStop c
    | CmdStopPost \<Rightarrow> ExecStopPost c)"

definition set_notify_access :: "notify_access \<Rightarrow> section_service \<Rightarrow> section_service" where
  "set_notify_access v c = c\<lparr>NotifyAccess := Some v\<rparr>"

definition no_cmds :: "section_service \<Rightarrow> service_command \<Rightarrow> bool" where
  "no_cmds c k = (case get_exec_cmds c k of None \<Rightarrow> True | Some cmds \<Rightarrow> cmds = [])"

definition service_verify :: "section_service \<Rightarrow> (error + unit) option" where
  "service_verify c =
     (if \<not> RemainAfterExit c \<and> no_cmds c CmdStart
      then Some (Inl (ConfigureError ''No ExecStart command is configured and RemainAfterExit if false''))
      else if ss_Type c \<noteq> Oneshot \<and> no_cmds c CmdStart
      then Some (Inl (ConfigureError ''No ExecStart command is configured, service type is not oneshot''))
      else do {
        many \<leftarrow> (if ss_Type c \<noteq> Oneshot then map_option (\<lambda>cmds. 1 < length cmds) (get_exec_cmds c CmdStart) else Some False);
        Some (if many
              then Inl (ConfigureError ''More than Oneshot ExecStart command is configured, service type is not oneshot'')
              else if ss_Type c = Oneshot \<and> \<not> ss_Restart c \<in> {RestartNo, OnFailure, OnAbnormal, OnWatchdog, OnAbort}
              then Inl (ConfigureError ''When service type is onoshot, Restart= is not allowed set to Always or OnSuccess'')
              else Inr ())
      })"

subsection \<open>Process ids\<close>

datatype main_state = MainUnknown | MainKnown

record service_pid =
  pd_main :: "pid option"
  pd_state :: main_state
  pd_control :: "pid option"

definition service_pid_new :: service_pid where
  "service_pid_new = \<lparr>pd_main = None, pd_state = MainUnknown, pd_control = None\<rparr>"

definition pid_set_main :: "pid \<Rightarrow> service_pid \<Rightarrow> bool \<times> service_pid" where
  "pid_set_main p d = (if p < 1 then (False, d) else (True, d\<lparr>pd_main := Some p, pd_state := MainKnown\<rparr>))"

definition pid_reset_main :: "service_pid \<Rightarrow> service_pid" where
  "pid_reset_main d = d\<lparr>pd_main := None\<rparr>"

definition pid_set_control :: "pid \<Rightarrow> service_pid \<Rightarrow> service_pid" where
  "pid_set_control p d = d\<lparr>pd_control := Some p\<rparr>"

definition pid_reset_control :: "service_pid \<Rightarrow> service_pid" where
  "pid_reset_control d = d\<lparr>pd_control := None\<rparr>"

text \<open>\<open>None\<close> is the error of an unknown main process.\<close>

definition pid_main_alive :: "(pid \<Rightarrow> bool) \<Rightarrow> service_pid \<Rightarrow> bool option" where
  "pid_main_alive alive d =
     (case pd_state d of
        MainUnknown \<Rightarrow> None
      | MainKnown \<Rightarrow> Some (case pd_main d of None \<Rightarrow> False | Some p \<Rightarrow> alive p))"

subsection \<open>Watchdog times\<close>

record service_monitor =
  watchdog_original_usec :: u64
  watchdog_override_usec :: u64
  watchdog_override_enable :: bool

definition service_monitor_new :: service_monitor where
  "service_monitor_new = \<lparr>watchdog_original_usec = 0, watchdog_override_usec = 0, watchdog_override_enable = False\<rparr>"

definition monitor_override :: "u64 \<Rightarrow> service_monitor \<Rightarrow> service_monitor" where
  "monitor_override usec m = m\<lparr>watchdog_override_enable := True, watchdog_override_usec := usec\<rparr>"

definition set_original_watchdog :: "u64 \<Rightarrow> service_monitor \<Rightarrow> service_monitor" where
  "set_original_watchdog usec m = m\<lparr>watchdog_original_usec := usec\<rparr>"

definition watchdog_usec :: "service_monitor \<Rightarrow> u64" where
  "watchdog_usec m = (if watchdog_override_enable m then watchdog_override_usec m else watchdog_original_usec m)"

subsection \<open>Runtime data\<close>

text \<open>A timer and a watchdog are their times in seconds, a watched path is the path of the
  pid file and whether its inotify descriptor is open.\<close>

record rtdata =
  rt_errno :: int
  rt_notify_state :: notify_state
  rt_path_inotify :: "(string \<times> bool) option"
  rt_forbid_restart :: bool
  rt_reset_restarts :: bool
  rt_restarts :: u32
  rt_timer :: "u64 option"
  rt_exec_status :: wait_status
  rt_watchdog :: "u64 option"

definition rtdata_new :: rtdata where
  "rtdata_new = \<lparr>rt_errno = 0, rt_notify_state = NotifyUnknown, rt_path_inotify = None, rt_forbid_restart = False,
     rt_reset_restarts = False, rt_restarts = 0, rt_timer = None, rt_exec_status = WStillAlive, rt_watchdog = None\<rparr>"

text \<open>\<open>time_relative\<close> of both timers: seconds to microseconds, in 64 bits.\<close>

definition time_relative :: "u64 \<Rightarrow> u64" where
  "time_relative sec = sec * 1000000"

subsection \<open>What the unit sees of the state\<close>

fun to_unit_active_state :: "service_state \<Rightarrow> unit_active_state" where
  "to_unit_active_state Dead = UnitInActive"
| "to_unit_active_state Condition = UnitActivating"
| "to_unit_active_state StartPre = UnitActivating"
| "to_unit_active_state Start = UnitActivating"
| "to_unit_active_state StartPost = UnitActivating"
| "to_unit_active_state AutoRestart = UnitActivating"
| "to_unit_active_state Running = UnitActive"
| "to_unit_active_state Exited = UnitActive"
| "to_unit_active_state Reload = UnitReloading"
| "to_unit_active_state Failed = UnitFailed"
| "to_unit_active_state Cleaning = UnitMaintenance"
| "to_unit_active_state _ = UnitDeActivating"

fun to_unit_active_state_idle :: "service_state \<Rightarrow> unit_active_state" where
  "to_unit_active_state_idle Condition = UnitActive"
| "to_unit_active_state_idle StartPre = UnitActive"
| "to_unit_active_state_idle Start = UnitActive"
| "to_unit_active_state_idle StartPost = UnitActive"
| "to_unit_active_state_idle Running = UnitActive"
| "to_unit_active_state_idle Exited = UnitActive"
| "to_unit_active_state_idle Dead = UnitInActive"
| "to_unit_active_state_idle Reload = UnitReloading"
| "to_unit_active_state_idle Failed = UnitFailed"
| "to_unit_active_state_idle Cleaning = UnitMaintenance"
| "to_unit_active_state_idle AutoRestart = UnitActivating"
| "to_unit_active_state_idle _ = UnitDeActivating"

fun to_kill_operation :: "service_state \<Rightarrow> kill_operation" where
  "to_kill_operation StopWatchdog = KillWatchdog"
| "to_kill_operation StopSigterm = KillTerminate"
| "to_kill_operation FinalSigterm = KillTerminate"
| "to_kill_operation StopSigkill = KillKill"
| "to_kill_operation FinalSigkill = KillKill"
| "to_kill_operation _ = KillInvalid"

definition service_state_to_unit_state :: "service_type \<Rightarrow> service_state \<Rightarrow> unit_active_state" where
  "service_state_to_unit_state ty st =
     (if ty = Idle then to_unit_active_state_idle st else to_unit_active_state st)"

end
