(* ===== verification/Service_Mng.thy ===== *)
theory Service_Mng
  imports Service_Base
begin

section \<open>Services: the manager (coms/service/src/mng.rs)\<close>

text \<open>
  \<open>ServiceMng\<close> with its processes (\<open>ServicePid\<close>) and runtime data (\<open>RunningData\<close>). What the
  operating system and the unit manager do is the argument \<open>os\<close>, over a world \<open>'w\<close> that the
  calls thread: spawning, killing, whether a process lives, the pid file, the cgroup, the
  jobs of the unit. The calls that go out are recorded in \<open>sm_calls\<close>, oldest first. \<open>sm_re\<close>
  is the reliability database \<open>svcmng\<close>. The \<open>enter_*\<close> functions call each other along one
  order, so only \<open>enter_signal\<close> and \<open>enter_stop_post\<close> are mutually recursive.
\<close>

subsection \<open>State\<close>

datatype service_call =
    Notify unit_active_state unit_active_state
  | WatchPid pid
  | UnwatchPid pid
  | WatchAllPids
  | KillContext "pid option" "pid option" kill_operation
  | TimerOn u64
  | WatchdogOn u64
  | WatchdogOff

datatype exec_flags = CONTROL | PASS_FDS_SOFT_WATCHDOG

text \<open>Reading the pid file: it may not be a file, be unreadable, not hold a number, or hold one.\<close>

datatype pid_file = NoPidFile | PidReadError | PidText string

record 'w service_os =
  os_spawn :: "uid \<Rightarrow> exec_command \<Rightarrow> exec_flags \<Rightarrow> pid option \<Rightarrow> 'w \<Rightarrow> pid option \<times> 'w"
  os_kill :: "uid \<Rightarrow> pid option \<Rightarrow> pid option \<Rightarrow> kill_operation \<Rightarrow> 'w \<Rightarrow> bool \<times> 'w"
  os_alive :: "pid \<Rightarrow> 'w \<Rightarrow> bool"
  os_cg_empty :: "uid \<Rightarrow> 'w \<Rightarrow> bool option"
  os_pid_file :: "string \<Rightarrow> 'w \<Rightarrow> pid_file"
  os_getpid :: pid
  os_same_unit :: "uid \<Rightarrow> pid \<Rightarrow> 'w \<Rightarrow> bool"
  os_guess_main :: "uid \<Rightarrow> 'w \<Rightarrow> pid option"
  os_watch_path :: "string \<Rightarrow> 'w \<Rightarrow> bool"
  os_has_stop_job :: "uid \<Rightarrow> 'w \<Rightarrow> bool"
  os_restart_unit :: "uid \<Rightarrow> 'w \<Rightarrow> bool \<times> 'w"
  os_start_limit :: "uid \<Rightarrow> 'w \<Rightarrow> bool \<times> 'w"
  os_signal_name :: "int \<Rightarrow> string"
  os_from_raw :: "pid \<Rightarrow> int \<Rightarrow> wait_status option"

record service_re_mng =
  re_state :: service_state
  re_result :: service_result
  re_main_pid :: "pid option"
  re_control_pid :: "pid option"
  re_main_cmd_len :: nat
  re_control_cmd_type :: "service_command option"
  re_control_cmd_len :: nat
  re_notify_state :: notify_state
  re_forbid_restart :: bool
  re_reset_restart :: bool
  re_restarts :: u32
  re_exit_status :: exit_status
  re_monitor :: service_monitor

record ('d, 'w) service_mng =
  sm_owner :: "uid option"
  sm_config :: section_service
  sm_pid :: service_pid
  sm_state :: service_state
  sm_result :: service_result
  sm_main_command :: "exec_command list"
  sm_control_cmd_type :: "service_command option"
  sm_control_command :: "exec_command list"
  sm_rd :: rtdata
  sm_monitor :: service_monitor
  sm_re :: "('d, uid, service_re_mng) redb"
  sm_calls :: "service_call list"
  sm_world :: 'w

definition service_mng_new ::
  "uid option \<Rightarrow> section_service \<Rightarrow> ('d, uid, service_re_mng) redb \<Rightarrow> 'w \<Rightarrow> ('d, 'w) service_mng" where
  "service_mng_new owner config re w = \<lparr>sm_owner = owner, sm_config = config, sm_pid = service_pid_new,
     sm_state = Dead, sm_result = Success, sm_main_command = [], sm_control_cmd_type = None, sm_control_command = [],
     sm_rd = rtdata_new, sm_monitor = service_monitor_new, sm_re = re, sm_calls = [], sm_world = w\<rparr>"

definition sm_call :: "service_call \<Rightarrow> ('d, 'w) service_mng \<Rightarrow> ('d, 'w) service_mng" where
  "sm_call c s = s\<lparr>sm_calls := sm_calls s @ [c]\<rparr>"

definition sm_rd_upd :: "(rtdata \<Rightarrow> rtdata) \<Rightarrow> ('d, 'w) service_mng \<Rightarrow> ('d, 'w) service_mng" where
  "sm_rd_upd f s = s\<lparr>sm_rd := f (sm_rd s)\<rparr>"

definition service_type :: "('d, 'w) service_mng \<Rightarrow> service_type" where
  "service_type s = ss_Type (sm_config s)"

definition current_active_state :: "('d, 'w) service_mng \<Rightarrow> unit_active_state" where
  "current_active_state s = service_state_to_unit_state (service_type s) (sm_state s)"

subsection \<open>The database row\<close>

definition service_db_insert :: "('d, 'w) service_mng \<Rightarrow> ('d, 'w) service_mng" where
  "service_db_insert s = (case sm_owner s of
     None \<Rightarrow> s
   | Some u \<Rightarrow> s\<lparr>sm_re := redb_insert u
       \<lparr>re_state = sm_state s, re_result = sm_result s, re_main_pid = pd_main (sm_pid s),
        re_control_pid = pd_control (sm_pid s), re_main_cmd_len = length (sm_main_command s),
        re_control_cmd_type = sm_control_cmd_type s, re_control_cmd_len = length (sm_control_command s),
        re_notify_state = rt_notify_state (sm_rd s), re_forbid_restart = rt_forbid_restart (sm_rd s),
        re_reset_restart = rt_reset_restarts (sm_rd s), re_restarts = rt_restarts (sm_rd s),
        re_exit_status = wait_to_exit (rt_exec_status (sm_rd s)), re_monitor = sm_monitor s\<rparr> (sm_re s)\<rparr>)"

definition set_result :: "service_result \<Rightarrow> ('d, 'w) service_mng \<Rightarrow> ('d, 'w) service_mng" where
  "set_result r s = s\<lparr>sm_result := r\<rparr>"

definition note_result :: "service_result \<Rightarrow> ('d, 'w) service_mng \<Rightarrow> ('d, 'w) service_mng" where
  "note_result r s = (if sm_result s = Success then set_result r s else s)"

subsection \<open>Processes\<close>

definition unwatch_main :: "('d, 'w) service_mng \<Rightarrow> ('d, 'w) service_mng" where
  "unwatch_main s = (case pd_main (sm_pid s) of
     None \<Rightarrow> s
   | Some p \<Rightarrow> (let s1 = (case sm_owner s of Some _ \<Rightarrow> sm_call (UnwatchPid p) s | None \<Rightarrow> s)
       in s1\<lparr>sm_pid := pid_reset_main (sm_pid s1)\<rparr>))"

definition unwatch_control :: "('d, 'w) service_mng \<Rightarrow> ('d, 'w) service_mng" where
  "unwatch_control s = (case pd_control (sm_pid s) of
     None \<Rightarrow> s
   | Some p \<Rightarrow> (let s1 = (case sm_owner s of Some _ \<Rightarrow> sm_call (UnwatchPid p) s | None \<Rightarrow> s)
       in s1\<lparr>sm_pid := pid_reset_control (sm_pid s1)\<rparr>))"

definition set_main :: "pid \<Rightarrow> ('d, 'w) service_mng \<Rightarrow> bool \<times> ('d, 'w) service_mng" where
  "set_main p s =
     (if pd_main (sm_pid s) = Some p then (True, s)
      else (let s1 = (if pd_main (sm_pid s) \<noteq> None then unwatch_main s else s);
                (ok, d) = pid_set_main p (sm_pid s1)
            in (ok, s1\<lparr>sm_pid := d\<rparr>)))"

definition set_control :: "pid \<Rightarrow> ('d, 'w) service_mng \<Rightarrow> ('d, 'w) service_mng" where
  "set_control p s = s\<lparr>sm_pid := pid_set_control p (sm_pid s)\<rparr>"

definition reset_main :: "('d, 'w) service_mng \<Rightarrow> ('d, 'w) service_mng" where
  "reset_main s = s\<lparr>sm_pid := pid_reset_main (sm_pid s)\<rparr>"

definition reset_control :: "('d, 'w) service_mng \<Rightarrow> ('d, 'w) service_mng" where
  "reset_control s = s\<lparr>sm_pid := pid_reset_control (sm_pid s)\<rparr>"

definition update_main :: "pid option \<Rightarrow> ('d, 'w) service_mng \<Rightarrow> ('d, 'w) service_mng" where
  "update_main p s = (case p of Some q \<Rightarrow> snd (set_main q s) | None \<Rightarrow> reset_main s)"

definition update_control :: "pid option \<Rightarrow> ('d, 'w) service_mng \<Rightarrow> ('d, 'w) service_mng" where
  "update_control p s = (case p of Some q \<Rightarrow> set_control q s | None \<Rightarrow> reset_control s)"

text \<open>\<open>ServiceSpawn::start_service\<close>: an error without an owner, else fork and exec.\<close>

definition start_service ::
  "'w service_os \<Rightarrow> exec_command \<Rightarrow> exec_flags \<Rightarrow> ('d, 'w) service_mng \<Rightarrow> pid option \<times> ('d, 'w) service_mng" where
  "start_service os cmd flags s = (case sm_owner s of
     None \<Rightarrow> (None, s)
   | Some u \<Rightarrow> (case os_spawn os u cmd flags (pd_main (sm_pid s)) (sm_world s) of
       (Some p, w) \<Rightarrow> (Some p, sm_call (WatchPid p) (s\<lparr>sm_world := w\<rparr>))
     | (None, w) \<Rightarrow> (None, s\<lparr>sm_world := w\<rparr>)))"

text \<open>Starting a control command: spawn it and remember the process.\<close>

definition spawn_control ::
  "'w service_os \<Rightarrow> exec_command \<Rightarrow> ('d, 'w) service_mng \<Rightarrow> bool \<times> ('d, 'w) service_mng" where
  "spawn_control os cmd s = (case start_service os cmd CONTROL s of
     (Some p, s1) \<Rightarrow> (True, set_control p s1)
   | (None, s1) \<Rightarrow> (False, s1))"

subsection \<open>Commands\<close>

definition main_command_fill :: "('d, 'w) service_mng \<Rightarrow> ('d, 'w) service_mng" where
  "main_command_fill s = (case get_exec_cmds (sm_config s) CmdStart of
     Some cmds \<Rightarrow> s\<lparr>sm_main_command := cmds\<rparr> | None \<Rightarrow> s)"

definition main_command_pop :: "('d, 'w) service_mng \<Rightarrow> exec_command option \<times> ('d, 'w) service_mng" where
  "main_command_pop s = (case sm_main_command s of
     [] \<Rightarrow> (None, s) | c # cs \<Rightarrow> (Some c, s\<lparr>sm_main_command := cs\<rparr>))"

definition main_command_update :: "nat \<Rightarrow> ('d, 'w) service_mng \<Rightarrow> ('d, 'w) service_mng" where
  "main_command_update len s = (let s1 = main_command_fill (s\<lparr>sm_main_command := []\<rparr>)
     in ((\<lambda>s. snd (main_command_pop s)) ^^ (length (sm_main_command s1) - len)) s1)"

definition control_command_fill :: "service_command \<Rightarrow> ('d, 'w) service_mng \<Rightarrow> ('d, 'w) service_mng" where
  "control_command_fill cmd_type s = (case get_exec_cmds (sm_config s) cmd_type of
     Some cmds \<Rightarrow> s\<lparr>sm_control_command := cmds\<rparr> | None \<Rightarrow> s)"

definition control_command_pop :: "('d, 'w) service_mng \<Rightarrow> exec_command option \<times> ('d, 'w) service_mng" where
  "control_command_pop s = (case sm_control_command s of
     [] \<Rightarrow> (None, s) | c # cs \<Rightarrow> (Some c, s\<lparr>sm_control_command := cs\<rparr>))"

definition control_command_update ::
  "service_command option \<Rightarrow> nat \<Rightarrow> ('d, 'w) service_mng \<Rightarrow> ('d, 'w) service_mng option" where
  "control_command_update cmd_type len s = (case cmd_type of
     Some ct \<Rightarrow> (let s1 = control_command_fill ct (s\<lparr>sm_control_command := []\<rparr>)
       in Some (((\<lambda>s. snd (control_command_pop s)) ^^ (length (sm_control_command s1) - len)) s1))
   | None \<Rightarrow> do { rust_assert (len = 0); Some s })"

definition service_db_map :: "'w service_os \<Rightarrow> ('d, 'w) service_mng \<Rightarrow> ('d, 'w) service_mng option" where
  "service_db_map os s = (case Option.bind (sm_owner s) (redb_get (sm_re s)) of
     None \<Rightarrow> Some s
   | Some row \<Rightarrow> do {
       let s1 = s\<lparr>sm_state := re_state row, sm_result := re_result row\<rparr>;
       let s2 = main_command_update (re_main_cmd_len row) (update_control (re_control_pid row) (update_main (re_main_pid row) s1));
       s3 \<leftarrow> control_command_update (re_control_cmd_type row) (re_control_cmd_len row) s2;
       Some (sm_rd_upd (\<lambda>d. d\<lparr>rt_notify_state := re_notify_state row, rt_forbid_restart := re_forbid_restart row,
           rt_reset_restarts := re_reset_restart row, rt_restarts := re_restarts row,
           rt_exec_status := exit_to_wait (os_from_raw os) (re_exit_status row)\<rparr>) (s3\<lparr>sm_monitor := re_monitor row\<rparr>))
     })"

subsection \<open>States\<close>

definition main_states :: "service_state list" where
  "main_states = [Start, StartPost, Running, Reload, Stop, StopWatchdog, StopSigterm, StopSigkill, StopPost,
     FinalWatchdog, FinalSigterm, FinalSigkill]"

definition control_states :: "service_state list" where
  "control_states = [Condition, StartPre, Start, StartPost, Reload, Stop, StopWatchdog, StopSigterm, StopSigkill,
     StopPost, FinalWatchdog, FinalSigterm, FinalSigkill, Cleaning]"

definition set_state :: "service_state \<Rightarrow> ('d, 'w) service_mng \<Rightarrow> ('d, 'w) service_mng" where
  "set_state state s = (
     let original_state = sm_state s;
         s1 = s\<lparr>sm_state := state\<rparr>;
         s2 = (if state \<in> set main_states then s1 else (unwatch_main s1)\<lparr>sm_main_command := []\<rparr>);
         s3 = (if state \<in> set control_states then s2 else (unwatch_control s2)\<lparr>sm_control_command := []\<rparr>)
     in (case sm_owner s of
           Some _ \<Rightarrow> sm_call (Notify (service_state_to_unit_state (service_type s) original_state)
                               (service_state_to_unit_state (service_type s) state)) s3
         | None \<Rightarrow> s3))"

definition cgroup_good :: "'w service_os \<Rightarrow> ('d, 'w) service_mng \<Rightarrow> bool" where
  "cgroup_good os s = (case Option.bind (sm_owner s) (\<lambda>u. os_cg_empty os u (sm_world s)) of
     Some v \<Rightarrow> \<not> v | None \<Rightarrow> False)"

definition service_alive :: "'w service_os \<Rightarrow> ('d, 'w) service_mng \<Rightarrow> bool" where
  "service_alive os s = (case pid_main_alive (\<lambda>p. os_alive os p (sm_world s)) (sm_pid s) of
     Some v \<Rightarrow> v | None \<Rightarrow> cgroup_good os s)"

definition shall_restart :: "'w service_os \<Rightarrow> ('d, 'w) service_mng \<Rightarrow> bool" where
  "shall_restart os s =
     (if rt_forbid_restart (sm_rd s) then False
      else if exit_status_enabled (os_signal_name os) (RestartPreventExitStatus (sm_config s)) (rt_exec_status (sm_rd s)) then False
      else (case ss_Restart (sm_config s) of
          RestartNo \<Rightarrow> False
        | OnSuccess \<Rightarrow> sm_result s = Success
        | OnFailure \<Rightarrow> sm_result s \<notin> {Success, SkipCondition}
        | OnWatchdog \<Rightarrow> sm_result s = FailureWatchdog
        | OnAbnormal \<Rightarrow> sm_result s \<notin> {Success, FailureExitCode, SkipCondition}
        | OnAbort \<Rightarrow> sm_result s \<in> {FailureSignal, FailureCoreDump}
        | Always \<Rightarrow> sm_result s \<noteq> SkipCondition))"

definition enable_timer :: "u64 \<Rightarrow> ('d, 'w) service_mng \<Rightarrow> ('d, 'w) service_mng" where
  "enable_timer usec s = sm_call (TimerOn (time_relative usec)) (sm_rd_upd (\<lambda>d. d\<lparr>rt_timer := Some usec\<rparr>) s)"

definition stop_watchdog :: "('d, 'w) service_mng \<Rightarrow> ('d, 'w) service_mng" where
  "stop_watchdog s = (if rt_watchdog (sm_rd s) \<noteq> None then sm_call WatchdogOff s else s)"

definition restart_watchdog :: "('d, 'w) service_mng \<Rightarrow> ('d, 'w) service_mng" where
  "restart_watchdog s = (
     let s1 = s\<lparr>sm_monitor := set_original_watchdog (WatchdogSec (sm_config s)) (sm_monitor s)\<rparr>;
         usec = watchdog_usec (sm_monitor s1)
     in if usec = 0 \<or> usec = - 1 then stop_watchdog s1
        else sm_call (WatchdogOn (time_relative usec)) (sm_rd_upd (\<lambda>d. d\<lparr>rt_watchdog := Some usec\<rparr>)
          (if rt_watchdog (sm_rd s1) \<noteq> None then sm_call WatchdogOff s1 else s1)))"

definition override_watchdog_usec :: "u64 \<Rightarrow> ('d, 'w) service_mng \<Rightarrow> ('d, 'w) service_mng" where
  "override_watchdog_usec usec s = restart_watchdog (s\<lparr>sm_monitor := monitor_override usec (sm_monitor s)\<rparr>)"

subsection \<open>Entering states\<close>

definition enter_dead :: "'w service_os \<Rightarrow> service_result \<Rightarrow> bool \<Rightarrow> ('d, 'w) service_mng \<Rightarrow> ('d, 'w) service_mng" where
  "enter_dead os res force_restart s = (case sm_owner s of
     None \<Rightarrow> s
   | Some u \<Rightarrow> (
       let restart = (if os_has_stop_job os u (sm_world s) then False else force_restart);
           s1 = note_result res s;
           state = (if sm_result s1 = Success then Dead else Failed);
           restart' = (if restart then shall_restart os s1 else restart);
           s2 = set_state state s1;
           s3 = (if restart' then set_state AutoRestart (enable_timer (RestartSec (sm_config s2)) s2)
                 else sm_rd_upd (\<lambda>d. d\<lparr>rt_reset_restarts := True\<rparr>) s2)
       in sm_rd_upd (\<lambda>d. d\<lparr>rt_forbid_restart := False\<rparr>) s3))"

definition stop_states :: "service_state list" where
  "stop_states = [StopWatchdog, StopSigterm, StopSigkill]"

text \<open>Sending the signal of a state to the processes of the unit.\<close>

definition send_signal :: "'w service_os \<Rightarrow> service_state \<Rightarrow> ('d, 'w) service_mng \<Rightarrow> bool \<times> ('d, 'w) service_mng" where
  "send_signal os state s = (case sm_owner s of
     None \<Rightarrow> (True, s)
   | Some u \<Rightarrow> (
       let op = to_kill_operation state;
           s1 = sm_call (KillContext (pd_main (sm_pid s)) (pd_control (sm_pid s)) op) (sm_call WatchAllPids s);
           (ok, w) = os_kill os u (pd_main (sm_pid s)) (pd_control (sm_pid s)) op (sm_world s)
       in (ok, s1\<lparr>sm_world := w\<rparr>)))"

function (sequential) enter_signal ::
    "'w service_os \<Rightarrow> service_state \<Rightarrow> service_result \<Rightarrow> ('d, 'w) service_mng \<Rightarrow> ('d, 'w) service_mng"
  and enter_stop_post ::
    "'w service_os \<Rightarrow> service_result \<Rightarrow> ('d, 'w) service_mng \<Rightarrow> ('d, 'w) service_mng" where
  "enter_signal os state res s = (case send_signal os state s of (ok, s1) \<Rightarrow>
     if \<not> ok
     then (if state \<in> set stop_states then enter_stop_post os FailureResources s1
           else enter_dead os FailureResources True s1)
     else if state \<in> set stop_states then enter_stop_post os Success s1
     else if state \<in> {FinalWatchdog, FinalSigterm} then enter_signal os FinalSigkill Success s1
     else enter_dead os Success True s1)"
| "enter_stop_post os res s = (
     let s1 = control_command_fill CmdStopPost (note_result res s)
     in (case control_command_pop s1 of
           (Some cmd, s2) \<Rightarrow> (case spawn_control os cmd s2 of
               (True, s3) \<Rightarrow> set_state StopPost s3
             | (False, s3) \<Rightarrow> enter_signal os FinalSigterm FailureResources s3)
         | (None, s2) \<Rightarrow> enter_signal os FinalSigterm Success s2))"
  by pat_completeness auto

text \<open>The order in which the signals are tried.\<close>

definition signal_rank :: "service_state \<Rightarrow> nat" where
  "signal_rank state = (if state \<in> set stop_states then 3 else if state \<in> {FinalWatchdog, FinalSigterm} then 1 else 0)"

termination enter_signal
  by (relation "measure (\<lambda>x. case x of Inl (_, state, _, _) \<Rightarrow> signal_rank state | Inr _ \<Rightarrow> 2)")
     (auto simp: signal_rank_def stop_states_def)

declare enter_signal.simps [simp del] enter_stop_post.simps [simp del]

definition enter_stop :: "'w service_os \<Rightarrow> service_result \<Rightarrow> ('d, 'w) service_mng \<Rightarrow> ('d, 'w) service_mng" where
  "enter_stop os res s = (
     let s1 = control_command_fill CmdStop (note_result res s)
     in (case control_command_pop s1 of
           (Some cmd, s2) \<Rightarrow> (case spawn_control os cmd s2 of
               (True, s3) \<Rightarrow> set_state Stop s3
             | (False, s3) \<Rightarrow> enter_signal os StopSigterm FailureResources s3)
         | (None, s2) \<Rightarrow> enter_signal os StopSigterm Success s2))"

definition enter_stop_by_notify :: "('d, 'w) service_mng \<Rightarrow> ('d, 'w) service_mng" where
  "enter_stop_by_notify s = set_state StopSigterm s"

definition enter_running :: "'w service_os \<Rightarrow> service_result \<Rightarrow> ('d, 'w) service_mng \<Rightarrow> ('d, 'w) service_mng" where
  "enter_running os sr s = (
     let s1 = note_result sr (unwatch_control s)
     in if sm_result s1 \<noteq> Success then enter_signal os StopSigterm sr s1
        else if service_alive os s1
        then (if rt_notify_state (sm_rd s1) = NotifyStopping then enter_stop_by_notify s1 else set_state Running s1)
        else if RemainAfterExit (sm_config s1) then set_state Exited s1
        else enter_stop os sr s1)"

definition enter_start_post :: "'w service_os \<Rightarrow> ('d, 'w) service_mng \<Rightarrow> ('d, 'w) service_mng" where
  "enter_start_post os s = (
     let s1 = control_command_fill CmdStartPost (restart_watchdog (unwatch_control s))
     in (case control_command_pop s1 of
           (Some cmd, s2) \<Rightarrow> (case spawn_control os cmd s2 of
               (True, s3) \<Rightarrow> set_state StartPost s3
             | (False, s3) \<Rightarrow> s3)
         | (None, s2) \<Rightarrow> enter_running os Success s2))"

text \<open>\<open>todo!()\<close> for the types \<open>Idle\<close> and \<open>Exec\<close> is \<open>None\<close>.\<close>

definition enter_start :: "'w service_os \<Rightarrow> ('d, 'w) service_mng \<Rightarrow> ('d, 'w) service_mng option" where
  "enter_start os s = (
     let s1 = main_command_fill (unwatch_main (unwatch_control (s\<lparr>sm_control_command := []\<rparr>)));
         (cmd, s2) = (if service_type s1 = Forking then control_command_pop (control_command_fill CmdStart s1)
                      else main_command_pop (main_command_fill s1))
     in (case cmd of
           None \<Rightarrow> Some (if service_type s2 \<noteq> Oneshot then enter_signal os StopSigterm FailureResources s2
                          else enter_start_post os (set_state Start s2))
         | Some c \<Rightarrow> (case start_service os c PASS_FDS_SOFT_WATCHDOG s2 of
               (None, s3) \<Rightarrow> Some (enter_signal os StopSigterm FailureResources s3)
             | (Some p, s3) \<Rightarrow> (case service_type s3 of
                   Simple \<Rightarrow> Some (enter_start_post os (snd (set_main p s3)))
                 | Forking \<Rightarrow> Some (set_state Start (set_control p s3))
                 | Oneshot \<Rightarrow> Some (set_state Start (snd (set_main p s3)))
                 | NotifyType \<Rightarrow> Some (set_state Start (snd (set_main p s3)))
                 | Idle \<Rightarrow> None
                 | Exec \<Rightarrow> None
                 | _ \<Rightarrow> Some s3))))"

definition enter_prestart :: "'w service_os \<Rightarrow> ('d, 'w) service_mng \<Rightarrow> ('d, 'w) service_mng option" where
  "enter_prestart os s = (
     let s1 = control_command_fill CmdStartPre (unwatch_control s)
     in (case control_command_pop s1 of
           (Some cmd, s2) \<Rightarrow> (case spawn_control os cmd s2 of
               (True, s3) \<Rightarrow> Some (set_state StartPre s3)
             | (False, s3) \<Rightarrow> Some (enter_dead os FailureResources True s3))
         | (None, s2) \<Rightarrow> enter_start os s2))"

definition enter_contion :: "'w service_os \<Rightarrow> ('d, 'w) service_mng \<Rightarrow> ('d, 'w) service_mng option" where
  "enter_contion os s = (
     let s1 = control_command_fill CmdCondition s
     in (case control_command_pop s1 of
           (Some cmd, s2) \<Rightarrow> (case spawn_control os cmd s2 of
               (True, s3) \<Rightarrow> Some (set_state Condition s3)
             | (False, s3) \<Rightarrow> Some (enter_dead os FailureResources True s3))
         | (None, s2) \<Rightarrow> enter_prestart os s2))"

definition enter_reload :: "'w service_os \<Rightarrow> ('d, 'w) service_mng \<Rightarrow> ('d, 'w) service_mng" where
  "enter_reload os s = (
     let s1 = control_command_fill CmdReload (unwatch_control (s\<lparr>sm_control_command := []\<rparr>))
     in (case control_command_pop s1 of
           (Some cmd, s2) \<Rightarrow> (case spawn_control os cmd s2 of
               (True, s3) \<Rightarrow> set_state Reload s3
             | (False, s3) \<Rightarrow> enter_running os Success s3)
         | (None, s2) \<Rightarrow> enter_running os Success s2))"

text \<open>\<open>restarts\<close> wraps: the release profile has no overflow checks.\<close>

definition enter_restart :: "'w service_os \<Rightarrow> ('d, 'w) service_mng \<Rightarrow> ('d, 'w) service_mng option" where
  "enter_restart os s = do {
     u \<leftarrow> sm_owner s;
     Some (if os_has_stop_job os u (sm_world s) then s
           else (case os_restart_unit os u (sm_world s) of (ok, w) \<Rightarrow>
             if \<not> ok then enter_dead os FailureResources False (s\<lparr>sm_world := w\<rparr>)
             else sm_rd_upd (\<lambda>d. d\<lparr>rt_restarts := rt_restarts d + 1, rt_reset_restarts := False\<rparr>) (s\<lparr>sm_world := w\<rparr>)))
   }"

subsection \<open>Requests\<close>

definition start_check ::
  "'w service_os \<Rightarrow> ('d, 'w) service_mng \<Rightarrow> (error + bool) \<times> ('d, 'w) service_mng" where
  "start_check os s =
     (if sm_state s \<in> {Stop, StopWatchdog, StopSigterm, StopSigkill, StopPost, FinalWatchdog, FinalSigterm, FinalSigkill, Cleaning}
      then (Inl UnitActionEAgain, s)
      else if sm_state s \<in> {Condition, StartPre, Start, StartPost} then (Inr True, s)
      else (let (ok, s1) = (case sm_owner s of
                None \<Rightarrow> (False, s)
              | Some u \<Rightarrow> (case os_start_limit os u (sm_world s) of (b, w) \<Rightarrow> (b, s\<lparr>sm_world := w\<rparr>)))
            in if \<not> ok then (Inl UnitActionECanceled, enter_dead os FailureStartLimitHit False s1) else (Inr False, s1)))"

definition start_action :: "'w service_os \<Rightarrow> ('d, 'w) service_mng \<Rightarrow> ('d, 'w) service_mng option" where
  "start_action os s = (
     let s1 = (if rt_reset_restarts (sm_rd s) then sm_rd_upd (\<lambda>d. d\<lparr>rt_restarts := 0, rt_reset_restarts := False\<rparr>) s else s)
     in map_option service_db_insert (enter_contion os (set_result Success s1)))"

definition stop_action :: "'w service_os \<Rightarrow> ('d, 'w) service_mng \<Rightarrow> ('d, 'w) service_mng" where
  "stop_action os s = (
     let s1 = sm_rd_upd (\<lambda>d. d\<lparr>rt_forbid_restart := True\<rparr>) s
     in service_db_insert
          (if sm_state s1 \<in> {Condition, StartPre, Start, StartPost, Reload, StopWatchdog}
           then enter_signal os StopSigterm Success s1 else enter_stop os Success s1))"

definition reload_action :: "'w service_os \<Rightarrow> ('d, 'w) service_mng \<Rightarrow> ('d, 'w) service_mng" where
  "reload_action os s = service_db_insert (enter_reload os s)"

text \<open>\<open>SubUnit::start\<close>, \<open>stop\<close> and \<open>can_reload\<close> of \<open>unit.rs\<close>; \<open>stop_check\<close> always succeeds.\<close>

definition service_start ::
  "'w service_os \<Rightarrow> ('d, 'w) service_mng \<Rightarrow> ((error + unit) \<times> ('d, 'w) service_mng) option" where
  "service_start os s = (case start_check os s of
     (Inl err, s1) \<Rightarrow> Some (Inl err, s1)
   | (Inr started, s1) \<Rightarrow> if started then Some (Inr (), s1) else map_option (Pair (Inr ())) (start_action os s1))"

definition service_stop :: "'w service_os \<Rightarrow> bool \<Rightarrow> ('d, 'w) service_mng \<Rightarrow> (error + unit) \<times> ('d, 'w) service_mng" where
  "service_stop os force s = (Inr (), stop_action os s)"

definition service_can_reload :: "('d, 'w) service_mng \<Rightarrow> bool" where
  "service_can_reload s \<longleftrightarrow> \<not> no_cmds (sm_config s) CmdReload"

end
