(* ===== verification/Service_Events.thy ===== *)
theory Service_Events
  imports Service_Mng
begin

section \<open>Services: events (coms/service/src/mng.rs)\<close>

text \<open>
  What happens to a service from outside: a child process ends, the service sends a
  notification, its pid file appears, a timer or the watchdog expires.
\<close>

subsection \<open>The pid file\<close>

definition str_trim :: "string \<Rightarrow> string" where
  "str_trim s = rev (dropWhile is_whitespace (rev (dropWhile is_whitespace s)))"

definition valid_main_pid :: "'w service_os \<Rightarrow> pid \<Rightarrow> ('d, 'w) service_mng \<Rightarrow> error + bool" where
  "valid_main_pid os p s =
     (if p = os_getpid os then Inl (OtherError ''main pid is the sysmaster's pid'')
      else if pd_control (sm_pid s) = Some p then Inl (OtherError ''main pid is the control process'')
      else if \<not> os_alive os p (sm_world s) then Inl (OtherError ''main pid is not alive'')
      else Inr (case sm_owner s of Some u \<Rightarrow> os_same_unit os u p (sm_world s) | None \<Rightarrow> os_same_unit os ''None'' p (sm_world s)))"

definition load_pid_file :: "'w service_os \<Rightarrow> ('d, 'w) service_mng \<Rightarrow> (error + bool) \<times> ('d, 'w) service_mng" where
  "load_pid_file os s = (case PIDFile (sm_config s) of
     None \<Rightarrow> (Inl (OtherError ''pid file is not configured''), s)
   | Some file \<Rightarrow> (case os_pid_file os file (sm_world s) of
       NoPidFile \<Rightarrow> (Inl (OtherError ''pid file is not a file or not exist''), s)
     | PidReadError \<Rightarrow> (Inl Parse, s)
     | PidText line \<Rightarrow> (case parse_i32 (str_trim line) of
         None \<Rightarrow> (Inl (OtherError ''parsed the pid from pid file failed''), s)
       | Some p \<Rightarrow>
           if pd_main (sm_pid s) = Some p then (Inr False, s)
           else (case valid_main_pid os p s of
               Inl err \<Rightarrow> (Inl err, s)
             | Inr _ \<Rightarrow> (case set_main p (unwatch_main s) of
                   (False, s1) \<Rightarrow> (Inl (OtherError ''invalid main pid''), s1)
                 | (True, s1) \<Rightarrow> (Inr True, sm_call (WatchPid p) s1))))))"

definition unwatch_pid_file :: "('d, 'w) service_mng \<Rightarrow> ('d, 'w) service_mng option" where
  "unwatch_pid_file s = do {
     (path, _) \<leftarrow> rt_path_inotify (sm_rd s);
     Some (sm_rd_upd (\<lambda>d. d\<lparr>rt_path_inotify := Some (path, False)\<rparr>) s)
   }"

definition retry_pid_file ::
  "'w service_os \<Rightarrow> ('d, 'w) service_mng \<Rightarrow> ((error + bool) \<times> ('d, 'w) service_mng) option" where
  "retry_pid_file os s = (case load_pid_file os s of
     (Inl err, s1) \<Rightarrow> Some (Inl err, s1)
   | (Inr _, s1) \<Rightarrow> do {
       s2 \<leftarrow> unwatch_pid_file s1;
       Some (Inr True, enter_running os Success s2)
     })"

definition watch_pid_file ::
  "'w service_os \<Rightarrow> ('d, 'w) service_mng \<Rightarrow> ((error + unit) \<times> ('d, 'w) service_mng) option" where
  "watch_pid_file os s = do {
     (path, _) \<leftarrow> rt_path_inotify (sm_rd s);
     if os_watch_path os path (sm_world s)
     then do {
       (_, s1) \<leftarrow> retry_pid_file os (sm_rd_upd (\<lambda>d. d\<lparr>rt_path_inotify := Some (path, True)\<rparr>) s);
       Some (Inr (), s1)
     }
     else do {
       s1 \<leftarrow> unwatch_pid_file s;
       Some (Inl (OtherError ''watch on any of the ancestor failed''), s1)
     }
   }"

definition demand_pid_file ::
  "'w service_os \<Rightarrow> ('d, 'w) service_mng \<Rightarrow> ((error + unit) \<times> ('d, 'w) service_mng) option" where
  "demand_pid_file os s = do {
     file \<leftarrow> PIDFile (sm_config s);
     watch_pid_file os (sm_rd_upd (\<lambda>d. d\<lparr>rt_path_inotify := Some (file, False)\<rparr>) s)
   }"

definition guess_main_pid :: "'w service_os \<Rightarrow> ('d, 'w) service_mng \<Rightarrow> ('d, 'w) service_mng" where
  "guess_main_pid os s =
     (if pd_main (sm_pid s) \<noteq> None then s
      else (case Option.bind (sm_owner s) (\<lambda>u. os_guess_main os u (sm_world s)) of
          None \<Rightarrow> s
        | Some p \<Rightarrow> (case set_main p s of (ok, s1) \<Rightarrow> if ok then sm_call (WatchPid p) s1 else s1)))"

text \<open>The dispatch of the watched path; whether reading its descriptor worked is an argument.\<close>

definition path_dispatch :: "'w service_os \<Rightarrow> bool \<Rightarrow> ('d, 'w) service_mng \<Rightarrow> (int \<times> ('d, 'w) service_mng) option" where
  "path_dispatch os read_ok s = do {
     (r, s1) \<leftarrow> (if \<not> read_ok then Some (- 1, s)
       else do {
         (r1, s1) \<leftarrow> retry_pid_file os s;
         (case r1 of
            Inr _ \<Rightarrow> Some (0, s1)
          | Inl _ \<Rightarrow> do {
              (r2, s2) \<leftarrow> watch_pid_file os s1;
              (case r2 of
                 Inr _ \<Rightarrow> Some (0, s2)
               | Inl _ \<Rightarrow> do {
                   s3 \<leftarrow> unwatch_pid_file s2;
                   Some (0, enter_signal os StopSigterm FailureResources s3)
                 })
            })
       });
     Some (r, service_db_insert s1)
   }"

subsection \<open>A child ends\<close>

fun sigchld_result :: "wait_status \<Rightarrow> service_result option" where
  "sigchld_result (WExited _ status) = Some (if status = 0 then Success else FailureExitCode)"
| "sigchld_result (WSignaled _ _ core_dump) = Some (if core_dump then FailureCoreDump else FailureSignal)"
| "sigchld_result _ = None"

definition run_next_control :: "'w service_os \<Rightarrow> ('d, 'w) service_mng \<Rightarrow> ('d, 'w) service_mng" where
  "run_next_control os s = (case control_command_pop s of
     (None, s1) \<Rightarrow> s1
   | (Some cmd, s1) \<Rightarrow> snd (spawn_control os cmd s1))"

definition run_next_main :: "'w service_os \<Rightarrow> ('d, 'w) service_mng \<Rightarrow> ('d, 'w) service_mng" where
  "run_next_main os s = (case main_command_pop s of
     (None, s1) \<Rightarrow> s1
   | (Some cmd, s1) \<Rightarrow> (case start_service os cmd PASS_FDS_SOFT_WATCHDOG s1 of
       (Some p, s2) \<Rightarrow> snd (set_main p s2)
     | (None, s2) \<Rightarrow> s2))"

text \<open>The main process is gone and no process of the unit is left.\<close>

definition main_gone :: "'w service_os \<Rightarrow> service_result \<Rightarrow> ('d, 'w) service_mng \<Rightarrow> ('d, 'w) service_mng option" where
  "main_gone os res s = (case sm_state s of
     Dead \<Rightarrow> None
   | Start \<Rightarrow> Some (
       if service_type s = Oneshot
       then (if res = Success then enter_start_post os s else enter_signal os StopSigterm res s)
       else if service_type s = NotifyType
       then (if res \<noteq> Success then enter_signal os StopSigterm res s else enter_signal os StopSigterm FailureProtocol s)
       else enter_running os res s)
   | StartPost \<Rightarrow> Some (if pd_control (sm_pid s) \<noteq> None then enter_stop os res s else s)
   | Reload \<Rightarrow> Some (if pd_control (sm_pid s) \<noteq> None then enter_stop os res s else s)
   | Running \<Rightarrow> Some (enter_running os res s)
   | Stop \<Rightarrow> Some s
   | StopWatchdog \<Rightarrow> Some (enter_stop_post os res s)
   | StopSigkill \<Rightarrow> Some (enter_stop_post os res s)
   | StopSigterm \<Rightarrow> Some (enter_stop_post os res s)
   | FinalSigterm \<Rightarrow> Some (enter_dead os res True s)
   | FinalSigkill \<Rightarrow> Some (enter_dead os res True s)
   | _ \<Rightarrow> Some s)"

definition sigchld_main ::
  "'w service_os \<Rightarrow> wait_status \<Rightarrow> service_result \<Rightarrow> ('d, 'w) service_mng \<Rightarrow> ('d, 'w) service_mng option" where
  "sigchld_main os wait res s = (case load_pid_file os s of (loaded, s0) \<Rightarrow>
     if loaded = Inr True then Some s0
     else (
       let s2 = note_result res (sm_rd_upd (\<lambda>d. d\<lparr>rt_exec_status := wait\<rparr>) (reset_main s0))
       in if sm_main_command s2 \<noteq> [] \<and> res = Success \<and> service_type s2 = Oneshot then Some (run_next_main os s2)
          else (let s3 = s2\<lparr>sm_main_command := []\<rparr>
                in if cgroup_good os s3 then Some s3 else main_gone os res s3)))"

text \<open>The control process of a forking service ended while it starts: look for the main process.\<close>

definition forking_started :: "'w service_os \<Rightarrow> ('d, 'w) service_mng \<Rightarrow> ('d, 'w) service_mng option" where
  "forking_started os s =
     (if PIDFile (sm_config s) \<noteq> None
      then (case load_pid_file os s of (loaded, s1) \<Rightarrow>
        if isl loaded \<and> no_cmds (sm_config s) CmdStartPost
        then do {
          (d, s2) \<leftarrow> demand_pid_file os s1;
          Some (case d of
              Inr _ \<Rightarrow> if \<not> cgroup_good os s2 then enter_signal os StopSigterm FailureProtocol s2 else s2
            | Inl _ \<Rightarrow> enter_signal os StopSigterm FailureProtocol s2)
        }
        else Some (enter_start_post os (enter_start_post os s1)))
      else Some (enter_start_post os (guess_main_pid os s)))"

text \<open>The control process of the start-post command ended. A failure does not end the handler.\<close>

definition start_post_done :: "'w service_os \<Rightarrow> service_result \<Rightarrow> ('d, 'w) service_mng \<Rightarrow> ('d, 'w) service_mng option" where
  "start_post_done os res s = (
     let s1 = (if res \<noteq> Success then enter_signal os StopSigterm res s else s)
     in if PIDFile (sm_config s1) \<noteq> None
        then (case load_pid_file os s1 of
            (Inl _, s2) \<Rightarrow> do {
              (d, s3) \<leftarrow> demand_pid_file os s2;
              Some (case d of
                  Inr _ \<Rightarrow> if \<not> cgroup_good os s3 then enter_stop os FailureProtocol s3 else s3
                | Inl _ \<Rightarrow> enter_signal os StopSigterm FailureProtocol s3)
            }
          | (Inr _, s2) \<Rightarrow> Some (enter_running os Success s2))
        else Some (enter_running os Success (guess_main_pid os s1)))"

definition control_gone :: "'w service_os \<Rightarrow> service_result \<Rightarrow> ('d, 'w) service_mng \<Rightarrow> ('d, 'w) service_mng option" where
  "control_gone os res s = (case sm_state s of
     Condition \<Rightarrow> if res = Success then enter_prestart os s else Some (enter_signal os StopSigterm res s)
   | StartPre \<Rightarrow> if res = Success then enter_start os s else Some (enter_signal os StopSigterm res s)
   | Start \<Rightarrow>
       if service_type s \<noteq> Forking then Some s
       else if res \<noteq> Success then Some (enter_signal os StopSigterm res s)
       else forking_started os s
   | StartPost \<Rightarrow> start_post_done os res s
   | Running \<Rightarrow> None
   | Reload \<Rightarrow> Some (enter_running os res s)
   | Stop \<Rightarrow> Some (enter_signal os StopSigterm res s)
   | StopSigterm \<Rightarrow> Some (enter_stop_post os res s)
   | StopSigkill \<Rightarrow> Some (enter_stop_post os res s)
   | StopWatchdog \<Rightarrow> Some (enter_stop_post os res s)
   | StopPost \<Rightarrow> Some (enter_signal os FinalSigterm res s)
   | FinalSigterm \<Rightarrow> Some (enter_dead os res True s)
   | FinalSigkill \<Rightarrow> Some (enter_dead os res True s)
   | _ \<Rightarrow> Some s)"

definition sigchld_control ::
  "'w service_os \<Rightarrow> service_result \<Rightarrow> ('d, 'w) service_mng \<Rightarrow> ('d, 'w) service_mng option" where
  "sigchld_control os res s = (
     let s1 = reset_control s
     in if sm_control_command s1 \<noteq> [] \<and> res = Success then Some (run_next_control os s1)
        else control_gone os res (s1\<lparr>sm_control_command := []\<rparr>))"

definition do_sigchld_event :: "'w service_os \<Rightarrow> wait_status \<Rightarrow> ('d, 'w) service_mng \<Rightarrow> ('d, 'w) service_mng option" where
  "do_sigchld_event os wait s = do {
     p \<leftarrow> wait_status_pid wait;
     res \<leftarrow> sigchld_result wait;
     if pd_main (sm_pid s) = Some p then sigchld_main os wait res s
     else if pd_control (sm_pid s) = Some p then sigchld_control os res s
     else Some s
   }"

definition sigchld_event :: "'w service_os \<Rightarrow> wait_status \<Rightarrow> ('d, 'w) service_mng \<Rightarrow> ('d, 'w) service_mng option" where
  "sigchld_event os wait s = map_option service_db_insert (do_sigchld_event os wait s)"

subsection \<open>A notification from the service\<close>

definition force_watchdog :: "'w service_os \<Rightarrow> ('d, 'w) service_mng \<Rightarrow> ('d, 'w) service_mng" where
  "force_watchdog os s = enter_signal os StopWatchdog FailureWatchdog s"

text \<open>\<open>MAINPID=\<close>; \<open>ucred\<close> is the process id in the credentials of the sender.\<close>

definition notify_main_pid ::
  "'w service_os \<Rightarrow> pid \<Rightarrow> string \<Rightarrow> ('d, 'w) service_mng \<Rightarrow> (error + unit) \<times> ('d, 'w) service_mng" where
  "notify_main_pid os ucred pidr s =
     (if sm_state s \<in> {Start, StartPost, Running}
      then (case parse_i32 pidr of
          None \<Rightarrow> (Inl Parse, s)
        | Some p \<Rightarrow>
            if Some p \<noteq> pd_main (sm_pid s)
            then (case valid_main_pid os p s of
                Inl err \<Rightarrow> (Inl err, s)
              | Inr valid \<Rightarrow> (Inr (), if ucred = 0 \<or> valid then sm_call (WatchPid p) (snd (set_main p s)) else s))
            else (Inr (), s))
      else (Inr (), s))"

definition notify_one :: "'w service_os \<Rightarrow> string \<times> string \<Rightarrow> ('d, 'w) service_mng \<Rightarrow> ('d, 'w) service_mng option" where
  "notify_one os kv s = (case kv of (key, value) \<Rightarrow>
     if key = ''READY'' \<and> value = ''1''
     then (let s1 = sm_rd_upd (\<lambda>d. d\<lparr>rt_notify_state := NotifyReady\<rparr>) s
           in Some (if service_type s1 = NotifyType \<and> sm_state s1 = Start then enter_start_post os s1 else s1))
     else if key = ''STOPPING'' \<and> value = ''1''
     then (let s1 = sm_rd_upd (\<lambda>d. d\<lparr>rt_notify_state := NotifyStopping\<rparr>) s
           in Some (if sm_state s1 = Running then enter_stop_by_notify s1 else s1))
     else if key = ''ERRNO''
     then Some (case parse_i32 value of Some n \<Rightarrow> sm_rd_upd (\<lambda>d. d\<lparr>rt_errno := n\<rparr>) s | None \<Rightarrow> s)
     else if key = ''WATCHDOG''
     then (if value = ''1'' then Some (restart_watchdog s)
           else if value = ''trigger'' then Some (force_watchdog os s)
           else do { _ \<leftarrow> sm_owner s; Some s })
     else if key = ''WATCHDOG_USEC''
     then Some (case parse_u64 value of Some v \<Rightarrow> override_watchdog_usec v s | None \<Rightarrow> s)
     else Some s)"

definition do_notify_message ::
  "'w service_os \<Rightarrow> pid \<Rightarrow> (string \<times> string) list \<Rightarrow> ('d, 'w) service_mng \<Rightarrow> ((error + unit) \<times> ('d, 'w) service_mng) option" where
  "do_notify_message os ucred messages s = (
     case (case map_of messages ''MAINPID'' of Some pidr \<Rightarrow> notify_main_pid os ucred pidr s | None \<Rightarrow> (Inr (), s)) of
       (Inl err, s1) \<Rightarrow> Some (Inl err, s1)
     | (Inr _, s1) \<Rightarrow> map_option (Pair (Inr ())) (for_each (notify_one os) messages s1))"

definition notify_message ::
  "'w service_os \<Rightarrow> pid \<Rightarrow> (string \<times> string) list \<Rightarrow> ('d, 'w) service_mng \<Rightarrow> ((error + unit) \<times> ('d, 'w) service_mng) option" where
  "notify_message os ucred messages s =
     map_option (\<lambda>(r, s1). (r, service_db_insert s1)) (do_notify_message os ucred messages s)"

subsection \<open>Timers\<close>

definition timer_dispatch :: "'w service_os \<Rightarrow> ('d, 'w) service_mng \<Rightarrow> ('d, 'w) service_mng option" where
  "timer_dispatch os s = (case sm_state s of
     Running \<Rightarrow> Some (enter_stop os FailureTimeout s)
   | AutoRestart \<Rightarrow> enter_restart os s
   | _ \<Rightarrow> None)"

definition watchdog_dispatch :: "'w service_os \<Rightarrow> ('d, 'w) service_mng \<Rightarrow> ('d, 'w) service_mng" where
  "watchdog_dispatch os s = enter_signal os StopWatchdog FailureWatchdog s"

end
