(* ===== verification/Unit_Condition.thy ===== *)
theory Unit_Condition
  imports Service_Events
begin

section \<open>Start conditions of a unit (libs/basic condition.rs, core/bin/unit/entry/condition.rs)\<close>

text \<open>
  \<open>Condition\<close> of the basic library with the parsers it calls (\<open>user_group_util.rs\<close>,
  \<open>proc_cmdline.rs\<close>, \<open>conf_parser.rs\<close>) and \<open>UeCondition\<close>, the conditions and assertions of a
  unit. What a condition reads of the system (files, the user database, the kernel command
  line, its own user ids) is the record \<open>cond_sys\<close>; \<open>None\<close> is a panic.
\<close>

unbundle bit_operations_syntax

type_synonym i8 = "8 word"

subsection \<open>The system a condition looks at\<close>

record cond_sys =
  cs_exists :: "string \<Rightarrow> bool"
  cs_metadata :: "string \<Rightarrow> (bool \<times> u64) option"
  cs_getuid :: u32
  cs_geteuid :: u32
  cs_from_uid :: "u32 \<Rightarrow> u32 option option"
  cs_from_name :: "string \<Rightarrow> u32 option option"
  cs_cmdline :: "string option"

text \<open>
  \<open>cs_from_uid\<close> and \<open>cs_from_name\<close> are \<open>User::from_uid\<close> and \<open>User::from_name\<close>: \<open>None\<close> is an error of
  the system call, \<open>Some None\<close> an unknown user, and of a user only its id is looked at.
  \<open>cs_metadata\<close> says whether the path is a regular file and how long it is.
\<close>

datatype basic_error = BasicInvalid | BasicParse | BasicNix | BasicIo

subsection \<open>Parsers\<close>

definition parse_boolean :: "string \<Rightarrow> basic_error + bool" where
  "parse_boolean item =
     (let s = map char_lower item in
      if s \<in> {''1'', ''yes'', ''y'', ''true'', ''t'', ''on''} then Inr True
      else if s \<in> {''0'', ''no'', ''n'', ''false'', ''f'', ''off''} then Inr False
      else Inl BasicParse)"

definition is_ascii_digit :: "char \<Rightarrow> bool" where
  "is_ascii_digit c \<longleftrightarrow> CHR ''0'' \<le> c \<and> c \<le> CHR ''9''"

fun uid_chars_ok :: "bool \<Rightarrow> string \<Rightarrow> bool" where
  "uid_chars_ok first [] = True"
| "uid_chars_ok first (c # cs) =
     (if \<not> first \<and> is_ascii_digit c then uid_chars_ok first cs
      else if first \<and> CHR ''1'' \<le> c \<and> c \<le> CHR ''9'' then uid_chars_ok False cs
      else False)"

definition parse_uid :: "cond_sys \<Rightarrow> string \<Rightarrow> (basic_error + u32) option" where
  "parse_uid sys uid_str =
     (if uid_str = [] then Some (Inl BasicInvalid)
      else if uid_str = ''0'' then map_option Inr (Option.bind (cs_from_uid sys 0) id)
      else if \<not> uid_chars_ok True uid_str then Some (Inl BasicInvalid)
      else Some (case parse_int 0 4294967295 uid_str of
          None \<Rightarrow> Inl BasicParse
        | Some v \<Rightarrow> (case cs_from_uid sys (word_of_int v) of
              None \<Rightarrow> Inl BasicNix
            | Some None \<Rightarrow> Inl BasicInvalid
            | Some (Some u) \<Rightarrow> Inr u)))"

definition parse_name :: "cond_sys \<Rightarrow> string \<Rightarrow> basic_error + u32" where
  "parse_name sys name_str =
     (if name_str = [] then Inl BasicInvalid
      else (case cs_from_name sys name_str of
          None \<Rightarrow> Inl BasicNix
        | Some None \<Rightarrow> Inl BasicInvalid
        | Some (Some u) \<Rightarrow> Inr u))"

definition uid_is_system :: "u32 \<Rightarrow> bool" where
  "uid_is_system uid \<longleftrightarrow> uid \<le> 999"

fun find_cmdline :: "string \<Rightarrow> string list \<Rightarrow> string option" where
  "find_cmdline key [] = None"
| "find_cmdline key (cmd # cmds) =
     (case map str_trim (split_char CHR ''='' cmd) of
        [k, v] \<Rightarrow> if k = key then Some v else find_cmdline key cmds
      | _ \<Rightarrow> find_cmdline key cmds)"

definition cmdline_get_value :: "cond_sys \<Rightarrow> string \<Rightarrow> basic_error + string option" where
  "cmdline_get_value sys key =
     (case cs_cmdline sys of
        None \<Rightarrow> Inl BasicIo
      | Some buf \<Rightarrow> Inr (find_cmdline key (split_whitespace buf)))"

definition proc_cmdline_get_bool :: "cond_sys \<Rightarrow> string \<Rightarrow> basic_error + bool" where
  "proc_cmdline_get_bool sys key =
     (case cmdline_get_value sys key of
        Inl e \<Rightarrow> Inl e
      | Inr None \<Rightarrow> Inr False
      | Inr (Some v) \<Rightarrow> parse_boolean v)"

subsection \<open>One condition\<close>

datatype condition_type = PathExists | FileNotEmpty | NeedsUpdate | User | FirstBoot

record condition =
  c_type :: condition_type
  c_trigger :: i8
  c_revert :: i8
  c_params :: string

definition condition_new :: "condition_type \<Rightarrow> i8 \<Rightarrow> i8 \<Rightarrow> string \<Rightarrow> condition" where
  "condition_new ty trigger revert params =
     \<lparr>c_type = ty, c_trigger = trigger, c_revert = revert, c_params = params\<rparr>"

definition bool_as_i8 :: "bool \<Rightarrow> i8" where
  "bool_as_i8 b = (if b then 1 else 0)"

definition test_path_exists :: "cond_sys \<Rightarrow> condition \<Rightarrow> i8" where
  "test_path_exists sys c = bool_as_i8 (cs_exists sys (c_params c))"

definition test_file_not_empty :: "cond_sys \<Rightarrow> condition \<Rightarrow> i8" where
  "test_file_not_empty sys c = bool_as_i8 (case cs_metadata sys (c_params c) of
     Some (is_file, len) \<Rightarrow> if is_file then 0 < len else False
   | None \<Rightarrow> False)"

definition test_needs_update :: "condition \<Rightarrow> i8" where
  "test_needs_update c = 0"

definition test_user :: "cond_sys \<Rightarrow> condition \<Rightarrow> i8 option" where
  "test_user sys c = do {
     r \<leftarrow> parse_uid sys (c_params c);
     Some (bool_as_i8 (case r of
         Inr user \<Rightarrow> user = cs_getuid sys \<or> user = cs_geteuid sys
       | Inl _ \<Rightarrow> if c_params c = ''@system''
           then uid_is_system (cs_getuid sys) \<or> uid_is_system (cs_geteuid sys)
           else (case parse_name sys (c_params c) of
               Inr user \<Rightarrow> user = cs_getuid sys \<or> user = cs_geteuid sys
             | Inl _ \<Rightarrow> False)))
   }"

definition test_first_boot :: "cond_sys \<Rightarrow> condition \<Rightarrow> i8" where
  "test_first_boot sys c =
     (if proc_cmdline_get_bool sys ''sysmaster.condition-first-boot'' = Inr True then 1
      else (case parse_boolean (c_params c) of
          Inl _ \<Rightarrow> 0
        | Inr result \<Rightarrow> bool_as_i8 (result = cs_exists sys ''/run/sysmaster/first-boot'')))"

text \<open>\<open>!result\<close> is the bitwise complement of the \<open>i8\<close>, and \<open>>\<close> compares signed numbers.\<close>

definition condition_test :: "cond_sys \<Rightarrow> condition \<Rightarrow> bool option" where
  "condition_test sys c =
     (if c_params c = [] then Some True
      else do {
        result \<leftarrow> (case c_type c of
            PathExists \<Rightarrow> Some (test_path_exists sys c)
          | FileNotEmpty \<Rightarrow> Some (test_file_not_empty sys c)
          | NeedsUpdate \<Rightarrow> Some (test_needs_update c)
          | User \<Rightarrow> test_user sys c
          | FirstBoot \<Rightarrow> Some (test_first_boot sys c));
        Some (0 <s (if 1 \<le>s c_revert c then NOT result else result))
      })"

subsection \<open>The conditions of a unit\<close>

record ue_condition =
  uc_init_flag :: i8
  uc_conditions :: "condition list"
  uc_asserts :: "condition list"

definition ue_condition_new :: ue_condition where
  "ue_condition_new = \<lparr>uc_init_flag = 0, uc_conditions = [], uc_asserts = []\<rparr>"

definition strip_prefix :: "char \<Rightarrow> string \<Rightarrow> string option" where
  "strip_prefix p s = (case s of c # cs \<Rightarrow> if c = p then Some cs else None | [] \<Rightarrow> None)"

definition new_condition :: "condition_type \<Rightarrow> string \<Rightarrow> condition" where
  "new_condition ty params =
     (let (trigger, param_str, s_params) = (case strip_prefix CHR ''|'' params of
            Some s \<Rightarrow> (1, s, strip_prefix CHR ''!'' s)
          | None \<Rightarrow> (0, params, strip_prefix CHR ''!'' params))
      in (case s_params of
            Some s \<Rightarrow> condition_new ty trigger 1 s
          | None \<Rightarrow> condition_new ty trigger 0 param_str))"

definition condition_key :: "string \<Rightarrow> condition_type option" where
  "condition_key condop =
     (if condop = ''ConditionPathExists'' then Some PathExists
      else if condop = ''ConditionFileNotEmpty'' then Some FileNotEmpty
      else if condop = ''ConditionNeedsUpdate'' then Some NeedsUpdate
      else if condop = ''ConditionUser'' then Some User
      else if condop = ''ConditionFirstBOOT'' then Some FirstBoot
      else None)"

definition assert_key :: "string \<Rightarrow> condition_type option" where
  "assert_key assertop =
     (if assertop = ''AssertPathExists'' then Some PathExists
      else if assertop = ''AssertFileNotEmpty'' then Some FileNotEmpty
      else None)"

definition add_condition :: "string \<Rightarrow> string \<Rightarrow> ue_condition \<Rightarrow> ue_condition" where
  "add_condition condop params uc =
     (if params = [] then uc
      else (case condition_key condop of
          None \<Rightarrow> uc
        | Some ty \<Rightarrow> uc\<lparr>uc_conditions := uc_conditions uc @ [new_condition ty params]\<rparr>))"

definition add_assert :: "string \<Rightarrow> string \<Rightarrow> ue_condition \<Rightarrow> ue_condition" where
  "add_assert assertop params uc =
     (if params = [] then uc
      else (case assert_key assertop of
          None \<Rightarrow> uc
        | Some ty \<Rightarrow> uc\<lparr>uc_asserts := uc_asserts uc @ [new_condition ty params]\<rparr>))"

text \<open>The loop of \<open>condition_vec_test\<close>, with its two local variables.\<close>

fun condition_vec_loop :: "cond_sys \<Rightarrow> bool \<Rightarrow> bool \<Rightarrow> condition list \<Rightarrow> bool option" where
  "condition_vec_loop sys trigger_flag ret [] = Some ret"
| "condition_vec_loop sys trigger_flag ret (cond # conds) = do {
     r \<leftarrow> condition_test sys cond;
     if c_trigger cond = 0 \<and> \<not> r then Some False
     else if c_trigger cond \<noteq> 0 \<and> \<not> trigger_flag then condition_vec_loop sys r r conds
     else condition_vec_loop sys trigger_flag ret conds
   }"

definition condition_vec_test :: "cond_sys \<Rightarrow> condition list \<Rightarrow> bool option" where
  "condition_vec_test sys conds = condition_vec_loop sys False True conds"

definition conditions_test :: "cond_sys \<Rightarrow> ue_condition \<Rightarrow> bool option" where
  "conditions_test sys uc = condition_vec_test sys (uc_conditions uc)"

definition asserts_test :: "cond_sys \<Rightarrow> ue_condition \<Rightarrow> bool option" where
  "asserts_test sys uc = condition_vec_test sys (uc_asserts uc)"

subsection \<open>What the tests decide\<close>

text \<open>What each kind of condition is about, as a truth value.\<close>

definition is_me :: "cond_sys \<Rightarrow> u32 \<Rightarrow> bool" where
  "is_me sys u \<longleftrightarrow> u = cs_getuid sys \<or> u = cs_geteuid sys"

definition cond_fact :: "cond_sys \<Rightarrow> condition \<Rightarrow> bool" where
  "cond_fact sys c = (case c_type c of
     PathExists \<Rightarrow> cs_exists sys (c_params c)
   | FileNotEmpty \<Rightarrow> (\<exists>len. cs_metadata sys (c_params c) = Some (True, len) \<and> len \<noteq> 0)
   | NeedsUpdate \<Rightarrow> False
   | User \<Rightarrow> (case parse_uid sys (c_params c) of
         Some (Inr u) \<Rightarrow> is_me sys u
       | _ \<Rightarrow> if c_params c = ''@system'' then uid_is_system (cs_getuid sys) \<or> uid_is_system (cs_geteuid sys)
              else (\<exists>u. parse_name sys (c_params c) = Inr u \<and> is_me sys u))
   | FirstBoot \<Rightarrow> proc_cmdline_get_bool sys ''sysmaster.condition-first-boot'' = Inr True \<or>
       parse_boolean (c_params c) = Inr (cs_exists sys ''/run/sysmaster/first-boot''))"

definition cond_holds :: "cond_sys \<Rightarrow> condition \<Rightarrow> bool" where
  "cond_holds sys c \<longleftrightarrow> c_params c = [] \<or> \<not> 1 \<le>s c_revert c \<and> cond_fact sys c"

text \<open>The user database knows the user with the id 0 (the code unwraps that lookup).\<close>

definition root_known :: "cond_sys \<Rightarrow> bool" where
  "root_known sys \<longleftrightarrow> (\<exists>u. cs_from_uid sys 0 = Some (Some u))"

lemma parse_uid_total: "root_known sys \<Longrightarrow> \<exists>r. parse_uid sys s = Some r"
  by (auto simp: parse_uid_def root_known_def)

text \<open>The complement of the \<open>i8\<close> 0 or 1 is negative: a reverted condition never holds.\<close>

lemma bool_as_i8_pos [simp]: "0 <s bool_as_i8 b \<longleftrightarrow> b"
  by (simp add: bool_as_i8_def word_sless_alt)

lemma bool_as_i8_not_pos [simp]: "\<not> 0 <s NOT (bool_as_i8 b)"
  by (simp add: bool_as_i8_def word_sless_alt signed_not_eq)

lemma test_eqs:
  "test_path_exists sys c = bool_as_i8 (cs_exists sys (c_params c))"
  "test_file_not_empty sys c = bool_as_i8 (\<exists>len. cs_metadata sys (c_params c) = Some (True, len) \<and> len \<noteq> 0)"
  "test_needs_update c = bool_as_i8 False"
  "test_first_boot sys c = bool_as_i8 (proc_cmdline_get_bool sys ''sysmaster.condition-first-boot'' = Inr True \<or>
     parse_boolean (c_params c) = Inr (cs_exists sys ''/run/sysmaster/first-boot''))"
  by (auto simp: test_path_exists_def test_file_not_empty_def test_needs_update_def test_first_boot_def bool_as_i8_def
      word_gt_0 split: option.splits sum.splits prod.splits)

lemma condition_test_eq:
  assumes "root_known sys"
  shows "condition_test sys c = Some (cond_holds sys c)"
proof -
  obtain r where r: "parse_uid sys (c_params c) = Some r" using parse_uid_total[OF assms] by blast
  then have user: "test_user sys c = Some (bool_as_i8 (case r of Inr u \<Rightarrow> is_me sys u
      | Inl _ \<Rightarrow> if c_params c = ''@system'' then uid_is_system (cs_getuid sys) \<or> uid_is_system (cs_geteuid sys)
                 else (\<exists>u. parse_name sys (c_params c) = Inr u \<and> is_me sys u)))"
    by (auto simp: test_user_def is_me_def split: sum.splits)
  show ?thesis
    by (cases "c_type c"; cases r) (simp_all add: condition_test_def cond_holds_def cond_fact_def test_eqs user r)
qed

lemma condition_vec_loop_eq:
  assumes "root_known sys"
  shows "condition_vec_loop sys flag ret conds = Some
    ((\<forall>c\<in>set conds. c_trigger c = 0 \<longrightarrow> cond_holds sys c) \<and>
     (if flag \<or> (\<forall>c\<in>set conds. c_trigger c = 0) then ret else (\<exists>c\<in>set conds. c_trigger c \<noteq> 0 \<and> cond_holds sys c)))"
proof (induction conds arbitrary: flag ret)
  case (Cons c conds)
  show ?case
    by (cases "cond_holds sys c"; cases "c_trigger c = 0"; cases flag)
      (auto simp: condition_test_eq[OF assms] Cons.IH)
qed simp

lemma condition_vec_test_eq:
  assumes "root_known sys"
  shows "condition_vec_test sys conds = Some
    ((\<forall>c\<in>set conds. c_trigger c = 0 \<longrightarrow> cond_holds sys c) \<and>
     ((\<exists>c\<in>set conds. c_trigger c \<noteq> 0) \<longrightarrow> (\<exists>c\<in>set conds. c_trigger c \<noteq> 0 \<and> cond_holds sys c)))"
  unfolding condition_vec_test_def condition_vec_loop_eq[OF assms] by auto

lemma condition_vec_test_blocked:
  assumes "root_known sys" and "c \<in> set conds" and "c_trigger c = 0" and "\<not> cond_holds sys c"
  shows "condition_vec_test sys conds = Some False"
  using assms by (auto simp: condition_vec_test_eq)

lemma new_condition_reverted:
  "new_condition ty (CHR ''!'' # p) = \<lparr>c_type = ty, c_trigger = 0, c_revert = 1, c_params = p\<rparr>"
  by (simp add: new_condition_def strip_prefix_def condition_new_def)

lemma reverted_never_holds: "p \<noteq> [] \<Longrightarrow> \<not> cond_holds sys (new_condition ty (CHR ''!'' # p))"
  by (simp add: new_condition_reverted cond_holds_def word_sle_eq)

end
