(* ===== verification/Unit_Limit.thy ===== *)
theory Unit_Limit
  imports Unit_Condition
begin

section \<open>The start limit of a unit (core/bin/unit/entry/ratelimit.rs)\<close>

text \<open>
  \<open>RateLimit\<close> counts the starts in a window that begins with the first of them. A time is
  the number of nanoseconds of an \<open>Instant\<close>; \<open>duration_since\<close> saturates at 0, as \<open>-\<close> on
  \<open>nat\<close> does, and \<open>as_secs\<close> drops the fraction.
\<close>

record rate_limit =
  rl_interval :: u64
  rl_burst :: u32
  rl_begin :: "nat option"
  rl_nums :: u32

definition rate_limit_new :: "u64 \<Rightarrow> u32 \<Rightarrow> rate_limit" where
  "rate_limit_new interval burst = \<lparr>rl_interval = interval, rl_burst = burst, rl_begin = None, rl_nums = 0\<rparr>"

definition ratelimit_enabled :: "rate_limit \<Rightarrow> bool" where
  "ratelimit_enabled rl \<longleftrightarrow> rl_interval rl > 0 \<and> rl_burst rl > 0"

definition as_secs :: "nat \<Rightarrow> nat" where
  "as_secs nanos = nanos div 1000000000"

definition ratelimit_below :: "nat \<Rightarrow> rate_limit \<Rightarrow> bool \<times> rate_limit" where
  "ratelimit_below now rl =
     (if \<not> ratelimit_enabled rl then (True, rl)
      else if (case rl_begin rl of None \<Rightarrow> True | Some b \<Rightarrow> as_secs (now - b) > unat (rl_interval rl))
      then (True, rl\<lparr>rl_begin := Some now, rl_nums := 1\<rparr>)
      else if rl_nums rl < rl_burst rl then (True, rl\<lparr>rl_nums := rl_nums rl + 1\<rparr>)
      else (False, rl))"

definition rl_init_from_config :: "u64 \<Rightarrow> u32 \<Rightarrow> rate_limit \<Rightarrow> rate_limit" where
  "rl_init_from_config interval burst rl = rl\<lparr>rl_interval := interval, rl_burst := burst\<rparr>"

datatype start_limit_result = StartLimitNotHit | StartLimitHit

record start_limit =
  sl_hit :: bool
  sl_limit :: rate_limit

definition start_limit_new :: start_limit where
  "start_limit_new = \<lparr>sl_hit = False, sl_limit = rate_limit_new 0 0\<rparr>"

definition set_hit :: "bool \<Rightarrow> start_limit \<Rightarrow> start_limit" where
  "set_hit hit sl = sl\<lparr>sl_hit := hit\<rparr>"

definition sl_ratelimit_below :: "nat \<Rightarrow> start_limit \<Rightarrow> bool \<times> start_limit" where
  "sl_ratelimit_below now sl =
     (let (b, rl) = ratelimit_below now (sl_limit sl) in (b, sl\<lparr>sl_limit := rl\<rparr>))"

definition sl_init_from_config :: "u64 \<Rightarrow> u32 \<Rightarrow> start_limit \<Rightarrow> start_limit" where
  "sl_init_from_config interval burst sl =
     sl\<lparr>sl_limit := rl_init_from_config interval burst (sl_limit sl)\<rparr>"

subsection \<open>Testing the limit of a unit\<close>

text \<open>
  \<open>Unit::test_start_limit\<close>: the part of a unit it works on, with the results it inserts into
  the table of the data manager and the time of the next \<open>Instant::now\<close>.
\<close>

record ue_limit =
  ul_limit :: start_limit
  ul_results :: "(uid \<times> start_limit_result) list"
  ul_now :: nat

definition limit_test :: "uid \<Rightarrow> u64 \<Rightarrow> u32 \<Rightarrow> ue_limit \<Rightarrow> bool \<times> ue_limit" where
  "limit_test u interval burst l =
     (let sl = (if interval > 0 \<and> burst > 0 then sl_init_from_config interval burst (ul_limit l) else ul_limit l);
          (below, sl1) = sl_ratelimit_below (ul_now l) sl
      in if below
         then (True, l\<lparr>ul_limit := set_hit False sl1, ul_results := ul_results l @ [(u, StartLimitNotHit)]\<rparr>)
         else (False, l\<lparr>ul_limit := set_hit True sl1, ul_results := ul_results l @ [(u, StartLimitHit)]\<rparr>))"

text \<open>Testing the limit at each of the given times.\<close>

fun limit_tests :: "uid \<Rightarrow> u64 \<Rightarrow> u32 \<Rightarrow> nat list \<Rightarrow> ue_limit \<Rightarrow> bool list \<times> ue_limit" where
  "limit_tests u interval burst [] l = ([], l)"
| "limit_tests u interval burst (t # ts) l =
     (let (b, l1) = limit_test u interval burst (l\<lparr>ul_now := t\<rparr>);
          (bs, l2) = limit_tests u interval burst ts l1
      in (b # bs, l2))"

subsection \<open>How many starts a window lets through\<close>

lemma ratelimit_below_cases:
  assumes "ratelimit_enabled rl"
  obtains (fresh) "ratelimit_below now rl = (True, rl\<lparr>rl_begin := Some now, rl_nums := 1\<rparr>)"
      "\<And>b. rl_begin rl = Some b \<Longrightarrow> as_secs (now - b) > unat (rl_interval rl)"
    | (counted) b where "rl_begin rl = Some b" "as_secs (now - b) \<le> unat (rl_interval rl)"
      "unat (rl_nums rl) < unat (rl_burst rl)"
      "ratelimit_below now rl = (True, rl\<lparr>rl_nums := rl_nums rl + 1\<rparr>)" "unat (rl_nums rl + 1) = unat (rl_nums rl) + 1"
    | (refused) b where "rl_begin rl = Some b" "as_secs (now - b) \<le> unat (rl_interval rl)"
      "unat (rl_burst rl) \<le> unat (rl_nums rl)" "ratelimit_below now rl = (False, rl)"
proof (cases "case rl_begin rl of None \<Rightarrow> True | Some b \<Rightarrow> as_secs (now - b) > unat (rl_interval rl)")
  case True
  then have "ratelimit_below now rl = (True, rl\<lparr>rl_begin := Some now, rl_nums := 1\<rparr>)"
    using assms by (simp add: ratelimit_below_def)
  then show ?thesis by (rule fresh) (use True in simp)
next
  case False
  then obtain b where b: "rl_begin rl = Some b" "as_secs (now - b) \<le> unat (rl_interval rl)"
    by (auto split: option.splits)
  show ?thesis
  proof (cases "rl_nums rl < rl_burst rl")
    case True
    then have "unat (rl_nums rl + 1) = unat (rl_nums rl) + 1"
      using unsigned_less[of "rl_burst rl", where ?'a = nat] by (simp add: word_less_nat_alt unat_word_ariths)
    then show ?thesis using counted b True assms False
      by (simp add: ratelimit_below_def word_less_nat_alt)
  next
    case F: False
    then show ?thesis using refused b assms False
      by (simp add: ratelimit_below_def word_less_nat_alt not_less)
  qed
qed

text \<open>The limiter of a unit under a limit that is switched on: each test is one step of it.\<close>

definition unit_rl :: "u64 \<Rightarrow> u32 \<Rightarrow> ue_limit \<Rightarrow> rate_limit" where
  "unit_rl interval burst l = rl_init_from_config interval burst (sl_limit (ul_limit l))"

lemma unit_rl_simps [simp]:
  "rl_interval (unit_rl interval burst l) = interval" "rl_burst (unit_rl interval burst l) = burst"
  "rl_begin (unit_rl interval burst l) = rl_begin (sl_limit (ul_limit l))"
  "rl_nums (unit_rl interval burst l) = rl_nums (sl_limit (ul_limit l))"
  "unit_rl interval burst (l\<lparr>ul_now := t\<rparr>) = unit_rl interval burst l"
  by (simp_all add: unit_rl_def rl_init_from_config_def)

lemma ratelimit_below_conf:
  "rl_interval (snd (ratelimit_below now rl)) = rl_interval rl" "rl_burst (snd (ratelimit_below now rl)) = rl_burst rl"
  by (simp_all add: ratelimit_below_def)

lemma limit_test_enabled:
  assumes "interval > 0" "burst > 0"
  shows "fst (limit_test u interval burst l) = fst (ratelimit_below (ul_now l) (unit_rl interval burst l))"
    and "unit_rl interval burst (snd (limit_test u interval burst l)) = snd (ratelimit_below (ul_now l) (unit_rl interval burst l))"
proof -
  obtain b rl where r: "ratelimit_below (ul_now l) (unit_rl interval burst l) = (b, rl)" by fastforce
  then have "rl_interval rl = interval" "rl_burst rl = burst"
    using ratelimit_below_conf[of "ul_now l" "unit_rl interval burst l"] by simp_all
  with r assms show "fst (limit_test u interval burst l) = fst (ratelimit_below (ul_now l) (unit_rl interval burst l))"
    and "unit_rl interval burst (snd (limit_test u interval burst l)) = snd (ratelimit_below (ul_now l) (unit_rl interval burst l))"
    by (simp_all add: limit_test_def sl_ratelimit_below_def sl_init_from_config_def set_hit_def unit_rl_def
        rl_init_from_config_def)
qed

lemma limit_tests_Cons:
  "fst (limit_tests u interval burst (t # ts) l) =
     fst (limit_test u interval burst (l\<lparr>ul_now := t\<rparr>)) #
     fst (limit_tests u interval burst ts (snd (limit_test u interval burst (l\<lparr>ul_now := t\<rparr>))))"
  by (simp add: case_prod_unfold Let_def)

lemmas limit_step = limit_tests_Cons limit_test_enabled

text \<open>The answers to \<open>n\<close> tests of which the first \<open>k\<close> succeed.\<close>

definition let_through :: "nat \<Rightarrow> nat \<Rightarrow> bool list" where
  "let_through k n = replicate (min k n) True @ replicate (n - k) False"

lemma let_through_Suc:
  "let_through k (Suc n) = (if k = 0 then False # let_through 0 n else True # let_through (k - 1) n)"
  by (cases k) (simp_all add: let_through_def)

lemma count_let_through: "length (filter (\<lambda>b. b) (let_through k n)) = min k n"
  by (simp add: let_through_def)

text \<open>Inside a window exactly the starts that are left of the burst get through.\<close>

lemma limit_tests_window:
  assumes on: "interval > 0" "burst > 0"
    and b: "rl_begin (unit_rl interval burst l) = Some b"
    and w: "\<forall>t\<in>set ts. as_secs (t - b) \<le> unat interval"
  shows "fst (limit_tests u interval burst ts l) =
    let_through (unat burst - unat (rl_nums (unit_rl interval burst l))) (length ts)"
  using b w
proof (induction ts arbitrary: l)
  case Nil
  then show ?case by (simp add: let_through_def)
next
  case (Cons t ts)
  have en: "ratelimit_enabled (unit_rl interval burst l)" using on by (simp add: ratelimit_enabled_def)
  show ?case
    using en
  proof (cases rule: ratelimit_below_cases[where now = t])
    case fresh
    then show ?thesis using Cons.prems by fastforce
  next
    case (counted b')
    let ?l = "snd (limit_test u interval burst (l\<lparr>ul_now := t\<rparr>))"
    have rl: "unit_rl interval burst ?l = (unit_rl interval burst l)\<lparr>rl_nums := rl_nums (unit_rl interval burst l) + 1\<rparr>"
      using counted limit_test_enabled(2)[OF on, of u "l\<lparr>ul_now := t\<rparr>"] by simp
    have "fst (limit_tests u interval burst ts ?l) = let_through (unat burst - unat (rl_nums (unit_rl interval burst ?l))) (length ts)"
      by (rule Cons.IH) (use Cons.prems rl in \<open>simp_all del: unit_rl_simps\<close>)
    then show ?thesis
      using counted rl limit_test_enabled(1)[OF on, of u "l\<lparr>ul_now := t\<rparr>"]
      by (simp add: limit_tests_Cons let_through_Suc del: unit_rl_simps(3,4) limit_tests.simps)
  next
    case (refused b')
    let ?l = "snd (limit_test u interval burst (l\<lparr>ul_now := t\<rparr>))"
    have rl: "unit_rl interval burst ?l = unit_rl interval burst l"
      using refused limit_test_enabled(2)[OF on, of u "l\<lparr>ul_now := t\<rparr>"] by simp
    have "fst (limit_tests u interval burst ts ?l) = let_through (unat burst - unat (rl_nums (unit_rl interval burst ?l))) (length ts)"
      by (rule Cons.IH) (use Cons.prems rl in \<open>simp_all del: unit_rl_simps\<close>)
    then show ?thesis
      using refused rl limit_test_enabled(1)[OF on, of u "l\<lparr>ul_now := t\<rparr>"]
      by (simp add: limit_tests_Cons let_through_Suc del: unit_rl_simps(3,4) limit_tests.simps)
  qed
qed

text \<open>Times no further apart than the interval can begin at most one new window.\<close>

lemma limit_tests_count:
  assumes on: "interval > 0" "burst > 0"
  shows "sorted ts \<Longrightarrow> \<forall>t\<in>set ts. \<forall>t'\<in>set ts. as_secs (t - t') \<le> unat interval \<Longrightarrow>
    length (filter (\<lambda>b. b) (fst (limit_tests u interval burst ts l)))
      \<le> (unat burst - unat (rl_nums (unit_rl interval burst l))) + unat burst"
proof (induction ts arbitrary: l)
  case (Cons t ts)
  have en: "ratelimit_enabled (unit_rl interval burst l)" using on by (simp add: ratelimit_enabled_def)
  let ?l = "snd (limit_test u interval burst (l\<lparr>ul_now := t\<rparr>))"
  have IH: "length (filter (\<lambda>b. b) (fst (limit_tests u interval burst ts ?l)))
      \<le> (unat burst - unat (rl_nums (unit_rl interval burst ?l))) + unat burst"
    by (rule Cons.IH) (use Cons.prems in auto)
  note now = limit_test_enabled[OF on, of u "l\<lparr>ul_now := t\<rparr>"]
  note keep = unit_rl_simps(3,4) limit_tests.simps
  show ?case
    using en
  proof (cases rule: ratelimit_below_cases[where now = t])
    case fresh
    have rl: "unit_rl interval burst ?l = (unit_rl interval burst l)\<lparr>rl_begin := Some t, rl_nums := 1\<rparr>"
      using fresh now(2) by simp
    have "fst (limit_tests u interval burst ts ?l) = let_through (unat burst - unat (rl_nums (unit_rl interval burst ?l))) (length ts)"
      by (rule limit_tests_window[OF on, where b = t]) (use Cons.prems rl in \<open>simp_all del: keep\<close>)
    then have "length (filter (\<lambda>b. b) (fst (limit_tests u interval burst ts ?l))) \<le> unat burst - 1"
      using rl by (simp add: count_let_through del: keep)
    moreover have "0 < unat burst" using on by (simp add: word_less_nat_alt)
    ultimately show ?thesis using fresh now(1) by (simp add: limit_tests_Cons del: keep)
  next
    case (counted b')
    then have "unit_rl interval burst ?l = (unit_rl interval burst l)\<lparr>rl_nums := rl_nums (unit_rl interval burst l) + 1\<rparr>"
      using now(2) by simp
    then show ?thesis using IH counted now(1) by (simp add: limit_tests_Cons del: keep)
  next
    case (refused b')
    then have "unit_rl interval burst ?l = unit_rl interval burst l" using now(2) by simp
    then show ?thesis using IH refused now(1) by (simp add: limit_tests_Cons del: keep)
  qed
qed simp

lemma limit_tests_fresh:
  assumes on: "interval > 0" "burst > 0"
    and none: "rl_begin (sl_limit (ul_limit l)) = None"
    and w: "sorted ts" "\<forall>t\<in>set ts. \<forall>t'\<in>set ts. as_secs (t - t') \<le> unat interval"
  shows "fst (limit_tests u interval burst ts l) = let_through (unat burst) (length ts)"
proof (cases ts)
  case (Cons t ts')
  let ?l = "snd (limit_test u interval burst (l\<lparr>ul_now := t\<rparr>))"
  note now = limit_test_enabled[OF on, of u "l\<lparr>ul_now := t\<rparr>"]
  note keep = unit_rl_simps(3,4) limit_tests.simps
  have below: "ratelimit_below t (unit_rl interval burst l) = (True, (unit_rl interval burst l)\<lparr>rl_begin := Some t, rl_nums := 1\<rparr>)"
    using on none by (simp add: ratelimit_below_def ratelimit_enabled_def)
  then have rl: "unit_rl interval burst ?l = (unit_rl interval burst l)\<lparr>rl_begin := Some t, rl_nums := 1\<rparr>"
    using now(2) by simp
  have "fst (limit_tests u interval burst ts' ?l) = let_through (unat burst - unat (rl_nums (unit_rl interval burst ?l))) (length ts')"
    by (rule limit_tests_window[OF on, where b = t]) (use w Cons rl in \<open>simp_all del: keep\<close>)
  moreover have "unat burst = Suc (unat burst - 1)" using on by (simp add: word_less_nat_alt)
  ultimately show ?thesis
    using below now(1) rl Cons
    by (simp add: limit_tests_Cons let_through_Suc del: keep)
qed (simp add: let_through_def)

end
