(* ===== verification/Unit_Entry.thy ===== *)
theory Unit_Entry
  imports Unit_Limit Job_Entry
begin

section \<open>A unit (core/bin/unit/entry)\<close>

text \<open>
  \<open>Unit\<close> of \<open>uentry.rs\<close> and the parts it owns: \<open>UeBase\<close>, \<open>UeConfig\<close>, \<open>UeLoad\<close>, \<open>UeChild\<close>,
  \<open>UeCgroup\<close>, \<open>UeCondition\<close> and \<open>StartLimit\<close>. The record \<open>unit_frame\<close> holds what they keep;
  \<open>sub\<close>, the plugin object behind \<open>dyn SubUnit\<close>, has its own state \<open>'s\<close>, and the record
  \<open>sub_unit\<close> is its method table. A sub unit calls back into its owner (\<open>UnitBase\<close>), so its
  methods take and return the frame. \<open>None\<close> is a panic.
\<close>

unbundle bit_operations_syntax

subsection \<open>State\<close>

type_synonym unit_dep_conf = "(unit_relations \<times> string list) list"

record 'd unit_frame =
  ue_id :: uid
  ue_unit_type :: unit_type
  ue_config :: ue_config_unit
  ue_install :: ue_config_install
  ue_load_state :: unit_load_state
  ue_in_load_queue :: bool
  ue_in_target_dep_queue :: bool
  ue_pids :: "pid list"
  ue_cg_path :: string
  ue_conditions :: ue_condition
  ue_limits :: ue_limit
  ue_re :: "'d unit_re"
  ue_states :: "unit_state_note list"
  ue_dep_confs :: "(uid \<times> unit_dep_conf) list"

text \<open>
  \<open>ue_states\<close> and \<open>ue_dep_confs\<close> are the insertions into the tables of the \<open>DataManager\<close>, whose
  subscribers (the job manager, the dependency loader) run afterwards.

  \<open>unit_files\<close> stands for \<open>UnitFile\<close> after \<open>build_name_map\<close>, the file system and the \<open>confique\<close>
  loader that reads the fragments: the fragments of a unit, the symbolic links of its
  \<open>.wants\<close> and \<open>.requires\<close> directories, whether a file exists, and what the loader makes of
  the fragments.
\<close>

record unit_files =
  fl_fragments :: "uid \<Rightarrow> string list"
  fl_wants :: "uid \<Rightarrow> string list"
  fl_requires :: "uid \<Rightarrow> string list"
  fl_exists :: "string \<Rightarrow> bool"
  fl_load :: "string list \<Rightarrow> error + (ue_config_unit \<times> ue_config_install)"

record ('d, 's) sub_unit =
  su_load :: "string list \<Rightarrow> 'd unit_frame \<Rightarrow> 's \<Rightarrow> ((error + unit) \<times> 'd unit_frame \<times> 's) option"
  su_start :: "'d unit_frame \<Rightarrow> 's \<Rightarrow> ((error + unit) \<times> 'd unit_frame \<times> 's) option"
  su_stop :: "bool \<Rightarrow> 'd unit_frame \<Rightarrow> 's \<Rightarrow> ((error + unit) \<times> 'd unit_frame \<times> 's) option"
  su_reload :: "'d unit_frame \<Rightarrow> 's \<Rightarrow> ((error + unit) \<times> 'd unit_frame \<times> 's) option"
  su_can_reload :: "'s \<Rightarrow> bool"
  su_sigchld :: "wait_status \<Rightarrow> 'd unit_frame \<Rightarrow> 's \<Rightarrow> ('d unit_frame \<times> 's) option"
  su_active_state :: "'s \<Rightarrow> unit_active_state"
  su_db_map :: "'s \<Rightarrow> 's option"
  su_attach :: "uid \<Rightarrow> 's \<Rightarrow> 's option"

record ('d, 's) unit_entry =
  ue_frame :: "'d unit_frame"
  ue_sub :: 's

subsection \<open>Parts of the frame\<close>

definition ue_base_db_insert :: "'d unit_frame \<Rightarrow> 'd unit_frame option" where
  "ue_base_db_insert f = do {
     r \<leftarrow> pps_insert (ue_id f) (base_insert (ue_id f) (ue_unit_type f) (ue_re f));
     Some (f\<lparr>ue_re := r\<rparr>)
   }"

definition ue_base_db_map :: "'d unit_frame \<Rightarrow> unit option" where
  "ue_base_db_map f = do {
     ty \<leftarrow> base_get (ue_re f) (ue_id f);
     rust_assert (ue_unit_type f = ty)
   }"

definition ue_config_db_insert :: "'d unit_frame \<Rightarrow> 'd unit_frame option" where
  "ue_config_db_insert f = map_option (\<lambda>r. f\<lparr>ue_re := r\<rparr>) (conf_insert (ue_id f) (ue_config f) (ue_install f) (ue_re f))"

definition ue_config_db_map :: "'d unit_frame \<Rightarrow> 'd unit_frame" where
  "ue_config_db_map f = (case conf_get (ue_re f) (ue_id f) of
     Some (unit, install) \<Rightarrow> f\<lparr>ue_config := unit, ue_install := install\<rparr> | None \<Rightarrow> f)"

definition ue_load_db_insert :: "'d unit_frame \<Rightarrow> 'd unit_frame option" where
  "ue_load_db_insert f = map_option (\<lambda>r. f\<lparr>ue_re := r\<rparr>) (load_insert (ue_id f) (ue_load_state f) (ue_re f))"

definition ue_load_db_map :: "'d unit_frame \<Rightarrow> 'd unit_frame" where
  "ue_load_db_map f = (case load_get (ue_re f) (ue_id f) of
     Some st \<Rightarrow> f\<lparr>ue_load_state := st\<rparr> | None \<Rightarrow> f)"

definition ue_child_db_insert :: "'d unit_frame \<Rightarrow> 'd unit_frame option" where
  "ue_child_db_insert f = map_option (\<lambda>r. f\<lparr>ue_re := r\<rparr>) (child_insert (ue_id f) (ue_pids f) (ue_re f))"

definition child_add_pids :: "pid \<Rightarrow> 'd unit_frame \<Rightarrow> 'd unit_frame option" where
  "child_add_pids p f = ue_child_db_insert (f\<lparr>ue_pids := List.insert p (ue_pids f)\<rparr>)"

definition child_remove_pids :: "pid \<Rightarrow> 'd unit_frame \<Rightarrow> 'd unit_frame option" where
  "child_remove_pids p f = ue_child_db_insert (f\<lparr>ue_pids := removeAll p (ue_pids f)\<rparr>)"

definition ue_child_db_map :: "'d unit_frame \<Rightarrow> 'd unit_frame" where
  "ue_child_db_map f = f\<lparr>ue_pids := fold List.insert (child_get (ue_re f) (ue_id f)) (ue_pids f)\<rparr>"

definition ue_cgroup_db_insert :: "'d unit_frame \<Rightarrow> 'd unit_frame option" where
  "ue_cgroup_db_insert f = map_option (\<lambda>r. f\<lparr>ue_re := r\<rparr>) (cgroup_insert (ue_id f) (ue_cg_path f) (ue_re f))"

definition setup_cg_path :: "'d unit_frame \<Rightarrow> 'd unit_frame option" where
  "setup_cg_path f = ue_cgroup_db_insert (if ue_cg_path f \<noteq> [] then f else f\<lparr>ue_cg_path := ue_id f\<rparr>)"

definition ue_cgroup_db_map :: "'d unit_frame \<Rightarrow> 'd unit_frame" where
  "ue_cgroup_db_map f = (case cgroup_get (ue_re f) (ue_id f) of
     Some path \<Rightarrow> f\<lparr>ue_cg_path := path\<rparr> | None \<Rightarrow> f)"

definition ue_pps :: "bool \<Rightarrow> unit_re_pps \<Rightarrow> 'd unit_frame \<Rightarrow> 'd unit_frame option" where
  "ue_pps t m f = map_option (\<lambda>r. f\<lparr>ue_re := r\<rparr>)
     (if t then pps_set (ue_id f) m (ue_re f) else pps_clear (ue_id f) m (ue_re f))"

definition set_load_state :: "unit_load_state \<Rightarrow> 'd unit_frame \<Rightarrow> 'd unit_frame option" where
  "set_load_state st f = ue_load_db_insert (f\<lparr>ue_load_state := st\<rparr>)"

definition set_in_load_queue :: "bool \<Rightarrow> 'd unit_frame \<Rightarrow> 'd unit_frame option" where
  "set_in_load_queue t f = ue_pps t QUEUE_LOAD (f\<lparr>ue_in_load_queue := t\<rparr>)"

definition set_in_target_dep_queue :: "bool \<Rightarrow> 'd unit_frame \<Rightarrow> 'd unit_frame option" where
  "set_in_target_dep_queue t f = ue_pps t QUEUE_TARGET_DEPS (f\<lparr>ue_in_target_dep_queue := t\<rparr>)"

text \<open>\<open>Unit::new\<close>: every part writes its row, then the sub unit is attached.\<close>

definition unit_new ::
  "('d, 's) sub_unit \<Rightarrow> unit_type \<Rightarrow> uid \<Rightarrow> ue_config_install \<Rightarrow> nat \<Rightarrow> 'd unit_re \<Rightarrow> 's \<Rightarrow> ('d, 's) unit_entry option" where
  "unit_new su ty u install now r sub = do {
     f1 \<leftarrow> ue_base_db_insert
       \<lparr>ue_id = u, ue_unit_type = ty, ue_config = ue_config_unit_default, ue_install = install,
        ue_load_state = UnitStub, ue_in_load_queue = False, ue_in_target_dep_queue = False, ue_pids = [],
        ue_cg_path = [], ue_conditions = ue_condition_new,
        ue_limits = \<lparr>ul_limit = start_limit_new, ul_results = [], ul_now = now\<rparr>,
        ue_re = r, ue_states = [], ue_dep_confs = []\<rparr>;
     f2 \<leftarrow> ue_config_db_insert f1;
     f3 \<leftarrow> ue_load_db_insert f2;
     f4 \<leftarrow> ue_pps False (QUEUE_LOAD OR QUEUE_TARGET_DEPS) f3;
     f5 \<leftarrow> ue_child_db_insert f4;
     f6 \<leftarrow> ue_cgroup_db_insert f5;
     s \<leftarrow> su_attach su u sub;
     Some \<lparr>ue_frame = f6, ue_sub = s\<rparr>
   }"

text \<open>\<open>ReStation::db_map\<close> of the unit.\<close>

definition unit_db_map :: "('d, 's) sub_unit \<Rightarrow> ('d, 's) unit_entry \<Rightarrow> ('d, 's) unit_entry option" where
  "unit_db_map su u = do {
     ue_base_db_map (ue_frame u);
     s \<leftarrow> su_db_map su (ue_sub u);
     Some \<lparr>ue_frame = ue_child_db_map (ue_load_db_map (ue_cgroup_db_map (ue_config_db_map (ue_frame u)))), ue_sub = s\<rparr>
   }"

subsection \<open>Loading\<close>

definition load_fragment_and_dropin :: "unit_files \<Rightarrow> 'd unit_frame \<Rightarrow> ((error + unit) \<times> 'd unit_frame) option" where
  "load_fragment_and_dropin fl f = (
     let frag = fl_fragments fl (ue_id f) in
     if frag = [] then Some (Inl (OtherError (''config file for '' @ ue_id f @ '' is not exist'')), f)
     else if \<not> list_all (fl_exists fl) frag then Some (Inl (OtherError (''config file is not exist '' @ ue_id f)), f)
     else (case fl_load fl frag of
         Inl _ \<Rightarrow> Some (Inl Confique, f)
       | Inr (unit, install) \<Rightarrow> (
           let wants = fl_wants fl (ue_id f);
               requires = fl_requires fl (ue_id f);
               conf = unit\<lparr>Wants := Wants unit @ wants, Requires := Requires unit @ requires,
                           After := After unit @ wants @ requires\<rparr>
           in map_option (Pair (Inr ())) (ue_config_db_insert (f\<lparr>ue_config := conf, ue_install := install\<rparr>)))))"

definition ue_load_parse :: "'d unit_frame \<Rightarrow> 'd unit_frame" where
  "ue_load_parse f = (let c = ue_config f in
     f\<lparr>ue_dep_confs := ue_dep_confs f @ [(ue_id f,
        [(UnitWants, Wants c), (UnitAfter, After c), (UnitBefore, Before c), (UnitRequires, Requires c),
         (UnitBindsTo, BindsTo c), (UnitRequisite, Requisite c), (UnitOnFailure, ue_config_unit.OnFailure c),
         (UnitOnSuccess, ue_config_unit.OnSuccess c), (UnitPartOf, PartOf c), (UnitConflicts, Conflicts c)])]\<rparr>)"

definition load_unit_confs :: "unit_files \<Rightarrow> 'd unit_frame \<Rightarrow> ((error + unit) \<times> 'd unit_frame) option" where
  "load_unit_confs fl f = do {
     (r, f1) \<leftarrow> load_fragment_and_dropin fl f;
     Some (case r of Inl e \<Rightarrow> (Inl e, f1) | Inr _ \<Rightarrow> (Inr (), ue_load_parse f1))
   }"

text \<open>
  \<open>Unit::load_unit\<close> in two parts, because the dependency configuration that \<open>parse\<close> inserts
  into its table is acted upon (\<open>UnitLoadData::notify\<close>) before the sub unit is loaded. The
  result of the first part is \<open>None\<close> for a mount, which is done then.
\<close>

definition load_begin :: "unit_files \<Rightarrow> 'd unit_frame \<Rightarrow> ((error + unit) option \<times> 'd unit_frame) option" where
  "load_begin fl f = do {
     f1 \<leftarrow> set_in_load_queue False f;
     if ue_unit_type f1 = UnitMount then do {
       f2 \<leftarrow> set_load_state UnitLoaded f1;
       Some (None, f2)
     } else do {
       (r, f2) \<leftarrow> load_unit_confs fl f1;
       (case r of
          Inl e \<Rightarrow> do {
            f3 \<leftarrow> set_load_state UnitNotFound f2;
            Some (Some (Inl e), f3)
          }
        | Inr _ \<Rightarrow> Some (Some (Inr ()), f2))
     }
   }"

definition load_finish ::
  "('d, 's) sub_unit \<Rightarrow> unit_files \<Rightarrow> ('d, 's) unit_entry \<Rightarrow> ((error + unit) \<times> ('d, 's) unit_entry) option" where
  "load_finish su fl u = do {
     (r, f, s) \<leftarrow> su_load su (fl_fragments fl (ue_id (ue_frame u))) (ue_frame u) (ue_sub u);
     (case r of
        Inl e \<Rightarrow> Some (Inl e, u\<lparr>ue_frame := f, ue_sub := s\<rparr>)
      | Inr _ \<Rightarrow> do {
          f1 \<leftarrow> set_load_state UnitLoaded f;
          Some (Inr (), u\<lparr>ue_frame := f1, ue_sub := s\<rparr>)
        })
   }"

definition load_unit ::
  "('d, 's) sub_unit \<Rightarrow> unit_files \<Rightarrow> ('d, 's) unit_entry \<Rightarrow> ((error + unit) \<times> ('d, 's) unit_entry) option" where
  "load_unit su fl u = do {
     (r, f) \<leftarrow> load_begin fl (ue_frame u);
     let u1 = u\<lparr>ue_frame := f\<rparr>;
     (case r of
        None \<Rightarrow> Some (Inr (), u1)
      | Some (Inl e) \<Rightarrow> Some (Inl e, u1)
      | Some (Inr _) \<Rightarrow> load_finish su fl u1)
   }"

subsection \<open>What sub units call\<close>

definition unit_notify :: "unit_active_state \<Rightarrow> unit_active_state \<Rightarrow> unit_notify_flags \<Rightarrow> 'd unit_frame \<Rightarrow> 'd unit_frame" where
  "unit_notify os ns flags f =
     f\<lparr>ue_states := ue_states f @ [\<lparr>note_unit = ue_id f, note_os = os, note_ns = ns, note_flags = flags\<rparr>]\<rparr>"

definition test_start_limit :: "'d unit_frame \<Rightarrow> bool \<times> 'd unit_frame" where
  "test_start_limit f =
     (let (ok, l) = limit_test (ue_id f) (StartLimitInterval (ue_config f)) (StartLimitBurst (ue_config f)) (ue_limits f)
      in (ok, f\<lparr>ue_limits := l\<rparr>))"

definition set_ignore_on_isolate :: "bool \<Rightarrow> 'd unit_frame \<Rightarrow> 'd unit_frame" where
  "set_ignore_on_isolate b f = f\<lparr>ue_config := (ue_config f)\<lparr>IgnoreOnIsolate := b\<rparr>\<rparr>"

subsection \<open>Killing and guessing processes\<close>

text \<open>
  \<open>kill_os\<close>: the system call \<open>kill\<close>, the functions of the cgroup crate (\<open>cg_kill_recursive\<close>, which
  spares the given processes, and \<open>cg_get_pids\<close>), the parent of a process and of this one.
  A signal is its number.
\<close>

datatype kill_mode = ControlGroup | ProcessOnly | Mixed

record 'w kill_os =
  ko_kill :: "pid \<Rightarrow> int \<Rightarrow> 'w \<Rightarrow> bool \<times> 'w"
  ko_cg_kill :: "string \<Rightarrow> int \<Rightarrow> pid list \<Rightarrow> 'w \<Rightarrow> bool \<times> 'w"
  ko_cg_pids :: "string \<Rightarrow> 'w \<Rightarrow> pid list"
  ko_ppid :: "pid \<Rightarrow> 'w \<Rightarrow> pid option"
  ko_getppid :: pid

definition SIGABRT :: int where "SIGABRT = 6"
definition SIGKILL :: int where "SIGKILL = 9"
definition SIGTERM :: int where "SIGTERM = 15"
definition SIGCONT :: int where "SIGCONT = 18"

fun kill_to_signal :: "int \<Rightarrow> kill_operation \<Rightarrow> int" where
  "kill_to_signal kill_signal KillTerminate = kill_signal"
| "kill_to_signal kill_signal KillTerminateAndLog = kill_signal"
| "kill_to_signal kill_signal KillRestart = kill_signal"
| "kill_to_signal kill_signal KillKill = SIGKILL"
| "kill_to_signal kill_signal KillWatchdog = SIGABRT"
| "kill_to_signal kill_signal KillInvalid = SIGTERM"

definition kill_one :: "'w kill_os \<Rightarrow> int \<Rightarrow> pid option \<Rightarrow> 'w \<Rightarrow> 'w" where
  "kill_one ko sig mp w = (case mp of
     None \<Rightarrow> w
   | Some p \<Rightarrow> (case ko_kill ko p sig w of
        (ok, w1) \<Rightarrow> if ok \<and> sig \<noteq> SIGCONT \<and> sig \<noteq> SIGKILL then snd (ko_kill ko p SIGCONT w1) else w1))"

definition pids_set :: "pid option \<Rightarrow> pid option \<Rightarrow> pid list" where
  "pids_set m_pid c_pid = remdups ((case m_pid of Some p \<Rightarrow> [p] | None \<Rightarrow> []) @ (case c_pid of Some p \<Rightarrow> [p] | None \<Rightarrow> []))"

definition unit_kill_context ::
  "'w kill_os \<Rightarrow> kill_mode \<Rightarrow> int \<Rightarrow> pid option \<Rightarrow> pid option \<Rightarrow> kill_operation \<Rightarrow> 'd unit_frame \<Rightarrow> 'w \<Rightarrow> (error + unit) \<times> 'w" where
  "unit_kill_context ko mode kill_signal m_pid c_pid op f w = (
     let sig = kill_to_signal kill_signal op;
         w1 = kill_one ko sig m_pid w;
         w2 = kill_one ko sig c_pid w1;
         w3 = (if ue_cg_path f \<noteq> [] \<and> (mode = ControlGroup \<or> mode = Mixed \<and> op = KillKill)
               then snd (ko_cg_kill ko (ue_cg_path f) sig (pids_set m_pid c_pid) w2) else w2)
     in (Inr (), w3))"

definition my_child :: "'w kill_os \<Rightarrow> 'w \<Rightarrow> pid \<Rightarrow> bool" where
  "my_child ko w p \<longleftrightarrow> \<not> p \<le> 1 \<and> ko_ppid ko p w = Some (ko_getppid ko)"

definition unit_guess_main_pid :: "'w kill_os \<Rightarrow> 'd unit_frame \<Rightarrow> 'w \<Rightarrow> error + pid" where
  "unit_guess_main_pid ko f w =
     (if ue_cg_path f = [] then Inl (OtherError ''cgroup path is empty, can not guess main pid from cgroup path'')
      else Inr (case find (my_child ko w) (filter (\<lambda>p. p \<noteq> 0) (ko_cg_pids ko (ue_cg_path f) w)) of
          Some p \<Rightarrow> p | None \<Rightarrow> 0))"

subsection \<open>Actions\<close>

text \<open>\<open>Unit::conditions\<close>: with \<open>init_flag\<close> 0, which nothing sets, it adds the configured conditions again.\<close>

definition unit_conditions :: "'d unit_frame \<Rightarrow> 'd unit_frame" where
  "unit_conditions f =
     (if uc_init_flag (ue_conditions f) \<noteq> 0 then f
      else (let c = ue_config f in
        f\<lparr>ue_conditions :=
           add_assert ''AssertPathExists'' (AssertPathExists c)
           (add_condition ''ConditionFirstBOOT'' (ConditionFirstBoot c)
           (add_condition ''ConditionUser'' (ConditionUser c)
           (add_condition ''ConditionPathExists'' (ConditionPathExists c)
           (add_condition ''ConditionNeedsUpdate'' (ConditionNeedsUpdate c)
           (add_condition ''ConditionFileNotEmpty'' (ConditionFileNotEmpty c) (ue_conditions f))))))\<rparr>))"

definition unit_sub_result ::
  "('d, 's) unit_entry \<Rightarrow> ((error + unit) \<times> 'd unit_frame \<times> 's) option \<Rightarrow> ((error + unit) \<times> ('d, 's) unit_entry) option" where
  "unit_sub_result u x = map_option (\<lambda>(r, f, s). (r, u\<lparr>ue_frame := f, ue_sub := s\<rparr>)) x"

definition unit_start ::
  "('d, 's) sub_unit \<Rightarrow> cond_sys \<Rightarrow> ('d, 's) unit_entry \<Rightarrow> ((error + unit) \<times> ('d, 's) unit_entry) option" where
  "unit_start su sys u = (
     let active_state = su_active_state su (ue_sub u) in
     if is_active_or_reloading active_state then Some (Inl UnitActionEAlready, u)
     else if active_state = UnitMaintenance then Some (Inl UnitActionEAgain, u)
     else if ue_load_state (ue_frame u) \<noteq> UnitLoaded then Some (Inl UnitActionEInval, u)
     else do {
       let f1 = (if active_state \<noteq> UnitActivating then unit_conditions (ue_frame u) else ue_frame u);
       ok1 \<leftarrow> (if active_state \<noteq> UnitActivating then conditions_test sys (ue_conditions f1) else Some True);
       if \<not> ok1 then Some (Inl UnitActionEInval, u\<lparr>ue_frame := f1\<rparr>)
       else do {
         let f2 = (if active_state \<noteq> UnitActivating then unit_conditions f1 else f1);
         ok2 \<leftarrow> (if active_state \<noteq> UnitActivating then asserts_test sys (ue_conditions f2) else Some True);
         if \<not> ok2 then Some (Inl UnitActionEInval, u\<lparr>ue_frame := f2\<rparr>)
         else unit_sub_result u (su_start su f2 (ue_sub u))
       }
     })"

definition unit_stop ::
  "('d, 's) sub_unit \<Rightarrow> bool \<Rightarrow> ('d, 's) unit_entry \<Rightarrow> ((error + unit) \<times> ('d, 's) unit_entry) option" where
  "unit_stop su forced u =
     (if \<not> forced \<and> su_active_state su (ue_sub u) \<in> {UnitInActive, UnitFailed} then Some (Inl UnitActionEAlready, u)
      else unit_sub_result u (su_stop su forced (ue_frame u) (ue_sub u)))"

definition unit_reload ::
  "('d, 's) sub_unit \<Rightarrow> ('d, 's) unit_entry \<Rightarrow> ((error + unit) \<times> ('d, 's) unit_entry) option" where
  "unit_reload su u =
     (if \<not> su_can_reload su (ue_sub u) then Some (Inl UnitActionEBadR, u)
      else (let active_state = su_active_state su (ue_sub u) in
        if active_state = UnitReloading then Some (Inl UnitActionEAgain, u)
        else if active_state \<noteq> UnitActive then Some (Inl UnitActionENoExec, u)
        else do {
          (r, u1) \<leftarrow> unit_sub_result u (su_reload su (ue_frame u) (ue_sub u));
          Some (case r of
              Inr _ \<Rightarrow> (Inr (), u1)
            | Inl e \<Rightarrow> if e = UnitActionEOpNotSupp
                then (Inr (), u1\<lparr>ue_frame := unit_notify active_state active_state UNIT_NOTIFY_SUCCESS (ue_frame u1)\<rparr>)
                else (Inl e, u1))
        }))"

definition unit_sigchld_events ::
  "('d, 's) sub_unit \<Rightarrow> wait_status \<Rightarrow> ('d, 's) unit_entry \<Rightarrow> ('d, 's) unit_entry option" where
  "unit_sigchld_events su w u =
     map_option (\<lambda>(f, s). u\<lparr>ue_frame := f, ue_sub := s\<rparr>) (su_sigchld su w (ue_frame u) (ue_sub u))"

end
