(* ===== verification/Unit_Contract.thy ===== *)
theory Unit_Contract
  imports Unit_Entry
begin

section \<open>What a unit may rely on from its sub unit\<close>

text \<open>
  The contract behind \<open>dyn SubUnit\<close> as the locale \<open>sub_unit_contract\<close>, and what \<open>Unit\<close> makes of it,
  proved once for every sub unit that keeps it: the reports a unit makes continue each other
  and end in its active state, whatever the sub unit is.
\<close>

subsection \<open>Reports\<close>

text \<open>Reports of the unit \<open>u\<close> that lead from the active state \<open>a\<close> to \<open>b\<close>.\<close>

fun report_chain :: "uid \<Rightarrow> unit_active_state \<Rightarrow> unit_state_note list \<Rightarrow> unit_active_state \<Rightarrow> bool" where
  "report_chain u a [] b \<longleftrightarrow> a = b"
| "report_chain u a (n # ns) b \<longleftrightarrow> note_unit n = u \<and> note_os n = a \<and> note_flags n = UNIT_NOTIFY_RELOAD_FAILURE \<and>
     report_chain u (note_ns n) ns b"

lemma report_chain_append:
  "report_chain u a ns b \<Longrightarrow> report_chain u b ms c \<Longrightarrow> report_chain u a (ns @ ms) c"
  by (induction ns arbitrary: a) auto

lemma report_chain_flags:
  "report_chain u a ns b \<Longrightarrow> n \<in> set ns \<Longrightarrow> note_unit n = u \<and> note_flags n = UNIT_NOTIFY_RELOAD_FAILURE"
  by (induction ns arbitrary: a) auto

text \<open>A call of the sub unit changes of the frame only the start limits and adds reports.\<close>

definition sub_ok ::
  "('d, 's) sub_unit \<Rightarrow> 'd unit_frame \<Rightarrow> 's \<Rightarrow> 'd unit_frame \<Rightarrow> 's \<Rightarrow> bool" where
  "sub_ok su f s f' s' \<longleftrightarrow> (\<exists>ns l. f' = f\<lparr>ue_limits := l, ue_states := ue_states f @ ns\<rparr> \<and>
     report_chain (ue_id f) (su_active_state su s) ns (su_active_state su s'))"

lemma sub_ok_refl [intro, simp]: "sub_ok su f s f s"
  unfolding sub_ok_def by (rule exI[of _ "[]"], rule exI[of _ "ue_limits f"]) simp

lemma sub_ok_id: "sub_ok su f s f' s' \<Longrightarrow> ue_id f' = ue_id f"
  by (auto simp: sub_ok_def)

definition stopped_states :: "unit_active_state set" where
  "stopped_states = {UnitInActive, UnitFailed, UnitDeActivating}"

definition sub_errors :: "error set" where
  "sub_errors = {UnitActionEAgain, UnitActionECanceled}"

definition unit_attached :: "(uid \<Rightarrow> 's \<Rightarrow> bool) \<Rightarrow> ('d, 's) unit_entry \<Rightarrow> bool" where
  "unit_attached att u \<longleftrightarrow> att (ue_id (ue_frame u)) (ue_sub u)"

definition unit_ok ::
  "('d, 's) sub_unit \<Rightarrow> (uid \<Rightarrow> 's \<Rightarrow> bool) \<Rightarrow> ('d, 's) unit_entry \<Rightarrow> ('d, 's) unit_entry \<Rightarrow> bool" where
  "unit_ok su att u u' \<longleftrightarrow> ue_id (ue_frame u') = ue_id (ue_frame u) \<and> unit_attached att u' \<and>
     (\<exists>ns. ue_states (ue_frame u') = ue_states (ue_frame u) @ ns \<and>
        report_chain (ue_id (ue_frame u)) (su_active_state su (ue_sub u)) ns (su_active_state su (ue_sub u')))"

lemma unit_ok_refl: "unit_attached att u \<Longrightarrow> unit_ok su att u u"
  unfolding unit_ok_def by (intro conjI exI[of _ "[]"]) auto

lemma unit_ok_trans: "unit_ok su att u u1 \<Longrightarrow> unit_ok su att u1 u2 \<Longrightarrow> unit_ok su att u u2"
  unfolding unit_ok_def by (elim conjE exE) (auto intro: report_chain_append)

lemma unit_ok_quiet:
  "unit_attached att u \<Longrightarrow> ue_id f = ue_id (ue_frame u) \<Longrightarrow> ue_states f = ue_states (ue_frame u) \<Longrightarrow>
   unit_ok su att u (u\<lparr>ue_frame := f\<rparr>)"
  unfolding unit_ok_def unit_attached_def by (intro conjI exI[of _ "[]"]) auto

lemma unit_ok_sub:
  assumes "sub_ok su f (ue_sub u) f' s'" "att (ue_id f) s'"
    and "ue_id f = ue_id (ue_frame u)" "ue_states f = ue_states (ue_frame u)"
  shows "unit_ok su att u (u\<lparr>ue_frame := f', ue_sub := s'\<rparr>)"
  using assms by (auto simp: unit_ok_def unit_attached_def sub_ok_def)

lemma unit_conditions_frame [simp]:
  "ue_id (unit_conditions f) = ue_id f" "ue_states (unit_conditions f) = ue_states f"
  "ue_load_state (unit_conditions f) = ue_load_state f" "ue_config (unit_conditions f) = ue_config f"
  by (simp_all add: unit_conditions_def Let_def)

lemma unit_start_cases:
  assumes "unit_start su sys u = Some (r, u')"
  defines "F \<equiv> {ue_frame u, unit_conditions (ue_frame u), unit_conditions (unit_conditions (ue_frame u))}"
  obtains (refused) e f where "r = Inl e" "e \<in> {UnitActionEAlready, UnitActionEAgain, UnitActionEInval}"
      "f \<in> F" "u' = u\<lparr>ue_frame := f\<rparr>"
    | (sub) f f' s' where "f \<in> F" "su_start su f (ue_sub u) = Some (r, f', s')" "u' = u\<lparr>ue_frame := f', ue_sub := s'\<rparr>"
proof -
  let ?a = "su_active_state su (ue_sub u)" and ?f1 = "unit_conditions (ue_frame u)"
  have frame: "u = u\<lparr>ue_frame := ue_frame u\<rparr>" by simp
  have res: thesis if "unit_sub_result u (su_start su f (ue_sub u)) = Some (r, u')" "f \<in> F" for f
    using that sub[of f] by (auto simp: unit_sub_result_def)
  consider (early) e where "unit_start su sys u = Some (Inl e, u)" "e \<in> {UnitActionEAlready, UnitActionEAgain, UnitActionEInval}"
    | (again) "unit_start su sys u = unit_sub_result u (su_start su (ue_frame u) (ue_sub u))"
    | (tested) "unit_start su sys u = do {
        ok1 \<leftarrow> conditions_test sys (ue_conditions ?f1);
        if \<not> ok1 then Some (Inl UnitActionEInval, u\<lparr>ue_frame := ?f1\<rparr>)
        else do {
          ok2 \<leftarrow> asserts_test sys (ue_conditions (unit_conditions ?f1));
          if \<not> ok2 then Some (Inl UnitActionEInval, u\<lparr>ue_frame := unit_conditions ?f1\<rparr>)
          else unit_sub_result u (su_start su (unit_conditions ?f1) (ue_sub u))
        }
      }"
    by (cases ?a; cases "ue_load_state (ue_frame u) = UnitLoaded") (simp_all add: unit_start_def Let_def cong: if_cong)
  then show ?thesis
  proof cases
    case early
    then show ?thesis using refused[of e "ue_frame u"] assms(1) by (auto simp: F_def)
  next
    case again
    then show ?thesis using res[of "ue_frame u"] assms(1) by (simp add: F_def)
  next
    case tested
    from assms(1)[unfolded tested] consider "r = Inl UnitActionEInval \<and> u' = u\<lparr>ue_frame := ?f1\<rparr>"
      | "r = Inl UnitActionEInval \<and> u' = u\<lparr>ue_frame := unit_conditions ?f1\<rparr>"
      | "unit_sub_result u (su_start su (unit_conditions ?f1) (ue_sub u)) = Some (r, u')"
      by (auto simp: bind_eq_Some_conv split: if_splits)
    then show ?thesis
      using refused[of UnitActionEInval ?f1] refused[of UnitActionEInval "unit_conditions ?f1"] res[of "unit_conditions ?f1"]
      by cases (simp_all add: F_def)
  qed
qed

subsection \<open>Steps of a unit\<close>

text \<open>What happens to a unit: actions of the job manager, the end of a child, the passing of time.\<close>

inductive unit_step :: "('d, 's) sub_unit \<Rightarrow> ('d, 's) unit_entry \<Rightarrow> ('d, 's) unit_entry \<Rightarrow> bool" for su where
  us_start: "unit_start su sys u = Some (r, u') \<Longrightarrow> unit_step su u u'"
| us_stop: "unit_stop su forced u = Some (r, u') \<Longrightarrow> unit_step su u u'"
| us_reload: "unit_reload su u = Some (r, u') \<Longrightarrow> unit_step su u u'"
| us_sigchld: "unit_sigchld_events su w u = Some u' \<Longrightarrow> unit_step su u u'"
| us_tick: "ul_now (ue_limits (ue_frame u)) \<le> t \<Longrightarrow>
    unit_step su u (u\<lparr>ue_frame := (ue_frame u)\<lparr>ue_limits := (ue_limits (ue_frame u))\<lparr>ul_now := t\<rparr>\<rparr>\<rparr>)"

subsection \<open>The contract\<close>

locale sub_unit_contract =
  fixes su :: "('d, 's) sub_unit"
    and attached :: "uid \<Rightarrow> 's \<Rightarrow> bool"
  assumes start_law: "attached (ue_id f) s \<Longrightarrow> su_start su f s = Some (r, f', s') \<Longrightarrow>
      sub_ok su f s f' s' \<and> attached (ue_id f) s' \<and> (\<forall>e. r = Inl e \<longrightarrow> e \<in> sub_errors)"
    and stop_law: "attached (ue_id f) s \<Longrightarrow> \<exists>r f' s'. su_stop su forced f s = Some (r, f', s') \<and>
      sub_ok su f s f' s' \<and> attached (ue_id f) s' \<and> (\<forall>e. r = Inl e \<longrightarrow> e \<in> sub_errors) \<and>
      su_active_state su s' \<in> stopped_states"
    and reload_law: "attached (ue_id f) s \<Longrightarrow> su_can_reload su s \<Longrightarrow> \<exists>f' s'. su_reload su f s = Some (Inr (), f', s') \<and>
      sub_ok su f s f' s' \<and> attached (ue_id f) s'"
    and sigchld_law: "attached (ue_id f) s \<Longrightarrow> su_sigchld su w f s = Some (f', s') \<Longrightarrow>
      sub_ok su f s f' s' \<and> attached (ue_id f) s'"
begin

lemma unit_start_ok:
  assumes "unit_attached attached u" and "unit_start su sys u = Some (r, u')"
  shows "unit_ok su attached u u'" and "\<And>e. r = Inl e \<Longrightarrow> e \<in> sub_errors \<union> {UnitActionEAlready, UnitActionEInval}"
proof -
  have "unit_ok su attached u u' \<and> (\<forall>e. r = Inl e \<longrightarrow> e \<in> sub_errors \<union> {UnitActionEAlready, UnitActionEInval})"
    using assms(2)
  proof (cases rule: unit_start_cases)
    case (refused e f)
    then show ?thesis using assms(1) by (auto simp: sub_errors_def intro!: unit_ok_quiet)
  next
    case (sub f f' s')
    then have f: "ue_id f = ue_id (ue_frame u)" "ue_states f = ue_states (ue_frame u)" by auto
    with sub assms(1) have "sub_ok su f (ue_sub u) f' s' \<and> attached (ue_id f) s' \<and> (\<forall>e. r = Inl e \<longrightarrow> e \<in> sub_errors)"
      using start_law[of f "ue_sub u"] by (simp add: unit_attached_def)
    then show ?thesis using sub(3) f by (auto intro: unit_ok_sub)
  qed
  then show "unit_ok su attached u u'" and "\<And>e. r = Inl e \<Longrightarrow> e \<in> sub_errors \<union> {UnitActionEAlready, UnitActionEInval}"
    by auto
qed

lemma unit_stop_ok:
  assumes "unit_attached attached u"
  obtains r u' where "unit_stop su forced u = Some (r, u')" "unit_ok su attached u u'"
    "su_active_state su (ue_sub u') \<in> stopped_states" "\<And>e. r = Inl e \<Longrightarrow> e \<in> sub_errors \<union> {UnitActionEAlready}"
proof (cases "\<not> forced \<and> su_active_state su (ue_sub u) \<in> {UnitInActive, UnitFailed}")
  case True
  then show ?thesis
    by (intro that[of "Inl UnitActionEAlready" u] unit_ok_refl assms) (auto simp: unit_stop_def stopped_states_def)
next
  case False
  from assms obtain r f s where s: "su_stop su forced (ue_frame u) (ue_sub u) = Some (r, f, s)"
      "sub_ok su (ue_frame u) (ue_sub u) f s" "attached (ue_id (ue_frame u)) s"
      "\<forall>e. r = Inl e \<longrightarrow> e \<in> sub_errors" "su_active_state su s \<in> stopped_states"
    using stop_law[of "ue_frame u" "ue_sub u" forced] unfolding unit_attached_def by blast
  then have "unit_stop su forced u = Some (r, u\<lparr>ue_frame := f, ue_sub := s\<rparr>)"
    using False by (auto simp: unit_stop_def unit_sub_result_def)
  then show ?thesis
    by (rule that) (use s in \<open>auto intro: unit_ok_sub\<close>)
qed

lemma unit_reload_ok:
  assumes "unit_attached attached u"
  obtains r u' where "unit_reload su u = Some (r, u')" "unit_ok su attached u u'"
    "\<And>e. r = Inl e \<Longrightarrow> u' = u \<and> e \<in> {UnitActionEBadR, UnitActionEAgain, UnitActionENoExec}"
proof (cases "su_can_reload su (ue_sub u) \<and> su_active_state su (ue_sub u) = UnitActive")
  case True
  with assms obtain f s where s: "su_reload su (ue_frame u) (ue_sub u) = Some (Inr (), f, s)"
      "sub_ok su (ue_frame u) (ue_sub u) f s" "attached (ue_id (ue_frame u)) s"
    using reload_law[of "ue_frame u" "ue_sub u"] unfolding unit_attached_def by blast
  then have "unit_reload su u = Some (Inr (), u\<lparr>ue_frame := f, ue_sub := s\<rparr>)"
    using True by (simp add: unit_reload_def unit_sub_result_def)
  then show ?thesis
    by (rule that) (use s in \<open>auto intro: unit_ok_sub\<close>)
next
  case False
  then have "\<exists>e\<in>{UnitActionEBadR, UnitActionEAgain, UnitActionENoExec}. unit_reload su u = Some (Inl e, u)"
    by (cases "su_can_reload su (ue_sub u)"; cases "su_active_state su (ue_sub u)") (simp_all add: unit_reload_def)
  then obtain e where "unit_reload su u = Some (Inl e, u)" "e \<in> {UnitActionEBadR, UnitActionEAgain, UnitActionENoExec}"
    by blast
  then show ?thesis
    by (intro that[of "Inl e" u] unit_ok_refl assms) auto
qed

lemma unit_sigchld_ok: "unit_attached attached u \<Longrightarrow> unit_sigchld_events su w u = Some u' \<Longrightarrow> unit_ok su attached u u'"
  using sigchld_law[of "ue_frame u" "ue_sub u" w]
  by (auto simp: unit_sigchld_events_def unit_attached_def intro: unit_ok_sub)

lemma unit_step_ok: "unit_step su u u' \<Longrightarrow> unit_attached attached u \<Longrightarrow> unit_ok su attached u u'"
proof (induction rule: unit_step.induct)
  case (us_start sys u r u')
  then show ?case using unit_start_ok(1) by blast
next
  case (us_stop forced u r u')
  then show ?case by (metis unit_stop_ok option.inject prod.inject)
next
  case (us_reload u r u')
  then show ?case by (metis unit_reload_ok option.inject prod.inject)
next
  case (us_sigchld w u u')
  then show ?case using unit_sigchld_ok by blast
next
  case (us_tick u t)
  then show ?case by (intro unit_ok_quiet) auto
qed

lemma unit_steps_ok: "(unit_step su)\<^sup>*\<^sup>* u u' \<Longrightarrow> unit_attached attached u \<Longrightarrow> unit_ok su attached u u'"
proof (induction rule: rtranclp_induct)
  case (step u1 u2)
  then have "unit_ok su attached u u1" by blast
  moreover from this have "unit_attached attached u1" by (simp add: unit_ok_def)
  ultimately show ?case using unit_step_ok step(2) unit_ok_trans by blast
qed (rule unit_ok_refl)

end

end
