(* ===== verification/Service_Thms.thy ===== *)
theory Service_Thms
  imports Service_Events
begin

section \<open>Services: the lemmas of the operations\<close>

text \<open>
  Two relations that every operation of a service keeps: the reports to the unit continue
  each other up to the current state (\<open>sv_ok\<close>), and a service that stops goes on stopping
  (\<open>stopping\<close>). \<open>signal_rule\<close> is the induction over the chain of signals of a stop.
\<close>

subsection \<open>Reports\<close>

text \<open>Following the reported state changes from \<open>a\<close>; \<open>None\<close> if one does not continue the last.\<close>

fun reports :: "unit_active_state \<Rightarrow> service_call list \<Rightarrow> unit_active_state option" where
  "reports a [] = Some a"
| "reports a (Notify os ns # cs) = (if os = a then reports ns cs else None)"
| "reports a (_ # cs) = reports a cs"

lemma reports_append: "reports a (cs @ ds) = Option.bind (reports a cs) (\<lambda>b. reports b ds)"
  by (induction a cs rule: reports.induct) auto

definition entered_states :: "service_state set" where
  "entered_states = {Dead, Condition, StartPre, Start, StartPost, Running, Exited, Reload, Stop, StopPost, StopSigterm,
     AutoRestart, Failed}"

definition sv_ok :: "('d, 'w) service_mng \<Rightarrow> ('d, 'w) service_mng \<Rightarrow> bool" where
  "sv_ok s s' \<longleftrightarrow> sm_owner s' = sm_owner s \<and> sm_config s' = sm_config s \<and> sm_control_cmd_type s' = sm_control_cmd_type s \<and>
     (sm_state s' = sm_state s \<or> sm_state s' \<in> entered_states) \<and>
     (\<exists>cs. sm_calls s' = sm_calls s @ cs \<and> (sm_owner s \<noteq> None \<longrightarrow> reports (current_active_state s) cs = Some (current_active_state s')))"

named_theorems sv_intros \<open>operations of a service that keep the reports in step with the state\<close>

lemma sv_ok_refl [sv_intros]: "sv_ok s s"
  by (simp add: sv_ok_def)

lemma sv_ok_trans: "sv_ok s s1 \<Longrightarrow> sv_ok s1 s2 \<Longrightarrow> sv_ok s s2"
  unfolding sv_ok_def by (elim conjE exE) (auto simp: reports_append)

definition silent :: "service_call list \<Rightarrow> bool" where
  "silent cs \<longleftrightarrow> (\<forall>c\<in>set cs. \<forall>a b. c \<noteq> Notify a b)"

lemma silent_simps [simp]:
  "silent []" "silent (c # cs) \<longleftrightarrow> (\<forall>a b. c \<noteq> Notify a b) \<and> silent cs" "silent (cs @ ds) \<longleftrightarrow> silent cs \<and> silent ds"
  by (auto simp: silent_def)

lemma reports_silent: "silent cs \<Longrightarrow> reports a cs = Some a"
proof (induction cs)
  case (Cons c cs)
  then show ?case by (cases c) auto
qed simp

text \<open>A step that changes neither the state nor what was reported.\<close>

lemma sv_ok_silent:
  assumes "sm_owner s' = sm_owner s" and "sm_config s' = sm_config s" and "sm_control_cmd_type s' = sm_control_cmd_type s"
    and "sm_state s' = sm_state s" and "sm_calls s' = sm_calls s @ cs" and "silent cs"
  shows "sv_ok s s'"
  using assms reports_silent[OF assms(6)] by (simp add: sv_ok_def current_active_state_def service_type_def)

lemmas sv_data_defs = sm_rd_upd_def sm_call_def set_result_def note_result_def reset_main_def reset_control_def
  set_control_def main_command_fill_def control_command_fill_def unwatch_main_def unwatch_control_def stop_watchdog_def
  enable_timer_def service_db_insert_def

lemma sv_step: "sv_ok s0 s \<Longrightarrow> sv_ok s s' \<Longrightarrow> sv_ok s0 s'"
  by (rule sv_ok_trans)

lemma sv_silent_ops [sv_intros]:
  "sv_ok s0 s \<Longrightarrow> sv_ok s0 (sm_rd_upd f s)"
  "sv_ok s0 s \<Longrightarrow> sv_ok s0 (set_result r s)"
  "sv_ok s0 s \<Longrightarrow> sv_ok s0 (note_result r s)"
  "sv_ok s0 s \<Longrightarrow> sv_ok s0 (reset_main s)"
  "sv_ok s0 s \<Longrightarrow> sv_ok s0 (reset_control s)"
  "sv_ok s0 s \<Longrightarrow> sv_ok s0 (set_control p s)"
  "sv_ok s0 s \<Longrightarrow> sv_ok s0 (main_command_fill s)"
  "sv_ok s0 s \<Longrightarrow> sv_ok s0 (control_command_fill k s)"
  "sv_ok s0 s \<Longrightarrow> sv_ok s0 (service_db_insert s)"
  "sv_ok s0 s \<Longrightarrow> sv_ok s0 (s\<lparr>sm_world := w\<rparr>)"
  "sv_ok s0 s \<Longrightarrow> sv_ok s0 (s\<lparr>sm_main_command := m\<rparr>)"
  "sv_ok s0 s \<Longrightarrow> sv_ok s0 (s\<lparr>sm_control_command := m\<rparr>)"
  "sv_ok s0 s \<Longrightarrow> sv_ok s0 (s\<lparr>sm_pid := d\<rparr>)"
  "sv_ok s0 s \<Longrightarrow> sv_ok s0 (s\<lparr>sm_monitor := mo\<rparr>)"
  by (erule sv_step, rule sv_ok_silent[where cs = "[]"];
      simp add: sv_data_defs split: option.splits)+

lemma sv_call_silent: "sv_ok s0 s \<Longrightarrow> silent [c] \<Longrightarrow> sv_ok s0 (sm_call c s)"
  by (erule sv_step, rule sv_ok_silent[where cs = "[c]"]) (simp_all add: sm_call_def)

lemma sv_calls [sv_intros]:
  "sv_ok s0 s \<Longrightarrow> sv_ok s0 (sm_call (WatchPid p) s)"
  "sv_ok s0 s \<Longrightarrow> sv_ok s0 (sm_call (UnwatchPid p) s)"
  "sv_ok s0 s \<Longrightarrow> sv_ok s0 (sm_call WatchAllPids s)"
  "sv_ok s0 s \<Longrightarrow> sv_ok s0 (sm_call (KillContext a b op) s)"
  "sv_ok s0 s \<Longrightarrow> sv_ok s0 (sm_call (TimerOn t) s)"
  "sv_ok s0 s \<Longrightarrow> sv_ok s0 (sm_call (WatchdogOn t) s)"
  "sv_ok s0 s \<Longrightarrow> sv_ok s0 (sm_call WatchdogOff s)"
  by (erule sv_call_silent; simp)+

lemma sv_unwatch [sv_intros]:
  "sv_ok s0 s \<Longrightarrow> sv_ok s0 (unwatch_main s)" "sv_ok s0 s \<Longrightarrow> sv_ok s0 (unwatch_control s)"
  by (auto simp: unwatch_main_def unwatch_control_def Let_def split: option.splits intro!: sv_intros)

lemma sv_set_main [sv_intros]: "sv_ok s0 s \<Longrightarrow> sv_ok s0 (snd (set_main p s))"
  by (auto simp: set_main_def Let_def split: prod.splits intro!: sv_intros)

lemma sv_spawn [sv_intros]:
  "sv_ok s0 s \<Longrightarrow> sv_ok s0 (snd (start_service os c fl s))" "sv_ok s0 s \<Longrightarrow> sv_ok s0 (snd (spawn_control os c s))"
  "sv_ok s0 s \<Longrightarrow> sv_ok s0 (snd (main_command_pop s))" "sv_ok s0 s \<Longrightarrow> sv_ok s0 (snd (control_command_pop s))"
  "sv_ok s0 s \<Longrightarrow> sv_ok s0 (snd (send_signal os st s))"
proof -
  show spawn: "sv_ok s0 s \<Longrightarrow> sv_ok s0 (snd (start_service os c fl s))" for s0 s fl
    by (auto simp: start_service_def split: option.splits prod.splits intro!: sv_intros)
  show "sv_ok s0 s \<Longrightarrow> sv_ok s0 (snd (spawn_control os c s))"
    using spawn[of s0 s CONTROL] by (auto simp: spawn_control_def split: option.splits prod.splits intro!: sv_intros)
  show "sv_ok s0 s \<Longrightarrow> sv_ok s0 (snd (main_command_pop s))" "sv_ok s0 s \<Longrightarrow> sv_ok s0 (snd (control_command_pop s))"
    by (auto simp: main_command_pop_def control_command_pop_def split: list.splits intro!: sv_intros)
  show "sv_ok s0 s \<Longrightarrow> sv_ok s0 (snd (send_signal os st s))"
    by (auto simp: send_signal_def Let_def split: option.splits prod.splits intro!: sv_intros)
qed

lemma unwatch_calls:
  "\<exists>cs. silent cs \<and> sm_calls (unwatch_main s) = sm_calls s @ cs" "\<exists>cs. silent cs \<and> sm_calls (unwatch_control s) = sm_calls s @ cs"
  by (cases "pd_main (sm_pid s)"; cases "sm_owner s"; simp add: unwatch_main_def sm_call_def)
     (cases "pd_control (sm_pid s)"; cases "sm_owner s"; simp add: unwatch_control_def sm_call_def)

lemma unwatch_sel [simp]:
  "sm_owner (unwatch_main s) = sm_owner s" "sm_config (unwatch_main s) = sm_config s" "sm_state (unwatch_main s) = sm_state s"
  "sm_owner (unwatch_control s) = sm_owner s" "sm_config (unwatch_control s) = sm_config s" "sm_state (unwatch_control s) = sm_state s"
  "sm_control_cmd_type (unwatch_main s) = sm_control_cmd_type s" "sm_control_cmd_type (unwatch_control s) = sm_control_cmd_type s"
  "sm_rd (unwatch_main s) = sm_rd s" "sm_rd (unwatch_control s) = sm_rd s"
  "sm_result (unwatch_main s) = sm_result s" "sm_result (unwatch_control s) = sm_result s"
  "sm_world (unwatch_main s) = sm_world s" "sm_world (unwatch_control s) = sm_world s"
  by (simp_all add: unwatch_main_def unwatch_control_def sm_call_def Let_def split: option.splits)

lemma set_state_sel [simp]:
  "sm_owner (set_state st s) = sm_owner s" "sm_config (set_state st s) = sm_config s" "sm_state (set_state st s) = st"
  "sm_control_cmd_type (set_state st s) = sm_control_cmd_type s" "sm_rd (set_state st s) = sm_rd s"
  "sm_result (set_state st s) = sm_result s" "sm_world (set_state st s) = sm_world s"
  by (simp_all add: set_state_def Let_def sm_call_def split: option.splits)

lemma set_state_calls:
  "\<exists>cs. silent cs \<and> sm_calls (set_state st s) = sm_calls s @ cs @
     (if sm_owner s = None then [] else [Notify (current_active_state s) (service_state_to_unit_state (service_type s) st)])"
proof -
  define s1 where "s1 = s\<lparr>sm_state := st\<rparr>"
  define s2 where "s2 = (if st \<in> set main_states then s1 else (unwatch_main s1)\<lparr>sm_main_command := []\<rparr>)"
  define s3 where "s3 = (if st \<in> set control_states then s2 else (unwatch_control s2)\<lparr>sm_control_command := []\<rparr>)"
  obtain c1 where c1: "silent c1" "sm_calls s2 = sm_calls s1 @ c1"
    using unwatch_calls(1)[of s1] by (cases "st \<in> set main_states") (auto simp: s2_def)
  obtain c2 where c2: "silent c2" "sm_calls s3 = sm_calls s2 @ c2"
    using unwatch_calls(2)[of s2] by (cases "st \<in> set control_states") (auto simp: s3_def)
  have "sm_calls (set_state st s) = sm_calls s3 @
      (if sm_owner s = None then [] else [Notify (current_active_state s) (service_state_to_unit_state (service_type s) st)])"
    by (simp add: set_state_def Let_def s1_def s2_def s3_def sm_call_def current_active_state_def split: option.splits)
  then show ?thesis using c1 c2 by (intro exI[of _ "c1 @ c2"]) (simp add: s1_def)
qed

lemma sv_set_state [sv_intros]:
  assumes "sv_ok s0 s" and "st \<in> entered_states"
  shows "sv_ok s0 (set_state st s)"
proof (rule sv_step[OF assms(1)])
  from set_state_calls[of st s] obtain cs where cs: "silent cs" "sm_calls (set_state st s) = sm_calls s @ cs @
     (if sm_owner s = None then [] else [Notify (current_active_state s) (service_state_to_unit_state (service_type s) st)])"
    by blast
  then show "sv_ok s (set_state st s)" using assms(2) reports_silent[OF cs(1)]
    by (auto simp: sv_ok_def reports_append current_active_state_def service_type_def)
qed

lemma entered_simps [simp]:
  "Dead \<in> entered_states" "Condition \<in> entered_states" "StartPre \<in> entered_states" "Start \<in> entered_states"
  "StartPost \<in> entered_states" "Running \<in> entered_states" "Exited \<in> entered_states" "Reload \<in> entered_states"
  "Stop \<in> entered_states" "StopPost \<in> entered_states" "StopSigterm \<in> entered_states" "AutoRestart \<in> entered_states"
  "Failed \<in> entered_states"
  by (simp_all add: entered_states_def)

subsection \<open>Every operation reports what it does\<close>

lemma sv_enter_dead [sv_intros]: "sv_ok s0 s \<Longrightarrow> sv_ok s0 (enter_dead os res b s)"
  by (auto simp: enter_dead_def enable_timer_def Let_def split: option.splits intro!: sv_intros)

lemma sv_watchdog [sv_intros]:
  "sv_ok s0 s \<Longrightarrow> sv_ok s0 (stop_watchdog s)" "sv_ok s0 s \<Longrightarrow> sv_ok s0 (restart_watchdog s)"
  "sv_ok s0 s \<Longrightarrow> sv_ok s0 (override_watchdog_usec u s)"
  by (auto simp: stop_watchdog_def restart_watchdog_def override_watchdog_usec_def Let_def intro!: sv_intros)

text \<open>
  The signals of a stop: what holds before and survives the calls that go out holds until
  the service runs its stop-post command or is dead.
\<close>

lemma signal_rule:
  fixes s :: "('d, 'w) service_mng"
  assumes send: "\<And>s st. I s \<Longrightarrow> I (snd (send_signal os st s))"
    and fill: "\<And>s r. I s \<Longrightarrow> I (control_command_fill CmdStopPost (note_result r s))"
    and pop: "\<And>s. I s \<Longrightarrow> I (snd (control_command_pop s))" and spawn: "\<And>s c. I s \<Longrightarrow> I (snd (spawn_control os c s))"
    and post: "\<And>s. I s \<Longrightarrow> Q (set_state StopPost s)" and dead: "\<And>s r. I s \<Longrightarrow> Q (enter_dead os r True s)"
  shows "I s \<Longrightarrow> Q (enter_signal os st res s)" "I s \<Longrightarrow> Q (enter_stop_post os res s)"
proof -
  have 0: "Q (enter_signal os st res s)" if "I s" "signal_rank st = 0" for s :: "('d, 'w) service_mng" and st res
    using that send[OF that(1), of st] dead
    by (subst enter_signal.simps) (auto simp: case_prod_unfold signal_rank_def split: if_splits)
  have 1: "Q (enter_signal os st res s)" if "I s" "signal_rank st \<le> 1" for s :: "('d, 'w) service_mng" and st res
    using that send[OF that(1), of st] dead 0[of "snd (send_signal os st s)" FinalSigkill Success]
    by (subst enter_signal.simps) (auto simp: case_prod_unfold signal_rank_def stop_states_def split: if_splits)
  have 2: "Q (enter_stop_post os res s)" if "I s" for s :: "('d, 'w) service_mng" and res
  proof -
    let ?s2 = "snd (control_command_pop (control_command_fill CmdStopPost (note_result res s)))"
    have i: "I ?s2" by (rule pop, rule fill) fact
    have f: "signal_rank FinalSigterm \<le> 1" by (simp add: signal_rank_def stop_states_def)
    show ?thesis using i spawn[OF i] post 1[OF _ f]
      by (subst enter_stop_post.simps) (simp add: Let_def case_prod_unfold split: option.splits bool.splits)
  qed
  have 3: "Q (enter_signal os st res s)" if "I s" for s :: "('d, 'w) service_mng" and st res
  proof (cases "st \<in> set stop_states")
    case True
    then show ?thesis using 2 send[OF that, of st] by (subst enter_signal.simps) (simp add: case_prod_unfold)
  next
    case False
    then show ?thesis using that by (intro 1) (simp_all add: signal_rank_def)
  qed
  show "I s \<Longrightarrow> Q (enter_signal os st res s)" "I s \<Longrightarrow> Q (enter_stop_post os res s)" using 2 3 by blast+
qed

lemma sv_enter_signal [sv_intros]:
  assumes "sv_ok s0 s"
  shows "sv_ok s0 (enter_signal os st res s)" "sv_ok s0 (enter_stop_post os res s)"
  by (rule signal_rule[where I = "sv_ok s0"]; (intro sv_intros; simp)?; fact assms)+

lemma sv_enter [sv_intros]:
  "sv_ok s0 s \<Longrightarrow> sv_ok s0 (enter_stop os res s)" "sv_ok s0 s \<Longrightarrow> sv_ok s0 (enter_stop_by_notify s)"
  by (auto simp: enter_stop_def enter_stop_by_notify_def Let_def case_prod_unfold split: option.splits bool.splits intro!: sv_intros)

lemma sv_enter_running [sv_intros]: "sv_ok s0 s \<Longrightarrow> sv_ok s0 (enter_running os res s)"
  by (auto simp: enter_running_def Let_def intro!: sv_intros)

lemma sv_enter_start_post [sv_intros]: "sv_ok s0 s \<Longrightarrow> sv_ok s0 (enter_start_post os s)"
  by (auto simp: enter_start_post_def Let_def case_prod_unfold split: option.splits bool.splits intro!: sv_intros)

lemma sv_enter_reload [sv_intros]: "sv_ok s0 s \<Longrightarrow> sv_ok s0 (enter_reload os s)"
  by (auto simp: enter_reload_def Let_def case_prod_unfold split: option.splits bool.splits intro!: sv_intros)

lemma sv_enter_start: "sv_ok s0 s \<Longrightarrow> enter_start os s = Some s' \<Longrightarrow> sv_ok s0 s'"
  by (auto simp: enter_start_def Let_def case_prod_unfold split: option.splits service_type.splits if_splits intro!: sv_intros)

lemma sv_enter_prestart: "sv_ok s0 s \<Longrightarrow> enter_prestart os s = Some s' \<Longrightarrow> sv_ok s0 s'"
  by (auto simp: enter_prestart_def Let_def case_prod_unfold split: option.splits bool.splits intro!: sv_intros
      elim!: sv_enter_start[rotated])

lemma sv_enter_contion: "sv_ok s0 s \<Longrightarrow> enter_contion os s = Some s' \<Longrightarrow> sv_ok s0 s'"
  by (auto simp: enter_contion_def Let_def case_prod_unfold split: option.splits bool.splits intro!: sv_intros
      elim!: sv_enter_prestart[rotated])

lemma sv_actions [sv_intros]:
  "sv_ok s0 s \<Longrightarrow> sv_ok s0 (stop_action os s)" "sv_ok s0 s \<Longrightarrow> sv_ok s0 (reload_action os s)"
  by (auto simp: stop_action_def reload_action_def Let_def intro!: sv_intros)

lemma sv_start_action: "sv_ok s0 s \<Longrightarrow> start_action os s = Some s' \<Longrightarrow> sv_ok s0 s'"
  by (auto simp: start_action_def Let_def intro!: sv_intros elim!: sv_enter_contion[rotated] split: if_splits)

lemma sv_start_check [sv_intros]: "sv_ok s0 s \<Longrightarrow> sv_ok s0 (snd (start_check os s))"
  by (auto simp: start_check_def Let_def case_prod_unfold split: option.splits intro!: sv_intros)

lemma sv_service_start: "sv_ok s0 s \<Longrightarrow> service_start os s = Some (r, s') \<Longrightarrow> sv_ok s0 s'"
  using sv_start_check[of s0 s os]
  by (auto simp: service_start_def split: prod.splits sum.splits if_splits intro: sv_start_action)

lemma sv_load_pid_file [sv_intros]: "sv_ok s0 s \<Longrightarrow> sv_ok s0 (snd (load_pid_file os s))"
  by (auto simp: load_pid_file_def case_prod_unfold split: option.splits pid_file.splits sum.splits bool.splits intro!: sv_intros)

lemma sv_unwatch_pid_file: "sv_ok s0 s \<Longrightarrow> unwatch_pid_file s = Some s' \<Longrightarrow> sv_ok s0 s'"
  by (auto simp: unwatch_pid_file_def elim!: bind_SomeE intro!: sv_intros)

lemma sv_retry_pid_file: "sv_ok s0 s \<Longrightarrow> retry_pid_file os s = Some (r, s') \<Longrightarrow> sv_ok s0 s'"
  using sv_load_pid_file[of s0 s os]
  by (auto simp: retry_pid_file_def elim!: bind_SomeE split: prod.splits sum.splits intro!: sv_intros intro: sv_unwatch_pid_file)

lemma sv_watch_pid_file:
  assumes "sv_ok s0 s" and "watch_pid_file os s = Some (r, s')"
  shows "sv_ok s0 s'"
proof -
  from assms(2) obtain path b where "rt_path_inotify (sm_rd s) = Some (path, b)"
    "(\<exists>r. retry_pid_file os (sm_rd_upd (\<lambda>d. d\<lparr>rt_path_inotify := Some (path, True)\<rparr>) s) = Some (r, s')) \<or> unwatch_pid_file s = Some s'"
    by (auto simp: watch_pid_file_def elim!: bind_SomeE split: if_splits)
  then show ?thesis using sv_retry_pid_file[OF sv_silent_ops(1)[OF assms(1)]] sv_unwatch_pid_file[OF assms(1)] by blast
qed

lemma sv_demand_pid_file: "sv_ok s0 s \<Longrightarrow> demand_pid_file os s = Some (r, s') \<Longrightarrow> sv_ok s0 s'"
  by (auto simp: demand_pid_file_def elim!: bind_SomeE sv_watch_pid_file[rotated] intro!: sv_intros)

lemma sv_guess [sv_intros]: "sv_ok s0 s \<Longrightarrow> sv_ok s0 (guess_main_pid os s)"
  by (auto simp: guess_main_pid_def case_prod_unfold split: option.splits intro!: sv_intros)

lemma sv_run_next [sv_intros]:
  "sv_ok s0 s \<Longrightarrow> sv_ok s0 (run_next_control os s)" "sv_ok s0 s \<Longrightarrow> sv_ok s0 (run_next_main os s)"
  by (auto simp: run_next_control_def run_next_main_def case_prod_unfold split: option.splits intro!: sv_intros)

lemma sv_path_dispatch:
  assumes "sv_ok s0 s" and "path_dispatch os b s = Some (r, s')"
  shows "sv_ok s0 s'"
  using assms unfolding path_dispatch_def
  by (auto elim!: bind_SomeE split: if_splits sum.splits intro!: sv_intros
      dest!: sv_retry_pid_file[OF assms(1)] sv_watch_pid_file[rotated] sv_unwatch_pid_file[rotated])

lemma sv_main_gone: "sv_ok s0 s \<Longrightarrow> main_gone os res s = Some s' \<Longrightarrow> sv_ok s0 s'"
  by (auto simp: main_gone_def split: service_state.splits if_splits intro!: sv_intros)

lemma sv_sigchld_main: "sv_ok s0 s \<Longrightarrow> sigchld_main os w res s = Some s' \<Longrightarrow> sv_ok s0 s'"
  using sv_load_pid_file[of s0 s os]
  by (auto simp: sigchld_main_def Let_def split: prod.splits if_splits intro!: sv_intros elim!: sv_main_gone[rotated])

lemma sv_forking_started: "sv_ok s0 s \<Longrightarrow> forking_started os s = Some s' \<Longrightarrow> sv_ok s0 s'"
  using sv_load_pid_file[of s0 s os]
  by (auto simp: forking_started_def elim!: bind_SomeE split: prod.splits if_splits sum.splits intro!: sv_intros
      dest: sv_demand_pid_file)

lemma sv_start_post_done:
  assumes "sv_ok s0 s" and "start_post_done os res s = Some s'"
  shows "sv_ok s0 s'"
proof -
  let ?s1 = "if res \<noteq> Success then enter_signal os StopSigterm res s else s"
  have 1: "sv_ok s0 ?s1" using assms(1) by (auto intro: sv_intros)
  show ?thesis using assms(2) sv_load_pid_file[OF 1, of os] 1 unfolding start_post_done_def Let_def
    by (auto elim!: bind_SomeE split: prod.splits if_splits sum.splits intro!: sv_intros dest: sv_demand_pid_file)
qed

lemma sv_control_gone: "sv_ok s0 s \<Longrightarrow> control_gone os res s = Some s' \<Longrightarrow> sv_ok s0 s'"
  by (auto simp: control_gone_def split: service_state.splits if_splits intro!: sv_intros
      intro: sv_enter_prestart sv_enter_start sv_forking_started sv_start_post_done)

lemma sv_sigchld_event: "sv_ok s0 s \<Longrightarrow> sigchld_event os w s = Some s' \<Longrightarrow> sv_ok s0 s'"
  by (auto simp: sigchld_event_def do_sigchld_event_def sigchld_control_def Let_def elim!: bind_SomeE split: if_splits
      intro!: sv_intros elim!: sv_sigchld_main[rotated] sv_control_gone[rotated])

lemma sv_notify_one: "sv_ok s0 s \<Longrightarrow> notify_one os kv s = Some s' \<Longrightarrow> sv_ok s0 s'"
  by (cases kv) (auto simp: notify_one_def force_watchdog_def Let_def elim!: bind_SomeE
      split: if_splits option.splits intro!: sv_intros)

lemma sv_notify_main_pid [sv_intros]: "sv_ok s0 s \<Longrightarrow> sv_ok s0 (snd (notify_main_pid os u p s))"
  by (auto simp: notify_main_pid_def split: option.splits sum.splits intro!: sv_intros)

lemma sv_notify_message:
  assumes "sv_ok s0 s" and "notify_message os ucred msgs s = Some (r, s')"
  shows "sv_ok s0 s'"
proof -
  let ?m = "case map_of msgs ''MAINPID'' of Some pidr \<Rightarrow> notify_main_pid os ucred pidr s | None \<Rightarrow> (Inr (), s)"
  have 1: "sv_ok s0 (snd ?m)" using assms(1) by (cases "map_of msgs ''MAINPID''") (auto intro: sv_intros)
  from assms(2) obtain s2 where s2: "s' = service_db_insert s2" "s2 = snd ?m \<or> for_each (notify_one os) msgs (snd ?m) = Some s2"
    by (auto simp: notify_message_def do_notify_message_def split: prod.splits sum.splits)
  have "sv_ok s0 s2"
  proof (cases "s2 = snd ?m")
    case False
    then have "for_each (notify_one os) msgs (snd ?m) = Some s2" using s2(2) by blast
    then show ?thesis by (rule for_each_inv[where I = "sv_ok s0"]) (use 1 sv_notify_one in blast)+
  qed (use 1 in simp)
  then show ?thesis unfolding s2(1) by (intro sv_intros)
qed

lemma sv_timer_dispatch: "sv_ok s0 s \<Longrightarrow> timer_dispatch os s = Some s' \<Longrightarrow> sv_ok s0 s'"
  by (auto simp: timer_dispatch_def enter_restart_def elim!: bind_SomeE split: service_state.splits prod.splits if_splits
      intro!: sv_intros)

lemma sv_watchdog_dispatch [sv_intros]: "sv_ok s0 s \<Longrightarrow> sv_ok s0 (watchdog_dispatch os s)"
  by (auto simp: watchdog_dispatch_def intro!: sv_intros)

subsection \<open>The service as a transition system\<close>

inductive service_step :: "'w service_os \<Rightarrow> ('d, 'w) service_mng \<Rightarrow> ('d, 'w) service_mng \<Rightarrow> bool" for os where
  sv_start: "service_start os s = Some (r, s') \<Longrightarrow> service_step os s s'"
| sv_stop: "service_step os s (snd (service_stop os force s))"
| sv_reload: "service_step os s (reload_action os s)"
| sv_sigchld: "sigchld_event os wait s = Some s' \<Longrightarrow> service_step os s s'"
| sv_notify: "notify_message os ucred msgs s = Some (r, s') \<Longrightarrow> service_step os s s'"
| sv_path: "path_dispatch os b s = Some (r, s') \<Longrightarrow> service_step os s s'"
| sv_timer: "timer_dispatch os s = Some s' \<Longrightarrow> service_step os s s'"
| sv_dog: "service_step os s (watchdog_dispatch os s)"
| sv_world: "service_step os s (s\<lparr>sm_world := w\<rparr>)"

lemma service_step_ok: "service_step os s s' \<Longrightarrow> sv_ok s s'"
proof (induction rule: service_step.induct)
  case (sv_start s r s')
  then show ?case using sv_service_start[OF sv_ok_refl] by blast
next
  case (sv_sigchld wait s s')
  then show ?case using sv_sigchld_event[OF sv_ok_refl] by blast
next
  case (sv_notify ucred msgs s r s')
  then show ?case using sv_notify_message[OF sv_ok_refl] by blast
next
  case (sv_path b s r s')
  then show ?case using sv_path_dispatch[OF sv_ok_refl] by blast
next
  case (sv_timer s s')
  then show ?case using sv_timer_dispatch[OF sv_ok_refl] by blast
qed (auto simp: service_stop_def intro!: sv_intros)

lemma service_steps_ok: "(service_step os)\<^sup>*\<^sup>* s s' \<Longrightarrow> sv_ok s s'"
  by (induction rule: rtranclp_induct) (auto intro: sv_ok_refl sv_ok_trans service_step_ok)

subsection \<open>Stopping\<close>

text \<open>The calls that prepare a step change neither the state nor the runtime data.\<close>

lemma service_frame [simp]:
  "sm_owner (sm_call c s) = sm_owner s" "sm_state (sm_call c s) = sm_state s" "sm_rd (sm_call c s) = sm_rd s"
  "sm_owner (sm_rd_upd f s) = sm_owner s" "sm_state (sm_rd_upd f s) = sm_state s" "sm_rd (sm_rd_upd f s) = f (sm_rd s)"
  "sm_pid (sm_call c s) = sm_pid s" "sm_pid (sm_rd_upd f s) = sm_pid s"
  "sm_owner (note_result r s) = sm_owner s" "sm_state (note_result r s) = sm_state s" "sm_rd (note_result r s) = sm_rd s"
  "sm_pid (note_result r s) = sm_pid s"
  "sm_owner (control_command_fill k s) = sm_owner s" "sm_state (control_command_fill k s) = sm_state s" "sm_rd (control_command_fill k s) = sm_rd s"
  "sm_owner (service_db_insert s) = sm_owner s" "sm_state (service_db_insert s) = sm_state s" "sm_rd (service_db_insert s) = sm_rd s"
  "sm_pid (service_db_insert s) = sm_pid s"
  by (simp_all add: sm_call_def sm_rd_upd_def note_result_def set_result_def control_command_fill_def service_db_insert_def split: option.splits)

lemma service_frame_snd [simp]:
  "sm_owner (snd (control_command_pop s)) = sm_owner s" "sm_state (snd (control_command_pop s)) = sm_state s"
  "sm_rd (snd (control_command_pop s)) = sm_rd s"
  "sm_owner (snd (main_command_pop s)) = sm_owner s" "sm_state (snd (main_command_pop s)) = sm_state s"
  "sm_rd (snd (main_command_pop s)) = sm_rd s"
  "sm_owner (snd (start_service os c fl s)) = sm_owner s" "sm_state (snd (start_service os c fl s)) = sm_state s"
  "sm_rd (snd (start_service os c fl s)) = sm_rd s"
  "sm_owner (snd (send_signal os st s)) = sm_owner s" "sm_state (snd (send_signal os st s)) = sm_state s"
  "sm_rd (snd (send_signal os st s)) = sm_rd s"
  "sm_owner (snd (set_main p s)) = sm_owner s" "sm_state (snd (set_main p s)) = sm_state s" "sm_rd (snd (set_main p s)) = sm_rd s"
  by (simp_all add: control_command_pop_def main_command_pop_def start_service_def send_signal_def set_main_def Let_def
      split: list.splits option.splits prod.splits)

lemma spawn_control_frame [simp]:
  "sm_owner (snd (spawn_control os c s)) = sm_owner s" "sm_state (snd (spawn_control os c s)) = sm_state s"
  "sm_rd (snd (spawn_control os c s)) = sm_rd s"
  by (simp_all add: spawn_control_def set_control_def case_prod_unfold split: option.splits)

definition stopping :: "('d, 'w) service_mng \<Rightarrow> bool" where
  "stopping s \<longleftrightarrow> sm_owner s \<noteq> None \<and>
     (sm_state s \<in> {Stop, StopPost} \<and> rt_forbid_restart (sm_rd s) \<or>
      sm_state s \<in> {Dead, Failed} \<and> pd_main (sm_pid s) = None \<and> pd_control (sm_pid s) = None)"

lemma stopping_db [simp]: "stopping (service_db_insert s) = stopping s"
  by (simp add: stopping_def)

lemma set_state_dead:
  "st \<in> {Dead, Failed} \<Longrightarrow> pd_main (sm_pid (set_state st s)) = None \<and> pd_control (sm_pid (set_state st s)) = None"
  by (auto simp: set_state_def Let_def main_states_def control_states_def unwatch_main_def unwatch_control_def
      pid_reset_main_def pid_reset_control_def sm_call_def split: option.splits)

lemma enter_dead_stopping:
  assumes "sm_owner s \<noteq> None" and "rt_forbid_restart (sm_rd s)"
  shows "stopping (enter_dead os res b s)"
proof -
  let ?st = "if sm_result (note_result res s) = Success then Dead else Failed"
  have "\<not> shall_restart os (note_result res s)" using assms(2) by (simp add: shall_restart_def)
  then have "enter_dead os res b s = sm_rd_upd (\<lambda>d. d\<lparr>rt_forbid_restart := False\<rparr>)
      (sm_rd_upd (\<lambda>d. d\<lparr>rt_reset_restarts := True\<rparr>) (set_state ?st (note_result res s)))"
    using assms(1) by (auto simp: enter_dead_def Let_def)
  then show ?thesis using assms(1) set_state_dead[of ?st "note_result res s"] by (auto simp: stopping_def)
qed

lemma enter_signal_stopping:
  assumes "sm_owner s \<noteq> None \<and> rt_forbid_restart (sm_rd s)"
  shows "stopping (enter_signal os st res s)" "stopping (enter_stop_post os res s)"
proof -
  let ?I = "\<lambda>s. sm_owner s \<noteq> None \<and> rt_forbid_restart (sm_rd s)"
  have post: "stopping (set_state StopPost s)" if "?I s" for s :: "('c, 'd) service_mng"
    using that by (simp add: stopping_def)
  have dead: "stopping (enter_dead os r True s)" if "?I s" for r and s :: "('c, 'd) service_mng" and os
    using that by (simp add: enter_dead_stopping)
  show "stopping (enter_signal os st res s)" "stopping (enter_stop_post os res s)"
    by (rule signal_rule[where I = ?I, OF _ _ _ _ post dead assms]; simp)+
qed

lemma enter_stop_stopping:
  assumes "sm_owner s \<noteq> None" and "rt_forbid_restart (sm_rd s)"
  shows "stopping (enter_stop os res s)"
proof -
  let ?s = "snd (control_command_pop (control_command_fill CmdStop (note_result res s)))"
  have "stopping (set_state Stop (snd (spawn_control os c ?s)))" "stopping (enter_signal os StopSigterm r (snd (spawn_control os c ?s)))"
    "stopping (enter_signal os StopSigterm r ?s)" for c r
    using assms by (simp_all add: enter_signal_stopping) (simp add: stopping_def)
  then show ?thesis
    by (simp add: enter_stop_def Let_def case_prod_unfold split: option.splits bool.splits)
qed

lemma load_pid_file_frame:
  "sm_owner (snd (load_pid_file os s)) = sm_owner s" "sm_state (snd (load_pid_file os s)) = sm_state s"
  "sm_rd (snd (load_pid_file os s)) = sm_rd s"
  by (simp_all add: load_pid_file_def case_prod_unfold split: option.splits pid_file.splits sum.splits bool.splits)

text \<open>While a service stops, the end of one of its processes moves the stop along.\<close>

lemma sigchld_stopping:
  assumes st: "stopping s" and w: "sigchld_result wait = Some res"
  shows "\<exists>s'. sigchld_event os wait s = Some s' \<and> stopping s'"
proof -
  obtain p where p: "wait_status_pid wait = Some p" using w by (cases wait) auto
  have main: "\<exists>s'. sigchld_main os wait res s = Some s' \<and> stopping s'" if "pd_main (sm_pid s) = Some p"
  proof -
    from that st have f: "sm_owner s \<noteq> None" "sm_state s \<in> {Stop, StopPost}" "rt_forbid_restart (sm_rd s)" by (auto simp: stopping_def)
    obtain l s0 where l: "load_pid_file os s = (l, s0)" by fastforce
    then have s0: "sm_owner s0 \<noteq> None" "sm_state s0 \<in> {Stop, StopPost}" "rt_forbid_restart (sm_rd s0)"
      using load_pid_file_frame[of os s] f by simp_all
    let ?s2 = "note_result res (sm_rd_upd (\<lambda>d. d\<lparr>rt_exec_status := wait\<rparr>) (reset_main s0))"
    have i2: "sm_owner ?s2 \<noteq> None" "sm_state ?s2 \<in> {Stop, StopPost}" "rt_forbid_restart (sm_rd ?s2)"
      using s0 by (simp_all add: reset_main_def)
    have next': "stopping (run_next_main os ?s2)" using i2
      by (auto simp: run_next_main_def case_prod_unfold stopping_def simp del: service_frame split: option.splits)
    have "main_gone os res (?s2\<lparr>sm_main_command := []\<rparr>) = Some (?s2\<lparr>sm_main_command := []\<rparr>)"
      using i2(2) by (auto simp: main_gone_def)
    then show ?thesis using l s0 i2 next' by (auto simp: sigchld_main_def Let_def stopping_def)
  qed
  have control: "\<exists>s'. sigchld_control os res s = Some s' \<and> stopping s'" if "pd_control (sm_pid s) = Some p"
  proof -
    let ?s1 = "reset_control s"
    from that st have f: "sm_owner ?s1 \<noteq> None" "sm_state ?s1 \<in> {Stop, StopPost}" "rt_forbid_restart (sm_rd ?s1)"
      by (auto simp: stopping_def reset_control_def)
    have "stopping (run_next_control os ?s1)" using f
      by (auto simp: run_next_control_def case_prod_unfold stopping_def split: option.splits)
    moreover have "\<exists>s'. control_gone os res (?s1\<lparr>sm_control_command := []\<rparr>) = Some s' \<and> stopping s'"
      using f by (auto simp: control_gone_def intro!: enter_signal_stopping)
    ultimately show ?thesis by (simp add: sigchld_control_def Let_def)
  qed
  show ?thesis using main control p w st by (auto simp: sigchld_event_def do_sigchld_event_def)
qed

lemma service_stop_stopping: "sm_owner s \<noteq> None \<Longrightarrow> stopping (snd (service_stop os force s))"
  by (simp add: service_stop_def stop_action_def Let_def enter_signal_stopping enter_stop_stopping)

lemma sigchlds_stopping:
  assumes "stopping s" and "\<forall>w\<in>set ws. sigchld_result w \<noteq> None"
  shows "\<exists>s'. for_each (sigchld_event os) ws s = Some s' \<and> stopping s'"
  using assms
proof (induction ws arbitrary: s)
  case (Cons w ws)
  from Cons.prems(2) obtain res where "sigchld_result w = Some res" by auto
  from sigchld_stopping[OF Cons.prems(1) this, of os] obtain s1 where "sigchld_event os w s = Some s1" "stopping s1" by blast
  then show ?case using Cons.IH[of s1] Cons.prems(2) by simp
qed simp

end
