(* ===== verification/Unit_Subs.thy ===== *)
theory Unit_Subs
  imports Unit_Contract Service_Thms
begin

section \<open>The sub units: targets, mounts and services (coms/target, coms/mount, coms/service)\<close>

text \<open>
  The plugin objects behind \<open>dyn SubUnit\<close>. Targets (\<open>coms/target\<close>) and mounts (\<open>coms/mount\<close>) are
  modelled here; a service is \<open>service_mng\<close> with its calls into the owner connected to the
  unit's frame. Each gives a method table \<open>sub_unit\<close>; \<open>any_sub\<close> dispatches on the kind of the
  object. The unit manager a sub unit calls (\<open>UmIf\<close>) is the record \<open>um_if\<close> on a world \<open>'w\<close>.
\<close>

record 'w um_if =
  um_dependency_list :: "uid \<Rightarrow> unit_relation_atom \<Rightarrow> 'w \<Rightarrow> uid list"
  um_has_default_dependency :: "uid \<Rightarrow> 'w \<Rightarrow> bool"
  um_has_dependency :: "uid \<Rightarrow> unit_relation_atom \<Rightarrow> uid \<Rightarrow> 'w \<Rightarrow> bool"
  um_add_dependency :: "uid \<Rightarrow> unit_relations \<Rightarrow> uid \<Rightarrow> bool \<Rightarrow> 'w \<Rightarrow> (error + unit) \<times> 'w"

subsection \<open>Targets\<close>

datatype target_state = TargetDead | TargetActive | TargetStateMax

fun target_to_unit_state :: "target_state \<Rightarrow> unit_active_state" where
  "target_to_unit_state TargetDead = UnitInActive"
| "target_to_unit_state TargetStateMax = UnitInActive"
| "target_to_unit_state TargetActive = UnitActive"

record ('d, 'w) target_mng =
  tm_owner :: "uid option"
  tm_state :: target_state
  tm_re :: "('d, uid, target_state) redb"
  tm_world :: 'w

definition target_mng_new :: "('d, uid, target_state) redb \<Rightarrow> 'w \<Rightarrow> ('d, 'w) target_mng" where
  "target_mng_new re w = \<lparr>tm_owner = None, tm_state = TargetStateMax, tm_re = re, tm_world = w\<rparr>"

definition target_db_map :: "('d, 'w) target_mng \<Rightarrow> ('d, 'w) target_mng" where
  "target_db_map t = (case Option.bind (tm_owner t) (redb_get (tm_re t)) of
     Some st \<Rightarrow> t\<lparr>tm_state := st\<rparr> | None \<Rightarrow> t)"

definition target_db_insert :: "('d, 'w) target_mng \<Rightarrow> ('d, 'w) target_mng" where
  "target_db_insert t = (case tm_owner t of
     Some u \<Rightarrow> t\<lparr>tm_re := redb_insert u (tm_state t) (tm_re t)\<rparr> | None \<Rightarrow> t)"

definition target_attach :: "uid \<Rightarrow> ('d, 'w) target_mng \<Rightarrow> ('d, 'w) target_mng" where
  "target_attach u t = target_db_insert (t\<lparr>tm_owner := Some u\<rparr>)"

definition target_set_state ::
  "target_state \<Rightarrow> bool \<Rightarrow> 'd unit_frame \<Rightarrow> ('d, 'w) target_mng \<Rightarrow> ('d unit_frame \<times> ('d, 'w) target_mng) option" where
  "target_set_state new_state notify f t = (
     let old_state = tm_state t; t1 = t\<lparr>tm_state := new_state\<rparr> in
     if notify then do {
       tm_owner t1;
       Some (unit_notify (target_to_unit_state old_state) (target_to_unit_state new_state) UNIT_NOTIFY_RELOAD_FAILURE f,
             target_db_insert t1)
     } else Some (f, t1))"

definition target_start ::
  "'d unit_frame \<Rightarrow> ('d, 'w) target_mng \<Rightarrow> ((error + unit) \<times> 'd unit_frame \<times> ('d, 'w) target_mng) option" where
  "target_start f t =
     (if tm_state t = TargetActive then Some (Inl UnitActionEAgain, f, t)
      else map_option (Pair (Inr ())) (target_set_state TargetActive True f t))"

definition target_stop ::
  "bool \<Rightarrow> 'd unit_frame \<Rightarrow> ('d, 'w) target_mng \<Rightarrow> ((error + unit) \<times> 'd unit_frame \<times> ('d, 'w) target_mng) option" where
  "target_stop forced f t =
     (if \<not> forced \<and> tm_state t = TargetDead then Some (Inl UnitActionEAgain, f, t)
      else map_option (Pair (Inr ())) (target_set_state TargetDead True f t))"

text \<open>\<open>add_default_dependencies\<close>: the loop over the units that want the target.\<close>

fun target_add_deps :: "'w um_if \<Rightarrow> uid \<Rightarrow> uid list \<Rightarrow> 'w \<Rightarrow> 'w" where
  "target_add_deps um u [] w = w"
| "target_add_deps um u (d # ds) w =
     (if \<not> um_has_default_dependency um d w then target_add_deps um u ds w
      else if um_has_dependency um u UnitAtomBefore d w then target_add_deps um u ds w
      else (case um_add_dependency um u UnitAfter d True w of
          (Inl _, w1) \<Rightarrow> w1
        | (Inr _, w1) \<Rightarrow> target_add_deps um u ds w1))"

definition target_add_default_dependencies :: "'w um_if \<Rightarrow> 'd unit_frame \<Rightarrow> ('d, 'w) target_mng \<Rightarrow> ('d, 'w) target_mng" where
  "target_add_default_dependencies um f t = (case tm_owner t of
     None \<Rightarrow> t
   | Some u \<Rightarrow> if \<not> DefaultDependencies (ue_config f) then t
       else t\<lparr>tm_world := target_add_deps um u
                (um_dependency_list um u UnitAtomAddDefaultTargetDependencyQueue (tm_world t)) (tm_world t)\<rparr>)"

text \<open>A target does not override \<open>reload\<close> and \<open>can_reload\<close> of the trait.\<close>

definition target_sub :: "'w um_if \<Rightarrow> ('d, ('d, 'w) target_mng) sub_unit" where
  "target_sub um = \<lparr>su_load = (\<lambda>_ f t. Some (Inr (), f, target_add_default_dependencies um f t)),
     su_start = target_start, su_stop = target_stop, su_reload = (\<lambda>f t. Some (Inl UnitActionEOpNotSupp, f, t)),
     su_can_reload = (\<lambda>_. False), su_sigchld = (\<lambda>_ f s. Some (f, s)), su_active_state = (\<lambda>t. target_to_unit_state (tm_state t)),
     su_db_map = (\<lambda>t. Some (target_db_map t)), su_attach = (\<lambda>u t. Some (target_attach u t))\<rparr>"

subsection \<open>Mounts\<close>

datatype mount_state = MountDead | MountMounted

fun mount_state_to_unit_state :: "mount_state \<Rightarrow> unit_active_state" where
  "mount_state_to_unit_state MountDead = UnitInActive"
| "mount_state_to_unit_state MountMounted = UnitActive"

record 'd mount_mng =
  mm_owner :: "uid option"
  mm_state :: mount_state
  mm_re :: "('d, uid, mount_state) redb"

definition mount_mng_new :: "('d, uid, mount_state) redb \<Rightarrow> 'd mount_mng" where
  "mount_mng_new re = \<lparr>mm_owner = None, mm_state = MountDead, mm_re = re\<rparr>"

definition mount_owner_id :: "'d mount_mng \<Rightarrow> uid" where
  "mount_owner_id m = (case mm_owner m of Some u \<Rightarrow> u | None \<Rightarrow> ''None'')"

definition mount_db_map :: "'d mount_mng \<Rightarrow> 'd mount_mng" where
  "mount_db_map m = (case redb_get (mm_re m) (mount_owner_id m) of
     Some st \<Rightarrow> m\<lparr>mm_state := st\<rparr> | None \<Rightarrow> m)"

definition mount_db_insert :: "'d mount_mng \<Rightarrow> 'd mount_mng" where
  "mount_db_insert m = m\<lparr>mm_re := redb_insert (mount_owner_id m) (mm_state m) (mm_re m)\<rparr>"

definition mount_attach :: "uid \<Rightarrow> 'd mount_mng \<Rightarrow> 'd mount_mng" where
  "mount_attach u m = mount_db_insert (m\<lparr>mm_owner := Some u\<rparr>)"

definition mount_set_state :: "mount_state \<Rightarrow> bool \<Rightarrow> 'd unit_frame \<Rightarrow> 'd mount_mng \<Rightarrow> 'd unit_frame \<times> 'd mount_mng" where
  "mount_set_state new_state notify f m = (
     let old_state = mm_state m; m1 = m\<lparr>mm_state := new_state\<rparr> in
     if notify then
       (case mm_owner m1 of
          Some _ \<Rightarrow> unit_notify (mount_state_to_unit_state old_state) (mount_state_to_unit_state new_state)
                      UNIT_NOTIFY_RELOAD_FAILURE f
        | None \<Rightarrow> f, mount_db_insert m1)
     else (f, m1))"

definition mount_start_check ::
  "'d unit_frame \<Rightarrow> 'd mount_mng \<Rightarrow> (error + bool) \<times> 'd unit_frame \<times> 'd mount_mng" where
  "mount_start_check f m = (
     let (ret, f1) = (case mm_owner m of None \<Rightarrow> (False, f) | Some _ \<Rightarrow> test_start_limit f)
     in if \<not> ret then (Inl UnitActionECanceled, mount_set_state MountDead True f1 m) else (Inr False, f1, m))"

definition mount_start :: "'d unit_frame \<Rightarrow> 'd mount_mng \<Rightarrow> (error + unit) \<times> 'd unit_frame \<times> 'd mount_mng" where
  "mount_start f m = (case mount_start_check f m of
     (Inl e, f1, m1) \<Rightarrow> (Inl e, f1, m1)
   | (Inr started, f1, m1) \<Rightarrow> if started then (Inr (), f1, m1) else (Inr (), mount_set_state MountMounted True f1 m1))"

definition mount_stop :: "bool \<Rightarrow> 'd unit_frame \<Rightarrow> 'd mount_mng \<Rightarrow> (error + unit) \<times> 'd unit_frame \<times> 'd mount_mng" where
  "mount_stop forced f m = (Inr (), mount_set_state MountDead True f m)"

definition mount_load :: "string list \<Rightarrow> 'd unit_frame \<Rightarrow> 'd mount_mng \<Rightarrow> (error + unit) \<times> 'd unit_frame \<times> 'd mount_mng" where
  "mount_load paths f m = (Inr (), case mm_owner m of Some _ \<Rightarrow> set_ignore_on_isolate True f | None \<Rightarrow> f, m)"

definition mount_sub :: "('d, 'd mount_mng) sub_unit" where
  "mount_sub = \<lparr>su_load = (\<lambda>p f m. Some (mount_load p f m)), su_start = (\<lambda>f m. Some (mount_start f m)),
     su_stop = (\<lambda>b f m. Some (mount_stop b f m)), su_reload = (\<lambda>f m. Some (Inl UnitActionEOpNotSupp, f, m)),
     su_can_reload = (\<lambda>_. False), su_sigchld = (\<lambda>_ f s. Some (f, s)), su_active_state = (\<lambda>m. mount_state_to_unit_state (mm_state m)),
     su_db_map = (\<lambda>m. Some (mount_db_map m)), su_attach = (\<lambda>u m. Some (mount_attach u m))\<rparr>"

subsection \<open>Services\<close>

text \<open>
  \<open>owner_os\<close> connects \<open>test_start_limit\<close> of a service to the limits of its unit, which travel
  beside the rest of the world. After the call the limits are put back into the frame and
  the reports of \<open>set_state\<close> are made through \<open>Unit::notify\<close>.
\<close>

definition owner_os :: "uid \<Rightarrow> u64 \<Rightarrow> u32 \<Rightarrow> 'v service_os \<Rightarrow> (ue_limit \<times> 'v) service_os" where
  "owner_os u interval burst os =
     \<lparr>os_spawn = (\<lambda>a b c d (l, v). case os_spawn os a b c d v of (r, v1) \<Rightarrow> (r, l, v1)),
      os_kill = (\<lambda>a b c d (l, v). case os_kill os a b c d v of (r, v1) \<Rightarrow> (r, l, v1)),
      os_alive = (\<lambda>p (l, v). os_alive os p v), os_cg_empty = (\<lambda>a (l, v). os_cg_empty os a v),
      os_pid_file = (\<lambda>p (l, v). os_pid_file os p v), os_getpid = os_getpid os,
      os_same_unit = (\<lambda>a p (l, v). os_same_unit os a p v), os_guess_main = (\<lambda>a (l, v). os_guess_main os a v),
      os_watch_path = (\<lambda>p (l, v). os_watch_path os p v), os_has_stop_job = (\<lambda>a (l, v). os_has_stop_job os a v),
      os_restart_unit = (\<lambda>a (l, v). case os_restart_unit os a v of (r, v1) \<Rightarrow> (r, l, v1)),
      os_start_limit = (\<lambda>_ (l, v). case limit_test u interval burst l of (r, l1) \<Rightarrow> (r, l1, v)),
      os_signal_name = os_signal_name os, os_from_raw = os_from_raw os\<rparr>"

definition frame_os :: "'v service_os \<Rightarrow> 'd unit_frame \<Rightarrow> (ue_limit \<times> 'v) service_os" where
  "frame_os os f = owner_os (ue_id f) (StartLimitInterval (ue_config f)) (StartLimitBurst (ue_config f)) os"

fun relay :: "service_call list \<Rightarrow> 'd unit_frame \<Rightarrow> 'd unit_frame" where
  "relay [] f = f"
| "relay (Notify os ns # cs) f = relay cs (unit_notify os ns UNIT_NOTIFY_RELOAD_FAILURE f)"
| "relay (_ # cs) f = relay cs f"

type_synonym ('d, 'v) owned_service = "('d, ue_limit \<times> 'v) service_mng"

definition call_in :: "'d unit_frame \<Rightarrow> ('d, 'v) owned_service \<Rightarrow> ('d, 'v) owned_service" where
  "call_in f s = s\<lparr>sm_world := (ue_limits f, snd (sm_world s)), sm_calls := []\<rparr>"

definition call_out :: "'d unit_frame \<Rightarrow> ('d, 'v) owned_service \<Rightarrow> 'd unit_frame \<times> ('d, 'v) owned_service" where
  "call_out f s = (relay (sm_calls s) (f\<lparr>ue_limits := fst (sm_world s)\<rparr>), s)"

definition service_sub ::
  "(string list \<Rightarrow> 'd unit_frame \<Rightarrow> ('d, 'v) owned_service \<Rightarrow> ((error + unit) \<times> 'd unit_frame \<times> ('d, 'v) owned_service) option)
     \<Rightarrow> 'v service_os \<Rightarrow> ('d, ('d, 'v) owned_service) sub_unit" where
  "service_sub load os =
     \<lparr>su_load = load,
      su_start = (\<lambda>f s. map_option (\<lambda>(r, s1). (r, call_out f s1)) (service_start (frame_os os f) (call_in f s))),
      su_stop = (\<lambda>b f s. case service_stop (frame_os os f) b (call_in f s) of (r, s1) \<Rightarrow> Some (r, call_out f s1)),
      su_reload = (\<lambda>f s. Some (Inr (), call_out f (reload_action (frame_os os f) (call_in f s)))),
      su_can_reload = service_can_reload,
      su_sigchld = (\<lambda>w f s. map_option (call_out f) (sigchld_event (frame_os os f) w (call_in f s))), su_active_state = current_active_state,
      su_db_map = service_db_map (owner_os [] 0 0 os),
      su_attach = (\<lambda>u s. Some (service_db_insert (s\<lparr>sm_owner := Some u\<rparr>)))\<rparr>"

subsection \<open>Dynamic dispatch\<close>

datatype ('d, 'v, 'w) any_unit =
    AnyService "('d, 'v) owned_service"
  | AnyTarget "('d, 'w) target_mng"
  | AnyMount "'d mount_mng"

definition wrap :: "('s \<Rightarrow> 't) \<Rightarrow> ('a \<times> 'b \<times> 's) option \<Rightarrow> ('a \<times> 'b \<times> 't) option" where
  "wrap c x = map_option (\<lambda>(r, f, s). (r, f, c s)) x"

definition any_sub ::
  "('d, ('d, 'v) owned_service) sub_unit \<Rightarrow> 'w um_if \<Rightarrow> ('d, ('d, 'v, 'w) any_unit) sub_unit" where
  "any_sub svc um =
     \<lparr>su_load = (\<lambda>p f a. case a of AnyService s \<Rightarrow> wrap AnyService (su_load svc p f s)
        | AnyTarget t \<Rightarrow> wrap AnyTarget (su_load (target_sub um) p f t) | AnyMount m \<Rightarrow> wrap AnyMount (su_load mount_sub p f m)),
      su_start = (\<lambda>f a. case a of AnyService s \<Rightarrow> wrap AnyService (su_start svc f s)
        | AnyTarget t \<Rightarrow> wrap AnyTarget (su_start (target_sub um) f t) | AnyMount m \<Rightarrow> wrap AnyMount (su_start mount_sub f m)),
      su_stop = (\<lambda>b f a. case a of AnyService s \<Rightarrow> wrap AnyService (su_stop svc b f s)
        | AnyTarget t \<Rightarrow> wrap AnyTarget (su_stop (target_sub um) b f t) | AnyMount m \<Rightarrow> wrap AnyMount (su_stop mount_sub b f m)),
      su_reload = (\<lambda>f a. case a of AnyService s \<Rightarrow> wrap AnyService (su_reload svc f s)
        | AnyTarget t \<Rightarrow> wrap AnyTarget (su_reload (target_sub um) f t) | AnyMount m \<Rightarrow> wrap AnyMount (su_reload mount_sub f m)),
      su_can_reload = (\<lambda>a. case a of AnyService s \<Rightarrow> su_can_reload svc s
        | AnyTarget t \<Rightarrow> su_can_reload (target_sub um) t | AnyMount m \<Rightarrow> su_can_reload (mount_sub :: ('d, 'd mount_mng) sub_unit) m),
      su_sigchld = (\<lambda>w f a. case a of AnyService s \<Rightarrow> map_option (map_prod id AnyService) (su_sigchld svc w f s)
        | AnyTarget t \<Rightarrow> map_option (map_prod id AnyTarget) (su_sigchld (target_sub um) w f t)
        | AnyMount m \<Rightarrow> map_option (map_prod id AnyMount) (su_sigchld mount_sub w f m)),
      su_active_state = (\<lambda>a. case a of AnyService s \<Rightarrow> su_active_state svc s
        | AnyTarget t \<Rightarrow> su_active_state (target_sub um) t | AnyMount m \<Rightarrow> su_active_state (mount_sub :: ('d, 'd mount_mng) sub_unit) m),
      su_db_map = (\<lambda>a. case a of AnyService s \<Rightarrow> map_option AnyService (su_db_map svc s)
        | AnyTarget t \<Rightarrow> map_option AnyTarget (su_db_map (target_sub um) t) | AnyMount m \<Rightarrow> map_option AnyMount (su_db_map mount_sub m)),
      su_attach = (\<lambda>u a. case a of AnyService s \<Rightarrow> map_option AnyService (su_attach svc u s)
        | AnyTarget t \<Rightarrow> map_option AnyTarget (su_attach (target_sub um) u t) | AnyMount m \<Rightarrow> map_option AnyMount (su_attach mount_sub u m))\<rparr>"

subsection \<open>The contract is kept\<close>

lemma sub_ok_notify:
  assumes "su_active_state su s = a" "su_active_state su s' = b"
  shows "sub_ok su f s (unit_notify a b UNIT_NOTIFY_RELOAD_FAILURE (f\<lparr>ue_limits := l\<rparr>)) s'"
  unfolding sub_ok_def unit_notify_def
  by (rule exI[of _ "[\<lparr>note_unit = ue_id f, note_os = a, note_ns = b, note_flags = UNIT_NOTIFY_RELOAD_FAILURE\<rparr>]"], rule exI[of _ l])
     (use assms in simp)

lemmas sub_ok_notify_here = sub_ok_notify[where l = "ue_limits f" and f = f for f, simplified]

definition target_attached :: "uid \<Rightarrow> ('d, 'w) target_mng \<Rightarrow> bool" where
  "target_attached u t \<longleftrightarrow> tm_owner t = Some u"

lemma target_db_insert_simps [simp]:
  "tm_owner (target_db_insert t) = tm_owner t" "tm_state (target_db_insert t) = tm_state t"
  by (simp_all add: target_db_insert_def split: option.splits)

interpretation target: sub_unit_contract "target_sub um :: ('d, ('d, 'w) target_mng) sub_unit" target_attached
  for um :: "'w um_if"
proof
  fix f :: "'d unit_frame" and t :: "('d, 'w) target_mng" and r f' t'
  assume att: "target_attached (ue_id f) t" and st: "su_start (target_sub um) f t = Some (r, f', t')"
  then show "sub_ok (target_sub um) f t f' t' \<and> target_attached (ue_id f) t' \<and> (\<forall>e. r = Inl e \<longrightarrow> e \<in> sub_errors)"
    by (auto simp: target_sub_def target_start_def target_set_state_def target_attached_def sub_errors_def Let_def
        split: if_splits intro!: sub_ok_notify_here)
next
  fix f :: "'d unit_frame" and t :: "('d, 'w) target_mng" and forced
  assume "target_attached (ue_id f) t"
  then show "\<exists>r f' t'. su_stop (target_sub um) forced f t = Some (r, f', t') \<and> sub_ok (target_sub um) f t f' t' \<and>
      target_attached (ue_id f) t' \<and> (\<forall>e. r = Inl e \<longrightarrow> e \<in> sub_errors) \<and> su_active_state (target_sub um) t' \<in> stopped_states"
    by (auto simp: target_sub_def target_stop_def target_set_state_def target_attached_def sub_errors_def stopped_states_def Let_def
        intro!: sub_ok_notify_here)
qed (auto simp: target_sub_def)

definition mount_attached :: "uid \<Rightarrow> 'd mount_mng \<Rightarrow> bool" where
  "mount_attached u m \<longleftrightarrow> mm_owner m = Some u"

lemma mount_db_insert_simps [simp]:
  "mm_owner (mount_db_insert m) = mm_owner m" "mm_state (mount_db_insert m) = mm_state m"
  by (simp_all add: mount_db_insert_def)

interpretation mount: sub_unit_contract "mount_sub :: ('d, 'd mount_mng) sub_unit" mount_attached
proof
  fix f :: "'d unit_frame" and m :: "'d mount_mng" and r f' m'
  assume att: "mount_attached (ue_id f) m" and st: "su_start mount_sub f m = Some (r, f', m')"
  then show "sub_ok mount_sub f m f' m' \<and> mount_attached (ue_id f) m' \<and> (\<forall>e. r = Inl e \<longrightarrow> e \<in> sub_errors)"
    by (auto simp: mount_sub_def mount_start_def mount_start_check_def test_start_limit_def mount_set_state_def
        mount_attached_def sub_errors_def Let_def split: if_splits prod.splits intro!: sub_ok_notify)
next
  fix f :: "'d unit_frame" and m :: "'d mount_mng" and forced
  assume "mount_attached (ue_id f) m"
  then show "\<exists>r f' m'. su_stop mount_sub forced f m = Some (r, f', m') \<and> sub_ok mount_sub f m f' m' \<and>
      mount_attached (ue_id f) m' \<and> (\<forall>e. r = Inl e \<longrightarrow> e \<in> sub_errors) \<and> su_active_state mount_sub m' \<in> stopped_states"
    by (auto simp: mount_sub_def mount_stop_def mount_set_state_def mount_attached_def sub_errors_def stopped_states_def Let_def
        intro!: sub_ok_notify_here)
qed (auto simp: mount_sub_def)

definition service_attached :: "uid \<Rightarrow> ('d, 'v) owned_service \<Rightarrow> bool" where
  "service_attached u s \<longleftrightarrow> sm_owner s = Some u"

lemma relay_reports:
  "reports a cs = Some b \<Longrightarrow>
   \<exists>ns. relay cs f = f\<lparr>ue_states := ue_states f @ ns\<rparr> \<and> report_chain (ue_id f) a ns b"
proof (induction cs f arbitrary: a rule: relay.induct)
  case (1 f)
  then show ?case by (intro exI[of _ "[]"]) simp
next
  case (2 os ns cs f)
  then obtain ms where "relay cs (unit_notify os ns UNIT_NOTIFY_RELOAD_FAILURE f) =
        (unit_notify os ns UNIT_NOTIFY_RELOAD_FAILURE f)\<lparr>ue_states :=
           ue_states (unit_notify os ns UNIT_NOTIFY_RELOAD_FAILURE f) @ ms\<rparr>"
      "report_chain (ue_id f) ns ms b" "a = os"
    by (fastforce simp: unit_notify_def split: if_splits)
  then show ?case
    by (intro exI[of _ "\<lparr>note_unit = ue_id f, note_os = os, note_ns = ns, note_flags = UNIT_NOTIFY_RELOAD_FAILURE\<rparr> # ms"])
       (simp add: unit_notify_def)
qed auto

lemma call_out_ok:
  assumes att: "service_attached (ue_id f) s" and ok: "sv_ok (call_in f s) s'"
  shows "sub_ok (service_sub ld os) f s (fst (call_out f s')) s'" "service_attached (ue_id f) s'"
proof -
  have r: "reports (current_active_state s) (sm_calls s') = Some (current_active_state s')"
    using att ok by (auto simp: sv_ok_def call_in_def service_attached_def current_active_state_def service_type_def)
  then obtain ns where "relay (sm_calls s') (f\<lparr>ue_limits := fst (sm_world s')\<rparr>) =
      f\<lparr>ue_limits := fst (sm_world s'), ue_states := ue_states f @ ns\<rparr>"
      "report_chain (ue_id f) (current_active_state s) ns (current_active_state s')"
    using relay_reports[OF r, of "f\<lparr>ue_limits := fst (sm_world s')\<rparr>"] by auto
  then show "sub_ok (service_sub ld os) f s (fst (call_out f s')) s'"
    by (auto simp: sub_ok_def call_out_def service_sub_def)
  show "service_attached (ue_id f) s'" using att ok by (simp add: sv_ok_def service_attached_def call_in_def)
qed

lemma service_start_errors: "service_start os s = Some (Inl e, s') \<Longrightarrow> e \<in> sub_errors"
  by (auto simp: service_start_def start_check_def sub_errors_def Let_def split: if_splits prod.splits option.splits sum.splits)

lemma stopping_state: "stopping s \<Longrightarrow> current_active_state s \<in> stopped_states"
  by (auto simp: stopping_def current_active_state_def service_state_to_unit_state_def stopped_states_def)

interpretation service: sub_unit_contract "service_sub ld os :: ('d, ('d, 'v) owned_service) sub_unit" service_attached
  for ld and os :: "'v service_os"
proof
  fix f :: "'d unit_frame" and s :: "('d, 'v) owned_service" and r f' s'
  assume att: "service_attached (ue_id f) s" and st: "su_start (service_sub ld os) f s = Some (r, f', s')"
  then have s: "service_start (frame_os os f) (call_in f s) = Some (r, s')" and f: "f' = fst (call_out f s')"
    by (auto simp: service_sub_def call_out_def)
  show "sub_ok (service_sub ld os) f s f' s' \<and> service_attached (ue_id f) s' \<and> (\<forall>e. r = Inl e \<longrightarrow> e \<in> sub_errors)"
    using call_out_ok[OF att sv_service_start[OF sv_ok_refl s]] service_start_errors s f by auto
next
  fix f :: "'d unit_frame" and s :: "('d, 'v) owned_service" and forced
  assume att: "service_attached (ue_id f) s"
  let ?s = "snd (service_stop (frame_os os f) forced (call_in f s))"
  have "sv_ok (call_in f s) ?s" by (rule service_step_ok) (rule service_step.sv_stop)
  moreover have "current_active_state ?s \<in> stopped_states"
    by (rule stopping_state, rule service_stop_stopping) (use att in \<open>simp add: call_in_def service_attached_def\<close>)
  moreover have "su_stop (service_sub ld os) forced f s = Some (Inr (), call_out f ?s)"
    by (simp add: service_sub_def service_stop_def)
  ultimately show "\<exists>r f' s'. su_stop (service_sub ld os) forced f s = Some (r, f', s') \<and> sub_ok (service_sub ld os) f s f' s' \<and>
      service_attached (ue_id f) s' \<and> (\<forall>e. r = Inl e \<longrightarrow> e \<in> sub_errors) \<and>
      su_active_state (service_sub ld os) s' \<in> stopped_states"
    using call_out_ok(1)[OF att, of ?s ld os] call_out_ok(2)[OF att, of ?s] by (simp add: call_out_def service_sub_def)
next
  fix f :: "'d unit_frame" and s :: "('d, 'v) owned_service"
  assume att: "service_attached (ue_id f) s"
  let ?s = "reload_action (frame_os os f) (call_in f s)"
  have "sv_ok (call_in f s) ?s" by (rule service_step_ok) (rule service_step.sv_reload)
  then show "\<exists>f' s'. su_reload (service_sub ld os) f s = Some (Inr (), f', s') \<and> sub_ok (service_sub ld os) f s f' s' \<and>
      service_attached (ue_id f) s'"
    using call_out_ok(1)[OF att, of ?s ld os] call_out_ok(2)[OF att, of ?s] by (simp add: call_out_def service_sub_def)
next
  fix f :: "'d unit_frame" and s :: "('d, 'v) owned_service" and w f' s'
  assume att: "service_attached (ue_id f) s" and c: "su_sigchld (service_sub ld os) w f s = Some (f', s')"
  then have s: "sigchld_event (frame_os os f) w (call_in f s) = Some s'" and f: "f' = fst (call_out f s')"
    by (auto simp: service_sub_def call_out_def)
  show "sub_ok (service_sub ld os) f s f' s' \<and> service_attached (ue_id f) s'"
    using call_out_ok[OF att sv_sigchld_event[OF sv_ok_refl s]] f by simp
qed

subsection \<open>The contract of the dispatching object\<close>

fun any_attached :: "uid \<Rightarrow> ('d, 'v, 'w) any_unit \<Rightarrow> bool" where
  "any_attached u (AnyService s) = service_attached u s"
| "any_attached u (AnyTarget t) = target_attached u t"
| "any_attached u (AnyMount m) = mount_attached u m"

lemma sub_ok_any [simp]:
  "sub_ok (any_sub svc um) f (AnyService s) f' (AnyService s') = sub_ok svc f s f' s'"
  "sub_ok (any_sub svc um) f (AnyTarget t) f' (AnyTarget t') = sub_ok (target_sub um) f t f' t'"
  "sub_ok (any_sub svc um) f (AnyMount m) f' (AnyMount m') = sub_ok mount_sub f m f' m'"
  by (simp_all add: sub_ok_def any_sub_def)

lemma any_sub_start:
  "su_start (any_sub svc um) f (AnyService s) = wrap AnyService (su_start svc f s)"
  "su_start (any_sub svc um) f (AnyTarget t) = wrap AnyTarget (su_start (target_sub um) f t)"
  "su_start (any_sub svc um) f (AnyMount m) = wrap AnyMount (su_start mount_sub f m)"
  by (simp_all add: any_sub_def)

lemma any_sub_stop:
  "su_stop (any_sub svc um) b f (AnyService s) = wrap AnyService (su_stop svc b f s)"
  "su_stop (any_sub svc um) b f (AnyTarget t) = wrap AnyTarget (su_stop (target_sub um) b f t)"
  "su_stop (any_sub svc um) b f (AnyMount m) = wrap AnyMount (su_stop mount_sub b f m)"
  by (simp_all add: any_sub_def)

lemma any_sub_reload:
  "su_reload (any_sub svc um) f (AnyService s) = wrap AnyService (su_reload svc f s)"
  "su_reload (any_sub svc um) f (AnyTarget t) = wrap AnyTarget (su_reload (target_sub um) f t)"
  "su_reload (any_sub svc um) f (AnyMount m) = wrap AnyMount (su_reload mount_sub f m)"
  by (simp_all add: any_sub_def)

lemma any_sub_state:
  "su_active_state (any_sub svc um) (AnyService s) = su_active_state svc s"
  "su_active_state (any_sub svc um) (AnyTarget t) = su_active_state (target_sub um) t"
  "su_active_state (any_sub svc um) (AnyMount m) = su_active_state (mount_sub :: ('d, 'd mount_mng) sub_unit) m"
  "su_can_reload (any_sub svc um) (AnyService s) = su_can_reload svc s"
  "su_can_reload (any_sub svc um) (AnyTarget t) = su_can_reload (target_sub um) t"
  "su_can_reload (any_sub svc um) (AnyMount m) = su_can_reload (mount_sub :: ('d, 'd mount_mng) sub_unit) m"
  by (simp_all add: any_sub_def)

lemma any_sub_sigchld:
  "su_sigchld (any_sub svc um) w f (AnyService s) = map_option (map_prod id AnyService) (su_sigchld svc w f s)"
  "su_sigchld (any_sub svc um) w f (AnyTarget t) = map_option (map_prod id AnyTarget) (su_sigchld (target_sub um) w f t)"
  "su_sigchld (any_sub svc um) w f (AnyMount m) = map_option (map_prod id AnyMount) (su_sigchld mount_sub w f m)"
  by (simp_all add: any_sub_def)

interpretation any: sub_unit_contract "any_sub (service_sub ld os) um :: ('d, ('d, 'v, 'w) any_unit) sub_unit" any_attached
  for ld and os :: "'v service_os" and um :: "'w um_if"
proof
  fix f :: "'d unit_frame" and a :: "('d, 'v, 'w) any_unit" and r f' a'
  assume "any_attached (ue_id f) a" "su_start (any_sub (service_sub ld os) um) f a = Some (r, f', a')"
  then show "sub_ok (any_sub (service_sub ld os) um) f a f' a' \<and> any_attached (ue_id f) a' \<and> (\<forall>e. r = Inl e \<longrightarrow> e \<in> sub_errors)"
    by (cases a) (auto simp: any_sub_start wrap_def dest: service.start_law target.start_law mount.start_law)
next
  fix f :: "'d unit_frame" and a :: "('d, 'v, 'w) any_unit" and forced
  assume "any_attached (ue_id f) a"
  then show "\<exists>r f' a'. su_stop (any_sub (service_sub ld os) um) forced f a = Some (r, f', a') \<and>
      sub_ok (any_sub (service_sub ld os) um) f a f' a' \<and> any_attached (ue_id f) a' \<and> (\<forall>e. r = Inl e \<longrightarrow> e \<in> sub_errors) \<and>
      su_active_state (any_sub (service_sub ld os) um) a' \<in> stopped_states"
    using service.stop_law[of f _ ld os forced] target.stop_law[of f _ um forced] mount.stop_law[of f _ forced]
    by (cases a) (fastforce simp: any_sub_stop any_sub_state wrap_def)+
next
  fix f :: "'d unit_frame" and a :: "('d, 'v, 'w) any_unit"
  assume "any_attached (ue_id f) a" "su_can_reload (any_sub (service_sub ld os) um) a"
  then show "\<exists>f' a'. su_reload (any_sub (service_sub ld os) um) f a = Some (Inr (), f', a') \<and>
      sub_ok (any_sub (service_sub ld os) um) f a f' a' \<and> any_attached (ue_id f) a'"
    using service.reload_law[of f _ ld os] target.reload_law[of f _ um] mount.reload_law[of f]
    by (cases a) (fastforce simp: any_sub_reload any_sub_state wrap_def)+
next
  fix f :: "'d unit_frame" and a :: "('d, 'v, 'w) any_unit" and w f' a'
  assume "any_attached (ue_id f) a" "su_sigchld (any_sub (service_sub ld os) um) w f a = Some (f', a')"
  then show "sub_ok (any_sub (service_sub ld os) um) f a f' a' \<and> any_attached (ue_id f) a'"
    by (cases a) (auto simp: any_sub_sigchld dest: service.sigchld_law target.sigchld_law mount.sigchld_law)
qed

end
