(* ===== verification/Service_Claims.thy ===== *)
theory Service_Claims
  imports Service_Thms
begin

section \<open>Services: properties\<close>

text \<open>
  What the unit manager can rely on: the reports of a service always chain up to its
  current state, a stop request never ends in a restart, and the row in the reliability
  database restores the service. The last theorems show where the code does not do what it
  means to: the reason of a forced stop is lost, a stop may run a left-over start command,
  and the recovered exit status is another one.
\<close>

subsection \<open>An example system\<close>

text \<open>Every call succeeds; the world is the number of processes spawned so far. A raw wait
  status is decoded as Linux does: the low seven bits are the signal.\<close>

definition ex_raw :: "pid \<Rightarrow> int \<Rightarrow> wait_status option" where
  "ex_raw p st = (if st mod 128 = 0 then Some (WExited p ((st div 256) mod 256))
     else if st mod 128 < 127 then Some (WSignaled p (st mod 128) ((st div 128) mod 2 = 1)) else None)"

definition ex_os :: "nat service_os" where
  "ex_os = \<lparr>os_spawn = (\<lambda>_ _ _ _ w. (Some (100 + int w), w + 1)), os_kill = (\<lambda>_ _ _ _ w. (True, w)), os_alive = (\<lambda>_ _. True),
     os_cg_empty = (\<lambda>_ _. Some True), os_pid_file = (\<lambda>_ _. NoPidFile), os_getpid = 1, os_same_unit = (\<lambda>_ _ _. True),
     os_guess_main = (\<lambda>_ _. None), os_watch_path = (\<lambda>_ _. True), os_has_stop_job = (\<lambda>_ _. False),
     os_restart_unit = (\<lambda>_ w. (True, w)), os_start_limit = (\<lambda>_ w. (True, w)), os_signal_name = (\<lambda>_. []), os_from_raw = ex_raw\<rparr>"

definition ex_cmd :: "string \<Rightarrow> exec_command" where
  "ex_cmd path = \<lparr>cmd_path = path, cmd_argv = []\<rparr>"

definition ex_service :: section_service where
  "ex_service = \<lparr>ss_Type = Simple, ExecStart = Some [ex_cmd ''/bin/d''], ExecStartPre = Some [ex_cmd ''/bin/p'', ex_cmd ''/bin/q''],
     ExecStartPost = None, ExecStop = None, ExecStopPost = None, ExecReload = None, ExecCondition = None, WatchdogSec = 5,
     PIDFile = None, RemainAfterExit = False, NotifyAccess = None, ss_Restart = OnWatchdog,
     RestartPreventExitStatus = \<lparr>es_status = [], es_signal = []\<rparr>, RestartSec = 1\<rparr>"

definition ex_new :: "(nat, nat) service_mng" where
  "ex_new = service_mng_new (Some ''d.service'') ex_service (redb_new 0) 0"

text \<open>After the start request: the first start-pre command runs, the second waits.\<close>

definition ex_starting :: "(nat, nat) service_mng" where
  "ex_starting = (case service_start ex_os ex_new of Some (_, s) \<Rightarrow> s | None \<Rightarrow> ex_new)"

lemma ex_starting_facts:
  "sm_owner ex_starting = Some ''d.service''" "sm_state ex_starting = StartPre"
  "sm_control_command ex_starting = [ex_cmd ''/bin/q'']" "ExecStopPost (sm_config ex_starting) = None"
  "rt_forbid_restart (sm_rd ex_starting) = False"
  by code_simp+

lemma ex_starting_step: "(service_step ex_os)\<^sup>*\<^sup>* (service_mng_new (Some ''d.service'') ex_service (redb_new 0) 0) ex_starting"
proof -
  have "\<not> Option.is_none (service_start ex_os ex_new)" by code_simp
  then obtain r s where "service_start ex_os ex_new = Some (r, s)" by (auto simp: Option.is_none_def)
  then have "service_step ex_os ex_new ex_starting" by (intro sv_start[of _ _ r]) (simp add: ex_starting_def)
  then show ?thesis unfolding ex_new_def by blast
qed

subsection \<open>Reports and stopping\<close>

text \<open>
  whatever happens to a service, its unit is told about every change of its state: the
  reported changes continue each other and end in the state the service is in. And of the
  nineteen states only thirteen are ever entered; the waiting states of a watchdog stop, of
  a kill and of the final signals are not, since the signals are sent without waiting.
\<close>

theorem service_reports_complete:
  assumes "(service_step os)\<^sup>*\<^sup>* (service_mng_new (Some u) config re w) s"
  shows "reports UnitInActive (sm_calls s) = Some (current_active_state s) \<and>
    sm_state s \<notin> {StopWatchdog, StopSigkill, FinalWatchdog, FinalSigterm, FinalSigkill, Cleaning}"
proof -
  have ok: "sv_ok (service_mng_new (Some u) config re w) s" using assms by (rule service_steps_ok)
  have "current_active_state (service_mng_new (Some u) config re w) = UnitInActive"
    by (simp add: current_active_state_def service_state_to_unit_state_def service_mng_new_def)
  then show ?thesis using ok by (auto simp: sv_ok_def service_mng_new_def entered_states_def)
qed

theorem service_reports_complete_witness:
  "reports UnitInActive (sm_calls ex_starting) = Some UnitActivating"
proof -
  have "current_active_state ex_starting = UnitActivating" by code_simp
  then show ?thesis using service_reports_complete[OF ex_starting_step] by simp
qed

text \<open>
  C5: a stop request never turns into a restart. However spawning and killing go, and
  whichever processes of the service end afterwards, the service never panics and is always
  in one of the states \<open>Stop\<close>, \<open>StopPost\<close>, \<open>Dead\<close> and \<open>Failed\<close>.
\<close>

theorem service_stop_never_restarts:
  assumes "sm_owner s = Some u" and "\<forall>w\<in>set ws. sigchld_result w \<noteq> None"
  shows "\<exists>s'. for_each (sigchld_event os) ws (snd (service_stop os force s)) = Some s' \<and>
    sm_state s' \<in> {Stop, StopPost, Dead, Failed} \<and> (sm_state s' \<in> {Stop, StopPost} \<longrightarrow> rt_forbid_restart (sm_rd s'))"
  using sigchlds_stopping[OF service_stop_stopping[of s os force] assms(2), of os] assms(1) by (auto simp: stopping_def)

theorem service_stop_never_restarts_witness:
  "\<exists>s'. for_each (sigchld_event ex_os) [WExited 100 1, WSignaled 101 9 False] (snd (service_stop ex_os False ex_starting)) = Some s' \<and>
    sm_state s' \<in> {Stop, StopPost, Dead, Failed}"
  using service_stop_never_restarts[OF ex_starting_facts(1), of "[WExited 100 1, WSignaled 101 9 False]" ex_os False] by auto

subsection \<open>Recovery\<close>

lemma main_pops: "((\<lambda>s. snd (main_command_pop s)) ^^ n) s = s\<lparr>sm_main_command := drop n (sm_main_command s)\<rparr>"
proof (induction n arbitrary: s)
  case (Suc n)
  have "snd (main_command_pop s) = s\<lparr>sm_main_command := drop 1 (sm_main_command s)\<rparr>" for s :: "('a, 'b) service_mng"
    by (cases "sm_main_command s") (simp_all add: main_command_pop_def)
  then show ?case using Suc[of s] by simp
qed simp

text \<open>The database row of a service, read into a new one.\<close>

lemma service_recovered:
  fixes s fresh :: "('d, 'w) service_mng"
  assumes "sm_owner s = Some u" and "sm_control_cmd_type s = None" and "redb_live (sm_re s)"
    and "\<exists>pre. ExecStart (sm_config s) = Some (pre @ sm_main_command s)"
    and "\<forall>p. pd_main (sm_pid s) = Some p \<longrightarrow> 1 \<le> p"
    and "fresh = service_mng_new (Some u) (sm_config s) (sm_re (service_db_insert s)) w"
  shows "if sm_control_command s = []
    then \<exists>s'. service_db_map os fresh = Some s' \<and> sm_state s' = sm_state s \<and> sm_result s' = sm_result s \<and>
      pd_main (sm_pid s') = pd_main (sm_pid s) \<and> pd_control (sm_pid s') = pd_control (sm_pid s) \<and>
      sm_main_command s' = sm_main_command s \<and> sm_control_command s' = [] \<and> sm_monitor s' = sm_monitor s \<and>
      rt_restarts (sm_rd s') = rt_restarts (sm_rd s) \<and> rt_forbid_restart (sm_rd s') = rt_forbid_restart (sm_rd s) \<and>
      rt_reset_restarts (sm_rd s') = rt_reset_restarts (sm_rd s) \<and> rt_notify_state (sm_rd s') = rt_notify_state (sm_rd s) \<and>
      sm_config s' = sm_config s \<and> rt_exec_status (sm_rd s') = exit_to_wait (os_from_raw os) (wait_to_exit (rt_exec_status (sm_rd s)))
    else service_db_map os fresh = None"
proof -
  from assms(4) obtain pre where pre: "ExecStart (sm_config s) = Some (pre @ sm_main_command s)" by blast
  define row where "row = \<lparr>re_state = sm_state s, re_result = sm_result s, re_main_pid = pd_main (sm_pid s),
        re_control_pid = pd_control (sm_pid s), re_main_cmd_len = length (sm_main_command s),
        re_control_cmd_type = sm_control_cmd_type s, re_control_cmd_len = length (sm_control_command s),
        re_notify_state = rt_notify_state (sm_rd s), re_forbid_restart = rt_forbid_restart (sm_rd s),
        re_reset_restart = rt_reset_restarts (sm_rd s), re_restarts = rt_restarts (sm_rd s),
        re_exit_status = wait_to_exit (rt_exec_status (sm_rd s)), re_monitor = sm_monitor s\<rparr>"
  have row: "Option.bind (sm_owner fresh) (redb_get (sm_re fresh)) = Some row"
    using assms(1,3) by (simp add: assms(6) service_mng_new_def service_db_insert_def row_def)
  define s1 where "s1 = update_control (pd_control (sm_pid s)) (update_main (pd_main (sm_pid s))
      (fresh\<lparr>sm_state := sm_state s, sm_result := sm_result s\<rparr>))"
  have s1: "sm_state s1 = sm_state s" "sm_result s1 = sm_result s" "pd_main (sm_pid s1) = pd_main (sm_pid s)"
    "pd_control (sm_pid s1) = pd_control (sm_pid s)" "sm_config s1 = sm_config s" "sm_control_command s1 = []"
    using assms(5)
    by (auto simp: s1_def assms(6) service_mng_new_def service_pid_new_def update_control_def update_main_def set_main_def pid_set_main_def
        set_control_def pid_set_control_def reset_main_def reset_control_def pid_reset_main_def pid_reset_control_def Let_def
        split: option.splits)
  have s2: "main_command_update (length (sm_main_command s)) s1 = s1\<lparr>sm_main_command := sm_main_command s\<rparr>"
    using pre s1(5) by (simp add: main_command_update_def main_command_fill_def get_exec_cmds_def main_pops Let_def)
  show ?thesis
  proof (cases "sm_control_command s = []")
    case True
    then show ?thesis using row s1 s2 assms(2)
      by (simp add: service_db_map_def row_def s1_def[symmetric] control_command_update_def sm_rd_upd_def)
  next
    case False
    then show ?thesis using row s2 assms(2)
      by (simp add: service_db_map_def row_def s1_def[symmetric] control_command_update_def)
  qed
qed


lemma ex_starting_row:
  "sm_control_cmd_type ex_starting = None" "redb_live (sm_re ex_starting)" "pd_main (sm_pid ex_starting) = None"
  "sm_main_command ex_starting = []" "sm_config ex_starting = ex_service" "sm_control_command ex_starting \<noteq> []"
  by code_simp+


text \<open>
  the exit status is not restored. A service that ended with one of the exit codes 1 to
  31 comes back as killed by the signal of that number, because the exit code is stored as
  if it were a raw wait status; so an exit code that must prevent a restart no longer does.
  That a raw status from 1 to 31 means a signal is what the wait interface documents.
\<close>

theorem service_exit_status_lost:
  fixes s :: "('d, 'w) service_mng"
  assumes "sm_owner s = Some u" and "sm_control_cmd_type s = None" and "redb_live (sm_re s)"
    and "\<exists>pre. ExecStart (sm_config s) = Some (pre @ sm_main_command s)"
    and "\<forall>p. pd_main (sm_pid s) = Some p \<longrightarrow> 1 \<le> p" and "sm_control_command s = []"
    and "\<forall>p st. 0 < st \<longrightarrow> st < 32 \<longrightarrow> os_from_raw os p st = Some (WSignaled p st False)"
    and "rt_exec_status (sm_rd s) = WExited p code" and "0 < code" and "code < 32"
    and "RestartPreventExitStatus (sm_config s) = \<lparr>es_status = [word_of_int code], es_signal = []\<rparr>"
    and "ss_Restart (sm_config s) = Always" and "\<not> rt_forbid_restart (sm_rd s)" and "sm_result s = FailureExitCode"
  shows "\<not> shall_restart os s \<and>
    (\<exists>s'. service_db_map os (service_mng_new (Some u) (sm_config s) (sm_re (service_db_insert s)) w) = Some s' \<and>
       rt_exec_status (sm_rd s') = WSignaled p code False \<and> shall_restart os s')"
proof
  show "\<not> shall_restart os s" using assms(8,11) by (simp add: shall_restart_def exit_status_enabled_def)
  have ex: "exit_to_wait (os_from_raw os) (wait_to_exit (WExited p code)) = WSignaled p code False"
    using assms(7,9,10) by (simp add: exit_to_wait_def)
  from service_recovered[OF assms(1-5) refl, of os w] assms(6,8) ex obtain s' where
    "service_db_map os (service_mng_new (Some u) (sm_config s) (sm_re (service_db_insert s)) w) = Some s'"
    "rt_exec_status (sm_rd s') = WSignaled p code False" "rt_forbid_restart (sm_rd s') = rt_forbid_restart (sm_rd s)"
    "sm_result s' = sm_result s" "sm_config s' = sm_config s" by auto
  then show "\<exists>s'. service_db_map os (service_mng_new (Some u) (sm_config s) (sm_re (service_db_insert s)) w) = Some s' \<and>
       rt_exec_status (sm_rd s') = WSignaled p code False \<and> shall_restart os s'"
    using assms(11-14) by (intro exI[of _ s']) (simp add: shall_restart_def exit_status_enabled_def)
qed

definition ex_ended :: "(nat, nat) service_mng" where
  "ex_ended = ex_new\<lparr>sm_config := ex_service\<lparr>ss_Restart := Always, RestartPreventExitStatus := \<lparr>es_status = [3], es_signal = []\<rparr>\<rparr>,
     sm_result := FailureExitCode, sm_rd := rtdata_new\<lparr>rt_exec_status := WExited 100 3\<rparr>\<rparr>"

theorem service_exit_status_lost_witness:
  "\<not> shall_restart ex_os ex_ended \<and>
   (\<exists>s'. service_db_map ex_os (service_mng_new (Some ''d.service'') (sm_config ex_ended) (sm_re (service_db_insert ex_ended)) 0) = Some s' \<and>
      shall_restart ex_os s')"
proof -
  have raw: "\<forall>p st. 0 < st \<longrightarrow> st < 32 \<longrightarrow> os_from_raw ex_os p st = Some (WSignaled p st False)"
    by (auto simp: ex_os_def ex_raw_def)
  have f: "sm_owner ex_ended = Some ''d.service''" "sm_control_cmd_type ex_ended = None" "redb_live (sm_re ex_ended)"
    "\<exists>pre. ExecStart (sm_config ex_ended) = Some (pre @ sm_main_command ex_ended)" "\<forall>p. pd_main (sm_pid ex_ended) = Some p \<longrightarrow> 1 \<le> p"
    "sm_control_command ex_ended = []" "rt_exec_status (sm_rd ex_ended) = WExited 100 3"
    "RestartPreventExitStatus (sm_config ex_ended) = \<lparr>es_status = [word_of_int 3], es_signal = []\<rparr>"
    "ss_Restart (sm_config ex_ended) = Always" "\<not> rt_forbid_restart (sm_rd ex_ended)" "sm_result ex_ended = FailureExitCode"
    by (auto simp: ex_ended_def ex_new_def service_mng_new_def ex_service_def service_pid_new_def rtdata_new_def)
  from service_exit_status_lost[OF f(1-6) raw f(7) _ _ f(8-11), of 0] show ?thesis by auto
qed

subsection \<open>Where a stop goes wrong\<close>

text \<open>The processes of a unit can always be signalled.\<close>

definition kill_works :: "'w service_os \<Rightarrow> bool" where
  "kill_works os \<longleftrightarrow> (\<forall>u m c op w. fst (os_kill os u m c op w))"

lemma send_signal_works: "kill_works os \<Longrightarrow> fst (send_signal os st s)"
  by (simp add: kill_works_def send_signal_def Let_def case_prod_unfold split: option.splits)

lemma send_signal_frame [simp]:
  "sm_config (snd (send_signal os st s)) = sm_config s" "sm_result (snd (send_signal os st s)) = sm_result s"
  "sm_control_command (snd (send_signal os st s)) = sm_control_command s" "sm_pid (snd (send_signal os st s)) = sm_pid s"
  by (simp_all add: send_signal_def sm_call_def Let_def case_prod_unfold split: option.splits)

lemma enter_signal_stop:
  assumes "kill_works os" and "st \<in> set stop_states"
  shows "enter_signal os st res s = enter_stop_post os Success (snd (send_signal os st s))"
  using send_signal_works[OF assms(1), of st s] assms(2) by (subst enter_signal.simps) (simp add: case_prod_unfold)

lemma enter_signal_final:
  assumes "kill_works os"
  shows "enter_signal os FinalSigterm res s =
    enter_dead os Success True (snd (send_signal os FinalSigkill (snd (send_signal os FinalSigterm s))))"
  using send_signal_works[OF assms, of FinalSigterm s] send_signal_works[OF assms, of FinalSigkill "snd (send_signal os FinalSigterm s)"]
  by (subst enter_signal.simps, subst enter_signal.simps) (simp add: case_prod_unfold stop_states_def)

lemma note_success [simp]: "note_result Success s = s"
  by (simp add: note_result_def set_result_def)

text \<open>
  C34: the reason of a watchdog stop is lost. When the watchdog of a healthy service expires
  and there is no stop-post command, the service ends \<open>Dead\<close> with the result \<open>Success\<close>, and
  one that is configured to restart on a watchdog failure is not restarted:
  \<open>enter_signal\<close> does not store the result it is given.
\<close>

theorem service_watchdog_reason_lost:
  assumes "sm_owner s = Some u" and "sm_result s = Success" and "kill_works os"
    and "sm_control_command (control_command_fill CmdStopPost s) = []" and "ss_Restart (sm_config s) = OnWatchdog"
  shows "sm_state (watchdog_dispatch os s) = Dead \<and> sm_result (watchdog_dispatch os s) = Success"
proof -
  let ?s1 = "snd (send_signal os StopWatchdog s)"
  let ?s2 = "control_command_fill CmdStopPost ?s1"
  let ?s3 = "snd (send_signal os FinalSigkill (snd (send_signal os FinalSigterm ?s2)))"
  have pop: "control_command_pop ?s2 = (None, ?s2)"
    using assms(4) by (auto simp: control_command_fill_def control_command_pop_def split: option.splits)
  have "watchdog_dispatch os s = enter_stop_post os Success ?s1"
    unfolding watchdog_dispatch_def by (rule enter_signal_stop[OF assms(3)]) (simp add: stop_states_def)
  also have "\<dots> = enter_signal os FinalSigterm Success ?s2"
    by (subst enter_stop_post.simps) (simp add: pop)
  also have "\<dots> = enter_dead os Success True ?s3" by (rule enter_signal_final[OF assms(3)])
  finally have d: "watchdog_dispatch os s = enter_dead os Success True ?s3" .
  have f: "sm_owner ?s3 = Some u" "sm_result ?s3 = Success" "ss_Restart (sm_config ?s3) = OnWatchdog"
    using assms(1,2,5) by (simp_all add: control_command_fill_def split: option.splits)
  then have "\<not> shall_restart os ?s3" by (simp add: shall_restart_def)
  then show ?thesis unfolding d using f by (simp add: enter_dead_def Let_def) (simp add: sm_rd_upd_def)
qed

theorem service_watchdog_reason_lost_witness: "sm_state (watchdog_dispatch ex_os (ex_new\<lparr>sm_state := Running\<rparr>)) = Dead"
proof -
  have "kill_works ex_os" by (simp add: kill_works_def ex_os_def)
  moreover have "sm_owner (ex_new\<lparr>sm_state := Running\<rparr>) = Some ''d.service''" "sm_result (ex_new\<lparr>sm_state := Running\<rparr>) = Success"
    "sm_control_command (control_command_fill CmdStopPost (ex_new\<lparr>sm_state := Running\<rparr>)) = []"
    "ss_Restart (sm_config (ex_new\<lparr>sm_state := Running\<rparr>)) = OnWatchdog"
    by (simp_all add: ex_new_def service_mng_new_def control_command_fill_def get_exec_cmds_def ex_service_def)
  ultimately show ?thesis using service_watchdog_reason_lost[of "ex_new\<lparr>sm_state := Running\<rparr>" "''d.service''" ex_os] by blast
qed

text \<open>
  a stop may run a start command. If a service without a stop-post command is stopped
  while further start-pre (or condition, post, reload) commands wait, the stop takes the
  next of them as its stop-post command: \<open>control_command_fill\<close> leaves the old commands in
  place when none are configured.
\<close>

theorem service_stop_runs_stale_command:
  assumes "sm_owner s = Some u" and "sm_state s \<in> {Condition, StartPre, Start, StartPost, Reload}"
    and "sm_control_command s = c # cs" and "ExecStopPost (sm_config s) = None" and "kill_works os"
    and "\<forall>m w. fst (os_spawn os u c CONTROL m w) \<noteq> None"
  shows "\<exists>w. sm_state (stop_action os s) = StopPost \<and> sm_control_command (stop_action os s) = cs \<and>
    pd_control (sm_pid (stop_action os s)) = fst (os_spawn os u c CONTROL (pd_main (sm_pid s)) w)"
proof -
  let ?s0 = "sm_rd_upd (\<lambda>d. d\<lparr>rt_forbid_restart := True\<rparr>) s"
  let ?s1 = "snd (send_signal os StopSigterm ?s0)"
  let ?s2 = "?s1\<lparr>sm_control_command := cs\<rparr>"
  have f: "sm_owner ?s1 = Some u" "sm_control_command ?s1 = c # cs" "ExecStopPost (sm_config ?s1) = None" "sm_pid ?s1 = sm_pid s"
    using assms(1,3,4) by (simp_all add: sm_rd_upd_def)
  have "stop_action os s = service_db_insert (enter_signal os StopSigterm Success ?s0)"
    using assms(2) by (auto simp: stop_action_def Let_def)
  also have "enter_signal os StopSigterm Success ?s0 = enter_stop_post os Success ?s1"
    by (rule enter_signal_stop[OF assms(5)]) (simp add: stop_states_def)
  finally have st: "stop_action os s = service_db_insert (enter_stop_post os Success ?s1)" .
  obtain p w where sp: "os_spawn os u c CONTROL (pd_main (sm_pid s)) (sm_world ?s1) = (Some p, w)"
    using assms(6) by (metis option.exhaust prod.collapse)
  have pop: "control_command_pop (control_command_fill CmdStopPost ?s1) = (Some c, ?s2)"
    using f by (simp add: control_command_fill_def control_command_pop_def get_exec_cmds_def)
  have spawn: "spawn_control os c ?s2 = (True, set_control p (sm_call (WatchPid p) (?s2\<lparr>sm_world := w\<rparr>)))"
    using f sp by (simp add: spawn_control_def start_service_def)
  have post: "enter_stop_post os Success ?s1 = set_state StopPost (set_control p (sm_call (WatchPid p) (?s2\<lparr>sm_world := w\<rparr>)))"
    by (subst enter_stop_post.simps) (simp add: pop spawn)
  have "sm_state (stop_action os s) = StopPost \<and> sm_control_command (stop_action os s) = cs \<and> pd_control (sm_pid (stop_action os s)) = Some p"
    unfolding st post using f(1)
    by (simp add: service_db_insert_def set_state_def main_states_def control_states_def set_control_def pid_set_control_def sm_call_def Let_def)
  then show ?thesis using sp by (intro exI[of _ "sm_world ?s1"]) simp
qed

theorem service_stop_runs_stale_command_witness: "sm_state (stop_action ex_os ex_starting) = StopPost"
proof -
  have "kill_works ex_os" "\<forall>m w. fst (os_spawn ex_os ''d.service'' (ex_cmd ''/bin/q'') CONTROL m w) \<noteq> None"
    by (simp_all add: kill_works_def ex_os_def)
  moreover have "sm_state ex_starting \<in> {Condition, StartPre, Start, StartPost, Reload}" using ex_starting_facts(2) by simp
  ultimately show ?thesis using service_stop_runs_stale_command[OF ex_starting_facts(1) _ ex_starting_facts(3,4)] by blast
qed

subsection \<open>A lost start\<close>

text \<open>A service whose start-post command cannot be spawned.\<close>

definition ex_post_os :: "nat service_os" where
  "ex_post_os = ex_os\<lparr>os_spawn := \<lambda>_ cmd _ _ w. (if cmd = ex_cmd ''/bin/post'' then None else Some (100 + int w), w + 1)\<rparr>"

definition ex_post :: "(nat, nat) service_mng" where
  "ex_post = (case service_start ex_post_os
      (ex_new\<lparr>sm_config := ex_service\<lparr>ExecStartPre := None, ExecStartPost := Some [ex_cmd ''/bin/post'']\<rparr>\<rparr>) of
     Some (_, s) \<Rightarrow> s | None \<Rightarrow> ex_new)"

text \<open>
  when the start-post command of a simple service cannot be spawned, the start returns
  with the main process running but the state still \<open>Dead\<close> and nothing reported, and the
  end of that process makes the manager panic.
\<close>

theorem service_lost_start_panics:
  "sm_state ex_post = Dead \<and> pd_main (sm_pid ex_post) = Some 100 \<and>
   (\<forall>a b. Notify a b \<notin> set (sm_calls ex_post)) \<and> sigchld_event ex_post_os (WExited 100 0) ex_post = None"
proof -
  have "sm_state ex_post = Dead" "pd_main (sm_pid ex_post) = Some 100" by code_simp+
  moreover have "sm_calls ex_post = [WatchPid 100, WatchdogOn 5000000]" by code_simp
  moreover have "Option.is_none (sigchld_event ex_post_os (WExited 100 0) ex_post)" by code_simp
  ultimately show ?thesis by (simp add: Option.is_none_def)
qed

end
