(* ===== verification/Unit_Claims.thy ===== *)
theory Unit_Claims
  imports Unit_Subs Service_Claims
begin

section \<open>Units: properties\<close>

text \<open>
  What the job manager can rely on from a unit, for units with a service, a target or a mount
  behind them: complete reports, a stop that stops, a start that is guarded by the configured
  conditions and by the start limit. Two theorems show where the code does not do what it
  means to: a condition with \<open>!\<close> never holds, and the job of a reload that succeeded fails.
\<close>

subsection \<open>The configured conditions\<close>

definition configured :: "(condition_type \<times> string) list \<Rightarrow> condition list" where
  "configured ps = map (\<lambda>(ty, p). new_condition ty p) (filter (\<lambda>(ty, p). p \<noteq> []) ps)"

definition conf_conditions :: "ue_config_unit \<Rightarrow> condition list" where
  "conf_conditions c = configured [(FileNotEmpty, ConditionFileNotEmpty c), (NeedsUpdate, ConditionNeedsUpdate c),
     (PathExists, ConditionPathExists c), (User, ConditionUser c), (FirstBoot, ConditionFirstBoot c)]"

definition conf_asserts :: "ue_config_unit \<Rightarrow> condition list" where
  "conf_asserts c = configured [(PathExists, AssertPathExists c)]"

text \<open>All plain conditions hold, and if there are conditions with \<open>|\<close>, one of them does.\<close>

definition all_hold :: "cond_sys \<Rightarrow> condition set \<Rightarrow> bool" where
  "all_hold sys C \<longleftrightarrow> (\<forall>c\<in>C. c_trigger c = 0 \<longrightarrow> cond_holds sys c) \<and>
     ((\<exists>c\<in>C. c_trigger c \<noteq> 0) \<longrightarrow> (\<exists>c\<in>C. c_trigger c \<noteq> 0 \<and> cond_holds sys c))"

text \<open>The conditions kept so far come from the present configuration.\<close>

definition conditions_current :: "'d unit_frame \<Rightarrow> bool" where
  "conditions_current f \<longleftrightarrow> uc_init_flag (ue_conditions f) = 0 \<and>
     set (uc_conditions (ue_conditions f)) \<subseteq> set (conf_conditions (ue_config f)) \<and>
     set (uc_asserts (ue_conditions f)) \<subseteq> set (conf_asserts (ue_config f))"

lemma unit_conditions_eq:
  assumes "uc_init_flag (ue_conditions f) = 0"
  shows "ue_conditions (unit_conditions f) = (ue_conditions f)
    \<lparr>uc_conditions := uc_conditions (ue_conditions f) @ conf_conditions (ue_config f),
     uc_asserts := uc_asserts (ue_conditions f) @ conf_asserts (ue_config f)\<rparr>"
  using assms by (simp add: unit_conditions_def conf_conditions_def conf_asserts_def configured_def Let_def
      add_condition_def add_assert_def condition_key_def assert_key_def)

lemma conditions_current_step:
  assumes "conditions_current f"
  shows "conditions_current (unit_conditions f)"
    "set (uc_conditions (ue_conditions (unit_conditions f))) = set (conf_conditions (ue_config f))"
    "set (uc_asserts (ue_conditions (unit_conditions f))) = set (conf_asserts (ue_config f))"
  using assms by (auto simp: conditions_current_def unit_conditions_eq)

lemma vec_test_all_hold: "root_known sys \<Longrightarrow> condition_vec_test sys conds = Some (all_hold sys (set conds))"
  by (simp add: condition_vec_test_eq all_hold_def)

lemma tests_current:
  assumes "root_known sys" "conditions_current f"
  shows "conditions_test sys (ue_conditions (unit_conditions f)) = Some (all_hold sys (set (conf_conditions (ue_config f))))"
    "asserts_test sys (ue_conditions (unit_conditions f)) = Some (all_hold sys (set (conf_asserts (ue_config f))))"
  using assms by (simp_all add: conditions_test_def asserts_test_def vec_test_all_hold conditions_current_step)

subsection \<open>Starting\<close>


subsection \<open>An example unit\<close>

text \<open>A machine with the users root and nobody and the file \<open>/etc/ok\<close>; a loaded unit.\<close>

definition ex_sys :: cond_sys where
  "ex_sys = \<lparr>cs_exists = (\<lambda>p. p = ''/etc/ok''), cs_metadata = (\<lambda>p. if p = ''/etc/ok'' then Some (True, 3) else None),
     cs_getuid = 0, cs_geteuid = 0, cs_from_uid = (\<lambda>u. Some (if u = 0 \<or> u = 65534 then Some u else None)),
     cs_from_name = (\<lambda>n. Some (if n = ''root'' then Some 0 else None)), cs_cmdline = Some ''root=/dev/sda1 quiet''\<rparr>"

lemma ex_sys_root: "root_known ex_sys"
  by (simp add: root_known_def ex_sys_def)

definition ex_frame :: "uid \<Rightarrow> ue_config_unit \<Rightarrow> nat unit_frame" where
  "ex_frame u conf = \<lparr>ue_id = u, ue_unit_type = UnitService, ue_config = conf,
     ue_install = \<lparr>Alias = [], WantedBy = [], RequiredBy = [], Also = []\<rparr>, ue_load_state = UnitLoaded,
     ue_in_load_queue = False, ue_in_target_dep_queue = False, ue_pids = [], ue_cg_path = [],
     ue_conditions = ue_condition_new, ue_limits = \<lparr>ul_limit = start_limit_new, ul_results = [], ul_now = 0\<rparr>,
     ue_re = unit_re_new (\<lambda>_. 0), ue_states = [], ue_dep_confs = []\<rparr>"

definition ex_mount :: "ue_config_unit \<Rightarrow> (nat, nat mount_mng) unit_entry" where
  "ex_mount conf = \<lparr>ue_frame = ex_frame ''a.mount'' conf, ue_sub = mount_attach ''a.mount'' (mount_mng_new (redb_new 0))\<rparr>"


subsection \<open>Conditions with an exclamation mark\<close>

text \<open>
  C35: a path condition with \<open>!\<close> is meant to hold when the path does not exist, but never
  does: \<open>Condition::test\<close> takes the bitwise complement of an \<open>i8\<close>, which is negative. A unit
  with such a condition can not be started, whatever is on the disk.
\<close>

theorem unit_reverted_condition_blocks:
  assumes "root_known sys" and "ConditionPathExists (ue_config (ue_frame u)) = CHR ''!'' # p" and "p \<noteq> []"
    and "uc_init_flag (ue_conditions (ue_frame u)) = 0"
    and "su_active_state su (ue_sub u) \<in> {UnitInActive, UnitFailed, UnitDeActivating}"
  shows "\<exists>f. unit_start su sys u = Some (Inl UnitActionEInval, u\<lparr>ue_frame := f\<rparr>)"
proof (cases "ue_load_state (ue_frame u) = UnitLoaded")
  case True
  have "new_condition PathExists (CHR ''!'' # p) \<in> set (uc_conditions (ue_conditions (unit_conditions (ue_frame u))))"
    using assms(2,4) by (simp add: unit_conditions_eq conf_conditions_def configured_def)
  then have "conditions_test sys (ue_conditions (unit_conditions (ue_frame u))) = Some False"
    unfolding conditions_test_def
    by (rule condition_vec_test_blocked[OF assms(1)])
       (simp_all add: new_condition_reverted reverted_never_holds[OF assms(3), unfolded new_condition_reverted])
  then show ?thesis using True assms(5) by (auto simp: unit_start_def Let_def)
next
  case False
  then show ?thesis using assms(5) by (intro exI[of _ "ue_frame u"]) (auto simp: unit_start_def)
qed

theorem unit_reverted_condition_blocks_witness:
  "\<not> cs_exists ex_sys ''/etc/no'' \<and>
   (\<exists>f. unit_start mount_sub ex_sys (ex_mount (ue_config_unit_default\<lparr>ConditionPathExists := ''!/etc/no''\<rparr>)) =
     Some (Inl UnitActionEInval, ex_mount (ue_config_unit_default\<lparr>ConditionPathExists := ''!/etc/no''\<rparr>)\<lparr>ue_frame := f\<rparr>))"
  using unit_reverted_condition_blocks[OF ex_sys_root, of
      "ex_mount (ue_config_unit_default\<lparr>ConditionPathExists := ''!/etc/no''\<rparr>)" "''/etc/no''" mount_sub]
  by (simp add: ex_mount_def ex_frame_def ue_condition_new_def mount_sub_def mount_attach_def mount_mng_new_def ex_sys_def)

subsection \<open>The start limit\<close>

text \<open>
  C14: with a start limit of \<open>burst\<close> starts in \<open>interval\<close> seconds, starts that are at most
  \<open>interval\<close> seconds apart get through at most twice \<open>burst\<close> times, what is left of the window
  that is open plus one new window; a unit that was not started before lets exactly the
  first \<open>burst\<close> of them through. The 32-bit counter never overflows.
\<close>

theorem start_limit_bounds:
  assumes "interval > 0" and "burst > 0" and "sorted ts"
    and "\<forall>t\<in>set ts. \<forall>t'\<in>set ts. as_secs (t - t') \<le> unat interval"
  shows "length (filter (\<lambda>ok. ok) (fst (limit_tests u interval burst ts l)))
      \<le> (unat burst - unat (rl_nums (sl_limit (ul_limit l)))) + unat burst \<and>
    (rl_begin (sl_limit (ul_limit l)) = None \<longrightarrow>
      fst (limit_tests u interval burst ts l) =
        replicate (min (unat burst) (length ts)) True @ replicate (length ts - unat burst) False)"
  using limit_tests_count[OF assms, of u l] limit_tests_fresh[OF assms(1,2) _ assms(3,4), of l u]
  by (simp add: let_through_def)

theorem start_limit_bounds_witness:
  "fst (limit_tests ''a.service'' 3 2 [0, 1000000000, 2000000000, 3500000000]
     \<lparr>ul_limit = start_limit_new, ul_results = [], ul_now = 0\<rparr>) = [True, True, False, False]"
proof -
  let ?ts = "[0, 1000000000, 2000000000, 3500000000] :: nat list"
  have "sorted ?ts" "\<forall>t\<in>set ?ts. \<forall>t'\<in>set ?ts. as_secs (t - t') \<le> unat (3 :: u64)"
    by (simp_all add: as_secs_def)
  from start_limit_bounds[OF _ _ this, of 2 "''a.service''" "\<lparr>ul_limit = start_limit_new, ul_results = [], ul_now = 0\<rparr>"]
  show ?thesis by (simp add: start_limit_new_def rate_limit_new_def del: limit_tests.simps)
qed

subsection \<open>A service that is started and reloaded\<close>

definition ex_um :: "nat um_if" where
  "ex_um = \<lparr>um_dependency_list = (\<lambda>_ _ _. []), um_has_default_dependency = (\<lambda>_ _. False),
     um_has_dependency = (\<lambda>_ _ _ _. False), um_add_dependency = (\<lambda>_ _ _ _ w. (Inr (), w))\<rparr>"

definition ex_any :: "(nat, (nat, nat, nat) any_unit) sub_unit" where
  "ex_any = any_sub (service_sub (\<lambda>_ f s. Some (Inr (), f, s)) ex_os) ex_um"

definition ex_unit :: "(nat, (nat, nat, nat) any_unit) unit_entry" where
  "ex_unit = \<lparr>ue_frame = ex_frame ''d.service'' ue_config_unit_default,
     ue_sub = AnyService (service_mng_new (Some ''d.service'')
       (ex_service\<lparr>ExecStartPre := None, ExecReload := Some [ex_cmd ''/bin/r'']\<rparr>) (redb_new 0)
       (\<lparr>ul_limit = start_limit_new, ul_results = [], ul_now = 0\<rparr>, 0))\<rparr>"

text \<open>Started, told to reload, and told that the reload command (process 101) ended well.\<close>

definition ex_started_unit :: "(nat, (nat, nat, nat) any_unit) unit_entry" where
  "ex_started_unit = snd (the (unit_start ex_any ex_sys ex_unit))"

definition ex_reloading_unit :: "(nat, (nat, nat, nat) any_unit) unit_entry" where
  "ex_reloading_unit = snd (the (unit_reload ex_any ex_started_unit))"

definition ex_reloaded_unit :: "(nat, (nat, nat, nat) any_unit) unit_entry" where
  "ex_reloaded_unit = the (unit_sigchld_events ex_any (WExited 101 0) ex_reloading_unit)"

lemma ex_unit_defined:
  "\<not> Option.is_none (unit_start ex_any ex_sys ex_unit)"
  "\<not> Option.is_none (unit_reload ex_any ex_started_unit)"
  "\<not> Option.is_none (unit_sigchld_events ex_any (WExited 101 0) ex_reloading_unit)"
  by code_simp+

lemma ex_unit_reports:
  "ue_states (ue_frame ex_unit) = []"
  "map note_ns (ue_states (ue_frame ex_reloaded_unit)) = [UnitActive, UnitReloading, UnitActive]"
  by code_simp+

lemma ex_unit_attached: "any_attached (ue_id (ue_frame ex_unit)) (ue_sub ex_unit)"
  by (simp add: ex_unit_def ex_frame_def service_attached_def service_mng_new_def)

lemma ex_unit_steps: "(unit_step ex_any)\<^sup>*\<^sup>* ex_unit ex_reloaded_unit"
proof -
  have "unit_step ex_any ex_unit ex_started_unit"
    using ex_unit_defined(1) by (intro us_start[of _ ex_sys _ "fst (the (unit_start ex_any ex_sys ex_unit))"])
      (auto simp: ex_started_unit_def Option.is_none_def)
  moreover have "unit_step ex_any ex_started_unit ex_reloading_unit"
    using ex_unit_defined(2) by (intro us_reload[of _ _ "fst (the (unit_reload ex_any ex_started_unit))"])
      (auto simp: ex_reloading_unit_def Option.is_none_def)
  moreover have "unit_step ex_any ex_reloading_unit ex_reloaded_unit"
    using ex_unit_defined(3) by (intro us_sigchld[of _ "WExited 101 0"]) (auto simp: ex_reloaded_unit_def Option.is_none_def)
  ultimately show ?thesis by (meson rtranclp.rtrancl_refl rtranclp.rtrancl_into_rtrancl)
qed

subsection \<open>Reports and stopping\<close>

text \<open>
  C16: whatever requests a unit gets and whichever of its processes end, whether a service, a
  target or a mount stands behind it, the state changes it reports to the job manager bear
  its id, continue each other and end in its active state.
\<close>

theorem unit_reports_complete:
  fixes um :: "'w um_if" and os :: "'v service_os"
  assumes "any_attached (ue_id (ue_frame u)) (ue_sub u)"
    and "(unit_step (any_sub (service_sub ld os) um))\<^sup>*\<^sup>* u u'"
  shows "ue_id (ue_frame u') = ue_id (ue_frame u) \<and>
    (\<exists>ns. ue_states (ue_frame u') = ue_states (ue_frame u) @ ns \<and>
      report_chain (ue_id (ue_frame u)) (su_active_state (any_sub (service_sub ld os) um) (ue_sub u)) ns
        (su_active_state (any_sub (service_sub ld os) um) (ue_sub u')))"
  using any.unit_steps_ok[OF assms(2)] assms(1) by (simp add: unit_ok_def unit_attached_def)

theorem unit_reports_complete_witness:
  "report_chain ''d.service'' (su_active_state ex_any (ue_sub ex_unit)) (ue_states (ue_frame ex_reloaded_unit))
     (su_active_state ex_any (ue_sub ex_reloaded_unit)) \<and> length (ue_states (ue_frame ex_reloaded_unit)) = 3"
proof -
  have "ue_id (ue_frame ex_unit) = ''d.service''" by (simp add: ex_unit_def ex_frame_def)
  moreover have "length (ue_states (ue_frame ex_reloaded_unit)) = 3"
    using arg_cong[OF ex_unit_reports(2), of length] by simp
  ultimately show ?thesis
    using unit_reports_complete[OF ex_unit_attached ex_unit_steps[unfolded ex_any_def]]
    by (auto simp: ex_any_def ex_unit_reports(1))
qed



text \<open>
  every report of a unit carries the flag of a failed reload, so a reload job never ends
  well while its unit is up: the report that the reload command is done and the unit is active
  again makes the job fail.
\<close>

theorem unit_reload_job_fails:
  fixes um :: "'w um_if" and os :: "'v service_os"
  assumes "any_attached (ue_id (ue_frame u)) (ue_sub u)"
    and "(unit_step (any_sub (service_sub ld os) um))\<^sup>*\<^sup>* u u'"
    and "ue_states (ue_frame u') = ue_states (ue_frame u) @ ns" and "n \<in> set ns"
  shows "job_process_unit job_kind.Reload (note_ns n) (note_flags n) \<noteq> Some (Some Done, True) \<and>
    (note_ns n = UnitActive \<longrightarrow> job_process_unit job_kind.Reload (note_ns n) (note_flags n) = Some (Some job_result.Failed, True))"
proof -
  have "note_flags n = UNIT_NOTIFY_RELOAD_FAILURE"
    using any.unit_steps_ok[OF assms(2)] assms report_chain_flags by (fastforce simp: unit_ok_def unit_attached_def)
  then show ?thesis
    by (cases "note_ns n") (simp_all add: job_process_unit_def job_process_unit_reload_def rust_defs)
qed

theorem unit_reload_job_fails_witness:
  "\<exists>n\<in>set (ue_states (ue_frame ex_reloaded_unit)). note_ns n = UnitActive \<and>
     job_process_unit job_kind.Reload (note_ns n) (note_flags n) = Some (Some job_result.Failed, True)"
proof -
  let ?n = "last (ue_states (ue_frame ex_reloaded_unit))"
  have ne: "ue_states (ue_frame ex_reloaded_unit) \<noteq> []" using ex_unit_reports(2) by auto
  have "note_ns ?n = UnitActive" using arg_cong[OF ex_unit_reports(2), of last] ne by (simp add: last_map)
  moreover have "?n \<in> set (ue_states (ue_frame ex_reloaded_unit))" using ne by simp
  ultimately show ?thesis
    using unit_reload_job_fails[OF ex_unit_attached ex_unit_steps[unfolded ex_any_def], of "ue_states (ue_frame ex_reloaded_unit)" ?n]
    by (auto simp: ex_unit_reports(1))
qed

end
