(* ===== verification/Unit_Store.thy ===== *)
theory Unit_Store
  imports Unit_Subs Unit_Deps
begin

section \<open>The store of units and their loading (core/bin/unit: datastore, runtime.rs, uload.rs)\<close>

text \<open>
  \<open>UnitDb\<close> (the set of units, their dependencies and the processes they watch), \<open>UnitRT\<close> (the
  queues of units to load and of units to connect with their targets) and \<open>UnitLoad\<close>. The units
  share one \<open>UnitRe\<close>; it is kept with the dependencies and lent to a unit while one of its
  methods runs. \<open>None\<close> is a panic.
\<close>

unbundle bit_operations_syntax

subsection \<open>State\<close>

datatype reli_last_que =
    QueLoad | QueTargetDeps | QueGcJob | QueGcUnit | QueClean | QueCgRealize | QueStartWhenUpheld | QueStopWhenBound
  | QueStopWhenUnneeded | QueDbus

definition reli_last_que_try_from :: "u32 \<Rightarrow> reli_last_que option" where
  "reli_last_que_try_from v =
     (let qs = [QueLoad, QueTargetDeps, QueGcJob, QueGcUnit, QueClean, QueCgRealize, QueStartWhenUpheld, QueStopWhenBound,
                QueStopWhenUnneeded, QueDbus]
      in if unat v < length qs then Some (qs ! unat v) else None)"

record 'd unit_disk =
  ud_base :: "('d, uid, unit_type) heed"
  ud_load :: "('d, uid, unit_load_state) heed"
  ud_conf :: "('d, uid, ue_config_unit \<times> ue_config_install) heed"
  ud_cgroup :: "('d, uid, string) heed"
  ud_child :: "('d, uid, int list) heed"
  ud_pps :: "('d, uid, unit_re_pps) heed"
  ud_dep :: "('d, uid, (unit_relations \<times> uid) list) heed"
  ud_notify :: "('d, u32, int) heed"

definition unit_re_commit :: "'d unit_disk \<Rightarrow> 'd unit_re \<Rightarrow> 'd unit_re" where
  "unit_re_commit H r =
     \<lparr>re_base = redb_cache_2_db (ud_base H) (re_base r), re_load = redb_cache_2_db (ud_load H) (re_load r),
      re_conf = redb_cache_2_db (ud_conf H) (re_conf r), re_cgroup = redb_cache_2_db (ud_cgroup H) (re_cgroup r),
      re_child = redb_cache_2_db (ud_child H) (re_child r), re_pps = redb_cache_2_db (ud_pps H) (re_pps r),
      re_dep = redb_cache_2_db (ud_dep H) (re_dep r), re_notify = redb_cache_2_db (ud_notify H) (re_notify r)\<rparr>"

record ('d, 's) unit_store =
  us_units :: "(uid \<times> ('d, 's) unit_entry) list"
  us_dep :: "'d unit_dep_data"
  us_watch :: "(pid \<times> uid) list"
  us_load_queue :: "uid list"
  us_target_queue :: "uid list"
  us_last_frame :: "(u32 \<times> u32 option) option"
  us_last_unit :: "uid option"

text \<open>The surroundings: the sub units, the configuration files, the plugin that creates a sub
  unit for a type, the time, the disk databases that a commit writes, and the order in which the
  \<open>HashMap\<close> of the configured dependencies is iterated.\<close>

record ('d, 's) store_env =
  sv_sub :: "('d, 's) sub_unit"
  sv_files :: unit_files
  sv_create :: "unit_type \<Rightarrow> 's option"
  sv_now :: nat
  sv_disk :: "'d unit_disk"
  sv_iter :: "unit_dep_conf \<Rightarrow> unit_dep_conf"

subsection \<open>The set of units\<close>

definition units_get :: "('d, 's) unit_store \<Rightarrow> uid \<Rightarrow> ('d, 's) unit_entry option" where
  "units_get st name = map_of (us_units st) name"

definition units_get_all :: "unit_type option \<Rightarrow> ('d, 's) unit_store \<Rightarrow> ('d, 's) unit_entry list" where
  "units_get_all ty st = filter (\<lambda>u. case ty of Some t \<Rightarrow> ue_unit_type (ue_frame u) = t | None \<Rightarrow> True) (map snd (us_units st))"

text \<open>Lending the shared \<open>UnitRe\<close> to a unit, and taking the unit and the \<open>UnitRe\<close> back.\<close>

definition us_lend :: "('d, 's) unit_store \<Rightarrow> ('d, 's) unit_entry \<Rightarrow> ('d, 's) unit_entry" where
  "us_lend st u = u\<lparr>ue_frame := (ue_frame u)\<lparr>ue_re := dd_rentry (us_dep st)\<rparr>\<rparr>"

definition us_back :: "uid \<Rightarrow> ('d, 's) unit_entry \<Rightarrow> ('d, 's) unit_store \<Rightarrow> ('d, 's) unit_store" where
  "us_back name u st = st\<lparr>us_units := AList.update name u (us_units st),
     us_dep := (us_dep st)\<lparr>dd_rentry := ue_re (ue_frame u)\<rparr>\<rparr>"

definition on_frame ::
  "uid \<Rightarrow> ('d unit_frame \<Rightarrow> 'd unit_frame option) \<Rightarrow> ('d, 's) unit_store \<Rightarrow> ('d, 's) unit_store option" where
  "on_frame name g st = do {
     u \<leftarrow> units_get st name;
     f \<leftarrow> g (ue_frame (us_lend st u));
     Some (us_back name (u\<lparr>ue_frame := f\<rparr>) st)
   }"

definition units_insert :: "uid \<Rightarrow> ('d, 's) unit_entry \<Rightarrow> ('d, 's) unit_store \<Rightarrow> ('d, 's) unit_store" where
  "units_insert name u st = (us_back name u st)\<lparr>us_dep := (us_dep (us_back name u st))
     \<lparr>dd_units := List.insert name (dd_units (us_dep st))\<rparr>\<rparr>"

definition db_dep_insert ::
  "uid \<Rightarrow> unit_relations \<Rightarrow> uid \<Rightarrow> bool \<Rightarrow> u16 \<Rightarrow> ('d, 's) unit_store \<Rightarrow> ((error + unit) \<times> ('d, 's) unit_store) option" where
  "db_dep_insert source relation dest reference mk st =
     map_option (\<lambda>(r, dd). (r, st\<lparr>us_dep := dd\<rparr>)) (unit_dep_insert source relation dest reference mk (us_dep st))"

text \<open>\<open>UnitDb::dep_gets\<close>, and \<open>UnitRT::unit_add_dependency\<close>, which ignores its mask and whether the
  insertion failed.\<close>

definition db_dep_gets :: "('d, 's) unit_store \<Rightarrow> uid \<Rightarrow> unit_relations \<Rightarrow> uid list" where
  "db_dep_gets st name relation =
     (case units_get st name of None \<Rightarrow> [] | Some _ \<Rightarrow> dep_data_gets (us_dep st) name relation)"

definition rt_unit_add_dependency ::
  "uid \<Rightarrow> unit_relations \<Rightarrow> uid \<Rightarrow> bool \<Rightarrow> ('d, 's) unit_store \<Rightarrow> ('d, 's) unit_store option" where
  "rt_unit_add_dependency source relation target add_ref st =
     map_option snd (db_dep_insert source relation target add_ref 4 st)"

subsection \<open>Watched processes\<close>

definition add_watch_pid :: "uid \<Rightarrow> pid \<Rightarrow> ('d, 's) unit_store \<Rightarrow> ('d, 's) unit_store option" where
  "add_watch_pid name p st = do {
     units_get st name;
     on_frame name (child_add_pids p) (st\<lparr>us_watch := AList.update p name (us_watch st)\<rparr>)
   }"

definition unwatch_pid :: "uid \<Rightarrow> pid \<Rightarrow> ('d, 's) unit_store \<Rightarrow> ('d, 's) unit_store option" where
  "unwatch_pid name p st = do {
     units_get st name;
     on_frame name (child_remove_pids p) (st\<lparr>us_watch := AList.delete p (us_watch st)\<rparr>)
   }"

definition get_unit_by_pid :: "('d, 's) unit_store \<Rightarrow> pid \<Rightarrow> uid option" where
  "get_unit_by_pid st p = map_of (us_watch st) p"

definition child_watch_all_pids :: "pid list \<Rightarrow> uid \<Rightarrow> ('d, 's) unit_store \<Rightarrow> ('d, 's) unit_store option" where
  "child_watch_all_pids pids name st = do {
     u \<leftarrow> units_get st name;
     if ue_cg_path (ue_frame u) = [] then Some st else for_each (add_watch_pid name) pids st
   }"

definition child_db_map :: "('d, 's) unit_store \<Rightarrow> ('d, 's) unit_store option" where
  "child_db_map st = for_each (\<lambda>name st. do {
       units_get st name;
       Some (st\<lparr>us_watch := fold (\<lambda>p. AList.update p name) (child_get (dd_rentry (us_dep st)) name) (us_watch st)\<rparr>)
     }) (child_keys (dd_rentry (us_dep st))) st"

subsection \<open>Records of the last action\<close>

definition us_set_last_unit :: "uid \<Rightarrow> ('d, 's) unit_store \<Rightarrow> ('d, 's) unit_store" where
  "us_set_last_unit name st = st\<lparr>us_last_unit := Some name\<rparr>"

definition us_commit :: "'d unit_disk \<Rightarrow> ('d, 's) unit_store \<Rightarrow> ('d, 's) unit_store" where
  "us_commit H st = st\<lparr>us_dep := (us_dep st)\<lparr>dd_rentry := unit_re_commit H (dd_rentry (us_dep st))\<rparr>\<rparr>"

definition us_clear_last_unit :: "'d unit_disk \<Rightarrow> ('d, 's) unit_store \<Rightarrow> ('d, 's) unit_store" where
  "us_clear_last_unit H st = (us_commit H st)\<lparr>us_last_unit := None\<rparr>"

definition us_set_last_frame2 :: "u32 \<Rightarrow> u32 \<Rightarrow> ('d, 's) unit_store \<Rightarrow> ('d, 's) unit_store" where
  "us_set_last_frame2 f1 f2 st = st\<lparr>us_last_frame := Some (f1, Some f2)\<rparr>"

definition us_clear_last_frame :: "'d unit_disk \<Rightarrow> ('d, 's) unit_store \<Rightarrow> ('d, 's) unit_store" where
  "us_clear_last_frame H st = (us_commit H st)\<lparr>us_last_frame := None\<rparr>"

subsection \<open>Queues\<close>

definition push_load_queue :: "uid \<Rightarrow> ('d, 's) unit_store \<Rightarrow> ('d, 's) unit_store option" where
  "push_load_queue name st = do {
     u \<leftarrow> units_get st name;
     if ue_in_load_queue (ue_frame u) then Some st
     else do {
       st1 \<leftarrow> on_frame name (set_in_load_queue True) st;
       Some (st1\<lparr>us_load_queue := us_load_queue st1 @ [name]\<rparr>)
     }
   }"

definition push_target_dep_queue :: "uid \<Rightarrow> ('d, 's) unit_store \<Rightarrow> ('d, 's) unit_store option" where
  "push_target_dep_queue name st = do {
     u \<leftarrow> units_get st name;
     if ue_in_target_dep_queue (ue_frame u) then Some st
     else do {
       st1 \<leftarrow> on_frame name (set_in_target_dep_queue True) st;
       Some (st1\<lparr>us_target_queue := us_target_queue st1 @ [name]\<rparr>)
     }
   }"

subsection \<open>Creating units\<close>

definition ue_config_install_default :: ue_config_install where
  "ue_config_install_default = \<lparr>Alias = [], WantedBy = [], RequiredBy = [], Also = []\<rparr>"

text \<open>The outer option is a panic, the inner one the result.\<close>

definition try_new_unit ::
  "('d, 's) store_env \<Rightarrow> uid \<Rightarrow> ('d, 's) unit_store \<Rightarrow> ('d, 's) unit_entry option option" where
  "try_new_unit env name st =
     (let ty = unit_name_to_type name in
      if ty = UnitTypeInvalid then Some None
      else (case sv_create env ty of
          None \<Rightarrow> Some None
        | Some sub \<Rightarrow> map_option Some
            (unit_new (sv_sub env) ty name ue_config_install_default (sv_now env) (dd_rentry (us_dep st)) sub)))"

definition prepare_unit :: "('d, 's) store_env \<Rightarrow> uid \<Rightarrow> ('d, 's) unit_store \<Rightarrow> (bool \<times> ('d, 's) unit_store) option" where
  "prepare_unit env name st = do {
     r \<leftarrow> try_new_unit env name st;
     (case r of
        None \<Rightarrow> Some (False, st)
      | Some u \<Rightarrow> do {
          st1 \<leftarrow> push_load_queue name (units_insert name u st);
          Some (True, st1)
        })
   }"

definition push_dep_unit_into_load_queue ::
  "('d, 's) store_env \<Rightarrow> uid \<Rightarrow> ('d, 's) unit_store \<Rightarrow> (bool \<times> ('d, 's) unit_store) option" where
  "push_dep_unit_into_load_queue env name st =
     (if units_get st name \<noteq> None then Some (True, st) else prepare_unit env name st)"

text \<open>\<open>insert_udconf\<close>: the two nested loops as one over the pairs of a relation and a name; it ends
  (with \<open>False\<close>) at the first unit that can not be created.\<close>

definition dep_pairs :: "unit_dep_conf \<Rightarrow> (unit_relations \<times> uid) list" where
  "dep_pairs config = concat (map (\<lambda>(r, ns). map (Pair r) ns) config)"

fun insert_deps ::
  "('d, 's) store_env \<Rightarrow> uid \<Rightarrow> (unit_relations \<times> uid) list \<Rightarrow> ('d, 's) unit_store \<Rightarrow> (bool \<times> ('d, 's) unit_store) option" where
  "insert_deps env name [] st = Some (True, st)"
| "insert_deps env name ((relation, o_name) # ds) st = do {
     (ok, st1) \<leftarrow> push_dep_unit_into_load_queue env o_name st;
     if \<not> ok then Some (False, st1)
     else do {
       (r, st2) \<leftarrow> db_dep_insert name relation o_name True 0 st1;
       (case r of Inl _ \<Rightarrow> Some (False, st2) | Inr _ \<Rightarrow> insert_deps env name ds st2)
     }
   }"

definition insert_udconf ::
  "('d, 's) store_env \<Rightarrow> uid \<Rightarrow> unit_dep_conf \<Rightarrow> ('d, 's) unit_store \<Rightarrow> ('d, 's) unit_store option" where
  "insert_udconf env name config st =
     (if units_get st name = None then Some st
      else map_option snd (insert_deps env name (dep_pairs (sv_iter env config)) st))"

subsection \<open>Loading\<close>

text \<open>\<open>UnitX::load\<close> of a unit of the store.\<close>

definition us_load_unit ::
  "('d, 's) store_env \<Rightarrow> uid \<Rightarrow> ('d, 's) unit_store \<Rightarrow> ((error + unit) \<times> ('d, 's) unit_store) option" where
  "us_load_unit env name st = do {
     u \<leftarrow> units_get st name;
     (r, f) \<leftarrow> load_begin (sv_files env) (ue_frame (us_lend st u));
     let st1 = us_back name (u\<lparr>ue_frame := f\<rparr>) st;
     (case r of
        None \<Rightarrow> Some (Inr (), st1)
      | Some (Inl e) \<Rightarrow> Some (Inl e, st1)
      | Some (Inr _) \<Rightarrow> do {
          st2 \<leftarrow> insert_udconf env name (snd (last (ue_dep_confs f))) st1;
          u2 \<leftarrow> units_get st2 name;
          (r2, u3) \<leftarrow> load_finish (sv_sub env) (sv_files env) (us_lend st2 u2);
          Some (r2, us_back name u3 st2)
        })
   }"

text \<open>One round of the loop of \<open>dispatch_load_queue\<close> for the unit it popped.\<close>

definition dispatch_load_one ::
  "('d, 's) store_env \<Rightarrow> uid \<Rightarrow> ('d, 's) unit_store \<Rightarrow> ('d, 's) unit_store option" where
  "dispatch_load_one env name st = do {
     (r, st1) \<leftarrow> us_load_unit env name (us_set_last_unit name st);
     st2 \<leftarrow> (case r of
         Inr _ \<Rightarrow> do {
           u \<leftarrow> units_get st1 name;
           if ue_load_state (ue_frame u) = UnitLoaded then push_target_dep_queue name st1 else Some st1
         }
       | Inl _ \<Rightarrow> Some st1);
     Some (us_clear_last_unit (sv_disk env) st2)
   }"

partial_function (option) load_loop ::
  "('d, 's) store_env \<Rightarrow> ('d, 's) unit_store \<Rightarrow> ('d, 's) unit_store option" where
  "load_loop env st = (case us_load_queue st of
     [] \<Rightarrow> Some st
   | name # q \<Rightarrow> Option.bind (dispatch_load_one env name (st\<lparr>us_load_queue := q\<rparr>)) (load_loop env))"

text \<open>\<open>dispatch_target_dep_unit\<close>: every \<open>return\<close> of the loop body ends the loop.\<close>

fun target_dep_loop ::
  "uid \<Rightarrow> uid list \<Rightarrow> ('d, 's) unit_store \<Rightarrow> ('d, 's) unit_store option" where
  "target_dep_loop name [] st = Some st"
| "target_dep_loop name (d # ds) st = do {
     u \<leftarrow> units_get st name;
     t \<leftarrow> units_get st d;
     if ue_unit_type (ue_frame t) \<noteq> UnitTarget then Some st
     else if ue_load_state (ue_frame u) \<noteq> UnitLoaded \<or> ue_load_state (ue_frame t) \<noteq> UnitLoaded then Some st
     else if \<not> DefaultDependencies (ue_config (ue_frame u)) \<or> \<not> DefaultDependencies (ue_config (ue_frame t)) then Some st
     else if is_dep_atom_with (us_dep st) d UnitAtomBefore name then Some st
     else do {
       (r, st1) \<leftarrow> db_dep_insert d UnitAfter name True 4 st;
       (case r of Inl _ \<Rightarrow> Some st1 | Inr _ \<Rightarrow> target_dep_loop name ds st1)
     }
   }"

definition dispatch_target_dep_unit :: "uid \<Rightarrow> ('d, 's) unit_store \<Rightarrow> ('d, 's) unit_store option" where
  "dispatch_target_dep_unit name st = do {
     st1 \<leftarrow> on_frame name (set_in_target_dep_queue False) st;
     target_dep_loop name (gets_atom (us_dep st1) name UnitAtomDefaultTargetDependencies) st1
   }"

definition dispatch_target_dep_queue :: "('d, 's) store_env \<Rightarrow> ('d, 's) unit_store \<Rightarrow> ('d, 's) unit_store option" where
  "dispatch_target_dep_queue env st = for_each (\<lambda>name st. do {
       st1 \<leftarrow> dispatch_target_dep_unit name (us_set_last_unit name st);
       Some (us_clear_last_unit (sv_disk env) st1)
     }) (us_target_queue st) (st\<lparr>us_target_queue := []\<rparr>)"

definition dispatch_load_queue :: "('d, 's) store_env \<Rightarrow> ('d, 's) unit_store \<Rightarrow> ('d, 's) unit_store option" where
  "dispatch_load_queue env st = do {
     st1 \<leftarrow> load_loop env (us_set_last_frame2 0 0 st);
     st2 \<leftarrow> dispatch_target_dep_queue env (us_set_last_frame2 0 1 (us_clear_last_frame (sv_disk env) st1));
     Some (us_clear_last_frame (sv_disk env) st2)
   }"

definition store_load_unit ::
  "('d, 's) store_env \<Rightarrow> uid \<Rightarrow> ('d, 's) unit_store \<Rightarrow> (bool \<times> ('d, 's) unit_store) option" where
  "store_load_unit env name st =
     (if units_get st name \<noteq> None then Some (True, st)
      else do {
        (ok, st1) \<leftarrow> prepare_unit env name st;
        if \<not> ok then Some (False, st1)
        else do {
          st2 \<leftarrow> dispatch_load_queue env st1;
          Some (True, st2)
        }
      })"

subsection \<open>Recovery\<close>

definition rt_db_map_one :: "uid \<Rightarrow> ('d, 's) unit_store \<Rightarrow> ('d, 's) unit_store option" where
  "rt_db_map_one name st = do {
     st1 \<leftarrow> (if pps_contains (dd_rentry (us_dep st)) name QUEUE_LOAD then push_load_queue name st else Some st);
     if pps_contains (dd_rentry (us_dep st1)) name QUEUE_TARGET_DEPS then push_target_dep_queue name st1 else Some st1
   }"

definition rt_db_map :: "('d, 's) unit_store \<Rightarrow> ('d, 's) unit_store option" where
  "rt_db_map st = for_each rt_db_map_one (pps_keys (dd_rentry (us_dep st))) st"

text \<open>Forgetting everything that is kept in memory, before a reload, and mapping dependencies and
  processes back from the databases.\<close>

definition rt_entry_clear :: "('d, 's) unit_store \<Rightarrow> ('d, 's) unit_store" where
  "rt_entry_clear st = st\<lparr>us_load_queue := [], us_target_queue := []\<rparr>"

definition db_entry_clear :: "('d, 's) unit_store \<Rightarrow> ('d, 's) unit_store" where
  "db_entry_clear st = st\<lparr>us_watch := [], us_dep := (dep_data_clear (us_dep st))\<lparr>dd_units := []\<rparr>, us_units := []\<rparr>"

definition db_map_excl_units :: "('d, 's) unit_store \<Rightarrow> ('d, 's) unit_store option" where
  "db_map_excl_units st = do {
     dd \<leftarrow> dep_db_map (us_dep st);
     child_db_map (st\<lparr>us_dep := dd\<rparr>)
   }"

definition rc_last_queue :: "unit_re_pps \<Rightarrow> uid \<Rightarrow> ('d, 's) unit_store \<Rightarrow> ('d, 's) unit_store option" where
  "rc_last_queue m name st =
     (if pps_contains (dd_rentry (us_dep st)) name m
      then map_option (\<lambda>r. st\<lparr>us_dep := (us_dep st)\<lparr>dd_rentry := r\<rparr>\<rparr>) (pps_clear name m (dd_rentry (us_dep st)))
      else Some st)"

definition rt_db_compensate_last ::
  "u32 option \<Rightarrow> uid option \<Rightarrow> ('d, 's) unit_store \<Rightarrow> ('d, 's) unit_store option" where
  "rt_db_compensate_last queue lunit st = (case (lunit, Option.bind queue reli_last_que_try_from) of
     (Some name, Some QueLoad) \<Rightarrow> rc_last_queue QUEUE_LOAD name st
   | (Some name, Some QueTargetDeps) \<Rightarrow> rc_last_queue QUEUE_TARGET_DEPS name st
   | (Some _, Some _) \<Rightarrow> None
   | _ \<Rightarrow> Some st)"

definition rt_do_compensate_last ::
  "('d, 's) store_env \<Rightarrow> u32 option \<Rightarrow> uid option \<Rightarrow> ('d, 's) unit_store \<Rightarrow> ('d, 's) unit_store option" where
  "rt_do_compensate_last env queue lunit st = (case (lunit, Option.bind queue reli_last_que_try_from) of
     (Some name, Some QueLoad) \<Rightarrow>
       if units_get st name = None then Some st else map_option snd (us_load_unit env name st)
   | (Some name, Some QueTargetDeps) \<Rightarrow>
       if units_get st name = None then Some st else dispatch_target_dep_unit name st
   | (Some _, Some _) \<Rightarrow> None
   | _ \<Rightarrow> Some st)"

subsection \<open>The end of a child\<close>

text \<open>
  \<open>sigchld_dispatch\<close>: \<open>peek\<close> is what \<open>waitid\<close> reports without reaping (\<open>None\<close>: an error). The
  result says whether the event source stays on, and which process is reaped.
\<close>

definition sigchld_dispatch ::
  "('d, 's) store_env \<Rightarrow> wait_status option \<Rightarrow> ('d, 's) unit_store \<Rightarrow> (bool \<times> pid option \<times> ('d, 's) unit_store) option" where
  "sigchld_dispatch env peek st = (case peek of
     None \<Rightarrow> Some (False, None, st)
   | Some w \<Rightarrow>
       (case (case w of WExited p _ \<Rightarrow> Some p | WSignaled p _ _ \<Rightarrow> Some p | _ \<Rightarrow> None) of
          None \<Rightarrow> Some (w \<noteq> WStillAlive, None, st)
        | Some p \<Rightarrow>
            if p \<le> 0 then Some (False, None, st)
            else do {
              st1 \<leftarrow> (case get_unit_by_pid st p of
                  None \<Rightarrow> Some st
                | Some name \<Rightarrow> do {
                    let st0 = us_set_last_unit name st;
                    u \<leftarrow> units_get st0 name;
                    u1 \<leftarrow> unit_sigchld_events (sv_sub env) w (us_lend st0 u);
                    st2 \<leftarrow> unwatch_pid name p (us_back name u1 st0);
                    Some (us_clear_last_unit (sv_disk env) st2)
                  });
              Some (True, Some p, st1)
            }))"

end
