(* ===== verification/Unit_Load_Thms.thy ===== *)
theory Unit_Load_Thms
  imports Unit_Store
begin

section \<open>Loading units: the store stays consistent and the loop ends\<close>

text \<open>
  \<open>us_inv\<close> is the invariant of the store. Every operation on a unit keeps the shared database
  (\<open>re_like\<close>); the loop of \<open>dispatch_load_queue\<close> ends because each round takes one unit from the
  queue and only units that are new to the store are added to it.
\<close>

subsection \<open>The shared database\<close>

definition re_like :: "'d unit_re \<Rightarrow> 'd unit_re \<Rightarrow> bool" where
  "re_like r r' \<longleftrightarrow> (\<forall>u. base_contains r u \<longrightarrow> base_contains r' u) \<and> ignore (re_base r') = ignore (re_base r) \<and>
     cache (re_dep r') = cache (re_dep r) \<and> ignore (re_dep r') = ignore (re_dep r)"

lemma re_like_refl [simp]: "re_like r r"
  by (simp add: re_like_def)

lemma re_like_trans: "re_like r r1 \<Longrightarrow> re_like r1 r2 \<Longrightarrow> re_like r r2"
  by (simp add: re_like_def)

lemma re_like_base: "re_like r r' \<Longrightarrow> base_contains r u \<Longrightarrow> base_contains r' u"
  by (simp add: re_like_def)

lemma dep_inv_re_like:
  "dep_inv dd \<Longrightarrow> re_like (dd_rentry dd) r \<Longrightarrow> dep_inv (dd\<lparr>dd_rentry := r\<rparr>)"
  by (simp add: dep_inv_def dep_live_def dep_sym_def dep_persisted_def re_like_def dep_get_def redb_get_def)

lemma re_like_commit [simp]: "re_like r (unit_re_commit H r)"
  by (simp add: re_like_def unit_re_commit_def base_contains_def redb_contains_key_def redb_cache_2_db_def Let_def)

lemma re_like_fields [simp]:
  "re_like r (r\<lparr>re_load := a\<rparr>)" "re_like r (r\<lparr>re_conf := b\<rparr>)" "re_like r (r\<lparr>re_cgroup := c\<rparr>)"
  "re_like r (r\<lparr>re_child := d\<rparr>)" "re_like r (r\<lparr>re_pps := e\<rparr>)"
  by (simp_all add: re_like_def base_contains_def)

subsection \<open>Operations on a frame\<close>

text \<open>\<open>f'\<close> is \<open>f\<close> with another, compatible database and possibly other data of the unit.\<close>

definition frame_like :: "'d unit_frame \<Rightarrow> 'd unit_frame \<Rightarrow> bool" where
  "frame_like f f' \<longleftrightarrow> ue_id f' = ue_id f \<and> ue_unit_type f' = ue_unit_type f \<and> re_like (ue_re f) (ue_re f')"

lemma frame_like_refl [simp]: "frame_like f f"
  by (simp add: frame_like_def)

lemma frame_like_trans: "frame_like f f1 \<Longrightarrow> frame_like f1 f2 \<Longrightarrow> frame_like f f2"
  by (auto simp: frame_like_def intro: re_like_trans)

abbreviation registered :: "'d unit_frame \<Rightarrow> bool" where
  "registered f \<equiv> base_contains (ue_re f) (ue_id f)"

lemma registered_like: "frame_like f f' \<Longrightarrow> registered f \<Longrightarrow> registered f'"
  by (auto simp: frame_like_def intro: re_like_base)

lemma frame_rows:
  assumes "registered f"
  shows "\<exists>r. ue_config_db_insert f = Some (f\<lparr>ue_re := r\<rparr>) \<and> re_like (ue_re f) r"
    and "\<exists>r. ue_load_db_insert f = Some (f\<lparr>ue_re := r\<rparr>) \<and> re_like (ue_re f) r"
    and "\<exists>r. ue_pps t m f = Some (f\<lparr>ue_re := r\<rparr>) \<and> re_like (ue_re f) r"
proof -
  show "\<exists>r. ue_config_db_insert f = Some (f\<lparr>ue_re := r\<rparr>) \<and> re_like (ue_re f) r"
    using assms by (simp add: ue_config_db_insert_def conf_insert_def rust_assert_def) (rule exI, rule conjI, rule refl, simp)
  show "\<exists>r. ue_load_db_insert f = Some (f\<lparr>ue_re := r\<rparr>) \<and> re_like (ue_re f) r"
    using assms by (simp add: ue_load_db_insert_def load_insert_def rust_assert_def) (rule exI, rule conjI, rule refl, simp)
  show "\<exists>r. ue_pps t m f = Some (f\<lparr>ue_re := r\<rparr>) \<and> re_like (ue_re f) r"
    using assms by (cases t; simp add: ue_pps_def pps_set_def pps_clear_def rust_assert_def) (rule exI, rule conjI, rule refl, simp)+
qed

lemma set_load_state_ok:
  assumes "registered f"
  obtains f' where "set_load_state st f = Some f'" "frame_like f f'" "ue_load_state f' = st"
    "ue_in_load_queue f' = ue_in_load_queue f" "ue_in_target_dep_queue f' = ue_in_target_dep_queue f" "ue_dep_confs f' = ue_dep_confs f"
  using frame_rows(2)[of "f\<lparr>ue_load_state := st\<rparr>"] assms that
  by (auto simp: set_load_state_def frame_like_def)

lemma set_in_load_queue_ok:
  assumes "registered f"
  obtains f' where "set_in_load_queue t f = Some f'" "frame_like f f'" "ue_in_load_queue f' = t"
    "ue_in_target_dep_queue f' = ue_in_target_dep_queue f" "ue_dep_confs f' = ue_dep_confs f"
  using frame_rows(3)[of "f\<lparr>ue_in_load_queue := t\<rparr>" t QUEUE_LOAD] assms that
  by (auto simp: set_in_load_queue_def frame_like_def)

lemma set_in_target_dep_queue_ok:
  assumes "registered f"
  obtains f' where "set_in_target_dep_queue t f = Some f'" "frame_like f f'" "ue_in_load_queue f' = ue_in_load_queue f"
    "ue_in_target_dep_queue f' = t"
  using frame_rows(3)[of "f\<lparr>ue_in_target_dep_queue := t\<rparr>" t QUEUE_TARGET_DEPS] assms that
  by (auto simp: set_in_target_dep_queue_def frame_like_def)

subsection \<open>The dependencies in the files\<close>

text \<open>The dependencies a unit gets from its configuration files when it is loaded.\<close>

definition conf_deps :: "unit_files \<Rightarrow> uid \<Rightarrow> ue_config_unit \<Rightarrow> unit_dep_conf" where
  "conf_deps fl name unit =
     [(UnitWants, Wants unit @ fl_wants fl name), (UnitAfter, After unit @ fl_wants fl name @ fl_requires fl name),
      (UnitBefore, Before unit), (UnitRequires, Requires unit @ fl_requires fl name), (UnitBindsTo, BindsTo unit),
      (UnitRequisite, Requisite unit), (UnitOnFailure, ue_config_unit.OnFailure unit),
      (UnitOnSuccess, ue_config_unit.OnSuccess unit), (UnitPartOf, PartOf unit), (UnitConflicts, Conflicts unit)]"

definition file_confs :: "unit_files \<Rightarrow> uid \<Rightarrow> unit_dep_conf option" where
  "file_confs fl name = (let frag = fl_fragments fl name in
     if unit_name_to_type name = UnitMount \<or> frag = [] \<or> \<not> list_all (fl_exists fl) frag then None
     else (case fl_load fl frag of Inl _ \<Rightarrow> None | Inr (unit, install) \<Rightarrow> Some (conf_deps fl name unit)))"

lemma load_unit_confs_ok:
  assumes "registered f" "ue_unit_type f \<noteq> UnitMount" "ue_unit_type f = unit_name_to_type (ue_id f)"
  obtains r f' where "load_unit_confs fl f = Some (r, f')" "frame_like f f'" "ue_in_load_queue f' = ue_in_load_queue f"
    "ue_in_target_dep_queue f' = ue_in_target_dep_queue f"
    "\<And>e. r = Inl e \<Longrightarrow> file_confs fl (ue_id f) = None"
    "r = Inr () \<Longrightarrow> Some (snd (last (ue_dep_confs f'))) = file_confs fl (ue_id f)"
proof (cases "fl_fragments fl (ue_id f) = [] \<or> \<not> list_all (fl_exists fl) (fl_fragments fl (ue_id f))")
  case True
  then show ?thesis
    by (intro that[of "Inl (if fl_fragments fl (ue_id f) = [] then OtherError (''config file for '' @ ue_id f @ '' is not exist'')
          else OtherError (''config file is not exist '' @ ue_id f))" f])
      (auto simp: load_unit_confs_def load_fragment_and_dropin_def file_confs_def Let_def)
next
  case F: False
  show ?thesis
  proof (cases "fl_load fl (fl_fragments fl (ue_id f))")
    case (Inl e)
    then show ?thesis using F
      by (intro that[of "Inl Confique" f]) (auto simp: load_unit_confs_def load_fragment_and_dropin_def file_confs_def Let_def)
  next
    case (Inr ui)
    obtain unit install where ui: "ui = (unit, install)" by fastforce
    define f0 where "f0 = f\<lparr>ue_config := unit\<lparr>Wants := Wants unit @ fl_wants fl (ue_id f),
        Requires := Requires unit @ fl_requires fl (ue_id f),
        After := After unit @ fl_wants fl (ue_id f) @ fl_requires fl (ue_id f)\<rparr>, ue_install := install\<rparr>"
    have "registered f0" using assms(1) by (simp add: f0_def)
    then obtain r where r: "ue_config_db_insert f0 = Some (f0\<lparr>ue_re := r\<rparr>)" "re_like (ue_re f0) r" using frame_rows(1) by blast
    then have l: "load_fragment_and_dropin fl f = Some (Inr (), f0\<lparr>ue_re := r\<rparr>)"
      using F Inr by (simp add: load_fragment_and_dropin_def ui f0_def Let_def)
    show ?thesis
    proof (rule that[of "Inr ()" "ue_load_parse (f0\<lparr>ue_re := r\<rparr>)"])
      show "load_unit_confs fl f = Some (Inr (), ue_load_parse (f0\<lparr>ue_re := r\<rparr>))"
        using l by (simp add: load_unit_confs_def)
      show "frame_like f (ue_load_parse (f0\<lparr>ue_re := r\<rparr>))"
        using r(2) by (simp add: frame_like_def ue_load_parse_def f0_def Let_def)
      show "Some (snd (last (ue_dep_confs (ue_load_parse (f0\<lparr>ue_re := r\<rparr>))))) = file_confs fl (ue_id f)"
        using F Inr assms(2,3) by (simp add: file_confs_def conf_deps_def ue_load_parse_def f0_def ui Let_def)
    qed (simp_all add: ue_load_parse_def f0_def Let_def)
  qed
qed

lemma load_begin_ok:
  assumes "registered f" "ue_unit_type f = unit_name_to_type (ue_id f)"
  obtains r f' where "load_begin fl f = Some (r, f')" "frame_like f f'" "\<not> ue_in_load_queue f'"
    "ue_in_target_dep_queue f' = ue_in_target_dep_queue f"
    "r \<noteq> Some (Inr ()) \<Longrightarrow> file_confs fl (ue_id f) = None"
    "r = Some (Inr ()) \<Longrightarrow> Some (snd (last (ue_dep_confs f'))) = file_confs fl (ue_id f)"
proof -
  obtain f1 where f1: "set_in_load_queue False f = Some f1" "frame_like f f1" "ue_in_load_queue f1 = False"
      "ue_in_target_dep_queue f1 = ue_in_target_dep_queue f"
    using set_in_load_queue_ok[OF assms(1)] by metis
  have r1: "registered f1" using f1(2) assms(1) by (rule registered_like)
  have id1: "ue_id f1 = ue_id f" "ue_unit_type f1 = ue_unit_type f" using f1(2) by (simp_all add: frame_like_def)
  show ?thesis
  proof (cases "ue_unit_type f1 = UnitMount")
    case True
    obtain f2 where f2: "set_load_state UnitLoaded f1 = Some f2" "frame_like f1 f2" "ue_in_load_queue f2 = ue_in_load_queue f1"
        "ue_in_target_dep_queue f2 = ue_in_target_dep_queue f1"
      using set_load_state_ok[OF r1] by metis
    then show ?thesis using True f1 id1 assms(2)
      by (intro that[of None f2]) (auto simp: load_begin_def file_confs_def intro: frame_like_trans)
  next
    case False
    have ty: "ue_unit_type f1 = unit_name_to_type (ue_id f1)" using assms(2) id1 by simp
    obtain r f2 where f2: "load_unit_confs fl f1 = Some (r, f2)" "frame_like f1 f2" "ue_in_load_queue f2 = ue_in_load_queue f1"
        "ue_in_target_dep_queue f2 = ue_in_target_dep_queue f1" "\<And>e. r = Inl e \<Longrightarrow> file_confs fl (ue_id f1) = None"
        "r = Inr () \<Longrightarrow> Some (snd (last (ue_dep_confs f2))) = file_confs fl (ue_id f1)"
      using load_unit_confs_ok[OF r1 False ty, of fl] by metis
    show ?thesis
    proof (cases r)
      case (Inl e)
      obtain f3 where f3: "set_load_state UnitNotFound f2 = Some f3" "frame_like f2 f3" "ue_in_load_queue f3 = ue_in_load_queue f2"
          "ue_in_target_dep_queue f3 = ue_in_target_dep_queue f2"
        using set_load_state_ok[OF registered_like[OF f2(2) r1]] by metis
      have "frame_like f f3" using f1(2) f2(2) f3(2) by (blast intro: frame_like_trans)
      then show ?thesis using False f1 f2 f3 id1 Inl
        by (intro that[of "Some (Inl e)" f3]) (simp_all add: load_begin_def)
    next
      case (Inr x)
      have "frame_like f f2" using f1(2) f2(2) by (rule frame_like_trans)
      then show ?thesis using False f1 f2 id1 Inr
        by (intro that[of "Some (Inr ())" f2]) (simp_all add: load_begin_def)
    qed
  qed
qed

subsection \<open>What loading asks of a sub unit\<close>

definition same_flags :: "'d unit_frame \<Rightarrow> 'd unit_frame \<Rightarrow> bool" where
  "same_flags f f' \<longleftrightarrow> ue_in_load_queue f' = ue_in_load_queue f \<and> ue_in_target_dep_queue f' = ue_in_target_dep_queue f"

locale loadable_sub =
  fixes su :: "('d, 's) sub_unit"
  assumes load_ok: "\<exists>r f' s'. su_load su paths f s = Some (r, f', s') \<and> frame_like f f' \<and> same_flags f f'"
    and attach_ok: "\<exists>s'. su_attach su u s = Some s'"
begin

lemma load_finish_ok:
  assumes "registered (ue_frame u)"
  obtains r u' where "load_finish su fl u = Some (r, u')" "frame_like (ue_frame u) (ue_frame u')"
proof -
  obtain r f s where l: "su_load su (fl_fragments fl (ue_id (ue_frame u))) (ue_frame u) (ue_sub u) = Some (r, f, s)"
      "frame_like (ue_frame u) f" using load_ok by blast
  show thesis
  proof (cases r)
    case (Inl e)
    with l show thesis by (intro that[of "Inl e" "u\<lparr>ue_frame := f, ue_sub := s\<rparr>"]) (simp_all add: load_finish_def)
  next
    case (Inr x)
    obtain f1 where f1: "set_load_state UnitLoaded f = Some f1" "frame_like f f1"
      using set_load_state_ok[OF registered_like[OF l(2) assms]] by metis
    with Inr l frame_like_trans[OF l(2) f1(2)] show thesis
      by (intro that[of "Inr ()" "u\<lparr>ue_frame := f1, ue_sub := s\<rparr>"]) (simp_all add: load_finish_def)
  qed
qed

lemma unit_new_ok:
  assumes "\<not> ignore (re_base r)"
  obtains u where "unit_new su ty n install now r sub = Some u" "ue_id (ue_frame u) = n" "ue_unit_type (ue_frame u) = ty"
    "re_like r (ue_re (ue_frame u))" "base_contains (ue_re (ue_frame u)) n" "\<not> ue_in_load_queue (ue_frame u)"
    "\<not> ue_in_target_dep_queue (ue_frame u)"
proof -
  obtain s' where s': "su_attach su n sub = Some s'" using attach_ok by blast
  have reg: "base_contains (base_insert n ty r) n"
    using assms by (simp add: base_contains_def base_insert_def redb_contains_key_def redb_insert_def update_conv')
  have like: "re_like r (base_insert n ty r)"
    using assms by (auto simp: re_like_def base_contains_def base_insert_def redb_contains_key_def redb_insert_def update_conv')
  note defs = unit_new_def ue_base_db_insert_def pps_insert_def ue_config_db_insert_def conf_insert_def ue_load_db_insert_def
    load_insert_def ue_pps_def pps_clear_def ue_child_db_insert_def child_insert_def ue_cgroup_db_insert_def cgroup_insert_def
    rust_assert_def base_contains_def
  have "unit_new su ty n install now r sub \<noteq> None"
    using reg by (simp add: defs s')
  then obtain u where u: "unit_new su ty n install now r sub = Some u" by blast
  have "ue_id (ue_frame u) = n \<and> ue_unit_type (ue_frame u) = ty \<and> re_like (base_insert n ty r) (ue_re (ue_frame u)) \<and>
      \<not> ue_in_load_queue (ue_frame u) \<and> \<not> ue_in_target_dep_queue (ue_frame u)"
    using u reg by (auto simp: defs s' re_like_def)
  with u like reg show thesis by (intro that[of u]) (auto intro: re_like_trans re_like_base)
qed

end

interpretation target_load: loadable_sub "target_sub um :: ('d, ('d, 'w) target_mng) sub_unit" for um :: "'w um_if"
  by unfold_locales (simp_all add: target_sub_def same_flags_def)

interpretation mount_load: loadable_sub "mount_sub :: ('d, 'd mount_mng) sub_unit"
  by unfold_locales
    (auto simp: mount_sub_def mount_load_def same_flags_def frame_like_def set_ignore_on_isolate_def split: option.split)

lemma service_loadable:
  assumes "\<And>paths f s. \<exists>r f' s'. load paths f s = Some (r, f', s') \<and> frame_like f f' \<and> same_flags f f'"
  shows "loadable_sub (service_sub load os)"
  using assms by unfold_locales (simp_all add: service_sub_def)

lemma wrap_ex:
  "\<exists>r f' s'. x = Some (r, f', s') \<and> P f' \<Longrightarrow> \<exists>r f' s'. wrap c x = Some (r, f', s') \<and> P f'"
  by (auto simp: wrap_def)

lemma any_loadable:
  assumes "loadable_sub svc"
  shows "loadable_sub (any_sub svc um)"
proof
  fix paths f and a :: "('a, 'b, 'c) any_unit" and u
  show "\<exists>r f' s'. su_load (any_sub svc um) paths f a = Some (r, f', s') \<and> frame_like f f' \<and> same_flags f f'"
    using wrap_ex[OF loadable_sub.load_ok[OF assms, of paths f]] wrap_ex[OF target_load.load_ok[of um paths f]]
      wrap_ex[OF mount_load.load_ok[of paths f]]
    by (cases a) (simp_all add: any_sub_def)
  show "\<exists>s'. su_attach (any_sub svc um) u a = Some s'"
    by (cases a) (use loadable_sub.attach_ok[OF assms, of u] target_load.attach_ok[of um u] mount_load.attach_ok[of u]
        in \<open>simp_all add: any_sub_def\<close>)
qed

end
