(* ===== verification/Unit_Load.thy ===== *)
theory Unit_Load
  imports Unit_Load_Thms
begin

section \<open>Loading a unit and everything it depends on\<close>

text \<open>
  The invariant of the store (\<open>us_inv\<close>), what one round of the load loop does (\<open>loads\<close>), the
  end of the loop, and the exact set of units it adds to the store.
\<close>

subsection \<open>The invariant\<close>

definition us_dom :: "('d, 's) unit_store \<Rightarrow> uid set" where
  "us_dom st = {n. units_get st n \<noteq> None}"

abbreviation us_re :: "('d, 's) unit_store \<Rightarrow> 'd unit_re" where
  "us_re st \<equiv> dd_rentry (us_dep st)"

abbreviation us_rel :: "('d, 's) unit_store \<Rightarrow> (uid \<times> unit_relations \<times> uid) set" where
  "us_rel st \<equiv> dep_rel (dd_t (us_dep st))"

definition entry_ok :: "'d unit_re \<Rightarrow> uid \<Rightarrow> ('d, 's) unit_entry \<Rightarrow> bool" where
  "entry_ok r n u \<longleftrightarrow> ue_id (ue_frame u) = n \<and> ue_unit_type (ue_frame u) = unit_name_to_type n \<and> base_contains r n"

definition us_inv :: "('d, 's) unit_store \<Rightarrow> bool" where
  "us_inv st \<longleftrightarrow> (\<forall>n u. units_get st n = Some u \<longrightarrow> entry_ok (us_re st) n u) \<and> set (dd_units (us_dep st)) = us_dom st \<and>
     \<not> ignore (re_base (us_re st)) \<and> dep_inv (us_dep st) \<and>
     (\<forall>s r d. (s, r, d) \<in> us_rel st \<longrightarrow> s \<in> us_dom st \<and> d \<in> us_dom st) \<and>
     set (us_load_queue st) \<subseteq> us_dom st \<and> set (us_target_queue st) \<subseteq> us_dom st"

lemma us_dom_iff: "n \<in> us_dom st \<longleftrightarrow> (\<exists>u. units_get st n = Some u)"
  by (simp add: us_dom_def)

lemma us_inv_unit: "us_inv st \<Longrightarrow> units_get st n = Some u \<Longrightarrow> entry_ok (us_re st) n u"
  by (simp add: us_inv_def)

lemma us_inv_registered:
  "us_inv st \<Longrightarrow> units_get st n = Some u \<Longrightarrow> registered (ue_frame (us_lend st u))"
  by (drule (1) us_inv_unit) (simp add: entry_ok_def us_lend_def)

lemma us_inv_base: "us_inv st \<Longrightarrow> n \<in> us_dom st \<Longrightarrow> base_contains (us_re st) n"
  by (auto simp: us_dom_iff entry_ok_def dest: us_inv_unit)

lemma us_back_simps [simp]:
  "units_get (us_back n u st) m = (if m = n then Some u else units_get st m)"
  "us_load_queue (us_back n u st) = us_load_queue st" "us_target_queue (us_back n u st) = us_target_queue st"
  "dd_t (us_dep (us_back n u st)) = dd_t (us_dep st)" "dd_units (us_dep (us_back n u st)) = dd_units (us_dep st)"
  "us_re (us_back n u st) = ue_re (ue_frame u)"
  by (simp_all add: us_back_def units_get_def update_conv')

lemma us_dom_back [simp]: "us_dom (us_back n u st) = insert n (us_dom st)"
  by (auto simp: us_dom_iff split: if_splits)

lemma us_inv_fields [simp]:
  "us_inv (st\<lparr>us_last_unit := a\<rparr>) = us_inv st" "us_inv (st\<lparr>us_last_frame := b\<rparr>) = us_inv st"
  "us_dom (st\<lparr>us_last_unit := a\<rparr>) = us_dom st" "us_dom (st\<lparr>us_last_frame := b\<rparr>) = us_dom st"
  "us_dom (st\<lparr>us_load_queue := q\<rparr>) = us_dom st" "us_dom (st\<lparr>us_target_queue := q\<rparr>) = us_dom st"
  "us_dom (st\<lparr>us_dep := dd\<rparr>) = us_dom st"
  by (simp_all add: us_inv_def us_dom_def units_get_def)

lemma us_inv_load_queue: "us_inv st \<Longrightarrow> set q \<subseteq> us_dom st \<Longrightarrow> us_inv (st\<lparr>us_load_queue := q\<rparr>)"
  by (simp add: us_inv_def us_dom_def units_get_def)

lemma us_inv_target_queue: "us_inv st \<Longrightarrow> set q \<subseteq> us_dom st \<Longrightarrow> us_inv (st\<lparr>us_target_queue := q\<rparr>)"
  by (simp add: us_inv_def us_dom_def units_get_def)

lemma us_inv_queues: "us_inv st \<Longrightarrow> set (us_load_queue st) \<subseteq> us_dom st" "us_inv st \<Longrightarrow> set (us_target_queue st) \<subseteq> us_dom st"
  by (simp_all add: us_inv_def)

lemma us_inv_re_like:
  assumes "us_inv st" and "re_like (us_re st) r"
  shows "us_inv (st\<lparr>us_dep := (us_dep st)\<lparr>dd_rentry := r\<rparr>\<rparr>)"
  using assms dep_inv_re_like[of "us_dep st" r]
  by (auto simp: us_inv_def entry_ok_def units_get_def us_dom_def re_like_def)

lemma us_inv_commit [simp]:
  assumes "us_inv st"
  shows "us_inv (us_commit H st)"
  unfolding us_commit_def by (rule us_inv_re_like[OF assms]) simp

lemma us_commit_simps [simp]:
  "us_dom (us_commit H st) = us_dom st" "us_load_queue (us_commit H st) = us_load_queue st"
  "us_target_queue (us_commit H st) = us_target_queue st" "dd_t (us_dep (us_commit H st)) = dd_t (us_dep st)"
  by (simp_all add: us_commit_def)

lemma us_inv_back:
  assumes inv: "us_inv st" and u: "units_get st n = Some u"
    and like: "frame_like (ue_frame (us_lend st u)) (ue_frame u')"
  shows "us_inv (us_back n u' st)" and "us_dom (us_back n u' st) = us_dom st"
proof -
  have r: "re_like (us_re st) (ue_re (ue_frame u'))" and i: "ue_id (ue_frame u') = n" "ue_unit_type (ue_frame u') = unit_name_to_type n"
    using like us_inv_unit[OF inv u] by (simp_all add: frame_like_def us_lend_def entry_ok_def)
  show d: "us_dom (us_back n u' st) = us_dom st" using u by (auto simp: us_dom_iff)
  have "entry_ok (us_re (us_back n u' st)) m v" if "units_get (us_back n u' st) m = Some v" for m v
    using that us_inv_unit[OF inv u] us_inv_unit[OF inv, of m v] i re_like_base[OF r]
    by (auto simp: entry_ok_def split: if_splits)
  moreover have "dep_inv (us_dep (us_back n u' st))"
    using inv r by (auto simp: us_inv_def us_back_def intro: dep_inv_re_like)
  moreover have "\<not> ignore (re_base (us_re (us_back n u' st)))"
    using inv r by (simp add: us_inv_def re_like_def)
  ultimately show "us_inv (us_back n u' st)" using inv unfolding us_inv_def d by simp
qed

lemma on_frame_ok:
  assumes inv: "us_inv st" and u: "units_get st n = Some u"
    and g: "g (ue_frame (us_lend st u)) = Some f" "frame_like (ue_frame (us_lend st u)) f"
  shows "on_frame n g st = Some (us_back n (u\<lparr>ue_frame := f\<rparr>) st)" and "us_inv (us_back n (u\<lparr>ue_frame := f\<rparr>) st)"
    and "us_dom (us_back n (u\<lparr>ue_frame := f\<rparr>) st) = us_dom st"
  using u g us_inv_back[OF inv u, of "u\<lparr>ue_frame := f\<rparr>"] by (simp_all add: on_frame_def)

subsection \<open>Creating and queueing units\<close>

definition creatable :: "('d, 's) store_env \<Rightarrow> uid \<Rightarrow> bool" where
  "creatable env n \<longleftrightarrow> unit_name_to_type n \<noteq> UnitTypeInvalid \<and> sv_create env (unit_name_to_type n) \<noteq> None"

lemma push_load_queue_new:
  assumes inv: "us_inv st" and u: "units_get st n = Some u" and "\<not> ue_in_load_queue (ue_frame u)"
  obtains st' where "push_load_queue n st = Some st'" "us_inv st'" "us_dom st' = us_dom st"
    "us_load_queue st' = us_load_queue st @ [n]" "us_target_queue st' = us_target_queue st" "us_rel st' = us_rel st"
proof -
  obtain f where f: "set_in_load_queue True (ue_frame (us_lend st u)) = Some f" "frame_like (ue_frame (us_lend st u)) f"
    using set_in_load_queue_ok[OF us_inv_registered[OF inv u]] by metis
  let ?st = "us_back n (u\<lparr>ue_frame := f\<rparr>) st"
  note o = on_frame_ok[where g = "set_in_load_queue True", OF inv u f]
  have "us_inv (?st\<lparr>us_load_queue := us_load_queue ?st @ [n]\<rparr>)"
    using us_inv_queues[OF inv] by (intro us_inv_load_queue[OF o(2)]) auto
  then show thesis using u assms(3) o
    by (intro that[of "?st\<lparr>us_load_queue := us_load_queue ?st @ [n]\<rparr>"]) (simp_all add: push_load_queue_def)
qed

lemma push_target_dep_queue_ok:
  assumes inv: "us_inv st" and u: "units_get st n = Some u"
  obtains st' where "push_target_dep_queue n st = Some st'" "us_inv st'" "us_dom st' = us_dom st"
    "us_load_queue st' = us_load_queue st" "us_rel st' = us_rel st"
proof (cases "ue_in_target_dep_queue (ue_frame u)")
  case True
  with assms show thesis by (intro that[of st]) (simp_all add: push_target_dep_queue_def)
next
  case False
  obtain f where f: "set_in_target_dep_queue True (ue_frame (us_lend st u)) = Some f" "frame_like (ue_frame (us_lend st u)) f"
    using set_in_target_dep_queue_ok[OF us_inv_registered[OF inv u]] by metis
  let ?st = "us_back n (u\<lparr>ue_frame := f\<rparr>) st"
  note o = on_frame_ok[where g = "set_in_target_dep_queue True", OF inv u f]
  have "us_inv (?st\<lparr>us_target_queue := us_target_queue ?st @ [n]\<rparr>)"
    using us_inv_queues[OF inv] by (intro us_inv_target_queue[OF o(2)]) auto
  then show thesis using u False o
    by (intro that[of "?st\<lparr>us_target_queue := us_target_queue ?st @ [n]\<rparr>"]) (simp_all add: push_target_dep_queue_def)
qed

lemma units_insert_ok:
  assumes inv: "us_inv st" and new: "n \<notin> us_dom st"
    and u: "ue_id (ue_frame u) = n" "ue_unit_type (ue_frame u) = unit_name_to_type n"
      "re_like (us_re st) (ue_re (ue_frame u))" "base_contains (ue_re (ue_frame u)) n"
  shows "us_inv (units_insert n u st)" "us_dom (units_insert n u st) = insert n (us_dom st)"
    "units_get (units_insert n u st) n = Some u" "us_rel (units_insert n u st) = us_rel st"
    "us_load_queue (units_insert n u st) = us_load_queue st" "us_target_queue (units_insert n u st) = us_target_queue st"
proof -
  have get: "units_get (units_insert n u st) m = (if m = n then Some u else units_get st m)" for m
    using us_back_simps(1)[of n u st m] by (simp add: units_insert_def units_get_def del: us_back_simps)
  show d: "us_dom (units_insert n u st) = insert n (us_dom st)"
    by (simp add: units_insert_def)
  show "units_get (units_insert n u st) n = Some u" by (simp add: get)
  show s: "us_rel (units_insert n u st) = us_rel st" "us_load_queue (units_insert n u st) = us_load_queue st"
      "us_target_queue (units_insert n u st) = us_target_queue st"
    by (simp_all add: units_insert_def)
  have re: "us_re (units_insert n u st) = ue_re (ue_frame u)" by (simp add: units_insert_def)
  have "entry_ok (us_re (units_insert n u st)) m v" if "units_get (units_insert n u st) m = Some v" for m v
    using that us_inv_unit[OF inv, of m v] u re_like_base[OF u(3)]
    by (auto simp: get re entry_ok_def split: if_splits)
  moreover have "dep_inv (us_dep (units_insert n u st))"
    using dep_inv_re_like[of "us_dep st" "ue_re (ue_frame u)"] inv u(3)
    by (simp add: us_inv_def units_insert_def us_back_def dep_inv_def dep_live_def dep_sym_def dep_persisted_def)
  moreover have "set (dd_units (us_dep (units_insert n u st))) = us_dom (units_insert n u st)"
    "\<not> ignore (re_base (us_re (units_insert n u st)))"
    using inv u(3) by (auto simp: us_inv_def re_like_def units_insert_def)
  ultimately show "us_inv (units_insert n u st)" using inv unfolding us_inv_def d s by auto
qed

lemma prepare_unit_no:
  assumes "\<not> creatable env n"
  shows "prepare_unit env n st = Some (False, st)"
  using assms by (auto simp: prepare_unit_def try_new_unit_def creatable_def Let_def)

lemma prepare_unit_new:
  assumes su: "loadable_sub (sv_sub env)" and inv: "us_inv st" and new: "n \<notin> us_dom st" and c: "creatable env n"
  obtains st' where "prepare_unit env n st = Some (True, st')" "us_inv st'" "us_dom st' = insert n (us_dom st)"
    "us_load_queue st' = us_load_queue st @ [n]" "us_target_queue st' = us_target_queue st" "us_rel st' = us_rel st"
proof -
  obtain sub where sub: "sv_create env (unit_name_to_type n) = Some sub" "unit_name_to_type n \<noteq> UnitTypeInvalid"
    using c by (auto simp: creatable_def)
  have ig: "\<not> ignore (re_base (us_re st))" using inv by (simp add: us_inv_def)
  obtain u where u: "unit_new (sv_sub env) (unit_name_to_type n) n ue_config_install_default (sv_now env) (us_re st) sub = Some u"
      "ue_id (ue_frame u) = n" "ue_unit_type (ue_frame u) = unit_name_to_type n"
      "re_like (us_re st) (ue_re (ue_frame u))" "base_contains (ue_re (ue_frame u)) n" "\<not> ue_in_load_queue (ue_frame u)"
    by (rule loadable_sub.unit_new_ok[OF su ig]) blast
  note i = units_insert_ok[OF inv new u(2-5)]
  obtain st' where st': "push_load_queue n (units_insert n u st) = Some st'" "us_inv st'" "us_dom st' = us_dom (units_insert n u st)"
      "us_load_queue st' = us_load_queue (units_insert n u st) @ [n]" "us_target_queue st' = us_target_queue (units_insert n u st)"
      "us_rel st' = us_rel (units_insert n u st)"
    by (rule push_load_queue_new[OF i(1,3) u(6)]) blast
  then show thesis using sub u(1) i
    by (intro that[of st']) (simp_all add: prepare_unit_def try_new_unit_def Let_def)
qed

subsection \<open>Recording the dependencies of a unit\<close>

definition recorded :: "uid \<Rightarrow> (unit_relations \<times> uid) list \<Rightarrow> (uid \<times> unit_relations \<times> uid) set" where
  "recorded n ds = (\<Union>(r, d) \<in> set ds. if n = d then {}
     else {(n, r, d), (d, unit_relation_to_inverse r, n), (n, UnitReferences, d), (d, UnitReferencedBy, n)})"

lemma recorded_one:
  "recorded n [(r, d)] = (if n = d then {} else {(n, r, d), (d, unit_relation_to_inverse r, n)} \<union>
     {(n, UnitReferences, d), (d, UnitReferencedBy, n)})"
  by (auto simp: recorded_def)

text \<open>The dependencies up to the first unit outside \<open>U\<close>.\<close>

definition taken :: "uid set \<Rightarrow> (unit_relations \<times> uid) list \<Rightarrow> (unit_relations \<times> uid) list" where
  "taken U ds = takeWhile (\<lambda>(r, d). d \<in> U) ds"

text \<open>\<open>st'\<close> is \<open>st\<close> after the dependencies \<open>ds\<close> of \<open>n\<close> were recorded: units that were missing are
  created and queued, once each.\<close>

definition loads :: "uid \<Rightarrow> (unit_relations \<times> uid) list \<Rightarrow> ('d, 's) unit_store \<Rightarrow> ('d, 's) unit_store \<Rightarrow> bool" where
  "loads n ds st st' \<longleftrightarrow> us_dom st' = us_dom st \<union> snd ` set ds \<and> us_rel st' = us_rel st \<union> recorded n ds \<and>
     (\<exists>q. us_load_queue st' = us_load_queue st @ q \<and> set q = us_dom st' - us_dom st \<and> distinct q)"

lemma loads_Nil: "us_dom st' = us_dom st \<Longrightarrow> us_rel st' = us_rel st \<Longrightarrow> us_load_queue st' = us_load_queue st \<Longrightarrow> loads n [] st st'"
  by (simp add: loads_def recorded_def)

lemma loads_cong:
  assumes "loads n ds st st1" and "us_dom st0 = us_dom st" "us_rel st0 = us_rel st" "us_load_queue st0 = us_load_queue st"
    and "us_dom st1 = us_dom st'" "us_rel st1 = us_rel st'" "us_load_queue st1 = us_load_queue st'"
  shows "loads n ds st0 st'"
  using assms(1) unfolding loads_def assms(2-7) .

lemma push_dep_ok:
  assumes su: "loadable_sub (sv_sub env)" and inv: "us_inv st" and d: "d \<in> us_dom st \<or> creatable env d"
  obtains st' where "push_dep_unit_into_load_queue env d st = Some (True, st')" "us_inv st'" "us_dom st' = insert d (us_dom st)"
    "us_load_queue st' = us_load_queue st @ (if d \<in> us_dom st then [] else [d])" "us_rel st' = us_rel st"
proof (cases "d \<in> us_dom st")
  case True
  with inv show thesis by (intro that[of st]) (auto simp: push_dep_unit_into_load_queue_def us_dom_def)
next
  case False
  with d have "creatable env d" by simp
  then obtain st' where st': "prepare_unit env d st = Some (True, st')" "us_inv st'" "us_dom st' = insert d (us_dom st)"
      "us_load_queue st' = us_load_queue st @ [d]" "us_rel st' = us_rel st"
    using prepare_unit_new[OF su inv False] by metis
  then show thesis using False by (intro that[of st']) (simp_all add: push_dep_unit_into_load_queue_def us_dom_def)
qed

lemma db_dep_insert_ok:
  assumes inv: "us_inv st" and s: "s \<in> us_dom st" and d: "d \<in> us_dom st"
  obtains st' where "db_dep_insert s r d True mk st = Some (Inr (), st')" "us_inv st'" "us_dom st' = us_dom st"
    "us_rel st' = us_rel st \<union> recorded s [(r, d)]" "us_load_queue st' = us_load_queue st" "us_target_queue st' = us_target_queue st"
proof -
  have di: "dep_inv (us_dep st)" using inv by (simp add: us_inv_def)
  have "\<exists>dd. dep_data_insert s r d True mk (us_dep st) = Some dd \<and> dep_inv dd \<and> dd_units dd = dd_units (us_dep st) \<and>
      re_base (dd_rentry dd) = re_base (us_re st) \<and> dep_rel (dd_t dd) = us_rel st \<union> recorded s [(r, d)]"
    using dep_data_insert_spec[OF di us_inv_base[OF inv s] us_inv_base[OF inv d], of r True mk]
    unfolding recorded_one by (simp only: if_True)
  then obtain dd where dd: "dep_data_insert s r d True mk (us_dep st) = Some dd" "dep_inv dd"
      "dd_units dd = dd_units (us_dep st)" "re_base (dd_rentry dd) = re_base (us_re st)"
      "dep_rel (dd_t dd) = us_rel st \<union> recorded s [(r, d)]" by blast
  have "us_inv (st\<lparr>us_dep := dd\<rparr>)"
    using inv s d dd(2-5)
    by (auto simp: us_inv_def units_get_def entry_ok_def base_contains_def recorded_def split: if_splits)
  then show thesis using dd(1,5)
    by (intro that[of "st\<lparr>us_dep := dd\<rparr>"]) (simp_all add: db_dep_insert_def unit_dep_insert_def dep_check_def)
qed

lemma insert_deps_ok:
  assumes su: "loadable_sub (sv_sub env)" and "us_inv st" and "n \<in> us_dom st" and "U = us_dom st \<union> Collect (creatable env)"
  shows "\<exists>b st'. insert_deps env n ds st = Some (b, st') \<and> us_inv st' \<and> loads n (taken U ds) st st'"
  using assms(2-4)
proof (induction ds arbitrary: st)
  case Nil
  then show ?case by (auto simp: taken_def loads_Nil)
next
  case (Cons p ds)
  obtain r d where p: "p = (r, d)" by fastforce
  show ?case
  proof (cases "d \<in> U")
    case False
    then have "units_get st d = None" "\<not> creatable env d" using Cons.prems(3) by (auto simp: us_dom_def)
    then show ?thesis using False Cons.prems(1)
      by (auto simp: p push_dep_unit_into_load_queue_def prepare_unit_no taken_def loads_Nil)
  next
    case True
    then have "d \<in> us_dom st \<or> creatable env d" using Cons.prems(3) by auto
    then obtain st1 where st1: "push_dep_unit_into_load_queue env d st = Some (True, st1)" "us_inv st1"
        "us_dom st1 = insert d (us_dom st)" "us_load_queue st1 = us_load_queue st @ (if d \<in> us_dom st then [] else [d])"
        "us_rel st1 = us_rel st"
      using push_dep_ok[OF su Cons.prems(1)] by metis
    obtain st2 where st2: "db_dep_insert n r d True 0 st1 = Some (Inr (), st2)" "us_inv st2" "us_dom st2 = us_dom st1"
        "us_rel st2 = us_rel st1 \<union> recorded n [(r, d)]" "us_load_queue st2 = us_load_queue st1"
      using db_dep_insert_ok[OF st1(2), of n d] Cons.prems(2) st1(3) by (metis insert_iff)
    have "U = us_dom st2 \<union> Collect (creatable env)" using True Cons.prems(3) st1(3) st2(3) by auto
    then obtain b st' where st': "insert_deps env n ds st2 = Some (b, st')" "us_inv st'" "loads n (taken U ds) st2 st'"
      using Cons.IH[OF st2(2)] Cons.prems(2) st1(3) st2(3) by auto
    obtain q where q: "us_load_queue st' = us_load_queue st2 @ q" "set q = us_dom st' - us_dom st2" "distinct q"
      using st'(3) by (auto simp: loads_def)
    let ?q = "(if d \<in> us_dom st then [] else [d]) @ q"
    have "loads n (taken U (p # ds)) st st'" unfolding loads_def
    proof (intro conjI exI[of _ ?q])
      show "us_dom st' = us_dom st \<union> snd ` set (taken U (p # ds))"
        "us_rel st' = us_rel st \<union> recorded n (taken U (p # ds))"
        using st'(3) st1 st2 True by (auto simp: loads_def p taken_def recorded_def)
      show "us_load_queue st' = us_load_queue st @ ?q" using q(1) st1(4) st2(5) by simp
      show "set ?q = us_dom st' - us_dom st" "distinct ?q"
        using q(2,3) st1(3) st2(3) st'(3) by (auto simp: loads_def)
    qed
    with st' st1 st2 show ?thesis by (simp add: p)
  qed
qed

subsection \<open>One round of the loop\<close>

text \<open>The dependencies in the files of a unit, in the order in which they are visited.\<close>

definition file_deps :: "('d, 's) store_env \<Rightarrow> uid \<Rightarrow> (unit_relations \<times> uid) list" where
  "file_deps env n = (case file_confs (sv_files env) n of None \<Rightarrow> [] | Some c \<Rightarrow> dep_pairs (sv_iter env c))"

lemma us_load_unit_ok:
  assumes su: "loadable_sub (sv_sub env)" and inv: "us_inv st" and n: "n \<in> us_dom st"
    and U: "U = us_dom st \<union> Collect (creatable env)"
  shows "\<exists>r st'. us_load_unit env n st = Some (r, st') \<and> us_inv st' \<and> loads n (taken U (file_deps env n)) st st'"
proof -
  obtain u where u: "units_get st n = Some u" using n by (auto simp: us_dom_iff)
  have i: "ue_id (ue_frame (us_lend st u)) = n" "ue_unit_type (ue_frame (us_lend st u)) = unit_name_to_type n"
    using us_inv_unit[OF inv u] by (simp_all add: entry_ok_def us_lend_def)
  then obtain r f where f: "load_begin (sv_files env) (ue_frame (us_lend st u)) = Some (r, f)"
      "frame_like (ue_frame (us_lend st u)) f" "r \<noteq> Some (Inr ()) \<Longrightarrow> file_confs (sv_files env) n = None"
      "r = Some (Inr ()) \<Longrightarrow> Some (snd (last (ue_dep_confs f))) = file_confs (sv_files env) n"
    using load_begin_ok[OF us_inv_registered[OF inv u], of "sv_files env"] by (metis (no_types, lifting))
  define st1 where "st1 = us_back n (u\<lparr>ue_frame := f\<rparr>) st"
  have inv1: "us_inv st1" and d1: "us_dom st1 = us_dom st" and s1: "us_rel st1 = us_rel st" "us_load_queue st1 = us_load_queue st"
    using us_inv_back[OF inv u, of "u\<lparr>ue_frame := f\<rparr>"] f(2) by (simp_all add: st1_def)
  show ?thesis
  proof (cases "r = Some (Inr ())")
    case False
    then obtain e where e: "us_load_unit env n st = Some (e, st1)"
      using u f(1) by (cases r; cases "the r") (auto simp: us_load_unit_def st1_def)
    then show ?thesis using inv1 f(3)[OF False] loads_Nil[OF d1 s1] by (simp add: taken_def file_deps_def)
  next
    case True
    obtain b st2 where st2: "insert_deps env n (file_deps env n) st1 = Some (b, st2)" "us_inv st2"
        "loads n (taken U (file_deps env n)) st1 st2"
      using insert_deps_ok[OF su inv1] n U d1 by metis
    have "n \<in> us_dom st2" using st2(3) n d1 by (simp add: loads_def)
    then obtain u2 where u2: "units_get st2 n = Some u2" by (auto simp: us_dom_iff)
    obtain r3 u3 where u3: "load_finish (sv_sub env) (sv_files env) (us_lend st2 u2) = Some (r3, u3)"
        "frame_like (ue_frame (us_lend st2 u2)) (ue_frame u3)"
      by (rule loadable_sub.load_finish_ok[OF su us_inv_registered[OF st2(2) u2]])
    have e: "us_load_unit env n st = Some (r3, us_back n u3 st2)"
      using True u f(1) st2(1) u2 u3(1)
      by (simp add: us_load_unit_def insert_udconf_def file_deps_def f(4)[OF True, symmetric] st1_def[symmetric])
    have "loads n (taken U (file_deps env n)) st (us_back n u3 st2)"
      by (rule loads_cong[OF st2(3)]) (use d1 s1 us_inv_back[OF st2(2) u2 u3(2)] in simp_all)
    then show ?thesis using e us_inv_back[OF st2(2) u2 u3(2)] by blast
  qed
qed

lemma dispatch_load_one_ok:
  assumes su: "loadable_sub (sv_sub env)" and inv: "us_inv st" and n: "n \<in> us_dom st"
    and U: "U = us_dom st \<union> Collect (creatable env)"
  shows "\<exists>st'. dispatch_load_one env n st = Some st' \<and> us_inv st' \<and> loads n (taken U (file_deps env n)) st st'"
proof -
  let ?st = "us_set_last_unit n st" and ?l = "loads n (taken U (file_deps env n))"
  have "us_inv ?st" "us_dom ?st = us_dom st" using inv by (simp_all add: us_set_last_unit_def)
  then obtain r st1 where st1: "us_load_unit env n ?st = Some (r, st1)" "us_inv st1" "?l ?st st1"
    using us_load_unit_ok[OF su, of ?st n U] n U by auto
  have l1: "?l st st1" by (rule loads_cong[OF st1(3)]) (simp_all add: us_set_last_unit_def)
  then have "n \<in> us_dom st1" using n by (simp add: loads_def)
  then obtain u where u: "units_get st1 n = Some u" by (auto simp: us_dom_iff)
  obtain st0 where st0: "push_target_dep_queue n st1 = Some st0" "us_inv st0" "us_dom st0 = us_dom st1" "us_rel st0 = us_rel st1"
      "us_load_queue st0 = us_load_queue st1"
    by (rule push_target_dep_queue_ok[OF st1(2) u]) blast
  define st2 where "st2 = (if isl r \<or> ue_load_state (ue_frame u) \<noteq> UnitLoaded then st1 else st0)"
  have st2: "us_inv st2" "us_dom st2 = us_dom st1" "us_rel st2 = us_rel st1" "us_load_queue st2 = us_load_queue st1"
    using st0 st1(2) by (simp_all add: st2_def)
  have "dispatch_load_one env n st = Some (us_clear_last_unit (sv_disk env) st2)"
    using st1(1) st0(1) u by (cases r) (simp_all add: dispatch_load_one_def st2_def)
  moreover have "?l st (us_clear_last_unit (sv_disk env) st2)"
    by (rule loads_cong[OF l1]) (simp_all add: st2 us_clear_last_unit_def)
  ultimately show ?thesis using st2(1) by (simp add: us_clear_last_unit_def)
qed

subsection \<open>The loop\<close>

text \<open>The dependencies that loading \<open>n\<close> records when the store held the units \<open>D\<close> at the start:
  those in its files, up to the first unit that neither exists nor can be created. \<open>load_reach\<close> is
  what is reachable along them through units that are new.\<close>

definition new_deps :: "('d, 's) store_env \<Rightarrow> uid set \<Rightarrow> uid \<Rightarrow> (unit_relations \<times> uid) list" where
  "new_deps env D n = taken (D \<union> Collect (creatable env)) (file_deps env n)"

definition load_reach :: "('d, 's) store_env \<Rightarrow> uid set \<Rightarrow> uid \<Rightarrow> uid set" where
  "load_reach env D name = {(n, d). n \<notin> D \<and> d \<in> snd ` set (new_deps env D n)}\<^sup>* `` {name}"

lemma load_reach_start: "name \<in> load_reach env D name"
  by (simp add: load_reach_def)

lemma load_reach_step:
  "n \<in> load_reach env D name \<Longrightarrow> n \<notin> D \<Longrightarrow> snd ` set (new_deps env D n) \<subseteq> load_reach env D name"
  unfolding load_reach_def by (blast intro: rtrancl.rtrancl_into_rtrancl)

lemma load_reach_least:
  assumes "name \<in> X" and "\<And>n. n \<in> X \<Longrightarrow> n \<notin> D \<Longrightarrow> snd ` set (new_deps env D n) \<subseteq> X"
  shows "load_reach env D name \<subseteq> X"
proof
  fix d assume "d \<in> load_reach env D name"
  then have "(name, d) \<in> {(n, d). n \<notin> D \<and> d \<in> snd ` set (new_deps env D n)}\<^sup>*" by (simp add: load_reach_def)
  then show "d \<in> X" by (induction rule: rtrancl_induct) (use assms in auto)
qed

definition settled :: "('d, 's) store_env \<Rightarrow> uid set \<Rightarrow> ('d, 's) unit_store \<Rightarrow> uid \<Rightarrow> bool" where
  "settled env D st n \<longleftrightarrow> recorded n (new_deps env D n) \<subseteq> us_rel st \<and> snd ` set (new_deps env D n) \<subseteq> us_dom st"

definition loop_inv :: "('d, 's) store_env \<Rightarrow> uid set \<Rightarrow> uid set \<Rightarrow> ('d, 's) unit_store \<Rightarrow> bool" where
  "loop_inv env D W st \<longleftrightarrow> us_inv st \<and> D \<subseteq> us_dom st \<and> us_dom st \<subseteq> D \<union> W \<and> us_dom st \<subseteq> D \<union> Collect (creatable env) \<and>
     set (us_load_queue st) \<inter> D = {} \<and> (\<forall>n \<in> us_dom st - D - set (us_load_queue st). settled env D st n)"

lemma settled_mono:
  "settled env D st n \<Longrightarrow> us_dom st \<subseteq> us_dom st' \<Longrightarrow> us_rel st \<subseteq> us_rel st' \<Longrightarrow> settled env D st' n"
  by (auto simp: settled_def)

lemma loop_step:
  assumes inv: "loop_inv env D W st" and q: "us_load_queue st = n # q"
    and W: "\<And>n. n \<in> W - D \<Longrightarrow> snd ` set (new_deps env D n) \<subseteq> W" "finite W"
    and st': "us_inv st'" "loads n (new_deps env D n) (st\<lparr>us_load_queue := q\<rparr>) st'"
  shows "loop_inv env D W st'" "us_rel st \<subseteq> us_rel st'" "us_dom st \<subseteq> us_dom st'"
    "card (W - us_dom st') + length (us_load_queue st') < card (W - us_dom st) + length (us_load_queue st)"
proof -
  have nD: "n \<in> W - D" "n \<in> us_dom st" using inv q us_inv_queues(1)[of st] by (auto simp: loop_inv_def)
  obtain new where new: "us_load_queue st' = q @ new" "set new = us_dom st' - us_dom st" "distinct new"
      and dom: "us_dom st' = us_dom st \<union> snd ` set (new_deps env D n)" and rel: "us_rel st' = us_rel st \<union> recorded n (new_deps env D n)"
    using st'(2) by (auto simp: loads_def)
  show m: "us_rel st \<subseteq> us_rel st'" "us_dom st \<subseteq> us_dom st'" using rel dom by auto
  have dW: "snd ` set (new_deps env D n) \<subseteq> W" by (rule W(1)[OF nD(1)])
  have dU: "snd ` set (new_deps env D n) \<subseteq> D \<union> Collect (creatable env)"
    by (auto simp: new_deps_def taken_def dest: set_takeWhileD)
  have "settled env D st' m" if "m \<in> us_dom st' - D - set (us_load_queue st')" for m
  proof (cases "m = n")
    case True then show ?thesis using rel dom by (simp add: settled_def)
  next
    case False
    then have "m \<in> us_dom st - D - set (us_load_queue st)" using that new(1,2) q by auto
    then show ?thesis using inv m by (auto simp: loop_inv_def intro: settled_mono)
  qed
  then show "loop_inv env D W st'"
    using inv st'(1) dom dW dU new(1,2) q unfolding loop_inv_def by auto
  have "set new \<subseteq> W - us_dom st" using new(2) dom dW by auto
  moreover have "W - us_dom st' = (W - us_dom st) - set new" using new(2) dom by auto
  ultimately have "card (W - us_dom st') + length new = card (W - us_dom st)"
    using W(2) new(3) by (metis (no_types, lifting) List.finite_set add.commute card_Diff_subset card_mono distinct_card finite_Diff
        le_add_diff_inverse)
  then show "card (W - us_dom st') + length (us_load_queue st') < card (W - us_dom st) + length (us_load_queue st)"
    using new(1) q by simp
qed

lemma load_loop_ok:
  assumes su: "loadable_sub (sv_sub env)" and W: "\<And>n. n \<in> W - D \<Longrightarrow> snd ` set (new_deps env D n) \<subseteq> W" "finite W"
  shows "loop_inv env D W st \<Longrightarrow> \<exists>st'. load_loop env st = Some st' \<and> loop_inv env D W st' \<and> us_load_queue st' = [] \<and>
     us_rel st \<subseteq> us_rel st' \<and> us_dom st \<subseteq> us_dom st'"
proof (induction "card (W - us_dom st) + length (us_load_queue st)" arbitrary: st rule: less_induct)
  case less
  show ?case
  proof (cases "us_load_queue st")
    case Nil
    then show ?thesis using less.prems by (simp add: load_loop.simps)
  next
    case (Cons n q)
    let ?st = "st\<lparr>us_load_queue := q\<rparr>"
    have i: "us_inv st" "n \<in> us_dom st" "set q \<subseteq> us_dom st"
      using less.prems Cons us_inv_queues(1)[of st] by (auto simp: loop_inv_def)
    have "D \<union> Collect (creatable env) = us_dom ?st \<union> Collect (creatable env)"
      using less.prems by (auto simp: loop_inv_def)
    then obtain st1 where st1: "dispatch_load_one env n ?st = Some st1" "us_inv st1" "loads n (new_deps env D n) ?st st1"
      using dispatch_load_one_ok[OF su us_inv_load_queue[OF i(1,3)], of n] i(2) by (auto simp: new_deps_def)
    note s = loop_step[OF less.prems Cons W st1(2,3)]
    obtain st' where "load_loop env st1 = Some st'" "loop_inv env D W st'" "us_load_queue st' = []"
        "us_rel st1 \<subseteq> us_rel st'" "us_dom st1 \<subseteq> us_dom st'"
      using less.hyps[OF s(4,1)] by blast
    then show ?thesis using Cons st1(1) s(2,3) by (intro exI[of _ st']) (auto simp: load_loop.simps[of env st])
  qed
qed

subsection \<open>Connecting units with their targets\<close>

definition grown :: "('d, 's) unit_store \<Rightarrow> ('d, 's) unit_store \<Rightarrow> bool" where
  "grown st st' \<longleftrightarrow> us_inv st' \<and> us_dom st' = us_dom st \<and> us_rel st \<subseteq> us_rel st' \<and>
     us_load_queue st' = us_load_queue st \<and> us_target_queue st' = us_target_queue st"

lemma grown_refl: "us_inv st \<Longrightarrow> grown st st"
  by (simp add: grown_def)

lemma grown_trans: "grown st st1 \<Longrightarrow> grown st1 st2 \<Longrightarrow> grown st st2"
  by (auto simp: grown_def)

lemma target_dep_loop_ok:
  assumes "us_inv st" and "n \<in> us_dom st" and "set ds \<subseteq> us_dom st"
  shows "\<exists>st'. target_dep_loop n ds st = Some st' \<and> grown st st'"
  using assms
proof (induction ds arbitrary: st)
  case Nil
  then show ?case by (simp add: grown_refl)
next
  case (Cons d ds)
  obtain u t where ut: "units_get st n = Some u" "units_get st d = Some t" using Cons.prems by (auto simp: us_dom_iff)
  obtain st1 where st1: "db_dep_insert d UnitAfter n True 4 st = Some (Inr (), st1)" "us_inv st1" "us_dom st1 = us_dom st"
      "us_rel st1 = us_rel st \<union> recorded d [(UnitAfter, n)]" "us_load_queue st1 = us_load_queue st" "us_target_queue st1 = us_target_queue st"
    by (rule db_dep_insert_ok[OF Cons.prems(1), of d n]) (use Cons.prems in auto)
  then have g: "grown st st1" by (simp add: grown_def)
  obtain st' where "target_dep_loop n ds st1 = Some st'" "grown st1 st'"
    using Cons.IH[OF st1(2)] Cons.prems st1(3) by auto
  then show ?case using ut st1(1) grown_trans[OF g] grown_refl[OF Cons.prems(1)] by auto
qed

lemma dispatch_target_dep_unit_ok:
  assumes inv: "us_inv st" and n: "n \<in> us_dom st"
  shows "\<exists>st'. dispatch_target_dep_unit n st = Some st' \<and> grown st st'"
proof -
  obtain u where u: "units_get st n = Some u" using n by (auto simp: us_dom_iff)
  obtain f where f: "set_in_target_dep_queue False (ue_frame (us_lend st u)) = Some f" "frame_like (ue_frame (us_lend st u)) f"
    using set_in_target_dep_queue_ok[OF us_inv_registered[OF inv u]] by metis
  let ?st = "us_back n (u\<lparr>ue_frame := f\<rparr>) st"
  note o = on_frame_ok[where g = "set_in_target_dep_queue False", OF inv u f]
  have "set (gets_atom (us_dep ?st) n UnitAtomDefaultTargetDependencies) \<subseteq> us_dom ?st"
    unfolding o(3) using inv by (auto simp: gets_atom_iff us_inv_def simp del: us_dom_back)
  then obtain st' where "target_dep_loop n (gets_atom (us_dep ?st) n UnitAtomDefaultTargetDependencies) ?st = Some st'" "grown ?st st'"
    using target_dep_loop_ok[OF o(2)] n unfolding o(3) by blast
  moreover have "grown st ?st" using o by (simp add: grown_def)
  ultimately show ?thesis using o(1) by (auto simp: dispatch_target_dep_unit_def intro: grown_trans)
qed

lemma dispatch_target_dep_queue_ok:
  assumes inv: "us_inv st"
  shows "\<exists>st'. dispatch_target_dep_queue env st = Some st' \<and> grown (st\<lparr>us_target_queue := []\<rparr>) st'"
  unfolding dispatch_target_dep_queue_def
proof (rule for_each_total)
  show "grown (st\<lparr>us_target_queue := []\<rparr>) (st\<lparr>us_target_queue := []\<rparr>)"
    by (rule grown_refl, rule us_inv_target_queue[OF inv]) simp
next
  fix n st1 assume n: "n \<in> set (us_target_queue st)" and g: "grown (st\<lparr>us_target_queue := []\<rparr>) st1"
  have "us_inv (us_set_last_unit n st1)" "n \<in> us_dom (us_set_last_unit n st1)"
    using n g us_inv_queues(2)[OF inv] by (auto simp: grown_def us_set_last_unit_def)
  then obtain st2 where "dispatch_target_dep_unit n (us_set_last_unit n st1) = Some st2" "grown (us_set_last_unit n st1) st2"
    using dispatch_target_dep_unit_ok by blast
  then show "\<exists>st'. do { st1 \<leftarrow> dispatch_target_dep_unit n (us_set_last_unit n st1); Some (us_clear_last_unit (sv_disk env) st1) } = Some st' \<and>
      grown (st\<lparr>us_target_queue := []\<rparr>) st'"
    using g by (auto simp: grown_def us_set_last_unit_def us_clear_last_unit_def)
qed

subsection \<open>The property\<close>

lemma dispatch_load_queue_ok:
  assumes su: "loadable_sub (sv_sub env)" and W: "\<And>n. n \<in> W - D \<Longrightarrow> snd ` set (new_deps env D n) \<subseteq> W" "finite W"
    and inv: "loop_inv env D W st"
  shows "\<exists>st'. dispatch_load_queue env st = Some st' \<and> us_inv st' \<and> us_load_queue st' = [] \<and> us_target_queue st' = [] \<and>
     us_dom st \<subseteq> us_dom st' \<and> us_dom st' \<subseteq> D \<union> W \<and> us_rel st \<subseteq> us_rel st' \<and> (\<forall>n \<in> us_dom st' - D. settled env D st' n)"
proof -
  have "loop_inv env D W (us_set_last_frame2 0 0 st)"
    using inv by (simp add: loop_inv_def us_set_last_frame2_def settled_def)
  then obtain st1 where st1: "load_loop env (us_set_last_frame2 0 0 st) = Some st1" "loop_inv env D W st1" "us_load_queue st1 = []"
      "us_rel st \<subseteq> us_rel st1" "us_dom st \<subseteq> us_dom st1"
    using load_loop_ok[OF su W, of "us_set_last_frame2 0 0 st"] by (auto simp: us_set_last_frame2_def)
  let ?st = "us_set_last_frame2 0 1 (us_clear_last_frame (sv_disk env) st1)"
  have "us_inv ?st" using st1(2) by (simp add: loop_inv_def us_set_last_frame2_def us_clear_last_frame_def)
  then obtain st2 where st2: "dispatch_target_dep_queue env ?st = Some st2" "grown (?st\<lparr>us_target_queue := []\<rparr>) st2"
    using dispatch_target_dep_queue_ok by blast
  have g: "us_inv st2" "us_dom st2 = us_dom st1" "us_rel st1 \<subseteq> us_rel st2" "us_load_queue st2 = []" "us_target_queue st2 = []"
    using st2(2) st1(3) by (simp_all add: grown_def us_set_last_frame2_def us_clear_last_frame_def)
  let ?st' = "us_clear_last_frame (sv_disk env) st2"
  have "dispatch_load_queue env st = Some ?st'" using st1(1) st2(1) by (simp add: dispatch_load_queue_def)
  moreover have "us_inv ?st'" "us_load_queue ?st' = []" "us_target_queue ?st' = []" "us_dom ?st' = us_dom st1" "us_rel st1 \<subseteq> us_rel ?st'"
    using g by (simp_all add: us_clear_last_frame_def)
  moreover have "settled env D ?st' n" if "n \<in> us_dom ?st' - D" for n
    using that st1(2,3) calculation(5,6) by (auto simp: loop_inv_def intro: settled_mono)
  ultimately show ?thesis using st1(2,4,5) by (auto simp: loop_inv_def)
qed

lemma store_load_closes:
  assumes "loadable_sub (sv_sub env)" and "us_inv st" and "us_load_queue st = []" and "units_get st name = None"
    and "creatable env name" and "finite (load_reach env (us_dom st) name)"
  shows "\<exists>st'. store_load_unit env name st = Some (True, st') \<and> us_inv st' \<and> us_load_queue st' = [] \<and> us_target_queue st' = [] \<and>
     us_dom st' = us_dom st \<union> load_reach env (us_dom st) name \<and> us_rel st \<subseteq> us_rel st' \<and>
     (\<forall>n \<in> us_dom st' - us_dom st. recorded n (new_deps env (us_dom st) n) \<subseteq> us_rel st')"
proof -
  let ?D = "us_dom st" and ?W = "load_reach env (us_dom st) name"
  have new: "name \<notin> ?D" using assms(4) by (simp add: us_dom_def)
  obtain st1 where st1: "prepare_unit env name st = Some (True, st1)" "us_inv st1" "us_dom st1 = insert name ?D"
      "us_load_queue st1 = us_load_queue st @ [name]" "us_rel st1 = us_rel st"
    by (rule prepare_unit_new[OF assms(1,2) new assms(5)]) blast
  have "loop_inv env ?D ?W st1"
    using st1 assms(3,5) new by (auto simp: loop_inv_def load_reach_start)
  then obtain st' where st': "dispatch_load_queue env st1 = Some st'" "us_inv st'" "us_load_queue st' = []" "us_target_queue st' = []"
      "us_dom st1 \<subseteq> us_dom st'" "us_dom st' \<subseteq> ?D \<union> ?W" "us_rel st1 \<subseteq> us_rel st'"
      "\<And>n. n \<in> us_dom st' - ?D \<Longrightarrow> settled env ?D st' n"
    using dispatch_load_queue_ok[OF assms(1) _ assms(6)] load_reach_step by (metis (no_types, lifting) Diff_iff)
  have "?W \<subseteq> us_dom st'"
    by (rule load_reach_least) (use st1(3) st'(5,8) in \<open>auto simp: settled_def\<close>)
  then have "us_dom st' = ?D \<union> ?W" using st1(3) st'(5,6) by auto
  moreover have "store_load_unit env name st = Some (True, st')"
    using assms(4) st1(1) st'(1) by (simp add: store_load_unit_def)
  moreover have "\<forall>n \<in> us_dom st' - ?D. recorded n (new_deps env ?D n) \<subseteq> us_rel st'"
    using st'(8) unfolding settled_def by blast
  moreover have "us_rel st \<subseteq> us_rel st'" using st'(7) st1(5) by simp
  ultimately show ?thesis using st'(2-4) by blast
qed


text \<open>Two targets that require each other.\<close>

definition ex_heed :: "(nat, 'k, 'v) heed" where
  "ex_heed = \<lparr>heed_put = (\<lambda>_ _ n. Suc n), heed_delete = (\<lambda>_ n. n), heed_clear = (\<lambda>_. 0), heed_iter = (\<lambda>_. [])\<rparr>"

definition ex_disk :: "nat unit_disk" where
  "ex_disk = \<lparr>ud_base = ex_heed, ud_load = ex_heed, ud_conf = ex_heed, ud_cgroup = ex_heed, ud_child = ex_heed,
     ud_pps = ex_heed, ud_dep = ex_heed, ud_notify = ex_heed\<rparr>"

definition ex_load_env :: "(nat, (nat, nat) target_mng) store_env" where
  "ex_load_env = \<lparr>sv_sub = target_sub \<lparr>um_dependency_list = (\<lambda>_ _ _. []), um_has_default_dependency = (\<lambda>_ _. False),
       um_has_dependency = (\<lambda>_ _ _ _. False), um_add_dependency = (\<lambda>_ _ _ _ w. (Inr (), w))\<rparr>,
     sv_files = \<lparr>fl_fragments = (\<lambda>u. [u]), fl_wants = (\<lambda>_. []), fl_requires = (\<lambda>_. []), fl_exists = (\<lambda>_. True),
       fl_load = (\<lambda>ps. Inr (ue_config_unit_default\<lparr>Requires := [if ps = [''a.target''] then ''b.target'' else ''a.target'']\<rparr>,
         ue_config_install_default))\<rparr>,
     sv_create = (\<lambda>ty. if ty = UnitTarget then Some (target_mng_new (redb_new 0) 0) else None), sv_now = 0, sv_disk = ex_disk, sv_iter = id\<rparr>"

definition ex_empty_store :: "(nat, (nat, nat) target_mng) unit_store" where
  "ex_empty_store = \<lparr>us_units = [], us_dep = dep_data_new (unit_re_new (\<lambda>_. 0)) [], us_watch = [], us_load_queue = [],
     us_target_queue = [], us_last_frame = None, us_last_unit = None\<rparr>"

lemma ex_empty_store_inv: "us_inv ex_empty_store" "us_dom ex_empty_store = {}"
  by (simp_all add: ex_empty_store_def us_inv_def us_dom_def units_get_def dep_data_new_def dep_inv_def dep_live_def dep_sym_def
      dep_persisted_def dep_wf_def dep_rel_def dep_lookup_def dep_get_def unit_re_new_def redb_new_def redb_get_def)

lemma ex_target_type: "unit_name_to_type ''a.target'' = UnitTarget" "unit_name_to_type ''b.target'' = UnitTarget"
  by code_simp+

lemma ex_new_deps:
  "new_deps ex_load_env {} ''a.target'' = [(UnitRequires, ''b.target'')]"
  "new_deps ex_load_env {} ''b.target'' = [(UnitRequires, ''a.target'')]"
  by (simp_all add: new_deps_def taken_def creatable_def ex_load_env_def file_deps_def file_confs_def conf_deps_def dep_pairs_def ex_target_type
      ue_config_unit_default_def Let_def)

lemma ex_load_reach: "load_reach ex_load_env {} ''a.target'' = {''a.target'', ''b.target''}"
proof
  show "load_reach ex_load_env {} ''a.target'' \<subseteq> {''a.target'', ''b.target''}"
    by (rule load_reach_least) (auto simp: ex_new_deps)
  show "{''a.target'', ''b.target''} \<subseteq> load_reach ex_load_env {} ''a.target''"
    using load_reach_step[OF load_reach_start, of "''a.target''" "{}" ex_load_env] by (simp add: ex_new_deps load_reach_start)
qed


end
