(* ===== verification/Event_Loop.thy ===== *)
theory Event_Loop
  imports Prelude
begin

section \<open>The event loop (libs/event/src)\<close>

text \<open>
  \<open>Events\<close> with its sources, their states, the heap of pending sources and the timers. A
  \<open>dyn Source\<close> is the record of what its methods return; \<open>dispatch\<close> of a source is the parameter
  \<open>h\<close>. The kernel (epoll, signalfd, pidfd, timerfd, the clocks) is the record \<open>event_os\<close> on a
  world. \<open>None\<close> is a panic. Arithmetic on 64 bits wraps, as in the release profile.
\<close>

subsection \<open>Sources\<close>

datatype event_type =
    EvIo | TimerRealtime | TimerBoottime | TimerMonotonic | TimerRealtimeAlarm | TimerBoottimeAlarm
  | EvSignal | EvChild | EvPidfd | EvWatchdog | EvInotify | EvDefer | EvPost | EvExit

datatype event_state = EventOn | EventOff | EventOneShot

datatype event_error = EventSyscall int | EventOther string

record source =
  src_token :: u64
  src_type :: event_type
  src_priority :: "8 word"
  src_fd :: int
  src_signals :: "int list"
  src_pid :: int
  src_time :: u64
  src_time_relative :: u64

text \<open>The order of the sources looks at the priority only; the smallest number comes first.\<close>

definition source_rank :: "source \<Rightarrow> int" where
  "source_rank s = sint (src_priority s)"

text \<open>\<open>BinaryHeap\<close>: \<open>pop\<close> takes a greatest element. Which of several equal ones it takes is left
  open by its documentation; here it is the first.\<close>

fun heap_peek :: "('a \<Rightarrow> 'k::linorder) \<Rightarrow> 'a list \<Rightarrow> 'a option" where
  "heap_peek rank [] = None"
| "heap_peek rank (x # xs) = (case heap_peek rank xs of
     None \<Rightarrow> Some x | Some y \<Rightarrow> Some (if rank y < rank x then y else x))"

definition heap_pop :: "('a \<Rightarrow> 'k::linorder) \<Rightarrow> 'a list \<Rightarrow> ('a \<times> 'a list) option" where
  "heap_pop rank xs = map_option (\<lambda>x. (x, remove1 x xs)) (heap_peek rank xs)"

subsection \<open>The kernel\<close>

datatype clock_id = ClockRealtime | ClockMonotonic | ClockBoottime | ClockRealtimeAlarm | ClockBoottimeAlarm

text \<open>A \<open>timespec\<close> is a pair of seconds and nanoseconds.\<close>

type_synonym timespec = "int \<times> int"

record 'w event_os =
  eo_epoll_add :: "int \<Rightarrow> u64 \<Rightarrow> 'w \<Rightarrow> (event_error + unit) \<times> 'w"
  eo_epoll_del :: "int \<Rightarrow> 'w \<Rightarrow> (event_error + unit) \<times> 'w"
  eo_epoll_wait :: "usize \<Rightarrow> int \<Rightarrow> 'w \<Rightarrow> (event_error + u64 list) \<times> 'w"
  eo_signalfd :: "int list \<Rightarrow> 'w \<Rightarrow> int \<times> 'w"
  eo_pidfd_open :: "int \<Rightarrow> 'w \<Rightarrow> int \<times> 'w"
  eo_timerfd_create :: "clock_id \<Rightarrow> 'w \<Rightarrow> int \<times> 'w"
  eo_timerfd_settime :: "int \<Rightarrow> timespec \<Rightarrow> 'w \<Rightarrow> 'w"
  eo_timerfd_read :: "int \<Rightarrow> 'w \<Rightarrow> bool \<times> 'w"
  eo_clock :: "clock_id \<Rightarrow> 'w \<Rightarrow> timespec \<times> 'w"

subsection \<open>Timers (timer.rs)\<close>

definition USEC_INFINITY :: u64 where "USEC_INFINITY = - 1"
definition USEC_PER_SEC :: u64 where "USEC_PER_SEC = 1000000"
definition NSEC_PER_USEC :: u64 where "NSEC_PER_USEC = 1000"
definition NSEC_PER_SEC :: u64 where "NSEC_PER_SEC = 1000000000"

record timestamp =
  ts_realtime :: u64
  ts_monotonic :: u64
  ts_boottime :: u64

definition timestamp_new :: timestamp where
  "timestamp_new = \<lparr>ts_realtime = 0, ts_monotonic = 0, ts_boottime = 0\<rparr>"

definition load_nsec :: "timespec \<Rightarrow> u64" where
  "load_nsec ts = (let (sec, nsec) = ts; s = word_of_int sec; n = word_of_int nsec in
     if sec < 0 \<or> nsec < 0 then USEC_INFINITY
     else if USEC_INFINITY - n div NSEC_PER_SEC div USEC_PER_SEC < s then USEC_INFINITY
     else s * USEC_PER_SEC + n div NSEC_PER_USEC)"

definition timestamp_now :: "'w event_os \<Rightarrow> 'w \<Rightarrow> timestamp \<times> 'w" where
  "timestamp_now os w = (
     let (r, w1) = eo_clock os ClockRealtime w; (m, w2) = eo_clock os ClockMonotonic w1; (b, w3) = eo_clock os ClockBoottime w2
     in (\<lparr>ts_realtime = load_nsec r, ts_monotonic = load_nsec m, ts_boottime = load_nsec b\<rparr>, w3))"

record clock_data =
  cd_source :: source
  cd_next :: u64

record timer =
  ti_set :: "(event_type \<times> clock_data list) list"
  ti_timestamp :: timestamp

definition timer_new :: timer where
  "timer_new = \<lparr>ti_set = [], ti_timestamp = timestamp_new\<rparr>"

fun timer_clockid :: "event_type \<Rightarrow> clock_id option" where
  "timer_clockid TimerRealtime = Some ClockRealtime"
| "timer_clockid TimerBoottime = Some ClockBoottime"
| "timer_clockid TimerMonotonic = Some ClockMonotonic"
| "timer_clockid TimerRealtimeAlarm = Some ClockRealtimeAlarm"
| "timer_clockid TimerBoottimeAlarm = Some ClockBoottimeAlarm"
| "timer_clockid _ = None"

definition timer_now :: "'w event_os \<Rightarrow> timer \<times> 'w \<Rightarrow> timer \<times> 'w" where
  "timer_now os tw = (let (ts, w) = timestamp_now os (snd tw) in ((fst tw)\<lparr>ti_timestamp := ts\<rparr>, w))"

fun stamp_of :: "event_type \<Rightarrow> timestamp \<Rightarrow> u64 option" where
  "stamp_of TimerRealtime ts = Some (ts_realtime ts)"
| "stamp_of TimerBoottime ts = Some (ts_boottime ts)"
| "stamp_of TimerMonotonic ts = Some (ts_monotonic ts)"
| "stamp_of TimerRealtimeAlarm ts = Some (ts_realtime ts)"
| "stamp_of TimerBoottimeAlarm ts = Some (ts_boottime ts)"
| "stamp_of _ ts = None"

definition timer_timerid :: "'w event_os \<Rightarrow> event_type \<Rightarrow> timer \<times> 'w \<Rightarrow> (u64 \<times> timer \<times> 'w) option" where
  "timer_timerid os et tw = (let tw1 = timer_now os tw in map_option (\<lambda>n. (n, tw1)) (stamp_of et (ti_timestamp (fst tw1))))"

definition timer_next :: "event_type \<Rightarrow> timer \<Rightarrow> u64 option" where
  "timer_next et t = Option.bind (map_of (ti_set t) et) (\<lambda>cds. map_option cd_next (heap_peek cd_next cds))"

definition timer_stored :: "u64 \<Rightarrow> timespec" where
  "timer_stored t = (sint (t div USEC_PER_SEC), sint ((t mod USEC_PER_SEC) * NSEC_PER_USEC))"

definition timer_is_empty :: "event_type \<Rightarrow> timer \<Rightarrow> bool" where
  "timer_is_empty et t = (case map_of (ti_set t) et of Some cds \<Rightarrow> cds = [] | None \<Rightarrow> True)"

definition timer_push :: "'w event_os \<Rightarrow> source \<Rightarrow> timer \<times> 'w \<Rightarrow> (timer \<times> 'w) option" where
  "timer_push os s tw = do {
     (n, t, w) \<leftarrow> (if src_time_relative s \<noteq> USEC_INFINITY then do {
           (now, tw1) \<leftarrow> timer_timerid os (src_type s) tw;
           Some (src_time_relative s + now, tw1)
         } else Some (src_time s, tw));
     rust_assert (n \<noteq> USEC_INFINITY);
     let cd = \<lparr>cd_source = s, cd_next = n\<rparr>;
     let cds = (case map_of (ti_set t) (src_type s) of Some cds \<Rightarrow> cds | None \<Rightarrow> []);
     Some (t\<lparr>ti_set := AList.update (src_type s) (cds @ [cd]) (ti_set t)\<rparr>, w)
   }"

definition timer_inner_pop :: "u64 \<Rightarrow> clock_data list \<Rightarrow> (clock_data \<times> clock_data list) option" where
  "timer_inner_pop now cds = (case heap_peek cd_next cds of
     Some cd \<Rightarrow> if cd_next cd \<le> now then heap_pop cd_next cds else None | None \<Rightarrow> None)"

definition timer_pop :: "'w event_os \<Rightarrow> event_type \<Rightarrow> timer \<times> 'w \<Rightarrow> (source option \<times> timer \<times> 'w) option" where
  "timer_pop os et tw = do {
     (now, t, w) \<leftarrow> timer_timerid os et tw;
     Some (case map_of (ti_set t) et of
         None \<Rightarrow> (None, t, w)
       | Some [] \<Rightarrow> (None, t\<lparr>ti_set := AList.delete et (ti_set t)\<rparr>, w)
       | Some cds \<Rightarrow> (case timer_inner_pop now cds of
           None \<Rightarrow> (None, t, w)
         | Some (cd, cds') \<Rightarrow> (Some (cd_source cd), t\<lparr>ti_set := AList.update et cds' (ti_set t)\<rparr>, w)))
   }"

text \<open>\<open>TimerInner::remove\<close> compares sources with \<open>cmp\<close>, that is by priority.\<close>

definition timer_remove :: "event_type \<Rightarrow> source \<Rightarrow> timer \<Rightarrow> timer" where
  "timer_remove et s t = (case map_of (ti_set t) et of
     None \<Rightarrow> t
   | Some cds \<Rightarrow> t\<lparr>ti_set := AList.update et (filter (\<lambda>cd. source_rank (cd_source cd) \<noteq> source_rank s) cds) (ti_set t)\<rparr>)"

subsection \<open>Events (events.rs)\<close>

record 'w events =
  ed_exit :: bool
  ed_sources :: "(u64 \<times> source) list"
  ed_defer :: "(u64 \<times> source) list"
  ed_post :: "(u64 \<times> source) list"
  ed_exit_sources :: "(u64 \<times> source) list"
  ed_pending :: "source list"
  ed_state :: "(u64 \<times> event_state) list"
  ed_children :: "(int \<times> int) list"
  ed_pidfd :: int
  ed_timerfd :: "(event_type \<times> int) list"
  ed_sigset :: "int list"
  ed_signal_fd :: int
  ed_timer :: timer
  ed_inotify :: int
  ed_n_sources :: usize
  ed_world :: 'w

definition events_new :: "int \<Rightarrow> 'w \<Rightarrow> 'w events" where
  "events_new inotify w = \<lparr>ed_exit = False, ed_sources = [], ed_defer = [], ed_post = [], ed_exit_sources = [], ed_pending = [],
     ed_state = [], ed_children = [], ed_pidfd = 0, ed_timerfd = [], ed_sigset = [], ed_signal_fd = - 1, ed_timer = timer_new,
     ed_inotify = inotify, ed_n_sources = 0, ed_world = w\<rparr>"

type_synonym 'w ev_result = "((event_error + unit) \<times> 'w events) option"

definition epoll_register :: "'w event_os \<Rightarrow> int \<Rightarrow> u64 \<Rightarrow> 'w events \<Rightarrow> (event_error + unit) \<times> 'w events" where
  "epoll_register os fd token ev = (let (r, w) = eo_epoll_add os fd token (ed_world ev)
     in (r, ev\<lparr>ed_n_sources := ed_n_sources ev + 1, ed_world := w\<rparr>))"

definition epoll_unregister :: "'w event_os \<Rightarrow> int \<Rightarrow> 'w events \<Rightarrow> (event_error + unit) \<times> 'w events" where
  "epoll_unregister os fd ev = (let (r, w) = eo_epoll_del os fd (ed_world ev)
     in (r, ev\<lparr>ed_n_sources := ed_n_sources ev - 1, ed_world := w\<rparr>))"

definition epoll_poll :: "'w event_os \<Rightarrow> int \<Rightarrow> 'w events \<Rightarrow> (event_error + u64 list) \<times> 'w events" where
  "epoll_poll os timeout ev = (let (r, w) = eo_epoll_wait os (max (ed_n_sources ev) 1) timeout (ed_world ev)
     in (r, ev\<lparr>ed_world := w\<rparr>))"

definition on_timer ::
  "('w event_os \<Rightarrow> timer \<times> 'w \<Rightarrow> (timer \<times> 'w) option) \<Rightarrow> 'w event_os \<Rightarrow> 'w events \<Rightarrow> 'w events option" where
  "on_timer g os ev = map_option (\<lambda>(t, w). ev\<lparr>ed_timer := t, ed_world := w\<rparr>) (g os (ed_timer ev, ed_world ev))"

definition reset_sigset :: "'w event_os \<Rightarrow> int list \<Rightarrow> 'w events \<Rightarrow> 'w events" where
  "reset_sigset os signals ev = (
     let sigs = fold List.insert signals (ed_sigset ev); (fd, w) = eo_signalfd os sigs (ed_world ev)
     in ev\<lparr>ed_sigset := sigs, ed_signal_fd := fd, ed_world := w\<rparr>)"

definition add_child :: "'w event_os \<Rightarrow> source \<Rightarrow> 'w events \<Rightarrow> 'w events" where
  "add_child os s ev = (
     let (pidfd, w) = eo_pidfd_open os (src_pid s) (ed_world ev);
         ev1 = snd (epoll_register os pidfd (src_token s) (ev\<lparr>ed_pidfd := pidfd, ed_world := w\<rparr>))
     in ev1\<lparr>ed_children := AList.update (src_pid s) pidfd (ed_children ev1)\<rparr>)"

definition online_timer :: "'w event_os \<Rightarrow> source \<Rightarrow> 'w events \<Rightarrow> 'w ev_result" where
  "online_timer os s ev = (case map_of (ed_timerfd ev) (src_type s) of
     Some _ \<Rightarrow> map_option (Pair (Inr ())) (on_timer (\<lambda>os. timer_push os s) os ev)
   | None \<Rightarrow> do {
       clk \<leftarrow> timer_clockid (src_type s);
       let (fd, w) = eo_timerfd_create os clk (ed_world ev);
       let ev1 = ev\<lparr>ed_timerfd := AList.update (src_type s) fd (ed_timerfd ev), ed_world := w\<rparr>;
       (case epoll_register os fd (src_token s) ev1 of
          (Inl e, ev2) \<Rightarrow> Some (Inl e, ev2)
        | (Inr _, ev2) \<Rightarrow> map_option (Pair (Inr ())) (on_timer (\<lambda>os. timer_push os s) os ev2))
     })"

definition source_online :: "'w event_os \<Rightarrow> source \<Rightarrow> 'w events \<Rightarrow> 'w ev_result" where
  "source_online os s ev = (case src_type s of
     EvIo \<Rightarrow> Some (epoll_register os (src_fd s) (src_token s) ev)
   | EvPidfd \<Rightarrow> Some (epoll_register os (src_fd s) (src_token s) ev)
   | EvSignal \<Rightarrow> (let ev1 = reset_sigset os (src_signals s) ev in Some (epoll_register os (ed_signal_fd ev1) (src_token s) ev1))
   | EvChild \<Rightarrow> Some (Inr (), add_child os s ev)
   | EvDefer \<Rightarrow> Some (Inr (), ev\<lparr>ed_pending := ed_pending ev @ [s]\<rparr>)
   | EvInotify \<Rightarrow> Some (epoll_register os (ed_inotify ev) (src_token s) ev)
   | EvPost \<Rightarrow> None
   | EvExit \<Rightarrow> None
   | EvWatchdog \<Rightarrow> None
   | _ \<Rightarrow> online_timer os s ev)"

definition offline_timer :: "'w event_os \<Rightarrow> source \<Rightarrow> 'w events \<Rightarrow> (event_error + unit) \<times> 'w events" where
  "offline_timer os s ev = (
     let ev1 = ev\<lparr>ed_timer := timer_remove (src_type s) s (ed_timer ev)\<rparr> in
     if timer_is_empty (src_type s) (ed_timer ev1) then
       (let ev2 = ev1\<lparr>ed_timerfd := AList.delete (src_type s) (ed_timerfd ev1)\<rparr> in
        case map_of (ed_timerfd ev1) (src_type s) of
          Some fd \<Rightarrow> epoll_unregister os fd ev2
        | None \<Rightarrow> (Inr (), ev2))
     else (Inr (), ev1))"

definition source_offline :: "'w event_os \<Rightarrow> source \<Rightarrow> 'w events \<Rightarrow> 'w ev_result" where
  "source_offline os s ev = (case map_of (ed_state ev) (src_token s) of
     None \<Rightarrow> Some (Inr (), ev)
   | Some EventOff \<Rightarrow> Some (Inr (), ev)
   | Some _ \<Rightarrow> (case src_type s of
       EvIo \<Rightarrow> Some (epoll_unregister os (src_fd s) ev)
     | EvPidfd \<Rightarrow> Some (epoll_unregister os (src_fd s) ev)
     | EvSignal \<Rightarrow> Some (epoll_unregister os (ed_signal_fd ev) ev)
     | EvChild \<Rightarrow> Some (epoll_unregister os (ed_pidfd ev) ev)
     | EvInotify \<Rightarrow> Some (epoll_unregister os (ed_inotify ev) ev)
     | EvDefer \<Rightarrow> Some (Inr (), ev)
     | EvPost \<Rightarrow> None
     | EvExit \<Rightarrow> None
     | EvWatchdog \<Rightarrow> None
     | _ \<Rightarrow> Some (offline_timer os s ev)))"

definition add_source :: "source \<Rightarrow> 'w events \<Rightarrow> 'w ev_result" where
  "add_source s ev = do {
     ev1 \<leftarrow> (case src_type s of
         EvDefer \<Rightarrow> Some (ev\<lparr>ed_defer := AList.update (src_token s) s (ed_defer ev)\<rparr>)
       | EvPost \<Rightarrow> Some (ev\<lparr>ed_post := AList.update (src_token s) s (ed_post ev)\<rparr>)
       | EvExit \<Rightarrow> Some (ev\<lparr>ed_exit_sources := AList.update (src_token s) s (ed_exit_sources ev)\<rparr>)
       | EvWatchdog \<Rightarrow> None
       | t \<Rightarrow> if t \<in> {EvIo, EvPidfd, EvSignal, EvChild, EvInotify}
              then Some (ev\<lparr>ed_sources := AList.update (src_token s) s (ed_sources ev)\<rparr>) else Some ev);
     Some (Inr (), ev1\<lparr>ed_state := AList.update (src_token s) EventOff (ed_state ev1)\<rparr>)
   }"

text \<open>\<open>ok_or(...)?\<close> of a table without the source leaves the state as it is then.\<close>

definition del_source :: "'w event_os \<Rightarrow> source \<Rightarrow> 'w events \<Rightarrow> 'w ev_result" where
  "del_source os s ev = do {
     (r, ev1) \<leftarrow> source_offline os s ev;
     (case r of
        Inl e \<Rightarrow> Some (Inl e, ev1)
      | Inr _ \<Rightarrow> do {
          (found, ev2) \<leftarrow> (case src_type s of
              EvDefer \<Rightarrow> Some (map_of (ed_defer ev1) (src_token s) \<noteq> None, ev1\<lparr>ed_defer := AList.delete (src_token s) (ed_defer ev1)\<rparr>)
            | EvPost \<Rightarrow> Some (map_of (ed_post ev1) (src_token s) \<noteq> None, ev1\<lparr>ed_post := AList.delete (src_token s) (ed_post ev1)\<rparr>)
            | EvExit \<Rightarrow> Some (map_of (ed_exit_sources ev1) (src_token s) \<noteq> None,
                ev1\<lparr>ed_exit_sources := AList.delete (src_token s) (ed_exit_sources ev1)\<rparr>)
            | EvWatchdog \<Rightarrow> None
            | t \<Rightarrow> Some (True, if t \<in> {EvIo, EvPidfd, EvSignal, EvChild, EvInotify}
                then ev1\<lparr>ed_sources := AList.delete (src_token s) (ed_sources ev1)\<rparr> else ev1));
          if \<not> found then Some (Inl (EventOther ''item not found''), ev2)
          else Some (Inr (), ev2\<lparr>ed_state := AList.delete (src_token s) (ed_state ev2)\<rparr>)
        })
   }"

definition set_enabled :: "'w event_os \<Rightarrow> source \<Rightarrow> event_state \<Rightarrow> 'w events \<Rightarrow> 'w ev_result" where
  "set_enabled os s st ev = do {
     (r, ev1) \<leftarrow> (if st = EventOff then source_offline os s ev else source_online os s ev);
     Some (case r of
         Inl e \<Rightarrow> (Inl e, ev1)
       | Inr _ \<Rightarrow> (Inr (), ev1\<lparr>ed_state := AList.update (src_token s) st (ed_state ev1)\<rparr>))
   }"

subsection \<open>Waiting\<close>

definition timer_types :: "event_type list" where
  "timer_types = [TimerRealtime, TimerBoottime, TimerMonotonic, TimerRealtimeAlarm, TimerBoottimeAlarm]"

text \<open>The loop that moves the due timers of a clock to the pending sources; one round more than
  there are timers is always enough.\<close>

fun drain_loop :: "nat \<Rightarrow> 'w event_os \<Rightarrow> event_type \<Rightarrow> 'w events \<Rightarrow> 'w events option" where
  "drain_loop 0 os et ev = Some ev"
| "drain_loop (Suc n) os et ev = do {
     (r, t, w) \<leftarrow> timer_pop os et (ed_timer ev, ed_world ev);
     let ev1 = ev\<lparr>ed_timer := t, ed_world := w\<rparr>;
     (case r of None \<Rightarrow> Some ev1 | Some s \<Rightarrow> drain_loop n os et (ev1\<lparr>ed_pending := ed_pending ev1 @ [s]\<rparr>))
   }"

definition timer_drain :: "'w event_os \<Rightarrow> event_type \<Rightarrow> 'w events \<Rightarrow> 'w events option" where
  "timer_drain os et ev =
     drain_loop (Suc (length (case map_of (ti_set (ed_timer ev)) et of Some cds \<Rightarrow> cds | None \<Rightarrow> []))) os et ev"

text \<open>\<open>Some True\<close>: the next timer of the clock is due; \<open>Some False\<close>: it is not, \<open>None\<close>: there is none.\<close>

definition timer_due :: "'w event_os \<Rightarrow> event_type \<Rightarrow> 'w events \<Rightarrow> (bool option \<times> 'w events) option" where
  "timer_due os et ev = (case timer_next et (ed_timer ev) of
     None \<Rightarrow> Some (None, ev)
   | Some n \<Rightarrow> do {
       (now, t, w) \<leftarrow> timer_timerid os et (ed_timer ev, ed_world ev);
       Some (Some (n \<le> now), ev\<lparr>ed_timer := t, ed_world := w\<rparr>)
     })"

fun wait_timers :: "'w event_os \<Rightarrow> event_type list \<Rightarrow> 'w events \<Rightarrow> (bool \<times> 'w events) option" where
  "wait_timers os [] ev = Some (True, ev)"
| "wait_timers os (et # ets) ev = do {
     (due, ev1) \<leftarrow> timer_due os et ev;
     if due = Some True then do {
       fd \<leftarrow> map_of (ed_timerfd ev1) et;
       let (ok, w) = eo_timerfd_read os fd (ed_world ev1);
       let ev2 = ev1\<lparr>ed_world := w\<rparr>;
       if \<not> ok then Some (False, ev2)
       else do { ev3 \<leftarrow> timer_drain os et ev2; wait_timers os ets ev3 }
     } else wait_timers os ets ev1
   }"

definition events_wait :: "'w event_os \<Rightarrow> int \<Rightarrow> 'w events \<Rightarrow> (bool \<times> 'w events) option" where
  "events_wait os timeout ev = (case epoll_poll os timeout ev of
     (Inl _, ev1) \<Rightarrow> Some (False, ev1)
   | (Inr tokens, ev1) \<Rightarrow> do {
       let ev2 = ev1\<lparr>ed_pending := ed_pending ev1 @ List.map_filter (map_of (ed_sources ev1)) tokens\<rparr>;
       (ok, ev3) \<leftarrow> wait_timers os timer_types ev2;
       Some (ok \<and> (ed_pending ev3 \<noteq> [] \<or> tokens \<noteq> []), ev3)
     })"

fun prepare_timers :: "'w event_os \<Rightarrow> event_type list \<Rightarrow> bool \<Rightarrow> 'w events \<Rightarrow> (bool \<times> 'w events) option" where
  "prepare_timers os [] ret ev = Some (ret, ev)"
| "prepare_timers os (et # ets) ret ev = do {
     let (t0, w0) = timer_now os (ed_timer ev, ed_world ev);
     let ev0 = ev\<lparr>ed_timer := t0, ed_world := w0\<rparr>;
     (due, ev1) \<leftarrow> timer_due os et ev0;
     (case due of
        None \<Rightarrow> prepare_timers os ets ret ev1
      | Some True \<Rightarrow> do { ev2 \<leftarrow> timer_drain os et ev1; prepare_timers os ets True ev2 }
      | Some False \<Rightarrow> do {
          fd \<leftarrow> map_of (ed_timerfd ev1) et;
          n \<leftarrow> timer_next et (ed_timer ev1);
          prepare_timers os ets ret (ev1\<lparr>ed_world := eo_timerfd_settime os fd (timer_stored n) (ed_world ev1)\<rparr>)
        })
   }"

definition events_prepare :: "'w event_os \<Rightarrow> 'w events \<Rightarrow> (bool \<times> 'w events) option" where
  "events_prepare os ev = do {
     (ret, ev1) \<leftarrow> prepare_timers os timer_types False ev;
     if ed_pending ev1 \<noteq> [] then events_wait os 0 ev1 else Some (ret, ev1)
   }"

subsection \<open>Dispatching\<close>

definition events_dispatch ::
  "'w event_os \<Rightarrow> (source \<Rightarrow> 'w events \<Rightarrow> 'w events option) \<Rightarrow> 'w events \<Rightarrow> 'w ev_result" where
  "events_dispatch os h ev =
     (if ed_exit ev then Some (Inr (), ev)
      else (case heap_pop source_rank (ed_pending ev) of
          None \<Rightarrow> Some (Inr (), ev)
        | Some (first, rest) \<Rightarrow> do {
            let ev1 = ev\<lparr>ed_pending := rest\<rparr>;
            st \<leftarrow> map_of (ed_state ev1) (src_token first);
            (case st of
               EventOff \<Rightarrow> Some (Inr (), ev1)
             | EventOn \<Rightarrow> do {
                 ev2 \<leftarrow> h first ev1;
                 Some (Inr (), if src_type first = EvDefer then ev2\<lparr>ed_pending := ed_pending ev2 @ [first]\<rparr> else ev2)
               }
             | EventOneShot \<Rightarrow> do {
                 (r, ev2) \<leftarrow> set_enabled os first EventOff ev1;
                 (case r of
                    Inl e \<Rightarrow> Some (Inl e, ev2)
                  | Inr _ \<Rightarrow> do { ev3 \<leftarrow> h first ev2; Some (Inr (), ev3) })
               })
          }))"

definition events_run ::
  "'w event_os \<Rightarrow> (source \<Rightarrow> 'w events \<Rightarrow> 'w events option) \<Rightarrow> int \<Rightarrow> 'w events \<Rightarrow> 'w ev_result" where
  "events_run os h timeout ev =
     (if ed_exit ev then Some (Inr (), ev)
      else do {
        (ready, ev1) \<leftarrow> events_prepare os ev;
        ev2 \<leftarrow> (if ready then Some ev1 else map_option snd (events_wait os timeout ev1));
        events_dispatch os h ev2
      })"

definition events_set_exit :: "'w events \<Rightarrow> 'w events" where
  "events_set_exit ev = ev\<lparr>ed_exit := True\<rparr>"

end
