(* ===== verification/Event_Claims.thy ===== *)
theory Event_Claims
  imports Event_Loop "HOL-Library.Multiset"
begin

section \<open>Properties of the event loop\<close>

text \<open>
  The heap, what draining the timers of a clock does, and two places where the loop does not do
  what it means to.
\<close>

subsection \<open>The heap\<close>

lemma heap_peek_None [simp]: "heap_peek rank xs = None \<longleftrightarrow> xs = []"
  by (cases xs) (auto split: option.splits)

lemma heap_peek_least:
  "heap_peek rank xs = Some x \<Longrightarrow> x \<in> set xs \<and> (\<forall>y \<in> set xs. rank x \<le> rank y)"
proof (induction xs arbitrary: x)
  case (Cons a xs)
  show ?case
  proof (cases "heap_peek rank xs")
    case None
    with Cons.prems show ?thesis by simp
  next
    case (Some y)
    with Cons.prems Cons.IH[OF Some] show ?thesis by (auto split: if_splits)
  qed
qed simp

lemma heap_pop_SomeD:
  assumes "heap_pop rank xs = Some (x, ys)"
  shows "x \<in> set xs" "ys = remove1 x xs" "\<And>y. y \<in> set xs \<Longrightarrow> rank x \<le> rank y"
  using assms heap_peek_least[of rank xs x] by (auto simp: heap_pop_def)

subsection \<open>Draining the timers of a clock\<close>

abbreviation clock_reading :: "'w event_os \<Rightarrow> event_type \<Rightarrow> 'w \<Rightarrow> u64" where
  "clock_reading os et w \<equiv> the (stamp_of et (fst (timestamp_now os w)))"

text \<open>A later reading of the clock is not smaller.\<close>

definition clock_advances :: "'w event_os \<Rightarrow> event_type \<Rightarrow> bool" where
  "clock_advances os et \<longleftrightarrow> (\<forall>w. clock_reading os et w \<le> clock_reading os et (snd (timestamp_now os w)))"

definition armed :: "event_type \<Rightarrow> timer \<Rightarrow> clock_data list" where
  "armed et t = (case map_of (ti_set t) et of Some cds \<Rightarrow> cds | None \<Rightarrow> [])"

lemma timer_timerid_eq:
  assumes "et \<in> set timer_types"
  shows "timer_timerid os et (t, w) = Some (clock_reading os et w, t\<lparr>ti_timestamp := fst (timestamp_now os w)\<rparr>, snd (timestamp_now os w))"
  using assms by (auto simp: timer_timerid_def timer_now_def timer_types_def Let_def split: prod.splits)

lemma timer_pop_cases:
  assumes et: "et \<in> set timer_types"
  obtains (due) cd t' where "timer_pop os et (t, w) = Some (Some (cd_source cd), t', snd (timestamp_now os w))"
      "cd \<in> set (armed et t)" "\<And>y. y \<in> set (armed et t) \<Longrightarrow> cd_next cd \<le> cd_next y" "cd_next cd \<le> clock_reading os et w"
      "armed et t' = remove1 cd (armed et t)" "ti_timestamp t' = fst (timestamp_now os w)"
    | (rest) t' where "timer_pop os et (t, w) = Some (None, t', snd (timestamp_now os w))" "armed et t' = armed et t"
      "\<And>y. y \<in> set (armed et t) \<Longrightarrow> clock_reading os et w < cd_next y" "ti_timestamp t' = fst (timestamp_now os w)"
proof (cases "armed et t")
  case Nil
  then show thesis
    by (intro rest[of "t\<lparr>ti_timestamp := fst (timestamp_now os w), ti_set := (if map_of (ti_set t) et = None then ti_set t else AList.delete et (ti_set t))\<rparr>"])
      (auto simp: timer_pop_def timer_timerid_eq[OF et] armed_def delete_conv' split: option.splits)
next
  case (Cons c cs)
  then have m: "map_of (ti_set t) et = Some (c # cs)" by (auto simp: armed_def split: option.splits)
  obtain cd where cd: "heap_peek cd_next (c # cs) = Some cd" by (cases "heap_peek cd_next (c # cs)") (auto simp del: heap_peek.simps)
  note l = heap_peek_least[OF cd]
  show thesis
  proof (cases "cd_next cd \<le> clock_reading os et w")
    case True
    then show thesis using Cons m cd l
      by (intro due[of cd "t\<lparr>ti_timestamp := fst (timestamp_now os w), ti_set := AList.update et (remove1 cd (c # cs)) (ti_set t)\<rparr>"])
        (auto simp: timer_pop_def timer_timerid_eq[OF et] timer_inner_pop_def heap_pop_def armed_def update_conv' simp del: heap_peek.simps)
  next
    case False
    then show thesis using Cons m cd l
      by (intro rest[of "t\<lparr>ti_timestamp := fst (timestamp_now os w)\<rparr>"])
        (auto simp: timer_pop_def timer_timerid_eq[OF et] timer_inner_pop_def armed_def simp del: heap_peek.simps intro: less_le_trans)
  qed
qed

abbreviation now_of :: "event_type \<Rightarrow> 'w events \<Rightarrow> u64" where
  "now_of et ev \<equiv> the (stamp_of et (ti_timestamp (ed_timer ev)))"

lemma drain_loop_spec:
  assumes et: "et \<in> set timer_types" and adv: "clock_advances os et"
  shows "length (armed et (ed_timer ev)) < n \<Longrightarrow> \<exists>ev' ds. drain_loop n os et ev = Some ev' \<and>
     ed_pending ev' = ed_pending ev @ map cd_source ds \<and> sorted (map cd_next ds) \<and>
     mset (armed et (ed_timer ev)) = mset ds + mset (armed et (ed_timer ev')) \<and> (\<forall>cd \<in> set ds. cd_next cd \<le> now_of et ev') \<and>
     (\<forall>cd \<in> set (armed et (ed_timer ev')). now_of et ev' < cd_next cd) \<and> clock_reading os et (ed_world ev) \<le> now_of et ev'"
proof (induction n arbitrary: ev)
  case (Suc n)
  show ?case
  proof (rule timer_pop_cases[OF et, of os "ed_timer ev" "ed_world ev"])
    fix t' assume "timer_pop os et (ed_timer ev, ed_world ev) = Some (None, t', snd (timestamp_now os (ed_world ev)))"
      "armed et t' = armed et (ed_timer ev)" "\<And>y. y \<in> set (armed et (ed_timer ev)) \<Longrightarrow> clock_reading os et (ed_world ev) < cd_next y"
      "ti_timestamp t' = fst (timestamp_now os (ed_world ev))"
    then show ?thesis
      by (intro exI[of _ "ev\<lparr>ed_timer := t', ed_world := snd (timestamp_now os (ed_world ev))\<rparr>"] exI[of _ "[]"]) simp
  next
    fix cd :: clock_data and t' :: timer
    let ?w = "snd (timestamp_now os (ed_world ev))"
    let ?ev = "ev\<lparr>ed_timer := t', ed_world := ?w, ed_pending := ed_pending ev @ [cd_source cd]\<rparr>"
    assume p: "timer_pop os et (ed_timer ev, ed_world ev) = Some (Some (cd_source cd), t', ?w)"
      and cd: "cd \<in> set (armed et (ed_timer ev))" and least: "\<And>y. y \<in> set (armed et (ed_timer ev)) \<Longrightarrow> cd_next cd \<le> cd_next y"
      and due: "cd_next cd \<le> clock_reading os et (ed_world ev)" and rest: "armed et t' = remove1 cd (armed et (ed_timer ev))"
    have adv1: "clock_reading os et (ed_world ev) \<le> clock_reading os et ?w" using adv unfolding clock_advances_def by blast
    have "length (armed et t') = length (armed et (ed_timer ev)) - 1" using cd rest by (simp add: length_remove1)
    then have "length (armed et t') < n" using Suc.prems length_pos_if_in_set[OF cd] by linarith
    then have "length (armed et (ed_timer ?ev)) < n" by simp
    then obtain ev' ds where ih: "drain_loop n os et ?ev = Some ev'" "ed_pending ev' = ed_pending ?ev @ map cd_source ds"
        "sorted (map cd_next ds)" "mset (armed et (ed_timer ?ev)) = mset ds + mset (armed et (ed_timer ev'))"
        "\<forall>c \<in> set ds. cd_next c \<le> now_of et ev'" "\<forall>c \<in> set (armed et (ed_timer ev')). now_of et ev' < cd_next c"
        "clock_reading os et ?w \<le> now_of et ev'"
      using Suc.IH[of ?ev] by auto
    have "mset (armed et (ed_timer ev)) = mset (cd # ds) + mset (armed et (ed_timer ev'))"
    proof -
      have "mset (armed et (ed_timer ev)) = add_mset cd (mset (armed et t'))" using rest cd by simp
      also have "mset (armed et t') = mset ds + mset (armed et (ed_timer ev'))" using ih(4) by simp
      finally show ?thesis by simp
    qed
    moreover from this have "set ds \<subseteq> set (armed et (ed_timer ev))"
      by (metis Un_upper1 list.set_intros(2) set_mset_mset set_mset_union subset_code(1))
    then have "sorted (map cd_next (cd # ds))" using ih(3) least by auto
    moreover have "cd_next cd \<le> now_of et ev'" "clock_reading os et (ed_world ev) \<le> now_of et ev'"
      using due adv1 ih(7) by simp_all
    ultimately show ?thesis using p ih by (intro exI[of _ ev'] exI[of _ "cd # ds"]) simp
  qed
qed simp

text \<open>
  C22: on a clock that does not run backwards, draining its timers ends, appends exactly the
  sources whose time has come to the pending ones, in the order of their times, and leaves
  exactly the others armed.
\<close>

theorem timers_fire_when_due:
  assumes "et \<in> set timer_types" and "clock_advances os et"
  shows "\<exists>ev' ds. timer_drain os et ev = Some ev' \<and> ed_pending ev' = ed_pending ev @ map cd_source ds \<and> sorted (map cd_next ds) \<and>
     mset ds = filter_mset (\<lambda>cd. cd_next cd \<le> now_of et ev') (mset (armed et (ed_timer ev))) \<and>
     mset (armed et (ed_timer ev')) = filter_mset (\<lambda>cd. now_of et ev' < cd_next cd) (mset (armed et (ed_timer ev)))"
proof -
  obtain ev' ds where d: "timer_drain os et ev = Some ev'" "ed_pending ev' = ed_pending ev @ map cd_source ds" "sorted (map cd_next ds)"
      "mset (armed et (ed_timer ev)) = mset ds + mset (armed et (ed_timer ev'))" "\<forall>cd \<in> set ds. cd_next cd \<le> now_of et ev'"
      "\<forall>cd \<in> set (armed et (ed_timer ev')). now_of et ev' < cd_next cd"
    using drain_loop_spec[OF assms, of ev "Suc (length (armed et (ed_timer ev)))"] by (auto simp: timer_drain_def armed_def)
  have "filter_mset (\<lambda>cd. cd_next cd \<le> now_of et ev') (mset ds) = mset ds"
      "filter_mset (\<lambda>cd. cd_next cd \<le> now_of et ev') (mset (armed et (ed_timer ev'))) = {#}"
      "filter_mset (\<lambda>cd. now_of et ev' < cd_next cd) (mset ds) = {#}"
      "filter_mset (\<lambda>cd. now_of et ev' < cd_next cd) (mset (armed et (ed_timer ev'))) = mset (armed et (ed_timer ev'))"
    using d(5,6) by (auto simp flip: mset_filter simp: filter_id_conv filter_empty_conv not_le not_less)
  then show ?thesis using d(1-4) by (intro exI[of _ ev'] exI[of _ ds]) simp
qed

definition ex_source :: "u64 \<Rightarrow> event_type \<Rightarrow> u64 \<Rightarrow> source" where
  "ex_source tok et t = \<lparr>src_token = tok, src_type = et, src_priority = 0, src_fd = 7, src_signals = [], src_pid = 0, src_time = t,
     src_time_relative = USEC_INFINITY\<rparr>"

text \<open>A kernel whose clocks stand at five seconds.\<close>

definition ex_kernel :: "nat event_os" where
  "ex_kernel = \<lparr>eo_epoll_add = (\<lambda>_ _ w. (Inr (), w)), eo_epoll_del = (\<lambda>_ w. (Inr (), w)), eo_epoll_wait = (\<lambda>_ _ w. (Inr [], w)),
     eo_signalfd = (\<lambda>_ w. (8, w)), eo_pidfd_open = (\<lambda>_ w. (9, w)), eo_timerfd_create = (\<lambda>_ w. (10, w)),
     eo_timerfd_settime = (\<lambda>_ _ w. w), eo_timerfd_read = (\<lambda>_ w. (True, w)), eo_clock = (\<lambda>_ w. ((5, 0), w))\<rparr>"

definition ex_two_timers :: "nat events" where
  "ex_two_timers = (events_new 3 0)\<lparr>ed_state := [(1, EventOn), (2, EventOn)], ed_timerfd := [(TimerMonotonic, 10)],
     ed_timer := timer_new\<lparr>ti_set := [(TimerMonotonic,
       [\<lparr>cd_source = ex_source 1 TimerMonotonic 9000000, cd_next = 9000000\<rparr>,
        \<lparr>cd_source = ex_source 2 TimerMonotonic 4000000, cd_next = 4000000\<rparr>])]\<rparr>\<rparr>"

lemma ex_kernel_advances: "clock_advances ex_kernel TimerMonotonic"
  by (simp add: clock_advances_def timestamp_now_def ex_kernel_def)

lemma ex_kernel_time: "load_nsec (5, 0) = 5000000"
  by code_simp

theorem timers_fire_when_due_witness:
  "\<exists>ev' ds. timer_drain ex_kernel TimerMonotonic ex_two_timers = Some ev' \<and> ed_pending ev' = map cd_source ds \<and>
     sorted (map cd_next ds) \<and> mset ds = filter_mset (\<lambda>cd. cd_next cd \<le> now_of TimerMonotonic ev') (mset (armed TimerMonotonic (ed_timer ex_two_timers)))"
proof -
  have "TimerMonotonic \<in> set timer_types" by (simp add: timer_types_def)
  from timers_fire_when_due[OF this ex_kernel_advances, of ex_two_timers] show ?thesis
    by (auto simp: ex_two_timers_def events_new_def)
qed

subsection \<open>Switching a timer off\<close>

text \<open>
  C37: switching one timer off takes every armed timer of the same clock and priority out of the
  heap, because the sources are compared by priority; the other timers still count as on but
  never fire.
\<close>

theorem timer_off_takes_others:
  assumes "src_type s \<in> set timer_types" and "map_of (ed_state ev) (src_token s) = Some EventOn"
    and "set_enabled os s EventOff ev = Some (Inr (), ev')" and "src_token s' \<noteq> src_token s"
    and "cd \<in> set (armed (src_type s) (ed_timer ev))" and "cd_source cd = s'" and "src_priority s' = src_priority s"
  shows "map_of (ed_state ev') (src_token s') = map_of (ed_state ev) (src_token s') \<and>
     (\<forall>c \<in> set (armed (src_type s) (ed_timer ev')). cd_source c \<noteq> s')"
proof -
  have off: "set_enabled os s EventOff ev = (let (r, ev1) = offline_timer os s ev in
      Some (case r of Inl e \<Rightarrow> (Inl e, ev1) | Inr _ \<Rightarrow> (Inr (), ev1\<lparr>ed_state := AList.update (src_token s) EventOff (ed_state ev1)\<rparr>)))"
    using assms(1,2) by (auto simp: set_enabled_def source_offline_def timer_types_def Let_def split: prod.splits)
  obtain r ev1 where o: "offline_timer os s ev = (r, ev1)" by fastforce
  have t: "ed_timer ev1 = timer_remove (src_type s) s (ed_timer ev)" "ed_state ev1 = ed_state ev"
    using o by (auto simp: offline_timer_def epoll_unregister_def Let_def split: if_splits option.splits prod.splits)
  have e: "ev' = ev1\<lparr>ed_state := AList.update (src_token s) EventOff (ed_state ev1)\<rparr>"
    using assms(3) unfolding off by (auto simp: o split: sum.splits)
  show ?thesis using assms(4,7)
    by (auto simp: e t update_conv' armed_def timer_remove_def source_rank_def split: option.splits if_splits)
qed

theorem timer_off_takes_others_witness:
  "\<exists>ev'. set_enabled ex_kernel (ex_source 1 TimerMonotonic 9000000) EventOff ex_two_timers = Some (Inr (), ev') \<and>
     map_of (ed_state ev') 2 = Some EventOn \<and> (\<forall>c \<in> set (armed TimerMonotonic (ed_timer ev')). cd_source c \<noteq> ex_source 2 TimerMonotonic 4000000)"
proof -
  let ?s = "ex_source 1 TimerMonotonic 9000000" and ?t = "ex_source 2 TimerMonotonic 4000000"
  obtain ev' where e: "set_enabled ex_kernel ?s EventOff ex_two_timers = Some (Inr (), ev')"
    by (simp add: set_enabled_def source_offline_def offline_timer_def timer_remove_def timer_is_empty_def epoll_unregister_def
        ex_kernel_def ex_two_timers_def events_new_def timer_new_def ex_source_def source_rank_def Let_def)
  from timer_off_takes_others[of ?s ex_two_timers ex_kernel ev' ?t "\<lparr>cd_source = ?t, cd_next = 4000000\<rparr>", OF _ _ e]
  have "map_of (ed_state ev') 2 = Some EventOn \<and> (\<forall>c \<in> set (armed TimerMonotonic (ed_timer ev')). cd_source c \<noteq> ?t)"
    by (simp add: timer_types_def ex_two_timers_def events_new_def ex_source_def armed_def timer_new_def)
  with e show ?thesis by blast
qed

subsection \<open>Deleting a source\<close>

text \<open>
  C38: a source that is deleted while it is pending stays in the heap; when its turn comes the
  loop panics, because the deleted source has no state any more. Until then the sources with a
  smaller priority number are dispatched as before.
\<close>

theorem deleted_pending_source_panics:
  assumes "del_source os s ev = Some (Inr (), ev')" and "s \<in> set (ed_pending ev)" and "\<not> ed_exit ev"
    and "\<And>p. p \<in> set (ed_pending ev) \<Longrightarrow> p \<noteq> s \<Longrightarrow> source_rank s < source_rank p"
  shows "events_dispatch os h ev' = None"
proof -
  obtain r ev1 where o: "source_offline os s ev = Some (r, ev1)"
    using assms(1) by (cases "source_offline os s ev") (auto simp: del_source_def)
  have k: "ed_pending ev1 = ed_pending ev" "ed_exit ev1 = ed_exit ev"
    using o by (auto simp: source_offline_def offline_timer_def epoll_unregister_def Let_def
        split: option.splits event_state.splits event_type.splits prod.splits if_splits)
  have e: "ed_pending ev' = ed_pending ev" "ed_exit ev' = ed_exit ev" "map_of (ed_state ev') (src_token s) = None"
    using assms(1) o k by (auto simp: del_source_def Let_def delete_conv' split: sum.splits event_type.splits if_splits)
  obtain x where x: "heap_peek source_rank (ed_pending ev) = Some x"
    using assms(2) by (cases "heap_peek source_rank (ed_pending ev)") auto
  then have "x = s" using heap_peek_least[OF x] assms(2,4) by (metis not_less)
  then show ?thesis using assms(3) e x by (simp add: events_dispatch_def heap_pop_def)
qed

theorem deleted_pending_source_panics_witness:
  "\<exists>ev'. del_source ex_kernel (ex_source 1 EvIo 0) ((events_new 3 0)\<lparr>ed_pending := [ex_source 1 EvIo 0], ed_state := [(1, EventOn)]\<rparr>) =
       Some (Inr (), ev') \<and> events_dispatch ex_kernel (\<lambda>_. Some) ev' = None"
proof -
  let ?ev = "(events_new 3 0)\<lparr>ed_pending := [ex_source 1 EvIo 0], ed_state := [(1, EventOn)]\<rparr>"
  obtain ev' where e: "del_source ex_kernel (ex_source 1 EvIo 0) ?ev = Some (Inr (), ev')"
    by (simp add: del_source_def source_offline_def epoll_unregister_def ex_kernel_def events_new_def ex_source_def)
  from deleted_pending_source_panics[OF e, of "\<lambda>_. Some"] have "events_dispatch ex_kernel (\<lambda>_. Some) ev' = None"
    by (simp add: events_new_def)
  with e show ?thesis by blast
qed

end
