(* ===== verification/Socket_Base.thy ===== *)
theory Socket_Base
  imports Event_Loop Unit_Subs
begin

section \<open>Sockets: data, configuration and addresses (coms/socket/src: rentry, base, config, load)\<close>

text \<open>
  The states and results of a socket unit, its databases, its configuration with the parsers of
  listening addresses, and loading. The kernel and the unit manager, as far as a socket calls
  them, are the record \<open>socket_os\<close> on a world. \<open>None\<close> is a panic, or a loop that does not end.
\<close>

subsection \<open>Data (rentry.rs)\<close>

datatype socket_state =
    SocketDead | SocketStartPre | SocketStartChown | SocketStartPost | SocketListening | SocketRunning | SocketStopPre
  | SocketStopPreSigterm | SocketStopPreSigkill | SocketStopPost | SocketFinalSigterm | SocketFinalSigkill | SocketFailed
  | SocketCleaning | SocketStateMax

datatype socket_result =
    SocketSuccess | FailureResources | FailureTimeout | FailureExitCode | FailureSignal | FailureCoreDump | FailureStartLimitHit
  | FailureTriggerLimitHit | FailureServiceStartLimitHit | SocketResultInvalid

datatype socket_command = SockCmdStartPre | SockCmdStartPost | SockCmdStopPre | SockCmdStopPost

datatype port_type = PortSocket | PortFifo | PortInvalid

record section_socket =
  sock_ExecStartPre :: "exec_command list option"
  sock_ExecStartChown :: "exec_command list option"
  sock_ExecStartPost :: "exec_command list option"
  sock_ExecStopPre :: "exec_command list option"
  sock_ExecStopPost :: "exec_command list option"
  ListenStream :: "string list option"
  ListenDatagram :: "string list option"
  ListenNetlink :: "string list option"
  ListenSequentialPacket :: "string list option"
  PassPacketInfo :: "bool option"
  Accept :: bool
  sock_Service :: "string option"
  ReceiveBuffer :: "u64 option"
  SendBuffer :: "u64 option"
  PassCredentials :: "bool option"
  KeepAlive :: "bool option"
  KeepAliveTimeSec :: "u32 option"
  KeepAliveIntervalSec :: "u32 option"
  KeepAliveProbes :: "u32 option"
  Broadcast :: "bool option"
  Symlinks :: "string list option"
  PassSecurity :: "bool option"
  SocketMode :: "u32 option"
  sock_KillMode :: kill_mode
  sock_KillSignal :: string

definition section_socket_default :: section_socket where
  "section_socket_default =
     \<lparr>sock_ExecStartPre = None, sock_ExecStartChown = None, sock_ExecStartPost = None, sock_ExecStopPre = None,
      sock_ExecStopPost = None, ListenStream = None, ListenDatagram = None, ListenNetlink = None, ListenSequentialPacket = None,
      PassPacketInfo = None, Accept = False, sock_Service = None, ReceiveBuffer = None, SendBuffer = None, PassCredentials = None,
      KeepAlive = None, KeepAliveTimeSec = None, KeepAliveIntervalSec = None, KeepAliveProbes = None, Broadcast = None,
      Symlinks = None, PassSecurity = None, SocketMode = None, sock_KillMode = ControlGroup, sock_KillSignal = []\<rparr>"

record socket_re_mng =
  srm_state :: socket_state
  srm_result :: socket_result
  srm_control_pid :: "pid option"
  srm_control_cmd_type :: "socket_command option"
  srm_control_cmd_len :: nat
  srm_refused :: "32 word"
  srm_ports :: "(port_type \<times> string \<times> int) list"

text \<open>\<open>SocketReFrame\<close> has the one constructor \<open>FdListen\<close>.\<close>

datatype socket_re_frame = FdListen bool

record 'd socket_re =
  sr_conf :: "('d, uid, section_socket \<times> string option) redb"
  sr_mng :: "('d, uid, socket_re_mng) redb"
  sr_frame :: "('d, u32, socket_re_frame) redb"

definition socket_conf_insert :: "uid \<Rightarrow> section_socket \<Rightarrow> string option \<Rightarrow> 'd socket_re \<Rightarrow> 'd socket_re" where
  "socket_conf_insert u socket service r = r\<lparr>sr_conf := redb_insert u (socket, service) (sr_conf r)\<rparr>"

definition socket_conf_get :: "uid \<Rightarrow> 'd socket_re \<Rightarrow> (section_socket \<times> string option) option" where
  "socket_conf_get u r = redb_get (sr_conf r) u"

definition socket_mng_insert :: "uid \<Rightarrow> socket_re_mng \<Rightarrow> 'd socket_re \<Rightarrow> 'd socket_re" where
  "socket_mng_insert u m r = r\<lparr>sr_mng := redb_insert u m (sr_mng r)\<rparr>"

definition socket_mng_get :: "uid \<Rightarrow> 'd socket_re \<Rightarrow> socket_re_mng option" where
  "socket_mng_get u r = redb_get (sr_mng r) u"

definition socket_set_last_frame :: "socket_re_frame \<Rightarrow> 'd socket_re \<Rightarrow> 'd socket_re" where
  "socket_set_last_frame fr r = r\<lparr>sr_frame := redb_insert 0 fr (sr_frame r)\<rparr>"

definition socket_clear_last_frame :: "'d socket_re \<Rightarrow> 'd socket_re" where
  "socket_clear_last_frame r = r\<lparr>sr_frame := redb_remove 0 (sr_frame r)\<rparr>"

definition socket_last_frame :: "'d socket_re \<Rightarrow> socket_re_frame option" where
  "socket_last_frame r = redb_get (sr_frame r) 0"

subsection \<open>Netlink protocols (base.rs)\<close>

datatype netlink_protocol =
    NetlinkRoute | NetlinkFirewall | NetlinkInetDiag | NetlinkNflog | NetlinkXfrm | NetlinkSelinux | NetlinkIscsi | NetlinkAudit
  | NetlinkFibLookup | NetlinkConnector | NetlinkNetfilter | NetlinkIpv6Fw | NetlinkDnrtMag | NetlinkKobjectUevent
  | NetlinkGeneric | NetlinkSCSITransport | NetlinkEcryptfs | NetlinkRdma | NetlinkInvalid

definition netlink_names :: "(string \<times> netlink_protocol) list" where
  "netlink_names =
     [(''route'', NetlinkRoute), (''firewall'', NetlinkFirewall), (''inet-diag'', NetlinkInetDiag), (''nflog'', NetlinkNflog),
      (''xfrm'', NetlinkXfrm), (''selinux'', NetlinkSelinux), (''iscsi'', NetlinkIscsi), (''audit'', NetlinkAudit),
      (''fib-lookup'', NetlinkFibLookup), (''connector'', NetlinkConnector), (''netfilter'', NetlinkNetfilter),
      (''ip6-fw'', NetlinkIpv6Fw), (''dnrtmsg'', NetlinkDnrtMag), (''kobject-uevent'', NetlinkKobjectUevent),
      (''generic'', NetlinkGeneric), (''scsitransport'', NetlinkSCSITransport), (''ecryptfs'', NetlinkEcryptfs),
      (''rdma'', NetlinkRdma)]"

definition netlink_from_string :: "string \<Rightarrow> netlink_protocol" where
  "netlink_from_string s = (case map_of netlink_names s of Some p \<Rightarrow> p | None \<Rightarrow> NetlinkInvalid)"

datatype sock_protocol =
    SpNetlinkRoute | SpNetlinkSockDiag | SpNetlinkSELinux | SpNetlinkISCSI | SpNetlinkAudit | SpNetlinkFIBLookup | SpNetlinkNetFilter
  | SpNetlinkIPv6Firewall | SpNetlinkDECNetRoutingMessage | SpNetlinkKObjectUEvent | SpNetlinkSCSITransport | SpNetlinkRDMA

fun netlink_to_sock_protocol :: "netlink_protocol \<Rightarrow> sock_protocol option" where
  "netlink_to_sock_protocol NetlinkRoute = Some SpNetlinkRoute"
| "netlink_to_sock_protocol NetlinkInetDiag = Some SpNetlinkSockDiag"
| "netlink_to_sock_protocol NetlinkSelinux = Some SpNetlinkSELinux"
| "netlink_to_sock_protocol NetlinkIscsi = Some SpNetlinkISCSI"
| "netlink_to_sock_protocol NetlinkAudit = Some SpNetlinkAudit"
| "netlink_to_sock_protocol NetlinkFibLookup = Some SpNetlinkFIBLookup"
| "netlink_to_sock_protocol NetlinkNetfilter = Some SpNetlinkNetFilter"
| "netlink_to_sock_protocol NetlinkIpv6Fw = Some SpNetlinkIPv6Firewall"
| "netlink_to_sock_protocol NetlinkDnrtMag = Some SpNetlinkDECNetRoutingMessage"
| "netlink_to_sock_protocol NetlinkKobjectUevent = Some SpNetlinkKObjectUEvent"
| "netlink_to_sock_protocol NetlinkSCSITransport = Some SpNetlinkSCSITransport"
| "netlink_to_sock_protocol NetlinkRdma = Some SpNetlinkRDMA"
| "netlink_to_sock_protocol _ = None"

subsection \<open>Addresses (config.rs)\<close>

datatype sock_type = Stream | Datagram | SeqPacket | Raw

text \<open>The addresses of nix: a path, an abstract name, an IPv4 or IPv6 address with its text, or
  a netlink group. \<open>addr_lib\<close> stands for \<open>UnixAddr::new\<close>, \<open>UnixAddr::new_abstract\<close>, the parser of
  \<open>std::net::SocketAddr\<close> and the check for IPv6.\<close>

datatype sock_addr = UnixPath string | UnixAbstract string | Inet string u16 | Inet6 string u16 | NetlinkGroup u32

record addr_lib =
  al_unix :: "string \<Rightarrow> sock_addr option"
  al_abstract :: "string \<Rightarrow> sock_addr option"
  al_parse :: "string \<Rightarrow> sock_addr option"
  al_ipv6 :: bool

record socket_address =
  sa_addr :: sock_addr
  sa_type :: sock_type
  sa_protocol :: "sock_protocol option"

definition sa_can_accept :: "socket_address \<Rightarrow> bool" where
  "sa_can_accept a \<longleftrightarrow> sa_type a = Stream"

definition sa_path :: "socket_address \<Rightarrow> string option" where
  "sa_path a = (case sa_addr a of UnixPath p \<Rightarrow> Some p | _ \<Rightarrow> None)"

definition parse_u16 :: "string \<Rightarrow> u16 option" where
  "parse_u16 s = map_option word_of_int (parse_int 0 65535 s)"

definition parse_u32 :: "string \<Rightarrow> u32 option" where
  "parse_u32 s = map_option word_of_int (parse_int 0 4294967295 s)"

definition parse_netlink_address :: "string \<Rightarrow> (error + socket_address) option" where
  "parse_netlink_address item = (case split_whitespace item of
     [w0, w1] \<Rightarrow>
       let family = netlink_from_string w0 in
       if family = NetlinkInvalid then Some (Inl (OtherError ''Netlink family is invalid''))
       else (case parse_u32 w1 of
           None \<Rightarrow> Some (Inl (OtherError ''Netlink group is invalid''))
         | Some g \<Rightarrow> do {
             p \<leftarrow> netlink_to_sock_protocol family;
             Some (Inr \<lparr>sa_addr = NetlinkGroup g, sa_type = Raw, sa_protocol = Some p\<rparr>)
           })
   | _ \<Rightarrow> Some (Inl (OtherError (''Netlink configuration format is not correct: '' @ item))))"

definition parse_socket_address :: "addr_lib \<Rightarrow> string \<Rightarrow> sock_type \<Rightarrow> error + socket_address" where
  "parse_socket_address al item ty = (
     let mk = (\<lambda>a. \<lparr>sa_addr = a, sa_type = ty, sa_protocol = None\<rparr>);
         of_opt = (\<lambda>e x. case x of Some a \<Rightarrow> Inr (mk a) | None \<Rightarrow> Inl e) in
     if take 1 item = ''/'' then of_opt Nix (al_unix al item)
     else if take 1 item = ''@'' then of_opt Nix (al_abstract al item)
     else (case parse_u16 item of
         Some p \<Rightarrow> if p = 0 then Inl (OtherError ''invalid port number'')
           else if al_ipv6 al then Inr (mk (Inet6 ''::'' p)) else Inr (mk (Inet ''0.0.0.0'' p))
       | None \<Rightarrow> of_opt (OtherError ''invalid listening config'') (al_parse al item)))"

subsection \<open>Configuration (config.rs)\<close>

record socket_port_conf =
  pc_type :: port_type
  pc_sa :: socket_address
  pc_listen :: string

record socket_config =
  sc_data :: section_socket
  sc_source :: "string option"
  sc_target :: "string option"
  sc_ports :: "socket_port_conf list"
  sc_kill_mode :: kill_mode
  sc_kill_signal :: int

definition socket_config_new :: "int \<Rightarrow> socket_config" where
  "socket_config_new sigterm = \<lparr>sc_data = section_socket_default, sc_source = None, sc_target = None, sc_ports = [],
     sc_kill_mode = ControlGroup, sc_kill_signal = sigterm\<rparr>"

fun socket_get_exec_cmds :: "section_socket \<Rightarrow> socket_command \<Rightarrow> exec_command list option" where
  "socket_get_exec_cmds c SockCmdStartPre = sock_ExecStartPre c"
| "socket_get_exec_cmds c SockCmdStartPost = sock_ExecStartPost c"
| "socket_get_exec_cmds c SockCmdStopPre = sock_ExecStopPre c"
| "socket_get_exec_cmds c SockCmdStopPost = sock_ExecStopPost c"

text \<open>\<open>parse_sockets\<close> and the netlink branch of \<open>parse_listen_socket\<close>: ports are appended until an
  address does not parse.\<close>

fun parse_sockets :: "addr_lib \<Rightarrow> sock_type \<Rightarrow> string list \<Rightarrow> socket_config \<Rightarrow> (error + unit) \<times> socket_config" where
  "parse_sockets al ty [] c = (Inr (), c)"
| "parse_sockets al ty (v # vs) c =
     (if v = [] then parse_sockets al ty vs c
      else (case parse_socket_address al v ty of
          Inl _ \<Rightarrow> (Inl (OtherError (''parsing listening socket failed: '' @ v)), c)
        | Inr a \<Rightarrow> parse_sockets al ty vs (c\<lparr>sc_ports := sc_ports c @ [\<lparr>pc_type = PortSocket, pc_sa = a, pc_listen = v\<rparr>]\<rparr>)))"

fun parse_netlinks :: "string list \<Rightarrow> socket_config \<Rightarrow> ((error + unit) \<times> socket_config) option" where
  "parse_netlinks [] c = Some (Inr (), c)"
| "parse_netlinks (v # vs) c =
     (if v = [] then parse_netlinks vs c
      else do {
        r \<leftarrow> parse_netlink_address v;
        (case r of
           Inl _ \<Rightarrow> Some (Inl (OtherError (''create netlink listening socket failed: '' @ v)), c)
         | Inr a \<Rightarrow> parse_netlinks vs (c\<lparr>sc_ports := sc_ports c @ [\<lparr>pc_type = PortSocket, pc_sa = a, pc_listen = v\<rparr>]\<rparr>))
      })"

datatype listening_item = ListenItemStream | ListenItemDatagram | ListenItemNetlink | ListenItemSequentialPacket

definition parse_listen_socket :: "addr_lib \<Rightarrow> listening_item \<Rightarrow> socket_config \<Rightarrow> ((error + unit) \<times> socket_config) option" where
  "parse_listen_socket al item c = (
     let plain = (\<lambda>ls ty. Some (case ls of None \<Rightarrow> (Inr (), c) | Some l \<Rightarrow> parse_sockets al ty l c)) in
     case item of
       ListenItemStream \<Rightarrow> plain (ListenStream (sc_data c)) Stream
     | ListenItemDatagram \<Rightarrow> plain (ListenDatagram (sc_data c)) Datagram
     | ListenItemNetlink \<Rightarrow> (case ListenNetlink (sc_data c) of None \<Rightarrow> Some (Inr (), c) | Some l \<Rightarrow> parse_netlinks l c)
     | ListenItemSequentialPacket \<Rightarrow> plain (ListenSequentialPacket (sc_data c)) SeqPacket)"

fun parse_items :: "addr_lib \<Rightarrow> listening_item list \<Rightarrow> socket_config \<Rightarrow> ((error + unit) \<times> socket_config) option" where
  "parse_items al [] c = Some (Inr (), c)"
| "parse_items al (i # is) c = do {
     (r, c1) \<leftarrow> parse_listen_socket al i c;
     (case r of Inl e \<Rightarrow> Some (Inl e, c1) | Inr _ \<Rightarrow> parse_items al is c1)
   }"

definition parse_port :: "addr_lib \<Rightarrow> socket_config \<Rightarrow> ((error + unit) \<times> socket_config) option" where
  "parse_port al c = parse_items al [ListenItemStream, ListenItemDatagram, ListenItemNetlink, ListenItemSequentialPacket] c"

end
