(* ===== verification/Socket_Mng.thy ===== *)
theory Socket_Mng
  imports Socket_Base
begin

section \<open>Sockets: ports, the state machine and loading (coms/socket/src: port, mng, load, unit, manager)\<close>

text \<open>
  \<open>SocketMng\<close> with the ports it listens on. Every operation works on the frame of the unit it
  belongs to (which takes its reports) and on the socket itself, whose events carry the world.
\<close>

subsection \<open>What a socket calls\<close>

datatype sys_errno = EINTR | EAGAIN | EADDRINUSE | EBADF | EINVAL | OtherErrno int

record 'w socket_os =
  so_events :: "'w event_os"
  so_kill :: "'w kill_os"
  so_addr :: addr_lib
  so_socket :: "socket_address \<Rightarrow> 'w \<Rightarrow> (sys_errno + int) \<times> 'w"
  so_reuse_addr :: "int \<Rightarrow> 'w \<Rightarrow> (sys_errno + unit) \<times> 'w"
  so_create_parent :: "string \<Rightarrow> 'w \<Rightarrow> bool \<times> 'w"
  so_bind :: "int \<Rightarrow> socket_address \<Rightarrow> 'w \<Rightarrow> (sys_errno + unit) \<times> 'w"
  so_listen :: "int \<Rightarrow> nat \<Rightarrow> 'w \<Rightarrow> (sys_errno + unit) \<times> 'w"
  so_unlink :: "string \<Rightarrow> 'w \<Rightarrow> 'w"
  so_accept :: "int \<Rightarrow> 'w \<Rightarrow> (sys_errno + int) \<times> 'w"
  so_close :: "int \<Rightarrow> 'w \<Rightarrow> 'w"
  so_cloexec :: "int \<Rightarrow> bool \<Rightarrow> 'w \<Rightarrow> (error + unit) \<times> 'w"
  so_accept_conn :: "int \<Rightarrow> 'w \<Rightarrow> bool option"
  so_ppoll_in :: "int \<Rightarrow> 'w \<Rightarrow> (sys_errno + int \<times> bool) \<times> 'w"
  so_read :: "int \<Rightarrow> 'w \<Rightarrow> (sys_errno + nat) \<times> 'w"
  so_set_options :: "int \<Rightarrow> section_socket \<Rightarrow> 'w \<Rightarrow> 'w"
  so_fd_take :: "int \<Rightarrow> 'w \<Rightarrow> 'w"
  so_spawn :: "uid \<Rightarrow> exec_command \<Rightarrow> 'w \<Rightarrow> (error + pid) \<times> 'w"
  so_watch_pid :: "uid \<Rightarrow> pid \<Rightarrow> 'w \<Rightarrow> 'w"
  so_unwatch_pid :: "uid \<Rightarrow> pid \<Rightarrow> 'w \<Rightarrow> 'w"
  so_unit_enabled :: "uid \<Rightarrow> 'w \<Rightarrow> error + unit"
  so_has_stop_job :: "uid \<Rightarrow> 'w \<Rightarrow> bool"
  so_relation_active_or_pending :: "uid \<Rightarrow> 'w \<Rightarrow> bool"
  so_start_unit :: "uid \<Rightarrow> 'w \<Rightarrow> (error + unit) \<times> 'w"
  so_load_unit_success :: "uid \<Rightarrow> 'w \<Rightarrow> bool \<times> 'w"
  so_add_dependency :: "uid \<Rightarrow> unit_relations \<Rightarrow> uid \<Rightarrow> bool \<Rightarrow> u16 \<Rightarrow> 'w \<Rightarrow> (error + unit) \<times> 'w"
  so_add_two_dependency :: "uid \<Rightarrow> unit_relations \<Rightarrow> unit_relations \<Rightarrow> uid \<Rightarrow> bool \<Rightarrow> u16 \<Rightarrow> 'w \<Rightarrow> (error + unit) \<times> 'w"
  so_confique :: "string list \<Rightarrow> section_socket option"
  so_signal_from_str :: "string \<Rightarrow> int option"

text \<open>\<open>wait_for_events\<close> of \<open>io_util.rs\<close>, without waiting. What \<open>ppoll\<close> gives is the number of ready
  descriptors and whether the one asked for is invalid (\<open>POLLNVAL\<close>).\<close>

definition wait_for_events :: "'w socket_os \<Rightarrow> int \<Rightarrow> 'w \<Rightarrow> (sys_errno + int) \<times> 'w" where
  "wait_for_events os fd w = (case so_ppoll_in os fd w of
     (Inl e, w1) \<Rightarrow> (Inl e, w1)
   | (Inr (ret, nval), w1) \<Rightarrow> (if ret \<noteq> 0 \<and> nval then Inl EBADF else Inr ret, w1))"

text \<open>\<open>SocketAddress::socket_listen\<close>; a path without a parent makes it panic.\<close>

definition sa_unlink :: "'w socket_os \<Rightarrow> socket_address \<Rightarrow> 'w \<Rightarrow> 'w" where
  "sa_unlink os a w = (case sa_path a of Some p \<Rightarrow> so_unlink os p w | None \<Rightarrow> w)"

definition bind_path :: "'w socket_os \<Rightarrow> int \<Rightarrow> socket_address \<Rightarrow> string \<Rightarrow> 'w \<Rightarrow> ((sys_errno + unit) \<times> 'w) option" where
  "bind_path os fd a path w = do {
     rust_assert (\<not> list_all (\<lambda>c. c = CHR ''/'') path);
     let (ok, w1) = so_create_parent os path w;
     Some (if \<not> ok then (Inl EINVAL, w1)
       else (case so_bind os fd a w1 of
           (Inl EADDRINUSE, w2) \<Rightarrow> so_bind os fd a (sa_unlink os a w2)
         | (_, w2) \<Rightarrow> (Inr (), w2)))
   }"

definition socket_listen :: "'w socket_os \<Rightarrow> socket_address \<Rightarrow> nat \<Rightarrow> 'w \<Rightarrow> ((sys_errno + int) \<times> 'w) option" where
  "socket_listen os a backlog w = (case so_socket os a w of
     (Inl e, w1) \<Rightarrow> Some (Inl e, w1)
   | (Inr fd, w1) \<Rightarrow> (case so_reuse_addr os fd w1 of
       (Inl e, w2) \<Rightarrow> Some (Inl e, w2)
     | (Inr _, w2) \<Rightarrow> do {
         (r, w3) \<leftarrow> (case sa_path a of Some p \<Rightarrow> bind_path os fd a p w2 | None \<Rightarrow> Some (so_bind os fd a w2));
         Some (case r of
             Inl e \<Rightarrow> (Inl e, w3)
           | Inr _ \<Rightarrow> if sa_can_accept a
               then (case so_listen os fd backlog w3 of (Inl e, w4) \<Rightarrow> (Inl e, w4) | (Inr _, w4) \<Rightarrow> (Inr fd, w4))
               else (Inr fd, w3))
       }))"

subsection \<open>Ports (port.rs)\<close>

record socket_port =
  po_conf :: socket_port_conf
  po_fd :: int
  po_token :: u64

definition socket_port_new :: "u64 \<Rightarrow> socket_port_conf \<Rightarrow> socket_port" where
  "socket_port_new tok conf = \<lparr>po_conf = conf, po_fd = - 1, po_token = tok\<rparr>"

definition port_close :: "'w socket_os \<Rightarrow> socket_port \<Rightarrow> 'w \<Rightarrow> (socket_port \<times> 'w) option" where
  "port_close os p w =
     (if po_fd p < 0 then Some (p, w)
      else do {
        let w1 = snd (so_cloexec os (po_fd p) True w);
        let w2 = so_close os (po_fd p) w1;
        rust_assert (pc_type (po_conf p) = PortSocket);
        Some (p\<lparr>po_fd := - 1\<rparr>, sa_unlink os (pc_sa (po_conf p)) w2)
      })"

definition open_port :: "'w socket_os \<Rightarrow> socket_port \<Rightarrow> 'w \<Rightarrow> ((error + unit) \<times> socket_port \<times> 'w) option" where
  "open_port os p w =
     (if 0 \<le> po_fd p then Some (Inr (), p, w)
      else do {
        rust_assert (pc_type (po_conf p) = PortSocket);
        (r, w1) \<leftarrow> socket_listen os (pc_sa (po_conf p)) 128 w;
        (case r of
           Inl _ \<Rightarrow> Some (Inl Nix, p, w1)
         | Inr fd \<Rightarrow> (case so_cloexec os fd False w1 of
             (Inl e, w2) \<Rightarrow> do { (p1, w3) \<leftarrow> port_close os p w2; Some (Inl e, p1, w3) }
           | (Inr _, w2) \<Rightarrow> Some (Inr (), p\<lparr>po_fd := fd\<rparr>, w2)))
      })"

text \<open>\<open>flush_accept\<close>: what it closes after an accepted connection is the port's own descriptor.
  The inner loop repeats the interrupted poll.\<close>

partial_function (option) poll_again :: "'w socket_os \<Rightarrow> int \<Rightarrow> 'w \<Rightarrow> (bool \<times> 'w) option" where
  "poll_again os fd w = (case wait_for_events os fd w of
     (Inr _, w1) \<Rightarrow> Some (True, w1)
   | (Inl EINTR, w1) \<Rightarrow> poll_again os fd w1
   | (Inl _, w1) \<Rightarrow> Some (False, w1))"

fun flush_rounds :: "nat \<Rightarrow> 'w socket_os \<Rightarrow> int \<Rightarrow> 'w \<Rightarrow> 'w option" where
  "flush_rounds 0 os fd w = Some w"
| "flush_rounds (Suc n) os fd w = do {
     (ok, w1) \<leftarrow> poll_again os fd w;
     if \<not> ok then Some w1
     else (case so_accept os fd w1 of
         (Inl _, w2) \<Rightarrow> Some w2
       | (Inr _, w2) \<Rightarrow> flush_rounds n os fd (so_close os fd w2))
   }"

definition flush_accept :: "'w socket_os \<Rightarrow> socket_port \<Rightarrow> 'w \<Rightarrow> 'w option" where
  "flush_accept os p w =
     (if so_accept_conn os (po_fd p) w = Some True then flush_rounds 1023 os (po_fd p) w else Some w)"

partial_function (option) flush_fd :: "'w socket_os \<Rightarrow> int \<Rightarrow> 'w \<Rightarrow> 'w option" where
  "flush_fd os fd w = (case wait_for_events os fd w of
     (Inl _, w1) \<Rightarrow> Some w1
   | (Inr v, w1) \<Rightarrow> if v = 0 then Some w1
       else (case so_read os fd w1 of
           (Inl EINTR, w2) \<Rightarrow> flush_fd os fd w2
         | (Inl _, w2) \<Rightarrow> Some w2
         | (Inr n, w2) \<Rightarrow> if n = 0 then Some w2 else flush_fd os fd w2))"

subsection \<open>The socket\<close>

record ('d, 'w) socket_mng =
  sk_owner :: "uid option"
  sk_config :: socket_config
  sk_ports :: "socket_port list"
  sk_state :: socket_state
  sk_result :: socket_result
  sk_control :: "pid option"
  sk_control_cmd_type :: "socket_command option"
  sk_control_command :: "exec_command list"
  sk_refused :: "32 word"
  sk_re :: "'d socket_re"
  sk_events :: "'w events"

definition socket_mng_new :: "int \<Rightarrow> 'd socket_re \<Rightarrow> 'w events \<Rightarrow> ('d, 'w) socket_mng" where
  "socket_mng_new sigterm re ev = \<lparr>sk_owner = None, sk_config = socket_config_new sigterm, sk_ports = [], sk_state = SocketStateMax,
     sk_result = SocketSuccess, sk_control = None, sk_control_cmd_type = None, sk_control_command = [], sk_refused = 0,
     sk_re = re, sk_events = ev\<rparr>"

fun socket_to_unit_state :: "socket_state \<Rightarrow> unit_active_state" where
  "socket_to_unit_state SocketDead = UnitInActive"
| "socket_to_unit_state SocketStartPre = UnitActivating"
| "socket_to_unit_state SocketStartChown = UnitActivating"
| "socket_to_unit_state SocketStartPost = UnitActivating"
| "socket_to_unit_state SocketListening = UnitActive"
| "socket_to_unit_state SocketRunning = UnitActive"
| "socket_to_unit_state SocketFailed = UnitFailed"
| "socket_to_unit_state SocketCleaning = UnitMaintenance"
| "socket_to_unit_state _ = UnitDeActivating"

fun socket_to_kill_operation :: "socket_state \<Rightarrow> kill_operation" where
  "socket_to_kill_operation SocketFinalSigterm = KillTerminate"
| "socket_to_kill_operation _ = KillKill"

type_synonym ('d, 'w) sock_run = "'d unit_frame \<times> ('d, 'w) socket_mng"

abbreviation sk_world :: "('d, 'w) socket_mng \<Rightarrow> 'w" where
  "sk_world s \<equiv> ed_world (sk_events s)"

definition in_world :: "'w \<Rightarrow> ('d, 'w) socket_mng \<Rightarrow> ('d, 'w) socket_mng" where
  "in_world w s = s\<lparr>sk_events := (sk_events s)\<lparr>ed_world := w\<rparr>\<rparr>"

definition port_source :: "socket_port \<Rightarrow> source" where
  "port_source p = \<lparr>src_token = po_token p, src_type = EvIo, src_priority = 0, src_fd = po_fd p, src_signals = [], src_pid = 0,
     src_time = USEC_INFINITY, src_time_relative = USEC_INFINITY\<rparr>"

text \<open>A call of the event loop whose result is unwrapped.\<close>

definition ev_unwrap :: "('w events \<Rightarrow> 'w ev_result) \<Rightarrow> ('d, 'w) socket_mng \<Rightarrow> ('d, 'w) socket_mng option" where
  "ev_unwrap g s = do {
     (r, ev) \<leftarrow> g (sk_events s);
     (case r of Inl _ \<Rightarrow> None | Inr _ \<Rightarrow> Some (s\<lparr>sk_events := ev\<rparr>))
   }"

definition watch_one :: "'w socket_os \<Rightarrow> socket_port \<Rightarrow> ('d, 'w) socket_mng \<Rightarrow> ('d, 'w) socket_mng option" where
  "watch_one os p s =
     (if po_fd p < 0 then Some s
      else do {
        s1 \<leftarrow> ev_unwrap (add_source (port_source p)) s;
        ev_unwrap (set_enabled (so_events os) (port_source p) EventOn) s1
      })"

definition watch_fds :: "'w socket_os \<Rightarrow> ('d, 'w) socket_mng \<Rightarrow> ('d, 'w) socket_mng option" where
  "watch_fds os s = for_each (watch_one os) (sk_ports s) s"

definition unwatch_fds :: "'w socket_os \<Rightarrow> ('d, 'w) socket_mng \<Rightarrow> ('d, 'w) socket_mng option" where
  "unwatch_fds os s = for_each (\<lambda>p. ev_unwrap (set_enabled (so_events os) (port_source p) EventOff)) (sk_ports s) s"

fun close_ports :: "'w socket_os \<Rightarrow> socket_port list \<Rightarrow> 'w \<Rightarrow> (socket_port list \<times> 'w) option" where
  "close_ports os [] w = Some ([], w)"
| "close_ports os (p # ps) w = do {
     (p1, w1) \<leftarrow> port_close os p w;
     (ps1, w2) \<leftarrow> close_ports os ps w1;
     Some (p1 # ps1, w2)
   }"

definition close_fds :: "'w socket_os \<Rightarrow> ('d, 'w) socket_mng \<Rightarrow> ('d, 'w) socket_mng option" where
  "close_fds os s = do {
     s1 \<leftarrow> for_each (\<lambda>p. ev_unwrap (del_source (so_events os) (port_source p))) (sk_ports s) s;
     (ps, w) \<leftarrow> close_ports os (sk_ports s1) (sk_world s1);
     Some ((in_world w s1)\<lparr>sk_ports := ps\<rparr>)
   }"

definition flush_ports :: "'w socket_os \<Rightarrow> ('d, 'w) socket_mng \<Rightarrow> ('d, 'w) socket_mng option" where
  "flush_ports os s = for_each (\<lambda>p s. do {
       w1 \<leftarrow> flush_accept os p (sk_world s);
       w2 \<leftarrow> flush_fd os (po_fd p) w1;
       Some (in_world w2 s)
     }) (sk_ports s) s"

text \<open>\<open>open_fds\<close>, port by port; the error of a port closes all of them.\<close>

fun open_loop :: "'w socket_os \<Rightarrow> nat list \<Rightarrow> ('d, 'w) socket_mng \<Rightarrow> ((error + unit) \<times> ('d, 'w) socket_mng) option" where
  "open_loop os [] s = Some (Inr (), s)"
| "open_loop os (i # is) s = do {
     (r, p, w) \<leftarrow> open_port os (sk_ports s ! i) (sk_world s);
     let s1 = (in_world w s)\<lparr>sk_ports := (sk_ports s)[i := p]\<rparr>;
     (case r of
        Inl e \<Rightarrow> do { s2 \<leftarrow> close_fds os s1; Some (Inl e, s2) }
      | Inr _ \<Rightarrow> open_loop os is (in_world (so_set_options os (po_fd p) (sc_data (sk_config s1)) (sk_world s1)) s1))
   }"

definition open_fds :: "'w socket_os \<Rightarrow> ('d, 'w) socket_mng \<Rightarrow> ((error + unit) \<times> ('d, 'w) socket_mng) option" where
  "open_fds os s = open_loop os [0..<length (sk_ports s)] s"

definition collect_fds :: "('d, 'w) socket_mng \<Rightarrow> int list" where
  "collect_fds s = filter (\<lambda>fd. 0 \<le> fd) (map po_fd (sk_ports s))"

subsection \<open>Control processes\<close>

definition sk_unwatch_control :: "'w socket_os \<Rightarrow> ('d, 'w) socket_mng \<Rightarrow> ('d, 'w) socket_mng" where
  "sk_unwatch_control os s = (case sk_control s of
     None \<Rightarrow> s
   | Some p \<Rightarrow> (case sk_owner s of Some u \<Rightarrow> in_world (so_unwatch_pid os u p (sk_world s)) s | None \<Rightarrow> s)\<lparr>sk_control := None\<rparr>)"

definition start_socket :: "'w socket_os \<Rightarrow> exec_command \<Rightarrow> ('d, 'w) socket_mng \<Rightarrow> (error + pid) \<times> ('d, 'w) socket_mng" where
  "start_socket os cmd s = (case sk_owner s of
     None \<Rightarrow> (Inl (OtherError ''spawn exec return error''), s)
   | Some u \<Rightarrow> (case so_spawn os u cmd (sk_world s) of
       (Inl e, w) \<Rightarrow> (Inl (OtherError ''spawn exec return error''), in_world w s)
     | (Inr p, w) \<Rightarrow> (Inr p, in_world (so_watch_pid os u p w) s)))"

definition sk_command_fill :: "socket_command \<Rightarrow> ('d, 'w) socket_mng \<Rightarrow> ('d, 'w) socket_mng" where
  "sk_command_fill ty s = (case socket_get_exec_cmds (sc_data (sk_config s)) ty of
     Some cmds \<Rightarrow> s\<lparr>sk_control_command := cmds\<rparr> | None \<Rightarrow> s)"

definition sk_command_pop :: "('d, 'w) socket_mng \<Rightarrow> exec_command option \<times> ('d, 'w) socket_mng" where
  "sk_command_pop s = (case sk_control_command s of [] \<Rightarrow> (None, s) | c # cs \<Rightarrow> (Some c, s\<lparr>sk_control_command := cs\<rparr>))"

definition sk_command_update :: "socket_command option \<Rightarrow> nat \<Rightarrow> ('d, 'w) socket_mng \<Rightarrow> ('d, 'w) socket_mng option" where
  "sk_command_update ty len s = (case ty of
     Some t \<Rightarrow> (let s1 = sk_command_fill t (s\<lparr>sk_control_command := []\<rparr>); mx = length (sk_control_command s1)
               in Some (s1\<lparr>sk_control_command := drop (mx - len) (sk_control_command s1)\<rparr>))
   | None \<Rightarrow> do { rust_assert (len = 0); Some s })"

definition sk_set_result :: "socket_result \<Rightarrow> ('d, 'w) socket_mng \<Rightarrow> ('d, 'w) socket_mng" where
  "sk_set_result res s = (if sk_result s = SocketSuccess then s\<lparr>sk_result := res\<rparr> else s)"

text \<open>The common part of the states that run a command: \<open>Some\<close> with the result of spawning it,
  or no command.\<close>

definition run_control :: "'w socket_os \<Rightarrow> socket_command \<Rightarrow> ('d, 'w) socket_mng \<Rightarrow> bool option \<times> ('d, 'w) socket_mng" where
  "run_control os ty s = (case sk_command_pop (sk_command_fill ty s) of
     (None, s1) \<Rightarrow> (None, s1)
   | (Some cmd, s1) \<Rightarrow> (case start_socket os cmd s1 of
       (Inl _, s2) \<Rightarrow> (Some False, s2)
     | (Inr p, s2) \<Rightarrow> (Some True, s2\<lparr>sk_control := Some p\<rparr>)))"

subsection \<open>States\<close>

definition control_states_sock :: "socket_state list" where
  "control_states_sock = [SocketStartPre, SocketStartChown, SocketStartPost, SocketStopPre, SocketStopPreSigterm, SocketStopPreSigkill,
     SocketStopPost, SocketFinalSigterm, SocketFinalSigkill]"

definition open_states_sock :: "socket_state list" where
  "open_states_sock = [SocketStartChown, SocketStartPost, SocketListening, SocketRunning, SocketStopPre, SocketStopPreSigterm,
     SocketStopPreSigkill]"

definition sk_set_state :: "'w socket_os \<Rightarrow> socket_state \<Rightarrow> ('d, 'w) sock_run \<Rightarrow> ('d, 'w) sock_run option" where
  "sk_set_state os st x = (case x of (f, s) \<Rightarrow> do {
     let s1 = s\<lparr>sk_state := st\<rparr>;
     let s2 = (if st \<in> set control_states_sock then s1 else sk_unwatch_control os s1);
     s3 \<leftarrow> (if st \<noteq> SocketListening then unwatch_fds os s2 else Some s2);
     s4 \<leftarrow> (if st \<in> set open_states_sock then Some s3 else close_fds os s3);
     Some (case sk_owner s4 of
         Some _ \<Rightarrow> unit_notify (socket_to_unit_state (sk_state s)) (socket_to_unit_state st) UNIT_NOTIFY_RELOAD_FAILURE f
       | None \<Rightarrow> f, s4)
   })"

definition sk_enter_dead :: "'w socket_os \<Rightarrow> socket_result \<Rightarrow> ('d, 'w) sock_run \<Rightarrow> ('d, 'w) sock_run option" where
  "sk_enter_dead os res x = (case x of (f, s) \<Rightarrow>
     let s1 = sk_set_result res s in
     sk_set_state os (if sk_result s1 = SocketSuccess then SocketDead else SocketFailed) (f, s1))"

text \<open>The first part of \<open>enter_signal\<close>: record the result and kill the control process.\<close>

definition sk_kill :: "'w socket_os \<Rightarrow> socket_state \<Rightarrow> socket_result \<Rightarrow> ('d, 'w) sock_run \<Rightarrow> (error + unit) \<times> ('d, 'w) sock_run" where
  "sk_kill os st res x = (case x of (f, s) \<Rightarrow>
     let s1 = sk_set_result res s; c = sk_config s1 in
     case sk_owner s1 of
       None \<Rightarrow> (Inr (), f, s1)
     | Some _ \<Rightarrow> (case unit_kill_context (so_kill os) (sc_kill_mode c) (sc_kill_signal c) None (sk_control s1)
                        (socket_to_kill_operation st) f (sk_world s1) of
         (r, w) \<Rightarrow> (r, f, in_world w s1)))"

text \<open>\<open>enter_signal\<close> for the states that end in \<open>enter_dead\<close>.\<close>

definition sk_signal_last :: "'w socket_os \<Rightarrow> socket_state \<Rightarrow> socket_result \<Rightarrow> ('d, 'w) sock_run \<Rightarrow> ('d, 'w) sock_run option" where
  "sk_signal_last os st res x = (case sk_kill os st res x of
     (Inl _, x1) \<Rightarrow> sk_enter_dead os FailureResources x1
   | (Inr _, x1) \<Rightarrow> sk_enter_dead os SocketSuccess x1)"

definition sk_signal_final :: "'w socket_os \<Rightarrow> socket_state \<Rightarrow> socket_result \<Rightarrow> ('d, 'w) sock_run \<Rightarrow> ('d, 'w) sock_run option" where
  "sk_signal_final os st res x =
     (if st = SocketFinalSigterm then (case sk_kill os st res x of
          (Inl _, x1) \<Rightarrow> sk_enter_dead os FailureResources x1
        | (Inr _, x1) \<Rightarrow> sk_signal_last os SocketFinalSigkill SocketSuccess x1)
      else sk_signal_last os st res x)"

definition sk_enter_stop_post :: "'w socket_os \<Rightarrow> socket_result \<Rightarrow> ('d, 'w) sock_run \<Rightarrow> ('d, 'w) sock_run option" where
  "sk_enter_stop_post os res x = (case x of (f, s) \<Rightarrow>
     (case run_control os SockCmdStopPost (sk_set_result res s) of
        (None, s1) \<Rightarrow> sk_signal_final os SocketFinalSigterm SocketSuccess (f, s1)
      | (Some False, s1) \<Rightarrow> sk_signal_final os SocketFinalSigterm FailureResources (f, s1)
      | (Some True, s1) \<Rightarrow> sk_set_state os SocketStopPost (f, s1)))"

definition sk_enter_signal :: "'w socket_os \<Rightarrow> socket_state \<Rightarrow> socket_result \<Rightarrow> ('d, 'w) sock_run \<Rightarrow> ('d, 'w) sock_run option" where
  "sk_enter_signal os st res x =
     (if st = SocketStopPreSigterm then (case sk_kill os st res x of
          (Inl _, x1) \<Rightarrow> sk_enter_stop_post os FailureResources x1
        | (Inr _, x1) \<Rightarrow> (case sk_kill os SocketStopPreSigkill SocketSuccess x1 of
            (Inl _, x2) \<Rightarrow> sk_enter_stop_post os FailureResources x2
          | (Inr _, x2) \<Rightarrow> sk_enter_stop_post os SocketSuccess x2))
      else if st = SocketStopPreSigkill then (case sk_kill os st res x of
          (Inl _, x1) \<Rightarrow> sk_enter_stop_post os FailureResources x1
        | (Inr _, x1) \<Rightarrow> sk_enter_stop_post os SocketSuccess x1)
      else sk_signal_final os st res x)"

definition sk_enter_stop_pre :: "'w socket_os \<Rightarrow> socket_result \<Rightarrow> ('d, 'w) sock_run \<Rightarrow> ('d, 'w) sock_run option" where
  "sk_enter_stop_pre os res x = (case x of (f, s) \<Rightarrow>
     (case run_control os SockCmdStopPre (sk_unwatch_control os (sk_set_result res s)) of
        (None, s1) \<Rightarrow> sk_enter_stop_post os SocketSuccess (f, s1)
      | (Some False, s1) \<Rightarrow> sk_enter_stop_post os FailureResources (f, s1)
      | (Some True, s1) \<Rightarrow> sk_set_state os SocketStopPre (f, s1)))"

definition sk_enter_listening :: "'w socket_os \<Rightarrow> ('d, 'w) sock_run \<Rightarrow> ('d, 'w) sock_run option" where
  "sk_enter_listening os x = (case x of (f, s) \<Rightarrow> do {
     s1 \<leftarrow> (if \<not> Accept (sc_data (sk_config s)) then flush_ports os s else Some s);
     s2 \<leftarrow> watch_fds os s1;
     sk_set_state os SocketListening (f, s2)
   })"

definition sk_enter_start_post :: "'w socket_os \<Rightarrow> ('d, 'w) sock_run \<Rightarrow> ('d, 'w) sock_run option" where
  "sk_enter_start_post os x = (case x of (f, s) \<Rightarrow>
     (case run_control os SockCmdStartPost (sk_unwatch_control os s) of
        (None, s1) \<Rightarrow> sk_enter_listening os (f, s1)
      | (Some False, s1) \<Rightarrow> sk_enter_stop_pre os FailureResources (f, s1)
      | (Some True, s1) \<Rightarrow> sk_set_state os SocketStartPost (f, s1)))"

definition sk_enter_start_chown :: "'w socket_os \<Rightarrow> ('d, 'w) sock_run \<Rightarrow> ('d, 'w) sock_run option" where
  "sk_enter_start_chown os x = (case x of (f, s) \<Rightarrow> do {
     (r, s1) \<leftarrow> open_fds os s;
     (case r of
        Inr _ \<Rightarrow> sk_enter_start_post os (f, s1)
      | Inl _ \<Rightarrow> sk_enter_stop_pre os FailureResources (f, s1))
   })"

definition sk_enter_start_pre :: "'w socket_os \<Rightarrow> ('d, 'w) sock_run \<Rightarrow> ('d, 'w) sock_run option" where
  "sk_enter_start_pre os x = (case x of (f, s) \<Rightarrow>
     (case run_control os SockCmdStartPre (sk_unwatch_control os s) of
        (None, s1) \<Rightarrow> sk_enter_start_chown os (f, s1)
      | (Some False, s1) \<Rightarrow> sk_enter_dead os FailureResources (f, s1)
      | (Some True, s1) \<Rightarrow> sk_set_state os SocketStartPre (f, s1)))"

definition sk_enter_running :: "'w socket_os \<Rightarrow> int \<Rightarrow> ('d, 'w) sock_run \<Rightarrow> ('d, 'w) sock_run option" where
  "sk_enter_running os fd x = (case x of (f, s) \<Rightarrow> (case sk_owner s of
     None \<Rightarrow> Some (f, s)
   | Some u \<Rightarrow>
       if so_has_stop_job os u (sk_world s) then
         (if 0 \<le> fd then Some (f, s\<lparr>sk_refused := sk_refused s + 1\<rparr>)
          else map_option (Pair f) (flush_ports os s))
       else if fd < 0 then
         (if so_relation_active_or_pending os u (sk_world s) then sk_set_state os SocketRunning (f, s)
          else (case sc_target (sk_config s) of
              None \<Rightarrow> sk_enter_stop_pre os FailureResources (f, s)
            | Some service \<Rightarrow>
                (case so_start_unit os service (sk_world s) of (r, w) \<Rightarrow>
                   let s1 = (in_world w s)\<lparr>sk_re := socket_set_last_frame (FdListen True) (socket_set_last_frame (FdListen False) (sk_re s))\<rparr> in
                   case r of
                     Inl _ \<Rightarrow> sk_enter_stop_pre os FailureResources (f, s1)
                   | Inr _ \<Rightarrow> sk_set_state os SocketRunning (f, s1))))
       else None))"

subsection \<open>The database row\<close>

definition sk_db_insert :: "('d, 'w) socket_mng \<Rightarrow> ('d, 'w) socket_mng" where
  "sk_db_insert s = (case sk_owner s of
     None \<Rightarrow> s
   | Some u \<Rightarrow> s\<lparr>sk_re := socket_mng_insert u
       \<lparr>srm_state = sk_state s, srm_result = sk_result s, srm_control_pid = sk_control s, srm_control_cmd_type = sk_control_cmd_type s,
        srm_control_cmd_len = length (sk_control_command s), srm_refused = sk_refused s,
        srm_ports = map (\<lambda>p. (pc_type (po_conf p), pc_listen (po_conf p), po_fd p)) (sk_ports s)\<rparr> (sk_re s)\<rparr>)"

text \<open>\<open>fd_take\<close> gives the descriptor itself back and forgets it among the pending ones. Tokens stand for the addresses of the port objects; \<open>tok\<close> gives fresh ones.\<close>

definition sk_build_ports :: "(nat \<Rightarrow> u64) \<Rightarrow> ('d, 'w) socket_mng \<Rightarrow> ('d, 'w) socket_mng" where
  "sk_build_ports tok s = sk_db_insert (s\<lparr>sk_ports := sk_ports s @ map (\<lambda>(i, c). socket_port_new (tok i) c)
     (zip [length (sk_ports s)..<length (sk_ports s) + length (sc_ports (sk_config s))] (sc_ports (sk_config s)))\<rparr>)"

definition ports_find :: "port_type \<Rightarrow> string \<Rightarrow> socket_port list \<Rightarrow> nat option" where
  "ports_find ty listen ps = find (\<lambda>i. pc_type (po_conf (ps ! i)) = ty \<and> pc_listen (po_conf (ps ! i)) = listen) [0..<length ps]"

definition map_port_fd :: "'w socket_os \<Rightarrow> port_type \<times> string \<times> int \<Rightarrow> ('d, 'w) socket_mng \<Rightarrow> ('d, 'w) socket_mng option" where
  "map_port_fd os rp s = (case rp of (ty, listen, fd) \<Rightarrow> do {
     i \<leftarrow> ports_find ty listen (sk_ports s);
     Some ((in_world (so_fd_take os fd (sk_world s)) s)\<lparr>sk_ports := (sk_ports s)[i := (sk_ports s ! i)\<lparr>po_fd := fd\<rparr>]\<rparr>)
   })"

definition sk_map_ports_fd :: "'w socket_os \<Rightarrow> (port_type \<times> string \<times> int) list \<Rightarrow> ('d, 'w) socket_mng \<Rightarrow> ('d, 'w) socket_mng option" where
  "sk_map_ports_fd os rports s = do {
     rust_assert (length rports = length (sk_ports s));
     for_each (map_port_fd os) rports s
   }"

definition sk_data_db_map :: "'w socket_os \<Rightarrow> ('d, 'w) socket_mng \<Rightarrow> ('d, 'w) socket_mng option" where
  "sk_data_db_map os s = (case Option.bind (sk_owner s) (\<lambda>u. socket_mng_get u (sk_re s)) of
     None \<Rightarrow> Some s
   | Some m \<Rightarrow> do {
       s1 \<leftarrow> sk_command_update (srm_control_cmd_type m) (srm_control_cmd_len m)
         (s\<lparr>sk_state := srm_state m, sk_result := srm_result m, sk_control := srm_control_pid m\<rparr>);
       sk_map_ports_fd os (srm_ports m) (s1\<lparr>sk_refused := srm_refused m\<rparr>)
     })"

definition sk_db_map :: "(nat \<Rightarrow> u64) \<Rightarrow> 'w socket_os \<Rightarrow> ('d, 'w) socket_mng \<Rightarrow> ('d, 'w) socket_mng option" where
  "sk_db_map tok os s = sk_data_db_map os (sk_build_ports tok s)"

end
