(* ===== verification/Socket_Unit.thy ===== *)
theory Socket_Unit
  imports Socket_Mng
begin

section \<open>Sockets: requests, events and the sub unit (coms/socket/src: mng, config, load, unit, manager)\<close>

text \<open>
  What the outside does to a socket: start, stop, the end of a control process, a connection on
  a port, loading, recovery. \<open>sock_step\<close> is one of them.
\<close>

subsection \<open>Requests (mng.rs)\<close>

definition sk_start_check :: "'w socket_os \<Rightarrow> ('d, 'w) sock_run \<Rightarrow> ((error + bool) \<times> ('d, 'w) sock_run) option" where
  "sk_start_check os x = (case x of (f, s) \<Rightarrow>
     if sk_state s \<in> {SocketStopPre, SocketStopPreSigkill, SocketStopPreSigterm, SocketStopPost, SocketFinalSigterm,
          SocketFinalSigkill, SocketCleaning} then Some (Inl UnitActionEAgain, x)
     else if sk_state s \<in> {SocketStartPre, SocketStartChown, SocketStartPost} then Some (Inr True, x)
     else (case (case sc_target (sk_config s) of None \<Rightarrow> Inr () | Some name \<Rightarrow> so_unit_enabled os name (sk_world s)) of
         Inl e \<Rightarrow> Some (Inl e, x)
       | Inr _ \<Rightarrow>
           let (ok, f1) = (case sk_owner s of None \<Rightarrow> (False, f) | Some _ \<Rightarrow> test_start_limit f) in
           if \<not> ok then map_option (Pair (Inl UnitActionECanceled)) (sk_enter_dead os FailureStartLimitHit (f1, s))
           else Some (Inr False, f1, s)))"

definition sk_start_action :: "'w socket_os \<Rightarrow> ('d, 'w) sock_run \<Rightarrow> ('d, 'w) sock_run option" where
  "sk_start_action os x = map_option (map_prod id sk_db_insert) (sk_enter_start_pre os x)"

definition sk_stop_check :: "'w socket_os \<Rightarrow> ('d, 'w) sock_run \<Rightarrow> ((error + bool) \<times> ('d, 'w) sock_run) option" where
  "sk_stop_check os x = (case x of (f, s) \<Rightarrow>
     if sk_state s \<in> {SocketStopPre, SocketStopPreSigterm, SocketStopPreSigkill, SocketStopPost, SocketFinalSigterm, SocketFinalSigkill}
     then Some (Inr True, x)
     else if sk_state s \<in> {SocketStartPre, SocketStartChown, SocketStartPost}
     then map_option (Pair (Inl UnitActionEAgain)) (sk_enter_signal os SocketStopPreSigterm SocketSuccess x)
     else Some (Inr False, x))"

definition sk_stop_action :: "'w socket_os \<Rightarrow> ('d, 'w) sock_run \<Rightarrow> ('d, 'w) sock_run option" where
  "sk_stop_action os x = map_option (map_prod id sk_db_insert) (sk_enter_stop_pre os SocketSuccess x)"

definition socket_start :: "'w socket_os \<Rightarrow> ('d, 'w) sock_run \<Rightarrow> ((error + unit) \<times> ('d, 'w) sock_run) option" where
  "socket_start os x = do {
     (r, x1) \<leftarrow> sk_start_check os x;
     (case r of
        Inl e \<Rightarrow> Some (Inl e, x1)
      | Inr True \<Rightarrow> Some (Inr (), x1)
      | Inr False \<Rightarrow> map_option (Pair (Inr ())) (sk_start_action os x1))
   }"

definition socket_stop :: "'w socket_os \<Rightarrow> bool \<Rightarrow> ('d, 'w) sock_run \<Rightarrow> ((error + unit) \<times> ('d, 'w) sock_run) option" where
  "socket_stop os forced x = do {
     (r, x1) \<leftarrow> (if forced then Some (Inr False, x) else sk_stop_check os x);
     (case r of
        Inl e \<Rightarrow> Some (Inl e, x1)
      | Inr True \<Rightarrow> Some (Inr (), x1)
      | Inr False \<Rightarrow> map_option (Pair (Inr ())) (sk_stop_action os x1))
   }"

subsection \<open>Events\<close>

fun sk_sigchld_result :: "wait_status \<Rightarrow> socket_result option" where
  "sk_sigchld_result (WExited _ status) = Some (if status = 0 then SocketSuccess else FailureExitCode)"
| "sk_sigchld_result (WSignaled _ _ core_dump) = Some (if core_dump then FailureCoreDump else FailureSignal)"
| "sk_sigchld_result _ = None"

definition sk_run_next :: "'w socket_os \<Rightarrow> ('d, 'w) socket_mng \<Rightarrow> ('d, 'w) socket_mng" where
  "sk_run_next os s = (case sk_command_pop s of
     (None, s1) \<Rightarrow> s1
   | (Some cmd, s1) \<Rightarrow> (case start_socket os cmd s1 of (Inl _, s2) \<Rightarrow> s2 | (Inr p, s2) \<Rightarrow> s2\<lparr>sk_control := Some p\<rparr>))"

definition sk_control_gone :: "'w socket_os \<Rightarrow> socket_result \<Rightarrow> ('d, 'w) sock_run \<Rightarrow> ('d, 'w) sock_run option" where
  "sk_control_gone os res x = (case sk_state (snd x) of
     SocketStartPre \<Rightarrow> if res = SocketSuccess then sk_enter_start_chown os x else sk_enter_signal os SocketFinalSigterm res x
   | SocketStartChown \<Rightarrow> if res = SocketSuccess then sk_enter_start_post os x else sk_enter_stop_pre os res x
   | SocketStartPost \<Rightarrow> if res = SocketSuccess then sk_enter_listening os x else sk_enter_stop_pre os res x
   | SocketStopPre \<Rightarrow> sk_enter_stop_post os res x
   | SocketStopPreSigterm \<Rightarrow> sk_enter_stop_post os res x
   | SocketStopPreSigkill \<Rightarrow> sk_enter_stop_post os res x
   | SocketStopPost \<Rightarrow> sk_enter_dead os res x
   | SocketFinalSigterm \<Rightarrow> sk_enter_dead os res x
   | SocketFinalSigkill \<Rightarrow> sk_enter_dead os res x
   | _ \<Rightarrow> None)"

definition socket_sigchld :: "'w socket_os \<Rightarrow> wait_status \<Rightarrow> ('d, 'w) sock_run \<Rightarrow> ('d, 'w) sock_run option" where
  "socket_sigchld os ws x = do {
     res \<leftarrow> sk_sigchld_result ws;
     x1 \<leftarrow> (if sk_control_command (snd x) \<noteq> [] \<and> res = SocketSuccess then Some (fst x, sk_run_next os (snd x))
           else sk_control_gone os res x);
     Some (map_prod id sk_db_insert x1)
   }"

text \<open>\<open>dispatch_io\<close>: the descriptor of an accepted connection is bound to a new variable \<open>afd\<close>, and
  \<open>enter_running\<close> gets the outer one, which is \<open>-1\<close>.\<close>

definition dispatch_io :: "'w socket_os \<Rightarrow> socket_port \<Rightarrow> ('d, 'w) sock_run \<Rightarrow> ((error + int) \<times> ('d, 'w) sock_run) option" where
  "dispatch_io os p x = (case x of (f, s) \<Rightarrow>
     if sk_state s \<noteq> SocketListening then Some (Inr 0, x)
     else (case (if Accept (sc_data (sk_config s)) \<and> pc_type (po_conf p) = PortSocket \<and> sa_can_accept (pc_sa (po_conf p))
                 then (case so_accept os (po_fd p) (sk_world s) of
                         (Inl _, w) \<Rightarrow> (False, w)
                       | (Inr afd, w) \<Rightarrow> (True, so_set_options os afd (sc_data (sk_config s)) w))
                 else (True, sk_world s)) of
         (False, w) \<Rightarrow> Some (Inl (OtherError ''accept err''), f, in_world w s)
       | (True, w) \<Rightarrow> do {
           x1 \<leftarrow> sk_enter_running os (- 1) (f, in_world w s);
           Some (Inr 0, map_prod id sk_db_insert x1)
         }))"

definition port_dispatch :: "'w socket_os \<Rightarrow> socket_port \<Rightarrow> ('d, 'w) sock_run \<Rightarrow> (int \<times> ('d, 'w) sock_run) option" where
  "port_dispatch os p x = (case x of (f, s) \<Rightarrow> do {
     sk_owner s;
     (r, f1, s1) \<leftarrow> dispatch_io os p (f, s\<lparr>sk_re := socket_set_last_frame (FdListen True) (sk_re s)\<rparr>);
     Some (case r of Inr v \<Rightarrow> v | Inl _ \<Rightarrow> - 1, f1, s1\<lparr>sk_re := socket_clear_last_frame (sk_re s1)\<rparr>)
   })"

text \<open>Reloading the manager: the event sources are switched off, and on again in any state.\<close>

definition sk_entry_clear :: "'w socket_os \<Rightarrow> ('d, 'w) socket_mng \<Rightarrow> ('d, 'w) socket_mng option" where
  "sk_entry_clear os s = unwatch_fds os s"

definition sk_entry_coldplug :: "'w socket_os \<Rightarrow> ('d, 'w) socket_mng \<Rightarrow> ('d, 'w) socket_mng option" where
  "sk_entry_coldplug os s = watch_fds os s"

text \<open>One thing that happens to a socket in operation; in between the world and the clock of the
  start limit change.\<close>

inductive sock_step :: "'w socket_os \<Rightarrow> ('d, 'w) sock_run \<Rightarrow> ('d, 'w) sock_run \<Rightarrow> bool" for os where
  sock_start: "socket_start os x = Some (r, x') \<Longrightarrow> sock_step os x x'"
| sock_stop: "socket_stop os forced x = Some (r, x') \<Longrightarrow> sock_step os x x'"
| sock_sigchld: "socket_sigchld os ws x = Some x' \<Longrightarrow> sock_step os x x'"
| sock_io: "p \<in> set (sk_ports (snd x)) \<Longrightarrow> port_dispatch os p x = Some (v, x') \<Longrightarrow> sock_step os x x'"
| sock_env: "sock_step os (f, s) (f\<lparr>ue_limits := l\<rparr>, in_world w s)"

subsection \<open>Configuration and loading (config.rs, load.rs, unit.rs)\<close>

definition sk_config_db_insert :: "('d, 'w) socket_mng \<Rightarrow> ('d, 'w) socket_mng" where
  "sk_config_db_insert s = (case sk_owner s of
     None \<Rightarrow> s
   | Some u \<Rightarrow> s\<lparr>sk_re := socket_conf_insert u (sc_data (sk_config s)) (sc_target (sk_config s)) (sk_re s)\<rparr>)"

definition on_config :: "(socket_config \<Rightarrow> socket_config) \<Rightarrow> ('d, 'w) socket_mng \<Rightarrow> ('d, 'w) socket_mng" where
  "on_config g s = s\<lparr>sk_config := g (sk_config s)\<rparr>"

definition sk_config_reset :: "('d, 'w) socket_mng \<Rightarrow> ('d, 'w) socket_mng" where
  "sk_config_reset s = sk_config_db_insert
     (on_config (\<lambda>c. c\<lparr>sc_data := section_socket_default, sc_source := None, sc_target := None, sc_ports := []\<rparr>) s)"

definition set_unit_ref :: "'w socket_os \<Rightarrow> uid \<Rightarrow> ('d, 'w) socket_mng \<Rightarrow> (error + unit) \<times> ('d, 'w) socket_mng" where
  "set_unit_ref os service s = (case so_load_unit_success os service (sk_world s) of
     (False, w) \<Rightarrow> (Inl (OtherError (''failed to load unit '' @ service)), in_world w s)
   | (True, w) \<Rightarrow>
       let s1 = in_world w s;
           s2 = (case sk_owner s1 of None \<Rightarrow> s1 | Some u \<Rightarrow> on_config (\<lambda>c. c\<lparr>sc_source := Some u, sc_target := Some service\<rparr>) s1)
       in (Inr (), sk_config_db_insert s2))"

definition ends_with :: "string \<Rightarrow> string \<Rightarrow> bool" where
  "ends_with s sfx \<longleftrightarrow> length sfx \<le> length s \<and> drop (length s - length sfx) s = sfx"

definition parse_service :: "'w socket_os \<Rightarrow> ('d, 'w) socket_mng \<Rightarrow> (error + unit) \<times> ('d, 'w) socket_mng" where
  "parse_service os s = (case sock_Service (sc_data (sk_config s)) of
     None \<Rightarrow> (Inr (), s)
   | Some service \<Rightarrow>
       if \<not> ends_with service ''.service'' then (Inl (OtherError ''socket service must be end with .service''), s)
       else set_unit_ref os service s)"

definition sk_parse_port :: "'w socket_os \<Rightarrow> ('d, 'w) socket_mng \<Rightarrow> ((error + unit) \<times> ('d, 'w) socket_mng) option" where
  "sk_parse_port os s = map_option (\<lambda>(r, c). (r, s\<lparr>sk_config := c\<rparr>)) (parse_port (so_addr os) (sk_config s))"

definition parse_kill_context :: "'w socket_os \<Rightarrow> ('d, 'w) socket_mng \<Rightarrow> (error + unit) \<times> ('d, 'w) socket_mng" where
  "parse_kill_context os s = (
     let s1 = on_config (\<lambda>c. c\<lparr>sc_kill_mode := sock_KillMode (sc_data c)\<rparr>) s in
     case so_signal_from_str os (sock_KillSignal (sc_data (sk_config s1))) of
       None \<Rightarrow> (Inl Nix, s1)
     | Some sig \<Rightarrow> (Inr (), on_config (\<lambda>c. c\<lparr>sc_kill_signal := sig\<rparr>) s1))"

definition sk_config_load :: "'w socket_os \<Rightarrow> string list \<Rightarrow> bool \<Rightarrow> ('d, 'w) socket_mng \<Rightarrow> ((error + unit) \<times> ('d, 'w) socket_mng) option" where
  "sk_config_load os paths update s = (case so_confique os paths of
     None \<Rightarrow> Some (Inl Confique, s)
   | Some data \<Rightarrow> (case parse_kill_context os (on_config (\<lambda>c. c\<lparr>sc_data := data\<rparr>) s) of
       (Inl e, s1) \<Rightarrow> Some (Inl e, s1)
     | (Inr _, s1) \<Rightarrow> (case parse_service os s1 of (ret1, s2) \<Rightarrow> do {
         (ret2, s3) \<leftarrow> sk_parse_port os s2;
         (case (ret1, ret2) of
            (Inr _, Inr _) \<Rightarrow> Some (Inr (), if update then sk_config_db_insert s3 else s3)
          | (Inl e, _) \<Rightarrow> Some (Inl e, sk_config_reset s3)
          | (_, Inl e) \<Rightarrow> Some (Inl e, sk_config_reset s3))
       })))"

definition sk_config_db_map :: "'w socket_os \<Rightarrow> ('d, 'w) socket_mng \<Rightarrow> ('d, 'w) socket_mng option" where
  "sk_config_db_map os s = (case Option.bind (sk_owner s) (\<lambda>u. socket_conf_get u (sk_re s)) of
     None \<Rightarrow> Some s
   | Some (data, service) \<Rightarrow> do {
       let s1 = on_config (\<lambda>c. c\<lparr>sc_data := data\<rparr>) s;
       s2 \<leftarrow> (case service of None \<Rightarrow> Some s1 | Some svc \<Rightarrow> (case set_unit_ref os svc s1 of (Inl _, _) \<Rightarrow> None | (Inr _, s2) \<Rightarrow> Some s2));
       (r, s3) \<leftarrow> sk_parse_port os s2;
       (case r of Inl _ \<Rightarrow> None | Inr _ \<Rightarrow> Some s3)
     })"

text \<open>\<open>Path::file_stem\<close> of a unit name, which has no directory part.\<close>

definition file_stem :: "string \<Rightarrow> string" where
  "file_stem name = (case rev (split_char CHR ''.'' name) of
     _ # w # ws \<Rightarrow> if rev (w # ws) = [[]] then name else foldr (\<lambda>a b. if b = [] then a else a @ CHR ''.'' # b) (rev (w # ws)) []
   | _ \<Rightarrow> name)"

definition load_related_unit :: "'w socket_os \<Rightarrow> ('d, 'w) socket_mng \<Rightarrow> (error + unit) \<times> ('d, 'w) socket_mng" where
  "load_related_unit os s = (case sk_owner s of
     None \<Rightarrow> (Inl (OtherError ''failed to load related unit service unit name is none''), s)
   | Some u \<Rightarrow> set_unit_ref os (file_stem u @ ''.service'') s)"

definition no_accept_socket :: "socket_port_conf list \<Rightarrow> bool" where
  "no_accept_socket ps = list_ex (\<lambda>p. pc_type p \<noteq> PortSocket \<or> \<not> sa_can_accept (pc_sa p)) ps"

definition sk_can_accept :: "('d, 'w) socket_mng \<Rightarrow> bool" where
  "sk_can_accept s = (if \<not> Accept (sc_data (sk_config s)) then True else no_accept_socket (sc_ports (sk_config s)))"

definition sk_add_default_dependencies :: "'w socket_os \<Rightarrow> ('d, 'w) sock_run \<Rightarrow> (error + unit) \<times> ('d, 'w) sock_run" where
  "sk_add_default_dependencies os x = (case x of (f, s) \<Rightarrow> (case sk_owner s of
     None \<Rightarrow> (Inr (), x)
   | Some u \<Rightarrow>
       if \<not> DefaultDependencies (ue_config f) then (Inr (), x)
       else (case so_add_dependency os u UnitAfter ''sockets.target'' True 4 (sk_world s) of
           (Inl e, w) \<Rightarrow> (Inl e, f, in_world w s)
         | (Inr _, w) \<Rightarrow> (case so_add_two_dependency os u UnitAfter UnitRequires ''sysinit.target'' True 4 w of
             (Inl e, w1) \<Rightarrow> (Inl e, f, in_world w1 s)
           | (Inr _, w1) \<Rightarrow> (case so_add_two_dependency os u UnitBefore UnitConflicts ''shutdown.target'' True 4 w1 of
               (r, w2) \<Rightarrow> (r, f, in_world w2 s))))))"

definition socket_add_extras :: "'w socket_os \<Rightarrow> ('d, 'w) sock_run \<Rightarrow> ((error + unit) \<times> ('d, 'w) sock_run) option" where
  "socket_add_extras os x = (case x of (f, s) \<Rightarrow> do {
     (r, s1) \<leftarrow> (if \<not> sk_can_accept s then Some (Inr (), s)
       else (case (if sc_target (sk_config s) = None then load_related_unit os s else (Inr (), s)) of
           (Inl e, s1) \<Rightarrow> Some (Inl e, s1)
         | (Inr _, s1) \<Rightarrow> (case sk_owner s1 of
             None \<Rightarrow> Some (Inr (), s1)
           | Some u \<Rightarrow> do {
               target \<leftarrow> sc_target (sk_config s1);
               Some (case so_add_two_dependency os u UnitBefore UnitTriggers target True 2 (sk_world s1) of
                   (r, w) \<Rightarrow> (r, in_world w s1))
             })));
     Some (case r of Inl e \<Rightarrow> (Inl e, f, s1) | Inr _ \<Rightarrow> sk_add_default_dependencies os (f, s1))
   })"

definition socket_load :: "(nat \<Rightarrow> u64) \<Rightarrow> 'w socket_os \<Rightarrow> string list \<Rightarrow> ('d, 'w) sock_run \<Rightarrow> ((error + unit) \<times> ('d, 'w) sock_run) option" where
  "socket_load tok os paths x = (case x of (f, s) \<Rightarrow> do {
     (r, s1) \<leftarrow> sk_config_load os paths True s;
     (case r of
        Inl e \<Rightarrow> Some (Inl e, f, s1)
      | Inr _ \<Rightarrow> do {
          (r2, f2, s2) \<leftarrow> socket_add_extras os (f, s1);
          Some (case r2 of
              Inl e \<Rightarrow> (Inl e, f2, sk_config_reset s2)
            | Inr _ \<Rightarrow> (Inr (), f2, sk_build_ports tok s2))
        })
   })"

definition socket_db_map :: "(nat \<Rightarrow> u64) \<Rightarrow> 'w socket_os \<Rightarrow> ('d, 'w) socket_mng \<Rightarrow> ('d, 'w) socket_mng option" where
  "socket_db_map tok os s = do { s1 \<leftarrow> sk_config_db_map os s; sk_db_map tok os s1 }"

definition socket_attach :: "uid \<Rightarrow> ('d, 'w) socket_mng \<Rightarrow> ('d, 'w) socket_mng" where
  "socket_attach u s = sk_db_insert (sk_config_db_insert (s\<lparr>sk_owner := Some u\<rparr>))"

definition socket_sub :: "(nat \<Rightarrow> u64) \<Rightarrow> 'w socket_os \<Rightarrow> ('d, ('d, 'w) socket_mng) sub_unit" where
  "socket_sub tok os =
     \<lparr>su_load = (\<lambda>paths f s. socket_load tok os paths (f, s)),
      su_start = (\<lambda>f s. socket_start os (f, s)),
      su_stop = (\<lambda>forced f s. socket_stop os forced (f, s)),
      su_reload = (\<lambda>f s. Some (Inl UnitActionEOpNotSupp, f, s)), su_can_reload = (\<lambda>_. False),
      su_sigchld = (\<lambda>ws f s. socket_sigchld os ws (f, s)),
      su_active_state = (\<lambda>s. socket_to_unit_state (sk_state s)),
      su_db_map = socket_db_map tok os, su_attach = (\<lambda>u s. Some (socket_attach u s))\<rparr>"

subsection \<open>Compensation (manager.rs)\<close>

text \<open>The last frame of the socket manager decides whether the unit of the interrupted action is
  merged into the triggered ones and run again.\<close>

definition socket_compensate :: "(uid \<Rightarrow> 'w \<Rightarrow> 'w) \<Rightarrow> uid option \<Rightarrow> 'd socket_re \<Rightarrow> 'w \<Rightarrow> 'w option" where
  "socket_compensate again lunit re w = do {
     u \<leftarrow> lunit;
     Some (case socket_last_frame re of Some (FdListen True) \<Rightarrow> again u w | _ \<Rightarrow> w)
   }"

end
