(* ===== verification/Socket_Thms.thy ===== *)
theory Socket_Thms
  imports Socket_Unit
begin

section \<open>What every step of a socket keeps\<close>

text \<open>
  Every change of the state of a socket ends in \<open>set_state\<close>, which brings the event sources and
  the descriptors of the ports in line with the new state. From this: what holds of every socket
  in operation, and what a socket gets wrong.
\<close>

subsection \<open>Event sources of the ports\<close>

definition token_quiet :: "'w events \<Rightarrow> u64 \<Rightarrow> bool" where
  "token_quiet ev t \<longleftrightarrow> map_of (ed_state ev) t = None \<or> map_of (ed_state ev) t = Some EventOff"

definition token_on :: "'w events \<Rightarrow> u64 \<Rightarrow> bool" where
  "token_on ev t \<longleftrightarrow> map_of (ed_state ev) t = Some EventOn"

lemma unit_result_cases [elim]: "a \<noteq> Inr () \<Longrightarrow> \<forall>x. a \<noteq> Inl x \<Longrightarrow> P"
  by (cases a) auto

lemma in_world_fields [simp]:
  "sk_owner (in_world w s) = sk_owner s" "sk_config (in_world w s) = sk_config s" "sk_ports (in_world w s) = sk_ports s"
  "sk_state (in_world w s) = sk_state s" "sk_result (in_world w s) = sk_result s" "sk_control (in_world w s) = sk_control s"
  "sk_control_cmd_type (in_world w s) = sk_control_cmd_type s" "sk_control_command (in_world w s) = sk_control_command s"
  "sk_refused (in_world w s) = sk_refused s" "sk_re (in_world w s) = sk_re s" "sk_world (in_world w s) = w"
  "ed_state (sk_events (in_world w s)) = ed_state (sk_events s)"
  "token_quiet (sk_events (in_world w s)) = token_quiet (sk_events s)" "token_on (sk_events (in_world w s)) = token_on (sk_events s)"
  by (auto simp: in_world_def token_quiet_def token_on_def)

lemma port_source_fields [simp]: "src_token (port_source p) = po_token p" "src_type (port_source p) = EvIo" "src_fd (port_source p) = po_fd p"
  by (simp_all add: port_source_def)

lemma epoll_state [simp]:
  "ed_state (snd (epoll_register os fd t ev)) = ed_state ev" "ed_state (snd (epoll_unregister os fd ev)) = ed_state ev"
  by (simp_all add: epoll_register_def epoll_unregister_def split: prod.splits)

lemma epoll_state':
  "epoll_register os fd t ev = (r, ev') \<Longrightarrow> ed_state ev' = ed_state ev"
  "epoll_unregister os fd ev = (r, ev') \<Longrightarrow> ed_state ev' = ed_state ev"
  by (metis epoll_state snd_conv)+

lemma source_offline_state:
  "source_offline os (port_source p) ev = Some (r, ev') \<Longrightarrow> ed_state ev' = ed_state ev"
  by (auto simp: source_offline_def dest: epoll_state' split: option.splits event_state.splits)

lemma set_enabled_state:
  "set_enabled os (port_source p) st ev = Some (Inr u, ev') \<Longrightarrow> ed_state ev' = AList.update (po_token p) st (ed_state ev)"
  by (auto simp: set_enabled_def bind_eq_Some_conv source_online_def dest!: epoll_state' source_offline_state
      split: sum.splits if_splits)

lemma del_source_state:
  "del_source os (port_source p) ev = Some (Inr u, ev') \<Longrightarrow> ed_state ev' = AList.delete (po_token p) (ed_state ev)"
  by (auto simp: del_source_def bind_eq_Some_conv dest!: source_offline_state split: sum.splits)

lemma add_source_state:
  "add_source (port_source p) ev = Some (r, ev') \<Longrightarrow> ed_state ev' = AList.update (po_token p) EventOff (ed_state ev)"
  by (auto simp: add_source_def)

text \<open>An unwrapped call of the event loop changes nothing else of the socket.\<close>

definition only_events :: "('d, 'w) socket_mng \<Rightarrow> ('d, 'w) socket_mng \<Rightarrow> bool" where
  "only_events s s' \<longleftrightarrow> s' = s\<lparr>sk_events := sk_events s'\<rparr>"

lemma only_events_fields:
  assumes "only_events s s'"
  shows "sk_owner s' = sk_owner s" "sk_config s' = sk_config s" "sk_ports s' = sk_ports s" "sk_state s' = sk_state s"
    "sk_result s' = sk_result s" "sk_control s' = sk_control s" "sk_control_cmd_type s' = sk_control_cmd_type s"
    "sk_control_command s' = sk_control_command s" "sk_refused s' = sk_refused s" "sk_re s' = sk_re s"
  using assms by (cases s; cases s'; simp add: only_events_def)+

lemma only_events_refl [simp]: "only_events s s"
  by (simp add: only_events_def)

lemma only_events_trans: "only_events s s1 \<Longrightarrow> only_events s1 s2 \<Longrightarrow> only_events s s2"
  by (cases s; cases s1; cases s2) (simp add: only_events_def)

lemma only_events_in_world [simp]: "only_events s (in_world w s)"
  by (simp add: only_events_def in_world_def)

lemma ev_unwrap_Some:
  assumes "ev_unwrap g s = Some s'"
  shows "only_events s s'" "\<exists>u. g (sk_events s) = Some (Inr u, sk_events s')"
  using assms by (auto simp: ev_unwrap_def only_events_def bind_eq_Some_conv split: sum.splits)

lemma for_each_only_events:
  assumes "for_each g xs s = Some s'" and "\<And>x s s'. g x s = Some s' \<Longrightarrow> only_events s s'"
  shows "only_events s s'"
  using assms(1) by (induction xs arbitrary: s) (auto simp: bind_eq_Some_conv dest!: assms(2) intro: only_events_trans)

lemma for_each_tokens:
  assumes "for_each g ps s = Some s'"
    and "\<And>p s s'. p \<in> set ps \<Longrightarrow> g p s = Some s' \<Longrightarrow>
      Q (sk_events s') (po_token p) \<and> (\<forall>t. Q (sk_events s) t \<longrightarrow> Q (sk_events s') t)"
  shows "(\<forall>p \<in> set ps. Q (sk_events s') (po_token p)) \<and> (\<forall>t. Q (sk_events s) t \<longrightarrow> Q (sk_events s') t)"
  using assms
proof (induction ps arbitrary: s)
  case (Cons p ps)
  from Cons.prems(1) obtain s1 where s1: "g p s = Some s1" "for_each g ps s1 = Some s'" by (auto simp: bind_eq_Some_conv)
  have "(\<forall>p \<in> set ps. Q (sk_events s') (po_token p)) \<and> (\<forall>t. Q (sk_events s1) t \<longrightarrow> Q (sk_events s') t)"
    using s1(2) by (rule Cons.IH) (use Cons.prems(2) in auto)
  moreover have "Q (sk_events s1) (po_token p) \<and> (\<forall>t. Q (sk_events s) t \<longrightarrow> Q (sk_events s1) t)"
    using Cons.prems(2)[OF _ s1(1)] by simp
  ultimately show ?case by simp
qed auto

lemma unwatch_fds_Some:
  assumes "unwatch_fds os s = Some s'"
  shows "only_events s s'" "\<And>p. p \<in> set (sk_ports s) \<Longrightarrow> token_quiet (sk_events s') (po_token p)"
proof -
  have step: "only_events s s' \<and> token_quiet (sk_events s') (po_token p) \<and>
      (\<forall>t. token_quiet (sk_events s) t \<longrightarrow> token_quiet (sk_events s') t)"
    if "ev_unwrap (set_enabled (so_events os) (port_source p) EventOff) s = Some s'" for p s s'
    using ev_unwrap_Some[OF that] by (auto dest!: set_enabled_state simp: token_quiet_def AList.update_conv' split: if_splits)
  show "only_events s s'"
    using assms unfolding unwatch_fds_def by (rule for_each_only_events) (use step in blast)
  show "token_quiet (sk_events s') (po_token p)" if "p \<in> set (sk_ports s)" for p
    using for_each_tokens[OF assms[unfolded unwatch_fds_def], of token_quiet] step that by blast
qed

lemma watch_fds_Some:
  assumes "watch_fds os s = Some s'"
  shows "only_events s s'"
    "(\<And>p. p \<in> set (sk_ports s) \<Longrightarrow> 0 \<le> po_fd p) \<Longrightarrow> p \<in> set (sk_ports s) \<Longrightarrow> token_on (sk_events s') (po_token p)"
proof -
  have step: "only_events s s'" "0 \<le> po_fd p \<Longrightarrow> token_on (sk_events s') (po_token p) \<and>
      (\<forall>t. token_on (sk_events s) t \<longrightarrow> token_on (sk_events s') t)"
    if w: "watch_one os p s = Some s'" for p s s'
  proof -
    show "only_events s s'"
      using w by (auto simp: watch_one_def bind_eq_Some_conv split: if_splits dest!: ev_unwrap_Some(1) intro: only_events_trans)
    assume "0 \<le> po_fd p"
    with w obtain s1 where s1: "ev_unwrap (add_source (port_source p)) s = Some s1"
      "ev_unwrap (set_enabled (so_events os) (port_source p) EventOn) s1 = Some s'"
      by (auto simp: watch_one_def bind_eq_Some_conv)
    then show "token_on (sk_events s') (po_token p) \<and> (\<forall>t. token_on (sk_events s) t \<longrightarrow> token_on (sk_events s') t)"
      using ev_unwrap_Some(2)[OF s1(1)] ev_unwrap_Some(2)[OF s1(2)]
      by (auto dest!: add_source_state set_enabled_state simp: token_on_def AList.update_conv')
  qed
  show "only_events s s'"
    using assms unfolding watch_fds_def by (rule for_each_only_events) (use step(1) in blast)
  show "token_on (sk_events s') (po_token p)" if "\<And>p. p \<in> set (sk_ports s) \<Longrightarrow> 0 \<le> po_fd p" "p \<in> set (sk_ports s)"
    using for_each_tokens[OF assms[unfolded watch_fds_def], of token_on] step(2) that by blast
qed

lemma port_close_Some:
  "port_close os p w = Some (p', w') \<Longrightarrow> po_fd p' < 0 \<and> po_token p' = po_token p"
  by (auto simp: port_close_def bind_eq_Some_conv split: if_splits)

lemma close_ports_Some:
  "close_ports os ps w = Some (ps', w') \<Longrightarrow> (\<forall>p \<in> set ps'. po_fd p < 0) \<and> map po_token ps' = map po_token ps"
  by (induction ps arbitrary: ps' w) (auto simp: bind_eq_Some_conv dest: port_close_Some)

lemma close_fds_Some:
  assumes "close_fds os s = Some s'"
  shows "s' = s\<lparr>sk_ports := sk_ports s', sk_events := sk_events s'\<rparr>" "\<And>p. p \<in> set (sk_ports s') \<Longrightarrow> po_fd p < 0"
    "map po_token (sk_ports s') = map po_token (sk_ports s)" "\<And>t. token_quiet (sk_events s) t \<Longrightarrow> token_quiet (sk_events s') t"
proof -
  let ?g = "\<lambda>p. ev_unwrap (del_source (so_events os) (port_source p))"
  from assms obtain s1 ps w where s1: "for_each ?g (sk_ports s) s = Some s1" and ps: "close_ports os (sk_ports s1) (sk_world s1) = Some (ps, w)"
    and s': "s' = (in_world w s1)\<lparr>sk_ports := ps\<rparr>"
    by (auto simp: close_fds_def bind_eq_Some_conv)
  have step: "only_events s s' \<and> token_quiet (sk_events s') (po_token p) \<and>
      (\<forall>t. token_quiet (sk_events s) t \<longrightarrow> token_quiet (sk_events s') t)" if "?g p s = Some s'" for p s s'
    using ev_unwrap_Some[OF that] by (auto dest!: del_source_state simp: token_quiet_def AList.delete_conv' split: if_splits)
  have only: "only_events s s1" using s1 by (rule for_each_only_events) (use step in blast)
  then show "s' = s\<lparr>sk_ports := sk_ports s', sk_events := sk_events s'\<rparr>" "map po_token (sk_ports s') = map po_token (sk_ports s)"
    using s' close_ports_Some[OF ps] only_events_fields(3)[OF only]
    by (cases s; cases s1; simp add: in_world_def only_events_def)+
  show "po_fd p < 0" if "p \<in> set (sk_ports s')" for p using that s' close_ports_Some[OF ps] by simp
  show "token_quiet (sk_events s') t" if "token_quiet (sk_events s) t" for t
  proof -
    have "token_quiet (sk_events s1) t" using for_each_tokens[OF s1, of token_quiet] step that by blast
    then show ?thesis by (simp add: s' in_world_def token_quiet_def)
  qed
qed

subsection \<open>What every operation keeps\<close>

definition sk_keeps :: "('d, 'w) socket_mng \<Rightarrow> ('d, 'w) socket_mng \<Rightarrow> bool" where
  "sk_keeps s s' \<longleftrightarrow> sk_owner s' = sk_owner s \<and> sk_state s' = sk_state s \<and> sk_control_cmd_type s' = sk_control_cmd_type s \<and>
     sk_ports s' = sk_ports s \<and> ed_state (sk_events s') = ed_state (sk_events s) \<and>
     (sk_result s \<noteq> SocketSuccess \<longrightarrow> sk_result s' = sk_result s)"

lemma sk_keeps_refl [simp]: "sk_keeps s s"
  by (simp add: sk_keeps_def)

lemma sk_keeps_trans [trans]: "sk_keeps s s1 \<Longrightarrow> sk_keeps s1 s2 \<Longrightarrow> sk_keeps s s2"
  by (auto simp: sk_keeps_def)

lemma sk_keeps_simps [simp]:
  "sk_keeps s (in_world w s)" "sk_keeps s (sk_unwatch_control os s)" "sk_keeps s (sk_set_result r s)" "sk_keeps s (sk_command_fill ty s)"
  "sk_keeps s (sk_db_insert s)"
  by (auto simp: sk_keeps_def sk_unwatch_control_def sk_set_result_def sk_command_fill_def sk_db_insert_def split: option.splits)

lemma sk_unwatch_control_fields [simp]:
  "sk_control (sk_unwatch_control os s) = None" "sk_result (sk_unwatch_control os s) = sk_result s"
  "sk_config (sk_unwatch_control os s) = sk_config s" "sk_control_command (sk_unwatch_control os s) = sk_control_command s"
  by (auto simp: sk_unwatch_control_def split: option.splits)

lemma start_socket_keeps: "start_socket os cmd s = (r, s') \<Longrightarrow> sk_keeps s s' \<and> sk_control_command s' = sk_control_command s"
  by (auto simp: start_socket_def split: option.splits prod.splits sum.splits)

lemma command_pop_keeps: "sk_command_pop s = (c, s') \<Longrightarrow> sk_keeps s s' \<and> (c = None \<longrightarrow> sk_control_command s' = [])"
  by (auto simp: sk_command_pop_def sk_keeps_def split: list.splits)

lemma sk_keeps_control [simp]: "sk_keeps s (s'\<lparr>sk_control := c\<rparr>) = sk_keeps s s'"
  by (simp add: sk_keeps_def)

lemma run_control_keeps:
  assumes "run_control os ty s = (r, s')"
  shows "sk_keeps s s'" "r = None \<Longrightarrow> sk_control_command s' = []"
proof -
  obtain c s1 where c: "sk_command_pop (sk_command_fill ty s) = (c, s1)" by fastforce
  have keep: "sk_keeps s s1" using sk_keeps_trans[OF sk_keeps_simps(4)] command_pop_keeps[OF c] by blast
  show "sk_keeps s s'" using assms c keep
    by (auto simp: run_control_def split: option.splits prod.splits sum.splits dest!: start_socket_keeps intro: sk_keeps_trans)
  show "sk_control_command s' = []" if "r = None"
    using assms c command_pop_keeps[OF c] that by (auto simp: run_control_def split: option.splits prod.splits sum.splits)
qed

lemma sk_kill_keeps: "sk_kill os st res (f, s) = (r, x') \<Longrightarrow> fst x' = f \<and> sk_keeps s (snd x')"
  by (auto simp: sk_kill_def Let_def split: option.splits prod.splits intro: sk_keeps_trans[OF sk_keeps_simps(3) sk_keeps_simps(1)])

text \<open>\<open>sk_after x x'\<close>: from \<open>x\<close> the socket came to \<open>x'\<close>. What it reported in between leads from the old
  to the new state, and a failure is never forgotten.\<close>

definition sk_after :: "('d, 'w) sock_run \<Rightarrow> ('d, 'w) sock_run \<Rightarrow> bool" where
  "sk_after x x' \<longleftrightarrow> sk_owner (snd x') = sk_owner (snd x) \<and> sk_control_cmd_type (snd x') = sk_control_cmd_type (snd x) \<and>
     (sk_result (snd x) \<noteq> SocketSuccess \<longrightarrow> sk_result (snd x') = sk_result (snd x)) \<and>
     (\<exists>ns l. fst x' = (fst x)\<lparr>ue_limits := l, ue_states := ue_states (fst x) @ ns\<rparr> \<and>
        report_chain (ue_id (fst x)) (socket_to_unit_state (sk_state (snd x))) ns (socket_to_unit_state (sk_state (snd x'))))"

lemma sk_after_limits:
  assumes "sk_keeps s s'"
  shows "sk_after (f, s) (f\<lparr>ue_limits := l\<rparr>, s')"
  unfolding sk_after_def by (intro conjI exI[of _ "[]"] exI[of _ l]) (use assms in \<open>auto simp: sk_keeps_def\<close>)

lemma sk_after_keeps: "sk_keeps s s' \<Longrightarrow> sk_after (f, s) (f, s')"
  using sk_after_limits[of s s' f "ue_limits f"] by simp

lemma sk_after_trans [trans]:
  assumes "sk_after x y" and "sk_after y z"
  shows "sk_after x z"
proof -
  from assms(1) obtain ns l where y: "fst y = (fst x)\<lparr>ue_limits := l, ue_states := ue_states (fst x) @ ns\<rparr>"
    "report_chain (ue_id (fst x)) (socket_to_unit_state (sk_state (snd x))) ns (socket_to_unit_state (sk_state (snd y)))"
    by (auto simp: sk_after_def)
  from assms(2) obtain ms k where z: "fst z = (fst y)\<lparr>ue_limits := k, ue_states := ue_states (fst y) @ ms\<rparr>"
    "report_chain (ue_id (fst y)) (socket_to_unit_state (sk_state (snd y))) ms (socket_to_unit_state (sk_state (snd z)))"
    by (auto simp: sk_after_def)
  have "fst z = (fst x)\<lparr>ue_limits := k, ue_states := ue_states (fst x) @ (ns @ ms)\<rparr>" using y(1) z(1) by simp
  moreover have "report_chain (ue_id (fst x)) (socket_to_unit_state (sk_state (snd x))) (ns @ ms) (socket_to_unit_state (sk_state (snd z)))"
    using y z(2) by (auto intro: report_chain_append)
  ultimately show ?thesis using assms unfolding sk_after_def by auto
qed

text \<open>What holds of a socket at rest: the descriptors and the event sources of its ports fit its
  state, and so do the control process and the result.\<close>

definition visited_sock :: "socket_state set" where
  "visited_sock = {SocketDead, SocketFailed, SocketStartPre, SocketStartPost, SocketListening, SocketRunning, SocketStopPre,
     SocketStopPost, SocketStateMax}"

definition ports_open :: "('d, 'w) socket_mng \<Rightarrow> bool" where
  "ports_open s \<longleftrightarrow> (\<forall>p \<in> set (sk_ports s). 0 \<le> po_fd p)"

definition sock_sound :: "('d, 'w) socket_mng \<Rightarrow> bool" where
  "sock_sound s \<longleftrightarrow> sk_state s \<in> visited_sock \<and>
     (sk_state s \<in> {SocketStartPost, SocketListening, SocketRunning} \<longrightarrow> ports_open s) \<and>
     (sk_state s \<notin> {SocketStartPost, SocketListening, SocketRunning, SocketStopPre} \<longrightarrow> (\<forall>p \<in> set (sk_ports s). po_fd p < 0)) \<and>
     (\<forall>p \<in> set (sk_ports s). if sk_state s = SocketListening then token_on (sk_events s) (po_token p)
        else token_quiet (sk_events s) (po_token p)) \<and>
     (sk_state s \<in> {SocketListening, SocketRunning} \<longrightarrow> sk_control s = None \<and> sk_control_command s = []) \<and>
     (sk_state s = SocketDead \<longrightarrow> sk_result s = SocketSuccess) \<and> (sk_state s = SocketFailed \<longrightarrow> sk_result s \<noteq> SocketSuccess)"

lemma sk_set_state_Some:
  assumes "sk_set_state os st (f, s) = Some x'"
  shows "sk_state (snd x') = st" "sk_owner (snd x') = sk_owner s" "sk_result (snd x') = sk_result s"
    "sk_control_cmd_type (snd x') = sk_control_cmd_type s" "sk_control_command (snd x') = sk_control_command s"
    "sk_control (snd x') = (if st \<in> set control_states_sock then sk_control s else None)"
    "sk_owner s \<noteq> None \<Longrightarrow> fst x' = unit_notify (socket_to_unit_state (sk_state s)) (socket_to_unit_state st) UNIT_NOTIFY_RELOAD_FAILURE f"
    "st \<in> set open_states_sock \<Longrightarrow> sk_ports (snd x') = sk_ports s"
    "st \<notin> set open_states_sock \<Longrightarrow> p \<in> set (sk_ports (snd x')) \<Longrightarrow> po_fd p < 0"
    "st \<noteq> SocketListening \<Longrightarrow> p \<in> set (sk_ports (snd x')) \<Longrightarrow> token_quiet (sk_events (snd x')) (po_token p)"
    "st = SocketListening \<Longrightarrow> ed_state (sk_events (snd x')) = ed_state (sk_events s)"
proof -
  define s2 where "s2 = (if st \<in> set control_states_sock then s\<lparr>sk_state := st\<rparr> else sk_unwatch_control os (s\<lparr>sk_state := st\<rparr>))"
  have s2: "sk_state s2 = st" "sk_owner s2 = sk_owner s" "sk_result s2 = sk_result s" "sk_control_cmd_type s2 = sk_control_cmd_type s"
    "sk_control_command s2 = sk_control_command s" "sk_control s2 = (if st \<in> set control_states_sock then sk_control s else None)"
    "sk_ports s2 = sk_ports s" "ed_state (sk_events s2) = ed_state (sk_events s)"
    by (simp_all add: s2_def sk_unwatch_control_def split: option.splits)
  from assms obtain s3 s4 where s3: "(if st \<noteq> SocketListening then unwatch_fds os s2 else Some s2) = Some s3"
    and s4: "(if st \<in> set open_states_sock then Some s3 else close_fds os s3) = Some s4"
    and x': "x' = ((case sk_owner s4 of Some _ \<Rightarrow> unit_notify (socket_to_unit_state (sk_state s)) (socket_to_unit_state st)
        UNIT_NOTIFY_RELOAD_FAILURE f | None \<Rightarrow> f), s4)"
    unfolding s2_def by (auto simp: sk_set_state_def bind_eq_Some_conv Let_def simp del: not_None_eq split del: if_split)
  have o3: "only_events s2 s3" using s3 unwatch_fds_Some(1) by (auto split: if_splits)
  note f3 = only_events_fields[OF o3]
  have q3: "token_quiet (sk_events s3) (po_token p)" if "st \<noteq> SocketListening" "p \<in> set (sk_ports s)" for p
    using s3 that unwatch_fds_Some(2)[of os s2 s3 p] s2(7) by simp
  have o4: "s4 = s3\<lparr>sk_ports := sk_ports s4, sk_events := sk_events s4\<rparr>" "map po_token (sk_ports s4) = map po_token (sk_ports s3)"
    "\<And>t. token_quiet (sk_events s3) t \<Longrightarrow> token_quiet (sk_events s4) t"
    using s4 close_fds_Some[of os s3 s4] by (auto split: if_splits)
  have f4: "sk_state s4 = sk_state s3" "sk_owner s4 = sk_owner s3" "sk_result s4 = sk_result s3"
    "sk_control_cmd_type s4 = sk_control_cmd_type s3" "sk_control_command s4 = sk_control_command s3" "sk_control s4 = sk_control s3"
    using o4(1) by (cases s3; cases s4; simp)+
  show "sk_state (snd x') = st" "sk_owner (snd x') = sk_owner s" "sk_result (snd x') = sk_result s"
    "sk_control_cmd_type (snd x') = sk_control_cmd_type s" "sk_control_command (snd x') = sk_control_command s"
    "sk_control (snd x') = (if st \<in> set control_states_sock then sk_control s else None)"
    using x' f4 f3 s2 by simp_all
  show "fst x' = unit_notify (socket_to_unit_state (sk_state s)) (socket_to_unit_state st) UNIT_NOTIFY_RELOAD_FAILURE f"
    if "sk_owner s \<noteq> None" using that x' f4(2) f3(1) s2(2) by auto
  show "sk_ports (snd x') = sk_ports s" if "st \<in> set open_states_sock" using that s4 x' f3(3) s2(7) by simp
  show "po_fd p < 0" if "st \<notin> set open_states_sock" "p \<in> set (sk_ports (snd x'))"
    using that s4 x' close_fds_Some(2)[of os s3 s4 p] by simp
  show "token_quiet (sk_events (snd x')) (po_token p)" if "st \<noteq> SocketListening" "p \<in> set (sk_ports (snd x'))"
  proof -
    from that(2) x' o4(2) f3(3) s2(7) obtain q where "q \<in> set (sk_ports s)" "po_token q = po_token p"
      by (metis (no_types, lifting) image_iff image_set snd_conv)
    with q3[OF that(1)] o4(3) x' show ?thesis by fastforce
  qed
  show "ed_state (sk_events (snd x')) = ed_state (sk_events s)" if "st = SocketListening"
    using that s3 s4 x' s2(8) by (simp add: open_states_sock_def)
qed

text \<open>The socket moved on from \<open>x\<close> and is at rest in \<open>x'\<close>.\<close>

definition sk_moves :: "('d, 'w) sock_run \<Rightarrow> ('d, 'w) sock_run \<Rightarrow> bool" where
  "sk_moves x x' \<longleftrightarrow> sk_after x x' \<and> sock_sound (snd x')"

lemma sk_moves_after: "sk_after x y \<Longrightarrow> sk_moves y z \<Longrightarrow> sk_moves x z"
  by (auto simp: sk_moves_def intro: sk_after_trans)

lemma sk_moves_keeps: "sk_keeps s s1 \<Longrightarrow> sk_moves (f, s1) x' \<Longrightarrow> sk_moves (f, s) x'"
  by (blast intro: sk_moves_after sk_after_keeps)

lemma set_state_moves:
  assumes "sk_set_state os st (f, s) = Some x'" "sk_owner s \<noteq> None" "st \<in> visited_sock"
    and "st \<in> {SocketStartPost, SocketListening, SocketRunning} \<Longrightarrow> ports_open s"
    and "\<And>p. st = SocketListening \<Longrightarrow> p \<in> set (sk_ports s) \<Longrightarrow> token_on (sk_events s) (po_token p)"
    and "st \<in> {SocketListening, SocketRunning} \<Longrightarrow> sk_control_command s = []"
    and "st = SocketDead \<Longrightarrow> sk_result s = SocketSuccess" "st = SocketFailed \<Longrightarrow> sk_result s \<noteq> SocketSuccess"
  shows "sk_moves (f, s) x'"
proof -
  note fields = sk_set_state_Some[OF assms(1)]
  define n where "n = \<lparr>note_unit = ue_id f, note_os = socket_to_unit_state (sk_state s), note_ns = socket_to_unit_state st,
      note_flags = UNIT_NOTIFY_RELOAD_FAILURE\<rparr>"
  have "fst x' = f\<lparr>ue_limits := ue_limits f, ue_states := ue_states f @ [n]\<rparr>"
    using fields(7)[OF assms(2)] by (simp add: unit_notify_def n_def)
  moreover have "report_chain (ue_id f) (socket_to_unit_state (sk_state s)) [n] (socket_to_unit_state (sk_state (snd x')))"
    by (simp add: n_def fields(1))
  ultimately have "sk_after (f, s) x'" using fields(2-4) unfolding sk_after_def fst_conv snd_conv by blast
  moreover have open_iff: "st \<in> set open_states_sock \<longleftrightarrow> st \<in> {SocketStartPost, SocketListening, SocketRunning, SocketStopPre}"
    using assms(3) by (auto simp: open_states_sock_def visited_sock_def)
  have "sock_sound (snd x')"
  proof -
    have "st \<in> {SocketStartPost, SocketListening, SocketRunning} \<longrightarrow> ports_open (snd x')"
      using assms(4) fields(8) open_iff by (auto simp: ports_open_def)
    moreover have "st \<notin> {SocketStartPost, SocketListening, SocketRunning, SocketStopPre} \<longrightarrow> (\<forall>p \<in> set (sk_ports (snd x')). po_fd p < 0)"
      using fields(9) open_iff by blast
    moreover have "token_on (sk_events (snd x')) (po_token p)" if "st = SocketListening" "p \<in> set (sk_ports (snd x'))" for p
      using assms(5)[of p] that fields(8,11) open_iff by (simp add: token_on_def)
    moreover have "token_quiet (sk_events (snd x')) (po_token p)" if "st \<noteq> SocketListening" "p \<in> set (sk_ports (snd x'))" for p
      using that by (rule fields(10))
    moreover have "st \<in> {SocketListening, SocketRunning} \<longrightarrow> sk_control (snd x') = None \<and> sk_control_command (snd x') = []"
      using fields(5,6) assms(6) by (auto simp: control_states_sock_def)
    ultimately show ?thesis using assms(3,7,8) fields(1,3) unfolding sock_sound_def by simp
  qed
  ultimately show ?thesis by (simp add: sk_moves_def)
qed

subsection \<open>The states one by one\<close>

lemma keeps_owner: "sk_keeps s s' \<Longrightarrow> sk_owner s' = sk_owner s"
  by (simp add: sk_keeps_def)

text \<open>States in which a control process runs and nothing is asked of the ports.\<close>

lemma pause_moves:
  "sk_set_state os st (f, s) = Some x' \<Longrightarrow> sk_owner s \<noteq> None \<Longrightarrow> st \<in> {SocketStartPre, SocketStopPre, SocketStopPost} \<Longrightarrow>
   sk_moves (f, s) x'"
  by (erule set_state_moves) (auto simp: visited_sock_def)

lemma enter_dead_moves:
  assumes "sk_enter_dead os res (f, s) = Some x'" "sk_owner s \<noteq> None"
  shows "sk_moves (f, s) x'"
  using assms by (intro sk_moves_keeps[OF sk_keeps_simps(3)[of s res]], intro set_state_moves[where os = os
      and st = "if sk_result (sk_set_result res s) = SocketSuccess then SocketDead else SocketFailed"])
    (auto simp: sk_enter_dead_def Let_def visited_sock_def keeps_owner[OF sk_keeps_simps(3)] split: if_splits)

text \<open>A \<open>kill\<close> in front of what follows.\<close>

lemma kill_moves:
  assumes "sk_kill os st res (f, s) = (r, x1)" and "\<And>s1. sk_owner s1 = sk_owner s \<Longrightarrow> x1 = (f, s1) \<Longrightarrow> sk_moves (f, s1) x'"
  shows "sk_moves (f, s) x'"
proof -
  obtain s1 where "x1 = (f, s1)" "sk_keeps s s1" using sk_kill_keeps[OF assms(1)] by (metis prod.collapse)
  then show ?thesis using assms(2)[of s1] sk_moves_keeps keeps_owner by blast
qed

lemma signal_last_moves:
  assumes "sk_signal_last os st res (f, s) = Some x'" "sk_owner s \<noteq> None"
  shows "sk_moves (f, s) x'"
proof -
  obtain r x1 where k: "sk_kill os st res (f, s) = (r, x1)" by (rule prod.exhaust)
  show ?thesis using assms unfolding sk_signal_last_def k
    by (intro kill_moves[OF k]) (auto split: sum.splits intro: enter_dead_moves)
qed

lemma signal_final_moves:
  assumes "sk_signal_final os st res (f, s) = Some x'" "sk_owner s \<noteq> None"
  shows "sk_moves (f, s) x'"
proof (cases "st = SocketFinalSigterm")
  case True
  obtain r x1 where k: "sk_kill os st res (f, s) = (r, x1)" by (rule prod.exhaust)
  show ?thesis using assms True k unfolding sk_signal_final_def
    by (intro kill_moves[OF k]) (auto split: sum.splits intro: enter_dead_moves signal_last_moves)
next
  case False
  then show ?thesis using assms by (auto simp: sk_signal_final_def intro: signal_last_moves)
qed

lemma stop_post_moves:
  assumes "sk_enter_stop_post os res (f, s) = Some x'" "sk_owner s \<noteq> None"
  shows "sk_moves (f, s) x'"
proof -
  obtain r s1 where r: "run_control os SockCmdStopPost (sk_set_result res s) = (r, s1)" by fastforce
  have keep: "sk_keeps s s1" using sk_keeps_trans[OF sk_keeps_simps(3) run_control_keeps(1)[OF r]] .
  then have own: "sk_owner s1 \<noteq> None" using assms(2) by (simp add: sk_keeps_def)
  have "sk_moves (f, s1) x'"
    using assms(1) r own by (auto simp: sk_enter_stop_post_def split: option.splits bool.splits intro: signal_final_moves
      intro: pause_moves[where st = SocketStopPost])
  then show ?thesis using keep sk_moves_keeps by blast
qed

lemma enter_signal_moves:
  assumes "sk_enter_signal os st res (f, s) = Some x'" "sk_owner s \<noteq> None"
  shows "sk_moves (f, s) x'"
proof -
  obtain r x1 where k: "sk_kill os st res (f, s) = (r, x1)" by (rule prod.exhaust)
  show ?thesis
  proof (cases "st \<in> {SocketStopPreSigterm, SocketStopPreSigkill}")
    case True
    show ?thesis
    proof (rule kill_moves[OF k])
      fix s1 assume s1: "sk_owner s1 = sk_owner s" "x1 = (f, s1)"
      obtain r2 x2 where k2: "sk_kill os SocketStopPreSigkill SocketSuccess (f, s1) = (r2, x2)" by (rule prod.exhaust)
      show "sk_moves (f, s1) x'"
      proof (cases "st = SocketStopPreSigterm \<and> (\<exists>v. r = Inr v)")
        case True
        then show ?thesis using assms k k2 s1 unfolding sk_enter_signal_def
          by (intro kill_moves[OF k2]) (auto split: sum.splits intro: stop_post_moves)
      next
        case False
        have own: "sk_owner s1 \<noteq> None" using assms(2) s1(1) by simp
        show ?thesis using False assms(1) k s1(2) \<open>st \<in> _\<close>
          by (auto simp: sk_enter_signal_def split: sum.splits intro: stop_post_moves[OF _ own])
      qed
    qed
  next
    case False
    then show ?thesis using assms by (auto simp: sk_enter_signal_def intro: signal_final_moves)
  qed
qed

lemma stop_pre_moves:
  assumes "sk_enter_stop_pre os res (f, s) = Some x'" "sk_owner s \<noteq> None"
  shows "sk_moves (f, s) x'"
proof -
  obtain r s1 where r: "run_control os SockCmdStopPre (sk_unwatch_control os (sk_set_result res s)) = (r, s1)" by fastforce
  have keep: "sk_keeps s s1"
    using sk_keeps_trans[OF sk_keeps_trans[OF sk_keeps_simps(3) sk_keeps_simps(2)] run_control_keeps(1)[OF r]] .
  then have own: "sk_owner s1 \<noteq> None" using assms(2) by (simp add: sk_keeps_def)
  have "sk_moves (f, s1) x'"
    using assms(1) r own by (auto simp: sk_enter_stop_pre_def split: option.splits bool.splits intro: stop_post_moves
      intro: pause_moves[where st = SocketStopPre])
  then show ?thesis using keep sk_moves_keeps by blast
qed

lemma flush_ports_keeps:
  assumes "flush_ports os s = Some s'"
  shows "sk_keeps s s'" "sk_control_command s' = sk_control_command s"
proof -
  have "sk_keeps s s' \<and> sk_control_command s' = sk_control_command s"
    using assms unfolding flush_ports_def
    by (rule for_each_inv[where I = "\<lambda>s1. sk_keeps s s1 \<and> sk_control_command s1 = sk_control_command s"])
       (auto simp: bind_eq_Some_conv intro: sk_keeps_trans)
  then show "sk_keeps s s'" "sk_control_command s' = sk_control_command s" by auto
qed

lemma enter_listening_moves:
  assumes "sk_enter_listening os (f, s) = Some x'" "sk_owner s \<noteq> None" "ports_open s" "sk_control_command s = []"
  shows "sk_moves (f, s) x'"
proof -
  from assms(1) obtain s1 s2 where s1: "(if \<not> Accept (sc_data (sk_config s)) then flush_ports os s else Some s) = Some s1"
    and s2: "watch_fds os s1 = Some s2" and x': "sk_set_state os SocketListening (f, s2) = Some x'"
    by (auto simp: sk_enter_listening_def bind_eq_Some_conv split del: if_split)
  have k1: "sk_keeps s s1" "sk_control_command s1 = []" using s1 assms(4) flush_ports_keeps[of os s s1] by (auto split: if_splits)
  then have p1: "sk_ports s1 = sk_ports s" by (simp add: sk_keeps_def)
  note f2 = only_events_fields[OF watch_fds_Some(1)[OF s2]]
  have on: "token_on (sk_events s2) (po_token p)" if "p \<in> set (sk_ports s2)" for p
    using watch_fds_Some(2)[OF s2, of p] that f2(3) p1 assms(3) by (simp add: ports_open_def)
  have "sk_moves (f, s2) x'"
    using x' by (rule set_state_moves)
      (use assms(2,3) on p1 k1 f2 in \<open>auto simp: visited_sock_def ports_open_def keeps_owner\<close>)
  moreover have "sk_after (f, s) (f, s2)"
    unfolding sk_after_def fst_conv snd_conv
    by (intro conjI exI[of _ "[]"] exI[of _ "ue_limits f"]) (use k1(1) f2 in \<open>auto simp: sk_keeps_def\<close>)
  ultimately show ?thesis by (blast intro: sk_moves_after)
qed

lemma keeps_open: "sk_keeps s s' \<Longrightarrow> ports_open s' = ports_open s"
  by (simp add: sk_keeps_def ports_open_def)

lemma start_post_moves:
  assumes "sk_enter_start_post os (f, s) = Some x'" "sk_owner s \<noteq> None" "ports_open s"
  shows "sk_moves (f, s) x'"
proof -
  obtain r s1 where r: "run_control os SockCmdStartPost (sk_unwatch_control os s) = (r, s1)" by fastforce
  have keep: "sk_keeps s s1" using sk_keeps_trans[OF sk_keeps_simps(2) run_control_keeps(1)[OF r]] .
  have own: "sk_owner s1 \<noteq> None" "ports_open s1" using assms(2,3) keep by (simp_all add: keeps_owner keeps_open)
  have "sk_moves (f, s1) x'"
  proof (cases r)
    case None
    then show ?thesis using assms(1) r own run_control_keeps(2)[OF r] by (auto simp: sk_enter_start_post_def intro: enter_listening_moves)
  next
    case (Some b)
    show ?thesis
    proof (cases b)
      case True
      with Some r assms(1) have "sk_set_state os SocketStartPost (f, s1) = Some x'" by (simp add: sk_enter_start_post_def)
      then show ?thesis by (rule set_state_moves) (use own in \<open>auto simp: visited_sock_def\<close>)
    next
      case False
      then show ?thesis using Some r assms(1) own by (auto simp: sk_enter_start_post_def intro: stop_pre_moves)
    qed
  qed
  then show ?thesis using keep sk_moves_keeps by blast
qed

subsection \<open>Opening the ports\<close>

text \<open>A new descriptor is not negative.\<close>

definition fds_nonneg :: "'w socket_os \<Rightarrow> bool" where
  "fds_nonneg os \<longleftrightarrow> (\<forall>a w fd w'. so_socket os a w = (Inr fd, w') \<longrightarrow> 0 \<le> fd)"

lemma socket_listen_fd: "fds_nonneg os \<Longrightarrow> socket_listen os a n w = Some (Inr fd, w') \<Longrightarrow> 0 \<le> fd"
  by (auto simp: socket_listen_def fds_nonneg_def split: prod.split_asm sum.split_asm if_split_asm Option.bind_split_asm)

lemma open_port_Some:
  assumes "fds_nonneg os" "open_port os p w = Some (r, p', w')"
  shows "r = Inr u \<Longrightarrow> 0 \<le> po_fd p'"
  using assms by (auto simp: open_port_def split: if_split_asm sum.split_asm prod.split_asm Option.bind_split_asm dest: socket_listen_fd)

lemma open_loop_Some:
  assumes "fds_nonneg os" "open_loop os is s = Some (r, s')"
  shows "sk_owner s' = sk_owner s \<and> sk_state s' = sk_state s \<and> sk_control_cmd_type s' = sk_control_cmd_type s \<and> sk_result s' = sk_result s \<and>
    (\<forall>u. r = Inr u \<longrightarrow> length (sk_ports s') = length (sk_ports s) \<and>
       (\<forall>i < length (sk_ports s). i \<in> set is \<or> 0 \<le> po_fd (sk_ports s ! i) \<longrightarrow> 0 \<le> po_fd (sk_ports s' ! i)))"
  using assms(2)
proof (induction "is" arbitrary: s)
  case (Cons i "is")
  from Cons.prems obtain r1 p w where p: "open_port os (sk_ports s ! i) (sk_world s) = Some (r1, p, w)"
    by (auto simp: bind_eq_Some_conv)
  define s1 where "s1 = (in_world w s)\<lparr>sk_ports := (sk_ports s)[i := p]\<rparr>"
  show ?case
  proof (cases r1)
    case (Inl e)
    with Cons.prems p obtain s2 where s2: "close_fds os s1 = Some s2" "r = Inl e" "s' = s2"
      by (auto simp: bind_eq_Some_conv s1_def Let_def)
    then show ?thesis using close_fds_Some(1)[OF s2(1)] by (cases s2; cases s; simp add: s1_def in_world_def)
  next
    case (Inr u)
    define s2 where "s2 = in_world (so_set_options os (po_fd p) (sc_data (sk_config s1)) (sk_world s1)) s1"
    have "open_loop os is s2 = Some (r, s')" using Cons.prems p Inr by (simp add: s1_def s2_def Let_def)
    note ih = Cons.IH[OF this]
    have fd: "0 \<le> po_fd p" using open_port_Some[OF assms(1) p] Inr by simp
    have "0 \<le> po_fd ((sk_ports s)[i := p] ! j)" if "j < length (sk_ports s)" "j = i \<or> 0 \<le> po_fd (sk_ports s ! j)" for j
      using fd that by (cases "i = j") auto
    then show ?thesis using ih by (auto simp: s2_def s1_def)
  qed
qed simp

lemma open_fds_Some:
  assumes "fds_nonneg os" "open_fds os s = Some (r, s')"
  shows "sk_after (f, s) (f, s')" "sk_owner s' = sk_owner s" "r = Inr u \<Longrightarrow> ports_open s'"
proof -
  note l = open_loop_Some[OF assms(1) assms(2)[unfolded open_fds_def]]
  show "sk_owner s' = sk_owner s" using l by simp
  show "ports_open s'" if "r = Inr u" using l that by (auto simp: ports_open_def in_set_conv_nth)
  show "sk_after (f, s) (f, s')" unfolding sk_after_def fst_conv snd_conv
    by (intro conjI exI[of _ "[]"] exI[of _ "ue_limits f"]) (use l in auto)
qed

lemma start_chown_moves:
  assumes "fds_nonneg os" "sk_enter_start_chown os (f, s) = Some x'" "sk_owner s \<noteq> None"
  shows "sk_moves (f, s) x'"
proof -
  from assms(2) obtain r s1 where r: "open_fds os s = Some (r, s1)"
    and x': "(case r of Inr _ \<Rightarrow> sk_enter_start_post os (f, s1) | Inl _ \<Rightarrow> sk_enter_stop_pre os FailureResources (f, s1)) = Some x'"
    by (auto simp: sk_enter_start_chown_def bind_eq_Some_conv)
  note o = open_fds_Some[OF assms(1) r]
  have "sk_moves (f, s1) x'"
    using x' o(2,3) assms(3) by (cases r) (auto intro: start_post_moves stop_pre_moves)
  with o(1)[of f] show ?thesis by (rule sk_moves_after)
qed

lemma start_pre_moves:
  assumes "fds_nonneg os" "sk_enter_start_pre os (f, s) = Some x'" "sk_owner s \<noteq> None"
  shows "sk_moves (f, s) x'"
proof -
  obtain r s1 where r: "run_control os SockCmdStartPre (sk_unwatch_control os s) = (r, s1)" by fastforce
  have keep: "sk_keeps s s1" using sk_keeps_trans[OF sk_keeps_simps(2) run_control_keeps(1)[OF r]] .
  then have own: "sk_owner s1 \<noteq> None" using assms(3) by (simp add: keeps_owner)
  have "sk_moves (f, s1) x'"
    using assms(2) r own by (auto simp: sk_enter_start_pre_def split: option.splits bool.splits
      intro: start_chown_moves[OF assms(1)] enter_dead_moves pause_moves[where st = SocketStartPre])
  then show ?thesis using keep sk_moves_keeps by blast
qed

lemma sound_keeps:
  "sock_sound s \<Longrightarrow> sk_keeps s s' \<Longrightarrow> sk_control s' = sk_control s \<Longrightarrow> sk_control_command s' = sk_control_command s \<Longrightarrow>
   sk_result s' = sk_result s \<Longrightarrow> sock_sound s'"
  unfolding sock_sound_def sk_keeps_def ports_open_def token_on_def token_quiet_def by simp

lemma flush_ports_sound:
  assumes "flush_ports os s = Some s'" "sock_sound s"
  shows "sk_moves (f, s) (f, s')"
proof -
  have "sk_control s' = sk_control s \<and> sk_result s' = sk_result s"
    using assms(1) unfolding flush_ports_def
    by (rule for_each_inv[where I = "\<lambda>s1. sk_control s1 = sk_control s \<and> sk_result s1 = sk_result s"]) (auto simp: bind_eq_Some_conv)
  then show ?thesis using flush_ports_keeps[OF assms(1)] sound_keeps[OF assms(2)] by (simp add: sk_moves_def sk_after_keeps)
qed

lemma enter_running_moves:
  assumes "sk_enter_running os fd (f, s) = Some x'" "sk_owner s \<noteq> None" "sock_sound s" "sk_state s = SocketListening"
  shows "sk_moves (f, s) x'"
proof -
  have open_s: "ports_open s" "sk_control_command s = []" using assms(3,4) by (simp_all add: sock_sound_def)
  from assms(2) obtain u where u: "sk_owner s = Some u" by blast
  show ?thesis
  proof (cases "so_has_stop_job os u (sk_world s)")
    case True
    have "sk_keeps s (s\<lparr>sk_refused := sk_refused s + 1\<rparr>)" by (simp add: sk_keeps_def)
    then have "sk_moves (f, s) (f, s\<lparr>sk_refused := sk_refused s + 1\<rparr>)"
      using sound_keeps[OF assms(3)] by (simp add: sk_moves_def sk_after_keeps)
    then show ?thesis using assms(1) u True flush_ports_sound[OF _ assms(3)] by (auto simp: sk_enter_running_def split: if_splits)
  next
    case False
    have run: "sk_moves (f, s1) x'" if "sk_set_state os SocketRunning (f, s1) = Some x'" "sk_owner s1 \<noteq> None" "ports_open s1"
      "sk_control_command s1 = []" for s1
      using that(1) by (rule set_state_moves) (use that in \<open>auto simp: visited_sock_def\<close>)
    have fd: "fd < 0" using assms(1) u False by (auto simp: sk_enter_running_def split: if_splits)
    show ?thesis
    proof (cases "so_relation_active_or_pending os u (sk_world s) \<or> sc_target (sk_config s) = None")
      case True
      then show ?thesis using assms(1,2) u False fd open_s run[of s]
        by (auto simp: sk_enter_running_def intro: stop_pre_moves split: if_splits)
    next
      case False2: False
      then obtain service where svc: "sc_target (sk_config s) = Some service" by blast
      obtain r w where rw: "so_start_unit os service (sk_world s) = (r, w)" by fastforce
      define s1 where "s1 = (in_world w s)\<lparr>sk_re := socket_set_last_frame (FdListen True) (socket_set_last_frame (FdListen False) (sk_re s))\<rparr>"
      have keep: "sk_keeps s s1" by (simp add: s1_def sk_keeps_def)
      have own: "sk_owner s1 \<noteq> None" "ports_open s1" "sk_control_command s1 = []"
        using assms(2) open_s keep by (simp_all add: keeps_owner keeps_open) (simp add: s1_def)
      have "sk_moves (f, s1) x'"
        using assms(1) u False False2 svc rw fd own run[of s1]
        by (auto simp: sk_enter_running_def s1_def[symmetric] Let_def split: sum.split_asm intro: stop_pre_moves)
      then show ?thesis using keep sk_moves_keeps by blast
    qed
  qed
qed

subsection \<open>The steps of a socket\<close>

lemma sk_moves_refl: "sock_sound s \<Longrightarrow> sk_moves (f, s) (f\<lparr>ue_limits := l\<rparr>, s)"
  by (simp add: sk_moves_def sk_after_limits)

lemma db_insert_moves:
  assumes "sk_moves x x'"
  shows "sk_moves x (map_prod id sk_db_insert x')"
proof (cases x')
  case (Pair f s)
  have "sock_sound (sk_db_insert s)"
    by (rule sound_keeps[OF _ sk_keeps_simps(5)]) (use assms Pair in \<open>auto simp: sk_moves_def sk_db_insert_def split: option.splits\<close>)
  with assms Pair show ?thesis by (auto simp: sk_moves_def intro: sk_after_trans sk_after_keeps[OF sk_keeps_simps(5)])
qed

lemma limit_moves:
  assumes "sk_moves (f\<lparr>ue_limits := l\<rparr>, s) x'"
  shows "sk_moves (f, s) x'"
  using sk_after_limits[OF sk_keeps_refl] assms by (rule sk_moves_after)

lemma start_moves:
  assumes "fds_nonneg os" "socket_start os (f, s) = Some (r, x')" "sk_owner s \<noteq> None" "sock_sound s"
  shows "sk_moves (f, s) x'"
proof -
  from assms(2) obtain c x1 where c: "sk_start_check os (f, s) = Some (c, x1)"
    and x': "(case c of Inl e \<Rightarrow> Some (Inl e, x1) | Inr True \<Rightarrow> Some (Inr (), x1)
      | Inr False \<Rightarrow> map_option (Pair (Inr ())) (sk_start_action os x1)) = Some (r, x')"
    by (auto simp: socket_start_def bind_eq_Some_conv)
  obtain ok l where l: "test_start_limit f = (ok, f\<lparr>ue_limits := l\<rparr>)" by (cases "limit_test (ue_id f) (StartLimitInterval (ue_config f)) (StartLimitBurst (ue_config f)) (ue_limits f)")
      (simp add: test_start_limit_def)
  have here: "sk_moves (f, s) (f, s)" using sk_moves_refl[OF assms(4), of f "ue_limits f"] by simp
  from c l assms(3) consider "x1 = (f, s)" "c \<noteq> Inr False" | e where "sk_enter_dead os FailureStartLimitHit (f\<lparr>ue_limits := l\<rparr>, s) = Some x1" "c = Inl e"
    | "x1 = (f\<lparr>ue_limits := l\<rparr>, s)" "c = Inr False"
    by (auto simp: sk_start_check_def split: if_split_asm sum.split_asm option.split_asm)
  then show ?thesis
  proof cases
    case 1
    then show ?thesis using x' here by (auto split: sum.split_asm bool.split_asm)
  next
    case 2
    then show ?thesis using x' limit_moves[OF enter_dead_moves[OF _ assms(3)]] by auto
  next
    case 3
    with x' obtain y where "sk_enter_start_pre os (f\<lparr>ue_limits := l\<rparr>, s) = Some y" "x' = map_prod id sk_db_insert y"
      by (auto simp: sk_start_action_def)
    then show ?thesis using db_insert_moves[OF limit_moves[OF start_pre_moves[OF assms(1) _ assms(3)]]] by blast
  qed
qed

lemma stop_moves:
  assumes "socket_stop os forced (f, s) = Some (r, x')" "sk_owner s \<noteq> None" "sock_sound s"
  shows "sk_moves (f, s) x'"
proof -
  from assms(1) obtain c x1 where c: "(if forced then Some (Inr False, f, s) else sk_stop_check os (f, s)) = Some (c, x1)"
    and x': "(case c of Inl e \<Rightarrow> Some (Inl e, x1) | Inr True \<Rightarrow> Some (Inr (), x1)
      | Inr False \<Rightarrow> map_option (Pair (Inr ())) (sk_stop_action os x1)) = Some (r, x')"
    by (auto simp: socket_stop_def bind_eq_Some_conv split del: if_split)
  have here: "sk_moves (f, s) (f, s)" using sk_moves_refl[OF assms(3), of f "ue_limits f"] by simp
  from c consider "x1 = (f, s)" | e where "sk_enter_signal os SocketStopPreSigterm SocketSuccess (f, s) = Some x1" "c = Inl e"
    by (auto simp: sk_stop_check_def split: if_split_asm)
  then show ?thesis
  proof cases
    case 1
    then consider "x' = (f, s)" | y where "sk_enter_stop_pre os SocketSuccess (f, s) = Some y" "x' = map_prod id sk_db_insert y"
      using x' by (auto simp: sk_stop_action_def split: sum.split_asm bool.split_asm)
    then show ?thesis using here db_insert_moves[OF stop_pre_moves[OF _ assms(2)]] by cases auto
  next
    case 2
    then show ?thesis using x' enter_signal_moves[OF _ assms(2)] by auto
  qed
qed

lemma run_next_moves:
  assumes "sock_sound s" "sk_control_command s \<noteq> []"
  shows "sk_moves (f, s) (f, sk_run_next os s)"
proof -
  obtain c s1 where c: "sk_command_pop s = (Some c, s1)" using assms(2) by (cases "sk_control_command s") (auto simp: sk_command_pop_def)
  obtain r s2 where r: "start_socket os c s1 = (r, s2)" by fastforce
  have keep: "sk_keeps s s2" using command_pop_keeps[OF c] start_socket_keeps[OF r] sk_keeps_trans by blast
  have res: "sk_result s1 = sk_result s" using c by (auto simp: sk_command_pop_def split: list.splits)
  then have "sk_result s2 = sk_result s" using r by (auto simp: start_socket_def split: option.splits prod.splits sum.splits)
  then have "sk_keeps s (sk_run_next os s)" "sk_result (sk_run_next os s) = sk_result s"
    using c r keep by (simp_all add: sk_run_next_def split: sum.split)
  moreover have "sk_state s \<notin> {SocketListening, SocketRunning}" using assms by (auto simp: sock_sound_def)
  ultimately have "sock_sound (sk_run_next os s)"
    using assms(1) unfolding sock_sound_def sk_keeps_def ports_open_def token_on_def token_quiet_def by simp
  then show ?thesis using \<open>sk_keeps s (sk_run_next os s)\<close> by (simp add: sk_moves_def sk_after_keeps)
qed

lemma control_gone_moves:
  assumes "fds_nonneg os" "sk_control_gone os res (f, s) = Some x'" "sk_owner s \<noteq> None" "sock_sound s"
    and "res = SocketSuccess \<Longrightarrow> sk_control_command s = []"
  shows "sk_moves (f, s) x'"
proof -
  have vis: "sk_state s \<in> visited_sock" "sk_state s = SocketStartPost \<Longrightarrow> ports_open s" using assms(4) by (simp_all add: sock_sound_def)
  then consider "sk_state s = SocketStartPre" | "sk_state s = SocketStartPost" | "sk_state s = SocketStopPre" | "sk_state s = SocketStopPost"
    using assms(2) by (auto simp: sk_control_gone_def visited_sock_def)
  then show ?thesis
  proof cases
    case 1
    then show ?thesis using assms(2) start_chown_moves[OF assms(1) _ assms(3)] enter_signal_moves[OF _ assms(3)]
      by (simp add: sk_control_gone_def split: if_split_asm)
  next
    case 2
    then show ?thesis using assms(2,5) enter_listening_moves[OF _ assms(3) vis(2)[OF 2]] stop_pre_moves[OF _ assms(3)]
      by (simp add: sk_control_gone_def split: if_split_asm)
  next
    case 3
    then show ?thesis using assms(2) stop_post_moves[OF _ assms(3)] by (simp add: sk_control_gone_def)
  next
    case 4
    then show ?thesis using assms(2) enter_dead_moves[OF _ assms(3)] by (simp add: sk_control_gone_def)
  qed
qed

lemma sigchld_moves:
  assumes "fds_nonneg os" "socket_sigchld os ws (f, s) = Some x'" "sk_owner s \<noteq> None" "sock_sound s"
  shows "sk_moves (f, s) x'"
proof -
  from assms(2) obtain res x1 where x1: "(if sk_control_command s \<noteq> [] \<and> res = SocketSuccess then Some (f, sk_run_next os s)
      else sk_control_gone os res (f, s)) = Some x1" and x': "x' = map_prod id sk_db_insert x1"
    unfolding socket_sigchld_def bind_eq_Some_conv fst_conv snd_conv by blast
  have "sk_moves (f, s) x1"
  proof (cases "sk_control_command s \<noteq> [] \<and> res = SocketSuccess")
    case True
    with x1 run_next_moves[OF assms(4)] show ?thesis by auto
  next
    case False
    then show ?thesis using x1 by (intro control_gone_moves[OF assms(1) _ assms(3,4)]) auto
  qed
  then show ?thesis unfolding x' by (rule db_insert_moves)
qed

lemma dispatch_io_moves:
  assumes "dispatch_io os p (f, s) = Some (r, x')" "sk_owner s \<noteq> None" "sock_sound s"
  shows "sk_moves (f, s) x'"
proof -
  have here: "sk_moves (f, s) (f, in_world w s)" for w
    using sound_keeps[OF assms(3) sk_keeps_simps(1)] by (simp add: sk_moves_def sk_after_keeps)
  have run: "sk_moves (f, s) (map_prod id sk_db_insert x1)"
    if "sk_enter_running os (- 1) (f, in_world w s) = Some x1" "sk_state s = SocketListening" for w x1
    using sk_moves_keeps[OF sk_keeps_simps(1) enter_running_moves[OF that(1)]] sound_keeps[OF assms(3) sk_keeps_simps(1)] that(2) assms(2)
    by (auto intro: db_insert_moves)
  have same: "in_world (sk_world s) s = s" by (simp add: in_world_def)
  show ?thesis using assms(1) here here[of "sk_world s", unfolded same] run run[of "sk_world s", unfolded same]
    by (auto simp: dispatch_io_def bind_eq_Some_conv same split: if_split_asm prod.split_asm bool.split_asm sum.split_asm)
qed

lemma port_dispatch_moves:
  assumes "port_dispatch os p (f, s) = Some (v, x')" "sk_owner s \<noteq> None" "sock_sound s"
  shows "sk_moves (f, s) x'"
proof -
  define s0 where "s0 = s\<lparr>sk_re := socket_set_last_frame (FdListen True) (sk_re s)\<rparr>"
  from assms(1) obtain r f1 s1 where d: "dispatch_io os p (f, s0) = Some (r, f1, s1)"
    and x': "x' = (f1, s1\<lparr>sk_re := socket_clear_last_frame (sk_re s1)\<rparr>)"
    by (auto simp: port_dispatch_def bind_eq_Some_conv s0_def)
  have re: "sk_keeps s (s\<lparr>sk_re := re\<rparr>)" for s :: "('a, 'b) socket_mng" and re by (simp add: sk_keeps_def)
  have s0: "sk_keeps s s0" "sock_sound s0" using re sound_keeps[OF assms(3) re] by (simp_all add: s0_def)
  have "sk_moves (f, s) (f1, s1)"
    using sk_moves_keeps[OF s0(1) dispatch_io_moves[OF d _ s0(2)]] assms(2) keeps_owner[OF s0(1)] by simp
  then show ?thesis using x' sound_keeps[OF _ re, of s1] sk_after_trans[OF _ sk_after_keeps[OF re], of "(f, s)" f1 s1]
    by (simp add: sk_moves_def)
qed

lemma sock_step_moves:
  assumes "sock_step os x x'" "fds_nonneg os" "sk_owner (snd x) \<noteq> None" "sock_sound (snd x)"
  shows "sk_moves x x'"
  using assms
proof (cases rule: sock_step.cases)
  case (sock_env f s l w)
  have "sock_sound (in_world w s)" using assms(4) sock_env(1) by (auto intro: sound_keeps[OF _ sk_keeps_simps(1)])
  then show ?thesis using sock_env sk_after_limits[OF sk_keeps_simps(1)] by (simp add: sk_moves_def)
qed (cases x; auto intro: start_moves stop_moves sigchld_moves port_dispatch_moves)+

text \<open>A socket whose ports are configured and not yet open.\<close>

definition sock_fresh :: "('d, 'w) socket_mng \<Rightarrow> bool" where
  "sock_fresh s \<longleftrightarrow> sk_owner s \<noteq> None \<and> sk_state s = SocketStateMax \<and> sk_result s = SocketSuccess \<and> sk_control_cmd_type s = None \<and>
     (\<forall>p \<in> set (sk_ports s). po_fd p < 0 \<and> map_of (ed_state (sk_events s)) (po_token p) = None)"

lemma fresh_sound: "sock_fresh s \<Longrightarrow> sock_sound s"
  by (auto simp: sock_fresh_def sock_sound_def visited_sock_def token_quiet_def)

lemma sock_steps_moves:
  assumes "(sock_step os)\<^sup>*\<^sup>* x x'" "fds_nonneg os" "sk_owner (snd x) \<noteq> None" "sock_sound (snd x)"
  shows "sk_moves x x'"
  using assms(1)
proof (induction rule: rtranclp_induct)
  case base
  show ?case using assms(4) sk_moves_refl[of "snd x" "fst x" "ue_limits (fst x)"] by simp
next
  case (step y z)
  then have "sk_owner (snd y) \<noteq> None" "sock_sound (snd y)" using assms(3) by (auto simp: sk_moves_def sk_after_def)
  from sock_step_moves[OF step(2) assms(2) this] step.IH show ?case by (auto simp: sk_moves_def intro: sk_after_trans)
qed

lemma fresh_moves:
  assumes "(sock_step os)\<^sup>*\<^sup>* x x'" "fds_nonneg os" "sock_fresh (snd x)"
  shows "sk_moves x x'"
  using sock_steps_moves[OF assms(1,2) _ fresh_sound[OF assms(3)]] assms(3) by (simp add: sock_fresh_def)

end
