(* ===== verification/Socket_Claims.thy ===== *)
theory Socket_Claims
  imports Socket_Thms Unit_Claims
begin

section \<open>Properties of sockets\<close>

text \<open>
  What holds of every socket in operation, and what a socket gets wrong. \<open>ex_sock_os\<close> is a kernel
  with one listening descriptor, 3; its world says whether that descriptor is closed.
\<close>

definition ex_sock_os :: "bool socket_os" where
  "ex_sock_os = \<lparr>
     so_events = \<lparr>eo_epoll_add = (\<lambda>fd t w. (if w then Inl (EventSyscall 9) else Inr (), w)), eo_epoll_del = (\<lambda>fd w. (Inr (), w)),
       eo_epoll_wait = (\<lambda>n t w. (Inr [], w)), eo_signalfd = (\<lambda>s w. (7, w)), eo_pidfd_open = (\<lambda>p w. (8, w)),
       eo_timerfd_create = (\<lambda>c w. (9, w)), eo_timerfd_settime = (\<lambda>fd t w. w), eo_timerfd_read = (\<lambda>fd w. (True, w)),
       eo_clock = (\<lambda>c w. ((0, 0), w))\<rparr>,
     so_kill = \<lparr>ko_kill = (\<lambda>p s w. (True, w)), ko_cg_kill = (\<lambda>c s p w. (True, w)), ko_cg_pids = (\<lambda>c w. []), ko_ppid = (\<lambda>p w. None),
       ko_getppid = 1\<rparr>,
     so_addr = \<lparr>al_unix = (\<lambda>s. Some (UnixPath s)), al_abstract = (\<lambda>s. None), al_parse = (\<lambda>s. None), al_ipv6 = False\<rparr>,
     so_socket = (\<lambda>a w. (Inr 3, False)), so_reuse_addr = (\<lambda>fd w. (Inr (), w)), so_create_parent = (\<lambda>p w. (True, w)),
     so_bind = (\<lambda>fd a w. (Inr (), w)), so_listen = (\<lambda>fd n w. (Inr (), w)), so_unlink = (\<lambda>p w. w),
     so_accept = (\<lambda>fd w. (if w then Inl EBADF else Inr 5, w)), so_close = (\<lambda>fd w. True), so_cloexec = (\<lambda>fd b w. (Inr (), w)),
     so_accept_conn = (\<lambda>fd w. Some True), so_ppoll_in = (\<lambda>fd w. (Inr (1, w), w)), so_read = (\<lambda>fd w. (Inl EBADF, w)),
     so_set_options = (\<lambda>fd c w. w), so_fd_take = (\<lambda>fd w. w), so_spawn = (\<lambda>u c w. (Inr 100, w)), so_watch_pid = (\<lambda>u p w. w),
     so_unwatch_pid = (\<lambda>u p w. w), so_unit_enabled = (\<lambda>u w. Inr ()), so_has_stop_job = (\<lambda>u w. False),
     so_relation_active_or_pending = (\<lambda>u w. False), so_start_unit = (\<lambda>u w. (Inr (), w)), so_load_unit_success = (\<lambda>u w. (True, w)),
     so_add_dependency = (\<lambda>u r v b k w. (Inr (), w)), so_add_two_dependency = (\<lambda>u r q v b k w. (Inr (), w)),
     so_confique = (\<lambda>p. None), so_signal_from_str = (\<lambda>s. Some 15)\<rparr>"

definition ex_port :: socket_port where
  "ex_port = socket_port_new 1 \<lparr>pc_type = PortSocket, pc_sa = \<lparr>sa_addr = Inet ''0.0.0.0'' 80, sa_type = Stream, sa_protocol = None\<rparr>,
     pc_listen = ''80''\<rparr>"

definition ex_socket :: "bool \<Rightarrow> (nat, bool) socket_mng" where
  "ex_socket acc = (socket_mng_new 15 \<lparr>sr_conf = redb_new 0, sr_mng = redb_new 0, sr_frame = redb_new 0\<rparr> (events_new 6 False))
     \<lparr>sk_owner := Some ''a.socket'', sk_config := (socket_config_new 15)\<lparr>sc_target := Some ''a.service'',
        sc_data := section_socket_default\<lparr>Accept := acc\<rparr>\<rparr>, sk_ports := [ex_port]\<rparr>"

definition ex_sock_run :: "(nat, bool) sock_run" where
  "ex_sock_run = (ex_frame ''a.socket'' ue_config_unit_default, ex_socket True)"

lemma ex_nonneg: "fds_nonneg ex_sock_os"
  by (simp add: fds_nonneg_def ex_sock_os_def)

lemma ex_fresh: "sock_fresh (snd ex_sock_run)"
  by (simp add: sock_fresh_def ex_sock_run_def ex_socket_def socket_mng_new_def events_new_def ex_port_def socket_port_new_def)

lemma ex_runs: "case socket_start ex_sock_os ex_sock_run of Some (_, x1) \<Rightarrow>
    sk_state (snd x1) = SocketListening \<and> sk_ports (snd x1) = [ex_port\<lparr>po_fd := 3\<rparr>] \<and>
    (case port_dispatch ex_sock_os (ex_port\<lparr>po_fd := 3\<rparr>) x1 of Some (_, x2) \<Rightarrow> sk_state (snd x2) = SocketRunning | None \<Rightarrow> False) | None \<Rightarrow> False"
  by code_simp



text \<open>a failure of a socket sticks. The result is never reset, so once a start has failed every
  later end of the socket is a failure: \<open>reset_result\<close> is missing, and a socket that was started
  again and stopped cleanly still ends in \<open>Failed\<close>.\<close>

theorem socket_failure_sticks:
  assumes "fds_nonneg os" and "sock_fresh (snd x)" and "(sock_step os)\<^sup>*\<^sup>* x y" and "sk_result (snd y) \<noteq> SocketSuccess"
    and "(sock_step os)\<^sup>*\<^sup>* y z"
  shows "sk_result (snd z) = sk_result (snd y) \<and> sk_state (snd z) \<noteq> SocketDead"
proof -
  note y = fresh_moves[OF assms(3,1,2)]
  have "sk_moves y z"
    using sock_steps_moves[OF assms(5,1)] y assms(2) by (auto simp: sk_moves_def sk_after_def sock_fresh_def)
  then show ?thesis using assms(4) by (auto simp: sk_moves_def sk_after_def sock_sound_def)
qed

text \<open>A socket whose address is in use, started and then stopped.\<close>

definition ex_bad_os :: "bool socket_os" where
  "ex_bad_os = ex_sock_os\<lparr>so_bind := \<lambda>fd a w. (Inl EADDRINUSE, w)\<rparr>"

lemma ex_bad_runs: "case socket_start ex_bad_os ex_sock_run of Some (_, x1) \<Rightarrow> sk_result (snd x1) = FailureResources \<and>
    (case socket_stop ex_bad_os False x1 of Some (_, x2) \<Rightarrow> sk_state (snd x2) = SocketFailed | None \<Rightarrow> False) | None \<Rightarrow> False"
  by code_simp

theorem socket_failure_sticks_witness:
  "\<exists>x1 x2. (sock_step ex_bad_os)\<^sup>*\<^sup>* ex_sock_run x1 \<and> (sock_step ex_bad_os)\<^sup>*\<^sup>* x1 x2 \<and> sk_result (snd x1) = FailureResources \<and>
     sk_result (snd x2) = FailureResources \<and> sk_state (snd x2) \<noteq> SocketDead"
proof -
  from ex_bad_runs obtain r1 x1 r2 x2 where x: "socket_start ex_bad_os ex_sock_run = Some (r1, x1)"
    "sk_result (snd x1) = FailureResources" "socket_stop ex_bad_os False x1 = Some (r2, x2)"
    by (auto split: option.splits)
  have to1: "(sock_step ex_bad_os)\<^sup>*\<^sup>* ex_sock_run x1" using sock_start[OF x(1)] by simp
  have to2: "(sock_step ex_bad_os)\<^sup>*\<^sup>* x1 x2" using sock_stop[OF x(3)] by simp
  have "fds_nonneg ex_bad_os" using ex_nonneg by (simp add: fds_nonneg_def ex_bad_os_def)
  from socket_failure_sticks[OF this ex_fresh to1 _ to2] x(2)
  have "sk_result (snd x2) = FailureResources \<and> sk_state (snd x2) \<noteq> SocketDead" by simp
  with x(2) to1 to2 show ?thesis by blast
qed

text \<open>C36: a client that connects too early takes the manager down. With \<open>Accept=no\<close> the connections
  that wait on a port are flushed before the socket listens; \<open>flush_accept\<close> accepts one and then
  closes the descriptor of the port instead of the connection. Watching the closed descriptor
  fails, and the result is unwrapped. (\<open>closed\<close> is any property of the world that says that the
  descriptor is closed: \<open>ppoll\<close> calls it invalid then, and \<open>epoll\<close> refuses it.)\<close>

theorem socket_early_client_panics:
  assumes "sk_state s = SocketStartPost" "sk_control_command s = []" "\<not> Accept (sc_data (sk_config s))"
    and "sk_ports s = [p]" "0 \<le> po_fd p"
    and client: "so_accept_conn os (po_fd p) (sk_world s) = Some True" "so_ppoll_in os (po_fd p) (sk_world s) = (Inr (1, False), w1)"
      "so_accept os (po_fd p) w1 = (Inr c, w2)"
    and closes: "closed (so_close os (po_fd p) w2)"
    and closed: "\<And>w. closed w \<Longrightarrow> \<exists>w'. so_ppoll_in os (po_fd p) w = (Inr (1, True), w') \<and> closed w'"
      "\<And>w t. closed w \<Longrightarrow> \<exists>e w'. eo_epoll_add (so_events os) (po_fd p) t w = (Inl e, w')"
  shows "socket_sigchld os (WExited pid 0) (f, s) = None"
proof -
  let ?fd = "po_fd p"
  have first: "poll_again os ?fd (sk_world s) = Some (True, w1)"
    using client(2) by (simp add: poll_again.simps wait_for_events_def)
  let ?w = "so_close os ?fd w2"
  from closed(1)[OF closes] obtain w3 where w3: "so_ppoll_in os ?fd ?w = (Inr (1, True), w3)" "closed w3" by blast
  then have second: "poll_again os ?fd ?w = Some (False, w3)" by (simp add: poll_again.simps wait_for_events_def)
  have rounds: "(1023::nat) = Suc (Suc 1021)" by simp
  have two: "flush_rounds (Suc (Suc m)) os ?fd (sk_world s) = Some w3" for m
    using first client(3) second by simp
  have "flush_rounds 1023 os ?fd (sk_world s) = Some w3" unfolding rounds by (rule two)
  then have acc: "flush_accept os p (sk_world s) = Some w3" using client(1) by (simp add: flush_accept_def)
  from closed(1)[OF w3(2)] obtain w4 where w4: "so_ppoll_in os ?fd w3 = (Inr (1, True), w4)" "closed w4" by blast
  then have "flush_fd os ?fd w3 = Some w4" by (simp add: flush_fd.simps wait_for_events_def)
  with acc have flush: "flush_ports os s = Some (in_world w4 s)" by (simp add: flush_ports_def assms(4))
  have on: "\<exists>e ev'. set_enabled (so_events os) (port_source p) EventOn ev = Some (Inl e, ev')" if "closed (ed_world ev)" for ev
    using closed(2)[OF that, of "po_token p"]
    by (auto simp: set_enabled_def source_online_def epoll_register_def split: prod.splits)
  let ?s = "in_world w4 s"
  obtain ev1 where ev1: "add_source (port_source p) (sk_events ?s) = Some (Inr (), ev1)" "ed_world ev1 = w4"
    by (simp add: add_source_def)
  from on[of ev1] ev1(2) w4(2) obtain e ev2 where "set_enabled (so_events os) (port_source p) EventOn ev1 = Some (Inl e, ev2)" by blast
  then have "watch_fds os ?s = None"
    using ev1(1) assms(4,5) by (simp add: watch_fds_def watch_one_def ev_unwrap_def)
  then have "sk_enter_listening os (f, s) = None" using flush assms(3) by (simp add: sk_enter_listening_def)
  then show ?thesis using assms(1,2) by (simp add: socket_sigchld_def sk_control_gone_def)
qed

theorem socket_early_client_panics_witness:
  "socket_sigchld ex_sock_os (WExited 100 0) (ex_frame ''a.socket'' ue_config_unit_default,
     (ex_socket False)\<lparr>sk_state := SocketStartPost, sk_ports := [ex_port\<lparr>po_fd := 3\<rparr>]\<rparr>) = None"
  by (rule socket_early_client_panics[where closed = "\<lambda>w. w" and p = "ex_port\<lparr>po_fd := 3\<rparr>" and c = 5 and ?w1.0 = False
      and ?w2.0 = False])
     (auto simp: ex_sock_os_def ex_socket_def socket_mng_new_def events_new_def)

text \<open>Recovery. \<open>ports_match\<close>: the ports built anew from the configuration are those of the row.\<close>

definition ports_match :: "socket_port list \<Rightarrow> socket_port list \<Rightarrow> bool" where
  "ports_match ps qs \<longleftrightarrow> map po_conf qs = map po_conf ps \<and> distinct (map (\<lambda>p. (pc_type (po_conf p), pc_listen (po_conf p))) ps)"

lemma ports_find_nth:
  assumes "ports_match ps qs" "i < length ps" "map po_conf rs = map po_conf qs"
  shows "ports_find (pc_type (po_conf (ps ! i))) (pc_listen (po_conf (ps ! i))) rs = Some i"
proof -
  let ?key = "\<lambda>p. (pc_type (po_conf p), pc_listen (po_conf p))"
  have eq: "map po_conf rs = map po_conf ps" using assms(1,3) by (simp add: ports_match_def)
  then have len: "length rs = length ps" by (rule map_eq_imp_length_eq)
  have conf: "po_conf (rs ! j) = po_conf (ps ! j)" if "j < length ps" for j
    using arg_cong[OF eq, of "\<lambda>l. l ! j"] that len by simp
  have "distinct (map ?key ps)" using assms(1) by (simp add: ports_match_def)
  then have "j = i" if "j < length ps" "?key (ps ! j) = ?key (ps ! i)" for j
    using that assms(2) nth_eq_iff_index_eq[of "map ?key ps" j i] by simp
  then have only: "?key (rs ! j) = ?key (ps ! i) \<longleftrightarrow> j = i" if "j < length ps" for j
    using conf[OF that] conf[OF assms(2)] that assms(2) by auto
  have "find (\<lambda>j. ?key (rs ! j) = ?key (ps ! i)) [0..<length ps] = Some i"
    unfolding find_Some_iff by (rule exI[of _ i]) (use only assms(2) in auto)
  then show ?thesis by (simp add: ports_find_def len)
qed

lemma map_ports_restores:
  assumes "ports_match ps (sk_ports t)" "n \<le> length ps"
  shows "\<exists>t'. for_each (map_port_fd os) (map (\<lambda>p. (pc_type (po_conf p), pc_listen (po_conf p), po_fd p)) (take n ps)) t = Some t' \<and>
    map po_conf (sk_ports t') = map po_conf ps \<and> (\<forall>i < n. po_fd (sk_ports t' ! i) = po_fd (ps ! i)) \<and>
    sk_state t' = sk_state t \<and> sk_result t' = sk_result t \<and> sk_control t' = sk_control t \<and>
    sk_control_command t' = sk_control_command t \<and> sk_refused t' = sk_refused t"
  using assms(2)
proof (induction n)
  case 0
  then show ?case using assms(1) by (simp add: ports_match_def)
next
  case (Suc n)
  let ?row = "\<lambda>p. (pc_type (po_conf p), pc_listen (po_conf p), po_fd p)"
  from Suc obtain t' where t': "for_each (map_port_fd os) (map ?row (take n ps)) t = Some t'" "map po_conf (sk_ports t') = map po_conf ps"
    "\<forall>i < n. po_fd (sk_ports t' ! i) = po_fd (ps ! i)" "sk_state t' = sk_state t" "sk_result t' = sk_result t"
    "sk_control t' = sk_control t" "sk_control_command t' = sk_control_command t" "sk_refused t' = sk_refused t" by auto
  have n: "n < length ps" "length (sk_ports t') = length ps" using Suc.prems t'(2) by (auto dest: map_eq_imp_length_eq)
  have "map po_conf (sk_ports t') = map po_conf (sk_ports t)" using t'(2) assms(1) by (simp add: ports_match_def)
  from ports_find_nth[OF assms(1) n(1) this]
  have "map_port_fd os (?row (ps ! n)) t' = Some ((in_world (so_fd_take os (po_fd (ps ! n)) (sk_world t')) t')
      \<lparr>sk_ports := (sk_ports t')[n := (sk_ports t' ! n)\<lparr>po_fd := po_fd (ps ! n)\<rparr>]\<rparr>)"
    by (simp add: map_port_fd_def)
  moreover have "po_conf (sk_ports t' ! n) = po_conf (ps ! n)" using t'(2) n by (metis nth_map)
  ultimately show ?case using t' n
    by (auto simp: take_Suc_conv_app_nth for_each_append map_update list_update_same_conv nth_list_update less_Suc_eq)
qed

text \<open>C29: recovering a socket from its database row. If no control command was pending, the new
  socket has the state, the result, the control process and the descriptors of the old one. If
  one was, the manager panics: \<open>control_cmd_type\<close> is never set, so that the row has commands left
  and no kind, which the recovery asserts not to happen.\<close>

theorem socket_recovery:
  assumes "fds_nonneg os" and "sock_fresh (snd x)" and "(sock_step os)\<^sup>*\<^sup>* x x'" and "sk_owner t = sk_owner (snd x)"
    and "sk_re t = sk_re (sk_db_insert (snd x'))" and "ports_match (sk_ports (snd x')) (sk_ports t)" and "sk_control_command t = []"
    and "\<not> ignore (sr_mng (sk_re (snd x')))"
  shows "if sk_control_command (snd x') \<noteq> [] then sk_data_db_map os t = None
    else (\<exists>t'. sk_data_db_map os t = Some t' \<and> sk_state t' = sk_state (snd x') \<and> sk_result t' = sk_result (snd x') \<and>
      sk_control t' = sk_control (snd x') \<and> sk_control_command t' = [] \<and> sk_refused t' = sk_refused (snd x') \<and>
      map po_conf (sk_ports t') = map po_conf (sk_ports (snd x')) \<and> map po_fd (sk_ports t') = map po_fd (sk_ports (snd x')))"
proof -
  let ?s = "snd x'"
  have moves: "sk_owner ?s = sk_owner (snd x)" "sk_control_cmd_type ?s = None"
    using fresh_moves[OF assms(3,1,2)] assms(2) by (auto simp: sk_moves_def sk_after_def sock_fresh_def)
  from assms(2) obtain u where u: "sk_owner (snd x) = Some u" by (auto simp: sock_fresh_def)
  let ?ports = "map (\<lambda>p. (pc_type (po_conf p), pc_listen (po_conf p), po_fd p)) (sk_ports ?s)"
  have row: "socket_mng_get u (sk_re t) = Some \<lparr>srm_state = sk_state ?s, srm_result = sk_result ?s, srm_control_pid = sk_control ?s,
      srm_control_cmd_type = None, srm_control_cmd_len = length (sk_control_command ?s), srm_refused = sk_refused ?s, srm_ports = ?ports\<rparr>"
    using assms(5,8) moves u by (simp add: sk_db_insert_def socket_mng_get_def socket_mng_insert_def)
  show ?thesis
  proof (cases "sk_control_command ?s = []")
    case False
    then show ?thesis using row assms(4) u by (simp add: sk_data_db_map_def sk_command_update_def)
  next
    case True
    define t1 where "t1 = t\<lparr>sk_state := sk_state ?s, sk_result := sk_result ?s, sk_control := sk_control ?s, sk_refused := sk_refused ?s\<rparr>"
    have m: "ports_match (sk_ports ?s) (sk_ports t1)" using assms(6) by (simp add: t1_def)
    from map_ports_restores[OF m, of "length (sk_ports ?s)" os] obtain t' where t': "for_each (map_port_fd os) ?ports t1 = Some t'"
      "map po_conf (sk_ports t') = map po_conf (sk_ports ?s)" "\<forall>i < length (sk_ports ?s). po_fd (sk_ports t' ! i) = po_fd (sk_ports ?s ! i)"
      "sk_state t' = sk_state t1" "sk_result t' = sk_result t1" "sk_control t' = sk_control t1"
      "sk_control_command t' = sk_control_command t1" "sk_refused t' = sk_refused t1" by auto
    have len: "length (sk_ports ?s) = length (sk_ports t)" using assms(6) by (auto simp: ports_match_def dest: map_eq_imp_length_eq)
    have "sk_data_db_map os t = Some t'"
      using row assms(4) u True t'(1) len by (simp add: sk_data_db_map_def sk_command_update_def sk_map_ports_fd_def t1_def)
    moreover have "map po_fd (sk_ports t') = map po_fd (sk_ports ?s)"
      using t'(2,3) by (auto simp: list_eq_iff_nth_eq dest: map_eq_imp_length_eq)
    ultimately show ?thesis using True t' assms(7) by (auto simp: t1_def)
  qed
qed

lemma ex_starts: "case socket_start ex_sock_os ex_sock_run of Some (_, x1) \<Rightarrow> sk_state (snd x1) = SocketListening \<and>
    sk_ports (snd x1) = [ex_port\<lparr>po_fd := 3\<rparr>] \<and> sk_control_command (snd x1) = [] \<and> \<not> ignore (sr_mng (sk_re (snd x1))) | None \<Rightarrow> False"
  by code_simp

theorem socket_recovery_witness:
  "\<exists>x1 t'. sock_step ex_sock_os ex_sock_run x1 \<and> sk_data_db_map ex_sock_os ((ex_socket True)\<lparr>sk_re := sk_re (sk_db_insert (snd x1))\<rparr>) = Some t' \<and>
     sk_state t' = SocketListening \<and> map po_fd (sk_ports t') = [3]"
proof -
  from ex_starts obtain r1 x1 where x: "socket_start ex_sock_os ex_sock_run = Some (r1, x1)" "sk_state (snd x1) = SocketListening"
    "sk_ports (snd x1) = [ex_port\<lparr>po_fd := 3\<rparr>]" "sk_control_command (snd x1) = []" "\<not> ignore (sr_mng (sk_re (snd x1)))"
    by (auto split: option.splits)
  note st = sock_start[OF x(1)]
  have run: "(sock_step ex_sock_os)\<^sup>*\<^sup>* ex_sock_run x1" using st by simp
  let ?t = "(ex_socket True)\<lparr>sk_re := sk_re (sk_db_insert (snd x1))\<rparr>"
  have m: "ports_match (sk_ports (snd x1)) (sk_ports ?t)" by (simp add: ports_match_def x(3) ex_socket_def ex_port_def socket_port_new_def)
  have t: "sk_owner ?t = sk_owner (snd ex_sock_run)" "sk_control_command ?t = []" by (simp_all add: ex_sock_run_def ex_socket_def socket_mng_new_def)
  have re: "sk_re ?t = sk_re (sk_db_insert (snd x1))" by simp
  have "\<exists>t'. sk_data_db_map ex_sock_os ?t = Some t' \<and> sk_state t' = SocketListening \<and> map po_fd (sk_ports t') = [3]"
    using socket_recovery[OF ex_nonneg ex_fresh run t(1) re m t(2) x(5)] x(2-4) by auto
  then show ?thesis by (intro exI[of _ x1]) (use st in simp)
qed

end
