(* ===== verification/Reliability.thy ===== *)
theory Reliability
  imports Rel_Db Unit_Base
begin

section \<open>The reliability framework (core/lib/rel)\<close>

text \<open>
  What the manager notes down while it works (the unit and the frame it is in, the descriptors that
  must survive), and how it recovers from it after a crash. Databases that hold one value under a
  fixed key are options; \<open>history\<close> is a table of databases and \<open>station\<close> a table of components,
  known by the methods of the traits \<open>ReDbTable\<close> and \<open>ReStation\<close>. A transaction of the database is
  atomic, so a crash falls between two of them.
\<close>

subsection \<open>Switching the framework on (enable.rs)\<close>

type_synonym reli_enable = "bool option"

definition enable_set :: "bool \<Rightarrow> reli_enable \<Rightarrow> reli_enable" where
  "enable_set b e = Some b"

definition enable_get :: "reli_enable \<Rightarrow> bool" where
  "enable_get e = (case e of Some b \<Rightarrow> b | None \<Rightarrow> False)"

subsection \<open>Last words (last.rs)\<close>

type_synonym reli_frame = "u32 \<times> u32 option \<times> u32 option"

record reli_last =
  rl_ignore :: bool
  rl_unit :: "uid option"
  rl_frame :: "reli_frame list option"

definition last_new :: reli_last where
  "last_new = \<lparr>rl_ignore = False, rl_unit = None, rl_frame = None\<rparr>"

definition last_data_clear :: "reli_last \<Rightarrow> reli_last" where
  "last_data_clear l = l\<lparr>rl_unit := None, rl_frame := None\<rparr>"

definition last_ignore_set :: "bool \<Rightarrow> reli_last \<Rightarrow> reli_last" where
  "last_ignore_set b l = l\<lparr>rl_ignore := b\<rparr>"

definition last_set_unit :: "uid \<Rightarrow> reli_last \<Rightarrow> reli_last" where
  "last_set_unit u l = (if rl_ignore l then l else l\<lparr>rl_unit := Some u\<rparr>)"

definition last_clear_unit :: "reli_last \<Rightarrow> reli_last" where
  "last_clear_unit l = (if rl_ignore l then l else l\<lparr>rl_unit := None\<rparr>)"

definition frames :: "reli_last \<Rightarrow> reli_frame list" where
  "frames l = (case rl_frame l of Some fs \<Rightarrow> fs | None \<Rightarrow> [])"

definition last_set_frame :: "reli_frame \<Rightarrow> reli_last \<Rightarrow> reli_last" where
  "last_set_frame f l = (if rl_ignore l then l else l\<lparr>rl_frame := Some (frames l @ [f])\<rparr>)"

definition last_clear_frame :: "reli_last \<Rightarrow> reli_last" where
  "last_clear_frame l = (if rl_ignore l then l else l\<lparr>rl_frame := Some (butlast (frames l))\<rparr>)"

definition last_frame_get :: "reli_last \<Rightarrow> reli_frame option" where
  "last_frame_get l = (if frames l = [] then None else Some (last (frames l)))"

lemmas last_defs = last_new_def last_data_clear_def last_ignore_set_def last_set_unit_def last_clear_unit_def
  last_set_frame_def last_clear_frame_def last_frame_get_def frames_def

text \<open>The calls by which the components change the last words.\<close>

inductive last_api :: "reli_last \<Rightarrow> reli_last \<Rightarrow> bool" where
  "last_api l (last_set_unit u l)"
| "last_api l (last_clear_unit l)"
| "last_api l (last_set_frame f l)"
| "last_api l (last_clear_frame l)"

inductive_cases last_apiE: "last_api l l'"

lemma last_api_ignored: "last_api\<^sup>*\<^sup>* l l' \<Longrightarrow> rl_ignore l \<Longrightarrow> l' = l"
  by (induction rule: rtranclp_induct) (auto elim!: last_apiE simp: last_defs)

subsection \<open>Descriptors that survive (pending.rs, utils/fd.rs)\<close>

text \<open>\<open>rp_fds\<close> is the kernel's table of the open descriptors of the process, with their close-on-exec
  flags. An operation yields its answer (\<open>None\<close> for a panic) and the states it goes through, the
  last one first: a crash may stop it in any of them.\<close>

datatype reli_pstate = Retaining | Retained | Removing | Removed

record reli_pending =
  rp_db :: "(int \<times> reli_pstate) list"
  rp_fds :: "int \<rightharpoonup> bool"

type_synonym pending_run = "(error + unit) option \<times> reli_pending list"

definition fd_add :: "int \<Rightarrow> reli_pstate \<Rightarrow> reli_pending \<Rightarrow> reli_pending" where
  "fd_add fd st p = p\<lparr>rp_db := AList.update fd st (rp_db p)\<rparr>"

definition fd_del :: "int \<Rightarrow> reli_pending \<Rightarrow> reli_pending" where
  "fd_del fd p = p\<lparr>rp_db := AList.delete fd (rp_db p)\<rparr>"

definition fd_contains :: "int \<Rightarrow> reli_pending \<Rightarrow> bool" where
  "fd_contains fd p \<longleftrightarrow> map_of (rp_db p) fd \<noteq> None"

text \<open>\<open>fcntl\<close> with \<open>F_GETFD\<close> and \<open>F_SETFD\<close>: it fails for a descriptor that is not open.\<close>

definition os_cloexec :: "int \<Rightarrow> bool \<Rightarrow> reli_pending \<Rightarrow> reli_pending option" where
  "os_cloexec fd b p = (if rp_fds p fd = None then None else Some (p\<lparr>rp_fds := (rp_fds p)(fd \<mapsto> b)\<rparr>))"

definition fd_is_cloexec :: "int \<Rightarrow> reli_pending \<Rightarrow> bool" where
  "fd_is_cloexec fd p \<longleftrightarrow> rp_fds p fd = Some True"

definition fd_retain :: "int \<Rightarrow> reli_pending \<Rightarrow> pending_run" where
  "fd_retain fd p =
     (if fd_contains fd p then (Some (Inl Nix), [p])
      else let p1 = fd_add fd Retaining p in
        if fd < 0 then (None, [p1, p])
        else (case os_cloexec fd False p1 of
            None \<Rightarrow> (Some (Inl Nix), [fd_del fd p1, p1, p])
          | Some p2 \<Rightarrow> (Some (Inr ()), [fd_add fd Retained p2, p2, p1, p])))"

definition fd_remove :: "int \<Rightarrow> reli_pending \<Rightarrow> pending_run" where
  "fd_remove fd p =
     (if fd < 0 then (None, [p])
      else if fd_is_cloexec fd p then (Some (Inr ()), [fd_del fd p, p])
      else let p1 = fd_add fd Removing p in
        (case os_cloexec fd True p1 of
            None \<Rightarrow> (Some (Inl Nix), [fd_del fd p1, p1, p])
          | Some p2 \<Rightarrow> (Some (Inr ()), [fd_del fd p2, p2, p1, p])))"

definition fd_cloexec :: "int \<Rightarrow> bool \<Rightarrow> reli_pending \<Rightarrow> pending_run" where
  "fd_cloexec fd b p = (if b then fd_remove fd p else fd_retain fd p)"

definition fd_take :: "int \<Rightarrow> reli_pending \<Rightarrow> int \<times> reli_pending" where
  "fd_take fd p = (fd, fd_del fd p)"

definition os_close :: "int \<Rightarrow> reli_pending \<Rightarrow> reli_pending" where
  "os_close fd p = p\<lparr>rp_fds := (rp_fds p)(fd := None)\<rparr>"

definition pending_data_clear :: "reli_pending \<Rightarrow> reli_pending" where
  "pending_data_clear p = p\<lparr>rp_db := []\<rparr>"

definition pending_make_consistent :: "reli_pending \<Rightarrow> reli_pending" where
  "pending_make_consistent p = pending_data_clear (fold os_close (map fst (rp_db p)) p)"

lemmas pending_defs = fd_add_def fd_del_def fd_contains_def os_cloexec_def fd_is_cloexec_def fd_take_def os_close_def
  pending_data_clear_def

subsection \<open>History (history.rs)\<close>

text \<open>The methods of the trait \<open>ReDbTable\<close>, on the world \<open>'w\<close> in which the tables live.\<close>

record 'w re_db_table =
  tb_clear :: "'w \<Rightarrow> 'w"
  tb_export :: "'w \<Rightarrow> 'w"
  tb_import :: "'w \<Rightarrow> 'w"
  tb_ignore_set :: "bool \<Rightarrow> 'w \<Rightarrow> 'w"

type_synonym 'w reli_dbs = "(string \<times> 'w re_db_table) list"

text \<open>A \<open>ReDb\<close> as a table of the history: \<open>get\<close> and \<open>upd\<close> find it in the world.\<close>

definition redb_table ::
  "('d, 'k, 'v) heed \<Rightarrow> ('w \<Rightarrow> ('d, 'k, 'v) redb) \<Rightarrow> (('d, 'k, 'v) redb \<Rightarrow> 'w \<Rightarrow> 'w) \<Rightarrow> 'w re_db_table" where
  "redb_table H get upd = \<lparr>
     tb_clear = (\<lambda>w. upd (redb_do_clear H (get w)) w),
     tb_export = (\<lambda>w. upd (redb_cache_2_db H (get w)) w),
     tb_import = (\<lambda>w. upd (redb_db_2_cache H (get w)) w),
     tb_ignore_set = (\<lambda>b w. upd (redb_set_ignore b (get w)) w)\<rparr>"

subsection \<open>Stations (station.rs)\<close>

text \<open>The state that recovery works on. Stations change it through their methods.\<close>

record 'w reli_state =
  rb_enable :: reli_enable
  rb_last :: reli_last
  rb_pending :: reli_pending
  rb_history_ignore :: bool
  rb_world :: 'w

type_synonym 'w reli_act = "'w reli_state \<Rightarrow> 'w reli_state option"

record 'w re_station =
  st_input_rebuild :: "'w reli_act"
  st_db_compensate_last :: "reli_frame \<Rightarrow> uid option \<Rightarrow> 'w reli_act"
  st_db_compensate_history :: "'w reli_act"
  st_do_compensate_last :: "reli_frame \<Rightarrow> uid option \<Rightarrow> 'w reli_act"
  st_do_compensate_others :: "uid option \<Rightarrow> 'w reli_act"
  st_db_map :: "'w reli_act"

text \<open>A method that a station leaves out does nothing.\<close>

definition station_default :: "'w re_station" where
  "station_default = \<lparr>st_input_rebuild = Some, st_db_compensate_last = (\<lambda>_ _. Some), st_db_compensate_history = Some,
     st_do_compensate_last = (\<lambda>_ _. Some), st_do_compensate_others = (\<lambda>_. Some), st_db_map = Some\<rparr>"

datatype re_station_kind = Level1 | Level2

record 'w reli_station =
  t_name :: "(string \<times> 'w re_station) list"
  t_kind :: "(re_station_kind \<times> (string \<times> 'w re_station) list) list"

definition reli_station_new :: "'w reli_station" where
  "reli_station_new = \<lparr>t_name = [], t_kind = []\<rparr>"

definition station_get_kind :: "re_station_kind \<Rightarrow> 'w reli_station \<Rightarrow> (string \<times> 'w re_station) list" where
  "station_get_kind k t = (case map_of (t_kind t) k of Some sts \<Rightarrow> sts | None \<Rightarrow> [])"

definition station_register :: "string \<Rightarrow> re_station_kind \<Rightarrow> 'w re_station \<Rightarrow> 'w reli_station \<Rightarrow> 'w reli_station" where
  "station_register name k st t =
     (let t1 = t\<lparr>t_name := AList.update name st (t_name t)\<rparr> in
      if map_of (t_name t) name \<noteq> None then t1
      else t1\<lparr>t_kind := AList.update k (AList.update name st (station_get_kind k t)) (t_kind t)\<rparr>)"

definition station_input_rebuild :: "'w reli_station \<Rightarrow> 'w reli_act" where
  "station_input_rebuild t = for_each (st_input_rebuild \<circ> snd) (t_name t)"

definition station_db_compensate :: "'w reli_station \<Rightarrow> reli_frame option \<Rightarrow> uid option \<Rightarrow> 'w reli_act" where
  "station_db_compensate t lframe lunit s = do {
     s1 \<leftarrow> for_each (st_db_compensate_history \<circ> snd) (t_name t) s;
     (case lframe of
        Some lf \<Rightarrow> for_each (\<lambda>(_, st). st_db_compensate_last st lf lunit) (t_name t) s1
      | None \<Rightarrow> Some s1)
   }"

definition station_db_map :: "'w reli_station \<Rightarrow> 'w reli_act" where
  "station_db_map t s = do {
     s1 \<leftarrow> for_each (st_db_map \<circ> snd) (station_get_kind Level1 t) s;
     for_each (st_db_map \<circ> snd) (station_get_kind Level2 t) s1
   }"

definition station_make_consistent :: "'w reli_station \<Rightarrow> reli_frame option \<Rightarrow> uid option \<Rightarrow> 'w reli_act" where
  "station_make_consistent t lframe lunit s = do {
     s1 \<leftarrow> (case lframe of
              Some lf \<Rightarrow> for_each (\<lambda>(_, st). st_do_compensate_last st lf lunit) (t_name t) s
            | None \<Rightarrow> Some s);
     for_each (\<lambda>(_, st). st_do_compensate_others st lunit) (t_name t) s1
   }"

definition station_clear :: "'w reli_station \<Rightarrow> 'w reli_station" where
  "station_clear t = t\<lparr>t_name := [], t_kind := []\<rparr>"

subsection \<open>Reliability (api.rs)\<close>

record 'w reliability =
  rb_dbs :: "'w reli_dbs"
  rb_station :: "'w reli_station"

definition each_table :: "('w re_db_table \<Rightarrow> 'w \<Rightarrow> 'w) \<Rightarrow> 'w reli_dbs \<Rightarrow> 'w \<Rightarrow> 'w" where
  "each_table f dbs = fold (f \<circ> snd) dbs"

definition history_data_clear :: "'w reliability \<Rightarrow> 'w reli_state \<Rightarrow> 'w reli_state" where
  "history_data_clear R s = s\<lparr>rb_world := each_table tb_clear (rb_dbs R) (rb_world s)\<rparr>"

definition history_db_register :: "string \<Rightarrow> 'w re_db_table \<Rightarrow> 'w reliability \<Rightarrow> 'w reliability" where
  "history_db_register name tb R = R\<lparr>rb_dbs := AList.update name tb (rb_dbs R)\<rparr>"

definition history_commit :: "'w reliability \<Rightarrow> 'w reli_state \<Rightarrow> 'w reli_state" where
  "history_commit R s = s\<lparr>rb_world := each_table tb_export (rb_dbs R) (rb_world s)\<rparr>"

definition history_import :: "'w reliability \<Rightarrow> 'w reli_state \<Rightarrow> 'w reli_state" where
  "history_import R s = s\<lparr>rb_world := each_table tb_import (rb_dbs R) (rb_world s)\<rparr>"

definition history_ignore_set :: "bool \<Rightarrow> 'w reliability \<Rightarrow> 'w reli_state \<Rightarrow> 'w reli_state" where
  "history_ignore_set b R s =
     s\<lparr>rb_history_ignore := b, rb_world := each_table (\<lambda>tb. tb_ignore_set tb b) (rb_dbs R) (rb_world s)\<rparr>"

definition reli_clear_last_unit :: "'w reliability \<Rightarrow> 'w reli_state \<Rightarrow> 'w reli_state" where
  "reli_clear_last_unit R s = (let s1 = history_commit R s in s1\<lparr>rb_last := last_clear_unit (rb_last s1)\<rparr>)"

definition reli_clear_last_frame :: "'w reliability \<Rightarrow> 'w reli_state \<Rightarrow> 'w reli_state" where
  "reli_clear_last_frame R s = (let s1 = history_commit R s in s1\<lparr>rb_last := last_clear_frame (rb_last s1)\<rparr>)"

definition reli_input_rebuild :: "'w reliability \<Rightarrow> 'w reli_act" where
  "reli_input_rebuild R s = do {
     s1 \<leftarrow> station_input_rebuild (rb_station R) (history_ignore_set True R s);
     Some (history_ignore_set False R s1)
   }"

definition reli_db_compensate :: "'w reliability \<Rightarrow> 'w reli_act" where
  "reli_db_compensate R s = do {
     s1 \<leftarrow> station_db_compensate (rb_station R) (last_frame_get (rb_last s)) (rl_unit (rb_last s)) s;
     Some (history_commit R s1)
   }"

definition reli_db_map :: "'w reliability \<Rightarrow> 'w reli_act" where
  "reli_db_map R s = do {
     s1 \<leftarrow> station_db_map (rb_station R) (history_ignore_set True R s);
     Some (history_ignore_set False R s1)
   }"

definition reli_make_consistent :: "'w reliability \<Rightarrow> 'w reli_act" where
  "reli_make_consistent R s = (
     let lframe = last_frame_get (rb_last s); lunit = rl_unit (rb_last s);
         s1 = s\<lparr>rb_pending := pending_make_consistent (rb_pending s)\<rparr>
     in do {
       s2 \<leftarrow> station_make_consistent (rb_station R) lframe lunit s1;
       Some (history_commit R s2)
     })"

definition recover :: "'w reliability \<Rightarrow> 'w reli_act" where
  "recover R s = do {
     s1 \<leftarrow> Some (history_import R (s\<lparr>rb_last := last_ignore_set True (rb_last s)\<rparr>));
     s2 \<leftarrow> reli_input_rebuild R s1;
     s3 \<leftarrow> reli_db_compensate R s2;
     s4 \<leftarrow> reli_db_map R s3;
     s5 \<leftarrow> reli_make_consistent R s4;
     let l = last_ignore_set False (rb_last s5);
     Some (s5\<lparr>rb_last := last_clear_frame (last_clear_unit l)\<rparr>)
   }"

definition reli_data_clear :: "'w reliability \<Rightarrow> 'w reli_state \<Rightarrow> 'w reli_state" where
  "reli_data_clear R s = (
     let s1 = history_data_clear R (s\<lparr>rb_enable := None, rb_last := last_data_clear (rb_last s)\<rparr>)
     in s1\<lparr>rb_pending := pending_data_clear (rb_pending s1)\<rparr>)"

definition reli_clear :: "'w reliability \<Rightarrow> 'w reliability" where
  "reli_clear R = R\<lparr>rb_dbs := [], rb_station := station_clear (rb_station R)\<rparr>"

end
