(* ===== verification/Unit_Manager.thy ===== *)
theory Unit_Manager
  imports Unit_Load Job_Manager_Thms
begin

section \<open>The unit manager (core/bin/unit/manager.rs)\<close>

text \<open>
  \<open>UnitManager\<close> puts the store of units and the job manager together: a request loads the unit and
  becomes a job; a report of a unit goes to the job manager and may cause an emergency action.
  The job manager sees the units through \<open>um_units\<close>. Reboots that go to the kernel at once are
  recorded in \<open>um_power\<close>.
\<close>

subsection \<open>State\<close>

datatype manager_state =
    MngInit | MngOk | MngExit | MngReLoad | MngReExecute | MngReboot | MngPowerOff | MngHalt | MngKExec | MngSuspend | MngSwitchRoot

datatype reboot_mode = RbAutoboot | RbPowerOff

record ('d, 's) unit_manager =
  um_state :: manager_state
  um_db :: "('d, 's) unit_store"
  um_jm :: "'d job_manager"
  um_power :: "reboot_mode list"

text \<open>What the jobs see of the units of the store.\<close>

definition um_units :: "('d, 's) store_env \<Rightarrow> ('d, 's) unit_store \<Rightarrow> unit_env \<Rightarrow> unit_env" where
  "um_units env st ue = ue
     \<lparr>u_active_state := \<lambda>n. case units_get st n of Some u \<Rightarrow> su_active_state (sv_sub env) (ue_sub u) | None \<Rightarrow> u_active_state ue n,
      u_config := \<lambda>n. case units_get st n of Some u \<Rightarrow> ue_config (ue_frame u) | None \<Rightarrow> u_config ue n\<rparr>"

definition um_see :: "('d, 's) store_env \<Rightarrow> ('d, 's) unit_manager \<Rightarrow> 'd job_manager" where
  "um_see env um = (um_jm um)\<lparr>jm_env := (jm_env (um_jm um))\<lparr>je_units := um_units env (um_db um) (je_units (jm_env (um_jm um)))\<rparr>\<rparr>"

subsection \<open>Looking at units\<close>

definition um_current_active_state :: "('d, 's) store_env \<Rightarrow> uid \<Rightarrow> ('d, 's) unit_manager \<Rightarrow> unit_active_state" where
  "um_current_active_state env name um = (case units_get (um_db um) name of
     None \<Rightarrow> UnitFailed | Some u \<Rightarrow> su_active_state (sv_sub env) (ue_sub u))"

definition um_unit_enabled :: "('d, 's) store_env \<Rightarrow> uid \<Rightarrow> ('d, 's) unit_manager \<Rightarrow> error + unit" where
  "um_unit_enabled env name um = (case units_get (um_db um) name of
     None \<Rightarrow> Inl UnitActionENoent
   | Some u \<Rightarrow>
       if ue_load_state (ue_frame u) \<noteq> UnitLoaded then Inl UnitActionENoent
       else if su_active_state (sv_sub env) (ue_sub u) \<notin> {UnitInActive, UnitFailed, UnitActivating} then Inl UnitActionEBusy
       else Inr ())"

definition um_unit_has_dependency :: "uid \<Rightarrow> unit_relation_atom \<Rightarrow> uid \<Rightarrow> ('d, 's) unit_manager \<Rightarrow> bool" where
  "um_unit_has_dependency s atom t um \<longleftrightarrow> units_get (um_db um) s \<noteq> None \<and> units_get (um_db um) t \<noteq> None \<and>
     is_dep_atom_with (us_dep (um_db um)) s atom t"

definition um_get_dependency_list :: "uid \<Rightarrow> unit_relation_atom \<Rightarrow> ('d, 's) unit_manager \<Rightarrow> uid list" where
  "um_get_dependency_list name atom um = (if units_get (um_db um) name = None then [] else gets_atom (us_dep (um_db um)) name atom)"

definition um_has_stop_job :: "uid \<Rightarrow> ('d, 's) unit_manager \<Rightarrow> bool" where
  "um_has_stop_job name um \<longleftrightarrow> units_get (um_db um) name \<noteq> None \<and> has_stop_job name (um_jm um)"

definition um_relation_active_or_pending :: "('d, 's) store_env \<Rightarrow> uid \<Rightarrow> ('d, 's) unit_manager \<Rightarrow> bool" where
  "um_relation_active_or_pending env name um \<longleftrightarrow> list_ex
     (\<lambda>d. um_current_active_state env d um \<in> {UnitActive, UnitActivating, UnitReloading}) (db_dep_gets (um_db um) name UnitTriggers)"

text \<open>\<open>valid_pid\<close> asks for a positive number.\<close>

definition um_same_unit_with_pid :: "uid \<Rightarrow> pid \<Rightarrow> ('d, 's) unit_manager \<Rightarrow> bool" where
  "um_same_unit_with_pid name p um \<longleftrightarrow> 0 < p \<and> get_unit_by_pid (um_db um) p = Some name"

definition um_units_get_all :: "unit_type option \<Rightarrow> ('d, 's) unit_manager \<Rightarrow> uid list" where
  "um_units_get_all ty um = map (ue_id \<circ> ue_frame) (units_get_all ty (um_db um))"

text \<open>The exit code of \<open>get_unit_status\<close>.\<close>

definition um_status_code :: "('d, 's) store_env \<Rightarrow> uid \<Rightarrow> ('d, 's) unit_manager \<Rightarrow> error + int" where
  "um_status_code env name um = (if units_get (um_db um) name = None then Inl NotExisted
     else Inr (if um_current_active_state env name um \<in> {UnitFailed, UnitInActive} then 3 else 0))"

subsection \<open>Loading and requests\<close>

definition um_load_unitx :: "('d, 's) store_env \<Rightarrow> uid \<Rightarrow> ('d, 's) unit_manager \<Rightarrow> (bool \<times> ('d, 's) unit_manager) option" where
  "um_load_unitx env name um = map_option (map_prod id (\<lambda>st. um\<lparr>um_db := st\<rparr>)) (store_load_unit env name (um_db um))"

definition um_load_unit_success :: "('d, 's) store_env \<Rightarrow> uid \<Rightarrow> ('d, 's) unit_manager \<Rightarrow> (bool \<times> ('d, 's) unit_manager) option" where
  "um_load_unit_success env name um = do {
     (ok, um1) \<leftarrow> um_load_unitx env name um;
     if \<not> ok then Some (False, um1)
     else do { u \<leftarrow> units_get (um_db um1) name; Some (ue_load_state (ue_frame u) = UnitLoaded, um1) }
   }"

definition um_unit_add_dependency ::
  "('d, 's) store_env \<Rightarrow> uid \<Rightarrow> unit_relations \<Rightarrow> uid \<Rightarrow> bool \<Rightarrow> u16 \<Rightarrow> ('d, 's) unit_manager \<Rightarrow>
   ((error + unit) \<times> ('d, 's) unit_manager) option" where
  "um_unit_add_dependency env name relation target add_ref mk um = do {
     (ok, um1) \<leftarrow> um_load_unitx env name um;
     if \<not> ok then Some (Inl UnitActionENoent, um1)
     else do {
       (ok2, um2) \<leftarrow> um_load_unitx env target um1;
       if \<not> ok2 then Some (Inl UnitActionENoent, um2)
       else do {
         st \<leftarrow> rt_unit_add_dependency name relation target add_ref (um_db um2);
         Some (Inr (), um2\<lparr>um_db := st\<rparr>)
       }
     }
   }"

definition um_unit_add_two_dependency ::
  "('d, 's) store_env \<Rightarrow> uid \<Rightarrow> unit_relations \<Rightarrow> unit_relations \<Rightarrow> uid \<Rightarrow> bool \<Rightarrow> u16 \<Rightarrow> ('d, 's) unit_manager \<Rightarrow>
   ((error + unit) \<times> ('d, 's) unit_manager) option" where
  "um_unit_add_two_dependency env name ra rb target add_ref mk um = do {
     (r, um1) \<leftarrow> um_unit_add_dependency env name ra target add_ref mk um;
     (case r of Inl e \<Rightarrow> Some (Inl e, um1) | Inr _ \<Rightarrow> um_unit_add_dependency env name rb target add_ref mk um1)
   }"

definition um_exec :: "('d, 's) store_env \<Rightarrow> job_kind \<Rightarrow> uid \<Rightarrow> ('d, 's) unit_manager \<Rightarrow> ((error + unit) \<times> ('d, 's) unit_manager) option" where
  "um_exec env kind name um = do {
     (r, _, jm) \<leftarrow> job_manager_exec (us_dep (um_db um)) (job_conf_new name kind) Replace (job_affect_new False) (um_see env um);
     Some (r, um\<lparr>um_jm := jm\<rparr>)
   }"

text \<open>The requests differ in the kind of the job, the error for a unit that can not be loaded, and
  what forbids a manual request.\<close>

definition um_request ::
  "('d, 's) store_env \<Rightarrow> job_kind \<Rightarrow> error \<Rightarrow> (ue_config_unit \<Rightarrow> error option) \<Rightarrow> uid \<Rightarrow> ('d, 's) unit_manager \<Rightarrow>
   ((error + unit) \<times> ('d, 's) unit_manager) option" where
  "um_request env kind missing refuse name um = do {
     (ok, um1) \<leftarrow> um_load_unitx env name um;
     if \<not> ok then Some (Inl missing, um1)
     else do {
       u \<leftarrow> units_get (um_db um1) name;
       (case refuse (ue_config (ue_frame u)) of
          Some e \<Rightarrow> Some (Inl e, um1)
        | None \<Rightarrow> um_exec env kind name um1)
     }
   }"

definition um_start_unit :: "('d, 's) store_env \<Rightarrow> uid \<Rightarrow> ('d, 's) unit_manager \<Rightarrow> ((error + unit) \<times> ('d, 's) unit_manager) option" where
  "um_start_unit env = um_request env Start UnitActionENoent (\<lambda>_. None)"

definition um_start_unit_manual :: "('d, 's) store_env \<Rightarrow> uid \<Rightarrow> ('d, 's) unit_manager \<Rightarrow> ((error + unit) \<times> ('d, 's) unit_manager) option" where
  "um_start_unit_manual env = um_request env Start UnitActionENoent
     (\<lambda>c. if RefuseManualStart c then Some UnitActionERefuseManualStart else None)"

definition um_stop_unit :: "('d, 's) store_env \<Rightarrow> uid \<Rightarrow> ('d, 's) unit_manager \<Rightarrow> ((error + unit) \<times> ('d, 's) unit_manager) option" where
  "um_stop_unit env = um_request env Stop UnitActionENoent (\<lambda>_. None)"

definition um_stop_unit_manual :: "('d, 's) store_env \<Rightarrow> uid \<Rightarrow> ('d, 's) unit_manager \<Rightarrow> ((error + unit) \<times> ('d, 's) unit_manager) option" where
  "um_stop_unit_manual env = um_request env Stop UnitActionENoent
     (\<lambda>c. if RefuseManualStop c then Some UnitActionERefuseManualStop else None)"

definition um_reload :: "('d, 's) store_env \<Rightarrow> uid \<Rightarrow> ('d, 's) unit_manager \<Rightarrow> ((error + unit) \<times> ('d, 's) unit_manager) option" where
  "um_reload env = um_request env Reload Internal (\<lambda>_. None)"

definition um_restart_unit :: "('d, 's) store_env \<Rightarrow> uid \<Rightarrow> ('d, 's) unit_manager \<Rightarrow> ((error + unit) \<times> ('d, 's) unit_manager) option" where
  "um_restart_unit env = um_request env Restart Internal (\<lambda>_. None)"

subsection \<open>Emergency actions\<close>

text \<open>An orderly action is not asked for again while \<open>shutdown.target\<close> is active or about to be.\<close>

definition um_shutting_down :: "('d, 's) store_env \<Rightarrow> ('d, 's) unit_manager \<Rightarrow> bool" where
  "um_shutting_down env um \<longleftrightarrow> units_get (um_db um) ''shutdown.target'' \<noteq> None \<and>
     (is_active_or_activating (um_current_active_state env ''shutdown.target'' um) \<or> has_start_like_job ''shutdown.target'' (um_jm um))"

definition um_try_start :: "('d, 's) store_env \<Rightarrow> uid \<Rightarrow> ('d, 's) unit_manager \<Rightarrow> ('d, 's) unit_manager option" where
  "um_try_start env name um = map_option snd (um_start_unit env name um)"

definition um_emergency_action ::
  "('d, 's) store_env \<Rightarrow> unit_emergency_action \<Rightarrow> ('d, 's) unit_manager \<Rightarrow> ('d, 's) unit_manager option" where
  "um_emergency_action env action um =
     (if action = EmNone then Some um
      else if action \<in> {EmReboot, EmPoweroff, EmExit} \<and> um_shutting_down env um then Some um
      else (case action of
          EmReboot \<Rightarrow> um_try_start env ''reboot.target'' um
        | EmRebootForce \<Rightarrow> Some (um\<lparr>um_state := MngReboot\<rparr>)
        | EmRebootImmediate \<Rightarrow> Some (um\<lparr>um_power := um_power um @ [RbAutoboot]\<rparr>)
        | EmPoweroff \<Rightarrow> um_try_start env ''poweroff.target'' um
        | EmPoweroffForce \<Rightarrow> Some (um\<lparr>um_state := MngPowerOff\<rparr>)
        | EmPoweroffImmediate \<Rightarrow> Some (um\<lparr>um_power := um_power um @ [RbPowerOff]\<rparr>)
        | EmExit \<Rightarrow> um_try_start env ''exit.target'' um
        | EmExitForce \<Rightarrow> Some (um\<lparr>um_state := MngExit\<rparr>)
        | EmNone \<Rightarrow> Some um))"

subsection \<open>Reports of the units\<close>

text \<open>The units that trigger the one that reports are told with \<open>UnitX::trigger\<close>, which does nothing.\<close>

definition um_insert_states :: "('d, 's) store_env \<Rightarrow> unit_state_note \<Rightarrow> ('d, 's) unit_manager \<Rightarrow> ('d, 's) unit_manager option" where
  "um_insert_states env note um = (case units_get (um_db um) (note_unit note) of
     None \<Rightarrow> Some um
   | Some u \<Rightarrow> do {
       um1 \<leftarrow> (if note_os note \<noteq> UnitFailed \<and> note_ns note = UnitFailed
              then um_emergency_action env (FailureAction (ue_config (ue_frame u))) um else Some um);
       um2 \<leftarrow> (if \<not> is_inactive_or_failed (note_os note) \<and> note_ns note = UnitInActive
              then um_emergency_action env (SuccessAction (ue_config (ue_frame u))) um1 else Some um1);
       (_, jm) \<leftarrow> job_manager_try_finish (us_dep (um_db um2)) note (um_see env um2);
       Some (um2\<lparr>um_jm := jm\<rparr>)
     })"

definition um_insert_start_limit_res ::
  "('d, 's) store_env \<Rightarrow> uid \<Rightarrow> start_limit_result \<Rightarrow> ('d, 's) unit_manager \<Rightarrow> ('d, 's) unit_manager option" where
  "um_insert_start_limit_res env name res um =
     (if res = StartLimitNotHit then Some um
      else (case units_get (um_db um) name of
          None \<Rightarrow> Some um
        | Some u \<Rightarrow> um_emergency_action env (StartLimitAction (ue_config (ue_frame u))) um))"

definition um_insert_job_result :: "('d, 's) store_env \<Rightarrow> uid \<Rightarrow> job_result \<Rightarrow> ('d, 's) unit_manager \<Rightarrow> ('d, 's) unit_manager option" where
  "um_insert_job_result env name res um =
     (if res \<noteq> TimeOut then Some um
      else (case units_get (um_db um) name of
          None \<Rightarrow> Some um
        | Some u \<Rightarrow> um_emergency_action env (JobTimeoutAction (ue_config (ue_frame u))) um))"

subsection \<open>Recovery\<close>

datatype reli_last_frame = FrQueue | FrJobManager | FrSigChld | FrCgEvent | FrNotify | FrSubManager | FrManagerOp | FrCmdOp | FrOtherEvent

definition reli_last_frame_try_from :: "u32 \<Rightarrow> reli_last_frame option" where
  "reli_last_frame_try_from v = map_of (zip [0, 1, 2, 3, 4, 5, 6, 7, 8]
     [FrQueue, FrJobManager, FrSigChld, FrCgEvent, FrNotify, FrSubManager, FrManagerOp, FrCmdOp, FrOtherEvent]) v"

text \<open>What \<open>db_map\<close> does for a unit that the base table names: make it, map it, put it in the store.\<close>

definition um_map_unit :: "('d, 's) store_env \<Rightarrow> uid \<Rightarrow> ('d, 's) unit_store \<Rightarrow> ('d, 's) unit_store option" where
  "um_map_unit env name st = do {
     r \<leftarrow> try_new_unit env name st;
     u \<leftarrow> r;
     u1 \<leftarrow> unit_db_map (sv_sub env) u;
     Some (units_insert name u1 st)
   }"

text \<open>Mapping the descriptor of the notification socket, the last part, is \<open>notify_db_map\<close> of
  \<open>Unit_Notify\<close>; the managers of the sub units map nothing.\<close>

definition um_db_map :: "('d, 's) store_env \<Rightarrow> ('d, 's) unit_manager \<Rightarrow> ('d, 's) unit_manager option" where
  "um_db_map env um = do {
     st1 \<leftarrow> for_each (um_map_unit env) (base_keys (dd_rentry (us_dep (um_db um)))) (um_db um);
     st2 \<leftarrow> db_map_excl_units st1;
     st3 \<leftarrow> rt_db_map st2;
     jm \<leftarrow> jm_db_map (us_dep st3) (um_see env (um\<lparr>um_db := st3\<rparr>));
     Some (um\<lparr>um_db := st3, um_jm := jm\<rparr>)
   }"

definition um_entry_clear :: "('d, 's) unit_manager \<Rightarrow> ('d, 's) unit_manager" where
  "um_entry_clear um = um\<lparr>um_jm := jm_entry_clear (um_jm um), um_db := db_entry_clear (rt_entry_clear (um_db um))\<rparr>"

text \<open>\<open>last_unittype\<close> unwraps the type; \<open>UnitTypeMax\<close> is 4.\<close>

definition last_unittype :: "u32 option \<Rightarrow> unit_type option option" where
  "last_unittype utype = (case utype of
     None \<Rightarrow> Some None
   | Some ut \<Rightarrow> if 4 < ut then Some None else (case unit_type_try_from ut of Inl _ \<Rightarrow> None | Inr ty \<Rightarrow> Some (Some ty)))"

text \<open>The frame of the interrupted action decides which part compensates for it. The frame of a sub
  manager goes to \<open>sub\<close>, for the type it names; children and notifications are left to the jobs.\<close>

type_synonym last_frame = "u32 \<times> u32 option \<times> u32 option"

type_synonym ('d, 's) um_sub = "unit_type \<Rightarrow> uid \<Rightarrow> ('d, 's) unit_manager \<Rightarrow> ('d, 's) unit_manager option"

definition um_to_sub :: "('d, 's) um_sub \<Rightarrow> u32 option \<Rightarrow> uid option \<Rightarrow> ('d, 's) unit_manager \<Rightarrow> ('d, 's) unit_manager option" where
  "um_to_sub sub utype lunit um = do {
     ty \<leftarrow> last_unittype utype;
     (case (ty, lunit) of (Some t, Some u) \<Rightarrow> sub t u um | _ \<Rightarrow> Some um)
   }"

definition um_db_compensate_last ::
  "('d, 's) um_sub \<Rightarrow> last_frame \<Rightarrow> uid option \<Rightarrow> ('d, 's) unit_manager \<Rightarrow> ('d, 's) unit_manager option" where
  "um_db_compensate_last sub lframe lunit um = (case lframe of (frame, second, _) \<Rightarrow> (
     let jobs = map_option (\<lambda>jm. um\<lparr>um_jm := jm\<rparr>) (jm_db_compensate_last lunit (um_jm um)) in
     case reli_last_frame_try_from frame of
       Some FrQueue \<Rightarrow> map_option (\<lambda>st. um\<lparr>um_db := st\<rparr>) (rt_db_compensate_last second lunit (um_db um))
     | Some FrJobManager \<Rightarrow> jobs
     | Some FrSigChld \<Rightarrow> jobs
     | Some FrCgEvent \<Rightarrow> None
     | Some FrNotify \<Rightarrow> jobs
     | Some FrSubManager \<Rightarrow> um_to_sub sub second lunit um
     | _ \<Rightarrow> Some um))"

definition um_db_compensate_history :: "('d, 's) unit_manager \<Rightarrow> ('d, 's) unit_manager option" where
  "um_db_compensate_history um = map_option (\<lambda>jm. um\<lparr>um_jm := jm\<rparr>) (jm_db_compensate_history (um_jm um))"

definition um_do_compensate_last ::
  "'d job_disk \<Rightarrow> unit_act \<Rightarrow> ('d, 's) store_env \<Rightarrow> ('d, 's) um_sub \<Rightarrow> last_frame \<Rightarrow> uid option \<Rightarrow> ('d, 's) unit_manager \<Rightarrow>
   ('d, 's) unit_manager option" where
  "um_do_compensate_last H act env sub lframe lunit um = (case lframe of (frame, second, _) \<Rightarrow> (
     let jobs = map_option (\<lambda>jm. um\<lparr>um_jm := jm\<rparr>) (jm_do_compensate_last H act (us_dep (um_db um)) lunit (um_see env um)) in
     case reli_last_frame_try_from frame of
       Some FrQueue \<Rightarrow> map_option (\<lambda>st. um\<lparr>um_db := st\<rparr>) (rt_do_compensate_last env second lunit (um_db um))
     | Some FrJobManager \<Rightarrow> jobs
     | Some FrSigChld \<Rightarrow> jobs
     | Some FrCgEvent \<Rightarrow> None
     | Some FrNotify \<Rightarrow> jobs
     | Some FrSubManager \<Rightarrow> um_to_sub sub second lunit um
     | _ \<Rightarrow> Some um))"

definition um_do_compensate_others ::
  "'d job_disk \<Rightarrow> unit_act \<Rightarrow> ('d, 's) store_env \<Rightarrow> uid option \<Rightarrow> ('d, 's) unit_manager \<Rightarrow> ('d, 's) unit_manager option" where
  "um_do_compensate_others H act env lunit um =
     map_option (\<lambda>jm. um\<lparr>um_jm := jm\<rparr>) (jm_do_compensate_others H act (us_dep (um_db um)) lunit (um_see env um))"

subsection \<open>Steps\<close>

text \<open>What reaches the unit manager from outside while it works; in between a unit does what the
  contract of its sub unit allows.\<close>

inductive um_step :: "('d, 's) store_env \<Rightarrow> ('d, 's) unit_manager \<Rightarrow> ('d, 's) unit_manager \<Rightarrow> bool" for env where
  um_request: "um_request env kind missing refuse name um = Some (r, um') \<Longrightarrow> um_step env um um'"
| um_load: "um_load_unit_success env name um = Some (b, um') \<Longrightarrow> um_step env um um'"
| um_states: "um_insert_states env note um = Some um' \<Longrightarrow> um_step env um um'"
| um_limit: "um_insert_start_limit_res env name res um = Some um' \<Longrightarrow> um_step env um um'"
| um_result: "um_insert_job_result env name jres um = Some um' \<Longrightarrow> um_step env um um'"
| um_jobs: "jm_dispatch H act (us_dep (um_db um)) (um_see env um) = Some jm \<Longrightarrow> um_step env um (um\<lparr>um_jm := jm\<rparr>)"
| um_unit: "units_get (um_db um) name = Some u \<Longrightarrow> sub_ok (sv_sub env) (ue_frame (us_lend (um_db um) u)) (ue_sub u) f' s' \<Longrightarrow>
    um_step env um (um\<lparr>um_db := us_back name (u\<lparr>ue_frame := f', ue_sub := s'\<rparr>) (um_db um)\<rparr>)"

end
