(* ===== verification/Unit_Manager_Claims.thy ===== *)
theory Unit_Manager_Claims
  imports Unit_Manager
begin

section \<open>Properties of the unit manager\<close>

text \<open>
  The invariants of the store and of the job manager hold together, whatever reaches the unit
  manager.
\<close>

definition um_inv :: "('d, 's) unit_manager \<Rightarrow> bool" where
  "um_inv um \<longleftrightarrow> us_inv (um_db um) \<and> us_load_queue (um_db um) = [] \<and> jm_rest (um_jm um)"

text \<open>The store only grows.\<close>

definition um_grows :: "('d, 's) unit_manager \<Rightarrow> ('d, 's) unit_manager \<Rightarrow> bool" where
  "um_grows um um' \<longleftrightarrow> us_dom (um_db um) \<subseteq> us_dom (um_db um') \<and> us_rel (um_db um) \<subseteq> us_rel (um_db um')"

definition um_ok :: "('d, 's) unit_manager \<Rightarrow> ('d, 's) unit_manager \<Rightarrow> bool" where
  "um_ok um um' \<longleftrightarrow> um_inv um' \<and> um_grows um um'"

lemma um_ok_refl: "um_inv um \<Longrightarrow> um_ok um um"
  by (simp add: um_ok_def um_grows_def)

lemma um_ok_trans: "um_ok um um1 \<Longrightarrow> um_ok um1 um2 \<Longrightarrow> um_ok um um2"
  by (auto simp: um_ok_def um_grows_def)

lemma um_ok_inv: "um_ok um um' \<Longrightarrow> um_inv um'"
  by (simp add: um_ok_def)

lemma um_see_rest: "um_inv um \<Longrightarrow> jm_rest (um_see env um)"
  unfolding um_see_def um_inv_def by (blast intro: jm_step_rest[OF step_units])

lemma um_jobs_ok: "um_inv um \<Longrightarrow> jm_rest jm \<Longrightarrow> um_ok um (um\<lparr>um_jm := jm\<rparr>)"
  by (simp add: um_ok_def um_inv_def um_grows_def)

lemma um_fields_ok [simp]:
  "um_ok um (um'\<lparr>um_state := st\<rparr>) = um_ok um um'" "um_ok um (um'\<lparr>um_power := p\<rparr>) = um_ok um um'"
  by (simp_all add: um_ok_def um_inv_def um_grows_def)

lemma um_exec_ok:
  assumes "um_inv um" "um_exec env kind name um = Some (r, um')"
  shows "um_ok um um'"
proof -
  from assms(2) obtain a jm where jm: "job_manager_exec (us_dep (um_db um)) (job_conf_new name kind) Replace (job_affect_new False)
      (um_see env um) = Some (r, a, jm)" "um' = um\<lparr>um_jm := jm\<rparr>"
    by (auto simp: um_exec_def bind_eq_Some_conv)
  have "jm_rest (um_see env um)" using assms(1) by (rule um_see_rest)
  from jm_step_rest[OF step_exec[OF singletonI jm(1)] this] show ?thesis using um_jobs_ok[OF assms(1)] jm(2) by simp
qed

text \<open>Loading as the unit manager does it, with finitely many units to reach.\<close>

definition um_files_finite :: "('d, 's) store_env \<Rightarrow> bool" where
  "um_files_finite env \<longleftrightarrow> loadable_sub (sv_sub env) \<and> (\<forall>D n. finite (load_reach env D n))"

lemma um_load_unitx_ok:
  assumes "um_files_finite env" "um_inv um"
  obtains ok um' where "um_load_unitx env name um = Some (ok, um')" "um_ok um um'" "um_jm um' = um_jm um"
    "ok \<longleftrightarrow> name \<in> us_dom (um_db um')" "ok \<longleftrightarrow> name \<in> us_dom (um_db um) \<or> creatable env name" "\<not> ok \<Longrightarrow> um' = um"
proof -
  have st: "us_inv (um_db um)" "us_load_queue (um_db um) = []" "jm_rest (um_jm um)" using assms(2) by (simp_all add: um_inv_def)
  consider "name \<in> us_dom (um_db um)" | "name \<notin> us_dom (um_db um)" "creatable env name" | "name \<notin> us_dom (um_db um)" "\<not> creatable env name"
    by blast
  then show thesis
  proof cases
    case 1
    then have "um_load_unitx env name um = Some (True, um)" by (auto simp: um_load_unitx_def store_load_unit_def us_dom_def)
    with 1 that um_ok_refl[OF assms(2)] show thesis by blast
  next
    case 2
    then have "units_get (um_db um) name = None" by (simp add: us_dom_def)
    from store_load_closes[OF _ st(1,2) this 2(2)] assms(1) obtain st' where st': "store_load_unit env name (um_db um) = Some (True, st')"
      "us_inv st'" "us_load_queue st' = []" "us_dom st' = us_dom (um_db um) \<union> load_reach env (us_dom (um_db um)) name"
      "us_rel (um_db um) \<subseteq> us_rel st'"
      by (auto simp: um_files_finite_def)
    have in_st': "name \<in> us_dom st'" using st'(4) load_reach_start by blast
    have "um_ok um (um\<lparr>um_db := st'\<rparr>)" using st' st(3) by (simp add: um_ok_def um_inv_def um_grows_def)
    with that[of True "um\<lparr>um_db := st'\<rparr>"] st'(1) in_st' 2(2) show thesis by (simp add: um_load_unitx_def)
  next
    case 3
    then have "um_load_unitx env name um = Some (False, um)"
      by (simp add: um_load_unitx_def store_load_unit_def us_dom_def prepare_unit_no)
    with that[of False um] 3 um_ok_refl[OF assms(2)] show thesis by simp
  qed
qed

lemma um_request_ok:
  assumes "um_files_finite env" "um_inv um" "um_request env kind missing refuse name um = Some (r, um')"
  shows "um_ok um um'"
proof -
  obtain ok um1 where l: "um_load_unitx env name um = Some (ok, um1)" "um_ok um um1"
    by (rule um_load_unitx_ok[OF assms(1,2)]) blast
  from assms(3) l(1) consider "um' = um1" | "um_exec env kind name um1 = Some (r, um')"
    by (auto simp: um_request_def bind_eq_Some_conv split: if_splits option.splits)
  then show ?thesis using l(2) um_exec_ok[OF um_ok_inv[OF l(2)]] um_ok_trans[OF l(2)] by cases auto
qed

lemma um_emergency_ok:
  assumes "um_files_finite env" "um_inv um" "um_emergency_action env act um = Some um'"
  shows "um_ok um um'"
proof -
  have start: "um_ok um um'" if "um_try_start env name um = Some um'" for name
    using that um_request_ok[OF assms(1,2)] by (auto simp: um_try_start_def um_start_unit_def)
  show ?thesis using assms(3) start um_ok_refl[OF assms(2)]
    by (auto simp: um_emergency_action_def split: if_splits unit_emergency_action.splits)
qed

lemma um_insert_states_ok:
  assumes "um_files_finite env" "um_inv um" "um_insert_states env note um = Some um'"
  shows "um_ok um um'"
proof (cases "units_get (um_db um) (note_unit note)")
  case None
  then show ?thesis using assms(3) um_ok_refl[OF assms(2)] by (simp add: um_insert_states_def)
next
  case (Some u)
  from assms(3) Some obtain um1 um2 r jm where
      um1: "(if note_os note \<noteq> UnitFailed \<and> note_ns note = UnitFailed
        then um_emergency_action env (FailureAction (ue_config (ue_frame u))) um else Some um) = Some um1"
    and um2: "(if \<not> is_inactive_or_failed (note_os note) \<and> note_ns note = UnitInActive
        then um_emergency_action env (SuccessAction (ue_config (ue_frame u))) um1 else Some um1) = Some um2"
    and jm: "job_manager_try_finish (us_dep (um_db um2)) note (um_see env um2) = Some (r, jm)" "um' = um2\<lparr>um_jm := jm\<rparr>"
    unfolding um_insert_states_def by (auto simp: bind_eq_Some_conv split del: if_split)
  have ok1: "um_ok um um1" using um1 um_emergency_ok[OF assms(1,2)] um_ok_refl[OF assms(2)] by (auto split: if_splits)
  then have ok2: "um_ok um1 um2"
    using um2 um_emergency_ok[OF assms(1) um_ok_inv[OF ok1]] um_ok_refl[OF um_ok_inv[OF ok1]] by (auto split: if_splits)
  have "jm_rest (um_see env um2)" using um_ok_inv[OF ok2] by (rule um_see_rest)
  from jm_step_rest[OF step_try_finish[OF singletonI jm(1)] this] show ?thesis
    using um_jobs_ok[OF um_ok_inv[OF ok2]] ok1 ok2 jm(2) um_ok_trans by blast
qed

lemma um_unit_ok:
  assumes "um_inv um" "units_get (um_db um) name = Some u"
    and "sub_ok su (ue_frame (us_lend (um_db um) u)) (ue_sub u) f' s'"
  shows "um_ok um (um\<lparr>um_db := us_back name (u\<lparr>ue_frame := f', ue_sub := s'\<rparr>) (um_db um)\<rparr>)"
proof -
  have inv: "us_inv (um_db um)" using assms(1) by (simp add: um_inv_def)
  have "frame_like (ue_frame (us_lend (um_db um) u)) f'" using assms(3) by (auto simp: sub_ok_def frame_like_def)
  from us_inv_back[OF inv assms(2), of "u\<lparr>ue_frame := f', ue_sub := s'\<rparr>"] this
  show ?thesis using assms(1) by (simp add: um_ok_def um_inv_def um_grows_def)
qed

lemma um_step_ok:
  assumes "um_step env um um'" "um_files_finite env" "um_inv um"
  shows "um_ok um um'"
  using assms(1)
proof cases
  case (um_request kind missing refuse name r)
  then show ?thesis using um_request_ok[OF assms(2,3)] by blast
next
  case (um_load name b)
  obtain ok um1 where l: "um_load_unitx env name um = Some (ok, um1)" "um_ok um um1"
    by (rule um_load_unitx_ok[OF assms(2,3)]) blast
  with um_load show ?thesis by (auto simp: um_load_unit_success_def bind_eq_Some_conv split: if_splits)
next
  case (um_states n)
  then show ?thesis using um_insert_states_ok[OF assms(2,3)] by blast
next
  case (um_limit name res)
  then show ?thesis using um_emergency_ok[OF assms(2,3)] um_ok_refl[OF assms(3)]
    by (auto simp: um_insert_start_limit_res_def split: if_splits option.splits)
next
  case (um_result name jres)
  then show ?thesis using um_emergency_ok[OF assms(2,3)] um_ok_refl[OF assms(3)]
    by (auto simp: um_insert_job_result_def split: if_splits option.splits)
next
  case (um_jobs H act jm)
  have "jm_rest (um_see env um)" using assms(3) by (rule um_see_rest)
  from jm_step_rest[OF step_dispatch[OF singletonI um_jobs(2)] this] show ?thesis using um_jobs_ok[OF assms(3)] um_jobs(1) by simp
next
  case (um_unit name u f' s')
  then show ?thesis using um_unit_ok[OF assms(3)] by blast
qed

lemma um_steps_ok:
  assumes "(um_step env)\<^sup>*\<^sup>* um um'" "um_files_finite env" "um_inv um"
  shows "um_ok um um'"
  using assms(1)
proof (induction rule: rtranclp_induct)
  case (step y z)
  then show ?case using um_step_ok[OF step(2) assms(2)] um_ok_inv um_ok_trans by blast
qed (simp add: um_ok_refl assms(3))


text \<open>A manager with nothing loaded, and two targets that require each other.\<close>

definition ex_um :: "(nat, (nat, nat) target_mng) unit_manager" where
  "ex_um = \<lparr>um_state = MngOk, um_db = ex_empty_store, um_jm = job_manager_new ex_env, um_power = []\<rparr>"

lemma ex_um_inv: "um_inv ex_um"
  using jm_rest_new[OF ex_env_blank] ex_empty_store_inv(1) by (simp add: um_inv_def ex_um_def ex_empty_store_def)

lemma ex_files_finite: "um_files_finite ex_load_env"
proof -
  have "snd ` set (file_deps ex_load_env n) \<subseteq> {''a.target'', ''b.target''}" for n
    by (auto simp: ex_load_env_def file_deps_def file_confs_def conf_deps_def dep_pairs_def ue_config_unit_default_def Let_def
        split: option.splits if_splits)
  then have "snd ` set (new_deps ex_load_env D n) \<subseteq> {''a.target'', ''b.target''}" for D n
    unfolding new_deps_def taken_def by (blast dest: set_takeWhileD)
  then have "load_reach ex_load_env D n \<subseteq> {n, ''a.target'', ''b.target''}" for D n
    by (intro load_reach_least) auto
  then have "finite (load_reach ex_load_env D n)" for D n
    by (rule finite_subset) simp
  then show ?thesis by (simp add: um_files_finite_def ex_load_env_def target_load.loadable_sub_axioms)
qed


end
