(* ===== verification/Reliability_Claims.thy ===== *)
theory Reliability_Claims
  imports Reliability Unit_Manager_Claims
begin

section \<open>Recovery and surviving descriptors\<close>

text \<open>
  The contract of a station, the unit manager as a station, what a recovery works with, and
  which descriptors survive a crash.
\<close>

subsection \<open>The contract of a station\<close>

text \<open>A station changes the last words through their operations only.\<close>

definition keeps_last :: "'w reli_act \<Rightarrow> bool" where
  "keeps_last f \<longleftrightarrow> (\<forall>s s'. f s = Some s' \<longrightarrow> last_api\<^sup>*\<^sup>* (rb_last s) (rb_last s'))"

definition station_ok :: "'w re_station \<Rightarrow> bool" where
  "station_ok st \<longleftrightarrow> keeps_last (st_input_rebuild st) \<and> keeps_last (st_db_compensate_history st) \<and> keeps_last (st_db_map st) \<and>
     (\<forall>lf lu. keeps_last (st_db_compensate_last st lf lu) \<and> keeps_last (st_do_compensate_last st lf lu)) \<and>
     (\<forall>lu. keeps_last (st_do_compensate_others st lu))"

lemma keeps_last_bind:
  assumes "keeps_last f" and "keeps_last g"
  shows "keeps_last (\<lambda>s. Option.bind (f s) g)"
  unfolding keeps_last_def
proof (intro allI impI)
  fix s s' assume "Option.bind (f s) g = Some s'"
  then obtain t where "f s = Some t" "g t = Some s'" by (rule bind_SomeE)
  with assms show "last_api\<^sup>*\<^sup>* (rb_last s) (rb_last s')" unfolding keeps_last_def by (blast intro: rtranclp_trans)
qed

lemma keeps_last_for_each: "(\<And>x. x \<in> set xs \<Longrightarrow> keeps_last (f x)) \<Longrightarrow> keeps_last (for_each f xs)"
proof (induction xs)
  case (Cons x xs)
  then have "keeps_last (\<lambda>s. Option.bind (f x s) (for_each f xs))" by (intro keeps_last_bind) simp_all
  then show ?case by (simp add: keeps_last_def)
qed (simp add: keeps_last_def)

lemma keeps_last_ignored: "keeps_last f \<Longrightarrow> f s = Some s' \<Longrightarrow> rl_ignore (rb_last s) \<Longrightarrow> rb_last s' = rb_last s"
  unfolding keeps_last_def using last_api_ignored by blast

lemma history_last [simp, frame_laws]:
  "rb_last (history_commit R s) = rb_last s" "rb_last (history_import R s) = rb_last s"
  "rb_last (history_ignore_set b R s) = rb_last s"
  by (simp_all add: history_commit_def history_import_def history_ignore_set_def)

locale reli_stations =
  fixes R :: "'w reliability"
  assumes named: "(n, st) \<in> set (t_name (rb_station R)) \<Longrightarrow> station_ok st"
    and kinds: "(n, st) \<in> set (station_get_kind k (rb_station R)) \<Longrightarrow> station_ok st"
begin

lemma keeps_input: "keeps_last (station_input_rebuild (rb_station R))"
  unfolding station_input_rebuild_def by (rule keeps_last_for_each) (auto dest: named simp: station_ok_def)

lemma keeps_db_compensate: "keeps_last (station_db_compensate (rb_station R) lf lu)"
proof -
  have "keeps_last (for_each (st_db_compensate_history \<circ> snd) (t_name (rb_station R)))"
    by (rule keeps_last_for_each) (auto dest: named simp: station_ok_def)
  moreover have "keeps_last (for_each (\<lambda>(_, st). st_db_compensate_last st f lu) (t_name (rb_station R)))" for f
    by (rule keeps_last_for_each, clarsimp, drule named, simp add: station_ok_def del: split_paired_All)
  ultimately show ?thesis
    unfolding station_db_compensate_def by (cases lf) (auto intro: keeps_last_bind simp: keeps_last_def[of Some] simp del: comp_apply)
qed

lemma keeps_db_map: "keeps_last (station_db_map (rb_station R))"
proof -
  have "keeps_last (for_each (st_db_map \<circ> snd) (station_get_kind k (rb_station R)))" for k
    by (rule keeps_last_for_each) (auto dest: kinds simp: station_ok_def)
  then show ?thesis unfolding station_db_map_def by (intro keeps_last_bind)
qed

lemma keeps_consistent: "keeps_last (station_make_consistent (rb_station R) lf lu)"
proof -
  have "keeps_last (for_each (\<lambda>(_, st). st_do_compensate_others st lu) (t_name (rb_station R)))"
    by (rule keeps_last_for_each) (auto dest: named simp: station_ok_def)
  moreover have "keeps_last (for_each (\<lambda>(_, st). st_do_compensate_last st f lu) (t_name (rb_station R)))" for f
    by (rule keeps_last_for_each, clarsimp, drule named, simp add: station_ok_def del: split_paired_All)
  ultimately show ?thesis
    unfolding station_make_consistent_def by (cases lf) (auto intro: keeps_last_bind)
qed

lemma recover_record:
  assumes "recover R s = Some s'"
  defines "lf \<equiv> last_frame_get (rb_last s)" and "lu \<equiv> rl_unit (rb_last s)"
  shows "\<exists>s2 s3 s4 s5.
     reli_input_rebuild R (history_import R (s\<lparr>rb_last := last_ignore_set True (rb_last s)\<rparr>)) = Some s2 \<and>
     station_db_compensate (rb_station R) lf lu s2 = Some s3 \<and>
     reli_db_map R (history_commit R s3) = Some s4 \<and>
     station_make_consistent (rb_station R) lf lu (s4\<lparr>rb_pending := pending_make_consistent (rb_pending s4)\<rparr>) = Some s5 \<and>
     s' = (history_commit R s5)\<lparr>rb_last := \<lparr>rl_ignore = False, rl_unit = None, rl_frame = Some (butlast (frames (rb_last s)))\<rparr>\<rparr>"
proof -
  define l where "l = last_ignore_set True (rb_last s)"
  define s1 where "s1 = history_import R (s\<lparr>rb_last := l\<rparr>)"
  have ign: "rl_ignore l" and lf: "last_frame_get l = lf" and lu: "rl_unit l = lu" and l1: "rb_last s1 = l"
    by (simp_all add: l_def s1_def lf_def lu_def last_defs)
  obtain s2 t3 s4 t5 where run: "reli_input_rebuild R s1 = Some s2" "reli_db_compensate R s2 = Some t3" "reli_db_map R t3 = Some s4"
    "reli_make_consistent R s4 = Some t5" and s': "s' = t5\<lparr>rb_last := last_clear_frame (last_clear_unit (last_ignore_set False (rb_last t5)))\<rparr>"
    using assms(1) unfolding recover_def Let_def l_def[symmetric] s1_def[symmetric] by (auto elim!: bind_SomeE simp: s1_def l_def)
  have l2: "rb_last s2 = l"
    using run(1) keeps_last_ignored[OF keeps_input, of "history_ignore_set True R s1"] ign l1
    by (auto simp: reli_input_rebuild_def elim!: bind_SomeE)
  obtain s3 where c3: "station_db_compensate (rb_station R) lf lu s2 = Some s3" "t3 = history_commit R s3"
    using run(2) lf lu l2 by (auto simp: reli_db_compensate_def elim!: bind_SomeE)
  have l3: "rb_last s3 = l" using keeps_last_ignored[OF keeps_db_compensate c3(1)] ign l2 by simp
  have l4: "rb_last s4 = l"
    using run(3) keeps_last_ignored[OF keeps_db_map, of "history_ignore_set True R t3"] ign l3 c3(2)
    by (auto simp: reli_db_map_def elim!: bind_SomeE)
  obtain s5 where c5: "station_make_consistent (rb_station R) lf lu (s4\<lparr>rb_pending := pending_make_consistent (rb_pending s4)\<rparr>) = Some s5"
    "t5 = history_commit R s5"
    using run(4) lf lu l4 by (auto simp: reli_make_consistent_def Let_def elim!: bind_SomeE)
  have "rb_last s5 = l" using keeps_last_ignored[OF keeps_consistent c5(1)] ign l4 by simp
  then have "s' = (history_commit R s5)\<lparr>rb_last := \<lparr>rl_ignore = False, rl_unit = None, rl_frame = Some (butlast (frames (rb_last s)))\<rparr>\<rparr>"
    using s' c5(2) by (simp add: l_def last_defs)
  then show ?thesis using run(1,3) c3 c5(1) by (auto simp: s1_def l_def)
qed

end

subsection \<open>The unit manager as a station\<close>

text \<open>The handlers of the unit manager work on the world; \<open>rebuild\<close> stands for the listening to
  children and the inputs of the sub managers.\<close>

definition on_world :: "('w \<Rightarrow> 'w option) \<Rightarrow> 'w reli_act" where
  "on_world f s = map_option (\<lambda>w. s\<lparr>rb_world := w\<rparr>) (f (rb_world s))"

lemma keeps_last_on_world [simp]: "keeps_last (on_world f)"
  by (auto simp: keeps_last_def on_world_def)

definition um_station ::
  "(('d, 's) unit_manager \<Rightarrow> ('d, 's) unit_manager option) \<Rightarrow> 'd job_disk \<Rightarrow> unit_act \<Rightarrow> ('d, 's) store_env \<Rightarrow>
   ('d, 's) um_sub \<Rightarrow> ('d, 's) um_sub \<Rightarrow> ('d, 's) unit_manager re_station" where
  "um_station rebuild H act env db_sub do_sub = \<lparr>
     st_input_rebuild = on_world rebuild,
     st_db_compensate_last = (\<lambda>lf lu. on_world (um_db_compensate_last db_sub lf lu)),
     st_db_compensate_history = on_world um_db_compensate_history,
     st_do_compensate_last = (\<lambda>lf lu. on_world (um_do_compensate_last H act env do_sub lf lu)),
     st_do_compensate_others = (\<lambda>lu. on_world (um_do_compensate_others H act env lu)),
     st_db_map = on_world (um_db_map env)\<rparr>"

text \<open>The databases of the jobs and of the units, by the names they are registered with.\<close>

definition um_reli_dbs :: "'d job_disk \<Rightarrow> 'd unit_disk \<Rightarrow> ('d, 's) unit_manager reli_dbs" where
  "um_reli_dbs J U = (
     let jre = (\<lambda>um. je_re (jm_env (um_jm um)));
         set_jre = (\<lambda>r um. um\<lparr>um_jm := (um_jm um)\<lparr>jm_env := (jm_env (um_jm um))\<lparr>je_re := r\<rparr>\<rparr>\<rparr>);
         ure = (\<lambda>um. dd_rentry (us_dep (um_db um)));
         set_ure = (\<lambda>r um. um\<lparr>um_db := (um_db um)\<lparr>us_dep := (us_dep (um_db um))\<lparr>dd_rentry := r\<rparr>\<rparr>\<rparr>)
     in [(''jtrigger'', redb_table (jd_trigger J) (jre_trigger \<circ> jre) (\<lambda>t um. set_jre ((jre um)\<lparr>jre_trigger := t\<rparr>) um)),
         (''jsuspends'', redb_table (jd_suspends J) (jre_suspends \<circ> jre) (\<lambda>t um. set_jre ((jre um)\<lparr>jre_suspends := t\<rparr>) um)),
         (''ubase'', redb_table (ud_base U) (re_base \<circ> ure) (\<lambda>t um. set_ure ((ure um)\<lparr>re_base := t\<rparr>) um)),
         (''uload'', redb_table (ud_load U) (re_load \<circ> ure) (\<lambda>t um. set_ure ((ure um)\<lparr>re_load := t\<rparr>) um)),
         (''uconfig'', redb_table (ud_conf U) (re_conf \<circ> ure) (\<lambda>t um. set_ure ((ure um)\<lparr>re_conf := t\<rparr>) um)),
         (''ucgroup'', redb_table (ud_cgroup U) (re_cgroup \<circ> ure) (\<lambda>t um. set_ure ((ure um)\<lparr>re_cgroup := t\<rparr>) um)),
         (''uchild'', redb_table (ud_child U) (re_child \<circ> ure) (\<lambda>t um. set_ure ((ure um)\<lparr>re_child := t\<rparr>) um)),
         (''upps'', redb_table (ud_pps U) (re_pps \<circ> ure) (\<lambda>t um. set_ure ((ure um)\<lparr>re_pps := t\<rparr>) um)),
         (''udep'', redb_table (ud_dep U) (re_dep \<circ> ure) (\<lambda>t um. set_ure ((ure um)\<lparr>re_dep := t\<rparr>) um)),
         (''um-notify'', redb_table (ud_notify U) (re_notify \<circ> ure) (\<lambda>t um. set_ure ((ure um)\<lparr>re_notify := t\<rparr>) um))])"

definition um_reliability ::
  "(('d, 's) unit_manager \<Rightarrow> ('d, 's) unit_manager option) \<Rightarrow> 'd job_disk \<Rightarrow> unit_act \<Rightarrow> ('d, 's) store_env \<Rightarrow>
   ('d, 's) um_sub \<Rightarrow> ('d, 's) um_sub \<Rightarrow> ('d, 's) unit_manager reliability" where
  "um_reliability rebuild H act env db_sub do_sub = \<lparr>rb_dbs = um_reli_dbs H (sv_disk env),
     rb_station = station_register ''UnitManager'' Level2 (um_station rebuild H act env db_sub do_sub) reli_station_new\<rparr>"

lemma um_station_ok: "station_ok (um_station rebuild H act env db_sub do_sub)"
  by (simp add: station_ok_def um_station_def)

interpretation um_reli: reli_stations "um_reliability rebuild H act env db_sub do_sub"
  for rebuild H act env db_sub do_sub
  by unfold_locales
    (auto simp: um_reliability_def station_register_def reli_station_new_def station_get_kind_def um_station_ok split: if_splits option.splits)

subsection \<open>Which descriptors survive\<close>

definition marked :: "reli_pending \<Rightarrow> int set" where
  "marked p = fst ` set (rp_db p)"

definition inherited :: "reli_pending \<Rightarrow> int set" where
  "inherited p = {fd. rp_fds p fd = Some False}"

text \<open>\<open>execve\<close> closes the descriptors with the close-on-exec flag; the new process opens others with it.\<close>

definition os_exec :: "reli_pending \<Rightarrow> reli_pending" where
  "os_exec p = p\<lparr>rp_fds := rp_fds p |` inherited p\<rparr>"

definition os_open :: "int \<Rightarrow> reli_pending \<Rightarrow> reli_pending" where
  "os_open fd p = p\<lparr>rp_fds := (rp_fds p)(fd \<mapsto> True)\<rparr>"

text \<open>What happens to descriptors while the manager works, and where it can crash.\<close>

inductive pending_step :: "reli_pending \<Rightarrow> reli_pending \<Rightarrow> bool" where
  pend_cloexec: "fd_cloexec fd b p = (Some r, p' # ps) \<Longrightarrow> pending_step p p'"
| pend_open: "rp_fds p fd = None \<Longrightarrow> pending_step p (os_open fd p)"
| pend_close: "pending_step p (os_close fd p)"

definition crash_points :: "reli_pending \<Rightarrow> reli_pending set" where
  "crash_points p = insert p (\<Union>fd b. set (snd (fd_cloexec fd b p)))"

text \<open>The new process: its descriptors, what its stations take, and the end of the recovery.\<close>

definition pending_recover :: "int list \<Rightarrow> int list \<Rightarrow> reli_pending \<Rightarrow> reli_pending" where
  "pending_recover opened taken_fds q =
     pending_make_consistent (fold (\<lambda>fd p. snd (fd_take fd p)) taken_fds (fold os_open opened (os_exec q)))"

lemma pending_views [simp]:
  "marked (fd_add fd st p) = insert fd (marked p)" "marked (fd_del fd p) = marked p - {fd}" "marked (p\<lparr>rp_fds := g\<rparr>) = marked p"
  "rp_fds (fd_add fd st p) = rp_fds p" "rp_fds (fd_del fd p) = rp_fds p"
  by (simp_all add: marked_def fd_add_def fd_del_def dom_update delete_keys)

lemma fd_cloexec_marks:
  "q \<in> set (snd (fd_cloexec fd b p)) \<Longrightarrow> inherited q - marked q \<subseteq> inherited p - marked p"
  by (cases b) (auto simp: fd_cloexec_def fd_retain_def fd_remove_def Let_def inherited_def os_cloexec_def fd_is_cloexec_def
      split: if_splits option.splits)

lemma pending_step_marks: "pending_step p q \<Longrightarrow> inherited q - marked q \<subseteq> inherited p - marked p"
proof (induction rule: pending_step.induct)
  case (pend_cloexec fd b p r p' ps)
  then show ?case using fd_cloexec_marks[of p' fd b p] by simp
qed (auto simp: os_open_def os_close_def inherited_def split: if_splits)


lemma pending_reach_marks: "pending_step\<^sup>*\<^sup>* p q \<Longrightarrow> inherited q - marked q \<subseteq> inherited p - marked p"
  by (induction rule: rtranclp_induct) (auto dest: pending_step_marks)

lemma crash_points_marks: "q \<in> crash_points p \<Longrightarrow> inherited q - marked q \<subseteq> inherited p - marked p"
  unfolding crash_points_def using fd_cloexec_marks by fastforce

lemma fold_open: "rp_fds (fold os_open fds p) = (\<lambda>fd. if fd \<in> set fds then Some True else rp_fds p fd)"
  "marked (fold os_open fds p) = marked p"
  by (induction fds arbitrary: p) (auto simp: os_open_def fun_eq_iff)

lemma fold_take: "rp_fds (fold (\<lambda>fd p. snd (fd_take fd p)) fds p) = rp_fds p"
  "marked (fold (\<lambda>fd p. snd (fd_take fd p)) fds p) = marked p - set fds"
  by (induction fds arbitrary: p) (auto simp: fd_take_def)

lemma fold_close: "rp_fds (fold os_close fds p) = rp_fds p |` (- set fds)"
  by (induction fds arbitrary: p) (auto simp: os_close_def restrict_map_def fun_eq_iff)

lemma make_consistent_fds: "rp_fds (pending_make_consistent p) = rp_fds p |` (- marked p)" "rp_db (pending_make_consistent p) = []"
  by (simp_all add: pending_make_consistent_def pending_data_clear_def fold_close marked_def)

lemma pending_recover_dom:
  "dom (rp_fds (pending_recover opened taken_fds q)) =
     (inherited q \<union> set opened) \<inter> (set taken_fds \<union> - marked q)"
proof -
  have "rp_fds (pending_recover opened taken_fds q) =
      (\<lambda>fd. if fd \<in> set opened then Some True else (rp_fds q |` inherited q) fd) |` (- (marked q - set taken_fds))"
    by (simp add: pending_recover_def make_consistent_fds fold_take fold_open os_exec_def cong: if_cong)
  moreover have "dom (\<lambda>fd. if fd \<in> set opened then Some True else (rp_fds q |` inherited q) fd) = inherited q \<union> set opened"
    by (auto simp: inherited_def restrict_map_def split: if_splits)
  ultimately show ?thesis by auto
qed

text \<open>C11: whatever was done with descriptors before, and wherever a crash stops the marking of one, no
  descriptor survives that is not accounted for. If every inherited descriptor was marked at the
  start, then every descriptor that the next process inherits is marked, and after its recovery
  exactly those inherited ones are open that a station took; its own descriptors are open unless
  an old mark names them. No mark is left.\<close>

theorem pending_crash_safe:
  assumes "inherited p0 \<subseteq> marked p0" and "pending_step\<^sup>*\<^sup>* p0 p" and "q \<in> crash_points p"
  shows "inherited q \<subseteq> marked q \<and> rp_db (pending_recover opened taken_fds q) = [] \<and>
     dom (rp_fds (pending_recover opened taken_fds q)) = (inherited q \<inter> set taken_fds) \<union> {fd \<in> set opened. fd \<in> marked q \<longrightarrow> fd \<in> set taken_fds}"
proof -
  have "inherited q \<subseteq> marked q" using pending_reach_marks[OF assms(2)] crash_points_marks[OF assms(3)] assms(1) by blast
  moreover have "rp_db (pending_recover opened taken_fds q) = []" by (simp add: pending_recover_def make_consistent_fds)
  ultimately show ?thesis unfolding pending_recover_dom by blast
qed

text \<open>C40: a crash between the mark of a descriptor and the change of its flag leaves a mark for a number
  that is free in the next process. If that process opens a descriptor of its own under this
  number, which is the lowest free one, the end of the recovery closes it.\<close>

theorem pending_stale_mark_closes:
  assumes "0 \<le> fd" and "rp_fds p fd = Some True" and "\<not> fd_contains fd p" and "fd \<notin> set taken_fds"
  shows "\<exists>q \<in> set (snd (fd_retain fd p)). rp_fds (os_exec q) fd = None \<and> rp_fds (fold os_open [fd] (os_exec q)) fd = Some True \<and>
     rp_fds (pending_recover [fd] taken_fds q) fd = None"
proof (rule bexI)
  let ?q = "fd_add fd Retaining p"
  have "fd \<notin> dom (rp_fds (pending_recover [fd] taken_fds ?q))" unfolding pending_recover_dom using assms(4) by simp
  then show "rp_fds (os_exec ?q) fd = None \<and> rp_fds (fold os_open [fd] (os_exec ?q)) fd = Some True \<and> rp_fds (pending_recover [fd] taken_fds ?q) fd = None"
    using assms(2) by (auto simp: os_exec_def inherited_def restrict_map_def os_open_def)
  show "?q \<in> set (snd (fd_retain fd p))" using assms by (simp add: fd_retain_def Let_def os_cloexec_def)
qed

text \<open>C12: a recovery works with the record of the crash: although the stations note their own units and
  frames down, every one of them is given the unit and the innermost frame of the crash, first
  to repair the databases and then to make up for what was lost. Afterwards no unit is noted and
  one frame is removed; the outer frames of a nested one stay, so that the next crash outside
  of any frame is taken for one inside the outer frame.\<close>

theorem recover_uses_crash_record:
  assumes "reli_stations R" and "recover R s = Some s'"
  shows "(\<exists>s2 s3 s4 s5.
     reli_input_rebuild R (history_import R (s\<lparr>rb_last := last_ignore_set True (rb_last s)\<rparr>)) = Some s2 \<and>
     station_db_compensate (rb_station R) (last_frame_get (rb_last s)) (rl_unit (rb_last s)) s2 = Some s3 \<and>
     reli_db_map R (history_commit R s3) = Some s4 \<and>
     station_make_consistent (rb_station R) (last_frame_get (rb_last s)) (rl_unit (rb_last s))
       (s4\<lparr>rb_pending := pending_make_consistent (rb_pending s4)\<rparr>) = Some s5 \<and>
     rb_world s' = rb_world (history_commit R s5)) \<and>
   rl_unit (rb_last s') = None \<and> \<not> rl_ignore (rb_last s') \<and> frames (rb_last s') = butlast (frames (rb_last s)) \<and>
   (frames (rb_last s) = fs @ [f, g] \<longrightarrow> last_frame_get (rb_last s') = Some f)"
proof -
  obtain s2 s3 s4 s5 where r:
    "reli_input_rebuild R (history_import R (s\<lparr>rb_last := last_ignore_set True (rb_last s)\<rparr>)) = Some s2"
    "station_db_compensate (rb_station R) (last_frame_get (rb_last s)) (rl_unit (rb_last s)) s2 = Some s3"
    "reli_db_map R (history_commit R s3) = Some s4"
    "station_make_consistent (rb_station R) (last_frame_get (rb_last s)) (rl_unit (rb_last s))
       (s4\<lparr>rb_pending := pending_make_consistent (rb_pending s4)\<rparr>) = Some s5"
    "s' = (history_commit R s5)\<lparr>rb_last := \<lparr>rl_ignore = False, rl_unit = None, rl_frame = Some (butlast (frames (rb_last s)))\<rparr>\<rparr>"
    using reli_stations.recover_record[OF assms] by blast
  then have "rb_world s' = rb_world (history_commit R s5)" "rl_unit (rb_last s') = None" "\<not> rl_ignore (rb_last s')"
    and fr: "frames (rb_last s') = butlast (frames (rb_last s))" by (simp_all add: frames_def)
  moreover have "frames (rb_last s) = fs @ [f, g] \<longrightarrow> last_frame_get (rb_last s') = Some f"
    using fr by (simp add: last_frame_get_def butlast_append)
  ultimately show ?thesis using r(1-4) by blast
qed


theorem pending_crash_safe_witness:
  "\<exists>q. inherited q = {5} \<and> dom (rp_fds (pending_recover [6] [5] q)) = {5, 6} \<and> dom (rp_fds (pending_recover [6] [] q)) = {6}"
proof -
  define p0 :: reli_pending where "p0 = \<lparr>rp_db = [], rp_fds = Map.empty\<rparr>"
  define q where "q = fd_add 5 Retained ((fd_add 5 Retaining (os_open 5 p0))\<lparr>rp_fds := [5 \<mapsto> False]\<rparr>)"
  have "pending_step\<^sup>*\<^sup>* p0 (os_open 5 p0)" by (intro r_into_rtranclp pend_open) (simp add: p0_def)
  moreover have "q \<in> set (snd (fd_cloexec 5 False (os_open 5 p0)))"
    by (simp add: q_def p0_def fd_cloexec_def fd_retain_def fd_contains_def os_open_def os_cloexec_def Let_def)
  then have "q \<in> crash_points (os_open 5 p0)" unfolding crash_points_def by blast
  moreover have "inherited p0 \<subseteq> marked p0" by (simp add: inherited_def p0_def)
  ultimately have "inherited q \<subseteq> marked q \<and> rp_db (pending_recover [6] ts q) = [] \<and>
     dom (rp_fds (pending_recover [6] ts q)) = (inherited q \<inter> set ts) \<union> {fd \<in> set [6]. fd \<in> marked q \<longrightarrow> fd \<in> set ts}" for ts
    by (intro pending_crash_safe)
  moreover have "inherited q = {5}" "marked q = {5}" by (auto simp: inherited_def q_def os_open_def p0_def marked_def[of "\<lparr>rp_db = [], rp_fds = _\<rparr>"] split: if_splits)
  ultimately show ?thesis by (intro exI[of _ q]) auto
qed

theorem pending_stale_mark_closes_witness:
  "\<exists>q \<in> set (snd (fd_retain 5 \<lparr>rp_db = [], rp_fds = [5 \<mapsto> True]\<rparr>)).
     rp_fds (fold os_open [5] (os_exec q)) 5 = Some True \<and> rp_fds (pending_recover [5] [] q) 5 = None"
  using pending_stale_mark_closes[of 5 "\<lparr>rp_db = [], rp_fds = [5 \<mapsto> True]\<rparr>" "[]"] by (auto simp: fd_contains_def)


text \<open>The unit manager of an empty system, after a crash in a nested frame.\<close>

definition ex_reli :: "(nat, (nat, nat) target_mng) unit_manager reliability" where
  "ex_reli = um_reliability Some Job_Manager_Thms.ex_disk ex_act ex_load_env (\<lambda>_ _. Some) (\<lambda>_ _. Some)"

definition ex_crash :: "(nat, (nat, nat) target_mng) unit_manager reli_state" where
  "ex_crash = \<lparr>rb_enable = Some True, rb_last = \<lparr>rl_ignore = False, rl_unit = None, rl_frame = Some [(7, None, None), (1, None, None)]\<rparr>,
     rb_pending = \<lparr>rp_db = [], rp_fds = Map.empty\<rparr>, rb_history_ignore = False, rb_world = ex_um\<rparr>"

theorem recover_uses_crash_record_witness:
  "\<exists>s'. recover ex_reli ex_crash = Some s' \<and> last_frame_get (rb_last ex_crash) = Some (1, None, None) \<and>
     last_frame_get (rb_last s') = Some (7, None, None)"
proof -
  have "\<not> Option.is_none (recover ex_reli ex_crash)" by code_simp
  then obtain s' where "recover ex_reli ex_crash = Some s'" by (auto simp: Option.is_none_def)
  moreover have "reli_stations ex_reli" unfolding ex_reli_def by (rule um_reli.reli_stations_axioms)
  ultimately show ?thesis
    using recover_uses_crash_record[of ex_reli ex_crash s' "[]" "(7, None, None)" "(1, None, None)"]
    by (auto simp: ex_crash_def frames_def last_frame_get_def)
qed

end
