(* ===== verification/Unit_Notify.thy ===== *)
theory Unit_Notify
  imports Event_Loop Unit_Rentry
begin

section \<open>Notifications of services (core/bin/unit/notify.rs)\<close>

text \<open>
  The socket on which services tell how they are doing. A message is a sequence of bytes; the code
  reads it as UTF-8 text of lines \<open>KEY=VALUE\<close>. Text is a list of code points. The socket is the record
  \<open>notify_os\<close>; \<open>None\<close> is a panic.
\<close>

type_synonym byte = "8 word"
type_synonym utext = "nat list"

subsection \<open>Text (String::from_utf8, lines, split, trim)\<close>

definition cont_byte :: "nat \<Rightarrow> nat \<Rightarrow> byte \<Rightarrow> bool" where
  "cont_byte lo hi b \<longleftrightarrow> lo \<le> unat b \<and> unat b \<le> hi"

text \<open>The well-formed sequences of the Unicode standard: no overlong forms, no surrogates.\<close>

fun utf8_decode :: "byte list \<Rightarrow> utext option" where
  "utf8_decode [] = Some []"
| "utf8_decode (b # bs) = (let n = unat b in
     if n < 128 then map_option (Cons n) (utf8_decode bs)
     else if 194 \<le> n \<and> n \<le> 223 then (case bs of
         b1 # bs' \<Rightarrow> if cont_byte 128 191 b1 then map_option (Cons ((n - 192) * 64 + (unat b1 - 128))) (utf8_decode bs') else None
       | _ \<Rightarrow> None)
     else if 224 \<le> n \<and> n \<le> 239 then (case bs of
         b1 # b2 # bs' \<Rightarrow>
           if cont_byte (if n = 224 then 160 else 128) (if n = 237 then 159 else 191) b1 \<and> cont_byte 128 191 b2
           then map_option (Cons ((n - 224) * 4096 + (unat b1 - 128) * 64 + (unat b2 - 128))) (utf8_decode bs') else None
       | _ \<Rightarrow> None)
     else if 240 \<le> n \<and> n \<le> 244 then (case bs of
         b1 # b2 # b3 # bs' \<Rightarrow>
           if cont_byte (if n = 240 then 144 else 128) (if n = 244 then 143 else 191) b1 \<and> cont_byte 128 191 b2 \<and> cont_byte 128 191 b3
           then map_option (Cons ((n - 240) * 262144 + (unat b1 - 128) * 4096 + (unat b2 - 128) * 64 + (unat b3 - 128))) (utf8_decode bs')
           else None
       | _ \<Rightarrow> None)
     else None)"

definition strip_cr :: "utext \<Rightarrow> utext" where
  "strip_cr l = (if l \<noteq> [] \<and> last l = 13 then butlast l else l)"

function text_lines :: "utext \<Rightarrow> utext list" where
  "text_lines cs = (if cs = [] then []
     else (case dropWhile (\<lambda>c. c \<noteq> 10) cs of
         [] \<Rightarrow> [cs]
       | _ # rest \<Rightarrow> strip_cr (takeWhile (\<lambda>c. c \<noteq> 10) cs) # text_lines rest))"
  by pat_completeness auto
termination
proof (relation "measure length")
  fix cs :: utext and c rest
  assume "dropWhile (\<lambda>c. c \<noteq> 10) cs = c # rest"
  then show "(rest, cs) \<in> measure length" using length_dropWhile_le[of "\<lambda>c. c \<noteq> 10" cs] by simp
qed simp

declare text_lines.simps [simp del]

fun split_on :: "nat \<Rightarrow> utext \<Rightarrow> utext list" where
  "split_on sep [] = [[]]"
| "split_on sep (c # cs) = (if c = sep then [] # split_on sep cs
     else (case split_on sep cs of [] \<Rightarrow> [[c]] | w # ws \<Rightarrow> (c # w) # ws))"

definition trim_end :: "(nat \<Rightarrow> bool) \<Rightarrow> utext \<Rightarrow> utext" where
  "trim_end p cs = rev (dropWhile p (rev cs))"

text \<open>The code points with the property \<open>White_Space\<close>.\<close>

definition white_space :: "nat \<Rightarrow> bool" where
  "white_space c \<longleftrightarrow> 9 \<le> c \<and> c \<le> 13 \<or> c \<in> {32, 133, 160, 5760, 8232, 8233, 8239, 8287, 12288} \<or> 8192 \<le> c \<and> c \<le> 8202"

subsection \<open>Reading a message\<close>

definition notify_line :: "utext \<Rightarrow> (utext \<times> utext) list \<Rightarrow> (utext \<times> utext) list" where
  "notify_line line m = (case map (trim_end (\<lambda>c. c = 0)) (split_on 61 line) of
     [k, v] \<Rightarrow> AList.update k (trim_end white_space v) m
   | _ \<Rightarrow> m)"

definition notify_messages :: "utext \<Rightarrow> (utext \<times> utext) list" where
  "notify_messages contents = fold notify_line (text_lines contents) []"

text \<open>The buffer of 4096 bytes, with the message at its start and zeros after it.\<close>

definition notify_buffer :: "byte list \<Rightarrow> byte list" where
  "notify_buffer msg = take 4096 msg @ replicate (4096 - length msg) 0"

subsection \<open>The socket\<close>

record ucred_msg =
  nm_bytes :: "byte list"
  nm_cred :: "int option"
  nm_fds :: "int list"

record 'w notify_os =
  no_recv :: "bool \<Rightarrow> int \<Rightarrow> 'w \<Rightarrow> (error + ucred_msg) \<times> 'w"
  no_close :: "int \<Rightarrow> 'w \<Rightarrow> 'w"
  no_unit_of :: "int \<Rightarrow> 'w \<Rightarrow> uid option"
  no_message :: "uid \<Rightarrow> int \<Rightarrow> (utext \<times> utext) list \<Rightarrow> int list \<Rightarrow> 'w \<Rightarrow> 'w option"
  no_open :: "'w \<Rightarrow> (error + int) \<times> 'w"

definition get_pid_from_cred :: "int option \<Rightarrow> int" where
  "get_pid_from_cred cred = (case cred of Some p \<Rightarrow> p | None \<Rightarrow> - 1)"

definition notify_peek_pid :: "'w notify_os \<Rightarrow> int \<Rightarrow> 'w \<Rightarrow> (error + int) \<times> 'w" where
  "notify_peek_pid os fd w = (case no_recv os True fd w of
     (Inl e, w1) \<Rightarrow> (Inl e, w1)
   | (Inr m, w1) \<Rightarrow>
       let w2 = fold (no_close os) (nm_fds m) w1; p = get_pid_from_cred (nm_cred m)
       in (if p < 0 then Inl (OtherError ''no credentials in the received notify message'') else Inr p, w2))"

definition notify_recv_dispatch :: "'w notify_os \<Rightarrow> int \<Rightarrow> int \<Rightarrow> uid option \<Rightarrow> 'w \<Rightarrow> ((error + int) \<times> 'w) option" where
  "notify_recv_dispatch os fd p unit w = (case no_recv os False fd w of
     (Inl e, w1) \<Rightarrow> Some (Inl e, w1)
   | (Inr m, w1) \<Rightarrow>
       if get_pid_from_cred (nm_cred m) \<noteq> p then Some (Inl (OtherError ''the received notify message has been destroyed''), w1)
       else do {
         cred \<leftarrow> nm_cred m;
         contents \<leftarrow> utf8_decode (notify_buffer (nm_bytes m));
         w2 \<leftarrow> (case unit of Some u \<Rightarrow> no_message os u cred (notify_messages contents) (nm_fds m) w1 | None \<Rightarrow> Some w1);
         Some (Inr 0, w2)
       })"

definition notify_dispatch :: "'w notify_os \<Rightarrow> int \<Rightarrow> 'w \<Rightarrow> ((error + int) \<times> 'w) option" where
  "notify_dispatch os fd w = (case notify_peek_pid os fd w of
     (Inl e, w1) \<Rightarrow> Some (Inl e, w1)
   | (Inr p, w1) \<Rightarrow> notify_recv_dispatch os fd p (no_unit_of os p w1) w1)"

text \<open>\<open>open_socket\<close> keeps a descriptor that was recovered; \<open>db_map\<close> takes it from the database.\<close>

definition notify_open_socket :: "'w notify_os \<Rightarrow> int \<Rightarrow> 'w \<Rightarrow> (error + int) \<times> 'w" where
  "notify_open_socket os fd w = (if 0 \<le> fd then (Inr fd, w) else no_open os w)"

definition notify_db_map :: "'d unit_re \<Rightarrow> int \<Rightarrow> int" where
  "notify_db_map r fd = (case notify_get r of Some d \<Rightarrow> d | None \<Rightarrow> fd)"

subsection \<open>Messages with proper lines\<close>

text \<open>What a service sends: a line \<open>KEY=VALUE\<close> for each pair.\<close>

fun notify_encode :: "(utext \<times> utext) list \<Rightarrow> utext" where
  "notify_encode [] = []"
| "notify_encode [(k, v)] = k @ 61 # v"
| "notify_encode ((k, v) # kv # kvs) = k @ 61 # v @ 10 # notify_encode (kv # kvs)"

text \<open>Printable ASCII without an equals sign, and no space at the end of a value.\<close>

definition plain_char :: "nat \<Rightarrow> bool" where
  "plain_char c \<longleftrightarrow> 32 \<le> c \<and> c < 127 \<and> c \<noteq> 61"

definition plain_pair :: "utext \<times> utext \<Rightarrow> bool" where
  "plain_pair kv \<longleftrightarrow> list_all plain_char (fst kv) \<and> list_all plain_char (snd kv) \<and> (snd kv = [] \<or> last (snd kv) \<noteq> 32)"

lemma trim_end_snoc: "trim_end p (xs @ [x]) = (if p x then trim_end p xs else xs @ [x])"
  by (simp add: trim_end_def)

lemma trim_end_keep: "xs = [] \<or> \<not> p (last xs) \<Longrightarrow> trim_end p xs = xs"
  by (cases xs rule: rev_cases) (auto simp: trim_end_def)

lemma trim_end_replicate: "p x \<Longrightarrow> trim_end p (xs @ replicate n x) = trim_end p xs"
proof (induction n)
  case (Suc n)
  have "xs @ replicate (Suc n) x = (xs @ replicate n x) @ [x]" by (simp add: replicate_append_same)
  then show ?case using Suc by (simp only: trim_end_snoc) simp
qed simp

lemma split_on_plain: "sep \<notin> set xs \<Longrightarrow> split_on sep xs = [xs]"
  by (induction xs) auto

lemma split_on_pair: "sep \<notin> set k \<Longrightarrow> sep \<notin> set v \<Longrightarrow> split_on sep (k @ sep # v) = [k, v]"
  by (induction k) (auto simp: split_on_plain)

lemma plain_notin: "list_all plain_char xs \<Longrightarrow> c < 32 \<or> c = 61 \<Longrightarrow> c \<notin> set xs"
  by (auto simp: list_all_iff plain_char_def)

lemma notify_line_plain:
  assumes "plain_pair (k, v)"
  shows "notify_line (k @ 61 # v @ replicate n 0) m = AList.update k v m"
proof -
  have k: "list_all plain_char k" and v: "list_all plain_char v" "v = [] \<or> last v \<noteq> 32" using assms by (auto simp: plain_pair_def)
  have "split_on 61 (k @ 61 # v @ replicate n 0) = [k, v @ replicate n 0]"
    using plain_notin[OF k] plain_notin[OF v(1)] by (intro split_on_pair) auto
  moreover have nz: "xs = [] \<or> last xs \<noteq> 0" if "list_all plain_char xs" for xs
    using that by (cases xs rule: rev_cases) (auto simp: plain_char_def)
  moreover have "v = [] \<or> \<not> white_space (last v)"
    using v by (cases v rule: rev_cases) (auto simp: plain_char_def white_space_def)
  ultimately show ?thesis
    using nz[OF k] nz[OF v(1)] by (simp add: notify_line_def trim_end_replicate trim_end_keep)
qed

lemma text_lines_one: "10 \<notin> set l \<Longrightarrow> l \<noteq> [] \<Longrightarrow> text_lines l = [l]"
proof -
  assume "10 \<notin> set l" "l \<noteq> []"
  then have "dropWhile (\<lambda>c. c \<noteq> 10) l = []" by auto
  with \<open>l \<noteq> []\<close> show ?thesis by (subst text_lines.simps) (simp only: list.case if_False)
qed

lemma text_lines_more:
  assumes "10 \<notin> set l"
  shows "text_lines (l @ 10 # rest) = strip_cr l # text_lines rest"
proof -
  have "dropWhile (\<lambda>c. c \<noteq> 10) (l @ 10 # rest) = 10 # rest" "takeWhile (\<lambda>c. c \<noteq> 10) (l @ 10 # rest) = l"
    using assms by (induction l) auto
  then show ?thesis by (subst text_lines.simps) simp
qed

lemma strip_cr_plain: "list_all plain_char v \<Longrightarrow> strip_cr (k @ 61 # v) = k @ 61 # v"
  by (cases v rule: rev_cases) (auto simp: strip_cr_def plain_char_def)

lemma encode_lines:
  assumes "list_all plain_pair kvs" "kvs \<noteq> []"
  shows "fold notify_line (text_lines (notify_encode kvs @ replicate n 0)) m = fold (\<lambda>(k, v). AList.update k v) kvs m"
  using assms
proof (induction kvs arbitrary: m rule: notify_encode.induct)
  case (2 k v)
  then have kv: "list_all plain_char k" "list_all plain_char v" by (auto simp: plain_pair_def)
  have "text_lines (k @ 61 # v @ replicate n 0) = [k @ 61 # v @ replicate n 0]"
    using plain_notin[OF kv(1)] plain_notin[OF kv(2)] by (intro text_lines_one) auto
  then show ?case using 2 notify_line_plain[of k v n m] by simp
next
  case (3 k v kv kvs)
  then have p: "plain_pair (k, v)" and c: "list_all plain_char k" "list_all plain_char v" by (auto simp: plain_pair_def)
  have "10 \<notin> set (k @ 61 # v)" using plain_notin[OF c(1)] plain_notin[OF c(2)] by simp
  from text_lines_more[OF this, of "notify_encode (kv # kvs) @ replicate n 0"]
  have "text_lines (notify_encode ((k, v) # kv # kvs) @ replicate n 0) =
      (k @ 61 # v) # text_lines (notify_encode (kv # kvs) @ replicate n 0)"
    using strip_cr_plain[OF c(2), of k] by simp
  then show ?case using 3 notify_line_plain[OF p, of 0 m] by simp
qed simp

lemma utf8_ascii: "list_all (\<lambda>c. c < 128) cs \<Longrightarrow> utf8_decode (map of_nat cs) = Some cs"
  by (induction cs) (auto simp: unat_of_nat Let_def)

lemma encode_ascii: "list_all plain_pair kvs \<Longrightarrow> list_all (\<lambda>c. c < 128) (notify_encode kvs)"
  by (induction kvs rule: notify_encode.induct) (auto simp: plain_pair_def plain_char_def list_all_iff)

lemma update_all_distinct:
  "distinct (map fst m @ map fst kvs) \<Longrightarrow> fold (\<lambda>(k, v). AList.update k v) kvs m = m @ kvs"
proof (induction kvs arbitrary: m)
  case (Cons kv kvs)
  obtain k v where kv: "kv = (k, v)" by fastforce
  have "AList.update k v m = m @ [(k, v)]" using Cons.prems kv by (induction m) auto
  then show ?case using Cons kv by simp
qed simp


text \<open>\<open>READY=1\<close> and \<open>STATUS=up\<close>.\<close>

definition ex_kvs :: "(utext \<times> utext) list" where
  "ex_kvs = [([82, 69, 65, 68, 89], [49]), ([83, 84, 65, 84, 85, 83], [117, 112])]"


text \<open>C39: bytes that are not UTF-8 take the manager down. Whatever process sends them, also one that
  belongs to no unit: the message is decoded before the sender is looked at, and the result is
  unwrapped.\<close>

theorem notify_bad_bytes_panic:
  assumes "no_recv os True fd w = (Inr m1, w1)" and "nm_cred m1 = Some p" and "0 \<le> p"
    and "no_recv os False fd (fold (no_close os) (nm_fds m1) w1) = (Inr m2, w2)" and "nm_cred m2 = Some p"
    and "utf8_decode (notify_buffer (nm_bytes m2)) = None"
  shows "notify_dispatch os fd w = None"
  using assms by (simp add: notify_dispatch_def notify_peek_pid_def notify_recv_dispatch_def get_pid_from_cred_def)

theorem notify_bad_bytes_panic_witness:
  "notify_dispatch \<lparr>no_recv = (\<lambda>_ _ w. (Inr \<lparr>nm_bytes = [255], nm_cred = Some 77, nm_fds = []\<rparr>, w)), no_close = (\<lambda>_ w. w),
     no_unit_of = (\<lambda>_ _. None), no_message = (\<lambda>_ _ _ _ w. Some w), no_open = (\<lambda>w. (Inr 4, w))\<rparr> 4 () = None"
  by (rule notify_bad_bytes_panic[where p = 77 and ?w1.0 = "()" and ?w2.0 = "()"
      and ?m1.0 = "\<lparr>nm_bytes = [255], nm_cred = Some 77, nm_fds = []\<rparr>" and ?m2.0 = "\<lparr>nm_bytes = [255], nm_cred = Some 77, nm_fds = []\<rparr>"])
     (simp_all add: notify_buffer_def Let_def)

end
