(* ===== verification/Spec2Isabelle.thy ===== *)
theory Spec2Isabelle
  imports Unit_Deps Job_Unit_Thms Job_Table_Claims Job_Manager_Thms Unit_Claims Unit_Load
    Event_Claims Socket_Claims Reliability_Claims Unit_Notify
begin

text \<open>
  \<^bold>\<open>sysMaster: jobs, units and services of an init system.\<close>

  sysMaster is the first process of a Linux system. It manages \<^emph>\<open>units\<close> (services, targets,
  mounts, sockets) which depend on each other, and carries out requests on them as \<^emph>\<open>jobs\<close>.
  Everything it must not forget is kept in a \<^emph>\<open>reliability database\<close>, from which it recovers
  after a crash.

  \<^bold>\<open>How the parts work together.\<close> A request (start this unit) becomes a transaction: it is
  expanded over the dependencies into jobs, checked for conflicts and committed into the job
  table. The job manager takes the ready jobs in the order the dependencies demand and calls
  the unit (start, stop, reload). The unit checks its guards and asks its sub unit, the plugin
  behind it. The sub unit reports every change of its state through its unit; the job manager
  turns a report into the end of the running job, and starts what waited for it.

  \<^bold>\<open>Conventions.\<close> A panic of the code (a failed assertion, an \<open>unwrap\<close> of nothing, \<open>todo!\<close>,
  \<open>unreachable!\<close>) is \<open>None\<close>; a \<open>Result\<close> is a sum with the error on the left. Machine integers
  are words of their width. A hash map is an association list in insertion order where the
  code iterates over it. Objects shared by reference (job units, jobs) live in heaps and
  are addressed by number or id. Logging is left out.

  \<^bold>\<open>Theories and sources\<close> (paths below \<open>src/\<close>).

  \<^item> \<open>Prelude\<close>: words, maps, association lists, assertions, loops in the option monad.
  \<^item> \<open>Store_Spec\<close>, \<open>Rel_Db\<close>: \<open>core/lib/rel/base.rs\<close>. The locale \<open>kv_store\<close> is what a client of a
    database relies on; \<open>ReDb\<close> with its cache and its pending changes provides it. heed (LMDB) is
    the parameter \<open>heed\<close> with the laws of a finite map.
  \<^item> \<open>Unit_Base\<close>, \<open>Unit_Rentry\<close>, \<open>Unit_Table\<close>, \<open>Unit_Deps\<close>: \<open>core/lib/unit\<close>, \<open>core/bin/unit/rentry.rs\<close>,
    \<open>core/bin/utils/table.rs\<close>, \<open>core/bin/unit/datastore/deps.rs\<close>. Relations and atoms, the eight
    databases of the unit manager, tables with subscribers, the dependency table.
  \<^item> \<open>Job_Entry\<close>, \<open>Job_State\<close>: \<open>core/bin/job/entry.rs\<close>, \<open>alloc.rs\<close>, \<open>rentry.rs\<close>. A job, its stages and
    what a report means for it; the allocator of ids; the job databases.
  \<^item> \<open>Job_Unit\<close>, \<open>Job_Unit_Props\<close>, \<open>Job_Unit_Ops\<close>, \<open>Job_Unit_Trigger\<close>, \<open>Job_Unit_Thms\<close>:
    \<open>core/bin/job/junit.rs\<close>. The jobs of one unit: the waiting ones, their merging and ordering,
    the running one.
  \<^item> \<open>Job_Table\<close> and the theories \<open>Job_Table_*\<close>: \<open>core/bin/job/table.rs\<close>. All job units with the list
    of the ready ones; \<open>jt_inv\<close> is the invariant, \<open>Job_Table_Spec\<close> reads the table as a map from
    unit ids to job units (\<open>uv_of\<close>), on which the theorems are stated.
  \<^item> \<open>Job_Transaction\<close>, \<open>Job_Trans_Stage\<close>, \<open>Job_Trans_Expand\<close>, \<open>Job_Trans_Thms\<close>:
    \<open>core/bin/job/transaction.rs\<close>.
  \<^item> \<open>Job_Stat\<close>, \<open>Job_Manager\<close>, \<open>Job_Manager_Inv\<close>, \<open>Job_Manager_Thms\<close>: \<open>core/bin/job/stat.rs\<close>,
    \<open>manager.rs\<close>, \<open>notify.rs\<close>. The handlers of the manager, composed as in the code, and the step
    relation \<open>jm_step\<close> over them.
  \<^item> \<open>Service_Base\<close>, \<open>Service_Mng\<close>, \<open>Service_Events\<close>, \<open>Service_Thms\<close>, \<open>Service_Claims\<close>:
    \<open>coms/service/src\<close>. The state machine of a service; the calls to the system are the record
    \<open>service_os\<close>, the calls into the manager are recorded in \<open>sm_calls\<close>.
  \<^item> \<open>Unit_Condition\<close>, \<open>Unit_Limit\<close>, \<open>Unit_Entry\<close>: \<open>core/bin/unit/entry\<close>, \<open>libs/basic/src/condition.rs\<close>.
    A unit without its sub unit is the record \<open>unit_frame\<close>, the methods of the trait \<open>SubUnit\<close> are
    the record \<open>sub_unit\<close>.
  \<^item> \<open>Unit_Contract\<close>, \<open>Unit_Subs\<close>, \<open>Unit_Claims\<close>: \<open>coms/target/src\<close>, \<open>coms/mount/src\<close> and the service
    as sub units. The locale \<open>sub_unit_contract\<close> is what a unit relies on; it is interpreted for
    targets, mounts, services and for \<open>any_sub\<close>, which dispatches between them.
  \<^item> \<open>Unit_Store\<close>, \<open>Unit_Load_Thms\<close>, \<open>Unit_Load\<close>: \<open>core/bin/unit/datastore\<close>, \<open>runtime.rs\<close>, \<open>uload.rs\<close>,
    \<open>sigchld.rs\<close>. The set of units with their dependencies and processes, the queues of units to load.
    The units share one \<open>UnitRe\<close>, which is lent to a unit while it works. The locale
    \<open>loadable_sub\<close> is what loading asks of a sub unit.
  \<^item> \<open>Event_Loop\<close>, \<open>Event_Claims\<close>: \<open>libs/event/src\<close>. Sources, their states, the timers of the five clocks,
    waiting and dispatching. The kernel (epoll, timerfd, the clocks) is the record \<open>event_os\<close>.
  \<^item> \<open>Socket_Base\<close>, \<open>Socket_Mng\<close>, \<open>Socket_Unit\<close>, \<open>Socket_Thms\<close>, \<open>Socket_Claims\<close>: \<open>coms/socket/src\<close>. Addresses and
    ports, the state machine of a socket on top of the event loop, its requests and events as
    the step relation \<open>sock_step\<close>; system calls are the record \<open>socket_os\<close>.
  \<^item> \<open>Unit_Manager\<close>, \<open>Unit_Manager_Claims\<close>: \<open>core/bin/unit/manager.rs\<close>. Requests, reports and recovery on the
    store of units and the job manager together, with the step relation \<open>um_step\<close>.
  \<^item> \<open>Reliability\<close>, \<open>Reliability_Claims\<close>: \<open>core/lib/rel\<close>. Last words, surviving descriptors, history and
    stations, and the recovery over them. An operation on a descriptor yields all states it goes
    through, so that a crash can be placed between them. The locale \<open>reli_stations\<close> is what the
    recovery asks of a station; it is interpreted for the unit manager with its ten databases.
  \<^item> \<open>Unit_Notify\<close>: \<open>core/bin/unit/notify.rs\<close>. Messages of services: UTF-8, lines and pairs; the socket is
    the record \<open>notify_os\<close>.

  \<^bold>\<open>What is shown.\<close>

  \<^item> Jobs: a job moves forward through its stages and is in the database of waiting or of running
    jobs exactly while it waits or runs; merging, ordering, triggering and finishing the jobs of a
    unit do what the queue promises.
  \<^item> Job table: committing a request, triggering (a job starts only if no ordered unit has a job
    that goes first), finishing (every unit ordered around it is resumed) and cancelling keep the
    invariant and change exactly the units they should.
  \<^item> Transactions: the expansion of a request ends on every dependency graph; the verification
    refuses exactly the conflicting ones; a refused request leaves no trace.
  \<^item> Job manager: in every reachable state the table is consistent and agrees with the databases;
    a dispatch that ends leaves no ready unit behind.
  \<^item> Databases: whatever was written before a crash is read back; the dependency table and the
    services are rebuilt from their rows.
  \<^item> Services and units: the reports continue each other and end in the current state; a stop
    request never ends in a restart; a start passes exactly the configured conditions and the
    start limit.
  \<^item> Loading: loading a unit brings exactly the units it reaches into the store, records their
    dependencies and keeps the store consistent.
  \<^item> Unit manager: whatever reaches it, the store and the job manager stay consistent, and a request
    sees everything its unit reaches; a notification arrives with the pairs that were sent.
  \<^item> Recovery: the stations are given the record of the crash, and of the descriptors exactly those
    survive that a station takes, wherever the crash fell.
  \<^item> Event loop and sockets: a drain moves exactly the due timers, earliest first; whatever happens
    to a socket, its ports are open, closed and watched as its state says.
  \<^item> Where the code does something else than it means to, a theorem says what it does: isolating
    conflicts with itself, a start after a queued restart panics, the reason of a watchdog stop is
    lost, conditions with an exclamation mark never hold, a successful reload is taken as failed,
    switching a timer off takes others with it, an early client of a socket makes the manager panic,
    and so does a notification that is not UTF-8; a mark left by a crash closes a new descriptor.

  \<^bold>\<open>Fuel and loops.\<close> The expansion of a transaction takes fuel \<open>expand_fuel\<close>, six times the number of
  units plus one: each unit is staged at most once for each of its six kinds of job, and the
  theorem shows that the fuel is enough on every graph. The fallback of a failed job takes one
  step for each job of the table. The run loop of the manager and the allocator of ids, which may
  not end, are partial functions in the option monad; the allocator is shown to return
  exactly while an id is free.

  The loop over the load queue is a partial function too, and is shown to return
  whenever finitely many units can be reached. Draining the timers of a clock takes one round
  more than there are timers. The polling loops of a socket, which the kernel may interrupt
  for ever, are partial functions.

  \<^bold>\<open>Not modelled.\<close> The process around the unit manager (\<open>core/bin/manager\<close>, plugins, spawning, unit
  files and their installation), the tables it shows and the mount monitor, which are glue and
  system calls; opening the databases and the debug files of the
  reliability framework; setting the options of a socket, reading signals and inotify events; the separate
  programs in \<open>exts\<close>; the libraries for cgroups, devices and the watchdog. The unit actions of the job
  manager (\<open>unit_act\<close>) are a parameter there; that a unit answers with errors and reports the
  manager understands is shown in \<open>Unit_Claims\<close>.
\<close>

end
